(* ===== verification/Prelude.thy ===== *)
theory Prelude
  imports Main "HOL-Library.Char_ord" "HOL-Library.List_Lexorder"
begin

text \<open>
  What the component theories share: the collections of facts that carry their proofs, the
  result type of a Go function that returns a value or an error, the facts about relations that
  the graph arguments need (acyclicity under the edits the tools make), and facts about lists
  and association lists. A Go function \<open>f(...) (T, error)\<close> is a HOL function into
  \<open>'e + 't\<close>: \<open>Inl\<close> is the error it returns, \<open>Inr\<close> the value.
\<close>

named_theorems go_str \<open>facts about the string functions of Go's strings package\<close>
named_theorems ft_simps \<open>how the observations of a fault-tree state change under its operations\<close>
named_theorems ft_inv_intros \<open>preservation of the fault-tree invariant\<close>

subsection \<open>Results\<close>

definition bindE :: "'e + 'a \<Rightarrow> ('a \<Rightarrow> 'e + 'b) \<Rightarrow> 'e + 'b" where
  "bindE r f = (case r of Inl e \<Rightarrow> Inl e | Inr x \<Rightarrow> f x)"

lemma bindE_simps [simp]:
  "bindE (Inl e) f = Inl e"
  "bindE (Inr x) f = f x"
  by (simp_all add: bindE_def)

lemma bindE_Inr_iff: "bindE r f = Inr y \<longleftrightarrow> (\<exists>x. r = Inr x \<and> f x = Inr y)"
  by (cases r) auto

lemma bindE_InrE [elim!]:
  assumes "bindE r f = Inr y"
  obtains x where "r = Inr x" and "f x = Inr y"
  using assms by (auto simp: bindE_Inr_iff)

lemma bindE_cong [fundef_cong]:
  assumes "r = r'" and "\<And>x. r' = Inr x \<Longrightarrow> f x = g x"
  shows "bindE r f = bindE r' g"
  using assms by (cases r') auto

text \<open>A check is a function that returns an error or nothing.\<close>

abbreviation ok :: "'e + unit" where "ok \<equiv> Inr ()"

definition guardE :: "bool \<Rightarrow> 'e \<Rightarrow> 'e + unit" where
  \<comment> \<open>\<open>if bad { return err }\<close>\<close>
  "guardE bad e = (if bad then Inl e else ok)"

lemma guardE_simps [simp]:
  "guardE True e = Inl e" "guardE False e = ok"
  by (simp_all add: guardE_def)

lemma guardE_Inr [simp]: "guardE bad e = Inr u \<longleftrightarrow> \<not> bad"
  by (simp add: guardE_def)

fun is_ok :: "'e + 'a \<Rightarrow> bool" where
  "is_ok (Inl _) = False"
| "is_ok (Inr _) = True"

lemma is_ok_iff: "is_ok r \<longleftrightarrow> (\<exists>x. r = Inr x)"
  by (cases r) auto

subsection \<open>Small functions of the code\<close>

definition minInt :: "nat \<Rightarrow> nat \<Rightarrow> nat" where
  "minInt a b = (if a < b then a else b)"

lemma minInt_min [simp]: "minInt a b = min a b"
  by (simp add: minInt_def)

subsection \<open>Relations and cycles\<close>

text \<open>A relation that is simulated by the transitive closure of an acyclic one is acyclic.\<close>

lemma acyclic_subset_trancl: "acyclic r \<Longrightarrow> s \<subseteq> r\<^sup>+ \<Longrightarrow> acyclic s"
  by (metis acyclic_def acyclic_subset trancl_id trans_trancl)

text \<open>Putting a node under a new parent that it does not reach keeps a graph acyclic.\<close>

lemma acyclic_reparent:
  assumes "acyclic r" and "(n, p) \<notin> r\<^sup>*"
  shows "acyclic (insert (p, n) {e \<in> r. snd e \<noteq> n})"
proof -
  let ?s = "{e \<in> r. snd e \<noteq> n}"
  have "acyclic ?s" using assms(1) by (rule acyclic_subset) auto
  moreover have "(n, p) \<notin> ?s\<^sup>*"
    using assms(2) rtrancl_mono [of ?s r] by auto
  ultimately show ?thesis by (simp add: acyclic_insert)
qed

text \<open>A leaf hung under an existing node closes no cycle.\<close>

lemma acyclic_new_leaf:
  assumes "acyclic r" and "n \<notin> Domain r" and "p \<noteq> n"
  shows "acyclic (insert (p, n) r)"
proof -
  have "(n, p) \<notin> r\<^sup>*"
    using assms(2,3) by (auto elim: converse_rtranclE)
  with assms(1) show ?thesis by (simp add: acyclic_insert)
qed

text \<open>Routing some edges \<open>p \<rightarrow> c\<close> through a fresh node \<open>g\<close> closes no cycle.\<close>

lemma acyclic_insert_between:
  assumes ac: "acyclic r" and cs: "\<And>c. c \<in> C \<Longrightarrow> (p, c) \<in> r"
    and fresh: "g \<notin> Field r" and pg: "p \<noteq> g"
  shows "acyclic (insert (p, g) (r \<union> {g} \<times> C))"
proof -
  have gC: "g \<notin> C" using cs fresh by (auto simp: Field_def)
  have "acyclic (r \<union> {g} \<times> C)"
  proof -
    have "(y, g) \<notin> (r \<union> {g} \<times> C)\<^sup>+" for y
    proof
      assume "(y, g) \<in> (r \<union> {g} \<times> C)\<^sup>+"
      then obtain z where "(z, g) \<in> r \<union> {g} \<times> C" by (auto elim: tranclE)
      with fresh gC show False by (auto simp: Field_def)
    qed
    note no_in = this
    have "(x, y) \<in> (r \<union> {g} \<times> C)\<^sup>+ \<Longrightarrow> x \<noteq> g \<Longrightarrow> (x, y) \<in> r\<^sup>+" for x y
    proof (induction rule: trancl_induct)
      case (base y)
      then show ?case by auto
    next
      case (step y z)
      then have "y \<noteq> g" using no_in by blast
      with step show ?case by (auto intro: trancl_into_trancl)
    qed
    with no_in ac show ?thesis unfolding acyclic_def by blast
  qed
  moreover have "(g, p) \<notin> (r \<union> {g} \<times> C)\<^sup>*"
  proof
    assume "(g, p) \<in> (r \<union> {g} \<times> C)\<^sup>*"
    with pg obtain c where c: "(g, c) \<in> r \<union> {g} \<times> C" and cp: "(c, p) \<in> (r \<union> {g} \<times> C)\<^sup>*"
      by (auto elim: converse_rtranclE)
    from c fresh have cC: "c \<in> C" by (auto simp: Field_def)
    have "(p, c) \<in> r" using cs [OF cC] .
    then have "(p, c) \<in> r \<union> {g} \<times> C" by simp
    then have "(p, p) \<in> (r \<union> {g} \<times> C)\<^sup>+" using cp by (rule rtrancl_into_trancl2)
    with calculation show False by (auto simp: acyclic_def)
  qed
  ultimately show ?thesis by (simp add: acyclic_insert)
qed

text \<open>Bypassing a deleted node: the new edges are two-step paths of the old graph.\<close>

lemma acyclic_bypass:
  assumes "acyclic r" and "\<And>a b. (a, b) \<in> s \<Longrightarrow> (a, b) \<in> r \<or> ((a, n) \<in> r \<and> (n, b) \<in> r)"
  shows "acyclic s"
  using assms(1)
proof (rule acyclic_subset_trancl)
  show "s \<subseteq> r\<^sup>+"
  proof (rule subrelI)
    fix a b assume "(a, b) \<in> s"
    from assms(2) [OF this] show "(a, b) \<in> r\<^sup>+"
      by (blast intro: r_into_trancl trancl_into_trancl)
  qed
qed

subsection \<open>Lists\<close>

lemma nth_list_update_map:
  "i < length xs \<Longrightarrow> f y = f (xs ! i) \<Longrightarrow> map f (xs[i := y]) = map f xs"
  by (simp add: map_update list_update_same_conv)

lemma sort_remdups_set [simp]: "set (sort (remdups xs)) = set xs"
  by simp

lemma distinct_sort_remdups [simp]: "distinct (sort (remdups xs))"
  by simp

lemma map_of_rev_Some_in: "map_of (rev kvs) k = Some v \<Longrightarrow> (k, v) \<in> set kvs"
  by (metis map_of_SomeD set_rev)

lemma find_unique:
  assumes "distinct (map f xs)" and "x \<in> set xs"
  shows "find (\<lambda>y. f y = f x) xs = Some x"
  using assms by (induction xs) (auto simp: image_iff)

end
