(* ===== verification/GoStrings.thy ===== *)
theory GoStrings
  imports Prelude "HOL-Library.Word"
begin

text \<open>
  The functions of Go's \<open>strings\<close> package that the program uses. A Go string is a sequence of
  bytes; the model is a \<open>string\<close> whose characters are those bytes (UTF-8). White space is the
  Unicode \<open>White_Space\<close> set, as in \<open>unicode.IsSpace\<close>. Letter case is exact for ASCII letters
  and for the four non-ASCII characters whose case mapping or folding meets ASCII (U+0130,
  U+0131, U+017F, U+212A), so every comparison of the code with an ASCII constant is exact;
  other non-ASCII letters keep their case. Strings are assumed to be valid UTF-8, which the
  JSON decoder and the database guarantee.
\<close>

subsection \<open>White space and trimming\<close>

definition ascii_space :: "char \<Rightarrow> bool" where
  "ascii_space c \<longleftrightarrow> c \<in> {CHR 0x09, CHR 0x0A, CHR 0x0B, CHR 0x0C, CHR 0x0D, CHR 0x20}"

definition space2 :: "string list" where
  "space2 = [[CHR 0xC2, CHR 0x85], [CHR 0xC2, CHR 0xA0]]"

definition space3 :: "string list" where
  "space3 = [CHR 0xE1, CHR 0x9A, CHR 0x80]
     # map (\<lambda>c. [CHR 0xE2, CHR 0x80, c])
        [CHR 0x80, CHR 0x81, CHR 0x82, CHR 0x83, CHR 0x84, CHR 0x85, CHR 0x86, CHR 0x87,
         CHR 0x88, CHR 0x89, CHR 0x8A, CHR 0xA8, CHR 0xA9, CHR 0xAF]
     @ [[CHR 0xE2, CHR 0x81, CHR 0x9F], [CHR 0xE3, CHR 0x80, CHR 0x80]]"

text \<open>The number of bytes of the white-space character a string starts with, 0 if it starts
  with another one; \<open>ws_len_rev\<close> reads the string backwards.\<close>

definition ws_len :: "string \<Rightarrow> nat" where
  "ws_len s = (case s of [] \<Rightarrow> 0 | c # _ \<Rightarrow>
     if ascii_space c then 1
     else if take 2 s \<in> set space2 then 2
     else if take 3 s \<in> set space3 then 3 else 0)"

definition ws_len_rev :: "string \<Rightarrow> nat" where
  "ws_len_rev s = (case s of [] \<Rightarrow> 0 | c # _ \<Rightarrow>
     if ascii_space c then 1
     else if rev (take 2 s) \<in> set space2 then 2
     else if rev (take 3 s) \<in> set space3 then 3 else 0)"

function TrimLeft :: "string \<Rightarrow> string" where
  "TrimLeft s = (if ws_len s = 0 then s else TrimLeft (drop (ws_len s) s))"
  by pat_completeness auto
termination
  by (relation "measure length") (auto simp: ws_len_def split: list.splits if_splits)

function TrimLeftRev :: "string \<Rightarrow> string" where
  "TrimLeftRev s = (if ws_len_rev s = 0 then s else TrimLeftRev (drop (ws_len_rev s) s))"
  by pat_completeness auto
termination
  by (relation "measure length") (auto simp: ws_len_rev_def split: list.splits if_splits)

declare TrimLeft.simps [simp del] TrimLeftRev.simps [simp del]

definition TrimSpace :: "string \<Rightarrow> string" where
  "TrimSpace s = rev (TrimLeftRev (rev (TrimLeft s)))"

lemma ws_len_Nil [simp]: "ws_len [] = 0" "ws_len_rev [] = 0"
  by (simp_all add: ws_len_def ws_len_rev_def)

lemma TrimLeft_Nil [simp]: "TrimLeft [] = []" "TrimLeftRev [] = []"
  by (simp_all add: TrimLeft.simps TrimLeftRev.simps)

lemma TrimSpace_Nil [simp, go_str]: "TrimSpace [] = []"
  by (simp add: TrimSpace_def)

lemma ws_len_TrimLeft: "ws_len (TrimLeft s) = 0"
proof (induction s rule: TrimLeft.induct)
  case (1 s)
  then show ?case by (cases "ws_len s = 0") (simp_all add: TrimLeft.simps [of s])
qed

lemma ws_len_rev_TrimLeftRev: "ws_len_rev (TrimLeftRev s) = 0"
proof (induction s rule: TrimLeftRev.induct)
  case (1 s)
  then show ?case by (cases "ws_len_rev s = 0") (simp_all add: TrimLeftRev.simps [of s])
qed

lemma TrimLeft_id: "ws_len s = 0 \<Longrightarrow> TrimLeft s = s"
  by (simp add: TrimLeft.simps)

lemma TrimLeftRev_id: "ws_len_rev s = 0 \<Longrightarrow> TrimLeftRev s = s"
  by (simp add: TrimLeftRev.simps)

lemma TrimLeftRev_suffix: "\<exists>n. TrimLeftRev s = drop n s"
proof (induction s rule: TrimLeftRev.induct)
  case (1 s)
  show ?case
  proof (cases "ws_len_rev s = 0")
    case True
    then show ?thesis by (metis TrimLeftRev_id drop0)
  next
    case False
    with 1 obtain n where "TrimLeftRev (drop (ws_len_rev s) s) = drop n (drop (ws_len_rev s) s)"
      by blast
    with False have "TrimLeftRev s = drop (n + ws_len_rev s) s"
      by (simp add: TrimLeftRev.simps [of s])
    then show ?thesis by blast
  qed
qed

lemma space2_length: "x \<in> set space2 \<Longrightarrow> length x = 2"
  by (auto simp: space2_def)

lemma space3_length: "x \<in> set space3 \<Longrightarrow> length x = 3"
  by (auto simp: space3_def)

lemma ws_len_take: "ws_len s = 0 \<Longrightarrow> ws_len (take n s) = 0"
proof (cases s)
  case (Cons c cs)
  assume z: "ws_len s = 0"
  show ?thesis
  proof (cases n)
    case (Suc m)
    have two: "take 2 (take n s) \<in> set space2 \<Longrightarrow> take 2 (take n s) = take 2 s"
      by (drule space2_length) (auto simp: min_def split: if_splits)
    have three: "take 3 (take n s) \<in> set space3 \<Longrightarrow> take 3 (take n s) = take 3 s"
      by (drule space3_length) (auto simp: min_def split: if_splits)
    have "\<not> ascii_space c" "take 2 s \<notin> set space2" "take 3 s \<notin> set space3"
      using z Cons by (auto simp: ws_len_def split: if_splits)
    moreover have "take n s = c # take m cs" using Cons Suc by simp
    ultimately show ?thesis
      using two three by (auto simp: ws_len_def)
  qed simp
qed simp

text \<open>Trimming is idempotent: what is left neither starts nor ends with white space.\<close>

lemma TrimSpace_TrimSpace [simp, go_str]: "TrimSpace (TrimSpace s) = TrimSpace s"
proof -
  let ?t = "TrimLeft s"
  obtain n where n: "TrimLeftRev (rev ?t) = drop n (rev ?t)"
    using TrimLeftRev_suffix by blast
  then have ts: "TrimSpace s = take (length ?t - n) ?t"
    by (simp add: TrimSpace_def rev_drop)
  then have "ws_len (TrimSpace s) = 0" by (simp add: ws_len_take ws_len_TrimLeft)
  then have "TrimLeft (TrimSpace s) = TrimSpace s" by (rule TrimLeft_id)
  moreover have "ws_len_rev (rev (TrimSpace s)) = 0"
    by (simp add: TrimSpace_def ws_len_rev_TrimLeftRev)
  then have "TrimLeftRev (rev (TrimSpace s)) = rev (TrimSpace s)" by (rule TrimLeftRev_id)
  ultimately show ?thesis
    by (simp add: TrimSpace_def [of "TrimSpace s"])
qed

definition plain_char :: "char \<Rightarrow> bool" where
  "plain_char c \<longleftrightarrow> CHR 0x21 \<le> c \<and> c \<le> CHR 0x7E"

lemma plain_char_not_space: "plain_char c \<Longrightarrow> \<not> ascii_space c"
  by (auto simp: plain_char_def ascii_space_def less_eq_char_def)

lemma space2_not_plain: "x \<in> set space2 \<Longrightarrow> c \<in> set x \<Longrightarrow> \<not> plain_char c"
  by (auto simp: space2_def plain_char_def less_eq_char_def)

lemma space3_not_plain: "x \<in> set space3 \<Longrightarrow> c \<in> set x \<Longrightarrow> \<not> plain_char c"
  by (auto simp: space3_def plain_char_def less_eq_char_def)

text \<open>A string that starts and ends with a printable ASCII character is left alone.\<close>

lemma ws_len_plain: "s \<noteq> [] \<Longrightarrow> plain_char (hd s) \<Longrightarrow> ws_len s = 0"
proof (cases s)
  case (Cons c cs)
  assume "plain_char (hd s)"
  with Cons have c: "plain_char c" by simp
  have "c \<in> set (take 2 s)" "c \<in> set (take 3 s)" using Cons by (simp_all add: numeral_2_eq_2 numeral_3_eq_3)
  with c have "take 2 s \<notin> set space2" "take 3 s \<notin> set space3"
    using space2_not_plain space3_not_plain by blast+
  with c Cons show ?thesis by (simp add: ws_len_def plain_char_not_space)
qed simp

lemma ws_len_rev_plain: "s \<noteq> [] \<Longrightarrow> plain_char (hd s) \<Longrightarrow> ws_len_rev s = 0"
proof (cases s)
  case (Cons c cs)
  assume "plain_char (hd s)"
  with Cons have c: "plain_char c" by simp
  have "c \<in> set (rev (take 2 s))" "c \<in> set (rev (take 3 s))" using Cons by (simp_all add: numeral_2_eq_2 numeral_3_eq_3)
  with c have "rev (take 2 s) \<notin> set space2" "rev (take 3 s) \<notin> set space3"
    using space2_not_plain space3_not_plain by blast+
  with c Cons show ?thesis by (simp add: ws_len_rev_def plain_char_not_space)
qed simp

lemma TrimSpace_plain:
  assumes "s \<noteq> []" and "plain_char (hd s)" and "plain_char (last s)"
  shows "TrimSpace s = s"
proof -
  have "TrimLeft s = s" using assms by (simp add: TrimLeft_id ws_len_plain)
  moreover have "TrimLeftRev (rev s) = rev s"
    using assms by (simp add: TrimLeftRev_id ws_len_rev_plain hd_rev)
  ultimately show ?thesis by (simp add: TrimSpace_def)
qed

subsection \<open>Letter case\<close>

definition ascii_lower :: "char \<Rightarrow> char" where
  "ascii_lower c = (if CHR ''A'' \<le> c \<and> c \<le> CHR ''Z'' then char_of (of_char c + 32 :: nat) else c)"

definition ascii_upper :: "char \<Rightarrow> char" where
  "ascii_upper c = (if CHR ''a'' \<le> c \<and> c \<le> CHR ''z'' then char_of (of_char c - 32 :: nat) else c)"

text \<open>\<open>ToLower\<close> maps U+0130 to \<open>i\<close> and U+212A to \<open>k\<close>; \<open>ToUpper\<close> maps U+0131 to \<open>I\<close> and
  U+017F to \<open>S\<close>; folding identifies U+212A with \<open>k\<close> and U+017F with \<open>s\<close>, and leaves U+0130
  and U+0131 alone.\<close>

fun ToLower :: "string \<Rightarrow> string" where
  "ToLower (a # b # c # cs) =
     (if a = CHR 0xE2 \<and> b = CHR 0x84 \<and> c = CHR 0xAA then CHR ''k'' # ToLower cs
      else if a = CHR 0xC4 \<and> b = CHR 0xB0 then CHR ''i'' # ToLower (c # cs)
      else ascii_lower a # ToLower (b # c # cs))"
| "ToLower [a, b] =
     (if a = CHR 0xC4 \<and> b = CHR 0xB0 then ''i'' else [ascii_lower a, ascii_lower b])"
| "ToLower [a] = [ascii_lower a]"
| "ToLower [] = []"

fun ToUpper :: "string \<Rightarrow> string" where
  "ToUpper (a # b # cs) =
     (if a = CHR 0xC4 \<and> b = CHR 0xB1 then CHR ''I'' # ToUpper cs
      else if a = CHR 0xC5 \<and> b = CHR 0xBF then CHR ''S'' # ToUpper cs
      else ascii_upper a # ToUpper (b # cs))"
| "ToUpper [a] = [ascii_upper a]"
| "ToUpper [] = []"

fun fold_case :: "string \<Rightarrow> string" where
  "fold_case (a # b # c # cs) =
     (if a = CHR 0xE2 \<and> b = CHR 0x84 \<and> c = CHR 0xAA then CHR ''k'' # fold_case cs
      else if a = CHR 0xC5 \<and> b = CHR 0xBF then CHR ''s'' # fold_case (c # cs)
      else ascii_lower a # fold_case (b # c # cs))"
| "fold_case [a, b] =
     (if a = CHR 0xC5 \<and> b = CHR 0xBF then ''s'' else [ascii_lower a, ascii_lower b])"
| "fold_case [a] = [ascii_lower a]"
| "fold_case [] = []"

definition EqualFold :: "string \<Rightarrow> string \<Rightarrow> bool" where
  "EqualFold s t \<longleftrightarrow> fold_case s = fold_case t"

lemma EqualFold_refl [simp, go_str]: "EqualFold s s"
  by (simp add: EqualFold_def)

lemma EqualFold_sym: "EqualFold s t \<longleftrightarrow> EqualFold t s"
  by (auto simp: EqualFold_def)

lemma EqualFold_trans: "EqualFold s t \<Longrightarrow> EqualFold t u \<Longrightarrow> EqualFold s u"
  by (simp add: EqualFold_def)

lemma fold_case_eq_Nil [simp]: "fold_case s = [] \<longleftrightarrow> s = []"
  by (cases s rule: fold_case.cases) auto

subsection \<open>Characters, joining, splitting\<close>

definition rune_len :: "char \<Rightarrow> nat" where
  "rune_len c = (if c \<le> CHR 0x7F then 1 else if c < CHR 0xC2 then 1 else if c \<le> CHR 0xDF then 2
     else if c \<le> CHR 0xEF then 3 else if c \<le> CHR 0xF4 then 4 else 1)"

lemma rune_len_pos [simp]: "0 < rune_len c"
  by (simp add: rune_len_def)

text \<open>\<open>[]rune(s)\<close>, each character kept as its bytes.\<close>

function runes :: "string \<Rightarrow> string list" where
  "runes [] = []"
| "runes (c # cs) = take (rune_len c) (c # cs) # runes (drop (rune_len c) (c # cs))"
  by pat_completeness auto
termination
proof (relation "measure length")
  fix c and cs :: string
  have "0 < rune_len c" by simp
  then have "Suc (length cs) - rune_len c \<le> length cs" by arith
  then show "(drop (rune_len c) (c # cs), c # cs) \<in> measure length"
    by (simp add: less_Suc_eq_le)
qed simp

lemma concat_runes [simp]: "concat (runes s) = s"
  by (induction s rule: runes.induct) simp_all

lemma runes_eq_Nil [simp]: "runes s = [] \<longleftrightarrow> s = []"
  by (cases s) simp_all

lemma runes_prefix: "runes (concat (take n (runes s))) = take n (runes s)"
proof (induction s arbitrary: n rule: runes.induct)
  case 1
  then show ?case by simp
next
  case (2 c cs)
  show ?case
  proof (cases n)
    case (Suc m)
    let ?k = "rune_len c" and ?s = "c # cs"
    obtain k' where k': "?k = Suc k'" using gr0_implies_Suc [OF rune_len_pos] by blast
    have IH: "runes (concat (take m (runes (drop ?k ?s)))) = take m (runes (drop ?k ?s))"
      by (rule 2)
    show ?thesis
    proof (cases "?k \<le> length ?s")
      case True
      let ?rest = "concat (take m (runes (drop ?k ?s)))"
      have hd: "take ?k ?s @ ?rest = c # take k' cs @ ?rest" by (simp add: k')
      have len: "length (take k' cs) = k'" using True k' by simp
      have "runes (take ?k ?s @ ?rest) = take ?k ?s # runes ?rest"
        unfolding hd using len by (simp add: k')
      with IH Suc show ?thesis by simp
    next
      case False
      then show ?thesis using Suc k' by simp
    qed
  qed simp
qed

text \<open>Text outside ASCII is written as its bytes.\<close>

definition utf8 :: "nat list \<Rightarrow> string" where
  "utf8 bs = map char_of bs"

text \<open>\<open>strings.Join\<close> and \<open>strings.Fields\<close>.\<close>

fun Join :: "string list \<Rightarrow> string \<Rightarrow> string" where
  "Join [] sep = []"
| "Join [x] sep = x"
| "Join (x # y # ys) sep = x @ sep @ Join (y # ys) sep"

function Fields_aux :: "string \<Rightarrow> string \<Rightarrow> string list" where
  "Fields_aux cur [] = (if cur = [] then [] else [rev cur])"
| "Fields_aux cur (c # cs) =
     (if ws_len (c # cs) = 0 then Fields_aux (c # cur) cs
      else (if cur = [] then [] else [rev cur]) @ Fields_aux [] (drop (ws_len (c # cs)) (c # cs)))"
  by pat_completeness auto
termination
  by (relation "measure (\<lambda>(cur, s). length s)") (auto simp: less_Suc_eq_le)

definition Fields :: "string \<Rightarrow> string list" where
  "Fields s = Fields_aux [] s"

lemma Fields_aux_nonempty: "x \<in> set (Fields_aux cur s) \<Longrightarrow> x \<noteq> []"
  by (induction cur s rule: Fields_aux.induct) (auto split: if_splits)

subsection \<open>Numbers as text\<close>

definition digit_char :: "nat \<Rightarrow> char" where
  "digit_char d = char_of (48 + d)"

fun show_nat :: "nat \<Rightarrow> string" where
  "show_nat n = (if n < 10 then [digit_char n] else show_nat (n div 10) @ [digit_char (n mod 10)])"

declare show_nat.simps [simp del]

definition hex_digit :: "nat \<Rightarrow> char" where
  "hex_digit d = (if d < 10 then char_of (48 + d) else char_of (87 + d))"

fun hex_digits :: "nat \<Rightarrow> int \<Rightarrow> string" where
  "hex_digits 0 x = []"
| "hex_digits (Suc n) x = hex_digits n (x div 16) @ [hex_digit (nat (x mod 16))]"

definition hex_word :: "32 word \<Rightarrow> string" where
  \<comment> \<open>\<open>hex.EncodeToString\<close> of four bytes: eight digits, leading zeros kept\<close>
  "hex_word w = hex_digits 8 (uint w)"

lemma hex_digit_plain: "d < 16 \<Longrightarrow> plain_char (hex_digit d)"
  by (auto simp: hex_digit_def plain_char_def less_eq_char_def)

lemma last_hex_word: "plain_char (last (hex_word w))"
proof -
  have "hex_word w = hex_digits 7 (uint w div 16) @ [hex_digit (nat (uint w mod 16))]"
    unfolding hex_word_def using hex_digits.simps(2) [of 7 "uint w"] by (simp del: hex_digits.simps)
  then show ?thesis by (simp add: hex_digit_plain)
qed

lemma length_hex_digits [simp]: "length (hex_digits n x) = n"
  by (induction n arbitrary: x) simp_all

lemma hex_word_nonempty [simp]: "hex_word w \<noteq> []"
  unfolding hex_word_def by (metis length_hex_digits list.size(3) zero_neq_numeral)

end
