(* ===== verification/GoJson.thy ===== *)
theory GoJson
  imports GoStrings
begin

text \<open>
  JSON values as Go's \<open>encoding/json\<close> presents them to the program. Object members keep the
  order and the duplicates of the text. A number is what the code can observe of it: the text
  \<open>json.Marshal\<close> prints, the value the conversion \<open>int(float64)\<close> gives, and the integer a
  struct field of type \<open>int\<close> accepts (\<open>None\<close> for a literal that is not an integer).
  A \<open>json.RawMessage\<close> is empty, blank (white space only), text that is not JSON, or the
  text of a JSON value.
\<close>

datatype json =
    JNull
  | JBool bool
  | JNum string int "int option"
  | JStr string
  | JArr "json list"
  | JObj "(string \<times> json) list"

type_synonym payload = "(string \<times> json) list"

datatype raw_message = RawEmpty | RawBlank | RawBad string | RawJson json

text \<open>Decoding into \<open>map[string]interface{}\<close>: the last of several members with one name
  wins.\<close>

definition member_of :: "payload \<Rightarrow> string \<Rightarrow> json option" where
  "member_of m key = map_of (rev m) key"

lemma size_list_mem: "x \<in> set xs \<Longrightarrow> f x < Suc (size_list f xs)"
  by (induction xs) auto

lemma size_member_of:
  assumes "member_of m key = Some v"
  shows "size v < size (JObj m)"
proof -
  have "(key, v) \<in> set m" using assms by (auto simp: member_of_def dest: map_of_rev_Some_in)
  then have "size_prod (\<lambda>_. 0) size (key, v) < Suc (size_list (size_prod (\<lambda>_. 0) size) m)"
    by (rule size_list_mem)
  then show ?thesis by simp
qed

lemma size_JArr_mem: "v \<in> set vs \<Longrightarrow> size v < size (JArr vs)"
  using size_list_mem [of v vs size] by simp

subsection \<open>Printing\<close>

definition hex2 :: "nat \<Rightarrow> string" where
  "hex2 n = [hex_digit (n div 16), hex_digit (n mod 16)]"

definition esc_char :: "char \<Rightarrow> string" where
  \<comment> \<open>\<open>json.Marshal\<close> escapes quotes, backslashes, control characters and \<open><\<close>, \<open>>\<close>, \<open>&\<close>\<close>
  "esc_char c =
     (if c = CHR 0x22 then [CHR 0x5C, CHR 0x22]
      else if c = CHR 0x5C then [CHR 0x5C, CHR 0x5C]
      else if c = CHR 0x08 then [CHR 0x5C, CHR ''b'']
      else if c = CHR 0x0C then [CHR 0x5C, CHR ''f'']
      else if c = CHR 0x0A then [CHR 0x5C, CHR ''n'']
      else if c = CHR 0x0D then [CHR 0x5C, CHR ''r'']
      else if c = CHR 0x09 then [CHR 0x5C, CHR ''t'']
      else if c < CHR 0x20 \<or> c = CHR ''<'' \<or> c = CHR ''>'' \<or> c = CHR ''&''
        then [CHR 0x5C] @ ''u00'' @ hex2 (of_char c)
      else [c])"

fun esc_string :: "string \<Rightarrow> string" where
  \<comment> \<open>U+2028 and U+2029 are escaped too\<close>
  "esc_string (a # b # c # cs) =
     (if a = CHR 0xE2 \<and> b = CHR 0x80 \<and> c = CHR 0xA8 then [CHR 0x5C] @ ''u2028'' @ esc_string cs
      else if a = CHR 0xE2 \<and> b = CHR 0x80 \<and> c = CHR 0xA9 then [CHR 0x5C] @ ''u2029'' @ esc_string cs
      else esc_char a @ esc_string (b # c # cs))"
| "esc_string (a # cs) = esc_char a @ esc_string cs"
| "esc_string [] = []"

definition quote :: "string \<Rightarrow> string" where
  "quote s = [CHR 0x22] @ esc_string s @ [CHR 0x22]"

text \<open>A Go map prints its members once each, sorted by name.\<close>

definition map_members :: "(string \<times> 'a) list \<Rightarrow> (string \<times> 'a) list" where
  "map_members m = map (\<lambda>k. (k, the (map_of (rev m) k))) (sort (remdups (map fst m)))"

fun Marshal :: "json \<Rightarrow> string" where
  "Marshal JNull = ''null''"
| "Marshal (JBool b) = (if b then ''true'' else ''false'')"
| "Marshal (JNum text _ _) = text"
| "Marshal (JStr s) = quote s"
| "Marshal (JArr vs) = ''['' @ Join (map Marshal vs) '','' @ '']''"
| "Marshal (JObj m) = ''{'' @ Join (map (\<lambda>(k, t). quote k @ '':'' @ t)
     (map_members (map (\<lambda>(k, v). (k, Marshal v)) m))) '','' @ ''}''"

text \<open>The printed form of an object does not depend on the order of its members.\<close>

lemma map_members_perm:
  assumes "distinct (map fst m)" and "distinct (map fst m')" and "set m = set m'"
  shows "map_members m = map_members m'"
proof -
  have "map_of (rev m) = map_of (rev m')"
    using assms by (intro map_of_eqI) (auto simp: rev_map [symmetric] map_of_eq_Some_iff)
  moreover have "sort (remdups (map fst m)) = sort (remdups (map fst m'))"
    using assms(3) by (metis list.set_map sorted_list_of_set_sort_remdups)
  ultimately show ?thesis by (simp add: map_members_def)
qed

lemma Marshal_member_order:
  assumes "distinct (map fst m)" and "distinct (map fst m')" and "set m = set m'"
  shows "Marshal (JObj m) = Marshal (JObj m')"
proof -
  have "map_members (map (\<lambda>(k, v). (k, Marshal v)) m) = map_members (map (\<lambda>(k, v). (k, Marshal v)) m')"
    using assms by (intro map_members_perm) (simp_all add: comp_def case_prod_unfold)
  then show ?thesis by simp
qed

definition show_int :: "int \<Rightarrow> string" where
  "show_int i = (if i < 0 then ''-'' @ show_nat (nat (- i)) else show_nat (nat i))"

definition reprinted :: "json \<Rightarrow> json" where
  \<comment> \<open>a number that was decoded as a float and printed again is an integer literal iff it prints as one\<close>
  "reprinted v = (case v of
      JNum t i _ \<Rightarrow> JNum t i (if t = show_int i \<or> t = ''-0'' then Some i else None) | _ \<Rightarrow> v)"

subsection \<open>Decoding into a struct\<close>

text \<open>
  The decoder walks the members of an object in order and gives each to the field whose name
  equals the member's up to letter case. A value of the wrong kind is an error, reported after
  the other members are decoded; \<open>null\<close> leaves a field as it is and clears a pointer or slice.
\<close>

definition field_vals :: "string \<Rightarrow> payload \<Rightarrow> json list" where
  "field_vals f m = map snd (filter (\<lambda>(k, _). EqualFold k f) m)"

fun dec_string :: "string \<Rightarrow> json list \<Rightarrow> string option" where
  "dec_string cur [] = Some cur"
| "dec_string cur (JStr s # vs) = dec_string s vs"
| "dec_string cur (JNull # vs) = dec_string cur vs"
| "dec_string cur (_ # vs) = None"

fun dec_ptr :: "string option \<Rightarrow> json list \<Rightarrow> string option option" where
  "dec_ptr cur [] = Some cur"
| "dec_ptr cur (JStr s # vs) = dec_ptr (Some s) vs"
| "dec_ptr cur (JNull # vs) = dec_ptr None vs"
| "dec_ptr cur (_ # vs) = None"

fun dec_bool :: "bool \<Rightarrow> json list \<Rightarrow> bool option" where
  "dec_bool cur [] = Some cur"
| "dec_bool cur (JBool b # vs) = dec_bool b vs"
| "dec_bool cur (JNull # vs) = dec_bool cur vs"
| "dec_bool cur (_ # vs) = None"

fun dec_int :: "int \<Rightarrow> json list \<Rightarrow> int option" where
  "dec_int cur [] = Some cur"
| "dec_int cur (JNum _ _ (Some i) # vs) = dec_int i vs"
| "dec_int cur (JNull # vs) = dec_int cur vs"
| "dec_int cur (_ # vs) = None"

fun dec_str_elems :: "json list \<Rightarrow> string list option" where
  "dec_str_elems [] = Some []"
| "dec_str_elems (JStr s # vs) = map_option ((#) s) (dec_str_elems vs)"
| "dec_str_elems (JNull # vs) = map_option ((#) '''') (dec_str_elems vs)"
| "dec_str_elems (_ # vs) = None"

fun dec_strings :: "string list \<Rightarrow> json list \<Rightarrow> string list option" where
  "dec_strings cur [] = Some cur"
| "dec_strings cur (JArr es # vs) =
     (case dec_str_elems es of None \<Rightarrow> None | Some ss \<Rightarrow> dec_strings ss vs)"
| "dec_strings cur (JNull # vs) = dec_strings [] vs"
| "dec_strings cur (_ # vs) = None"

fun dec_raw :: "raw_message \<Rightarrow> json list \<Rightarrow> raw_message" where
  "dec_raw cur [] = cur"
| "dec_raw cur (v # vs) = dec_raw (RawJson v) vs"

text \<open>\<open>json.Unmarshal(args, &req)\<close> for a struct: its members, or an error when the message is
  empty, is not JSON, or is neither an object nor \<open>null\<close>.\<close>

fun struct_members :: "raw_message \<Rightarrow> payload option" where
  "struct_members (RawJson (JObj m)) = Some m"
| "struct_members (RawJson JNull) = Some []"
| "struct_members _ = None"

end
