(* ===== verification/Model.thy ===== *)
theory Model
  imports GoJson Complex_Main
begin

text \<open>
  The data of \<open>internal/model/fault_tree.go\<close> and of the head of
  \<open>internal/graph_ops/executor.go\<close>: fault-tree nodes and edges, patches, the errors of the
  package and the identifiers of \<open>internal/util/id.go\<close>. Column values the tools only carry along
  keep their type; a \<open>float64\<close> is the rational it denotes. Pointers to optional values are
  options. Summary texts are Chinese format strings; the model keeps one constructor per format,
  with the format's arguments.
\<close>

subsection \<open>Fault-tree rows\<close>

record FaultTreeNode =
  node_ID :: string
  node_ProjectID :: string
  node_Type :: string
  node_Name :: string
  node_X :: rat
  node_Y :: rat
  node_Width :: rat
  node_Height :: rat
  node_Probability :: "rat option"
  node_GateType :: "string option"
  node_EventID :: "string option"
  node_Description :: "string option"
  node_ErrorLevel :: "string option"
  node_Priority :: int
  node_ShowProbability :: bool
  node_Rules :: string
  node_InvestigateMethod :: "string option"
  node_Documents :: "string list option"
  node_Transfer :: "string option"

record FaultTreeEdge =
  edge_ID :: string
  edge_ProjectID :: string
  edge_FromNodeID :: string
  edge_ToNodeID :: string

text \<open>The zero value of a composite literal with the fields the tools set.\<close>

definition zero_node :: "string \<Rightarrow> string \<Rightarrow> string \<Rightarrow> FaultTreeNode" where
  "zero_node i ty nm = \<lparr> node_ID = i, node_ProjectID = '''', node_Type = ty, node_Name = nm,
     node_X = 0, node_Y = 0, node_Width = 220, node_Height = 80, node_Probability = None,
     node_GateType = None, node_EventID = None, node_Description = None, node_ErrorLevel = None,
     node_Priority = 0, node_ShowProbability = False, node_Rules = '''',
     node_InvestigateMethod = None, node_Documents = None, node_Transfer = None \<rparr>"

lemma zero_node_sel [simp]:
  "node_ID (zero_node i ty nm) = i" "node_Type (zero_node i ty nm) = ty"
  "node_Name (zero_node i ty nm) = nm" "node_GateType (zero_node i ty nm) = None"
  by (simp_all add: zero_node_def)

definition mk_edge :: "string \<Rightarrow> string \<Rightarrow> string \<Rightarrow> FaultTreeEdge" where
  "mk_edge i a b = \<lparr> edge_ID = i, edge_ProjectID = '''', edge_FromNodeID = a, edge_ToNodeID = b \<rparr>"

lemma mk_edge_sel [simp]:
  "edge_ID (mk_edge i a b) = i" "edge_FromNodeID (mk_edge i a b) = a" "edge_ToNodeID (mk_edge i a b) = b"
  by (simp_all add: mk_edge_def)

text \<open>The trimmed ends of an edge and the trimmed identity of a node, which the code computes
  wherever it compares them.\<close>

abbreviation nid :: "FaultTreeNode \<Rightarrow> string" where "nid n \<equiv> TrimSpace (node_ID n)"
abbreviation ntype :: "FaultTreeNode \<Rightarrow> string" where "ntype n \<equiv> TrimSpace (node_Type n)"
abbreviation efrom :: "FaultTreeEdge \<Rightarrow> string" where "efrom e \<equiv> TrimSpace (edge_FromNodeID e)"
abbreviation eto :: "FaultTreeEdge \<Rightarrow> string" where "eto e \<equiv> TrimSpace (edge_ToNodeID e)"

subsection \<open>Knowledge-graph rows\<close>

text \<open>The rows of \<open>internal/model/knowledge_graph.go\<close>; a JSON column is its text.\<close>

record KnowledgeGraphNode =
  kn_ID :: string
  kn_ProjectID :: string
  kn_Type :: string
  kn_PositionX :: rat
  kn_PositionY :: rat
  kn_Label :: string
  kn_EntityType :: string
  kn_Description :: "string option"
  kn_SourceDoc :: "string option"
  kn_StyleJson :: string
  kn_DataExtJson :: string

record KnowledgeGraphEdge =
  ke_ID :: string
  ke_ProjectID :: string
  ke_SourceNodeID :: string
  ke_TargetNodeID :: string
  ke_Label :: "string option"
  ke_Type :: string
  ke_Animated :: bool
  ke_StyleJson :: string
  ke_LabelStyleJson :: string
  ke_LabelBgStyleJson :: string

subsection \<open>Patches, summaries and results\<close>

datatype patch_value = PStr string | PNum rat

type_synonym patch_item = "(string \<times> patch_value) list"

record GraphPatch =
  UpsertNodes :: "patch_item list"
  DeleteNodes :: "string list"
  UpsertEdges :: "patch_item list"
  DeleteEdges :: "string list"

definition empty_patch :: GraphPatch where
  "empty_patch = \<lparr> UpsertNodes = [], DeleteNodes = [], UpsertEdges = [], DeleteEdges = [] \<rparr>"

definition mergePatch :: "GraphPatch \<Rightarrow> GraphPatch \<Rightarrow> GraphPatch" where
  "mergePatch base extra = \<lparr>
     UpsertNodes = UpsertNodes base @ UpsertNodes extra,
     DeleteNodes = DeleteNodes base @ DeleteNodes extra,
     UpsertEdges = UpsertEdges base @ UpsertEdges extra,
     DeleteEdges = DeleteEdges base @ DeleteEdges extra \<rparr>"

definition patchChangedCounts :: "GraphPatch \<Rightarrow> nat \<times> nat" where
  "patchChangedCounts p =
     (length (UpsertNodes p) + length (DeleteNodes p), length (UpsertEdges p) + length (DeleteEdges p))"

definition patch_empty :: "GraphPatch \<Rightarrow> bool" where
  "patch_empty p \<longleftrightarrow> UpsertNodes p = [] \<and> DeleteNodes p = [] \<and> UpsertEdges p = [] \<and> DeleteEdges p = []"

lemma mergePatch_empty [simp]: "mergePatch empty_patch p = p" "mergePatch p empty_patch = p"
  by (simp_all add: mergePatch_def empty_patch_def)

lemma mergePatch_assoc: "mergePatch (mergePatch a b) c = mergePatch a (mergePatch b c)"
  by (simp add: mergePatch_def)

lemma patch_empty_merge [simp]:
  "patch_empty (mergePatch a b) \<longleftrightarrow> patch_empty a \<and> patch_empty b"
  by (auto simp: mergePatch_def patch_empty_def)

lemma patch_empty_empty [simp]: "patch_empty empty_patch"
  by (simp add: patch_empty_def empty_patch_def)

definition opt_item :: "string \<Rightarrow> string option \<Rightarrow> patch_item" where
  "opt_item key v = (case v of None \<Rightarrow> [] | Some s \<Rightarrow> [(key, PStr s)])"

definition faultTreeNodePatch :: "FaultTreeNode \<Rightarrow> patch_item" where
  "faultTreeNodePatch n =
     [(''id'', PStr (node_ID n)), (''type'', PStr (node_Type n)), (''name'', PStr (node_Name n)),
      (''x'', PNum (node_X n)), (''y'', PNum (node_Y n)),
      (''width'', PNum (node_Width n)), (''height'', PNum (node_Height n))]
     @ opt_item ''gateType'' (node_GateType n)
     @ opt_item ''description'' (node_Description n)
     @ opt_item ''investigateMethod'' (node_InvestigateMethod n)"

definition faultTreeEdgePatch :: "FaultTreeEdge \<Rightarrow> patch_item" where
  "faultTreeEdgePatch e =
     [(''id'', PStr (edge_ID e)), (''from'', PStr (edge_FromNodeID e)), (''to'', PStr (edge_ToNodeID e))]"

text \<open>A constraint issue; its message is determined by its code.\<close>

record ftaConstraintIssue =
  issue_NodeID :: string
  issue_Level :: string
  issue_Code :: string

definition mk_issue :: "string \<Rightarrow> string \<Rightarrow> string \<Rightarrow> ftaConstraintIssue" where
  "mk_issue i lvl code = \<lparr> issue_NodeID = i, issue_Level = lvl, issue_Code = code \<rparr>"

lemma mk_issue_sel [simp]:
  "issue_NodeID (mk_issue i l c) = i" "issue_Level (mk_issue i l c) = l" "issue_Code (mk_issue i l c) = c"
  by (simp_all add: mk_issue_def)

subsection \<open>Errors\<close>

text \<open>The sentinel errors of the package, each with the detail it is wrapped with. The detail of
  \<open>ErrOperationNotAllowed\<close> is a text, or the issues a safety check shows and how many more
  there are. \<open>ErrJSON\<close> stands for the errors of the JSON decoder and \<open>ErrDB\<close> for those of
  the database.\<close>

datatype detail = Txt string | Issues "ftaConstraintIssue list" nat

datatype graph_error =
    ErrInvalidParameters string
  | ErrUnknownTool string
  | ErrNodeNotFound string
  | ErrPermissionDenied
  | ErrUnsupportedGraph string
  | ErrOperationNotAllowed detail
  | ErrExecutorUnsupportedGraph string
  | ErrExecutorVersionConflict
  | ErrExecutorProjectNotFound
  | ErrHybridPreviewInvalid
  | ErrJSON
  | ErrDB

subsection \<open>Identifiers\<close>

text \<open>\<open>util.NewID\<close> reads the clock (milliseconds) and four random bytes. The model takes the
  sequence of these draws as an argument and counts the draws it makes.\<close>

type_synonym draws = "nat \<Rightarrow> nat \<times> 32 word"

definition NewID :: "draws \<Rightarrow> nat \<Rightarrow> string \<Rightarrow> string" where
  "NewID d k prefix = prefix @ ''_'' @ show_nat (fst (d k)) @ ''_'' @ hex_word (snd (d k))"

lemma NewID_trim [simp, go_str]:
  assumes "prefix \<noteq> []" and "plain_char (hd prefix)"
  shows "TrimSpace (NewID d k prefix) = NewID d k prefix"
proof (rule TrimSpace_plain)
  show "NewID d k prefix \<noteq> []" by (simp add: NewID_def)
  show "plain_char (hd (NewID d k prefix))" using assms by (simp add: NewID_def)
  show "plain_char (last (NewID d k prefix))" by (simp add: NewID_def last_hex_word)
qed

lemma NewID_nonempty [simp]: "NewID d k prefix \<noteq> []"
  by (simp add: NewID_def)

lemma prefix_plain [simp]:
  "plain_char (CHR ''f'')" "plain_char (CHR ''g'')" "plain_char (CHR ''p'')"
  by (simp_all add: plain_char_def less_eq_char_def)

end
