(* ===== verification/FTState.thy ===== *)
theory FTState
  imports Model
begin

text \<open>
  The in-memory fault tree an operation works on (\<open>faultTreeState\<close> at the end of
  \<open>internal/graph_ops/executor.go\<close>): the node and edge slices and the index from trimmed node
  ID to position. \<open>getNode\<close> returns a pointer into the slice; the model returns the position's
  node, and an update through the pointer is \<open>setNode\<close>. The abstraction \<open>erel\<close> is the
  directed graph the code's searches run on.
\<close>

subsection \<open>State and operations\<close>

record faultTreeState =
  st_nodes :: "FaultTreeNode list"
  st_edges :: "FaultTreeEdge list"
  st_nodeIndex :: "string \<Rightarrow> nat option"

fun index_from :: "nat \<Rightarrow> FaultTreeNode list \<Rightarrow> (string \<Rightarrow> nat option) \<Rightarrow> (string \<Rightarrow> nat option)" where
  \<comment> \<open>the loop of \<open>rebuildIndex\<close>: later nodes overwrite earlier ones\<close>
  "index_from i [] m = m"
| "index_from i (n # ns) m = index_from (Suc i) ns (m(nid n \<mapsto> i))"

definition rebuildIndex :: "faultTreeState \<Rightarrow> faultTreeState" where
  "rebuildIndex s = s\<lparr>st_nodeIndex := index_from 0 (st_nodes s) Map.empty\<rparr>"

definition newFaultTreeState :: "FaultTreeNode list \<Rightarrow> FaultTreeEdge list \<Rightarrow> faultTreeState" where
  "newFaultTreeState nodes edges =
     rebuildIndex \<lparr> st_nodes = nodes, st_edges = edges, st_nodeIndex = Map.empty \<rparr>"

definition getNode :: "faultTreeState \<Rightarrow> string \<Rightarrow> FaultTreeNode option" where
  "getNode s i = (case st_nodeIndex s (TrimSpace i) of None \<Rightarrow> None | Some k \<Rightarrow> Some (st_nodes s ! k))"

definition setNode :: "faultTreeState \<Rightarrow> string \<Rightarrow> FaultTreeNode \<Rightarrow> faultTreeState" where
  \<comment> \<open>assignment through the pointer \<open>getNode\<close> returned for \<open>i\<close>\<close>
  "setNode s i n = (case st_nodeIndex s (TrimSpace i) of None \<Rightarrow> s
     | Some k \<Rightarrow> s\<lparr>st_nodes := (st_nodes s)[k := n]\<rparr>)"

definition addNode :: "faultTreeState \<Rightarrow> FaultTreeNode \<Rightarrow> faultTreeState" where
  "addNode s n = s\<lparr>st_nodes := st_nodes s @ [n],
     st_nodeIndex := (st_nodeIndex s)(nid n \<mapsto> length (st_nodes s))\<rparr>"

definition addEdge :: "faultTreeState \<Rightarrow> FaultTreeEdge \<Rightarrow> bool \<times> faultTreeState" where
  "addEdge s edge =
     (if list_ex (\<lambda>e. EqualFold (edge_FromNodeID e) (edge_FromNodeID edge)
                    \<and> EqualFold (edge_ToNodeID e) (edge_ToNodeID edge)) (st_edges s)
      then (False, s)
      else (True, s\<lparr>st_edges := st_edges s @ [edge]\<rparr>))"

definition findEdgeID :: "faultTreeState \<Rightarrow> string \<Rightarrow> string \<Rightarrow> string option" where
  "findEdgeID s from to =
     map_option (\<lambda>e. TrimSpace (edge_ID e))
       (find (\<lambda>e. EqualFold (efrom e) (TrimSpace from) \<and> EqualFold (eto e) (TrimSpace to))
         (st_edges s))"

definition rewired :: "string \<Rightarrow> string set \<Rightarrow> FaultTreeEdge \<Rightarrow> bool" where
  "rewired from tos e \<longleftrightarrow> EqualFold (efrom e) (TrimSpace from) \<and> eto e \<in> tos"

definition removeEdgesByFromTo :: "faultTreeState \<Rightarrow> string \<Rightarrow> string set \<Rightarrow> string list \<times> faultTreeState" where
  "removeEdgesByFromTo s from tos =
     (map edge_ID (filter (rewired from tos) (st_edges s)),
      s\<lparr>st_edges := filter (\<lambda>e. \<not> rewired from tos e) (st_edges s)\<rparr>)"

definition touches :: "string set \<Rightarrow> FaultTreeEdge \<Rightarrow> bool" where
  "touches ids e \<longleftrightarrow> efrom e \<in> ids \<or> eto e \<in> ids"

definition removeNodes :: "faultTreeState \<Rightarrow> string set \<Rightarrow> (string list \<times> string list) \<times> faultTreeState" where
  "removeNodes s ids =
     ((map node_ID (filter (\<lambda>n. nid n \<in> ids) (st_nodes s)),
       map edge_ID (filter (touches ids) (st_edges s))),
      (rebuildIndex (s\<lparr>st_nodes := filter (\<lambda>n. nid n \<notin> ids) (st_nodes s)\<rparr>))
        \<lparr>st_edges := filter (\<lambda>e. \<not> touches ids e) (st_edges s)\<rparr>)"

definition removeIncomingEdges :: "faultTreeState \<Rightarrow> string \<Rightarrow> string list \<times> faultTreeState" where
  "removeIncomingEdges s i =
     (map edge_ID (filter (\<lambda>e. eto e = TrimSpace i) (st_edges s)),
      s\<lparr>st_edges := filter (\<lambda>e. eto e \<noteq> TrimSpace i) (st_edges s)\<rparr>)"

definition sortedSetKeys :: "string list \<Rightarrow> string list" where
  \<comment> \<open>the keys of a set built from \<open>ks\<close>\<close>
  "sortedSetKeys ks = sort (map TrimSpace (filter (\<lambda>k. TrimSpace k \<noteq> '''') (remdups ks)))"

definition parentIDsOf :: "faultTreeState \<Rightarrow> string \<Rightarrow> string list" where
  "parentIDsOf s i = sortedSetKeys
     (filter (\<lambda>p. p \<noteq> '''') (map efrom (filter (\<lambda>e. eto e = TrimSpace i) (st_edges s))))"

definition childIDsOf :: "faultTreeState \<Rightarrow> string \<Rightarrow> string list" where
  "childIDsOf s i = sortedSetKeys
     (filter (\<lambda>c. c \<noteq> '''') (map eto (filter (\<lambda>e. efrom e = TrimSpace i) (st_edges s))))"

subsection \<open>The graph of a state\<close>

definition live_edge :: "FaultTreeEdge \<Rightarrow> bool" where
  \<comment> \<open>the searches skip edges with an empty end\<close>
  "live_edge e \<longleftrightarrow> efrom e \<noteq> '''' \<and> eto e \<noteq> ''''"

definition edge_rel :: "FaultTreeEdge list \<Rightarrow> (string \<times> string) set" where
  "edge_rel es = {(efrom e, eto e) | e. e \<in> set es \<and> live_edge e}"

abbreviation erel :: "faultTreeState \<Rightarrow> (string \<times> string) set" where
  "erel s \<equiv> edge_rel (st_edges s)"

definition node_ids :: "faultTreeState \<Rightarrow> string set" where
  "node_ids s = nid ` set (st_nodes s)"

lemma edge_rel_iff:
  "(a, b) \<in> edge_rel es \<longleftrightarrow> (\<exists>e \<in> set es. efrom e = a \<and> eto e = b \<and> a \<noteq> [] \<and> b \<noteq> [])"
  by (auto simp: edge_rel_def live_edge_def)

lemma edge_rel_Nil [simp, ft_simps]: "edge_rel [] = {}"
  by (simp add: edge_rel_def)

lemma edge_rel_append [simp, ft_simps]: "edge_rel (es @ fs) = edge_rel es \<union> edge_rel fs"
  by (auto simp: edge_rel_def)

lemma edge_rel_Cons [ft_simps]:
  "edge_rel (e # es) = (if live_edge e then insert (efrom e, eto e) (edge_rel es) else edge_rel es)"
  by (auto simp: edge_rel_def)

lemma edge_rel_filter_subset: "edge_rel (filter P es) \<subseteq> edge_rel es"
  by (auto simp: edge_rel_def)

lemma finite_edge_rel [simp]: "finite (edge_rel es)"
proof -
  have "edge_rel es \<subseteq> (\<lambda>e. (efrom e, eto e)) ` set es" by (auto simp: edge_rel_def)
  then show ?thesis by (rule finite_subset) simp
qed

lemma set_sortedSetKeys:
  assumes "\<forall>k \<in> set ks. TrimSpace k = k \<and> k \<noteq> []"
  shows "set (sortedSetKeys ks) = set ks"
proof -
  have "filter (\<lambda>k. TrimSpace k \<noteq> []) (remdups ks) = remdups ks"
    using assms by (simp add: filter_id_conv)
  moreover have "map TrimSpace (remdups ks) = remdups ks"
    using assms by (intro map_idI) auto
  ultimately show ?thesis by (simp add: sortedSetKeys_def)
qed

lemma set_parentIDsOf:
  "set (parentIDsOf s i) = efrom ` {e \<in> set (st_edges s). eto e = TrimSpace i \<and> efrom e \<noteq> []}"
proof -
  have "set (parentIDsOf s i) =
      set (filter (\<lambda>p. p \<noteq> []) (map efrom (filter (\<lambda>e. eto e = TrimSpace i) (st_edges s))))"
    unfolding parentIDsOf_def by (rule set_sortedSetKeys) auto
  then show ?thesis by auto
qed

lemma set_childIDsOf:
  "set (childIDsOf s i) = eto ` {e \<in> set (st_edges s). efrom e = TrimSpace i \<and> eto e \<noteq> []}"
proof -
  have "set (childIDsOf s i) =
      set (filter (\<lambda>p. p \<noteq> []) (map eto (filter (\<lambda>e. efrom e = TrimSpace i) (st_edges s))))"
    unfolding childIDsOf_def by (rule set_sortedSetKeys) auto
  then show ?thesis by auto
qed

lemma parentIDsOf_erel: "TrimSpace i \<noteq> '''' \<Longrightarrow> p \<in> set (parentIDsOf s i) \<longleftrightarrow> (p, TrimSpace i) \<in> erel s"
  by (auto simp: set_parentIDsOf edge_rel_iff image_iff)

lemma childIDsOf_erel: "TrimSpace i \<noteq> '''' \<Longrightarrow> c \<in> set (childIDsOf s i) \<longleftrightarrow> (TrimSpace i, c) \<in> erel s"
  by (auto simp: set_childIDsOf edge_rel_iff image_iff)

subsection \<open>The index\<close>

text \<open>The index agrees with the nodes: it holds exactly the trimmed IDs, each at a position of
  the slice that carries it. \<open>getNode\<close> then never reads out of range.\<close>

definition index_ok :: "faultTreeState \<Rightarrow> bool" where
  "index_ok s \<longleftrightarrow> dom (st_nodeIndex s) = node_ids s \<and>
     (\<forall>i k. st_nodeIndex s i = Some k \<longrightarrow> k < length (st_nodes s) \<and> nid (st_nodes s ! k) = i)"

lemma dom_index_from: "dom (index_from i ns m) = dom m \<union> nid ` set ns"
  by (induction ns arbitrary: i m) auto

lemma index_from_Some:
  "index_from i ns m x = Some k \<Longrightarrow>
     (\<exists>j < length ns. k = i + j \<and> nid (ns ! j) = x) \<or> m x = Some k"
proof (induction ns arbitrary: i m)
  case (Cons n ns)
  from Cons.prems have "index_from (Suc i) ns (m(nid n \<mapsto> i)) x = Some k" by simp
  then have "(\<exists>j < length ns. k = Suc i + j \<and> nid (ns ! j) = x) \<or> (m(nid n \<mapsto> i)) x = Some k"
    by (rule Cons.IH)
  then show ?case
  proof
    assume "\<exists>j < length ns. k = Suc i + j \<and> nid (ns ! j) = x"
    then obtain j where "j < length ns" "k = Suc i + j" "nid (ns ! j) = x" by blast
    then have "Suc j < length (n # ns) \<and> k = i + Suc j \<and> nid ((n # ns) ! Suc j) = x" by simp
    then show ?thesis by blast
  next
    assume "(m(nid n \<mapsto> i)) x = Some k"
    then show ?thesis by (cases "nid n = x") auto
  qed
qed simp

lemma index_from_position:
  "index_from 0 ns Map.empty x = Some k \<Longrightarrow> k < length ns \<and> nid (ns ! k) = x"
  by (drule index_from_Some) auto

lemma rebuildIndex_ok [ft_inv_intros]: "index_ok (rebuildIndex s)"
proof -
  have "dom (index_from 0 (st_nodes s) Map.empty) = nid ` set (st_nodes s)"
    by (simp add: dom_index_from)
  moreover have "\<forall>i k. index_from 0 (st_nodes s) Map.empty i = Some k
      \<longrightarrow> k < length (st_nodes s) \<and> nid (st_nodes s ! k) = i"
    by (blast dest: index_from_position)
  ultimately show ?thesis by (simp add: index_ok_def rebuildIndex_def node_ids_def)
qed

lemma newFaultTreeState_ok [ft_inv_intros]: "index_ok (newFaultTreeState ns es)"
  by (simp add: newFaultTreeState_def rebuildIndex_ok)

lemma newFaultTreeState_sel [simp]:
  "st_nodes (newFaultTreeState ns es) = ns" "st_edges (newFaultTreeState ns es) = es"
  by (simp_all add: newFaultTreeState_def rebuildIndex_def)

lemma index_ok_edges [simp]: "index_ok (s\<lparr>st_edges := es\<rparr>) \<longleftrightarrow> index_ok s"
  by (simp add: index_ok_def node_ids_def)

lemma node_ids_edges [simp]: "node_ids (s\<lparr>st_edges := es\<rparr>) = node_ids s"
  by (simp add: node_ids_def)

lemma getNode_edges [simp]: "getNode (s\<lparr>st_edges := es\<rparr>) i = getNode s i"
  by (simp add: getNode_def split: option.split)

lemma getNode_Some:
  assumes "index_ok s" and "getNode s i = Some n"
  shows "n \<in> set (st_nodes s)" and "nid n = TrimSpace i"
  using assms by (auto simp: getNode_def index_ok_def split: option.splits)

lemma getNode_None_iff: "index_ok s \<Longrightarrow> getNode s i = None \<longleftrightarrow> TrimSpace i \<notin> node_ids s"
  by (auto simp: getNode_def index_ok_def split: option.splits)

lemma getNode_ex_iff: "index_ok s \<Longrightarrow> (\<exists>n. getNode s i = Some n) \<longleftrightarrow> TrimSpace i \<in> node_ids s"
  using getNode_None_iff [of s i] by auto

lemma getNode_trim [simp]: "getNode s (TrimSpace i) = getNode s i"
  by (simp add: getNode_def)

lemma addNode_sel [simp]:
  "st_nodes (addNode s n) = st_nodes s @ [n]" "st_edges (addNode s n) = st_edges s"
  by (simp_all add: addNode_def)

lemma addNode_index_ok [ft_inv_intros]:
  assumes "index_ok s"
  shows "index_ok (addNode s n)"
proof -
  have "k < Suc (length (st_nodes s)) \<and> nid ((st_nodes s @ [n]) ! k) = i"
    if "((st_nodeIndex s)(nid n \<mapsto> length (st_nodes s))) i = Some k" for i k
    using assms that by (cases "i = nid n") (auto simp: index_ok_def nth_append less_Suc_eq)
  with assms show ?thesis by (simp add: index_ok_def addNode_def node_ids_def)
qed

lemma addNode_ids [simp, ft_simps]: "node_ids (addNode s n) = insert (nid n) (node_ids s)"
  by (simp add: node_ids_def)

lemma setNode_sel [simp]: "st_edges (setNode s i n) = st_edges s"
  by (simp add: setNode_def split: option.splits)

lemma setNode_nodes:
  "st_nodes (setNode s i n) =
     (case st_nodeIndex s (TrimSpace i) of None \<Rightarrow> st_nodes s | Some k \<Rightarrow> (st_nodes s)[k := n])"
  by (simp add: setNode_def split: option.splits)

lemma setNode_map_nid:
  assumes "index_ok s" and "nid n = TrimSpace i"
  shows "map nid (st_nodes (setNode s i n)) = map nid (st_nodes s)"
proof (cases "st_nodeIndex s (TrimSpace i)")
  case (Some k)
  with assms(1) have "k < length (st_nodes s)" and "nid (st_nodes s ! k) = TrimSpace i"
    by (auto simp: index_ok_def)
  with assms(2) Some show ?thesis by (simp add: setNode_nodes nth_list_update_map)
qed (simp add: setNode_nodes)

lemma setNode_ids:
  assumes "index_ok s" and "nid n = TrimSpace i"
  shows "node_ids (setNode s i n) = node_ids s"
  by (simp only: node_ids_def image_set setNode_map_nid [OF assms])

lemma setNode_index_ok [ft_inv_intros]:
  assumes "index_ok s" and "nid n = TrimSpace i"
  shows "index_ok (setNode s i n)"
proof -
  have idx: "st_nodeIndex (setNode s i n) = st_nodeIndex s"
    by (simp add: setNode_def split: option.splits)
  have len: "length (st_nodes (setNode s i n)) = length (st_nodes s)"
    by (simp add: setNode_nodes split: option.splits)
  have "nid (st_nodes (setNode s i n) ! k) = nid (st_nodes s ! k)" if "k < length (st_nodes s)" for k
    using arg_cong [OF setNode_map_nid [OF assms], of "\<lambda>xs. xs ! k"] that len by simp
  with assms show ?thesis by (auto simp: index_ok_def idx len setNode_ids)
qed

lemma removeNodes_sel [simp]:
  "st_nodes (snd (removeNodes s ids)) = filter (\<lambda>n. nid n \<notin> ids) (st_nodes s)"
  "st_edges (snd (removeNodes s ids)) = filter (\<lambda>e. \<not> touches ids e) (st_edges s)"
  by (simp_all add: removeNodes_def rebuildIndex_def)

lemma removeNodes_index_ok [ft_inv_intros]: "index_ok (snd (removeNodes s ids))"
  by (simp add: removeNodes_def rebuildIndex_ok)

lemma removeNodes_ids [simp, ft_simps]: "node_ids (snd (removeNodes s ids)) = node_ids s - ids"
  by (auto simp: node_ids_def)

lemma addEdge_cases:
  "addEdge s e = (False, s) \<or> addEdge s e = (True, s\<lparr>st_edges := st_edges s @ [e]\<rparr>)"
  by (simp add: addEdge_def)

lemma addEdge_sel [simp]: "st_nodes (snd (addEdge s e)) = st_nodes s"
  by (simp add: addEdge_def)

lemma addEdge_index_ok [simp, ft_inv_intros]: "index_ok (snd (addEdge s e)) \<longleftrightarrow> index_ok s"
  by (simp add: addEdge_def)

lemma addEdge_ids [simp, ft_simps]: "node_ids (snd (addEdge s e)) = node_ids s"
  by (simp add: addEdge_def)

lemma addEdge_edges: "set (st_edges (snd (addEdge s e))) \<subseteq> insert e (set (st_edges s))"
  by (auto simp: addEdge_def)

end
