(* ===== verification/Traversal.thy ===== *)
theory Traversal
  imports FTState
begin

text \<open>
  The searches of \<open>executor.go\<close> over the edges of a fault tree: the breadth-first
  \<open>collectDescendants\<close> behind \<open>delete_node\<close> and \<open>move_node\<close>, the depth-bounded search of
  \<open>get_subtree\<close>, and \<open>hasDirectedCycle\<close>, the three-colour depth-first search behind the
  safety check. Each terminates on every edge list, cyclic ones included; the first two are shown
  to compute reachability, the last to decide whether the graph has a cycle, whatever the order
  in which Go iterates over its map.
\<close>

subsection \<open>Adjacency\<close>

definition childrenMap :: "FaultTreeEdge list \<Rightarrow> string \<Rightarrow> string list" where
  "childrenMap = foldl (\<lambda>m e. if efrom e = '''' \<or> eto e = '''' then m
                              else m(efrom e := m (efrom e) @ [eto e])) (\<lambda>_. [])"

lemma childrenMap_snoc:
  "childrenMap (es @ [e]) = (if live_edge e then (childrenMap es)(efrom e := childrenMap es (efrom e) @ [eto e])
     else childrenMap es)"
  by (simp add: childrenMap_def live_edge_def)

lemma childrenMap_eq: "childrenMap es x = map eto (filter (\<lambda>e. live_edge e \<and> efrom e = x) es)"
proof (induction es rule: rev_induct)
  case Nil
  then show ?case by (simp add: childrenMap_def)
next
  case (snoc e es)
  then show ?case by (cases "efrom e = x") (auto simp: childrenMap_snoc)
qed

lemma set_childrenMap: "set (childrenMap es x) = edge_rel es `` {x}"
  by (auto simp: childrenMap_eq edge_rel_def)

lemma in_childrenMap [simp]: "y \<in> set (childrenMap es x) \<longleftrightarrow> (x, y) \<in> edge_rel es"
  by (auto simp: set_childrenMap)

definition targets :: "FaultTreeEdge list \<Rightarrow> string set" where
  "targets es = Range (edge_rel es)"

lemma finite_targets [simp]: "finite (targets es)"
  by (simp add: targets_def finite_Range)

lemma childrenMap_targets: "set (childrenMap es x) \<subseteq> targets es"
  by (auto simp: set_childrenMap targets_def)

subsection \<open>Descendants, breadth first\<close>

text \<open>The loop over the children of one node: those not visited yet, in order and once each.\<close>

fun new_children :: "string set \<Rightarrow> string list \<Rightarrow> string list" where
  "new_children visited [] = []"
| "new_children visited (c # cs) =
     (if c \<in> visited then new_children visited cs else c # new_children (insert c visited) cs)"

lemma set_new_children [simp]: "set (new_children visited cs) = set cs - visited"
  by (induction visited cs rule: new_children.induct) auto

lemma distinct_new_children [simp]: "distinct (new_children visited cs)"
  by (induction visited cs rule: new_children.induct) auto

function bfs :: "FaultTreeEdge list \<Rightarrow> string list \<Rightarrow> string set \<Rightarrow> string list \<Rightarrow> string list" where
  "bfs es [] visited out = out"
| "bfs es (cur # queue) visited out =
     (let new = new_children visited (childrenMap es cur)
      in bfs es (queue @ new) (visited \<union> set new) (out @ new))"
  by pat_completeness auto
termination
proof (relation "measures [\<lambda>(es, queue, visited, out). card (targets es - visited),
    \<lambda>(es, queue, visited, out). length queue]")
  fix es cur and queue :: "string list" and visited out new
  assume new: "new = new_children visited (childrenMap es cur)"
  show "((es, queue @ new, visited \<union> set new, out @ new), (es, cur # queue, visited, out))
     \<in> measures [\<lambda>(es, queue, visited, out). card (targets es - visited),
          \<lambda>(es, queue, visited, out). length queue]"
  proof (cases "new = []")
    case False
    then obtain c where c: "c \<in> set new" by (cases new) auto
    then have "c \<in> targets es - visited" and "c \<notin> targets es - (visited \<union> set new)"
      using new childrenMap_targets [of es cur] by auto
    then have "targets es - (visited \<union> set new) \<subset> targets es - visited" by blast
    then have "card (targets es - (visited \<union> set new)) < card (targets es - visited)"
      by (intro psubset_card_mono) auto
    then show ?thesis by simp
  qed simp
qed simp

definition collectDescendants :: "faultTreeState \<Rightarrow> string \<Rightarrow> string list" where
  "collectDescendants s start =
     (if TrimSpace start = '''' then []
      else bfs (st_edges s) [TrimSpace start] {TrimSpace start} [])"

text \<open>Invariant of the loop: the nodes output are exactly the visited ones but the start, the
  children of every visited node that left the queue are visited, and everything visited is
  reachable.\<close>

lemma bfs_sound:
  assumes "set queue \<subseteq> R\<^sup>* `` {r}" and "set out \<subseteq> R\<^sup>* `` {r}" and "R = edge_rel es"
  shows "set (bfs es queue visited out) \<subseteq> R\<^sup>* `` {r}"
  using assms
proof (induction es queue visited out rule: bfs.induct)
  case (2 es cur queue visited out)
  let ?new = "new_children visited (childrenMap es cur)"
  have "(r, cur) \<in> R\<^sup>*" using "2.prems" by auto
  then have "set ?new \<subseteq> R\<^sup>* `` {r}"
    using "2.prems"(3) by (auto intro: rtrancl_into_rtrancl)
  with "2.prems" have "set (bfs es (queue @ ?new) (visited \<union> set ?new) (out @ ?new)) \<subseteq> R\<^sup>* `` {r}"
    by (intro "2.IH") auto
  then show ?case by (simp add: Let_def)
qed simp

lemma bfs_complete:
  assumes "set queue \<subseteq> visited" and "visited = insert r (set out)"
    and "edge_rel es `` (visited - set queue) \<subseteq> visited"
  shows "(edge_rel es)\<^sup>* `` visited \<subseteq> insert r (set (bfs es queue visited out))"
  using assms
proof (induction es queue visited out rule: bfs.induct)
  case (1 es visited out)
  then have closed: "edge_rel es `` visited \<subseteq> visited" by simp
  have "(edge_rel es)\<^sup>* `` visited \<subseteq> visited"
    using closed Image_closed_trancl by blast
  with 1 show ?case by simp
next
  case (2 es cur queue visited out)
  let ?new = "new_children visited (childrenMap es cur)"
  let ?v = "visited \<union> set ?new"
  have "(edge_rel es)\<^sup>* `` ?v \<subseteq> insert r (set (bfs es (queue @ ?new) ?v (out @ ?new)))"
  proof (rule "2.IH" [OF refl])
    show "set (queue @ ?new) \<subseteq> ?v" using "2.prems"(1) by auto
    show "?v = insert r (set (out @ ?new))" using "2.prems"(2) by auto
    show "edge_rel es `` (?v - set (queue @ ?new)) \<subseteq> ?v"
    proof
      fix y assume "y \<in> edge_rel es `` (?v - set (queue @ ?new))"
      then obtain x where x: "x \<in> visited" "x \<notin> set queue" and xy: "(x, y) \<in> edge_rel es" by auto
      show "y \<in> ?v"
      proof (cases "x = cur")
        case False
        with x have "x \<in> visited - set (cur # queue)" by simp
        with xy "2.prems"(3) have "y \<in> visited" by blast
        then show ?thesis by simp
      qed (use xy in auto)
    qed
  qed
  then show ?case by (auto simp: Let_def)
qed

lemma bfs_distinct:
  assumes "distinct out" and "set out \<subseteq> visited"
  shows "distinct (bfs es queue visited out)"
  using assms
proof (induction es queue visited out rule: bfs.induct)
  case (2 es cur queue visited out)
  then show ?case by (auto simp: Let_def)
qed simp

lemma bfs_root_not_in:
  assumes "r \<in> visited" and "r \<notin> set out"
  shows "r \<notin> set (bfs es queue visited out)"
  using assms
proof (induction es queue visited out rule: bfs.induct)
  case (2 es cur queue visited out)
  then show ?case by (auto simp: Let_def)
qed simp

lemma distinct_collectDescendants: "distinct (collectDescendants s start)"
  by (simp add: collectDescendants_def bfs_distinct del: bfs.simps)

lemma set_collectDescendants:
  assumes "TrimSpace start \<noteq> ''''"
  shows "set (collectDescendants s start) = (erel s)\<^sup>* `` {TrimSpace start} - {TrimSpace start}"
proof -
  let ?r = "TrimSpace start"
  let ?out = "bfs (st_edges s) [?r] {?r} []"
  have "set ?out \<subseteq> (erel s)\<^sup>* `` {?r}" by (rule bfs_sound) auto
  moreover have "(erel s)\<^sup>* `` {?r} \<subseteq> insert ?r (set ?out)" by (rule bfs_complete) auto
  moreover have "?r \<notin> set ?out" by (rule bfs_root_not_in) auto
  ultimately show ?thesis using assms by (auto simp: collectDescendants_def)
qed

subsection \<open>Cycle detection\<close>

datatype colour = White | Gray | Black

text \<open>
  \<open>dfs es ns c\<close> is the loop of \<open>visit\<close> over the remaining neighbours \<open>ns\<close>: a gray neighbour is a
  back edge, a white one is visited (coloured gray, its own neighbours looped over, coloured
  black), a black one is skipped. The recursion is nested, since the colours the second call
  starts from are the ones the first returns; it terminates because a call never turns a node
  white again.
\<close>

function dfs :: "FaultTreeEdge list \<Rightarrow> string list \<Rightarrow> (string \<Rightarrow> colour) \<Rightarrow> bool \<times> (string \<Rightarrow> colour)" where
  "dfs es [] c = (False, c)"
| "dfs es (n # ns) c =
     (case c n of
       Gray \<Rightarrow> (True, c)
     | White \<Rightarrow>
         (case dfs es (childrenMap es n) (c(n := Gray)) of
           (True, c') \<Rightarrow> (True, c')
         | (False, c') \<Rightarrow> dfs es ns (c'(n := Black)))
     | Black \<Rightarrow> dfs es ns c)"
  by pat_completeness auto

definition white_in :: "FaultTreeEdge list \<Rightarrow> (string \<Rightarrow> colour) \<Rightarrow> string set" where
  "white_in es c = {n \<in> Domain (edge_rel es). c n = White}"

lemma finite_white_in [simp]: "finite (white_in es c)"
proof -
  have "white_in es c \<subseteq> Domain (edge_rel es)" by (auto simp: white_in_def)
  then show ?thesis by (rule finite_subset) (simp add: finite_Domain)
qed

lemma dfs_white:
  assumes "dfs_dom (es, ns, c)"
  shows "dfs es ns c = (b, c') \<Longrightarrow> c' n = White \<Longrightarrow> c n = White"
  using assms
proof (induction arbitrary: b c' n rule: dfs.pinduct)
  case (1 es c)
  then show ?case by (simp add: dfs.psimps)
next
  case (2 es m ns c)
  show ?case
  proof (cases "c m")
    case White
    obtain b1 c1 where d1: "dfs es (childrenMap es m) (c(m := Gray)) = (b1, c1)" by fastforce
    have w1: "c1 x = White \<Longrightarrow> c x = White" for x
      using "2.IH"(1) [OF White d1, of x] White by (cases "x = m") auto
    show ?thesis
    proof (cases b1)
      case True
      with "2.prems" "2.hyps" White d1 have "c' = c1" by (simp add: dfs.psimps)
      with "2.prems" w1 show ?thesis by blast
    next
      case False
      with "2.prems" "2.hyps" White d1 have d2: "dfs es ns (c1(m := Black)) = (b, c')"
        by (simp add: dfs.psimps)
      from d1 False have d1': "(False, c1) = dfs es (childrenMap es m) (c(m := Gray))" by simp
      have "(c1(m := Black)) n = White"
        using "2.IH"(2) [OF White _ _ d2 "2.prems"(2)] d1 False by auto
      then show ?thesis using w1 by (auto split: if_splits)
    qed
  next
    case Gray
    with "2.prems" "2.hyps" show ?thesis by (simp add: dfs.psimps)
  next
    case Black
    with "2.prems" "2.hyps" have "dfs es ns c = (b, c')" by (simp add: dfs.psimps)
    with Black "2.IH"(3) "2.prems" show ?thesis by blast
  qed
qed

termination dfs
proof (relation "measures [\<lambda>(es, ns, c). card (white_in es c), \<lambda>(es, ns, c). length ns]")
  fix es and n :: string and ns :: "string list" and c
  assume w: "c n = White"
  show "((es, childrenMap es n, c(n := Gray)), (es, n # ns, c))
     \<in> measures [\<lambda>(es, ns, c). card (white_in es c), \<lambda>(es, ns, c). length ns]"
  proof (cases "n \<in> Domain (edge_rel es)")
    case True
    with w have "white_in es (c(n := Gray)) \<subset> white_in es c" by (auto simp: white_in_def)
    then have "card (white_in es (c(n := Gray))) < card (white_in es c)" by (intro psubset_card_mono) auto
    then show ?thesis by simp
  next
    case False
    then have "white_in es (c(n := Gray)) = white_in es c" by (auto simp: white_in_def)
    moreover have "set (childrenMap es n) = {}" using False by (auto simp: set_childrenMap)
    ultimately show ?thesis by simp
  qed
next
  fix es and n :: string and ns :: "string list" and c b c'
  assume w: "c n = White" and d: "(b, c') = dfs es (childrenMap es n) (c(n := Gray))" "b = False"
    and dom: "dfs_dom (es, childrenMap es n, c(n := Gray))"
  have "white_in es (c'(n := Black)) \<subseteq> white_in es c"
  proof
    fix x assume "x \<in> white_in es (c'(n := Black))"
    then have "x \<noteq> n" "c' x = White" "x \<in> Domain (edge_rel es)"
      by (auto simp: white_in_def split: if_splits)
    with dfs_white [OF dom, of b c' x] d show "x \<in> white_in es c" by (auto simp: white_in_def)
  qed
  then have "card (white_in es (c'(n := Black))) \<le> card (white_in es c)" by (intro card_mono) auto
  then show "((es, ns, c'(n := Black)), (es, n # ns, c))
     \<in> measures [\<lambda>(es, ns, c). card (white_in es c), \<lambda>(es, ns, c). length ns]"
    by auto
qed auto

declare dfs.simps [simp del]

lemma dfs_Nil [simp]: "dfs es [] c = (False, c)"
  by (simp add: dfs.simps)

lemma dfs_Cons_White:
  assumes "c n = White" and "dfs es (childrenMap es n) (c(n := Gray)) = (b, c')"
  shows "dfs es (n # ns) c = (if b then (True, c') else dfs es ns (c'(n := Black)))"
  using assms by (simp add: dfs.simps)

lemma dfs_Cons_Gray: "c n = Gray \<Longrightarrow> dfs es (n # ns) c = (True, c)"
  by (simp add: dfs.simps)

lemma dfs_Cons_Black: "c n = Black \<Longrightarrow> dfs es (n # ns) c = dfs es ns c"
  by (simp add: dfs.simps)

definition visit :: "FaultTreeEdge list \<Rightarrow> string \<Rightarrow> (string \<Rightarrow> colour) \<Rightarrow> bool \<times> (string \<Rightarrow> colour)" where
  "visit es node c =
     (case dfs es (childrenMap es node) (c(node := Gray)) of
       (True, c') \<Rightarrow> (True, c')
     | (False, c') \<Rightarrow> (False, c'(node := Black)))"

text \<open>The outer loop ranges over the keys of a Go map, in an order the language leaves open: the
  order is an argument.\<close>

fun cycle_from :: "FaultTreeEdge list \<Rightarrow> string list \<Rightarrow> (string \<Rightarrow> colour) \<Rightarrow> bool" where
  "cycle_from es [] c = False"
| "cycle_from es (node # keys) c =
     (if c node \<noteq> White then cycle_from es keys c
      else (case visit es node c of
              (True, _) \<Rightarrow> True
            | (False, c') \<Rightarrow> cycle_from es keys c'))"

definition adj_keys :: "FaultTreeEdge list \<Rightarrow> string list" where
  "adj_keys es = remdups (map efrom (filter live_edge es))"

definition hasDirectedCycle :: "FaultTreeEdge list \<Rightarrow> bool" where
  "hasDirectedCycle es = cycle_from es (adj_keys es) (\<lambda>_. White)"

lemma set_adj_keys: "set (adj_keys es) = Domain (edge_rel es)"
  by (auto simp: adj_keys_def edge_rel_def)

text \<open>Colouring invariant: the black nodes are closed under the edges and carry no cycle.\<close>

definition black_ok :: "(string \<times> string) set \<Rightarrow> (string \<Rightarrow> colour) \<Rightarrow> bool" where
  "black_ok R c \<longleftrightarrow> (\<forall>x y. c x = Black \<longrightarrow> (x, y) \<in> R \<longrightarrow> c y = Black)
     \<and> acyclic {e \<in> R. c (fst e) = Black}"

lemma black_ok_gray:
  assumes "black_ok R c" and "c n = White"
  shows "black_ok R (c(n := Gray))"
proof -
  have "(c(n := Gray)) x = Black \<longleftrightarrow> c x = Black" for x using assms(2) by auto
  then show ?thesis using assms(1) unfolding black_ok_def by presburger
qed

lemma black_ok_blacken:
  assumes ok: "black_ok R c" and n: "c n \<noteq> Black" and succ: "\<And>y. (n, y) \<in> R \<Longrightarrow> c y = Black"
  shows "black_ok R (c(n := Black))"
proof -
  let ?B = "{e \<in> R. c (fst e) = Black}" and ?N = "{e \<in> R. fst e = n}"
  have split: "{e \<in> R. (c(n := Black)) (fst e) = Black} = ?B \<union> ?N" by auto
  have no_in: "(x, n) \<notin> ?B \<union> ?N" for x
    using ok n succ by (auto simp: black_ok_def)
  have "(x, y) \<in> (?B \<union> ?N)\<^sup>+ \<Longrightarrow> x \<noteq> n \<Longrightarrow> (x, y) \<in> ?B\<^sup>+" for x y
  proof (induction rule: trancl_induct)
    case (step y z)
    have "y \<noteq> n" using step.hyps(1) by (rule tranclE) (use no_in in blast)+
    with step show ?case by (auto intro: trancl_into_trancl)
  qed auto
  moreover have "(n, n) \<notin> (?B \<union> ?N)\<^sup>+"
  proof
    assume "(n, n) \<in> (?B \<union> ?N)\<^sup>+"
    then show False by (rule tranclE) (use no_in in blast)+
  qed
  moreover have "(x, x) \<notin> ?B\<^sup>+" for x
    using ok by (simp add: black_ok_def acyclic_def)
  ultimately have "acyclic (?B \<union> ?N)"
    unfolding acyclic_def by blast
  then show ?thesis
    using ok succ unfolding split black_ok_def by auto
qed

lemma dfs_False:
  assumes "dfs es ns c = (False, c')" and "black_ok (edge_rel es) c"
  shows "black_ok (edge_rel es) c' \<and> (\<forall>x. c x = Black \<longrightarrow> c' x = Black)
    \<and> (\<forall>x. c' x = Gray \<longleftrightarrow> c x = Gray) \<and> (\<forall>x \<in> set ns. c' x = Black)"
  using assms
proof (induction es ns c arbitrary: c' rule: dfs.induct)
  case (2 es n ns c)
  show ?case
  proof (cases "c n")
    case White
    let ?R = "edge_rel es"
    obtain b c1 where d1: "dfs es (childrenMap es n) (c(n := Gray)) = (b, c1)" by fastforce
    from "2.prems"(1) dfs_Cons_White [OF White d1] have nb: "\<not> b" and
      d2: "dfs es ns (c1(n := Black)) = (False, c')" by (auto split: if_splits)
    have ok1: "black_ok ?R (c(n := Gray))" using "2.prems"(2) White by (simp add: black_ok_gray)
    have d1': "dfs es (childrenMap es n) (c(n := Gray)) = (False, c1)" using d1 nb by simp
    have I1: "black_ok ?R c1" "\<forall>x. (c(n := Gray)) x = Black \<longrightarrow> c1 x = Black"
      "\<forall>x. c1 x = Gray \<longleftrightarrow> (c(n := Gray)) x = Gray" "\<forall>x \<in> set (childrenMap es n). c1 x = Black"
      using "2.IH"(1) [OF White d1' ok1] by blast+
    have "c1 n = Gray" using I1(3) by simp
    have ok2: "black_ok ?R (c1(n := Black))"
      using I1(1) by (rule black_ok_blacken) (use I1(4) \<open>c1 n = Gray\<close> in auto)
    have I2: "black_ok ?R c'" "\<forall>x. (c1(n := Black)) x = Black \<longrightarrow> c' x = Black"
      "\<forall>x. c' x = Gray \<longleftrightarrow> (c1(n := Black)) x = Gray" "\<forall>x \<in> set ns. c' x = Black"
      using "2.IH"(2) [OF White d1' [symmetric] refl d2 ok2] by blast+
    have "c' x = Black" if "c x = Black" for x
      using that White I1(2) I2(2) by (cases "x = n") auto
    moreover have "c' x = Gray \<longleftrightarrow> c x = Gray" for x
      using White I1(3) I2(3) by (cases "x = n") auto
    moreover have "c' n = Black" using I2(2) by simp
    ultimately show ?thesis using I2(1,4) by simp
  next
    case Gray
    with "2.prems" show ?thesis by (simp add: dfs_Cons_Gray)
  next
    case Black
    then have "dfs es ns c = (False, c')" using "2.prems"(1) by (simp add: dfs_Cons_Black)
    then show ?thesis using "2.IH"(3) [OF Black] "2.prems"(2) Black by auto
  qed
qed simp

text \<open>A back edge closes a cycle, because every gray node reaches the node being visited.\<close>

lemma dfs_True:
  assumes "dfs es ns c = (True, c')" and "black_ok (edge_rel es) c"
    and "\<forall>x \<in> set ns. (p, x) \<in> edge_rel es" and "\<forall>g. c g = Gray \<longrightarrow> (g, p) \<in> (edge_rel es)\<^sup>*"
  shows "\<not> acyclic (edge_rel es)"
  using assms
proof (induction es ns c arbitrary: c' p rule: dfs.induct)
  case (2 es n ns c)
  let ?R = "edge_rel es"
  show ?case
  proof (cases "c n")
    case White
    obtain b c1 where d1: "dfs es (childrenMap es n) (c(n := Gray)) = (b, c1)" by fastforce
    have ok1: "black_ok ?R (c(n := Gray))" using "2.prems"(2) White by (simp add: black_ok_gray)
    have gray1: "\<forall>g. (c(n := Gray)) g = Gray \<longrightarrow> (g, n) \<in> ?R\<^sup>*"
      using "2.prems"(3,4) by (auto intro: rtrancl_into_rtrancl)
    show ?thesis
    proof (cases b)
      case True
      have "\<forall>x \<in> set (childrenMap es n). (n, x) \<in> ?R" by simp
      moreover have "dfs es (childrenMap es n) (c(n := Gray)) = (True, c1)" using d1 True by simp
      ultimately show ?thesis using "2.IH"(1) [OF White _ ok1 _ gray1] by blast
    next
      case False
      have I: "black_ok ?R c1" "\<forall>x. c1 x = Gray \<longleftrightarrow> (c(n := Gray)) x = Gray"
        "\<forall>x \<in> set (childrenMap es n). c1 x = Black"
        using dfs_False [of es "childrenMap es n" "c(n := Gray)" c1] d1 False ok1 by auto
      have "c1 n = Gray" using I(2) by simp
      have ok2: "black_ok ?R (c1(n := Black))"
        using I(1) by (rule black_ok_blacken) (use I(3) \<open>c1 n = Gray\<close> in auto)
      have "dfs es ns (c1(n := Black)) = (True, c')"
        using "2.prems"(1) dfs_Cons_White [OF White d1] False by simp
      moreover have d1': "dfs es (childrenMap es n) (c(n := Gray)) = (False, c1)" using d1 False by simp
      moreover have "\<forall>g. (c1(n := Black)) g = Gray \<longrightarrow> (g, p) \<in> ?R\<^sup>*"
        using "2.prems"(4) I(2) by auto
      moreover have "\<forall>x \<in> set ns. (p, x) \<in> ?R" using "2.prems"(3) by simp
      ultimately show ?thesis
        using "2.IH"(2) [OF White d1' [symmetric] refl _ ok2] by blast
    qed
  next
    case Gray
    then have "(n, p) \<in> ?R\<^sup>*" and "(p, n) \<in> ?R" using "2.prems"(3,4) by auto
    then have "(p, p) \<in> ?R\<^sup>+" by (rule rtrancl_into_trancl2 [rotated])
    then show ?thesis by (auto simp: acyclic_def)
  next
    case Black
    then have "dfs es ns c = (True, c')" using "2.prems"(1) by (simp add: dfs_Cons_Black)
    then show ?thesis using "2.IH"(3) [OF Black] "2.prems" by auto
  qed
qed simp

lemma cycle_from_correct:
  assumes "black_ok (edge_rel es) c" and "\<forall>x. c x \<noteq> Gray"
    and "\<forall>x \<in> Domain (edge_rel es) - set keys. c x = Black"
  shows "cycle_from es keys c \<longleftrightarrow> \<not> acyclic (edge_rel es)"
  using assms
proof (induction keys arbitrary: c)
  case Nil
  then have "{e \<in> edge_rel es. c (fst e) = Black} = edge_rel es" by auto
  with Nil(1) show ?case by (simp add: black_ok_def)
next
  case (Cons n keys)
  let ?R = "edge_rel es"
  show ?case
  proof (cases "c n")
    case White
    obtain b c1 where d: "dfs es (childrenMap es n) (c(n := Gray)) = (b, c1)" by fastforce
    have ok1: "black_ok ?R (c(n := Gray))" using Cons.prems(1) White by (simp add: black_ok_gray)
    show ?thesis
    proof (cases b)
      case True
      have "\<forall>g. (c(n := Gray)) g = Gray \<longrightarrow> (g, n) \<in> ?R\<^sup>*" using Cons.prems(2) by auto
      moreover have "\<forall>x \<in> set (childrenMap es n). (n, x) \<in> ?R" by simp
      moreover have "dfs es (childrenMap es n) (c(n := Gray)) = (True, c1)" using d True by simp
      ultimately have "\<not> acyclic ?R" using dfs_True [OF _ ok1] by blast
      then show ?thesis using White d True by (simp add: visit_def)
    next
      case False
      then have d': "dfs es (childrenMap es n) (c(n := Gray)) = (False, c1)" using d by simp
      have I: "black_ok ?R c1" "\<forall>x. (c(n := Gray)) x = Black \<longrightarrow> c1 x = Black"
        "\<forall>x. c1 x = Gray \<longleftrightarrow> (c(n := Gray)) x = Gray" "\<forall>x \<in> set (childrenMap es n). c1 x = Black"
        using dfs_False [OF d' ok1] by blast+
      have "c1 n = Gray" using I(3) by simp
      have ok2: "black_ok ?R (c1(n := Black))"
        using I(1) by (rule black_ok_blacken) (use I(4) \<open>c1 n = Gray\<close> in auto)
      have "\<forall>x. (c1(n := Black)) x \<noteq> Gray" using I(3) Cons.prems(2) by auto
      moreover have "\<forall>x \<in> Domain ?R - set keys. (c1(n := Black)) x = Black"
        using I(2) Cons.prems(3) by auto
      ultimately have "cycle_from es keys (c1(n := Black)) \<longleftrightarrow> \<not> acyclic ?R"
        using Cons.IH [OF ok2] by blast
      then show ?thesis using White d' by (simp add: visit_def)
    qed
  next
    case Gray
    then show ?thesis using Cons.prems(2) by simp
  next
    case Black
    then have "\<forall>x \<in> Domain ?R - set keys. c x = Black" using Cons.prems(3) by auto
    then have "cycle_from es keys c \<longleftrightarrow> \<not> acyclic ?R" using Cons.IH Cons.prems(1,2) by blast
    then show ?thesis using Black by simp
  qed
qed

lemma cycle_from_keys:
  assumes "set keys = Domain (edge_rel es)"
  shows "cycle_from es keys (\<lambda>_. White) \<longleftrightarrow> \<not> acyclic (edge_rel es)"
  using assms by (intro cycle_from_correct) (auto simp: black_ok_def acyclic_def)

lemma hasDirectedCycle_iff: "hasDirectedCycle es \<longleftrightarrow> \<not> acyclic (edge_rel es)"
  by (simp add: hasDirectedCycle_def cycle_from_keys set_adj_keys)

subsection \<open>Depth-bounded search\<close>

text \<open>
  The loop of \<open>get_subtree\<close>: \<open>visited\<close> maps a node to the depth it was last reached at; a child is
  queued again when it is reached at a smaller depth. The loop stops because each entry added to
  the queue lowers the depth recorded for a node of the graph, and depths beyond \<open>maxDepth\<close> are
  never recorded.
\<close>

definition reached_by :: "(string \<Rightarrow> nat option) \<Rightarrow> string \<Rightarrow> nat \<Rightarrow> bool" where
  \<comment> \<open>\<open>d, ok := visited[child]; ok && d <= nextDepth\<close>\<close>
  "reached_by visited child nextDepth \<longleftrightarrow>
     (case visited child of None \<Rightarrow> False | Some d \<Rightarrow> d \<le> nextDepth)"

fun relax :: "nat \<Rightarrow> (string \<Rightarrow> nat option) \<Rightarrow> string list \<Rightarrow> (string \<Rightarrow> nat option) \<times> (string \<times> nat) list" where
  "relax nextDepth visited [] = (visited, [])"
| "relax nextDepth visited (child # cs) =
     (if reached_by visited child nextDepth then relax nextDepth visited cs
      else (case relax nextDepth (visited(child \<mapsto> nextDepth)) cs of
              (v, q) \<Rightarrow> (v, (child, nextDepth) # q)))"

definition depth_at :: "nat \<Rightarrow> (string \<Rightarrow> nat option) \<Rightarrow> string \<Rightarrow> nat" where
  "depth_at maxDepth v x = (case v x of None \<Rightarrow> Suc maxDepth | Some d \<Rightarrow> min d (Suc maxDepth))"

definition depth_sum :: "FaultTreeEdge list \<Rightarrow> nat \<Rightarrow> (string \<Rightarrow> nat option) \<Rightarrow> nat" where
  "depth_sum es maxDepth v = (\<Sum>x \<in> targets es. depth_at maxDepth v x)"

lemma depth_at_upd:
  "\<not> reached_by v child nd \<Longrightarrow> nd \<le> maxDepth \<Longrightarrow>
     depth_at maxDepth (v(child \<mapsto> nd)) child < depth_at maxDepth v child"
  by (auto simp: depth_at_def reached_by_def split: option.splits)

lemma depth_at_other: "x \<noteq> child \<Longrightarrow> depth_at m (v(child \<mapsto> nd)) x = depth_at m v x"
  by (simp add: depth_at_def)

lemma relax_mono:
  assumes "relax nd v cs = (v', q)" and "nd \<le> maxDepth"
  shows "depth_at maxDepth v' x \<le> depth_at maxDepth v x"
  using assms
proof (induction nd v cs arbitrary: v' q rule: relax.induct)
  case (2 nd v child cs)
  show ?case
  proof (cases "reached_by v child nd")
    case True
    with 2 show ?thesis by simp
  next
    case False
    obtain v1 q1 where r: "relax nd (v(child \<mapsto> nd)) cs = (v1, q1)" by fastforce
    with False "2.prems" have "v' = v1" by simp
    then have "depth_at maxDepth v' x \<le> depth_at maxDepth (v(child \<mapsto> nd)) x"
      using "2.IH"(2) [OF False r "2.prems"(2)] by (simp only:)
    also have "\<dots> \<le> depth_at maxDepth v x"
      using depth_at_upd [OF False "2.prems"(2)] depth_at_other [of x child maxDepth v nd]
      by (cases "x = child") simp_all
    finally show ?thesis .
  qed
qed simp

lemma relax_progress:
  assumes "relax nd v cs = (v', q)" and "q \<noteq> []" and "nd \<le> maxDepth"
  shows "\<exists>x \<in> set cs. depth_at maxDepth v' x < depth_at maxDepth v x"
  using assms
proof (induction nd v cs arbitrary: v' q rule: relax.induct)
  case (2 nd v child cs)
  show ?case
  proof (cases "reached_by v child nd")
    case True
    with 2 show ?thesis by auto
  next
    case False
    obtain v1 q1 where r: "relax nd (v(child \<mapsto> nd)) cs = (v1, q1)" by fastforce
    with False "2.prems" have "v' = v1" by simp
    then have "depth_at maxDepth v' child \<le> depth_at maxDepth (v(child \<mapsto> nd)) child"
      using relax_mono [OF r "2.prems"(3)] by simp
    also have "\<dots> < depth_at maxDepth v child"
      using False "2.prems"(3) by (rule depth_at_upd)
    finally show ?thesis by auto
  qed
qed simp

function subtree_bfs :: "FaultTreeEdge list \<Rightarrow> nat \<Rightarrow> (string \<times> nat) list \<Rightarrow> (string \<Rightarrow> nat option)
    \<Rightarrow> (string \<Rightarrow> nat option)" where
  "subtree_bfs es maxDepth [] visited = visited"
| "subtree_bfs es maxDepth ((cur, depth) # queue) visited =
     (if depth \<ge> maxDepth then subtree_bfs es maxDepth queue visited
      else (case relax (Suc depth) visited (childrenMap es cur) of
              (visited', new) \<Rightarrow> subtree_bfs es maxDepth (queue @ new) visited'))"
  by pat_completeness auto
termination
proof (relation "measures [\<lambda>(es, m, queue, v). depth_sum es m v, \<lambda>(es, m, queue, v). length queue]")
  fix es m cur d and queue :: "(string \<times> nat) list" and v v' new
  assume d: "\<not> m \<le> d" and r: "(v', new) = relax (Suc d) v (childrenMap es cur)"
  show "((es, m, queue @ new, v'), (es, m, (cur, d) # queue, v))
    \<in> measures [\<lambda>(es, m, queue, v). depth_sum es m v, \<lambda>(es, m, queue, v). length queue]"
  proof (cases "new = []")
    case True
    have "depth_sum es m v' \<le> depth_sum es m v"
      unfolding depth_sum_def using relax_mono [OF r [symmetric], of m] d by (intro sum_mono) simp
    then show ?thesis using True by auto
  next
    case False
    then obtain x where "x \<in> set (childrenMap es cur)" "depth_at m v' x < depth_at m v x"
      using relax_progress [OF r [symmetric], of m] d by auto
    moreover have "x \<in> targets es" using calculation(1) childrenMap_targets by blast
    ultimately have "depth_sum es m v' < depth_sum es m v"
      unfolding depth_sum_def using relax_mono [OF r [symmetric], of m] d
      by (intro sum_strict_mono_ex1) auto
    then show ?thesis by simp
  qed
qed auto

subsection \<open>What the searches compute\<close>

text \<open>the cycle test of the safety checks answers true exactly when some node reaches itself
  along edges, whatever the order in which Go walks the keys of the adjacency map.\<close>

theorem cycle_check_exact:
  assumes "set keys = Domain (edge_rel es)"
  shows "cycle_from es keys (\<lambda>_. White) \<longleftrightarrow> (\<exists>x. (x, x) \<in> (edge_rel es)\<^sup>+)"
  unfolding cycle_from_keys [OF assms] by (simp add: acyclic_def)

theorem cycle_check_exact_witness:
  "\<exists>x. (x, x) \<in> (edge_rel [mk_edge ''1'' ''a'' ''b'', mk_edge ''2'' ''b'' ''a''])\<^sup>+"
proof -
  let ?es = "[mk_edge ''1'' ''a'' ''b'', mk_edge ''2'' ''b'' ''a'']"
  have k: "adj_keys ?es = [''a'', ''b'']" by code_simp
  have "set [''b'', ''a''] = set (adj_keys ?es)" unfolding k by (simp only: list.set insert_commute)
  then have "set [''b'', ''a''] = Domain (edge_rel ?es)" by (simp only: set_adj_keys)
  moreover have "cycle_from ?es [''b'', ''a''] (\<lambda>_. White)" by code_simp
  ultimately show ?thesis using cycle_check_exact [of "[''b'', ''a'']" ?es] by blast
qed

text \<open>\<open>collectDescendants\<close> returns every node reachable from the start by at least one edge,
  except the start itself, each once.\<close>

theorem descendants_exact:
  assumes "TrimSpace start \<noteq> ''''"
  shows "distinct (collectDescendants s start) \<and> (x \<in> set (collectDescendants s start) \<longleftrightarrow>
    (TrimSpace start, x) \<in> (erel s)\<^sup>+ \<and> x \<noteq> TrimSpace start)"
  unfolding set_collectDescendants [OF assms]
  by (auto simp: distinct_collectDescendants rtrancl_eq_or_trancl)

theorem descendants_exact_witness:
  "(''a'', ''c'') \<in> (erel (newFaultTreeState [] [mk_edge ''1'' ''a'' ''b'', mk_edge ''2'' ''b'' ''c'']))\<^sup>+"
proof -
  let ?s = "newFaultTreeState [] [mk_edge ''1'' ''a'' ''b'', mk_edge ''2'' ''b'' ''c'']"
  have "TrimSpace ''a'' = ''a''" "''c'' \<in> set (collectDescendants ?s ''a'')" by code_simp+
  then show ?thesis using descendants_exact [of "''a''" ?s "''c''"] by simp
qed

end
