(* ===== verification/Registry.thy ===== *)
theory Registry
  imports Model
begin

text \<open>
  The tool registry of \<open>internal/graph_ops/registry.go\<close>: the definition of every tool the
  agent may call (server tools that read, check or change the graph, client tools that act on the
  canvas, hybrid tools that prepare a preview), the lookup by name, the filters by graph type and
  mode, and the textual guide given to the language model. The parameter schemas are the JSON
  values \<open>mustJSON\<close> marshals.
\<close>

subsection \<open>Tool definitions\<close>

datatype ExecutionTier = TierServer | TierClient | TierHybrid

datatype ToolKind = ToolKindReadContext | ToolKindValidate | ToolKindMutate | ToolKindClientUI
  | ToolKindHybridPreview

fun kind_text :: "ToolKind \<Rightarrow> string" where
  "kind_text ToolKindReadContext = ''read_context''"
| "kind_text ToolKindValidate = ''validate''"
| "kind_text ToolKindMutate = ''mutate''"
| "kind_text ToolKindClientUI = ''client_ui''"
| "kind_text ToolKindHybridPreview = ''hybrid_preview''"

text \<open>The empty kind of the code is \<open>None\<close>.\<close>

record ToolDefinition =
  tool_Name :: string
  tool_Description :: string
  tool_Tier :: ExecutionTier
  tool_Kind :: "ToolKind option"
  tool_ReadOnly :: bool
  tool_MutatesGraph :: bool
  tool_RequiresRead :: bool
  tool_Experimental :: bool
  tool_ProductionReady :: bool
  tool_RequireConfirm :: bool
  tool_ConfirmThreshold :: nat
  tool_PromptExample :: string
  tool_Parameters :: json
  tool_GraphTypes :: "string list"

definition tool_update_node :: ToolDefinition where
  \<open>tool_update_node = \<lparr>
     tool_Name = ''update_node'',
     tool_Description = ''Update node basic attributes such as name, description, and investigate method'',
     tool_Tier = TierServer,
     tool_Kind = None,
     tool_ReadOnly = False,
     tool_MutatesGraph = True,
     tool_RequiresRead = True,
     tool_Experimental = False,
     tool_ProductionReady = False,
     tool_RequireConfirm = False,
     tool_ConfirmThreshold = 0,
     tool_PromptExample = (''{"nodeId":"n1","name":"'' @ [CHR 0xE4, CHR 0xBF, CHR 0xAE, CHR 0xE6,
       CHR 0xAD, CHR 0xA3, CHR 0xE5, CHR 0x90, CHR 0x8E, CHR 0xE7, CHR 0x9A, CHR 0x84, CHR 0xE8,
       CHR 0x8A, CHR 0x82, CHR 0xE7, CHR 0x82, CHR 0xB9, CHR 0xE5, CHR 0x90, CHR 0x8D, CHR 0xE7,
       CHR 0xA7, CHR 0xB0] @ ''"}''),
     tool_Parameters = (JObj [(''properties'', (JObj [(''description'', (JObj [(''maxLength'',
       (JNum ''2000'' 2000 (Some 2000))), (''type'', (JStr ''string''))])),
       (''investigateMethod'', (JObj [(''maxLength'', (JNum ''2000'' 2000 (Some 2000))),
       (''type'', (JStr ''string''))])), (''name'', (JObj [(''maxLength'',
       (JNum ''60'' 60 (Some 60))), (''type'', (JStr ''string''))])), (''nodeId'',
       (JObj [(''type'', (JStr ''string''))]))])), (''required'', (JArr [(JStr ''nodeId'')])),
       (''type'', (JStr ''object''))]),
     tool_GraphTypes = [''faultTree''] \<rparr>\<close>

definition tool_update_gate :: ToolDefinition where
  \<open>tool_update_gate = \<lparr>
     tool_Name = ''update_gate'',
     tool_Description = ''Change gate type of a gate node'',
     tool_Tier = TierServer,
     tool_Kind = None,
     tool_ReadOnly = False,
     tool_MutatesGraph = True,
     tool_RequiresRead = True,
     tool_Experimental = False,
     tool_ProductionReady = False,
     tool_RequireConfirm = False,
     tool_ConfirmThreshold = 0,
     tool_PromptExample = ''{"nodeId":"g1","gateType":"OR"}'',
     tool_Parameters = (JObj [(''properties'', (JObj [(''gateType'', (JObj [(''enum'',
       (JArr [(JStr ''AND''), (JStr ''OR''), (JStr ''NOT'')])), (''type'', (JStr ''string''))])),
       (''nodeId'', (JObj [(''type'', (JStr ''string''))]))])), (''required'',
       (JArr [(JStr ''nodeId''), (JStr ''gateType'')])), (''type'', (JStr ''object''))]),
     tool_GraphTypes = [''faultTree''] \<rparr>\<close>

definition tool_add_node :: ToolDefinition where
  \<open>tool_add_node = \<lparr>
     tool_Name = ''add_node'',
     tool_Description = ''Add a new event node (top/mid/basic) and attach to a valid parent'',
     tool_Tier = TierServer,
     tool_Kind = None,
     tool_ReadOnly = False,
     tool_MutatesGraph = True,
     tool_RequiresRead = True,
     tool_Experimental = False,
     tool_ProductionReady = False,
     tool_RequireConfirm = False,
     tool_ConfirmThreshold = 0,
     tool_PromptExample = (''{"name":"'' @ [CHR 0xE6, CHR 0xB3, CHR 0xB5, CHR 0xE5, CHR 0xA4,
       CHR 0xB1, CHR 0xE6, CHR 0x95, CHR 0x88] @ ''","nodeType":"basicEvent","parentId":"g1"}''),
     tool_Parameters = (JObj [(''properties'', (JObj [(''description'', (JObj [(''maxLength'',
       (JNum ''2000'' 2000 (Some 2000))), (''type'', (JStr ''string''))])), (''name'',
       (JObj [(''maxLength'', (JNum ''60'' 60 (Some 60))), (''type'', (JStr ''string''))])),
       (''nodeType'', (JObj [(''enum'', (JArr [(JStr ''topEvent''), (JStr ''midEvent''),
       (JStr ''basicEvent'')])), (''type'', (JStr ''string''))])), (''parentId'',
       (JObj [(''type'', (JStr ''string''))]))])), (''required'', (JArr [(JStr ''name''),
       (JStr ''nodeType'')])), (''type'', (JStr ''object''))]),
     tool_GraphTypes = [''faultTree''] \<rparr>\<close>

definition tool_add_gate :: ToolDefinition where
  \<open>tool_add_gate = \<lparr>
     tool_Name = ''add_gate'',
     tool_Description = ''Insert a gate node and rewire children under it'',
     tool_Tier = TierServer,
     tool_Kind = None,
     tool_ReadOnly = False,
     tool_MutatesGraph = True,
     tool_RequiresRead = True,
     tool_Experimental = False,
     tool_ProductionReady = False,
     tool_RequireConfirm = False,
     tool_ConfirmThreshold = 0,
     tool_PromptExample = ''{"gateType":"AND","parentId":"p1","childIds":["c1","c2"]}'',
     tool_Parameters = (JObj [(''properties'', (JObj [(''childIds'', (JObj [(''items'',
       (JObj [(''type'', (JStr ''string''))])), (''type'', (JStr ''array''))])), (''gateType'',
       (JObj [(''enum'', (JArr [(JStr ''AND''), (JStr ''OR''), (JStr ''NOT'')])), (''type'',
       (JStr ''string''))])), (''parentId'', (JObj [(''type'', (JStr ''string''))]))])),
       (''required'', (JArr [(JStr ''gateType''), (JStr ''parentId''), (JStr ''childIds'')])),
       (''type'', (JStr ''object''))]),
     tool_GraphTypes = [''faultTree''] \<rparr>\<close>

definition tool_delete_node :: ToolDefinition where
  \<open>tool_delete_node = \<lparr>
     tool_Name = ''delete_node'',
     tool_Description = ''Delete a node and optionally delete all descendants'',
     tool_Tier = TierServer,
     tool_Kind = None,
     tool_ReadOnly = False,
     tool_MutatesGraph = True,
     tool_RequiresRead = True,
     tool_Experimental = False,
     tool_ProductionReady = False,
     tool_RequireConfirm = True,
     tool_ConfirmThreshold = 0,
     tool_PromptExample = ''{"nodeId":"n1","deleteChildren":false}'',
     tool_Parameters = (JObj [(''properties'', (JObj [(''deleteChildren'', (JObj [(''type'',
       (JStr ''boolean''))])), (''nodeId'', (JObj [(''type'', (JStr ''string''))]))])),
       (''required'', (JArr [(JStr ''nodeId'')])), (''type'', (JStr ''object''))]),
     tool_GraphTypes = [''faultTree''] \<rparr>\<close>

definition tool_move_node :: ToolDefinition where
  \<open>tool_move_node = \<lparr>
     tool_Name = ''move_node'',
     tool_Description = ''Change the parent node of a node'',
     tool_Tier = TierServer,
     tool_Kind = None,
     tool_ReadOnly = False,
     tool_MutatesGraph = True,
     tool_RequiresRead = True,
     tool_Experimental = False,
     tool_ProductionReady = False,
     tool_RequireConfirm = False,
     tool_ConfirmThreshold = 0,
     tool_PromptExample = ''{"nodeId":"n1","newParentId":"g2"}'',
     tool_Parameters = (JObj [(''properties'', (JObj [(''newParentId'', (JObj [(''type'',
       (JStr ''string''))])), (''nodeId'', (JObj [(''type'', (JStr ''string''))]))])),
       (''required'', (JArr [(JStr ''nodeId''), (JStr ''newParentId'')])), (''type'',
       (JStr ''object''))]),
     tool_GraphTypes = [''faultTree''] \<rparr>\<close>

definition tool_batch_operations :: ToolDefinition where
  \<open>tool_batch_operations = \<lparr>
     tool_Name = ''batch_operations'',
     tool_Description = ''Execute multiple server operations atomically; supports repairMode for phased restructuring'',
     tool_Tier = TierServer,
     tool_Kind = None,
     tool_ReadOnly = False,
     tool_MutatesGraph = True,
     tool_RequiresRead = True,
     tool_Experimental = False,
     tool_ProductionReady = False,
     tool_RequireConfirm = True,
     tool_ConfirmThreshold = 5,
     tool_PromptExample = (''{"operations":[{"tool":"update_node","args":{"nodeId":"n1","name":"'' @ [
       CHR 0xE6, CHR 0x96, CHR 0xB0, CHR 0xE5, CHR 0x90, CHR 0x8D, CHR 0xE7, CHR 0xA7,
       CHR 0xB0] @ ''"}}],"repairMode":false}''),
     tool_Parameters = (JObj [(''properties'', (JObj [(''operations'', (JObj [(''items'',
       (JObj [(''properties'', (JObj [(''args'', (JObj [(''type'', (JStr ''object''))])),
       (''tool'', (JObj [(''type'', (JStr ''string''))]))])), (''required'',
       (JArr [(JStr ''tool''), (JStr ''args'')])), (''type'', (JStr ''object''))])), (''type'',
       (JStr ''array''))])), (''repairMode'', (JObj [(''description'',
       (JStr ''Allow intermediate invalid states during phased repairs; only fatal graph errors remain blocking.'')),
       (''type'', (JStr ''boolean''))]))])), (''required'', (JArr [(JStr ''operations'')])),
       (''type'', (JStr ''object''))]),
     tool_GraphTypes = [''faultTree''] \<rparr>\<close>

definition tool_get_graph_snapshot :: ToolDefinition where
  \<open>tool_get_graph_snapshot = \<lparr>
     tool_Name = ''get_graph_snapshot'',
     tool_Description = ''Read full fault-tree snapshot (nodes and edges) for reasoning and verification'',
     tool_Tier = TierServer,
     tool_Kind = None,
     tool_ReadOnly = True,
     tool_MutatesGraph = False,
     tool_RequiresRead = False,
     tool_Experimental = False,
     tool_ProductionReady = False,
     tool_RequireConfirm = False,
     tool_ConfirmThreshold = 0,
     tool_PromptExample = ''{}'',
     tool_Parameters = (JObj [(''properties'', (JObj [(''maxEdges'', (JObj [(''maximum'',
       (JNum ''3000'' 3000 (Some 3000))), (''minimum'', (JNum ''1'' 1 (Some 1))), (''type'',
       (JStr ''integer''))])), (''maxNodes'', (JObj [(''maximum'',
       (JNum ''2000'' 2000 (Some 2000))), (''minimum'', (JNum ''1'' 1 (Some 1))), (''type'',
       (JStr ''integer''))]))])), (''type'', (JStr ''object''))]),
     tool_GraphTypes = [''faultTree''] \<rparr>\<close>

definition tool_get_node_detail :: ToolDefinition where
  \<open>tool_get_node_detail = \<lparr>
     tool_Name = ''get_node_detail'',
     tool_Description = ''Read one node detail with incoming/outgoing relations'',
     tool_Tier = TierServer,
     tool_Kind = None,
     tool_ReadOnly = True,
     tool_MutatesGraph = False,
     tool_RequiresRead = False,
     tool_Experimental = False,
     tool_ProductionReady = False,
     tool_RequireConfirm = False,
     tool_ConfirmThreshold = 0,
     tool_PromptExample = ''{"nodeId":"n1"}'',
     tool_Parameters = (JObj [(''properties'', (JObj [(''nodeId'', (JObj [(''type'',
       (JStr ''string''))]))])), (''required'', (JArr [(JStr ''nodeId'')])), (''type'',
       (JStr ''object''))]),
     tool_GraphTypes = [''faultTree''] \<rparr>\<close>

definition tool_get_subtree :: ToolDefinition where
  \<open>tool_get_subtree = \<lparr>
     tool_Name = ''get_subtree'',
     tool_Description = ''Read subtree rooted at a node for focused analysis'',
     tool_Tier = TierServer,
     tool_Kind = None,
     tool_ReadOnly = True,
     tool_MutatesGraph = False,
     tool_RequiresRead = False,
     tool_Experimental = False,
     tool_ProductionReady = False,
     tool_RequireConfirm = False,
     tool_ConfirmThreshold = 0,
     tool_PromptExample = ''{"rootNodeId":"n1","maxDepth":3}'',
     tool_Parameters = (JObj [(''properties'', (JObj [(''maxDepth'', (JObj [(''maximum'',
       (JNum ''8'' 8 (Some 8))), (''minimum'', (JNum ''1'' 1 (Some 1))), (''type'',
       (JStr ''integer''))])), (''rootNodeId'', (JObj [(''type'', (JStr ''string''))]))])),
       (''required'', (JArr [(JStr ''rootNodeId'')])), (''type'', (JStr ''object''))]),
     tool_GraphTypes = [''faultTree''] \<rparr>\<close>

definition tool_check_gate_semantics :: ToolDefinition where
  \<open>tool_check_gate_semantics = \<lparr>
     tool_Name = ''check_gate_semantics'',
     tool_Description = ''Check gate semantics (AND/OR/NOT validity and child cardinality)'',
     tool_Tier = TierServer,
     tool_Kind = None,
     tool_ReadOnly = True,
     tool_MutatesGraph = False,
     tool_RequiresRead = False,
     tool_Experimental = False,
     tool_ProductionReady = False,
     tool_RequireConfirm = False,
     tool_ConfirmThreshold = 0,
     tool_PromptExample = ''{"nodeId":"g1"}'',
     tool_Parameters = (JObj [(''properties'', (JObj [(''nodeId'', (JObj [(''type'',
       (JStr ''string''))]))])), (''type'', (JStr ''object''))]),
     tool_GraphTypes = [''faultTree''] \<rparr>\<close>

definition tool_validate_fta_constraints :: ToolDefinition where
  \<open>tool_validate_fta_constraints = \<lparr>
     tool_Name = ''validate_fta_constraints'',
     tool_Description = ''Validate IEC61025-oriented fault-tree constraints and return issues'',
     tool_Tier = TierServer,
     tool_Kind = None,
     tool_ReadOnly = True,
     tool_MutatesGraph = False,
     tool_RequiresRead = False,
     tool_Experimental = False,
     tool_ProductionReady = False,
     tool_RequireConfirm = False,
     tool_ConfirmThreshold = 0,
     tool_PromptExample = ''{}'',
     tool_Parameters = (JObj [(''properties'', (JObj [])), (''type'', (JStr ''object''))]),
     tool_GraphTypes = [''faultTree''] \<rparr>\<close>

definition tool_highlight_nodes :: ToolDefinition where
  \<open>tool_highlight_nodes = \<lparr>
     tool_Name = ''highlight_nodes'',
     tool_Description = ''Highlight nodes on canvas'',
     tool_Tier = TierClient,
     tool_Kind = None,
     tool_ReadOnly = True,
     tool_MutatesGraph = False,
     tool_RequiresRead = False,
     tool_Experimental = False,
     tool_ProductionReady = False,
     tool_RequireConfirm = False,
     tool_ConfirmThreshold = 0,
     tool_PromptExample = ''{"nodeIds":["n1","n2"],"color":"#ff9800"}'',
     tool_Parameters = (JObj [(''properties'', (JObj [(''color'', (JObj [(''type'',
       (JStr ''string''))])), (''nodeIds'', (JObj [(''items'', (JObj [(''type'',
       (JStr ''string''))])), (''type'', (JStr ''array''))]))])), (''required'',
       (JArr [(JStr ''nodeIds'')])), (''type'', (JStr ''object''))]),
     tool_GraphTypes = [''faultTree'', ''knowledgeGraph''] \<rparr>\<close>

definition tool_locate_node :: ToolDefinition where
  \<open>tool_locate_node = \<lparr>
     tool_Name = ''locate_node'',
     tool_Description = ''Focus viewport to a node'',
     tool_Tier = TierClient,
     tool_Kind = None,
     tool_ReadOnly = True,
     tool_MutatesGraph = False,
     tool_RequiresRead = False,
     tool_Experimental = False,
     tool_ProductionReady = False,
     tool_RequireConfirm = False,
     tool_ConfirmThreshold = 0,
     tool_PromptExample = ''{"nodeId":"n1"}'',
     tool_Parameters = (JObj [(''properties'', (JObj [(''nodeId'', (JObj [(''type'',
       (JStr ''string''))]))])), (''required'', (JArr [(JStr ''nodeId'')])), (''type'',
       (JStr ''object''))]),
     tool_GraphTypes = [''faultTree'', ''knowledgeGraph''] \<rparr>\<close>

definition tool_expand_subtree :: ToolDefinition where
  \<open>tool_expand_subtree = \<lparr>
     tool_Name = ''expand_subtree'',
     tool_Description = ''Expand a node subtree'',
     tool_Tier = TierClient,
     tool_Kind = None,
     tool_ReadOnly = True,
     tool_MutatesGraph = False,
     tool_RequiresRead = False,
     tool_Experimental = False,
     tool_ProductionReady = False,
     tool_RequireConfirm = False,
     tool_ConfirmThreshold = 0,
     tool_PromptExample = ''{"nodeId":"n1"}'',
     tool_Parameters = (JObj [(''properties'', (JObj [(''nodeId'', (JObj [(''type'',
       (JStr ''string''))]))])), (''required'', (JArr [(JStr ''nodeId'')])), (''type'',
       (JStr ''object''))]),
     tool_GraphTypes = [''faultTree'', ''knowledgeGraph''] \<rparr>\<close>

definition tool_collapse_subtree :: ToolDefinition where
  \<open>tool_collapse_subtree = \<lparr>
     tool_Name = ''collapse_subtree'',
     tool_Description = ''Collapse a node subtree'',
     tool_Tier = TierClient,
     tool_Kind = None,
     tool_ReadOnly = True,
     tool_MutatesGraph = False,
     tool_RequiresRead = False,
     tool_Experimental = False,
     tool_ProductionReady = False,
     tool_RequireConfirm = False,
     tool_ConfirmThreshold = 0,
     tool_PromptExample = ''{"nodeId":"n1"}'',
     tool_Parameters = (JObj [(''properties'', (JObj [(''nodeId'', (JObj [(''type'',
       (JStr ''string''))]))])), (''required'', (JArr [(JStr ''nodeId'')])), (''type'',
       (JStr ''object''))]),
     tool_GraphTypes = [''faultTree'', ''knowledgeGraph''] \<rparr>\<close>

definition tool_show_node_detail :: ToolDefinition where
  \<open>tool_show_node_detail = \<lparr>
     tool_Name = ''show_node_detail'',
     tool_Description = ''Open node detail panel'',
     tool_Tier = TierClient,
     tool_Kind = None,
     tool_ReadOnly = True,
     tool_MutatesGraph = False,
     tool_RequiresRead = False,
     tool_Experimental = False,
     tool_ProductionReady = False,
     tool_RequireConfirm = False,
     tool_ConfirmThreshold = 0,
     tool_PromptExample = ''{"nodeId":"n1"}'',
     tool_Parameters = (JObj [(''properties'', (JObj [(''nodeId'', (JObj [(''type'',
       (JStr ''string''))]))])), (''required'', (JArr [(JStr ''nodeId'')])), (''type'',
       (JStr ''object''))]),
     tool_GraphTypes = [''faultTree'', ''knowledgeGraph''] \<rparr>\<close>

definition tool_preview_layout :: ToolDefinition where
  \<open>tool_preview_layout = \<lparr>
     tool_Name = ''preview_layout'',
     tool_Description = ''Preview an alternate layout without persisting'',
     tool_Tier = TierClient,
     tool_Kind = None,
     tool_ReadOnly = True,
     tool_MutatesGraph = False,
     tool_RequiresRead = False,
     tool_Experimental = False,
     tool_ProductionReady = False,
     tool_RequireConfirm = False,
     tool_ConfirmThreshold = 0,
     tool_PromptExample = ''{"layout":{"mode":"hierarchical"}}'',
     tool_Parameters = (JObj [(''properties'', (JObj [(''layout'', (JObj [(''type'',
       (JStr ''object''))]))])), (''type'', (JStr ''object''))]),
     tool_GraphTypes = [''faultTree'', ''knowledgeGraph''] \<rparr>\<close>

definition tool_annotate_node :: ToolDefinition where
  \<open>tool_annotate_node = \<lparr>
     tool_Name = ''annotate_node'',
     tool_Description = ''Attach temporary annotation on node'',
     tool_Tier = TierClient,
     tool_Kind = None,
     tool_ReadOnly = True,
     tool_MutatesGraph = False,
     tool_RequiresRead = False,
     tool_Experimental = False,
     tool_ProductionReady = False,
     tool_RequireConfirm = False,
     tool_ConfirmThreshold = 0,
     tool_PromptExample = (''{"nodeId":"n1","text":"'' @ [CHR 0xE5, CHR 0xBB, CHR 0xBA, CHR 0xE8,
       CHR 0xAE, CHR 0xAE, CHR 0xE8, CHR 0xA1, CHR 0xA5, CHR 0xE5, CHR 0x85, CHR 0x85, CHR 0xE8,
       CHR 0xBE, CHR 0xB9, CHR 0xE7, CHR 0x95, CHR 0x8C, CHR 0xE6, CHR 0x9D, CHR 0xA1, CHR 0xE4,
       CHR 0xBB, CHR 0xB6] @ ''"}''),
     tool_Parameters = (JObj [(''properties'', (JObj [(''nodeId'', (JObj [(''type'',
       (JStr ''string''))])), (''text'', (JObj [(''maxLength'', (JNum ''200'' 200 (Some 200))),
       (''type'', (JStr ''string''))]))])), (''required'', (JArr [(JStr ''nodeId''),
       (JStr ''text'')])), (''type'', (JStr ''object''))]),
     tool_GraphTypes = [''faultTree'', ''knowledgeGraph''] \<rparr>\<close>

definition tool_suggest_batch_label_fix :: ToolDefinition where
  \<open>tool_suggest_batch_label_fix = \<lparr>
     tool_Name = ''suggest_batch_label_fix'',
     tool_Description = ''Suggest batch label cleanup operations'',
     tool_Tier = TierHybrid,
     tool_Kind = None,
     tool_ReadOnly = False,
     tool_MutatesGraph = False,
     tool_RequiresRead = True,
     tool_Experimental = True,
     tool_ProductionReady = True,
     tool_RequireConfirm = False,
     tool_ConfirmThreshold = 0,
     tool_PromptExample = ''{}'',
     tool_Parameters = (JObj [(''properties'', (JObj [])), (''type'', (JStr ''object''))]),
     tool_GraphTypes = [''faultTree''] \<rparr>\<close>

definition tool_suggest_gate_corrections :: ToolDefinition where
  \<open>tool_suggest_gate_corrections = \<lparr>
     tool_Name = ''suggest_gate_corrections'',
     tool_Description = ''Suggest gate corrections based on topology hints'',
     tool_Tier = TierHybrid,
     tool_Kind = None,
     tool_ReadOnly = False,
     tool_MutatesGraph = False,
     tool_RequiresRead = True,
     tool_Experimental = True,
     tool_ProductionReady = False,
     tool_RequireConfirm = False,
     tool_ConfirmThreshold = 0,
     tool_PromptExample = ''{}'',
     tool_Parameters = (JObj [(''properties'', (JObj [])), (''type'', (JStr ''object''))]),
     tool_GraphTypes = [''faultTree''] \<rparr>\<close>

definition tool_suggest_layout_optimization :: ToolDefinition where
  \<open>tool_suggest_layout_optimization = \<lparr>
     tool_Name = ''suggest_layout_optimization'',
     tool_Description = ''Suggest layout optimization preview'',
     tool_Tier = TierHybrid,
     tool_Kind = None,
     tool_ReadOnly = False,
     tool_MutatesGraph = False,
     tool_RequiresRead = True,
     tool_Experimental = True,
     tool_ProductionReady = False,
     tool_RequireConfirm = False,
     tool_ConfirmThreshold = 0,
     tool_PromptExample = ''{}'',
     tool_Parameters = (JObj [(''properties'', (JObj [])), (''type'', (JStr ''object''))]),
     tool_GraphTypes = [''faultTree''] \<rparr>\<close>

definition tool_suggest_node_merge :: ToolDefinition where
  \<open>tool_suggest_node_merge = \<lparr>
     tool_Name = ''suggest_node_merge'',
     tool_Description = ''Suggest duplicate node merge candidates'',
     tool_Tier = TierHybrid,
     tool_Kind = None,
     tool_ReadOnly = False,
     tool_MutatesGraph = False,
     tool_RequiresRead = True,
     tool_Experimental = True,
     tool_ProductionReady = False,
     tool_RequireConfirm = False,
     tool_ConfirmThreshold = 0,
     tool_PromptExample = ''{}'',
     tool_Parameters = (JObj [(''properties'', (JObj [])), (''type'', (JStr ''object''))]),
     tool_GraphTypes = [''faultTree''] \<rparr>\<close>

definition toolRegistry :: "ToolDefinition list" where
  "toolRegistry = [
     tool_update_node,
     tool_update_gate,
     tool_add_node,
     tool_add_gate,
     tool_delete_node,
     tool_move_node,
     tool_batch_operations,
     tool_get_graph_snapshot,
     tool_get_node_detail,
     tool_get_subtree,
     tool_check_gate_semantics,
     tool_validate_fta_constraints,
     tool_highlight_nodes,
     tool_locate_node,
     tool_expand_subtree,
     tool_collapse_subtree,
     tool_show_node_detail,
     tool_preview_layout,
     tool_annotate_node,
     tool_suggest_batch_label_fix,
     tool_suggest_gate_corrections,
     tool_suggest_layout_optimization,
     tool_suggest_node_merge]"

subsection \<open>Lookup and filters\<close>

definition normalizeToolDefinition :: "ToolDefinition \<Rightarrow> ToolDefinition" where
  "normalizeToolDefinition def = (if tool_Kind def \<noteq> None then def else
     let n = ToLower (TrimSpace (tool_Name def)) in
     if n \<in> {''get_graph_snapshot'', ''get_node_detail'', ''get_subtree''}
       then def\<lparr>tool_Kind := Some ToolKindReadContext\<rparr>
     else if n \<in> {''check_gate_semantics'', ''validate_fta_constraints''}
       then def\<lparr>tool_Kind := Some ToolKindValidate\<rparr>
     else (case tool_Tier def of
         TierHybrid \<Rightarrow> def\<lparr>tool_Kind := Some ToolKindHybridPreview\<rparr>
       | TierClient \<Rightarrow> def\<lparr>tool_Kind := Some ToolKindClientUI\<rparr>
       | TierServer \<Rightarrow> if tool_MutatesGraph def then def\<lparr>tool_Kind := Some ToolKindMutate\<rparr> else def))"

definition GetTool :: "string \<Rightarrow> ToolDefinition option" where
  "GetTool name = map_option normalizeToolDefinition
     (find (\<lambda>def. EqualFold (tool_Name def) (ToLower (TrimSpace name))) toolRegistry)"

definition supportsGraphType :: "string list \<Rightarrow> string \<Rightarrow> bool" where
  "supportsGraphType allowed graphType \<longleftrightarrow>
     allowed = [] \<or> list_ex (\<lambda>item. EqualFold (TrimSpace item) (TrimSpace graphType)) allowed"

definition ToolSupportsGraphType :: "ToolDefinition option \<Rightarrow> string \<Rightarrow> bool" where
  "ToolSupportsGraphType def graphType =
     (case def of None \<Rightarrow> False | Some d \<Rightarrow> supportsGraphType (tool_GraphTypes d) graphType)"

definition GetToolsForGraphType :: "string \<Rightarrow> ToolDefinition list" where
  "GetToolsForGraphType graphType =
     map normalizeToolDefinition
       (filter (\<lambda>def. supportsGraphType (tool_GraphTypes def) (TrimSpace graphType)) toolRegistry)"

definition keepForMode :: "bool \<Rightarrow> bool \<Rightarrow> ToolDefinition \<Rightarrow> bool" where
  "keepForMode readOnly includeHybridTools def =
     (if tool_Tier def = TierHybrid \<and> \<not> includeHybridTools then False
      else if readOnly \<and> tool_MutatesGraph def then False
      else if readOnly \<and> tool_Tier def = TierHybrid then False
      else if readOnly \<and> (EqualFold (tool_Name def) ''annotate_node''
                          \<or> EqualFold (tool_Name def) ''preview_layout'') then False
      else True)"

definition FilterToolsForMode :: "string \<Rightarrow> bool \<Rightarrow> bool \<Rightarrow> ToolDefinition list" where
  "FilterToolsForMode graphType readOnly includeHybridTools =
     filter (keepForMode readOnly includeHybridTools) (GetToolsForGraphType graphType)"

definition ToolMutatesGraph :: "string \<Rightarrow> bool" where
  "ToolMutatesGraph toolName =
     (case GetTool toolName of None \<Rightarrow> False | Some def \<Rightarrow> tool_MutatesGraph def)"

definition ToolIsReadContext :: "string \<Rightarrow> bool" where
  "ToolIsReadContext toolName =
     (case GetTool toolName of None \<Rightarrow> False
      | Some def \<Rightarrow> tool_Kind def = Some ToolKindReadContext)"

subsection \<open>The prompt guide\<close>

fun fmt_v :: "json \<Rightarrow> string" where
  \<comment> \<open>\<open>fmt.Sprintf("%v", x)\<close> of a decoded value\<close>
  "fmt_v JNull = ''<nil>''"
| "fmt_v (JBool b) = (if b then ''true'' else ''false'')"
| "fmt_v (JNum text _ _) = text"
| "fmt_v (JStr s) = s"
| "fmt_v (JArr vs) = ''['' @ Join (map fmt_v vs) '' '' @ '']''"
| "fmt_v (JObj m) = ''map['' @ Join (map (\<lambda>(k, t). k @ '':'' @ t)
     (map_members (map (\<lambda>(k, v). (k, fmt_v v)) m))) '' '' @ '']''"

definition requiredParamNames :: "json \<Rightarrow> string list" where
  "requiredParamNames schema =
     (case schema of
       JObj m \<Rightarrow>
         (case member_of m ''required'' of
           Some (JArr required) \<Rightarrow>
             sort (filter (\<lambda>s. s \<noteq> '''') (map (\<lambda>item. TrimSpace (fmt_v item)) required))
         | _ \<Rightarrow> [])
     | _ \<Rightarrow> [])"

definition tool_flags :: "ToolDefinition \<Rightarrow> string list" where
  "tool_flags def =
     (let flags = (if tool_ReadOnly def then [''read_only''] else [])
        @ (if tool_MutatesGraph def then [''mutates_graph''] else [])
        @ (if tool_RequiresRead def then [''requires_read''] else [])
        @ (if tool_RequireConfirm def then [''requires_confirm''] else [])
        @ (if tool_Experimental def then [''experimental''] else [])
        @ (if tool_ProductionReady def then [''production_ready''] else [])
      in if flags = [] then [''none''] else flags)"

definition guide_line :: "ToolDefinition \<Rightarrow> string" where
  "guide_line def =
     (let required = requiredParamNames (tool_Parameters def);
          requiredHint = (if required \<noteq> [] then Join required '','' else ''none'')
      in ''- '' @ tool_Name def @ '' | required=['' @ requiredHint @ ''] | flags=[''
         @ Join (tool_flags def) '','' @ ''] | '' @ TrimSpace (tool_Description def))"

definition guide_header :: "string list" where
  "guide_header = [
     ''Use only tools listed below; names and parameters are authoritative.'',
     ''Contract order for graph edits: read_context -> validate -> mutate -> validate.'',
     ''When validate finds issue codes, convert them to concrete mutation actions instead of repeating identical read calls.'',
     ''Quick repair hints: BASIC_EVENT_AS_PARENT/BASIC_EVENT_HAS_CHILDREN -> move_node or add_gate; GATE_CHILD_COUNT_TOO_LOW -> add_node/update_gate; CYCLE_DETECTED -> move_node/delete_node.'']"

definition kind_order :: "ToolKind list" where
  "kind_order = [ToolKindReadContext, ToolKindValidate, ToolKindMutate, ToolKindClientUI,
     ToolKindHybridPreview]"

definition guide_group :: "ToolDefinition list \<Rightarrow> ToolKind \<Rightarrow> string list" where
  "guide_group defs kind =
     (let items = filter (\<lambda>def. tool_Kind def = Some kind) (map normalizeToolDefinition defs)
      in if items = [] then [] else (''['' @ kind_text kind @ '']'') # map guide_line items)"

definition guide_lines :: "ToolDefinition list \<Rightarrow> string list" where
  "guide_lines defs = guide_header @ concat (map (guide_group defs) kind_order)"

definition BuildToolPromptGuide :: "ToolDefinition list \<Rightarrow> string" where
  "BuildToolPromptGuide defs =
     (if defs = [] then ''No tool is available for this turn.''
      else Join (guide_lines defs) [CHR 0x0A])"

record OAIToolDef =
  oai_Type :: string
  oai_Name :: string
  oai_Description :: string
  oai_Parameters :: json

definition ToOAITools :: "ToolDefinition list \<Rightarrow> OAIToolDef list" where
  "ToOAITools defs = map (\<lambda>def. \<lparr> oai_Type = ''function'', oai_Name = tool_Name def,
     oai_Description = tool_Description def, oai_Parameters = tool_Parameters def \<rparr>) defs"

end
