(* ===== verification/Validator.thy ===== *)
theory Validator
  imports Registry
begin

text \<open>
  Parameter validation of tool calls (\<open>internal/graph_ops/validator.go\<close>). The payload is the
  decoded JSON object of the call. \<open>batch_operations\<close> validates its operations recursively; the
  recursion ends because the arguments of an operation are a part of the batch's payload.
\<close>

subsection \<open>Reading a payload\<close>

definition anyToString :: "json \<Rightarrow> string" where
  "anyToString v = (case v of JStr s \<Rightarrow> s
     | _ \<Rightarrow> rev (dropWhile (\<lambda>c. c = CHR 0x22) (rev (dropWhile (\<lambda>c. c = CHR 0x22) (Marshal v)))))"

definition strFrom :: "payload \<Rightarrow> string \<Rightarrow> string" where
  "strFrom m key = (case member_of m key of None \<Rightarrow> '''' | Some v \<Rightarrow> TrimSpace (anyToString v))"

definition strSliceFrom :: "payload \<Rightarrow> string \<Rightarrow> string list" where
  "strSliceFrom m key = (case member_of m key of
     Some (JArr arr) \<Rightarrow> filter (\<lambda>s. s \<noteq> '''') (map (\<lambda>item. TrimSpace (anyToString item)) arr)
   | _ \<Rightarrow> [])"

definition addGateChildIDs :: "payload \<Rightarrow> string list" where
  "addGateChildIDs m =
     (if strSliceFrom m ''childIds'' \<noteq> [] then strSliceFrom m ''childIds''
      else if strSliceFrom m ''childNodeIds'' \<noteq> [] then strSliceFrom m ''childNodeIds''
      else strSliceFrom m ''children'')"

fun obj_members :: "json \<Rightarrow> payload option" where
  "obj_members (JObj m) = Some m"
| "obj_members _ = None"

definition objectSliceFrom :: "payload \<Rightarrow> string \<Rightarrow> payload list" where
  "objectSliceFrom m key = (case member_of m key of
     Some (JArr arr) \<Rightarrow> List.map_filter obj_members arr
   | _ \<Rightarrow> [])"

definition intFrom :: "payload \<Rightarrow> string \<Rightarrow> int option" where
  "intFrom m key = (case member_of m key of Some (JNum _ t _) \<Rightarrow> Some t | _ \<Rightarrow> None)"

definition isValidGateType :: "string \<Rightarrow> bool" where
  "isValidGateType s \<longleftrightarrow> ToUpper (TrimSpace s) \<in> {''AND'', ''OR'', ''NOT''}"

definition isValidNodeType :: "string \<Rightarrow> bool" where
  "isValidNodeType s \<longleftrightarrow> TrimSpace s \<in> {''topEvent'', ''midEvent'', ''basicEvent'', ''gate''}"

definition isValidAddNodeType :: "string \<Rightarrow> bool" where
  "isValidAddNodeType s \<longleftrightarrow> TrimSpace s \<in> {''topEvent'', ''midEvent'', ''basicEvent''}"

definition SanitizeStringParam :: "string \<Rightarrow> nat \<Rightarrow> string" where
  "SanitizeStringParam s maxLen =
     (let trimmed = TrimSpace (filter (\<lambda>c. c \<noteq> CHR 0x00) s)
      in if 0 < maxLen \<and> maxLen < length (runes trimmed)
         then concat (take maxLen (runes trimmed)) else trimmed)"

text \<open>The result never has more characters than the limit, and cutting never empties a name that
  is not blank.\<close>

lemma SanitizeStringParam_bound:
  assumes "0 < maxLen"
  shows "length (runes (SanitizeStringParam s maxLen)) \<le> maxLen"
  using assms by (simp add: SanitizeStringParam_def Let_def runes_prefix)

lemma SanitizeStringParam_empty_iff:
  assumes "0 < maxLen"
  shows "SanitizeStringParam s maxLen = '''' \<longleftrightarrow> TrimSpace (filter (\<lambda>c. c \<noteq> CHR 0x00) s) = ''''"
proof -
  let ?t = "TrimSpace (filter (\<lambda>c. c \<noteq> CHR 0x00) s)"
  have "concat (take maxLen (runes ?t)) \<noteq> []" if "?t \<noteq> []"
  proof
    assume "concat (take maxLen (runes ?t)) = []"
    then have "runes (concat (take maxLen (runes ?t))) = []" by simp
    then have "take maxLen (runes ?t) = []" by (simp only: runes_prefix)
    with assms that show False by simp
  qed
  then show ?thesis by (auto simp: SanitizeStringParam_def Let_def)
qed

subsection \<open>ValidateParameters\<close>

text \<open>The message as a payload: a blank message is the empty object, \<open>null\<close> decodes to the empty
  map, any other value that is not an object is a decoding error.\<close>

fun decode_payload :: "raw_message \<Rightarrow> graph_error + payload" where
  "decode_payload RawEmpty = Inr []"
| "decode_payload RawBlank = Inr []"
| "decode_payload (RawBad _) = Inl (ErrInvalidParameters ''args must be valid json'')"
| "decode_payload (RawJson JNull) = Inr []"
| "decode_payload (RawJson (JObj m)) = Inr m"
| "decode_payload (RawJson _) = Inl (ErrInvalidParameters ''cannot unmarshal'')"

definition validate_update_node :: "payload \<Rightarrow> graph_error + unit" where
  "validate_update_node m =
     (if strFrom m ''nodeId'' = '''' then Inl (ErrInvalidParameters ''nodeId is required'')
      else case member_of m ''name'' of
        Some v \<Rightarrow> if SanitizeStringParam (anyToString v) 60 = ''''
                  then Inl (ErrInvalidParameters ''name cannot be empty when provided'') else ok
      | None \<Rightarrow> ok)"

definition validate_update_gate :: "payload \<Rightarrow> graph_error + unit" where
  "validate_update_gate m =
     (if strFrom m ''nodeId'' = '''' then Inl (ErrInvalidParameters ''nodeId is required'')
      else if \<not> isValidGateType (strFrom m ''gateType'')
        then Inl (ErrInvalidParameters ''gateType must be AND|OR|NOT'')
      else ok)"

definition validate_add_node :: "payload \<Rightarrow> graph_error + unit" where
  "validate_add_node m =
     (if SanitizeStringParam (strFrom m ''name'') 60 = '''' then Inl (ErrInvalidParameters ''name is required'')
      else if \<not> isValidAddNodeType (strFrom m ''nodeType'') then Inl (ErrInvalidParameters ''nodeType invalid'')
      else ok)"

definition validate_add_gate :: "payload \<Rightarrow> graph_error + unit" where
  "validate_add_gate m =
     (if \<not> isValidGateType (strFrom m ''gateType'')
        then Inl (ErrInvalidParameters ''gateType must be AND|OR|NOT'')
      else let parentID = (if strFrom m ''parentId'' = '''' then strFrom m ''parentNodeId''
                           else strFrom m ''parentId'')
      in if parentID = '''' then Inl (ErrInvalidParameters ''parentId is required'')
      else if addGateChildIDs m = [] then Inl (ErrInvalidParameters ''childIds is required'')
      else ok)"

definition require_str :: "payload \<Rightarrow> string \<Rightarrow> string \<Rightarrow> graph_error + unit" where
  "require_str m key msg = (if strFrom m key = '''' then Inl (ErrInvalidParameters msg) else ok)"

definition validate_move_node :: "payload \<Rightarrow> graph_error + unit" where
  "validate_move_node m =
     (if strFrom m ''nodeId'' = '''' \<or> strFrom m ''newParentId'' = ''''
      then Inl (ErrInvalidParameters ''nodeId and newParentId are required'') else ok)"

definition positive_when_given :: "payload \<Rightarrow> string \<Rightarrow> string \<Rightarrow> graph_error + unit" where
  "positive_when_given m key msg =
     (case intFrom m key of Some v \<Rightarrow> if v \<le> 0 then Inl (ErrInvalidParameters msg) else ok | None \<Rightarrow> ok)"

definition validate_get_graph_snapshot :: "payload \<Rightarrow> graph_error + unit" where
  "validate_get_graph_snapshot m =
     bindE (positive_when_given m ''maxNodes'' ''maxNodes must be > 0'')
       (\<lambda>_. positive_when_given m ''maxEdges'' ''maxEdges must be > 0'')"

definition validate_get_subtree :: "payload \<Rightarrow> graph_error + unit" where
  "validate_get_subtree m =
     (if strFrom m ''rootNodeId'' = '''' then Inl (ErrInvalidParameters ''rootNodeId is required'')
      else case intFrom m ''maxDepth'' of
        Some v \<Rightarrow> if v \<le> 0 \<or> v > 8 then Inl (ErrInvalidParameters ''maxDepth must be in [1,8]'') else ok
      | None \<Rightarrow> ok)"

text \<open>The checks of one tool that do not recurse: \<open>None\<close> for \<open>batch_operations\<close>.\<close>

definition validate_simple :: "string \<Rightarrow> string \<Rightarrow> payload \<Rightarrow> (graph_error + unit) option" where
  "validate_simple toolName n m =
     (if n = ''update_node'' then Some (validate_update_node m)
      else if n = ''update_gate'' then Some (validate_update_gate m)
      else if n = ''add_node'' then Some (validate_add_node m)
      else if n = ''add_gate'' then Some (validate_add_gate m)
      else if n = ''delete_node'' then Some (require_str m ''nodeId'' ''nodeId is required'')
      else if n = ''move_node'' then Some (validate_move_node m)
      else if n = ''get_graph_snapshot'' then Some (validate_get_graph_snapshot m)
      else if n = ''get_node_detail'' then Some (require_str m ''nodeId'' ''nodeId is required'')
      else if n = ''get_subtree'' then Some (validate_get_subtree m)
      else if n \<in> {''check_gate_semantics'', ''validate_fta_constraints''} then Some ok
      else if n = ''batch_operations'' then None
      else if n = ''highlight_nodes'' then
        Some (if strSliceFrom m ''nodeIds'' = [] then Inl (ErrInvalidParameters ''nodeIds is required'') else ok)
      else if n \<in> {''locate_node'', ''expand_subtree'', ''collapse_subtree'', ''show_node_detail'', ''annotate_node''}
        then Some (require_str m ''nodeId'' ''nodeId is required'')
      else if n \<in> {''suggest_batch_label_fix'', ''suggest_gate_corrections'', ''suggest_layout_optimization'',
                   ''suggest_node_merge'', ''preview_layout''} then Some ok
      else Some (Inl (ErrUnknownTool toolName)))"

text \<open>\<open>json.Marshal(op["args"])\<close>: a missing member marshals to \<open>null\<close>.\<close>

definition op_args :: "payload \<Rightarrow> raw_message" where
  "op_args op = RawJson (case member_of op ''args'' of None \<Rightarrow> JNull | Some v \<Rightarrow> v)"

fun raw_size :: "raw_message \<Rightarrow> nat" where
  "raw_size (RawJson v) = size v"
| "raw_size _ = 0"

definition ops_size :: "payload list \<Rightarrow> nat" where
  "ops_size ops = sum_list (map (\<lambda>op. size (JObj op) + 1) ops)"

lemma ops_size_obj_members: "ops_size (List.map_filter obj_members arr) < size (JArr arr)"
proof (induction arr)
  case (Cons v arr)
  then show ?case by (cases v) (simp_all add: ops_size_def map_filter_simps)
qed (simp add: ops_size_def map_filter_simps)

lemma ops_size_objectSliceFrom: "ops_size (objectSliceFrom m key) < size (JObj m)"
proof (cases "\<exists>arr. member_of m key = Some (JArr arr)")
  case True
  then obtain arr where arr: "member_of m key = Some (JArr arr)" by blast
  then have "ops_size (objectSliceFrom m key) < size (JArr arr)"
    using ops_size_obj_members [of arr] by (simp add: objectSliceFrom_def)
  also have "\<dots> < size (JObj m)" using arr by (rule size_member_of)
  finally show ?thesis .
next
  case False
  then have "objectSliceFrom m key = []"
    by (auto simp: objectSliceFrom_def split: option.split json.split)
  then show ?thesis by (simp add: ops_size_def)
qed

lemma ops_size_decode_payload:
  assumes "decode_payload args = Inr m" and "objectSliceFrom m key \<noteq> []"
  shows "ops_size (objectSliceFrom m key) < raw_size args"
proof -
  have "args = RawJson (JObj m)"
    using assms by (induction args rule: decode_payload.induct)
      (auto simp: objectSliceFrom_def member_of_def)
  then show ?thesis using ops_size_objectSliceFrom [of m key] by simp
qed

lemma raw_size_op_args: "raw_size (op_args op) < size (JObj op)"
  using size_member_of [of op "''args''"] by (auto simp: op_args_def split: option.split)

function (sequential) ValidateParameters :: "string \<Rightarrow> raw_message \<Rightarrow> graph_error + unit"
  and validate_batch :: "payload list \<Rightarrow> graph_error + unit" where
  "ValidateParameters toolName args =
     (case GetTool toolName of
        None \<Rightarrow> Inl (ErrUnknownTool toolName)
      | Some def \<Rightarrow>
          (case decode_payload args of
             Inl e \<Rightarrow> Inl e
           | Inr m \<Rightarrow>
               (case validate_simple toolName (ToLower (TrimSpace (tool_Name def))) m of
                  Some r \<Rightarrow> r
                | None \<Rightarrow>
                    let opList = objectSliceFrom m ''operations'' in
                    if opList = [] then Inl (ErrInvalidParameters ''operations is required'')
                    else if length opList > 50 then Inl (ErrInvalidParameters ''operations too many'')
                    else validate_batch opList)))"
| "validate_batch [] = ok"
| "validate_batch (op # ops) =
     (let subTool = strFrom op ''tool'' in
      if subTool = '''' then Inl (ErrInvalidParameters ''operations[].tool is required'')
      else if EqualFold subTool ''batch_operations''
        then Inl (ErrOperationNotAllowed (Txt ''nested batch_operations is forbidden''))
      else (case ValidateParameters subTool (op_args op) of
              Inl e \<Rightarrow> Inl e
            | Inr _ \<Rightarrow> validate_batch ops))"
  by pat_completeness auto
termination
proof (relation "measure (\<lambda>x. case x of Inl (n, raw) \<Rightarrow> 2 * raw_size raw + 2
    | Inr ops \<Rightarrow> 2 * ops_size ops + 1)", goal_cases)
  case (2 toolName args d m ops)
  then show ?case using ops_size_decode_payload [of args m "''operations''"] by simp
next
  case (3 op ops)
  then show ?case using raw_size_op_args [of op] by (simp add: ops_size_def)
qed (simp_all add: ops_size_def)

text \<open>What a call that passes validation is: a call of a registered tool whose required
  parameters are there; a batch holds between 1 and 50 operations that pass validation too.\<close>

lemma validate_batch_ok_iff:
  "validate_batch ops = ok \<longleftrightarrow>
     (\<forall>op \<in> set ops. strFrom op ''tool'' \<noteq> '''' \<and> \<not> EqualFold (strFrom op ''tool'') ''batch_operations''
        \<and> ValidateParameters (strFrom op ''tool'') (op_args op) = ok)"
proof (induction ops)
  case (Cons op ops)
  then show ?case
    by (cases "ValidateParameters (strFrom op ''tool'') (op_args op)") (auto simp: Let_def)
qed simp

lemma validated_tool_known:
  "ValidateParameters toolName args = ok \<Longrightarrow> \<exists>def. GetTool toolName = Some def"
  by (auto split: option.splits)

end
