(* ===== verification/Constraints.thy ===== *)
theory Constraints
  imports Traversal Validator
begin

text \<open>
  The structural rules of a fault tree (\<open>evaluateFTAConstraintIssues\<close> and the two safety checks
  of \<open>internal/graph_ops/executor.go\<close>). The maps the code fills while it walks the edges are
  functions here: the type map is the last node of an ID, the degree maps count the edges that
  passed the existence checks. \<open>wf_fta\<close> and \<open>wf_fatal\<close> say in graph terms what the
  two checks promise; \<open>strict_ok_iff\<close> and \<open>permissive_ok_iff\<close> show that they do.
\<close>

subsection \<open>Issues\<close>

definition nodeTypeByID :: "FaultTreeNode list \<Rightarrow> string \<Rightarrow> string option" where
  "nodeTypeByID ns = map_of (rev (map (\<lambda>n. (nid n, ntype n)) ns))"

definition counted :: "(string \<Rightarrow> string option) \<Rightarrow> FaultTreeEdge \<Rightarrow> bool" where
  \<comment> \<open>the edge reaches the degree counters\<close>
  "counted ty e \<longleftrightarrow> efrom e \<noteq> '''' \<and> eto e \<noteq> '''' \<and> ty (efrom e) \<noteq> None \<and> ty (eto e) \<noteq> None"

definition outDegree :: "(string \<Rightarrow> string option) \<Rightarrow> FaultTreeEdge list \<Rightarrow> string \<Rightarrow> nat" where
  "outDegree ty es x = length (filter (\<lambda>e. counted ty e \<and> efrom e = x) es)"

definition inDegree :: "(string \<Rightarrow> string option) \<Rightarrow> FaultTreeEdge list \<Rightarrow> string \<Rightarrow> nat" where
  "inDegree ty es x = length (filter (\<lambda>e. counted ty e \<and> eto e = x) es)"

definition edge_issues :: "(string \<Rightarrow> string option) \<Rightarrow> FaultTreeEdge \<Rightarrow> ftaConstraintIssue list" where
  "edge_issues ty e =
     (if efrom e = '''' \<or> eto e = '''' then [mk_issue '''' ''error'' ''EDGE_NODE_ID_EMPTY'']
      else case ty (efrom e) of
        None \<Rightarrow> [mk_issue (efrom e) ''error'' ''EDGE_SOURCE_NOT_FOUND'']
      | Some fromType \<Rightarrow>
          (case ty (eto e) of
             None \<Rightarrow> [mk_issue (eto e) ''error'' ''EDGE_TARGET_NOT_FOUND'']
           | Some toType \<Rightarrow>
               (if EqualFold fromType ''basicEvent''
                then [mk_issue (efrom e) ''error'' ''BASIC_EVENT_AS_PARENT''] else [])
               @ (if EqualFold toType ''topEvent''
                  then [mk_issue (eto e) ''error'' ''TOP_EVENT_AS_CHILD''] else [])
               @ (if EqualFold fromType ''gate'' \<and> EqualFold toType ''gate''
                  then [mk_issue (eto e) ''error'' ''GATE_HAS_GATE_CHILD''] else [])))"

definition gate_type :: "FaultTreeNode \<Rightarrow> string" where
  "gate_type n = (case node_GateType n of None \<Rightarrow> '''' | Some g \<Rightarrow> ToUpper (TrimSpace g))"

definition gate_issues :: "nat \<Rightarrow> FaultTreeNode \<Rightarrow> ftaConstraintIssue list" where
  "gate_issues outDeg n =
     (if \<not> isValidGateType (gate_type n) then [mk_issue (nid n) ''error'' ''INVALID_GATE_TYPE'']
      else if gate_type n = ''NOT'' then
        (if outDeg > 1 then [mk_issue (nid n) ''warning'' ''NOT_GATE_CHILD_COUNT_TOO_HIGH''] else [])
      else if outDeg < 2 then [mk_issue (nid n) ''warning'' ''GATE_CHILD_COUNT_TOO_LOW''] else [])"

definition node_issues :: "(string \<Rightarrow> nat) \<Rightarrow> (string \<Rightarrow> nat) \<Rightarrow> FaultTreeNode \<Rightarrow> ftaConstraintIssue list" where
  "node_issues inDeg outDeg n =
     (if ntype n = ''topEvent'' \<and> inDeg (nid n) > 0
      then [mk_issue (nid n) ''error'' ''TOP_EVENT_NOT_ROOT''] else [])
     @ (if ntype n = ''basicEvent'' \<and> outDeg (nid n) > 0
        then [mk_issue (nid n) ''warning'' ''BASIC_EVENT_HAS_CHILDREN''] else [])
     @ (if ntype n = ''gate'' then gate_issues (outDeg (nid n)) n else [])"

definition top_events :: "FaultTreeNode list \<Rightarrow> FaultTreeNode list" where
  "top_events ns = filter (\<lambda>n. ntype n = ''topEvent'') ns"

definition top_event_issues :: "FaultTreeNode list \<Rightarrow> ftaConstraintIssue list" where
  "top_event_issues ns =
     (if length (top_events ns) = 0 then [mk_issue '''' ''error'' ''MISSING_TOP_EVENT'']
      else if length (top_events ns) > 1 then [mk_issue '''' ''error'' ''MULTIPLE_TOP_EVENTS'']
      else [])"

definition evaluateFTAConstraintIssues :: "faultTreeState \<Rightarrow> ftaConstraintIssue list" where
  "evaluateFTAConstraintIssues s =
     (let ty = nodeTypeByID (st_nodes s) in
      concat (map (edge_issues ty) (st_edges s))
      @ concat (map (node_issues (inDegree ty (st_edges s)) (outDegree ty (st_edges s))) (st_nodes s))
      @ top_event_issues (st_nodes s)
      @ (if hasDirectedCycle (st_edges s) then [mk_issue '''' ''error'' ''CYCLE_DETECTED''] else []))"

definition isBlockingMutationIssue :: "ftaConstraintIssue \<Rightarrow> bool" where
  "isBlockingMutationIssue i \<longleftrightarrow>
     EqualFold (TrimSpace (issue_Level i)) ''error''
     \<or> TrimSpace (issue_Code i)
         \<in> {''BASIC_EVENT_HAS_CHILDREN'', ''GATE_CHILD_COUNT_TOO_LOW'', ''NOT_GATE_CHILD_COUNT_TOO_HIGH''}"

definition fatalCodes :: "string set" where
  "fatalCodes = {''CYCLE_DETECTED'', ''MISSING_TOP_EVENT'', ''MULTIPLE_TOP_EVENTS'', ''TOP_EVENT_AS_CHILD'',
     ''TOP_EVENT_NOT_ROOT'', ''EDGE_NODE_ID_EMPTY'', ''EDGE_SOURCE_NOT_FOUND'', ''EDGE_TARGET_NOT_FOUND''}"

text \<open>The error shows at most five issues and says how many more there are.\<close>

definition refuse :: "ftaConstraintIssue list \<Rightarrow> graph_error + unit" where
  "refuse blocking =
     (if blocking = [] then ok
      else Inl (ErrOperationNotAllowed (Issues (take 5 blocking) (length blocking - 5))))"

definition enforceFaultTreeMutationSafety :: "faultTreeState \<Rightarrow> graph_error + unit" where
  "enforceFaultTreeMutationSafety s =
     refuse (filter isBlockingMutationIssue (evaluateFTAConstraintIssues s))"

definition enforceFaultTreeMutationSafetyPermissive :: "faultTreeState \<Rightarrow> graph_error + unit" where
  "enforceFaultTreeMutationSafetyPermissive s =
     refuse (filter (\<lambda>i. TrimSpace (issue_Code i) \<in> fatalCodes) (evaluateFTAConstraintIssues s))"

subsection \<open>Reports over issues\<close>

definition collectTopEventIDs :: "FaultTreeNode list \<Rightarrow> string list" where
  "collectTopEventIDs ns = sort (map nid (filter (\<lambda>n. EqualFold (ntype n) ''topEvent'') ns))"

definition collectIssueCodesFromIssues :: "ftaConstraintIssue list \<Rightarrow> string list" where
  "collectIssueCodesFromIssues is =
     sort (remdups (filter (\<lambda>c. c \<noteq> '''') (map (\<lambda>i. TrimSpace (issue_Code i)) is)))"

definition collectAffectedNodeIDsFromIssues :: "ftaConstraintIssue list \<Rightarrow> string list" where
  "collectAffectedNodeIDsFromIssues is =
     sort (remdups (filter (\<lambda>c. c \<noteq> '''') (map (\<lambda>i. TrimSpace (issue_NodeID i)) is)))"

datatype suggestion =
    SuggestBasicEventAsParent | SuggestBasicEventHasChildren | SuggestGateChildCountLow
  | SuggestNotGateChildCountHigh | SuggestTopEventAsChild | SuggestTopEventNotRoot
  | SuggestMultipleTopEvents | SuggestMissingTopEvent | SuggestCycle | SuggestInvalidEdge
  | SuggestMinimalMutation

definition suggestionForConstraintIssueCode :: "string \<Rightarrow> suggestion" where
  "suggestionForConstraintIssueCode code =
     (let c = ToUpper (TrimSpace code) in
      if c = ''BASIC_EVENT_AS_PARENT'' then SuggestBasicEventAsParent
      else if c = ''BASIC_EVENT_HAS_CHILDREN'' then SuggestBasicEventHasChildren
      else if c = ''GATE_CHILD_COUNT_TOO_LOW'' then SuggestGateChildCountLow
      else if c = ''NOT_GATE_CHILD_COUNT_TOO_HIGH'' then SuggestNotGateChildCountHigh
      else if c = ''TOP_EVENT_AS_CHILD'' then SuggestTopEventAsChild
      else if c = ''TOP_EVENT_NOT_ROOT'' then SuggestTopEventNotRoot
      else if c = ''MULTIPLE_TOP_EVENTS'' then SuggestMultipleTopEvents
      else if c = ''MISSING_TOP_EVENT'' then SuggestMissingTopEvent
      else if c = ''CYCLE_DETECTED'' then SuggestCycle
      else if c \<in> {''EDGE_SOURCE_NOT_FOUND'', ''EDGE_TARGET_NOT_FOUND'', ''EDGE_NODE_ID_EMPTY''}
        then SuggestInvalidEdge
      else SuggestMinimalMutation)"

definition toIssuePayload :: "ftaConstraintIssue list \<Rightarrow> (ftaConstraintIssue \<times> suggestion) list" where
  "toIssuePayload is = map (\<lambda>i. (i, suggestionForConstraintIssueCode (issue_Code i))) is"

subsection \<open>What the checks promise\<close>

definition unique_ids :: "faultTreeState \<Rightarrow> bool" where
  "unique_ids s \<longleftrightarrow> distinct (map nid (st_nodes s))"

definition edges_connected :: "faultTreeState \<Rightarrow> bool" where
  "edges_connected s \<longleftrightarrow>
     (\<forall>e \<in> set (st_edges s). live_edge e \<and> efrom e \<in> node_ids s \<and> eto e \<in> node_ids s)"

definition one_top_event :: "faultTreeState \<Rightarrow> bool" where
  "one_top_event s \<longleftrightarrow> length (top_events (st_nodes s)) = 1"

definition child_count :: "faultTreeState \<Rightarrow> FaultTreeNode \<Rightarrow> nat" where
  "child_count s n = length (filter (\<lambda>e. efrom e = nid n) (st_edges s))"

definition top_is_root :: "faultTreeState \<Rightarrow> bool" where
  "top_is_root s \<longleftrightarrow>
     (\<forall>e \<in> set (st_edges s). \<forall>n \<in> set (st_nodes s). nid n = eto e \<longrightarrow> \<not> EqualFold (ntype n) ''topEvent'')"

definition basic_is_leaf :: "faultTreeState \<Rightarrow> bool" where
  "basic_is_leaf s \<longleftrightarrow>
     (\<forall>e \<in> set (st_edges s). \<forall>n \<in> set (st_nodes s). nid n = efrom e \<longrightarrow> \<not> EqualFold (ntype n) ''basicEvent'')"

definition gates_alternate :: "faultTreeState \<Rightarrow> bool" where
  "gates_alternate s \<longleftrightarrow>
     (\<forall>e \<in> set (st_edges s). \<forall>n \<in> set (st_nodes s). \<forall>m \<in> set (st_nodes s).
        nid n = efrom e \<and> nid m = eto e \<longrightarrow> \<not> (EqualFold (ntype n) ''gate'' \<and> EqualFold (ntype m) ''gate''))"

definition gate_arity_ok :: "faultTreeState \<Rightarrow> FaultTreeNode \<Rightarrow> bool" where
  "gate_arity_ok s n \<longleftrightarrow>
     isValidGateType (gate_type n) \<and>
     (if gate_type n = ''NOT'' then child_count s n \<le> 1 else 2 \<le> child_count s n)"

definition wf_fatal :: "faultTreeState \<Rightarrow> bool" where
  "wf_fatal s \<longleftrightarrow> edges_connected s \<and> one_top_event s \<and> top_is_root s \<and> acyclic (erel s)"

definition wf_fta :: "faultTreeState \<Rightarrow> bool" where
  "wf_fta s \<longleftrightarrow> wf_fatal s \<and> basic_is_leaf s \<and> gates_alternate s \<and>
     (\<forall>n \<in> set (st_nodes s). ntype n = ''gate'' \<longrightarrow> gate_arity_ok s n)"

subsection \<open>The checks are what they promise\<close>

lemma trim_code [simp, go_str]:
  "TrimSpace ''error'' = ''error''" "TrimSpace ''warning'' = ''warning''"
  "TrimSpace ''EDGE_NODE_ID_EMPTY'' = ''EDGE_NODE_ID_EMPTY''"
  "TrimSpace ''EDGE_SOURCE_NOT_FOUND'' = ''EDGE_SOURCE_NOT_FOUND''"
  "TrimSpace ''EDGE_TARGET_NOT_FOUND'' = ''EDGE_TARGET_NOT_FOUND''"
  "TrimSpace ''BASIC_EVENT_AS_PARENT'' = ''BASIC_EVENT_AS_PARENT''"
  "TrimSpace ''TOP_EVENT_AS_CHILD'' = ''TOP_EVENT_AS_CHILD''"
  "TrimSpace ''GATE_HAS_GATE_CHILD'' = ''GATE_HAS_GATE_CHILD''"
  "TrimSpace ''TOP_EVENT_NOT_ROOT'' = ''TOP_EVENT_NOT_ROOT''"
  "TrimSpace ''BASIC_EVENT_HAS_CHILDREN'' = ''BASIC_EVENT_HAS_CHILDREN''"
  "TrimSpace ''INVALID_GATE_TYPE'' = ''INVALID_GATE_TYPE''"
  "TrimSpace ''NOT_GATE_CHILD_COUNT_TOO_HIGH'' = ''NOT_GATE_CHILD_COUNT_TOO_HIGH''"
  "TrimSpace ''GATE_CHILD_COUNT_TOO_LOW'' = ''GATE_CHILD_COUNT_TOO_LOW''"
  "TrimSpace ''MISSING_TOP_EVENT'' = ''MISSING_TOP_EVENT''"
  "TrimSpace ''MULTIPLE_TOP_EVENTS'' = ''MULTIPLE_TOP_EVENTS''"
  "TrimSpace ''CYCLE_DETECTED'' = ''CYCLE_DETECTED''"
  by code_simp+

lemma refuse_ok [simp]: "refuse is = Inr u \<longleftrightarrow> is = []"
  by (simp add: refuse_def)

lemma refuse_bound:
  assumes "refuse is = Inl e"
  shows "\<exists>shown more. e = ErrOperationNotAllowed (Issues shown more) \<and> length shown \<le> 5
    \<and> length is = length shown + more \<and> is \<noteq> []"
  using assms by (auto simp: refuse_def split: if_splits)

lemma edge_issue_blocks: "i \<in> set (edge_issues ty e) \<Longrightarrow> isBlockingMutationIssue i"
  by (auto simp: edge_issues_def isBlockingMutationIssue_def split: if_splits option.splits)

lemma node_issue_blocks: "i \<in> set (node_issues inD outD n) \<Longrightarrow> isBlockingMutationIssue i"
  by (auto simp: node_issues_def gate_issues_def isBlockingMutationIssue_def split: if_splits)

lemma issue_blocks: "i \<in> set (evaluateFTAConstraintIssues s) \<Longrightarrow> isBlockingMutationIssue i"
proof -
  have graph: "isBlockingMutationIssue (mk_issue x ''error'' c)" for x c
    by (simp add: isBlockingMutationIssue_def)
  assume "i \<in> set (evaluateFTAConstraintIssues s)"
  then show ?thesis
    by (auto simp: evaluateFTAConstraintIssues_def Let_def top_event_issues_def graph
        split: if_splits intro: edge_issue_blocks node_issue_blocks)
qed

lemma strict_ok_no_issue:
  "enforceFaultTreeMutationSafety s = Inr u \<longleftrightarrow> evaluateFTAConstraintIssues s = []"
  using issue_blocks [of _ s] by (auto simp: enforceFaultTreeMutationSafety_def filter_empty_conv)

lemma dom_nodeTypeByID: "nodeTypeByID ns x \<noteq> None \<longleftrightarrow> x \<in> nid ` set ns"
  by (auto simp: nodeTypeByID_def map_of_eq_None_iff image_image simp del: not_None_eq)

lemma nodeTypeByID_Some:
  assumes "distinct (map nid ns)"
  shows "nodeTypeByID ns x = Some t \<longleftrightarrow> (\<exists>n \<in> set ns. nid n = x \<and> ntype n = t)"
proof -
  have "distinct (map fst (rev (map (\<lambda>n. (nid n, ntype n)) ns)))"
    using assms by (simp add: rev_map [symmetric] comp_def)
  then show ?thesis by (auto simp: nodeTypeByID_def map_of_eq_Some_iff)
qed

abbreviation tyOf :: "faultTreeState \<Rightarrow> string \<Rightarrow> string option" where "tyOf s \<equiv> nodeTypeByID (st_nodes s)"

lemma counted_iff:
  "counted (tyOf s) e \<longleftrightarrow> live_edge e \<and> efrom e \<in> node_ids s \<and> eto e \<in> node_ids s"
  by (simp add: counted_def live_edge_def dom_nodeTypeByID node_ids_def del: not_None_eq)

lemma all_counted: "edges_connected s \<longleftrightarrow> (\<forall>e \<in> set (st_edges s). counted (tyOf s) e)"
  by (simp add: edges_connected_def counted_iff)

lemma outDegree_child_count:
  assumes "edges_connected s"
  shows "outDegree (tyOf s) (st_edges s) (nid n) = child_count s n"
  unfolding outDegree_def child_count_def
  by (rule arg_cong [where f = length], rule filter_cong)
    (use assms in \<open>auto simp: all_counted\<close>)

lemma edge_issues_uncounted:
  "\<not> counted ty e \<Longrightarrow> \<exists>i \<in> set (edge_issues ty e). issue_Code i \<in>
     {''EDGE_NODE_ID_EMPTY'', ''EDGE_SOURCE_NOT_FOUND'', ''EDGE_TARGET_NOT_FOUND''}"
  by (auto simp: counted_def edge_issues_def split: option.split)

lemma edge_issues_counted:
  assumes "ty (efrom e) = Some f" and "ty (eto e) = Some t" and "counted ty e"
  shows "edge_issues ty e =
     (if EqualFold f ''basicEvent'' then [mk_issue (efrom e) ''error'' ''BASIC_EVENT_AS_PARENT''] else [])
     @ (if EqualFold t ''topEvent'' then [mk_issue (eto e) ''error'' ''TOP_EVENT_AS_CHILD''] else [])
     @ (if EqualFold f ''gate'' \<and> EqualFold t ''gate''
        then [mk_issue (eto e) ''error'' ''GATE_HAS_GATE_CHILD''] else [])"
  using assms by (simp add: edge_issues_def counted_def)

text \<open>An edge raises no issue exactly when it is counted and joins types that may be joined.\<close>

definition edge_clean :: "faultTreeState \<Rightarrow> FaultTreeEdge \<Rightarrow> bool" where
  "edge_clean s e \<longleftrightarrow> (\<forall>n \<in> set (st_nodes s). \<forall>m \<in> set (st_nodes s). nid n = efrom e \<and> nid m = eto e \<longrightarrow>
     \<not> EqualFold (ntype n) ''basicEvent'' \<and> \<not> EqualFold (ntype m) ''topEvent''
     \<and> \<not> (EqualFold (ntype n) ''gate'' \<and> EqualFold (ntype m) ''gate''))"

lemma edge_ends:
  assumes "counted (tyOf s) e"
  obtains n m where "n \<in> set (st_nodes s)" "nid n = efrom e" "m \<in> set (st_nodes s)" "nid m = eto e"
proof -
  from assms have "efrom e \<in> nid ` set (st_nodes s)" "eto e \<in> nid ` set (st_nodes s)"
    by (simp_all add: counted_iff node_ids_def)
  then show thesis by (elim imageE) (rule that, simp_all)
qed

lemma typed_ends:
  assumes u: "unique_ids s" and "n \<in> set (st_nodes s)" "nid n = efrom e"
    and "m \<in> set (st_nodes s)" "nid m = eto e"
  shows "tyOf s (efrom e) = Some (ntype n)" "tyOf s (eto e) = Some (ntype m)"
  using assms by (auto simp: nodeTypeByID_Some unique_ids_def)

lemma unique_node:
  "unique_ids s \<Longrightarrow> n \<in> set (st_nodes s) \<Longrightarrow> m \<in> set (st_nodes s) \<Longrightarrow> nid n = nid m \<Longrightarrow> n = m"
  by (auto simp: unique_ids_def distinct_map inj_on_def)

lemma edge_issues_empty:
  assumes u: "unique_ids s"
  shows "edge_issues (tyOf s) e = [] \<longleftrightarrow> counted (tyOf s) e \<and> edge_clean s e"
proof (cases "counted (tyOf s) e")
  case True
  then obtain n m where nm: "n \<in> set (st_nodes s)" "nid n = efrom e" "m \<in> set (st_nodes s)" "nid m = eto e"
    by (rule edge_ends)
  have "edge_clean s e \<longleftrightarrow> \<not> EqualFold (ntype n) ''basicEvent'' \<and> \<not> EqualFold (ntype m) ''topEvent''
     \<and> \<not> (EqualFold (ntype n) ''gate'' \<and> EqualFold (ntype m) ''gate'')"
  proof
    assume "edge_clean s e"
    then show "\<not> EqualFold (ntype n) ''basicEvent'' \<and> \<not> EqualFold (ntype m) ''topEvent''
      \<and> \<not> (EqualFold (ntype n) ''gate'' \<and> EqualFold (ntype m) ''gate'')"
      using nm unfolding edge_clean_def by blast
  next
    assume *: "\<not> EqualFold (ntype n) ''basicEvent'' \<and> \<not> EqualFold (ntype m) ''topEvent''
      \<and> \<not> (EqualFold (ntype n) ''gate'' \<and> EqualFold (ntype m) ''gate'')"
    show "edge_clean s e"
      unfolding edge_clean_def
    proof (intro ballI impI, elim conjE)
      fix n' m' assume "n' \<in> set (st_nodes s)" "m' \<in> set (st_nodes s)" "nid n' = efrom e" "nid m' = eto e"
      then have "n' = n" "m' = m" using nm by (simp_all add: unique_node [OF u])
      with * show "\<not> EqualFold (ntype n') ''basicEvent'' \<and> \<not> EqualFold (ntype m') ''topEvent''
        \<and> \<not> (EqualFold (ntype n') ''gate'' \<and> EqualFold (ntype m') ''gate'')" by simp
    qed
  qed
  then show ?thesis
    using True by (simp add: edge_issues_counted [OF typed_ends [OF u nm] True])
next
  case False
  then have "edge_issues (tyOf s) e \<noteq> []" using edge_issues_uncounted [of "tyOf s" e] by auto
  with False show ?thesis by simp
qed

lemma all_edges_clean:
  assumes "edges_connected s"
  shows "(\<forall>e \<in> set (st_edges s). edge_clean s e)
    \<longleftrightarrow> top_is_root s \<and> basic_is_leaf s \<and> gates_alternate s"
proof
  assume clean: "\<forall>e \<in> set (st_edges s). edge_clean s e"
  have ends: "\<exists>n \<in> set (st_nodes s). \<exists>m \<in> set (st_nodes s). nid n = efrom e \<and> nid m = eto e"
    if "e \<in> set (st_edges s)" for e
    using assms that edge_ends [of s e] unfolding all_counted by metis
  have "top_is_root s" unfolding top_is_root_def
    using clean ends unfolding edge_clean_def by (metis (no_types, lifting))
  moreover have "basic_is_leaf s" unfolding basic_is_leaf_def
    using clean ends unfolding edge_clean_def by (metis (no_types, lifting))
  moreover have "gates_alternate s" unfolding gates_alternate_def
    using clean unfolding edge_clean_def by blast
  ultimately show "top_is_root s \<and> basic_is_leaf s \<and> gates_alternate s" by simp
next
  assume *: "top_is_root s \<and> basic_is_leaf s \<and> gates_alternate s"
  then show "\<forall>e \<in> set (st_edges s). edge_clean s e"
    unfolding edge_clean_def top_is_root_def basic_is_leaf_def gates_alternate_def by blast
qed

lemma inDegree_top:
  assumes "top_is_root s" and "n \<in> set (st_nodes s)" and "ntype n = ''topEvent''"
  shows "inDegree (tyOf s) (st_edges s) (nid n) = 0"
proof -
  have "eto e \<noteq> nid n" if "e \<in> set (st_edges s)" for e
    using assms that EqualFold_refl [of "ntype n"] unfolding top_is_root_def by metis
  then show ?thesis by (simp add: inDegree_def filter_empty_conv)
qed

lemma outDegree_basic:
  assumes "basic_is_leaf s" and "n \<in> set (st_nodes s)" and "ntype n = ''basicEvent''"
  shows "outDegree (tyOf s) (st_edges s) (nid n) = 0"
proof -
  have "efrom e \<noteq> nid n" if "e \<in> set (st_edges s)" for e
    using assms that EqualFold_refl [of "ntype n"] unfolding basic_is_leaf_def by metis
  then show ?thesis by (simp add: outDegree_def filter_empty_conv)
qed

lemma gate_issues_empty:
  "gate_issues k n = [] \<longleftrightarrow> isValidGateType (gate_type n) \<and> (if gate_type n = ''NOT'' then k \<le> 1 else 2 \<le> k)"
  by (auto simp: gate_issues_def)

lemma node_issues_empty:
  assumes "edges_connected s" and "top_is_root s" and "basic_is_leaf s" and "n \<in> set (st_nodes s)"
  shows "node_issues (inDegree (tyOf s) (st_edges s)) (outDegree (tyOf s) (st_edges s)) n = []
    \<longleftrightarrow> (ntype n = ''gate'' \<longrightarrow> gate_arity_ok s n)"
  using assms inDegree_top [of s n] outDegree_basic [of s n]
  by (simp add: node_issues_def gate_issues_empty gate_arity_ok_def outDegree_child_count)

lemma top_event_issues_empty: "top_event_issues (st_nodes s) = [] \<longleftrightarrow> one_top_event s"
  by (cases "top_events (st_nodes s)") (auto simp: top_event_issues_def one_top_event_def)

lemma evaluate_empty_iff:
  "evaluateFTAConstraintIssues s = [] \<longleftrightarrow>
     (\<forall>e \<in> set (st_edges s). edge_issues (tyOf s) e = [])
     \<and> (\<forall>n \<in> set (st_nodes s). node_issues (inDegree (tyOf s) (st_edges s)) (outDegree (tyOf s) (st_edges s)) n = [])
     \<and> one_top_event s \<and> acyclic (erel s)"
  by (auto simp: evaluateFTAConstraintIssues_def Let_def top_event_issues_empty hasDirectedCycle_iff)

lemma strict_ok_iff:
  assumes u: "unique_ids s"
  shows "enforceFaultTreeMutationSafety s = ok \<longleftrightarrow> wf_fta s"
proof -
  let ?E = "edges_connected s \<and> top_is_root s \<and> basic_is_leaf s \<and> gates_alternate s"
  have E: "(\<forall>e \<in> set (st_edges s). edge_issues (tyOf s) e = []) \<longleftrightarrow> ?E"
    using all_edges_clean by (auto simp: edge_issues_empty [OF u] all_counted)
  have N: "(\<forall>n \<in> set (st_nodes s). node_issues (inDegree (tyOf s) (st_edges s)) (outDegree (tyOf s) (st_edges s)) n = [])
      \<longleftrightarrow> (\<forall>n \<in> set (st_nodes s). ntype n = ''gate'' \<longrightarrow> gate_arity_ok s n)" if ?E
    using that by (simp add: node_issues_empty)
  show ?thesis
    unfolding strict_ok_no_issue evaluate_empty_iff E wf_fta_def wf_fatal_def using N by blast
qed

subsubsection \<open>The permissive check\<close>

abbreviation fatal :: "ftaConstraintIssue \<Rightarrow> bool" where
  "fatal i \<equiv> TrimSpace (issue_Code i) \<in> fatalCodes"

lemma fatal_code [simp]:
  "''CYCLE_DETECTED'' \<in> fatalCodes" "''MISSING_TOP_EVENT'' \<in> fatalCodes"
  "''MULTIPLE_TOP_EVENTS'' \<in> fatalCodes" "''TOP_EVENT_AS_CHILD'' \<in> fatalCodes"
  "''TOP_EVENT_NOT_ROOT'' \<in> fatalCodes" "''EDGE_NODE_ID_EMPTY'' \<in> fatalCodes"
  "''EDGE_SOURCE_NOT_FOUND'' \<in> fatalCodes" "''EDGE_TARGET_NOT_FOUND'' \<in> fatalCodes"
  "''BASIC_EVENT_AS_PARENT'' \<notin> fatalCodes" "''GATE_HAS_GATE_CHILD'' \<notin> fatalCodes"
  "''BASIC_EVENT_HAS_CHILDREN'' \<notin> fatalCodes" "''INVALID_GATE_TYPE'' \<notin> fatalCodes"
  "''NOT_GATE_CHILD_COUNT_TOO_HIGH'' \<notin> fatalCodes" "''GATE_CHILD_COUNT_TOO_LOW'' \<notin> fatalCodes"
  by (simp_all add: fatalCodes_def)

definition edge_sound :: "faultTreeState \<Rightarrow> FaultTreeEdge \<Rightarrow> bool" where
  "edge_sound s e \<longleftrightarrow> (\<forall>m \<in> set (st_nodes s). nid m = eto e \<longrightarrow> \<not> EqualFold (ntype m) ''topEvent'')"

lemma edge_no_fatal:
  assumes u: "unique_ids s"
  shows "(\<forall>i \<in> set (edge_issues (tyOf s) e). \<not> fatal i) \<longleftrightarrow> counted (tyOf s) e \<and> edge_sound s e"
proof (cases "counted (tyOf s) e")
  case True
  then obtain n m where nm: "n \<in> set (st_nodes s)" "nid n = efrom e" "m \<in> set (st_nodes s)" "nid m = eto e"
    by (rule edge_ends)
  have "edge_sound s e \<longleftrightarrow> \<not> EqualFold (ntype m) ''topEvent''"
    using nm(3,4) unique_node [OF u nm(3)] unfolding edge_sound_def by metis
  then show ?thesis
    using True by (auto simp: edge_issues_counted [OF typed_ends [OF u nm] True])
next
  case False
  then obtain i where "i \<in> set (edge_issues (tyOf s) e)" and
    "issue_Code i \<in> {''EDGE_NODE_ID_EMPTY'', ''EDGE_SOURCE_NOT_FOUND'', ''EDGE_TARGET_NOT_FOUND''}"
    using edge_issues_uncounted [of "tyOf s" e] by blast
  then have "\<exists>i \<in> set (edge_issues (tyOf s) e). fatal i" by (intro bexI [of _ i]) auto
  with False show ?thesis by blast
qed

lemma node_no_fatal:
  assumes "top_is_root s" and "n \<in> set (st_nodes s)"
  shows "\<forall>i \<in> set (node_issues (inDegree (tyOf s) (st_edges s)) outD n). \<not> fatal i"
  using assms inDegree_top [of s n]
  by (auto simp: node_issues_def gate_issues_def split: if_splits)

lemma permissive_ok_iff:
  assumes u: "unique_ids s"
  shows "enforceFaultTreeMutationSafetyPermissive s = ok \<longleftrightarrow> wf_fatal s"
proof -
  have E: "(\<forall>e \<in> set (st_edges s). \<forall>i \<in> set (edge_issues (tyOf s) e). \<not> fatal i)
      \<longleftrightarrow> edges_connected s \<and> top_is_root s"
    by (auto simp: edge_no_fatal [OF u] all_counted edge_sound_def top_is_root_def)
  have T: "(\<forall>i \<in> set (top_event_issues (st_nodes s)). \<not> fatal i) \<longleftrightarrow> one_top_event s"
    by (cases "top_events (st_nodes s)") (auto simp: top_event_issues_def one_top_event_def)
  have "enforceFaultTreeMutationSafetyPermissive s = ok \<longleftrightarrow>
      (\<forall>e \<in> set (st_edges s). \<forall>i \<in> set (edge_issues (tyOf s) e). \<not> fatal i)
      \<and> (\<forall>n \<in> set (st_nodes s). \<forall>i \<in> set (node_issues (inDegree (tyOf s) (st_edges s))
            (outDegree (tyOf s) (st_edges s)) n). \<not> fatal i)
      \<and> (\<forall>i \<in> set (top_event_issues (st_nodes s)). \<not> fatal i) \<and> acyclic (erel s)"
    by (auto simp: enforceFaultTreeMutationSafetyPermissive_def filter_empty_conv
        evaluateFTAConstraintIssues_def Let_def hasDirectedCycle_iff)
  then show ?thesis
    unfolding E T wf_fatal_def using node_no_fatal [of s] by blast
qed

lemma strict_imp_permissive:
  "enforceFaultTreeMutationSafety s = ok \<Longrightarrow> enforceFaultTreeMutationSafetyPermissive s = ok"
  by (simp only: strict_ok_no_issue)
    (simp add: enforceFaultTreeMutationSafetyPermissive_def)

lemma wf_fatal_acyclic: "wf_fatal s \<Longrightarrow> acyclic (erel s)"
  by (simp add: wf_fatal_def)

lemma wf_fta_fatal: "wf_fta s \<Longrightarrow> wf_fatal s"
  by (simp add: wf_fta_def)

end
