(* ===== verification/Operations.thy ===== *)
theory Operations
  imports Constraints
begin

text \<open>
  The mutation tools of \<open>internal/graph_ops/executor.go\<close>: each handler decodes its arguments into
  the code's request struct, checks them in the code's order and edits the state. A handler returns
  the error, or its result and the state it leaves; what it did to the state before returning an
  error is not part of the model, because every caller drops the state then. A handler that makes
  identifiers takes the draws of the ID generator and the number of draws made so far, and returns
  the number made after it.
\<close>

subsection \<open>Results\<close>

text \<open>One constructor for each format string of the code; the flag is the permissive variant's
  suffix.\<close>

datatype read_payload =
    SnapshotPayload nat nat nat nat bool "FaultTreeNode list" "FaultTreeEdge list"
  | NodeDetailPayload FaultTreeNode "FaultTreeEdge list" "FaultTreeEdge list" "string list" "string list"
  | SubtreePayload string int "(FaultTreeNode \<times> nat) list" "FaultTreeEdge list"
  | GateSemanticsPayload string "ftaConstraintIssue list"
  | ConstraintsPayload nat nat "string list" "string list" "string list" "(ftaConstraintIssue \<times> suggestion) list"

datatype summary =
    NoFieldChange
  | UpdatedNode string
  | GateUnchanged string
  | UpdatedGate string string
  | AddedNode bool string "string option"
  | AddedGate bool string nat string
  | DeletedNodes bool nat
  | MovedNode bool string string
  | BatchDone bool nat
  | ReadResult read_payload

record operationResult =
  op_summary :: summary
  op_patch :: GraphPatch
  op_changedNodes :: nat
  op_changedEdges :: nat

definition mk_result :: "summary \<Rightarrow> GraphPatch \<Rightarrow> nat \<Rightarrow> nat \<Rightarrow> operationResult" where
  "mk_result sm p cn ce =
     \<lparr> op_summary = sm, op_patch = p, op_changedNodes = cn, op_changedEdges = ce \<rparr>"

lemma mk_result_sel [simp]:
  "op_summary (mk_result sm p cn ce) = sm" "op_patch (mk_result sm p cn ce) = p"
  "op_changedNodes (mk_result sm p cn ce) = cn" "op_changedEdges (mk_result sm p cn ce) = ce"
  by (simp_all add: mk_result_def)

definition operationHasGraphChanges :: "operationResult \<Rightarrow> bool" where
  "operationHasGraphChanges r \<longleftrightarrow>
     op_changedNodes r > 0 \<or> op_changedEdges r > 0 \<or> \<not> patch_empty (op_patch r)"

type_synonym step_result = "graph_error + operationResult \<times> faultTreeState \<times> nat"

subsection \<open>Decoding a request\<close>

definition need :: "'a option \<Rightarrow> graph_error + 'a" where
  "need v = (case v of None \<Rightarrow> Inl ErrJSON | Some x \<Rightarrow> Inr x)"

lemma need_Inr [simp]: "need v = Inr x \<longleftrightarrow> v = Some x"
  by (simp add: need_def split: option.split)

definition req_string :: "payload \<Rightarrow> string \<Rightarrow> graph_error + string" where
  "req_string m f = need (dec_string '''' (field_vals f m))"

definition req_ptr :: "payload \<Rightarrow> string \<Rightarrow> graph_error + string option" where
  "req_ptr m f = need (dec_ptr None (field_vals f m))"

definition req_bool :: "payload \<Rightarrow> string \<Rightarrow> graph_error + bool" where
  "req_bool m f = need (dec_bool False (field_vals f m))"

definition req_int :: "payload \<Rightarrow> string \<Rightarrow> graph_error + int" where
  "req_int m f = need (dec_int 0 (field_vals f m))"

definition req_strings :: "payload \<Rightarrow> string \<Rightarrow> graph_error + string list" where
  "req_strings m f = need (dec_strings [] (field_vals f m))"

definition unmarshal :: "raw_message \<Rightarrow> graph_error + payload" where
  "unmarshal args = need (struct_members args)"

definition lookup :: "faultTreeState \<Rightarrow> string \<Rightarrow> string \<Rightarrow> graph_error + FaultTreeNode" where
  \<comment> \<open>\<open>getNode\<close>, or \<open>ErrNodeNotFound\<close> with the given text\<close>
  "lookup s i shown = (case getNode s i of None \<Rightarrow> Inl (ErrNodeNotFound shown) | Some n \<Rightarrow> Inr n)"

lemma lookup_Inr [simp]: "lookup s i shown = Inr n \<longleftrightarrow> getNode s i = Some n"
  by (simp add: lookup_def split: option.split)

abbreviation invalid :: "string \<Rightarrow> graph_error" where "invalid msg \<equiv> ErrInvalidParameters msg"
abbreviation forbidden :: "string \<Rightarrow> graph_error" where "forbidden msg \<equiv> ErrOperationNotAllowed (Txt msg)"

subsection \<open>Updates\<close>

definition applyUpdateNode :: "faultTreeState \<Rightarrow> raw_message \<Rightarrow> nat \<Rightarrow> step_result" where
  "applyUpdateNode s args k =
     bindE (unmarshal args) (\<lambda>m.
     bindE (req_string m ''nodeId'') (\<lambda>nodeID.
     bindE (req_ptr m ''name'') (\<lambda>name.
     bindE (req_ptr m ''description'') (\<lambda>description.
     bindE (req_ptr m ''investigateMethod'') (\<lambda>method.
     bindE (lookup s nodeID nodeID) (\<lambda>node.
     bindE (guardE (\<exists>v \<in> set_option name. SanitizeStringParam v 60 = '''') (invalid ''name cannot be empty'')) (\<lambda>_.
       let named = (case name of None \<Rightarrow> node
             | Some v \<Rightarrow> node\<lparr>node_Name := SanitizeStringParam v 60\<rparr>);
           described = (case description of None \<Rightarrow> named
             | Some v \<Rightarrow> let value = SanitizeStringParam v 2000 in
                 named\<lparr>node_Description := if value = '''' then None else Some value\<rparr>);
           updated = (case method of None \<Rightarrow> described
             | Some v \<Rightarrow> let value = SanitizeStringParam v 2000 in
                 described\<lparr>node_InvestigateMethod := if value = '''' then None else Some value\<rparr>);
           changed = [(''id'', PStr (node_ID node))]
             @ opt_item ''name'' (map_option (\<lambda>v. SanitizeStringParam v 60) name)
             @ opt_item ''description'' (map_option (\<lambda>v. SanitizeStringParam v 2000) description)
             @ opt_item ''investigateMethod'' (map_option (\<lambda>v. SanitizeStringParam v 2000) method)
       in if name = None \<and> description = None \<and> method = None
          then Inr (mk_result NoFieldChange empty_patch 0 0, s, k)
          else Inr (mk_result (UpdatedNode (node_ID node)) (empty_patch\<lparr>UpsertNodes := [changed]\<rparr>) 1 0,
                    setNode s nodeID updated, k))))))))"

definition applyUpdateGate :: "faultTreeState \<Rightarrow> raw_message \<Rightarrow> nat \<Rightarrow> step_result" where
  "applyUpdateGate s args k =
     bindE (unmarshal args) (\<lambda>m.
     bindE (req_string m ''nodeId'') (\<lambda>nodeID.
     bindE (req_string m ''gateType'') (\<lambda>rawGate.
       let gateType = ToUpper (TrimSpace rawGate) in
     bindE (guardE (\<not> isValidGateType gateType) (invalid ''gateType must be AND|OR|NOT'')) (\<lambda>_.
     bindE (lookup s nodeID nodeID) (\<lambda>node.
     bindE (guardE (\<not> EqualFold (ntype node) ''gate'')
              (forbidden ''update_gate only supports existing gate nodes'')) (\<lambda>_.
       if \<exists>g \<in> set_option (node_GateType node). EqualFold (TrimSpace g) gateType
       then Inr (mk_result (GateUnchanged (node_ID node)) empty_patch 0 0, s, k)
       else Inr (mk_result (UpdatedGate (node_ID node) gateType)
              (empty_patch\<lparr>UpsertNodes := [[(''id'', PStr (node_ID node)), (''type'', PStr (node_Type node)),
                 (''gateType'', PStr gateType), (''name'', PStr (node_Name node))]]\<rparr>) 1 0,
              setNode s nodeID (node\<lparr>node_GateType := Some gateType\<rparr>), k)))))))"

subsection \<open>Adding nodes\<close>

text \<open>\<open>add_node\<close> and its permissive variant differ in the types they accept, in whether the
  parent must be a gate, and in the summary.\<close>

definition place_ok :: "faultTreeState \<Rightarrow> string \<Rightarrow> string option \<Rightarrow> graph_error + unit" where
  \<comment> \<open>a top event only on an empty tree and without a parent; any other node with a parent\<close>
  "place_ok s nodeType parent =
     (let parentID = (case parent of None \<Rightarrow> '''' | Some p \<Rightarrow> TrimSpace p) in
      if nodeType = ''topEvent'' then
        bindE (guardE (st_nodes s \<noteq> []) (forbidden ''topEvent can only be created on an empty tree''))
          (\<lambda>_. guardE (parentID \<noteq> '''') (forbidden ''topEvent cannot have a parent''))
      else guardE (parentID = '''') (invalid ''parentId is required for non-topEvent nodes''))"

definition parent_ok :: "bool \<Rightarrow> faultTreeState \<Rightarrow> string \<Rightarrow> graph_error + unit" where
  "parent_ok permissive s parentID =
     (if parentID = '''' then ok
      else bindE (lookup s parentID (''parent node '' @ parentID)) (\<lambda>p.
           bindE (guardE (EqualFold (ntype p) ''basicEvent'') (forbidden ''basicEvent cannot be a parent node'')) (\<lambda>_.
             guardE (\<not> permissive \<and> \<not> EqualFold (ntype p) ''gate'')
               (forbidden ''parent must be a gate for add_node, use add_gate first''))))"

definition new_node :: "string \<Rightarrow> string \<Rightarrow> string \<Rightarrow> string option \<Rightarrow> FaultTreeNode" where
  "new_node i nodeType nodeName description =
     (case description of None \<Rightarrow> zero_node i nodeType nodeName
      | Some v \<Rightarrow> let value = SanitizeStringParam v 2000 in
          if value = '''' then zero_node i nodeType nodeName
          else (zero_node i nodeType nodeName)\<lparr>node_Description := Some value\<rparr>)"

definition attach_node :: "bool \<Rightarrow> draws \<Rightarrow> faultTreeState \<Rightarrow> FaultTreeNode \<Rightarrow> string \<Rightarrow> nat
    \<Rightarrow> operationResult \<times> faultTreeState \<times> nat" where
  "attach_node permissive d s n parentID k =
     (let s1 = addNode s n; base = empty_patch\<lparr>UpsertNodes := [faultTreeNodePatch n]\<rparr> in
      if parentID = '''' then (mk_result (AddedNode permissive (node_ID n) None) base 1 0, s1, k)
      else let edge = mk_edge (NewID d k ''fte'') parentID (node_ID n);
               patch = base\<lparr>UpsertEdges := [faultTreeEdgePatch edge]\<rparr>
           in (mk_result (AddedNode permissive (node_ID n) (Some parentID)) patch 1 (snd (patchChangedCounts patch)),
               snd (addEdge s1 edge), Suc k))"

definition applyAddNode :: "draws \<Rightarrow> faultTreeState \<Rightarrow> raw_message \<Rightarrow> nat \<Rightarrow> step_result" where
  "applyAddNode d s args k =
     bindE (unmarshal args) (\<lambda>m.
     bindE (req_string m ''name'') (\<lambda>name.
     bindE (req_string m ''nodeType'') (\<lambda>rawType.
     bindE (req_ptr m ''description'') (\<lambda>description.
     bindE (req_ptr m ''parentId'') (\<lambda>parent.
       let nodeName = SanitizeStringParam name 60; nodeType = TrimSpace rawType;
           parentID = (case parent of None \<Rightarrow> '''' | Some p \<Rightarrow> TrimSpace p) in
     bindE (guardE (nodeName = '''') (invalid ''name is required'')) (\<lambda>_.
     bindE (guardE (\<not> isValidNodeType nodeType) (invalid ''nodeType invalid'')) (\<lambda>_.
     bindE (guardE (nodeType = ''gate'') (forbidden ''add_node does not allow gate, use add_gate instead'')) (\<lambda>_.
     bindE (place_ok s nodeType parent) (\<lambda>_.
     bindE (parent_ok False s parentID) (\<lambda>_.
       Inr (attach_node False d s (new_node (NewID d k ''ftn'') nodeType nodeName description) parentID (Suc k))))))))))))"

definition applyAddNodePermissive :: "draws \<Rightarrow> faultTreeState \<Rightarrow> raw_message \<Rightarrow> nat \<Rightarrow> step_result" where
  "applyAddNodePermissive d s args k =
     bindE (unmarshal args) (\<lambda>m.
     bindE (req_string m ''name'') (\<lambda>name.
     bindE (req_string m ''nodeType'') (\<lambda>rawType.
     bindE (req_ptr m ''description'') (\<lambda>description.
     bindE (req_ptr m ''parentId'') (\<lambda>parent.
       let nodeName = SanitizeStringParam name 60; nodeType = TrimSpace rawType;
           parentID = (case parent of None \<Rightarrow> '''' | Some p \<Rightarrow> TrimSpace p) in
     bindE (guardE (nodeName = '''') (invalid ''name is required'')) (\<lambda>_.
     bindE (guardE (\<not> isValidAddNodeType nodeType) (invalid ''nodeType invalid'')) (\<lambda>_.
     bindE (place_ok s nodeType parent) (\<lambda>_.
     bindE (parent_ok True s parentID) (\<lambda>_.
       Inr (attach_node True d s (new_node (NewID d k ''ftn'') nodeType nodeName description) parentID (Suc k)))))))))))"

subsection \<open>Adding gates\<close>

definition gate_parent :: "payload \<Rightarrow> graph_error + string" where
  \<comment> \<open>\<open>parentId\<close>, or \<open>parentNodeId\<close> when it is blank\<close>
  "gate_parent m =
     bindE (req_string m ''parentId'') (\<lambda>p. bindE (req_string m ''parentNodeId'') (\<lambda>q.
       Inr (if TrimSpace p = '''' then q else p)))"

definition gate_children :: "payload \<Rightarrow> graph_error + string list" where
  "gate_children m =
     bindE (req_strings m ''childIds'') (\<lambda>a. bindE (req_strings m ''childNodeIds'') (\<lambda>b.
     bindE (req_strings m ''children'') (\<lambda>c.
       Inr (if a \<noteq> [] then a else if b \<noteq> [] then b else c))))"

fun order_children :: "faultTreeState \<Rightarrow> string \<Rightarrow> string list \<Rightarrow> string list \<Rightarrow> graph_error + string list" where
  \<comment> \<open>the loop over the requested children; \<open>acc\<close> is \<open>orderedChildren\<close>\<close>
  "order_children s parentID acc [] = Inr acc"
| "order_children s parentID acc (childID # cs) =
     (let cid = TrimSpace childID in
      if cid = '''' \<or> cid \<in> set acc then order_children s parentID acc cs
      else if cid = parentID then Inl (invalid ''childIds cannot contain parentId'')
      else bindE (lookup s cid (''child node '' @ cid)) (\<lambda>child.
           bindE (guardE (EqualFold (ntype child) ''topEvent'') (forbidden ''topEvent cannot be rewired as a child'')) (\<lambda>_.
           bindE (guardE (findEdgeID s parentID cid = None) 
             (forbidden (''edge '' @ parentID @ ''->'' @ cid @ '' does not exist, cannot rewire''))) (\<lambda>_.
             order_children s parentID (acc @ [cid]) cs))))"

definition arity_ok :: "bool \<Rightarrow> string \<Rightarrow> nat \<Rightarrow> graph_error + unit" where
  "arity_ok permissive gateType n =
     (if gateType = ''NOT'' then
        bindE (guardE (n = 0) (invalid ''add_gate requires at least 1 valid childIds for NOT gate'')) (\<lambda>_.
          guardE (n > 1) (invalid ''NOT gate supports at most 1 child''))
      else if permissive
        then guardE (n < 1) (invalid ''add_gate requires at least 1 valid childIds in repairMode'')
      else guardE (n < 2) (invalid ''add_gate requires at least 2 valid childIds for AND/OR gates''))"

fun fresh_edges :: "draws \<Rightarrow> nat \<Rightarrow> (string \<times> string) list \<Rightarrow> FaultTreeEdge list" where
  "fresh_edges d k [] = []"
| "fresh_edges d k ((a, b) # ps) = mk_edge (NewID d k ''fte'') a b # fresh_edges d (Suc k) ps"

fun addEdges :: "faultTreeState \<Rightarrow> FaultTreeEdge list \<Rightarrow> FaultTreeEdge list \<times> faultTreeState" where
  \<comment> \<open>the edges that \<open>addEdge\<close> accepted, and the state\<close>
  "addEdges s [] = ([], s)"
| "addEdges s (e # es) =
     (case addEdge s e of (added, s1) \<Rightarrow>
       (case addEdges s1 es of (rest, s2) \<Rightarrow> (if added then e # rest else rest, s2)))"

definition gate_node :: "string \<Rightarrow> string \<Rightarrow> FaultTreeNode" where
  "gate_node i gateType = (zero_node i ''gate'' gateType)\<lparr>node_GateType := Some gateType\<rparr>"

definition insert_gate :: "bool \<Rightarrow> draws \<Rightarrow> faultTreeState \<Rightarrow> string \<Rightarrow> string \<Rightarrow> string list \<Rightarrow> nat
    \<Rightarrow> operationResult \<times> faultTreeState \<times> nat" where
  "insert_gate permissive d s gateType parentID children k =
     (let gate = gate_node (NewID d k ''gate'') gateType;
          pairs = (parentID, node_ID gate) # map (\<lambda>c. (node_ID gate, c)) children;
          s1 = addNode s gate
      in case removeEdgesByFromTo s1 parentID (set children) of (deleted, s2) \<Rightarrow>
         (case addEdges s2 (fresh_edges d (Suc k) pairs) of (added, s3) \<Rightarrow>
           let patch = empty_patch\<lparr>UpsertNodes := [faultTreeNodePatch gate], DeleteEdges := deleted,
                 UpsertEdges := map faultTreeEdgePatch added\<rparr>
           in (mk_result (AddedGate permissive (node_ID gate) (length children) parentID) patch 1
                 (snd (patchChangedCounts patch)), s3, Suc k + length pairs)))"

definition add_gate_with :: "bool \<Rightarrow> draws \<Rightarrow> faultTreeState \<Rightarrow> raw_message \<Rightarrow> nat \<Rightarrow> step_result" where
  "add_gate_with permissive d s args k =
     bindE (unmarshal args) (\<lambda>m.
     bindE (req_string m ''gateType'') (\<lambda>rawGate.
     bindE (gate_parent m) (\<lambda>rawParent.
     bindE (gate_children m) (\<lambda>childIDs.
       let gateType = ToUpper (TrimSpace rawGate); parentID = TrimSpace rawParent in
     bindE (guardE (\<not> isValidGateType gateType) (invalid ''gateType invalid'')) (\<lambda>_.
     bindE (lookup s parentID (''parent node '' @ parentID)) (\<lambda>p.
     bindE (guardE (EqualFold (ntype p) ''basicEvent'') (forbidden ''basicEvent cannot be a parent node'')) (\<lambda>_.
     bindE (guardE (childIDs = []) (invalid ''childIds is required'')) (\<lambda>_.
     bindE (order_children s parentID [] childIDs) (\<lambda>children.
     bindE (arity_ok permissive gateType (length children)) (\<lambda>_.
       Inr (insert_gate permissive d s gateType parentID children k)))))))))))"

definition applyAddGate :: "draws \<Rightarrow> faultTreeState \<Rightarrow> raw_message \<Rightarrow> nat \<Rightarrow> step_result" where
  "applyAddGate = add_gate_with False"

definition applyAddGatePermissive :: "draws \<Rightarrow> faultTreeState \<Rightarrow> raw_message \<Rightarrow> nat \<Rightarrow> step_result" where
  "applyAddGatePermissive = add_gate_with True"

subsection \<open>Deleting and moving\<close>

definition bypass_pairs :: "string list \<Rightarrow> string list \<Rightarrow> (string \<times> string) list" where
  \<comment> \<open>the loops that connect each parent of a deleted node to each of its children\<close>
  "bypass_pairs parentIDs childIDs =
     filter (\<lambda>(p, c). p \<noteq> c) (List.product parentIDs childIDs)"

definition delete_with :: "bool \<Rightarrow> draws \<Rightarrow> faultTreeState \<Rightarrow> raw_message \<Rightarrow> nat \<Rightarrow> step_result" where
  "delete_with permissive d s args k =
     bindE (unmarshal args) (\<lambda>m.
     bindE (req_string m ''nodeId'') (\<lambda>rawID.
     bindE (req_bool m ''deleteChildren'') (\<lambda>deleteChildren.
       let nodeID = TrimSpace rawID in
     bindE (lookup s nodeID nodeID) (\<lambda>node.
     bindE (guardE (EqualFold (ntype node) ''topEvent'') (forbidden ''topEvent cannot be deleted'')) (\<lambda>_.
       let parentIDs = parentIDsOf s nodeID; childIDs = childIDsOf s nodeID;
           toDelete = insert nodeID (if deleteChildren then set (collectDescendants s nodeID) else {}) in
     bindE (guardE (\<not> permissive \<and> \<not> deleteChildren \<and> childIDs \<noteq> [] \<and> parentIDs = [])
              (forbidden ''cannot delete root-like node without deleting children'')) (\<lambda>_.
       case removeNodes s toDelete of ((deletedNodes, deletedEdges), s1) \<Rightarrow>
     bindE (guardE (deletedNodes = []) (forbidden ''no node deleted'')) (\<lambda>_.
       let pairs = (if \<not> deleteChildren \<and> parentIDs \<noteq> [] \<and> childIDs \<noteq> []
                    then bypass_pairs parentIDs childIDs else [])
       in case addEdges s1 (fresh_edges d k pairs) of (added, s2) \<Rightarrow>
         let patch = empty_patch\<lparr>DeleteNodes := deletedNodes, DeleteEdges := deletedEdges,
               UpsertEdges := map faultTreeEdgePatch added\<rparr>
         in Inr (mk_result (DeletedNodes permissive (length deletedNodes)) patch (length deletedNodes)
                   (snd (patchChangedCounts patch)), s2, k + length pairs))))))))"

definition applyDeleteNode :: "draws \<Rightarrow> faultTreeState \<Rightarrow> raw_message \<Rightarrow> nat \<Rightarrow> step_result" where
  "applyDeleteNode = delete_with False"

definition applyDeleteNodePermissive :: "draws \<Rightarrow> faultTreeState \<Rightarrow> raw_message \<Rightarrow> nat \<Rightarrow> step_result" where
  "applyDeleteNodePermissive = delete_with True"

definition move_with :: "bool \<Rightarrow> draws \<Rightarrow> faultTreeState \<Rightarrow> raw_message \<Rightarrow> nat \<Rightarrow> step_result" where
  "move_with permissive d s args k =
     bindE (unmarshal args) (\<lambda>m.
     bindE (req_string m ''nodeId'') (\<lambda>rawID.
     bindE (req_string m ''newParentId'') (\<lambda>rawParent.
       let nodeID = TrimSpace rawID; newParentID = TrimSpace rawParent in
     bindE (guardE (nodeID = '''' \<or> newParentID = '''') (invalid ''nodeId and newParentId are required'')) (\<lambda>_.
     bindE (guardE (nodeID = newParentID) (invalid ''node cannot be parent of itself'')) (\<lambda>_.
     bindE (lookup s nodeID nodeID) (\<lambda>node.
     bindE (lookup s newParentID newParentID) (\<lambda>newParent.
     bindE (guardE (EqualFold (ntype node) ''topEvent'')
              (forbidden ''topEvent cannot be moved under another parent'')) (\<lambda>_.
     bindE (guardE (EqualFold (ntype newParent) ''basicEvent'')
              (forbidden ''basicEvent cannot be a parent node'')) (\<lambda>_.
     bindE (guardE (\<not> permissive \<and> \<not> EqualFold (ntype newParent) ''gate'' \<and> \<not> EqualFold (ntype node) ''gate'')
              (forbidden ''non-gate parent can only attach gate nodes'')) (\<lambda>_.
     bindE (guardE (newParentID \<in> set (collectDescendants s nodeID))
              (forbidden ''moving node under its descendant would create a cycle'')) (\<lambda>_.
       let edge = mk_edge (NewID d k ''fte'') newParentID nodeID in
       case removeIncomingEdges s nodeID of (deleted, s1) \<Rightarrow>
       case addEdge s1 edge of (added, s2) \<Rightarrow>
         let patch = empty_patch\<lparr>DeleteEdges := deleted,
               UpsertEdges := (if added then [faultTreeEdgePatch edge] else [])\<rparr>
         in Inr (mk_result (MovedNode permissive nodeID newParentID) patch 1
                   (snd (patchChangedCounts patch)), s2, Suc k))))))))))))"

definition applyMoveNode :: "draws \<Rightarrow> faultTreeState \<Rightarrow> raw_message \<Rightarrow> nat \<Rightarrow> step_result" where
  "applyMoveNode = move_with False"

definition applyMoveNodePermissive :: "draws \<Rightarrow> faultTreeState \<Rightarrow> raw_message \<Rightarrow> nat \<Rightarrow> step_result" where
  "applyMoveNodePermissive = move_with True"

end
