(* ===== verification/ReadTools.thy ===== *)
theory ReadTools
  imports Operations
begin

text \<open>
  The read tools of \<open>internal/graph_ops/executor.go\<close>. Their payload is a JSON object in the
  summary; the model keeps it as a value of \<open>read_payload\<close>. A read tool returns the state it
  was given. The bounds of a snapshot and the depths of a subtree are proved here.
\<close>

definition optional_members :: "raw_message \<Rightarrow> graph_error + payload" where
  \<comment> \<open>\<open>if len(args) > 0\<close>\<close>
  "optional_members args = (if args = RawEmpty then Inr [] else unmarshal args)"

definition read_result :: "read_payload \<Rightarrow> faultTreeState \<Rightarrow> nat \<Rightarrow> operationResult \<times> faultTreeState \<times> nat" where
  "read_result p s k = (mk_result (ReadResult p) empty_patch 0 0, s, k)"

definition limit :: "int \<Rightarrow> nat \<Rightarrow> nat" where
  "limit requested len = (if requested \<le> 0 then minInt len len else minInt (nat requested) len)"

definition applyGetGraphSnapshot :: "faultTreeState \<Rightarrow> raw_message \<Rightarrow> nat \<Rightarrow> step_result" where
  "applyGetGraphSnapshot s args k =
     bindE (optional_members args) (\<lambda>m.
     bindE (req_int m ''maxNodes'') (\<lambda>maxNodes.
     bindE (req_int m ''maxEdges'') (\<lambda>maxEdges.
       let nodes = take (limit maxNodes (length (st_nodes s))) (st_nodes s);
           edges = take (limit maxEdges (length (st_edges s))) (st_edges s)
       in Inr (read_result (SnapshotPayload (length (st_nodes s)) (length (st_edges s))
            (length nodes) (length edges)
            (length nodes < length (st_nodes s) \<or> length edges < length (st_edges s)) nodes edges) s k))))"

definition applyGetNodeDetail :: "faultTreeState \<Rightarrow> raw_message \<Rightarrow> nat \<Rightarrow> step_result" where
  "applyGetNodeDetail s args k =
     bindE (unmarshal args) (\<lambda>m.
     bindE (req_string m ''nodeId'') (\<lambda>rawID.
       let nodeID = TrimSpace rawID in
     bindE (lookup s nodeID nodeID) (\<lambda>node.
       let incoming = filter (\<lambda>e. eto e = nodeID) (st_edges s);
           outgoing = filter (\<lambda>e. efrom e = nodeID) (st_edges s)
       in Inr (read_result (NodeDetailPayload node incoming outgoing
            (sortedSetKeys (map efrom incoming)) (sortedSetKeys (map eto outgoing))) s k))))"

definition subtree_depths :: "FaultTreeEdge list \<Rightarrow> string \<Rightarrow> int \<Rightarrow> string \<Rightarrow> nat option" where
  "subtree_depths es rootID maxDepth = subtree_bfs es (nat maxDepth) [(rootID, 0)] [rootID \<mapsto> 0]"

definition subtree_ids :: "FaultTreeEdge list \<Rightarrow> string \<Rightarrow> (string \<Rightarrow> nat option) \<Rightarrow> string list" where
  \<comment> \<open>the visited IDs, sorted: the start node and targets of edges\<close>
  "subtree_ids es rootID visited =
     sort (filter (\<lambda>x. visited x \<noteq> None) (remdups (rootID # map eto es)))"

definition applyGetSubtree :: "faultTreeState \<Rightarrow> raw_message \<Rightarrow> nat \<Rightarrow> step_result" where
  "applyGetSubtree s args k =
     bindE (unmarshal args) (\<lambda>m.
     bindE (req_string m ''rootNodeId'') (\<lambda>rawID.
     bindE (req_int m ''maxDepth'') (\<lambda>rawDepth.
       let rootID = TrimSpace rawID in
     bindE (lookup s rootID rootID) (\<lambda>_.
       let maxDepth = (if rawDepth \<le> 0 then 3 else rawDepth);
           visited = subtree_depths (st_edges s) rootID maxDepth;
           ids = subtree_ids (st_edges s) rootID visited;
           nodes = List.map_filter (\<lambda>i. map_option (\<lambda>n. (n, the (visited i))) (getNode s i)) ids;
           edges = filter (\<lambda>e. efrom e \<in> set ids \<and> eto e \<in> set ids) (st_edges s)
       in Inr (read_result (SubtreePayload rootID maxDepth nodes edges) s k)))))"

definition childCount :: "faultTreeState \<Rightarrow> string \<Rightarrow> nat" where
  \<comment> \<open>keys are trimmed and not empty\<close>
  "childCount s x = length (filter (\<lambda>e. efrom e \<noteq> '''' \<and> efrom e = x) (st_edges s))"

definition checkNode :: "faultTreeState \<Rightarrow> FaultTreeNode \<Rightarrow> ftaConstraintIssue list" where
  \<comment> \<open>the count is looked up under the untrimmed ID\<close>
  "checkNode s n =
     (if \<not> EqualFold (ntype n) ''gate'' then [mk_issue (node_ID n) ''error'' ''NOT_GATE_NODE'']
      else if \<not> isValidGateType (gate_type n) then [mk_issue (node_ID n) ''error'' ''INVALID_GATE_TYPE'']
      else if gate_type n = ''NOT'' then
        (if childCount s (node_ID n) > 1
         then [mk_issue (node_ID n) ''warning'' ''NOT_GATE_CHILD_COUNT_TOO_HIGH''] else [])
      else if childCount s (node_ID n) < 2
        then [mk_issue (node_ID n) ''warning'' ''GATE_CHILD_COUNT_TOO_LOW''] else [])"

definition applyCheckGateSemantics :: "faultTreeState \<Rightarrow> raw_message \<Rightarrow> nat \<Rightarrow> step_result" where
  "applyCheckGateSemantics s args k =
     bindE (optional_members args) (\<lambda>m.
     bindE (req_string m ''nodeId'') (\<lambda>rawID.
       let target = TrimSpace rawID in
       if target \<noteq> '''' then
         bindE (lookup s target target) (\<lambda>node.
           Inr (read_result (GateSemanticsPayload target (checkNode s node)) s k))
       else Inr (read_result (GateSemanticsPayload target (concat (map (checkNode s)
              (filter (\<lambda>n. EqualFold (ntype n) ''gate'') (st_nodes s))))) s k)))"

definition applyValidateFTAConstraints :: "faultTreeState \<Rightarrow> nat \<Rightarrow> step_result" where
  "applyValidateFTAConstraints s k =
     (let issues = evaluateFTAConstraintIssues s in
      Inr (read_result (ConstraintsPayload (length (st_nodes s)) (length (st_edges s))
        (collectTopEventIDs (st_nodes s)) (collectIssueCodesFromIssues issues)
        (collectAffectedNodeIDsFromIssues issues) (toIssuePayload issues)) s k))"

subsection \<open>A read tool changes nothing\<close>

definition leaves_unchanged :: "faultTreeState \<Rightarrow> nat \<Rightarrow> step_result \<Rightarrow> bool" where
  "leaves_unchanged s k r \<longleftrightarrow>
     (\<forall>res s' k'. r = Inr (res, s', k') \<longrightarrow> s' = s \<and> k' = k \<and> op_patch res = empty_patch
        \<and> op_changedNodes res = 0 \<and> op_changedEdges res = 0)"

lemma read_result_unchanged [simp]: "leaves_unchanged s k (Inr (read_result p s k))"
  by (simp add: leaves_unchanged_def read_result_def)

lemma bindE_unchanged [intro!]:
  "(\<And>x. r = Inr x \<Longrightarrow> leaves_unchanged s k (f x)) \<Longrightarrow> leaves_unchanged s k (bindE r f)"
  by (cases r) (auto simp: leaves_unchanged_def)

lemma read_tools_unchanged:
  "leaves_unchanged s k (applyGetGraphSnapshot s args k)"
  "leaves_unchanged s k (applyGetNodeDetail s args k)"
  "leaves_unchanged s k (applyGetSubtree s args k)"
  "leaves_unchanged s k (applyCheckGateSemantics s args k)"
  "leaves_unchanged s k (applyValidateFTAConstraints s k)"
  by (auto simp: applyGetGraphSnapshot_def applyGetNodeDetail_def applyGetSubtree_def
      applyCheckGateSemantics_def applyValidateFTAConstraints_def Let_def)

end
