(* ===== verification/FTInvariant.thy ===== *)
theory FTInvariant
  imports ReadTools
begin

text \<open>
  The invariant of the in-memory tree and its preservation by every tool. \<open>ft_inv\<close> holds of a
  state whose index agrees with its nodes, whose node IDs differ by more than letter case, and
  whose edges carry trimmed ends that exist and close no cycle. \<open>good_step\<close> is the contract a
  tool call keeps: it draws identifiers in order, adds no node but those it drew, and preserves the
  invariant when the identifiers it drew are fresh.
\<close>

subsection \<open>The invariant\<close>

definition case_unique :: "faultTreeState \<Rightarrow> bool" where
  "case_unique s \<longleftrightarrow> distinct (map (\<lambda>n. fold_case (nid n)) (st_nodes s))"

definition ends_trimmed :: "faultTreeState \<Rightarrow> bool" where
  "ends_trimmed s \<longleftrightarrow>
     (\<forall>e \<in> set (st_edges s). efrom e = edge_FromNodeID e \<and> eto e = edge_ToNodeID e)"

definition ft_inv :: "faultTreeState \<Rightarrow> bool" where
  "ft_inv s \<longleftrightarrow> index_ok s \<and> case_unique s \<and> [] \<notin> node_ids s \<and> edges_connected s
     \<and> ends_trimmed s \<and> acyclic (erel s)"

lemma ft_invD:
  assumes "ft_inv s"
  shows "index_ok s" "case_unique s" "[] \<notin> node_ids s" "edges_connected s" "ends_trimmed s" "acyclic (erel s)"
  using assms by (simp_all add: ft_inv_def)

lemma case_unique_ids: "case_unique s \<Longrightarrow> unique_ids s"
proof -
  assume "case_unique s"
  then have "distinct (map fold_case (map nid (st_nodes s)))" by (simp add: case_unique_def comp_def)
  then show ?thesis unfolding unique_ids_def by (simp only: distinct_map)
qed

lemma case_unique_eq:
  assumes "case_unique s" and "a \<in> node_ids s" and "b \<in> node_ids s" and "EqualFold a b"
  shows "a = b"
  using assms by (auto simp: case_unique_def node_ids_def EqualFold_def distinct_map inj_on_def)

lemma ft_inv_fatal:
  "ft_inv s \<Longrightarrow> wf_fatal s \<longleftrightarrow> one_top_event s \<and> top_is_root s"
  by (auto simp: ft_inv_def wf_fatal_def)

text \<open>The ends of an edge of a tree that keeps the invariant.\<close>

lemma ft_inv_edge:
  assumes "ft_inv s" and "e \<in> set (st_edges s)"
  shows "(efrom e, eto e) \<in> erel s" "efrom e \<in> node_ids s" "eto e \<in> node_ids s"
    "efrom e \<noteq> []" "eto e \<noteq> []" "edge_FromNodeID e = efrom e" "edge_ToNodeID e = eto e"
  using assms by (auto simp: ft_inv_def edges_connected_def live_edge_def ends_trimmed_def edge_rel_iff)

lemma node_present:
  assumes "ft_inv s" and "getNode s x = Some n" and "TrimSpace x = x"
  shows "x \<in> node_ids s"
  using getNode_Some [OF ft_invD(1) [OF assms(1)] assms(2)] assms(3) unfolding node_ids_def by force

lemma erel_nodes:
  assumes "ft_inv s" and "(a, b) \<in> erel s"
  shows "a \<in> node_ids s" "b \<in> node_ids s" "a \<noteq> b"
proof -
  show "a \<in> node_ids s" "b \<in> node_ids s"
    using assms by (auto simp: ft_inv_def edges_connected_def edge_rel_iff)
  show "a \<noteq> b" using assms(2) ft_invD(6) [OF assms(1)] by (auto simp: acyclic_def)
qed

subsection \<open>How the edits keep it\<close>

lemma ft_inv_setNode [ft_inv_intros]:
  assumes "ft_inv s" and "nid n = TrimSpace i"
  shows "ft_inv (setNode s i n)"
proof -
  have m: "map nid (st_nodes (setNode s i n)) = map nid (st_nodes s)"
    using assms by (intro setNode_map_nid) (simp_all add: ft_inv_def)
  have "case_unique (setNode s i n) = case_unique s"
    unfolding case_unique_def using arg_cong [OF m, of "map fold_case"] by (simp add: comp_def)
  moreover have "edges_connected (setNode s i n) = edges_connected s" "ends_trimmed (setNode s i n) = ends_trimmed s"
    using assms by (simp_all add: edges_connected_def ends_trimmed_def setNode_ids ft_inv_def)
  ultimately show ?thesis using assms by (simp add: ft_inv_def setNode_index_ok setNode_ids)
qed

lemma ft_inv_addNode [ft_inv_intros]:
  assumes "ft_inv s" and "fold_case (nid n) \<notin> fold_case ` node_ids s" and "nid n \<noteq> []"
  shows "ft_inv (addNode s n)"
  using assms
  by (auto simp: ft_inv_def addNode_index_ok case_unique_def edges_connected_def ends_trimmed_def
      node_ids_def image_image)

lemma ft_inv_edges:
  assumes "ft_inv s" and "acyclic (edge_rel es)"
    and "\<And>e. e \<in> set es \<Longrightarrow> edge_FromNodeID e \<in> node_ids s \<and> edge_ToNodeID e \<in> node_ids s
      \<and> efrom e = edge_FromNodeID e \<and> eto e = edge_ToNodeID e"
  shows "ft_inv (s\<lparr>st_edges := es\<rparr>)"
proof -
  have "edges_connected (s\<lparr>st_edges := es\<rparr>)"
    unfolding edges_connected_def live_edge_def
  proof (intro ballI)
    fix e assume "e \<in> set (st_edges (s\<lparr>st_edges := es\<rparr>))"
    then have *: "edge_FromNodeID e \<in> node_ids s \<and> edge_ToNodeID e \<in> node_ids s
      \<and> efrom e = edge_FromNodeID e \<and> eto e = edge_ToNodeID e" by (intro assms(3)) simp
    with ft_invD(3) [OF assms(1)]
    show "(efrom e \<noteq> [] \<and> eto e \<noteq> []) \<and> efrom e \<in> node_ids (s\<lparr>st_edges := es\<rparr>)
        \<and> eto e \<in> node_ids (s\<lparr>st_edges := es\<rparr>)" by auto
  qed
  with assms show ?thesis by (simp add: ft_inv_def case_unique_def ends_trimmed_def)
qed

lemma ft_inv_removeNodes [ft_inv_intros]:
  assumes "ft_inv s"
  shows "ft_inv (snd (removeNodes s ids))"
proof -
  have "acyclic (erel (snd (removeNodes s ids)))"
    using ft_invD(6) [OF assms] by (rule acyclic_subset) (simp add: edge_rel_filter_subset)
  with assms show ?thesis
    by (auto simp: ft_inv_def removeNodes_index_ok case_unique_def distinct_map_filter edges_connected_def
        ends_trimmed_def touches_def)
qed

lemma addEdge_record: "snd (addEdge s e) = s\<lparr>st_edges := st_edges (snd (addEdge s e))\<rparr>"
  by (simp add: addEdge_def)

lemma snd_addEdges [simp]:
  "snd (addEdges s []) = s"
  "snd (addEdges s (e # es)) = snd (addEdges (snd (addEdge s e)) es)"
  by (simp_all add: addEdges.simps split: prod.split)

declare addEdges.simps [simp del]

lemma addEdges_record: "snd (addEdges s es) = s\<lparr>st_edges := st_edges (snd (addEdges s es))\<rparr>"
proof (induction es arbitrary: s)
  case (Cons e es)
  show ?case
    using Cons.IH [of s] Cons.IH [of "s\<lparr>st_edges := st_edges s @ [e]\<rparr>"] addEdge_cases [of s e] by auto
qed simp

lemma addEdges_edges: "set (st_edges (snd (addEdges s es))) \<subseteq> set (st_edges s) \<union> set es"
proof (induction es arbitrary: s)
  case (Cons e es)
  have "set (st_edges (snd (addEdges s (e # es)))) \<subseteq> set (st_edges (snd (addEdge s e))) \<union> set es"
    using Cons.IH [of "snd (addEdge s e)"] by simp
  then show ?case using addEdge_edges [of s e] by auto
qed simp

abbreviation ends :: "FaultTreeEdge \<Rightarrow> string \<times> string" where
  "ends e \<equiv> (edge_FromNodeID e, edge_ToNodeID e)"

definition ends_in :: "faultTreeState \<Rightarrow> FaultTreeEdge \<Rightarrow> bool" where
  "ends_in s e \<longleftrightarrow> edge_FromNodeID e \<in> node_ids s \<and> edge_ToNodeID e \<in> node_ids s
     \<and> efrom e = edge_FromNodeID e \<and> eto e = edge_ToNodeID e"

lemma ends_fresh_edges [simp]: "ends ` set (fresh_edges d k ps) = set ps"
  by (induction d k ps rule: fresh_edges.induct) auto

lemma ends_in_fresh_edges:
  assumes "\<And>a b. (a, b) \<in> set ps \<Longrightarrow> a \<in> node_ids s \<and> b \<in> node_ids s \<and> TrimSpace a = a \<and> TrimSpace b = b"
    and "e \<in> set (fresh_edges d k ps)"
  shows "ends_in s e"
proof -
  have "ends e \<in> set ps" using imageI [OF assms(2), of ends] by simp
  from assms(1) [OF this] show ?thesis by (simp add: ends_in_def)
qed

text \<open>Adding edges that join existing IDs keeps the invariant when the graph with them is
  acyclic.\<close>

lemma ft_inv_addEdges:
  assumes inv: "ft_inv s" and es: "\<And>e. e \<in> set es \<Longrightarrow> ends_in s e"
    and ac: "acyclic (erel s \<union> ends ` set es)"
  shows "ft_inv (snd (addEdges s es))"
proof -
  let ?es = "st_edges (snd (addEdges s es))"
  have "edge_rel ?es \<subseteq> erel s \<union> ends ` set es"
    using addEdges_edges [of s es] es by (force simp: edge_rel_iff ends_in_def)
  with ac have "acyclic (edge_rel ?es)" by (rule acyclic_subset)
  moreover have "ends_in s e" if "e \<in> set ?es" for e
    using that addEdges_edges [of s es] es ft_inv_edge [OF inv, of e] by (auto simp: ends_in_def)
  ultimately have "ft_inv (s\<lparr>st_edges := ?es\<rparr>)" 
    using inv by (intro ft_inv_edges) (auto simp: ends_in_def)
  then show ?thesis by (simp flip: addEdges_record)
qed

lemma addEdges_ids [simp, ft_simps]: "node_ids (snd (addEdges s es)) = node_ids s"
  by (subst addEdges_record) simp

lemma addEdges_one: "snd (addEdges s [e]) = snd (addEdge s e)"
  by simp

subsection \<open>The contract of a step\<close>

definition node_prefixes :: "string set" where
  "node_prefixes = {''ftn'', ''gate''}"

definition drawn :: "draws \<Rightarrow> nat \<Rightarrow> nat \<Rightarrow> string set" where
  \<comment> \<open>the node IDs the draws from \<open>k\<close> to before \<open>k'\<close> can make\<close>
  "drawn d k k' = (\<lambda>(j, p). NewID d j p) ` ({k..<k'} \<times> node_prefixes)"

definition fresh_draws :: "draws \<Rightarrow> nat \<Rightarrow> nat \<Rightarrow> faultTreeState \<Rightarrow> bool" where
  \<comment> \<open>what the clock and the random bytes of \<open>util.NewID\<close> are for\<close>
  "fresh_draws d k k' s \<longleftrightarrow>
     (\<forall>x \<in> drawn d k k'. fold_case x \<notin> fold_case ` node_ids s)
     \<and> (\<forall>i \<in> {k..<k'}. \<forall>j \<in> {k..<k'}. \<forall>p \<in> node_prefixes. \<forall>q \<in> node_prefixes.
          i \<noteq> j \<longrightarrow> fold_case (NewID d i p) \<noteq> fold_case (NewID d j q))"

lemma drawn_mono: "k \<le> k1 \<Longrightarrow> k2 \<le> k' \<Longrightarrow> drawn d k1 k2 \<subseteq> drawn d k k'"
  unfolding drawn_def by (intro image_mono) auto

lemma fresh_first: "fresh_draws d k k' s \<Longrightarrow> k1 \<le> k' \<Longrightarrow> fresh_draws d k k1 s"
  unfolding fresh_draws_def using drawn_mono [of k k k1 k' d] by auto

lemma fresh_rest:
  assumes "fresh_draws d k k' s" and "k \<le> k1" and "k1 \<le> k'" and "node_ids s1 \<subseteq> node_ids s \<union> drawn d k k1"
  shows "fresh_draws d k1 k' s1"
proof -
  have "fold_case x \<notin> fold_case ` node_ids s1" if x: "x \<in> drawn d k1 k'" for x
  proof
    assume "fold_case x \<in> fold_case ` node_ids s1"
    then obtain y where y: "y \<in> node_ids s1" "fold_case x = fold_case y" by auto
    from x obtain i p where i: "x = NewID d i p" "k1 \<le> i" "i < k'" "p \<in> node_prefixes"
      by (auto simp: drawn_def)
    show False
    proof (cases "y \<in> node_ids s")
      case True
      moreover have "x \<in> drawn d k k'" using x drawn_mono [of k k1 k' k' d] assms(2) by auto
      ultimately show False using assms(1) y by (auto simp: fresh_draws_def)
    next
      case False
      with y assms(4) obtain j q where "y = NewID d j q" "k \<le> j" "j < k1" "q \<in> node_prefixes"
        by (auto simp: drawn_def)
      with i y assms(1-3) show False by (auto simp: fresh_draws_def)
    qed
  qed
  with assms show ?thesis by (auto simp: fresh_draws_def)
qed

lemma fresh_first_id:
  assumes "fresh_draws d k k' s" and "k < k'" and "p \<in> node_prefixes"
  shows "fold_case (NewID d k p) \<notin> fold_case ` node_ids s"
proof -
  have "NewID d k p \<in> drawn d k k'" using assms by (force simp: drawn_def)
  with assms(1) show ?thesis by (simp add: fresh_draws_def)
qed

definition good_step :: "draws \<Rightarrow> faultTreeState \<Rightarrow> nat \<Rightarrow> step_result \<Rightarrow> bool" where
  "good_step d s k r \<longleftrightarrow> (\<forall>res s' k'. r = Inr (res, s', k') \<longrightarrow>
     k \<le> k' \<and> (ft_inv s \<longrightarrow> fresh_draws d k k' s \<longrightarrow>
       ft_inv s' \<and> node_ids s' \<subseteq> node_ids s \<union> drawn d k k'))"

lemma good_step_Inl [simp, intro!]: "good_step d s k (Inl e)"
  by (simp add: good_step_def)

lemma good_stepI:
  assumes "k \<le> k'" and "ft_inv s \<Longrightarrow> fresh_draws d k k' s \<Longrightarrow> ft_inv s'"
    and "ft_inv s \<Longrightarrow> fresh_draws d k k' s \<Longrightarrow> node_ids s' \<subseteq> node_ids s \<union> drawn d k k'"
  shows "good_step d s k (Inr (res, s', k'))"
  using assms by (simp add: good_step_def)

lemma good_step_same [simp, intro!]: "good_step d s k (Inr (res, s, k))"
  by (rule good_stepI) auto

lemma good_step_bindE [intro!]:
  "(\<And>x. r = Inr x \<Longrightarrow> good_step d s k (f x)) \<Longrightarrow> good_step d s k (bindE r f)"
  by (cases r) (auto simp: good_step_def)

lemma good_stepD:
  assumes "good_step d s k r" and "r = Inr (res, s', k')"
  shows "k \<le> k'" "ft_inv s \<Longrightarrow> fresh_draws d k k' s \<Longrightarrow> ft_inv s'"
    "ft_inv s \<Longrightarrow> fresh_draws d k k' s \<Longrightarrow> node_ids s' \<subseteq> node_ids s \<union> drawn d k k'"
  using assms by (auto simp: good_step_def)

lemma unchanged_good: "leaves_unchanged s k r \<Longrightarrow> good_step d s k r"
  by (auto simp: leaves_unchanged_def good_step_def)

lemmas read_tools_good = read_tools_unchanged [THEN unchanged_good]

subsection \<open>Every mutation keeps the contract\<close>

lemma setNode_good:
  assumes "ft_inv s \<Longrightarrow> nid n = TrimSpace i"
  shows "good_step d s k (Inr (res, setNode s i n, k))"
  using assms by (intro good_stepI) (auto simp: ft_inv_setNode setNode_ids ft_invD)

lemma applyUpdateNode_good: "good_step d s k (applyUpdateNode s args k)"
proof -
  have "nid node = TrimSpace i" if "ft_inv s" "getNode s i = Some node" for node i
    using that getNode_Some(2) [of s i node] by (simp add: ft_invD)
  then show ?thesis
    unfolding applyUpdateNode_def
    by (auto simp: Let_def intro!: setNode_good split: option.split)
qed

lemma applyUpdateGate_good: "good_step d s k (applyUpdateGate s args k)"
proof -
  have "nid node = TrimSpace i" if "ft_inv s" "getNode s i = Some node" for node i
    using that getNode_Some(2) [of s i node] by (simp add: ft_invD)
  then show ?thesis
    unfolding applyUpdateGate_def by (auto simp: Let_def intro!: setNode_good)
qed

text \<open>A new node: it enters unconnected, and then may be hung under an existing parent.\<close>

lemma fresh_node:
  assumes "ft_inv s" and "fold_case (node_ID n) \<notin> fold_case ` node_ids s" and "nid n = node_ID n" and "node_ID n \<noteq> []"
  shows "ft_inv (addNode s n)" "node_ID n \<notin> node_ids s" "node_ID n \<notin> Field (erel s)"
proof -
  show "ft_inv (addNode s n)" using assms by (intro ft_inv_addNode) simp_all
  show *: "node_ID n \<notin> node_ids s" using assms(2) by blast
  show "node_ID n \<notin> Field (erel s)"
    using * erel_nodes [OF assms(1)] by (auto simp: Field_def)
qed

lemma ft_inv_attach:
  assumes inv: "ft_inv s" and fresh: "fold_case (node_ID n) \<notin> fold_case ` node_ids s"
    and n: "nid n = node_ID n" "node_ID n \<noteq> []" and p: "p \<in> node_ids s" "TrimSpace p = p"
  shows "ft_inv (snd (addEdge (addNode s n) (mk_edge i p (node_ID n))))"
proof -
  note new = fresh_node [OF inv fresh n]
  have "acyclic (insert (p, node_ID n) (erel s))"
    using inv new p by (intro acyclic_new_leaf) (auto simp: ft_invD Field_def)
  then have "ft_inv (snd (addEdges (addNode s n) [mk_edge i p (node_ID n)]))"
    using p n by (intro ft_inv_addEdges new) (auto simp: ends_in_def)
  then show ?thesis by simp
qed

lemma NewID_drawn [simp]: "p \<in> node_prefixes \<Longrightarrow> k < k' \<Longrightarrow> NewID d k p \<in> drawn d k k'"
  by (force simp: drawn_def)

lemma node_prefixes [simp]: "''ftn'' \<in> node_prefixes" "''gate'' \<in> node_prefixes"
  by (simp_all add: node_prefixes_def)

lemma new_node_sel [simp]: "node_ID (new_node i t n v) = i"
  by (simp add: new_node_def Let_def split: option.split)

lemma attach_node_good:
  assumes p: "ft_inv s \<longrightarrow> p \<in> node_ids s \<or> p = []" "TrimSpace p = p"
    and n: "node_ID n = NewID d k ''ftn''"
  shows "good_step d s k (Inr (attach_node b d s n p (Suc k)))"
proof -
  have id: "nid n = node_ID n" "node_ID n \<noteq> []" using n by simp_all
  have new: "fold_case (node_ID n) \<notin> fold_case ` node_ids s" if "fresh_draws d k k' s" "k < k'" for k'
    using that n by (simp add: fresh_first_id)
  show ?thesis
  proof (cases "p = []")
    case True
    have "good_step d s k (Inr (res, addNode s n, Suc k))" for res
      using id new [of "Suc k"] n by (intro good_stepI fresh_node) auto
    with True show ?thesis by (simp add: attach_node_def Let_def)
  next
    case False
    have "good_step d s k (Inr (res, snd (addEdge (addNode s n) (mk_edge i p (node_ID n))), Suc (Suc k)))" for res i
      using id new [of "Suc (Suc k)"] n p False by (intro good_stepI ft_inv_attach) auto
    with False show ?thesis by (simp add: attach_node_def Let_def)
  qed
qed

lemma parent_ok_in:
  "parent_ok b s p = Inr u \<Longrightarrow> ft_inv s \<longrightarrow> TrimSpace p \<in> node_ids s \<or> p = []"
  using getNode_ex_iff [of s p] by (auto simp: parent_ok_def ft_invD split: if_splits)

lemma applyAddNode_good: "good_step d s k (applyAddNode d s args k)"
  unfolding applyAddNode_def Let_def
  by (intro good_step_bindE attach_node_good)
    (auto dest!: parent_ok_in split: option.splits)

lemma applyAddNodePermissive_good: "good_step d s k (applyAddNodePermissive d s args k)"
  unfolding applyAddNodePermissive_def Let_def
  by (intro good_step_bindE attach_node_good)
    (auto dest!: parent_ok_in split: option.splits)

text \<open>A new gate: the children it takes over are children of the parent.\<close>

definition child_ok :: "faultTreeState \<Rightarrow> string \<Rightarrow> string \<Rightarrow> bool" where
  "child_ok s p c \<longleftrightarrow> TrimSpace c = c \<and> c \<noteq> [] \<and> c \<noteq> p \<and> findEdgeID s p c \<noteq> None
     \<and> (\<exists>n. getNode s c = Some n \<and> \<not> EqualFold (ntype n) ''topEvent'')"

lemma order_children_sound:
  assumes "order_children s p acc cs = Inr out" and "\<forall>c \<in> set acc. child_ok s p c" and "distinct acc"
  shows "(\<forall>c \<in> set out. child_ok s p c) \<and> distinct out"
  using assms
proof (induction cs arbitrary: acc)
  case (Cons childID cs)
  show ?case
  proof (cases "TrimSpace childID = [] \<or> TrimSpace childID \<in> set acc")
    case True
    with Cons show ?thesis by (simp add: Let_def)
  next
    case False
    with Cons.prems(1) obtain n where n: "TrimSpace childID \<noteq> p" "getNode s (TrimSpace childID) = Some n"
      "\<not> EqualFold (ntype n) ''topEvent''" "findEdgeID s p (TrimSpace childID) \<noteq> None"
      "order_children s p (acc @ [TrimSpace childID]) cs = Inr out"
      by (simp add: Let_def bindE_Inr_iff split: if_splits) blast
    then have "child_ok s p (TrimSpace childID)"
      using False by (auto simp: child_ok_def)
    with Cons.IH [OF n(5)] Cons.prems False show ?thesis by simp
  qed
qed simp

lemma child_ok_edge:
  assumes inv: "ft_inv s" and p: "p \<in> node_ids s" "TrimSpace p = p" and c: "child_ok s p c"
  shows "(p, c) \<in> erel s"
proof -
  from c have "find (\<lambda>e. EqualFold (efrom e) p \<and> EqualFold (eto e) c) (st_edges s) \<noteq> None"
    using p(2) by (auto simp: child_ok_def findEdgeID_def)
  then obtain e where e: "e \<in> set (st_edges s)" "EqualFold (efrom e) p" "EqualFold (eto e) c"
    by (auto simp: find_None_iff)
  have "c \<in> node_ids s"
    using c getNode_ex_iff [of s c] inv by (auto simp: child_ok_def ft_invD)
  note eq = case_unique_eq [OF ft_invD(2) [OF inv]]
  have "efrom e = p" using ft_inv_edge(2) [OF inv e(1)] p(1) e(2) by (rule eq)
  moreover have "eto e = c" using ft_inv_edge(3) [OF inv e(1)] \<open>c \<in> node_ids s\<close> e(3) by (rule eq)
  ultimately show ?thesis using ft_inv_edge(1) [OF inv e(1)] by simp
qed

lemma removeEdgesByFromTo_sel [simp]:
  "snd (removeEdgesByFromTo s p cs) = s\<lparr>st_edges := filter (\<lambda>e. \<not> rewired p cs e) (st_edges s)\<rparr>"
  by (simp add: removeEdgesByFromTo_def)

lemma ft_inv_filter_edges:
  assumes "ft_inv s"
  shows "ft_inv (s\<lparr>st_edges := filter P (st_edges s)\<rparr>)"
  using assms ft_inv_edge [OF assms]
  by (intro ft_inv_edges acyclic_subset [OF ft_invD(6) [OF assms] edge_rel_filter_subset]) simp_all

definition gate_state :: "draws \<Rightarrow> faultTreeState \<Rightarrow> FaultTreeNode \<Rightarrow> string \<Rightarrow> string list \<Rightarrow> nat \<Rightarrow> faultTreeState" where
  \<comment> \<open>the state \<open>insert_gate\<close> leaves\<close>
  "gate_state d s gate p cs k =
     snd (addEdges ((addNode s gate)\<lparr>st_edges := filter (\<lambda>e. \<not> rewired p (set cs) e) (st_edges s)\<rparr>)
       (fresh_edges d k ((p, node_ID gate) # map (\<lambda>c. (node_ID gate, c)) cs)))"

lemma insert_gate_state:
  "snd (insert_gate b d s g p cs k) =
     (gate_state d s (gate_node (NewID d k ''gate'') g) p cs (Suc k), Suc k + Suc (length cs))"
proof -
  obtain del s2 where r: "removeEdgesByFromTo (addNode s (gate_node (NewID d k ''gate'') g)) p (set cs) = (del, s2)"
    by fastforce
  then have "s2 = (addNode s (gate_node (NewID d k ''gate'') g))\<lparr>st_edges := filter (\<lambda>e. \<not> rewired p (set cs) e) (st_edges s)\<rparr>"
    using removeEdgesByFromTo_sel [of "addNode s (gate_node (NewID d k ''gate'') g)" p "set cs"] by simp
  with r show ?thesis
    by (simp add: insert_gate_def gate_state_def Let_def split: prod.split del: fresh_edges.simps)
qed

lemma gate_node_sel [simp]: "node_ID (gate_node i g) = i" "node_Type (gate_node i g) = ''gate''"
  by (simp_all add: gate_node_def)

lemma ft_inv_gate_state:
  assumes inv: "ft_inv s" and fresh: "fold_case (node_ID gate) \<notin> fold_case ` node_ids s"
    and gate: "nid gate = node_ID gate" "node_ID gate \<noteq> []"
    and p: "p \<in> node_ids s" "TrimSpace p = p" and cs: "\<And>c. c \<in> set cs \<Longrightarrow> child_ok s p c"
  shows "ft_inv (gate_state d s gate p cs k)"
proof -
  let ?g = "node_ID gate"
  let ?s1 = "addNode s gate"
  let ?s2 = "?s1\<lparr>st_edges := filter (\<lambda>e. \<not> rewired p (set cs) e) (st_edges s)\<rparr>"
  let ?ps = "(p, ?g) # map (\<lambda>c. (?g, c)) cs"
  note new = fresh_node [OF inv fresh gate]
  have pc: "(p, c) \<in> erel s" if "c \<in> set cs" for c
    using child_ok_edge [OF inv p cs [OF that]] .
  have s2: "ft_inv ?s2" using ft_inv_filter_edges [OF new(1)] by simp
  have ps: "a \<in> node_ids ?s2 \<and> b \<in> node_ids ?s2 \<and> TrimSpace a = a \<and> TrimSpace b = b"
    if "(a, b) \<in> set ?ps" for a b
    using that p gate pc cs erel_nodes(2) [OF inv] by (auto simp: child_ok_def)
  have "acyclic (insert (p, ?g) (erel s \<union> {?g} \<times> set cs))"
    using new p pc by (intro acyclic_insert_between) (auto simp: ft_invD [OF inv])
  moreover have "erel ?s2 \<union> set ?ps \<subseteq> insert (p, ?g) (erel s \<union> {?g} \<times> set cs)"
    using edge_rel_filter_subset [of _ "st_edges s"] by auto
  ultimately have "acyclic (erel ?s2 \<union> ends ` set (fresh_edges d k ?ps))"
    unfolding ends_fresh_edges by (rule acyclic_subset)
  with s2 show ?thesis
    unfolding gate_state_def using ps by (intro ft_inv_addEdges ends_in_fresh_edges)
qed

lemma add_gate_with_good: "good_step d s k (add_gate_with b d s args k)"
proof -
  have "good_step d s k (Inr (insert_gate b d s g p cs k))"
    if p: "getNode s p = Some n" "TrimSpace p = p" and cs: "order_children s p [] req = Inr cs" for g p n req cs
  proof -
    let ?gate = "gate_node (NewID d k ''gate'') g"
    have "ft_inv (gate_state d s ?gate p cs (Suc k))" if "ft_inv s" "fresh_draws d k (Suc k + Suc (length cs)) s"
      using that p order_children_sound [OF cs] getNode_ex_iff [of s p]
      by (intro ft_inv_gate_state) (auto simp: ft_invD fresh_first_id simp del: fold_case.simps)
    moreover have "node_ids (gate_state d s ?gate p cs (Suc k)) = insert (NewID d k ''gate'') (node_ids s)"
      by (simp add: gate_state_def)
    ultimately have "good_step d s k (Inr (res, gate_state d s ?gate p cs (Suc k), Suc k + Suc (length cs)))" for res
      by (intro good_stepI) auto
    then show ?thesis using insert_gate_state [of b d s g p cs k] by (cases "insert_gate b d s g p cs k") simp
  qed
  then show ?thesis
    unfolding add_gate_with_def Let_def by (intro good_step_bindE) auto
qed

lemmas add_gate_good =
  add_gate_with_good [of d s k False for d s k, folded applyAddGate_def]
  add_gate_with_good [of d s k True for d s k, folded applyAddGatePermissive_def]

text \<open>Deleting a node and, where its children stay, connecting its parents to them.\<close>

lemma bypass_pairs_iff:
  "(a, b) \<in> set (bypass_pairs ps cs) \<longleftrightarrow> a \<in> set ps \<and> b \<in> set cs \<and> a \<noteq> b"
  by (auto simp: bypass_pairs_def)

lemma ft_inv_bypass:
  assumes inv: "ft_inv s" and x: "TrimSpace x = x" "x \<noteq> []"
  shows "ft_inv (snd (addEdges (snd (removeNodes s {x}))
    (fresh_edges d k (bypass_pairs (parentIDsOf s x) (childIDsOf s x)))))"
proof -
  let ?s1 = "snd (removeNodes s {x})"
  let ?ps = "bypass_pairs (parentIDsOf s x) (childIDsOf s x)"
  have step: "(a, x) \<in> erel s \<and> (x, b) \<in> erel s" if "(a, b) \<in> set ?ps" for a b
    using that x parentIDsOf_erel [of x a s] childIDsOf_erel [of x b s] by (simp add: bypass_pairs_iff)
  have trim: "TrimSpace a = a \<and> TrimSpace b = b" if "(a, b) \<in> erel s" for a b
    using that by (auto simp: edge_rel_iff)
  have "acyclic (erel ?s1 \<union> set ?ps)"
    using ft_invD(6) [OF inv]
  proof (rule acyclic_bypass [where n = x])
    fix a b assume "(a, b) \<in> erel ?s1 \<union> set ?ps"
    then show "(a, b) \<in> erel s \<or> (a, x) \<in> erel s \<and> (x, b) \<in> erel s"
      using step edge_rel_filter_subset [of "\<lambda>e. \<not> touches {x} e" "st_edges s"] by auto
  qed
  moreover have "ends_in ?s1 e" if "e \<in> set (fresh_edges d k ?ps)" for e
    using _ that
  proof (rule ends_in_fresh_edges)
    fix a b assume "(a, b) \<in> set ?ps"
    from step [OF this] show "a \<in> node_ids ?s1 \<and> b \<in> node_ids ?s1 \<and> TrimSpace a = a \<and> TrimSpace b = b"
      using erel_nodes [OF inv, of a x] erel_nodes [OF inv, of x b] trim by auto
  qed
  ultimately show ?thesis
    using inv by (intro ft_inv_addEdges) (simp_all add: ft_inv_removeNodes)
qed

lemma delete_with_good: "good_step d s k (delete_with b d s args k)"
proof -
  have "good_step d s k (Inr (res, snd (addEdges (snd (removeNodes s (insert x D))) (fresh_edges d k ps)), k + length ps))"
    if x: "getNode s x = Some n" "TrimSpace x = x"
      and ps: "ps = [] \<or> ps = bypass_pairs (parentIDsOf s x) (childIDsOf s x) \<and> D = {}" for res x n D ps
  proof (rule good_stepI)
    assume inv: "ft_inv s"
    have "x \<noteq> []" using x getNode_ex_iff [of s x] inv by (auto simp: ft_invD)
    with inv x ps show "ft_inv (snd (addEdges (snd (removeNodes s (insert x D))) (fresh_edges d k ps)))"
      by (auto simp: ft_inv_removeNodes ft_inv_bypass)
  qed auto
  note done_step = this
  have "good_step d s k (case removeNodes s (insert x D) of ((dn, de), s1) \<Rightarrow>
      bindE (guardE (dn = []) err) (\<lambda>_. case addEdges s1 (fresh_edges d k ps) of (added, s2) \<Rightarrow>
        Inr (res dn de added, s2, k + length ps)))"
    if "getNode s x = Some n" "TrimSpace x = x"
      "ps = [] \<or> ps = bypass_pairs (parentIDsOf s x) (childIDsOf s x) \<and> D = {}" for res x n D ps err
    using done_step [OF that] by (cases "removeNodes s (insert x D)") (auto split: prod.split)
  then show ?thesis
    unfolding delete_with_def Let_def by (intro good_step_bindE) auto
qed

lemmas delete_good =
  delete_with_good [of d s k False for d s k, folded applyDeleteNode_def]
  delete_with_good [of d s k True for d s k, folded applyDeleteNodePermissive_def]

text \<open>Moving a node: its incoming edges go, one edge from the new parent comes.\<close>

lemma removeIncomingEdges_sel:
  "snd (removeIncomingEdges s x) = s\<lparr>st_edges := filter (\<lambda>e. eto e \<noteq> TrimSpace x) (st_edges s)\<rparr>"
  by (simp add: removeIncomingEdges_def)

definition moved :: "faultTreeState \<Rightarrow> string \<Rightarrow> string \<Rightarrow> string \<Rightarrow> faultTreeState" where
  "moved s x p i = snd (addEdge (snd (removeIncomingEdges s x)) (mk_edge i p x))"

lemma edge_rel_no_incoming: "edge_rel (filter (\<lambda>e. eto e \<noteq> x) es) = {e \<in> edge_rel es. snd e \<noteq> x}"
  by (auto simp: edge_rel_iff)

text \<open>The new edge is always added: no edge to the node is left, in any letter case.\<close>

lemma moved_edges:
  assumes inv: "ft_inv s" and x: "x \<in> node_ids s" "TrimSpace x = x" and p: "TrimSpace p = p"
  shows "addEdge (snd (removeIncomingEdges s x)) (mk_edge i p x) =
    (True, s\<lparr>st_edges := filter (\<lambda>e. eto e \<noteq> x) (st_edges s) @ [mk_edge i p x]\<rparr>)"
proof -
  have "\<not> EqualFold (edge_ToNodeID e) x" if "e \<in> set (st_edges s)" "eto e \<noteq> x" for e
    using case_unique_eq [OF ft_invD(2) [OF inv] ft_inv_edge(3) [OF inv that(1)] x(1)]
      ft_inv_edge(7) [OF inv that(1)] that(2) by auto
  then have "\<not> list_ex (\<lambda>e. EqualFold (edge_FromNodeID e) p \<and> EqualFold (edge_ToNodeID e) x)
      (filter (\<lambda>e. eto e \<noteq> x) (st_edges s))"
    by (auto simp: list_ex_iff)
  then show ?thesis using x by (simp add: addEdge_def removeIncomingEdges_sel)
qed

lemma moved_eq:
  assumes "ft_inv s" and "x \<in> node_ids s" "TrimSpace x = x" and "TrimSpace p = p"
  shows "moved s x p i = s\<lparr>st_edges := filter (\<lambda>e. eto e \<noteq> x) (st_edges s) @ [mk_edge i p x]\<rparr>"
  by (simp only: moved_def moved_edges [OF assms] snd_conv)

lemma erel_moved:
  assumes "ft_inv s" and "x \<in> node_ids s" "TrimSpace x = x" and "p \<in> node_ids s" "TrimSpace p = p"
  shows "erel (moved s x p i) = insert (p, x) {e \<in> erel s. snd e \<noteq> x}"
proof -
  have "p \<noteq> []" "x \<noteq> []" using assms ft_invD(3) [OF assms(1)] by auto
  with assms show ?thesis
    by (simp add: moved_eq edge_rel_no_incoming edge_rel_Cons live_edge_def)
qed

lemma ft_inv_moved:
  assumes inv: "ft_inv s" and x: "x \<in> node_ids s" "TrimSpace x = x" and p: "p \<in> node_ids s" "TrimSpace p = p"
    and nd: "p \<noteq> x" "p \<notin> set (collectDescendants s x)"
  shows "ft_inv (moved s x p i)"
proof -
  have "(x, p) \<notin> (erel s)\<^sup>*" using nd x ft_invD(3) [OF inv] set_collectDescendants [of x s] by auto
  then have "acyclic (erel (moved s x p i))"
    using ft_invD(6) [OF inv] by (simp only: erel_moved [OF inv x p]) (rule acyclic_reparent)
  moreover have "ends_in s e" if "e \<in> set (st_edges (moved s x p i))" for e
    using that x p ft_inv_edge [OF inv, of e] by (auto simp: moved_eq [OF inv x p(2)] ends_in_def)
  ultimately have "ft_inv (s\<lparr>st_edges := st_edges (moved s x p i)\<rparr>)"
    using inv by (intro ft_inv_edges) (auto simp: ends_in_def)
  then show ?thesis by (simp add: moved_eq [OF inv x p(2)])
qed

lemma move_with_Inr:
  assumes "move_with b d s args k = Inr (res, s', k')"
  shows "\<exists>x p. s' = moved s x p (NewID d k ''fte'') \<and> k' = Suc k \<and> TrimSpace x = x \<and> TrimSpace p = p
    \<and> x \<noteq> p \<and> p \<notin> set (collectDescendants s x) \<and> x \<noteq> [] \<and> p \<noteq> []
    \<and> (\<exists>n. getNode s x = Some n \<and> \<not> EqualFold (ntype n) ''topEvent'')
    \<and> (\<exists>n. getNode s p = Some n \<and> \<not> EqualFold (ntype n) ''basicEvent'')
    \<and> op_summary res = MovedNode b x p"
proof -
  have *: "(case removeIncomingEdges s x of (deleted, s1) \<Rightarrow> case addEdge s1 e of (added, s2) \<Rightarrow>
      Inr (f deleted added, s2, n)) = Inr (res, s', k') \<Longrightarrow>
      s' = snd (addEdge (snd (removeIncomingEdges s x)) e) \<and> k' = n \<and> (\<exists>a b. res = f a b)" for x e f n
    by (auto split: prod.splits)
  from assms show ?thesis
    unfolding move_with_def Let_def
    by (elim bindE_InrE) (drule *, auto simp: moved_def)
qed

lemma move_with_good: "good_step d s k (move_with b d s args k)"
  unfolding good_step_def
proof (intro allI impI)
  fix res s' k' assume "move_with b d s args k = Inr (res, s', k')"
  then obtain x p where xp: "s' = moved s x p (NewID d k ''fte'')" "k' = Suc k" "TrimSpace x = x" "TrimSpace p = p"
      "x \<noteq> p" "p \<notin> set (collectDescendants s x)" "getNode s x \<noteq> None" "getNode s p \<noteq> None"
    by (auto dest!: move_with_Inr)
  have "ft_inv s' \<and> node_ids s' \<subseteq> node_ids s \<union> drawn d k k'" if inv: "ft_inv s"
  proof
    have "x \<in> node_ids s" "p \<in> node_ids s"
      using xp getNode_None_iff [of s] inv by (auto simp: ft_invD)
    with inv xp show "ft_inv s'" by (auto intro!: ft_inv_moved)
  qed (simp add: xp moved_def removeIncomingEdges_sel)
  with xp(2) show "k \<le> k' \<and> (ft_inv s \<longrightarrow> fresh_draws d k k' s \<longrightarrow>
      ft_inv s' \<and> node_ids s' \<subseteq> node_ids s \<union> drawn d k k')" by simp
qed

lemmas move_good =
  move_with_good [of d s k False for d s k, folded applyMoveNode_def]
  move_with_good [of d s k True for d s k, folded applyMoveNodePermissive_def]

lemmas mutations_good = applyUpdateNode_good applyUpdateGate_good applyAddNode_good
  applyAddNodePermissive_good add_gate_good delete_good move_good

end
