(* ===== verification/Batch.thy ===== *)
theory Batch
  imports FTInvariant
begin

text \<open>
  The dispatchers \<open>applyOperation\<close>, \<open>applyOperationPermissive\<close> and \<open>applyBatchOperations\<close>
  (\<open>internal/graph_ops/executor.go\<close>). A batch runs its operations in order on one state and merges
  their patches; its loop is \<open>run_ops\<close>, which takes the step as a function. The three functions
  are mutually recursive, because the test for a nested batch folds letter case where the dispatcher
  lowers it; the recursion ends because an operation's arguments are part of the batch's.
\<close>

subsection \<open>The operations of a batch\<close>

type_synonym batch_op = "string \<times> raw_message"

fun dec_op :: "json \<Rightarrow> batch_op option" where
  "dec_op (JObj m) = map_option (\<lambda>tool. (tool, dec_raw RawEmpty (field_vals ''args'' m)))
     (dec_string '''' (field_vals ''tool'' m))"
| "dec_op JNull = Some ('''', RawEmpty)"
| "dec_op _ = None"

fun dec_op_elems :: "json list \<Rightarrow> batch_op list option" where
  "dec_op_elems [] = Some []"
| "dec_op_elems (v # vs) = (case dec_op v of None \<Rightarrow> None
     | Some op \<Rightarrow> map_option ((#) op) (dec_op_elems vs))"

fun dec_ops :: "batch_op list \<Rightarrow> json list \<Rightarrow> batch_op list option" where
  "dec_ops cur [] = Some cur"
| "dec_ops cur (JArr es # vs) =
     (case dec_op_elems es of None \<Rightarrow> None | Some ops \<Rightarrow> dec_ops ops vs)"
| "dec_ops cur (JNull # vs) = dec_ops [] vs"
| "dec_ops cur (_ # vs) = None"

definition batch_request :: "raw_message \<Rightarrow> graph_error + batch_op list \<times> bool" where
  "batch_request args =
     bindE (unmarshal args) (\<lambda>m.
     bindE (need (dec_ops [] (field_vals ''operations'' m))) (\<lambda>ops.
     bindE (req_bool m ''repairMode'') (\<lambda>repairMode. Inr (ops, repairMode))))"

lemma raw_size_dec_raw:
  "raw_size (dec_raw cur vs) \<le> raw_size cur \<or> (\<exists>v \<in> set vs. raw_size (dec_raw cur vs) \<le> size v)"
proof (induction vs arbitrary: cur)
  case (Cons v vs)
  from Cons.IH [of "RawJson v"] show ?case
  proof
    assume "raw_size (dec_raw (RawJson v) vs) \<le> raw_size (RawJson v)"
    then show ?thesis by auto
  qed auto
qed simp

lemma size_field_vals: "v \<in> set (field_vals f m) \<Longrightarrow> size v < size (JObj m)"
proof -
  assume "v \<in> set (field_vals f m)"
  then obtain k where "(k, v) \<in> set m" by (auto simp: field_vals_def)
  then have "size_prod (\<lambda>_. 0) size (k, v) < Suc (size_list (size_prod (\<lambda>_. 0) size) m)"
    by (rule size_list_mem)
  then show ?thesis by simp
qed

lemma raw_size_dec_op: "dec_op v = Some (t, a) \<Longrightarrow> raw_size a \<le> size v"
proof (induction v rule: dec_op.induct)
  case (1 m)
  then have "a = dec_raw RawEmpty (field_vals ''args'' m)" by auto
  with raw_size_dec_raw [of RawEmpty "field_vals ''args'' m"] size_field_vals [of _ "''args''" m]
  show ?case by fastforce
qed auto

lemma raw_size_dec_op_elems:
  "dec_op_elems es = Some ops \<Longrightarrow> (t, a) \<in> set ops \<Longrightarrow> \<exists>v \<in> set es. raw_size a \<le> size v"
  by (induction es arbitrary: ops) (auto split: option.splits dest: raw_size_dec_op)

lemma raw_size_dec_ops:
  "dec_ops cur vs = Some ops \<Longrightarrow> (t, a) \<in> set ops \<Longrightarrow>
     (t, a) \<in> set cur \<or> (\<exists>v \<in> set vs. raw_size a < size v)"
proof (induction cur vs rule: dec_ops.induct)
  case (2 cur es vs)
  then obtain ops' where ops': "dec_op_elems es = Some ops'" "dec_ops ops' vs = Some ops"
    by (auto split: option.splits)
  have "(t, a) \<in> set ops' \<or> (\<exists>v \<in> set vs. raw_size a < size v)"
    using "2.IH" [OF ops'] "2.prems"(2) by simp
  then show ?case
  proof
    assume "(t, a) \<in> set ops'"
    then obtain v where "v \<in> set es" "raw_size a \<le> size v" using raw_size_dec_op_elems ops' by blast
    then have "raw_size a < size (JArr es)" using size_JArr_mem by fastforce
    then show ?thesis by simp
  qed simp
qed auto

lemma raw_size_batch_op:
  assumes "batch_request args = Inr (ops, rep)" and "(t, a) \<in> set ops"
  shows "raw_size a < raw_size args"
proof -
  from assms(1) obtain m where m: "struct_members args = Some m"
    and ops: "dec_ops [] (field_vals ''operations'' m) = Some ops"
    by (auto simp: batch_request_def unmarshal_def)
  from raw_size_dec_ops [OF ops assms(2)]
  obtain v where v: "v \<in> set (field_vals ''operations'' m)" "raw_size a < size v" by auto
  then have "m \<noteq> []" by (auto simp: field_vals_def)
  with m have "args = RawJson (JObj m)" by (induction args rule: struct_members.induct) auto
  with v size_field_vals [OF v(1)] show ?thesis by simp
qed

subsection \<open>The loop\<close>

type_synonym batch_acc = "GraphPatch \<times> nat \<times> nat"

fun run_ops :: "(batch_op \<Rightarrow> faultTreeState \<Rightarrow> nat \<Rightarrow> step_result) \<Rightarrow> batch_op list
    \<Rightarrow> batch_acc \<Rightarrow> faultTreeState \<Rightarrow> nat \<Rightarrow> graph_error + batch_acc \<times> faultTreeState \<times> nat" where
  "run_ops step [] acc s k = Inr (acc, s, k)"
| "run_ops step (op # ops) acc s k =
     (case step op s k of
        Inl e \<Rightarrow> Inl e
      | Inr (res, s', k') \<Rightarrow>
          (case acc of (merged, cn, ce) \<Rightarrow>
             run_ops step ops (mergePatch merged (op_patch res), cn + op_changedNodes res,
               ce + op_changedEdges res) s' k'))"

lemma run_ops_cong [fundef_cong]:
  assumes "ops = ops'" and "acc = acc'" and "s = s'" and "k = k'"
    and "\<And>op s k. op \<in> set ops' \<Longrightarrow> step op s k = step' op s k"
  shows "run_ops step ops acc s k = run_ops step' ops' acc' s' k'"
proof -
  have "run_ops step ops' acc s k = run_ops step' ops' acc s k"
    using assms(5) by (induction ops' arbitrary: acc s k) (auto split: sum.split)
  with assms show ?thesis by simp
qed

text \<open>The contract of a step lifts to the loop; the interface the dispatchers are shown to meet.\<close>

locale graph_steps =
  fixes d :: draws and step :: "batch_op \<Rightarrow> faultTreeState \<Rightarrow> nat \<Rightarrow> step_result" and ops :: "batch_op set"
  assumes step_good: "op \<in> ops \<Longrightarrow> good_step d s k (step op s k)"
begin

lemma run_ops_good:
  assumes "run_ops step os acc s k = Inr (acc', s', k')" and "set os \<subseteq> ops"
  shows "k \<le> k' \<and> (ft_inv s \<longrightarrow> fresh_draws d k k' s \<longrightarrow>
    ft_inv s' \<and> node_ids s' \<subseteq> node_ids s \<union> drawn d k k')"
  using assms
proof (induction os arbitrary: acc s k)
  case (Cons op os)
  from Cons.prems(1) obtain res s1 k1 acc1 where
    st: "step op s k = Inr (res, s1, k1)" and rest: "run_ops step os acc1 s1 k1 = Inr (acc', s', k')"
    by (auto split: sum.splits prod.splits)
  have good: "good_step d s k (step op s k)" using Cons.prems(2) by (intro step_good) simp
  note one = good_stepD [OF good st]
  have IH: "k1 \<le> k'" "ft_inv s1 \<Longrightarrow> fresh_draws d k1 k' s1 \<Longrightarrow>
      ft_inv s' \<and> node_ids s' \<subseteq> node_ids s1 \<union> drawn d k1 k'"
    using Cons.IH [OF rest] Cons.prems(2) by auto
  have "ft_inv s' \<and> node_ids s' \<subseteq> node_ids s \<union> drawn d k k'"
    if inv: "ft_inv s" and fresh: "fresh_draws d k k' s"
  proof -
    have f1: "fresh_draws d k k1 s" using fresh IH(1) by (rule fresh_first)
    have ids: "node_ids s1 \<subseteq> node_ids s \<union> drawn d k k1" using inv f1 by (rule one(3))
    have "fresh_draws d k1 k' s1" using fresh one(1) IH(1) ids by (rule fresh_rest)
    then have "ft_inv s' \<and> node_ids s' \<subseteq> node_ids s1 \<union> drawn d k1 k'"
      using one(2) [OF inv f1] IH(2) by blast
    moreover have "drawn d k k1 \<subseteq> drawn d k k'" "drawn d k1 k' \<subseteq> drawn d k k'"
      using one(1) IH(1) by (simp_all add: drawn_mono)
    ultimately show ?thesis using ids by blast
  qed
  with one(1) IH(1) show ?case by auto
qed simp

end

subsection \<open>The dispatchers\<close>

text \<open>The tools that do not run other tools: \<open>None\<close> for \<open>batch_operations\<close>.\<close>

definition applyDirect :: "draws \<Rightarrow> faultTreeState \<Rightarrow> string \<Rightarrow> raw_message \<Rightarrow> nat \<Rightarrow> step_result option" where
  "applyDirect d s toolName args k =
     (let n = ToLower (TrimSpace toolName) in
      if n = ''update_node'' then Some (applyUpdateNode s args k)
      else if n = ''update_gate'' then Some (applyUpdateGate s args k)
      else if n = ''add_node'' then Some (applyAddNode d s args k)
      else if n = ''add_gate'' then Some (applyAddGate d s args k)
      else if n = ''delete_node'' then Some (applyDeleteNode d s args k)
      else if n = ''move_node'' then Some (applyMoveNode d s args k)
      else if n = ''batch_operations'' then None
      else if n = ''get_graph_snapshot'' then Some (applyGetGraphSnapshot s args k)
      else if n = ''get_node_detail'' then Some (applyGetNodeDetail s args k)
      else if n = ''get_subtree'' then Some (applyGetSubtree s args k)
      else if n = ''check_gate_semantics'' then Some (applyCheckGateSemantics s args k)
      else if n = ''validate_fta_constraints'' then Some (applyValidateFTAConstraints s k)
      else Some (Inl (ErrUnknownTool toolName)))"

definition applyPermissiveDirect :: "draws \<Rightarrow> faultTreeState \<Rightarrow> string \<Rightarrow> raw_message \<Rightarrow> nat \<Rightarrow> step_result option" where
  "applyPermissiveDirect d s toolName args k =
     (let n = ToLower (TrimSpace toolName) in
      if n = ''delete_node'' then Some (applyDeleteNodePermissive d s args k)
      else if n = ''add_node'' then Some (applyAddNodePermissive d s args k)
      else if n = ''move_node'' then Some (applyMoveNodePermissive d s args k)
      else if n = ''add_gate'' then Some (applyAddGatePermissive d s args k)
      else None)"

text \<open>What the loop checks before it runs an operation.\<close>

definition op_allowed :: "batch_op \<Rightarrow> graph_error + unit" where
  "op_allowed op =
     bindE (guardE (EqualFold (TrimSpace (fst op)) ''batch_operations'')
              (forbidden ''nested batch_operations is forbidden''))
       (\<lambda>_. ValidateParameters (fst op) (snd op))"

definition batch_result :: "nat \<Rightarrow> bool \<Rightarrow> batch_acc \<times> faultTreeState \<times> nat \<Rightarrow> step_result" where
  \<comment> \<open>in repair mode the batch ends with the permissive safety check\<close>
  "batch_result n rep r =
     (case r of ((merged, cn, ce), s', k') \<Rightarrow>
        bindE (if rep then enforceFaultTreeMutationSafetyPermissive s' else ok) (\<lambda>_.
          Inr (mk_result (BatchDone rep n) merged cn ce, s', k')))"

function applyOperation :: "draws \<Rightarrow> faultTreeState \<Rightarrow> string \<Rightarrow> raw_message \<Rightarrow> nat \<Rightarrow> step_result"
  and applyOperationPermissive :: "draws \<Rightarrow> faultTreeState \<Rightarrow> string \<Rightarrow> raw_message \<Rightarrow> nat \<Rightarrow> step_result"
  and applyBatchOperations :: "draws \<Rightarrow> faultTreeState \<Rightarrow> raw_message \<Rightarrow> nat \<Rightarrow> step_result" where
  "applyOperation d s toolName args k =
     (case applyDirect d s toolName args k of
        Some r \<Rightarrow> r
      | None \<Rightarrow> applyBatchOperations d s args k)"
| "applyOperationPermissive d s toolName args k =
     (case applyPermissiveDirect d s toolName args k of
        Some r \<Rightarrow> r
      | None \<Rightarrow> applyOperation d s toolName args k)"
| "applyBatchOperations d s args k =
     (case batch_request args of
        Inl e \<Rightarrow> Inl e
      | Inr (ops, repairMode) \<Rightarrow>
          if ops = [] then Inl (invalid ''operations empty'')
          else bindE (run_ops (\<lambda>op s k. bindE (op_allowed op) (\<lambda>_.
                 if repairMode then applyOperationPermissive d s (fst op) (snd op) k
                 else applyOperation d s (fst op) (snd op) k))
                 ops (empty_patch, 0, 0) s k)
               (batch_result (length ops) repairMode))"
  by pat_completeness auto
termination
proof (relation "measure (\<lambda>x. case x of
      Inl (d, s, t, args, k) \<Rightarrow> 3 * raw_size args + 1
    | Inr (Inl (d, s, t, args, k)) \<Rightarrow> 3 * raw_size args + 2
    | Inr (Inr (d, s, args, k)) \<Rightarrow> 3 * raw_size args)", goal_cases)
  case (4 d s args k x ops rep op s' k')
  then show ?case using raw_size_batch_op [of args ops rep "fst op" "snd op"] by simp
next
  case (5 d s args k x ops rep op s' k')
  then show ?case using raw_size_batch_op [of args ops rep "fst op" "snd op"] by simp
qed simp_all

declare applyOperation.simps [simp del] applyOperationPermissive.simps [simp del]
  applyBatchOperations.simps [simp del]

subsection \<open>Every call keeps the contract\<close>

lemma applyDirect_good: "applyDirect d s t args k = Some r \<Longrightarrow> good_step d s k r"
  by (auto simp: applyDirect_def Let_def mutations_good read_tools_good split: if_splits)

lemma applyPermissiveDirect_good: "applyPermissiveDirect d s t args k = Some r \<Longrightarrow> good_step d s k r"
  by (auto simp: applyPermissiveDirect_def Let_def mutations_good split: if_splits)

lemma op_allowed_good:
  "(op_allowed op = ok \<Longrightarrow> good_step d s k r) \<Longrightarrow> good_step d s k (bindE (op_allowed op) (\<lambda>_. r))"
  by (cases "op_allowed op") auto

lemma batch_good:
  assumes "graph_steps d step (set ops)"
  shows "good_step d s k (bindE (run_ops step ops acc s k) (batch_result n rep))"
  unfolding good_step_def
proof (intro allI impI)
  fix res s' k' assume "bindE (run_ops step ops acc s k) (batch_result n rep) = Inr (res, s', k')"
  then obtain acc' where "run_ops step ops acc s k = Inr (acc', s', k')"
    by (auto simp: batch_result_def bindE_Inr_iff split: prod.splits if_splits)
  from graph_steps.run_ops_good [OF assms this]
  show "k \<le> k' \<and> (ft_inv s \<longrightarrow> fresh_draws d k k' s \<longrightarrow>
      ft_inv s' \<and> node_ids s' \<subseteq> node_ids s \<union> drawn d k k')" by simp
qed

lemma dispatch_good:
  "good_step d s k (applyOperation d s t args k)"
  "good_step d s k (applyOperationPermissive d s t args k)"
  "good_step d s k (applyBatchOperations d s args k)"
proof (induction d s t args k and d s t args k and d s args k
    rule: applyOperation_applyOperationPermissive_applyBatchOperations.induct)
  case (1 d s t args k)
  then show ?case
    by (simp add: applyOperation.simps applyDirect_good split: option.split)
next
  case (2 d s t args k)
  then show ?case
    by (simp add: applyOperationPermissive.simps applyPermissiveDirect_good split: option.split)
next
  case (3 d s args k)
  show ?case
  proof (cases "batch_request args")
    case (Inl e)
    then show ?thesis by (simp add: applyBatchOperations.simps)
  next
    case (Inr r)
    then obtain ops rep where req: "batch_request args = Inr (ops, rep)" by (cases r) simp
    show ?thesis
    proof (cases "ops = []")
      case True
      with req show ?thesis by (simp add: applyBatchOperations.simps)
    next
      case False
      let ?step = "\<lambda>op s k. bindE (op_allowed op) (\<lambda>_.
         if rep then applyOperationPermissive d s (fst op) (snd op) k
         else applyOperation d s (fst op) (snd op) k)"
      have "graph_steps d ?step (set ops)"
      proof (unfold_locales, intro op_allowed_good)
        fix op s k assume "op \<in> set ops" "op_allowed op = ok"
        then show "good_step d s k (if rep then applyOperationPermissive d s (fst op) (snd op) k
            else applyOperation d s (fst op) (snd op) k)"
          using 3 req False by (cases rep) auto
      qed
      then have "good_step d s k (bindE (run_ops ?step ops (empty_patch, 0, 0) s k) (batch_result (length ops) rep))"
        by (rule batch_good)
      with req False show ?thesis by (simp add: applyBatchOperations.simps)
    qed
  qed
qed

text \<open>The interface holds of both dispatchers, for any operations.\<close>

interpretation strict: graph_steps d "\<lambda>op s k. applyOperation d s (fst op) (snd op) k" UNIV
  by unfold_locales (rule dispatch_good)

interpretation permissive: graph_steps d "\<lambda>op s k. applyOperationPermissive d s (fst op) (snd op) k" UNIV
  by unfold_locales (rule dispatch_good)

end
