(* ===== verification/Modes.thy ===== *)
theory Modes
  imports Batch
begin

text \<open>
  The two modes of the dispatcher. The permissive handlers drop guards of the strict ones and
  change nothing else: what the strict dispatcher accepts, the permissive one accepts with the same
  patch, counts and state.
\<close>

definition same_effect :: "operationResult \<Rightarrow> operationResult \<Rightarrow> bool" where
  "same_effect r r' \<longleftrightarrow> op_patch r = op_patch r' \<and> op_changedNodes r = op_changedNodes r'
     \<and> op_changedEdges r = op_changedEdges r'"

lemma same_effect_refl [simp]: "same_effect r r"
  by (simp add: same_effect_def)

definition accepted_by :: "step_result \<Rightarrow> step_result \<Rightarrow> bool" where
  "accepted_by r r' \<longleftrightarrow> (\<forall>res s k. r = Inr (res, s, k) \<longrightarrow>
     (\<exists>res'. r' = Inr (res', s, k) \<and> same_effect res res'))"

lemma accepted_by_refl [simp, intro!]: "accepted_by r r"
  by (simp add: accepted_by_def)

lemma accepted_by_Inl [simp, intro!]: "accepted_by (Inl e) r"
  by (simp add: accepted_by_def)

lemma accepted_by_bindE [intro!]:
  "(\<And>x. r = Inr x \<Longrightarrow> accepted_by (f x) (g x)) \<Longrightarrow> accepted_by (bindE r f) (bindE r g)"
  by (cases r) auto

lemma accepted_by_guard:
  "(b' \<longrightarrow> b) \<Longrightarrow> (\<not> b \<Longrightarrow> accepted_by (f ()) (g ())) \<Longrightarrow>
     accepted_by (bindE (guardE b e) f) (bindE (guardE b' e') g)"
  by (cases b; cases b') auto

lemma accepted_by_check:
  "(c = ok \<Longrightarrow> c' = ok) \<Longrightarrow> (c = ok \<Longrightarrow> accepted_by (f ()) (g ())) \<Longrightarrow>
     accepted_by (bindE c f) (bindE c' g)"
  by (cases c; cases c') auto

lemma delete_accepted: "accepted_by (applyDeleteNode d s args k) (applyDeleteNodePermissive d s args k)"
  unfolding applyDeleteNode_def applyDeleteNodePermissive_def delete_with_def Let_def
  by (intro accepted_by_bindE accepted_by_guard)
    (auto simp: accepted_by_def same_effect_def split: prod.split)

lemma move_accepted: "accepted_by (applyMoveNode d s args k) (applyMoveNodePermissive d s args k)"
  unfolding applyMoveNode_def applyMoveNodePermissive_def move_with_def Let_def
  by (intro accepted_by_bindE accepted_by_guard)
    (auto simp: accepted_by_def same_effect_def split: prod.split)

lemma attach_accepted: "accepted_by (Inr (attach_node False d s n p k)) (Inr (attach_node True d s n p k))"
  by (simp add: accepted_by_def same_effect_def attach_node_def Let_def)

lemma parent_ok_accepted: "parent_ok False s p = ok \<Longrightarrow> parent_ok True s p = ok"
  by (auto simp: parent_ok_def bindE_Inr_iff split: if_splits)

lemma valid_types: "isValidNodeType t \<Longrightarrow> TrimSpace t \<noteq> ''gate'' \<Longrightarrow> isValidAddNodeType t"
  by (auto simp: isValidNodeType_def isValidAddNodeType_def)

lemma add_node_accepted: "accepted_by (applyAddNode d s args k) (applyAddNodePermissive d s args k)"
proof -
  have *: "accepted_by (bindE (guardE (\<not> isValidNodeType t) e1) (\<lambda>_. bindE (guardE (t = ''gate'') e2) f))
      (bindE (guardE (\<not> isValidAddNodeType t) e3) g)"
    if "TrimSpace t = t" "accepted_by (f ()) (g ())" for t e1 e2 e3 f g
    using that valid_types [of t] by (cases "isValidNodeType t"; cases "t = ''gate''") auto
  show ?thesis
    unfolding applyAddNode_def applyAddNodePermissive_def Let_def
    by (intro accepted_by_bindE * accepted_by_check parent_ok_accepted attach_accepted) auto
qed

lemma arity_ok_accepted: "arity_ok False g n = ok \<Longrightarrow> arity_ok True g n = ok"
  by (auto simp: arity_ok_def bindE_Inr_iff split: if_splits)

lemma insert_gate_accepted: "accepted_by (Inr (insert_gate False d s g p cs k)) (Inr (insert_gate True d s g p cs k))"
  by (simp add: accepted_by_def same_effect_def insert_gate_def Let_def split: prod.split)

lemma add_gate_accepted: "accepted_by (applyAddGate d s args k) (applyAddGatePermissive d s args k)"
  unfolding applyAddGate_def applyAddGatePermissive_def add_gate_with_def Let_def
  by (intro accepted_by_bindE accepted_by_check arity_ok_accepted insert_gate_accepted)

lemmas handlers_accepted = delete_accepted move_accepted add_node_accepted add_gate_accepted

lemma dispatch_accepted:
  "accepted_by (applyOperation d s t args k) (applyOperationPermissive d s t args k)"
proof (cases "applyPermissiveDirect d s t args k")
  case None
  then show ?thesis by (simp add: applyOperationPermissive.simps)
next
  case (Some r)
  then have "applyOperationPermissive d s t args k = r" by (simp add: applyOperationPermissive.simps)
  moreover have "accepted_by (applyOperation d s t args k) r"
    using Some handlers_accepted
    by (auto simp: applyOperation.simps applyPermissiveDirect_def applyDirect_def Let_def split: if_splits)
  ultimately show ?thesis by simp
qed

subsection \<open>Tools that only read\<close>

text \<open>The flags of the registry that the executor's names carry.\<close>

lemma registry_own_names: "list_all (\<lambda>d. GetTool (tool_Name d) = Some (normalizeToolDefinition d)) toolRegistry"
  by code_simp

lemma registry_mutating:
  assumes "ToLower (TrimSpace t) \<in> set [''update_node'', ''update_gate'', ''add_node'', ''add_gate'',
    ''delete_node'', ''move_node'', ''batch_operations'']"
  shows "ToolMutatesGraph t"
proof -
  have "list_all (\<lambda>n. case map_option normalizeToolDefinition
      (find (\<lambda>def. EqualFold (tool_Name def) n) toolRegistry) of None \<Rightarrow> False | Some def \<Rightarrow> tool_MutatesGraph def)
    [''update_node'', ''update_gate'', ''add_node'', ''add_gate'', ''delete_node'', ''move_node'', ''batch_operations'']"
    by code_simp
  with assms show ?thesis by (simp only: list_all_iff ToolMutatesGraph_def GetTool_def)
qed

lemma read_tool_unchanged:
  assumes "\<not> ToolMutatesGraph t"
  shows "leaves_unchanged s k (applyOperation d s t args k)"
proof -
  have n: "ToLower (TrimSpace t) \<notin> set [''update_node'', ''update_gate'', ''add_node'', ''add_gate'',
      ''delete_node'', ''move_node'', ''batch_operations'']"
    using assms registry_mutating by blast
  then have "\<exists>r. applyDirect d s t args k = Some r \<and> leaves_unchanged s k r"
    using read_tools_unchanged [of s k] by (auto simp: applyDirect_def Let_def leaves_unchanged_def)
  with n show ?thesis by (auto simp: applyOperation.simps)
qed

end
