(* ===== verification/Database.thy ===== *)
theory Database
  imports Model
begin

text \<open>
  The tables the graph operations write (\<open>internal/repository/graph.go\<close>,
  \<open>UpdateGraphMetaCAS\<close> of \<open>internal/repository/project.go\<close>, \<open>AuditLogRepository.Create\<close>
  of \<open>internal/repository/notification.go\<close>) and a transaction over them. A statement can fail
  for reasons outside the program (a constraint of the schema, a lost connection); the parameter
  \<open>accepts\<close> says whether the server takes the rows of a statement. A transaction that returns
  an error leaves the database as it was: that is what \<open>gorm.DB.Transaction\<close> documents.
\<close>

text \<open>The columns of \<open>model.Project\<close> but the time stamps.\<close>

record project_row =
  proj_ID :: string
  proj_Name :: string
  proj_Type :: string
  proj_Description :: "string option"
  proj_Tags :: "string list"
  proj_NodeCount :: nat
  proj_EdgeCount :: nat
  proj_EntityCount :: nat
  proj_RelationCount :: nat
  proj_GraphRevision :: int
  proj_LatestVersionID :: "string option"
  proj_MemberCount :: int
  proj_GenerationStatus :: "string option"
  proj_CreatedBy :: string

record 'sm audit_row =
  audit_Action :: string
  audit_ResourceID :: string
  audit_Summary :: 'sm

record 'sm database =
  db_nodes :: "FaultTreeNode list"
  db_edges :: "FaultTreeEdge list"
  db_knodes :: "KnowledgeGraphNode list"
  db_kedges :: "KnowledgeGraphEdge list"
  db_projects :: "string \<Rightarrow> project_row option"
  db_audits :: "'sm audit_row list"

subsection \<open>Statements\<close>

definition GetFaultTreeGraph :: "'sm database \<Rightarrow> string \<Rightarrow> FaultTreeNode list \<times> FaultTreeEdge list" where
  "GetFaultTreeGraph db pid =
     (filter (\<lambda>n. node_ProjectID n = pid) (db_nodes db), filter (\<lambda>e. edge_ProjectID e = pid) (db_edges db))"

definition fill_defaults :: "FaultTreeNode \<Rightarrow> FaultTreeNode" where
  \<comment> \<open>the loop at the head of \<open>BatchReplaceFaultTree\<close>\<close>
  "fill_defaults n = n\<lparr>node_Rules := (if node_Rules n = '''' then ''[]'' else node_Rules n),
     node_Documents := (case node_Documents n of None \<Rightarrow> Some [] | Some ds \<Rightarrow> Some ds)\<rparr>"

definition BatchReplaceFaultTree ::
    "('sm database \<Rightarrow> bool) \<Rightarrow> 'sm database \<Rightarrow> string \<Rightarrow> FaultTreeNode list \<Rightarrow> FaultTreeEdge list
      \<Rightarrow> graph_error + 'sm database" where
  "BatchReplaceFaultTree accepts db pid nodes edges =
     (let db' = db\<lparr>db_nodes := filter (\<lambda>n. node_ProjectID n \<noteq> pid) (db_nodes db) @ map fill_defaults nodes,
                   db_edges := filter (\<lambda>e. edge_ProjectID e \<noteq> pid) (db_edges db) @ edges\<rparr>
      in if accepts db' then Inr db' else Inl ErrDB)"

definition newProject :: "string \<Rightarrow> string \<Rightarrow> string \<Rightarrow> string \<Rightarrow> string list \<Rightarrow> string \<Rightarrow> project_row" where
  \<comment> \<open>the row \<open>ProjectService.Create\<close> builds\<close>
  "newProject pid name ty desc tags userID = \<lparr> proj_ID = pid, proj_Name = name, proj_Type = ty,
     proj_Description = (if desc = '''' then None else Some desc), proj_Tags = tags,
     proj_NodeCount = 0, proj_EdgeCount = 0, proj_EntityCount = 0, proj_RelationCount = 0,
     proj_GraphRevision = 0, proj_LatestVersionID = None, proj_MemberCount = 1,
     proj_GenerationStatus = None, proj_CreatedBy = userID \<rparr>"

definition set_graph_meta :: "int \<Rightarrow> nat \<Rightarrow> nat \<Rightarrow> nat \<Rightarrow> nat \<Rightarrow> project_row \<Rightarrow> project_row" where
  "set_graph_meta r nc ec entc rc p = p\<lparr>proj_NodeCount := nc, proj_EdgeCount := ec,
     proj_EntityCount := entc, proj_RelationCount := rc, proj_GraphRevision := r\<rparr>"

lemma set_graph_meta_sel [simp]:
  "proj_GraphRevision (set_graph_meta r nc ec entc rc p) = r"
  "proj_NodeCount (set_graph_meta r nc ec entc rc p) = nc"
  "proj_EdgeCount (set_graph_meta r nc ec entc rc p) = ec"
  "proj_MemberCount (set_graph_meta r nc ec entc rc p) = proj_MemberCount p"
  by (simp_all add: set_graph_meta_def)

definition UpdateGraphMetaCAS ::
    "'sm database \<Rightarrow> string \<Rightarrow> int \<Rightarrow> int \<Rightarrow> nat \<Rightarrow> nat \<Rightarrow> nat \<Rightarrow> nat \<Rightarrow> nat \<times> 'sm database" where
  \<comment> \<open>the number of rows the \<open>UPDATE ... WHERE id = ? AND graph_revision = ?\<close> changed\<close>
  "UpdateGraphMetaCAS db pid oldRev newRev nc ec entc rc =
     (case db_projects db pid of
        None \<Rightarrow> (0, db)
      | Some p \<Rightarrow>
          if proj_GraphRevision p = oldRev
          then (1, db\<lparr>db_projects := (db_projects db)(pid \<mapsto> set_graph_meta newRev nc ec entc rc p)\<rparr>)
          else (0, db))"

definition CreateAudit :: "'sm database \<Rightarrow> 'sm audit_row \<Rightarrow> 'sm database" where
  "CreateAudit db a = db\<lparr>db_audits := db_audits db @ [a]\<rparr>"

definition transaction ::
    "'sm database \<Rightarrow> ('sm database \<Rightarrow> graph_error + 'sm database) \<Rightarrow> (graph_error + unit) \<times> 'sm database" where
  "transaction db body = (case body db of Inl e \<Rightarrow> (Inl e, db) | Inr db' \<Rightarrow> (ok, db'))"

lemma transaction_error: "transaction db body = (Inl e, db') \<Longrightarrow> db' = db"
  by (auto simp: transaction_def split: sum.splits)

lemma transaction_ok: "transaction db body = (Inr u, db') \<longleftrightarrow> body db = Inr db'"
  by (auto simp: transaction_def split: sum.splits)

subsection \<open>Rows of a project\<close>

definition own_node :: "string \<Rightarrow> FaultTreeNode \<Rightarrow> FaultTreeNode" where
  "own_node pid n = n\<lparr>node_ProjectID := pid\<rparr>"

definition own_edge :: "string \<Rightarrow> FaultTreeEdge \<Rightarrow> FaultTreeEdge" where
  "own_edge pid e = e\<lparr>edge_ProjectID := pid\<rparr>"

lemma own_sel [simp]:
  "node_ID (own_node pid n) = node_ID n" "node_Type (own_node pid n) = node_Type n"
  "node_GateType (own_node pid n) = node_GateType n" "node_ProjectID (own_node pid n) = pid"
  "edge_ID (own_edge pid e) = edge_ID e" "edge_FromNodeID (own_edge pid e) = edge_FromNodeID e"
  "edge_ToNodeID (own_edge pid e) = edge_ToNodeID e" "edge_ProjectID (own_edge pid e) = pid"
  by (simp_all add: own_node_def own_edge_def)

lemma fill_defaults_sel [simp]:
  "node_ID (fill_defaults n) = node_ID n" "node_Type (fill_defaults n) = node_Type n"
  "node_GateType (fill_defaults n) = node_GateType n" "node_ProjectID (fill_defaults n) = node_ProjectID n"
  by (simp_all add: fill_defaults_def)

subsection \<open>Knowledge graphs\<close>

definition GetKnowledgeGraphGraph :: "'sm database \<Rightarrow> string \<Rightarrow> KnowledgeGraphNode list \<times> KnowledgeGraphEdge list" where
  "GetKnowledgeGraphGraph db pid =
     (filter (\<lambda>n. kn_ProjectID n = pid) (db_knodes db), filter (\<lambda>e. ke_ProjectID e = pid) (db_kedges db))"

definition json_or :: "string \<Rightarrow> string" where
  "json_or s = (if s = '''' then ''{}'' else s)"

definition fill_knode :: "KnowledgeGraphNode \<Rightarrow> KnowledgeGraphNode" where
  "fill_knode n = n\<lparr>kn_StyleJson := json_or (kn_StyleJson n), kn_DataExtJson := json_or (kn_DataExtJson n)\<rparr>"

definition fill_kedge :: "KnowledgeGraphEdge \<Rightarrow> KnowledgeGraphEdge" where
  \<comment> \<open>an empty type gets the default of its column when gorm inserts the row\<close>
  "fill_kedge e = e\<lparr>ke_Type := (if ke_Type e = '''' then ''smoothstep'' else ke_Type e), ke_StyleJson := json_or (ke_StyleJson e), ke_LabelStyleJson := json_or (ke_LabelStyleJson e),
     ke_LabelBgStyleJson := json_or (ke_LabelBgStyleJson e)\<rparr>"

definition BatchReplaceKnowledgeGraph ::
    "('sm database \<Rightarrow> bool) \<Rightarrow> 'sm database \<Rightarrow> string \<Rightarrow> KnowledgeGraphNode list \<Rightarrow> KnowledgeGraphEdge list
      \<Rightarrow> graph_error + 'sm database" where
  "BatchReplaceKnowledgeGraph accepts db pid nodes edges =
     (let db' = db\<lparr>db_knodes := filter (\<lambda>n. kn_ProjectID n \<noteq> pid) (db_knodes db) @ map fill_knode nodes,
                   db_kedges := filter (\<lambda>e. ke_ProjectID e \<noteq> pid) (db_kedges db) @ map fill_kedge edges\<rparr>
      in if accepts db' then Inr db' else Inl ErrDB)"

lemma fill_kg_sel [simp]:
  "kn_ID (fill_knode n) = kn_ID n" "kn_ProjectID (fill_knode n) = kn_ProjectID n"
  "ke_ID (fill_kedge e) = ke_ID e" "ke_ProjectID (fill_kedge e) = ke_ProjectID e"
  "ke_SourceNodeID (fill_kedge e) = ke_SourceNodeID e" "ke_TargetNodeID (fill_kedge e) = ke_TargetNodeID e"
  by (simp_all add: fill_knode_def fill_kedge_def)

lemma BatchReplaceKG_frame:
  "BatchReplaceKnowledgeGraph accepts db pid ns es = Inr db' \<Longrightarrow>
     db_projects db' = db_projects db \<and> db_nodes db' = db_nodes db \<and> db_edges db' = db_edges db"
  by (auto simp: BatchReplaceKnowledgeGraph_def Let_def split: if_splits)

lemma BatchReplaceKG_own:
  assumes "BatchReplaceKnowledgeGraph accepts db pid ns es = Inr db'"
    and "\<forall>n\<in>set ns. kn_ProjectID n = pid" and "\<forall>e\<in>set es. ke_ProjectID e = pid"
  shows "GetKnowledgeGraphGraph db' pid = (map fill_knode ns, map fill_kedge es)"
  using assms
  by (auto simp: BatchReplaceKnowledgeGraph_def GetKnowledgeGraphGraph_def Let_def filter_id_conv split: if_splits)

subsection \<open>A project's fault tree after a replacement\<close>

text \<open>After a replacement the project's rows are the given ones and no other project's row
  changed.\<close>

lemma BatchReplace_own:
  assumes "BatchReplaceFaultTree accepts db pid (map (own_node pid) ns) (map (own_edge pid) es) = Inr db'"
  shows "GetFaultTreeGraph db' pid = (map (fill_defaults \<circ> own_node pid) ns, map (own_edge pid) es)"
  using assms
  by (auto simp: BatchReplaceFaultTree_def GetFaultTreeGraph_def Let_def filter_id_conv split: if_splits)

lemma BatchReplace_other:
  assumes "BatchReplaceFaultTree accepts db pid (map (own_node pid) ns) (map (own_edge pid) es) = Inr db'"
    and "q \<noteq> pid"
  shows "GetFaultTreeGraph db' q = GetFaultTreeGraph db q"
  using assms
  by (auto simp: BatchReplaceFaultTree_def GetFaultTreeGraph_def Let_def filter_empty_conv split: if_splits
      intro: filter_cong)

lemma BatchReplace_frame:
  "BatchReplaceFaultTree accepts db pid ns es = Inr db' \<Longrightarrow>
     db_projects db' = db_projects db \<and> db_audits db' = db_audits db
     \<and> GetKnowledgeGraphGraph db' = GetKnowledgeGraphGraph db"
  by (auto simp: BatchReplaceFaultTree_def GetKnowledgeGraphGraph_def Let_def split: if_splits)

lemma CAS_won:
  "UpdateGraphMetaCAS db pid old new nc ec entc rc = (Suc n, db') \<longleftrightarrow>
     n = 0 \<and> (\<exists>p. db_projects db pid = Some p \<and> proj_GraphRevision p = old \<and>
     db' = db\<lparr>db_projects := (db_projects db)(pid \<mapsto> set_graph_meta new nc ec entc rc p)\<rparr>)"
  by (auto simp: UpdateGraphMetaCAS_def split: option.split)

end
