(* ===== verification/Executor.thy ===== *)
theory Executor
  imports Modes Database
begin

text \<open>
  Planning, safety check and commit of a tool call (the head of
  \<open>internal/graph_ops/executor.go\<close>). What a call reads outside the transaction is an argument: the
  rows \<open>GetFaultTreeGraph\<close> returned when the call began (\<open>loaded\<close>) and the project
  \<open>FindByID\<close> found (\<open>found\<close>), which may come from a cache. The database argument is the
  state at the time of the commit, so that what others committed in between is part of the model.
\<close>

subsection \<open>Planning\<close>

record PlannedOperation =
  po_ToolName :: string
  po_Args :: raw_message

record PlannedPatchSet =
  plan_Operations :: "PlannedOperation list"
  plan_Patch :: GraphPatch
  plan_Summary :: "summary list"
  plan_ChangedNodes :: nat
  plan_ChangedEdges :: nat
  plan_RepairMode :: bool

definition cloneJSONRaw :: "raw_message \<Rightarrow> raw_message" where
  "cloneJSONRaw raw = (case raw of RawJson v \<Rightarrow> RawJson v | _ \<Rightarrow> RawJson (JObj []))"

definition is_batch_name :: "string \<Rightarrow> bool" where
  "is_batch_name name \<longleftrightarrow> EqualFold (TrimSpace name) ''batch_operations''"

definition expandPlannedOperations :: "string \<Rightarrow> raw_message \<Rightarrow> PlannedOperation list" where
  "expandPlannedOperations toolName args =
     (let whole = [\<lparr> po_ToolName = TrimSpace toolName, po_Args = cloneJSONRaw args \<rparr>] in
      if \<not> is_batch_name toolName then whole
      else case bindE (unmarshal args) (\<lambda>m. need (dec_ops [] (field_vals ''operations'' m))) of
        Inl _ \<Rightarrow> whole
      | Inr ops \<Rightarrow>
          (let out = map (\<lambda>(t, a). \<lparr> po_ToolName = TrimSpace t, po_Args = cloneJSONRaw a \<rparr>)
                 (filter (\<lambda>(t, a). TrimSpace t \<noteq> '''') ops)
           in if out = [] then whole else out))"

definition isRepairModeBatchOperation :: "string \<Rightarrow> raw_message \<Rightarrow> bool" where
  "isRepairModeBatchOperation toolName args \<longleftrightarrow> is_batch_name toolName \<and>
     bindE (unmarshal args) (\<lambda>m. req_bool m ''repairMode'') = Inr True"

definition detectRepairMode :: "PlannedPatchSet \<Rightarrow> bool" where
  "detectRepairMode plan \<longleftrightarrow> plan_RepairMode plan \<or>
     list_ex (\<lambda>op. isRepairModeBatchOperation (po_ToolName op) (po_Args op)) (plan_Operations plan)"

definition plannedPatchHasGraphChanges :: "PlannedPatchSet \<Rightarrow> bool" where
  "plannedPatchHasGraphChanges plan \<longleftrightarrow>
     plan_ChangedNodes plan > 0 \<or> plan_ChangedEdges plan > 0 \<or> \<not> patch_empty (plan_Patch plan)"

definition PlanFaultTreeOperation ::
    "draws \<Rightarrow> faultTreeState \<Rightarrow> string \<Rightarrow> raw_message \<Rightarrow> nat
      \<Rightarrow> graph_error + PlannedPatchSet \<times> faultTreeState \<times> nat" where
  "PlanFaultTreeOperation d s rawName args k =
     (let toolName = TrimSpace rawName in
     bindE (guardE (toolName = '''') (invalid ''toolName is required'')) (\<lambda>_.
     bindE (ValidateParameters toolName args) (\<lambda>_.
     bindE (applyOperation d s toolName args k) (\<lambda>(res, s', k').
       let counts = (if op_changedNodes res = 0 \<and> op_changedEdges res = 0
                     then patchChangedCounts (op_patch res)
                     else (op_changedNodes res, op_changedEdges res))
       in Inr (\<lparr> plan_Operations = expandPlannedOperations toolName args, plan_Patch = op_patch res,
                 plan_Summary = [op_summary res], plan_ChangedNodes = fst counts,
                 plan_ChangedEdges = snd counts,
                 plan_RepairMode = isRepairModeBatchOperation toolName args \<rparr>, s', k')))))"

subsection \<open>Commit\<close>

datatype exec_summary =
    Joined "summary list"
  | DefaultBatch nat
  | DefaultOne string
  | NoChange
  | NothingSelected
  | PreviewOnly

record ExecuteResult =
  er_Summary :: exec_summary
  er_Patch :: GraphPatch
  er_ChangedNodes :: nat
  er_ChangedEdges :: nat

type_synonym db = "exec_summary database"

definition plan_text :: "PlannedPatchSet \<Rightarrow> exec_summary" where
  "plan_text plan =
     (if plan_Summary plan \<noteq> [] then Joined (plan_Summary plan)
      else case plan_Operations plan of
        [] \<Rightarrow> NoChange | [op] \<Rightarrow> DefaultOne (TrimSpace (po_ToolName op)) | ops \<Rightarrow> DefaultBatch (length ops))"

definition buildGraphAuditAction :: "string \<Rightarrow> string" where
  "buildGraphAuditAction toolName = take 60 (''graph.agent.'' @ TrimSpace toolName)"

definition base_revision :: "project_row \<Rightarrow> int \<Rightarrow> graph_error + int" where
  "base_revision project expectedRevision =
     (if expectedRevision \<ge> 0 \<and> proj_GraphRevision project \<noteq> expectedRevision
      then Inl ErrExecutorVersionConflict else Inr (proj_GraphRevision project))"

definition commit_graph ::
    "(db \<Rightarrow> bool) \<Rightarrow> string \<Rightarrow> string \<Rightarrow> exec_summary \<Rightarrow> FaultTreeNode list \<Rightarrow> FaultTreeEdge list \<Rightarrow> int
      \<Rightarrow> db \<Rightarrow> graph_error + db" where
  \<comment> \<open>the body of the transaction\<close>
  "commit_graph accepts projectID toolName summary nodes edges base db =
     bindE (BatchReplaceFaultTree accepts db projectID nodes edges) (\<lambda>db1.
       case UpdateGraphMetaCAS db1 projectID base (base + 1) (length nodes) (length edges) 0 0 of
         (affected, db2) \<Rightarrow>
           bindE (guardE (affected = 0) ErrExecutorVersionConflict) (\<lambda>_.
             let db3 = CreateAudit db2 \<lparr> audit_Action = buildGraphAuditAction toolName,
                   audit_ResourceID = projectID, audit_Summary = summary \<rparr>
             in if accepts db3 then Inr db3 else Inl ErrDB))"

definition persistFaultTreeWithExpectedRevision ::
    "(db \<Rightarrow> bool) \<Rightarrow> graph_error + project_row option \<Rightarrow> string \<Rightarrow> string \<Rightarrow> exec_summary
      \<Rightarrow> FaultTreeNode list \<Rightarrow> FaultTreeEdge list \<Rightarrow> int \<Rightarrow> db \<Rightarrow> (graph_error + int) \<times> db" where
  "persistFaultTreeWithExpectedRevision accepts found projectID toolName summary nodes edges expectedRevision db =
     (case found of
        Inl e \<Rightarrow> (Inl e, db)
      | Inr None \<Rightarrow> (Inl ErrExecutorProjectNotFound, db)
      | Inr (Some project) \<Rightarrow>
          (case base_revision project expectedRevision of
             Inl e \<Rightarrow> (Inl e, db)
           | Inr base \<Rightarrow>
               (case transaction db (commit_graph accepts projectID toolName summary
                        (map (own_node projectID) nodes) (map (own_edge projectID) edges) base) of
                  (Inl e, db') \<Rightarrow> (Inl e, db')
                | (Inr _, db') \<Rightarrow> (Inr (base + 1), db'))))"

text \<open>What a call returns: the result, and the nodes, edges and revision the caller continues
  with. A call without changes writes nothing and keeps the revision it was given.\<close>

type_synonym exec_return = "graph_error + ExecuteResult \<times> FaultTreeNode list \<times> FaultTreeEdge list \<times> int"

definition safety_check :: "bool \<Rightarrow> faultTreeState \<Rightarrow> graph_error + unit" where
  "safety_check repair s =
     (if repair then enforceFaultTreeMutationSafetyPermissive s else enforceFaultTreeMutationSafety s)"

definition plan_result :: "PlannedPatchSet \<Rightarrow> ExecuteResult" where
  "plan_result plan = \<lparr> er_Summary = plan_text plan, er_Patch = plan_Patch plan,
     er_ChangedNodes = plan_ChangedNodes plan, er_ChangedEdges = plan_ChangedEdges plan \<rparr>"

definition applyPlannedPatchSet ::
    "(db \<Rightarrow> bool) \<Rightarrow> graph_error + project_row option \<Rightarrow> string \<Rightarrow> string \<Rightarrow> faultTreeState
      \<Rightarrow> PlannedPatchSet \<Rightarrow> int \<Rightarrow> db \<Rightarrow> exec_return \<times> db" where
  "applyPlannedPatchSet accepts found projectID auditToolName s plan expectedRevision db =
     (if \<not> plannedPatchHasGraphChanges plan
      then (Inr (plan_result plan, st_nodes s, st_edges s, expectedRevision), db)
      else case safety_check (detectRepairMode plan) s of
        Inl e \<Rightarrow> (Inl e, db)
      | Inr _ \<Rightarrow>
          (case persistFaultTreeWithExpectedRevision accepts found projectID (TrimSpace auditToolName)
                  (plan_text plan) (st_nodes s) (st_edges s) expectedRevision db of
             (Inl e, db') \<Rightarrow> (Inl e, db')
           | (Inr nextRev, db') \<Rightarrow> (Inr (plan_result plan,
                 map (fill_defaults \<circ> own_node projectID) (st_nodes s),
                 map (own_edge projectID) (st_edges s), nextRev), db')))"

subsection \<open>The entry points\<close>

definition ExecuteFaultTreeSnapshot ::
    "draws \<Rightarrow> (db \<Rightarrow> bool) \<Rightarrow> graph_error + project_row option \<Rightarrow> string \<Rightarrow> string \<Rightarrow> raw_message
      \<Rightarrow> FaultTreeNode list \<Rightarrow> FaultTreeEdge list \<Rightarrow> int \<Rightarrow> nat \<Rightarrow> db \<Rightarrow> exec_return \<times> db" where
  "ExecuteFaultTreeSnapshot d accepts found rawProject rawTool args baseNodes baseEdges expectedRevision k db =
     (let projectID = TrimSpace rawProject; toolName = TrimSpace rawTool in
      if projectID = '''' \<or> toolName = '''' then (Inl (invalid ''missing projectID/toolName''), db)
      else case PlanFaultTreeOperation d (newFaultTreeState baseNodes baseEdges) toolName args k of
        Inl e \<Rightarrow> (Inl e, db)
      | Inr (plan, s, _) \<Rightarrow>
          applyPlannedPatchSet accepts found projectID toolName s plan expectedRevision db)"

definition drop_graph :: "exec_return \<times> db \<Rightarrow> (graph_error + ExecuteResult) \<times> db" where
  "drop_graph r = (case r of (Inl e, db) \<Rightarrow> (Inl e, db) | (Inr (res, _), db) \<Rightarrow> (Inr res, db))"

definition Execute ::
    "draws \<Rightarrow> (db \<Rightarrow> bool) \<Rightarrow> graph_error + FaultTreeNode list \<times> FaultTreeEdge list
      \<Rightarrow> graph_error + project_row option \<Rightarrow> string \<Rightarrow> string \<Rightarrow> string \<Rightarrow> raw_message \<Rightarrow> nat \<Rightarrow> db
      \<Rightarrow> (graph_error + ExecuteResult) \<times> db" where
  "Execute d accepts loaded found rawProject rawType rawTool args k db =
     (let projectID = TrimSpace rawProject; graphType = TrimSpace rawType; toolName = TrimSpace rawTool in
      if projectID = '''' \<or> graphType = '''' \<or> toolName = ''''
        then (Inl (invalid ''missing projectID/graphType/toolName''), db)
      else if graphType \<noteq> ''faultTree'' then (Inl (ErrExecutorUnsupportedGraph graphType), db)
      else case loaded of
        Inl e \<Rightarrow> (Inl e, db)
      | Inr (nodes, edges) \<Rightarrow>
          (case PlanFaultTreeOperation d (newFaultTreeState nodes edges) toolName args k of
             Inl e \<Rightarrow> (Inl e, db)
           | Inr (plan, s, _) \<Rightarrow>
               drop_graph (applyPlannedPatchSet accepts found projectID toolName s plan (-1) db)))"

fun plan_all :: "draws \<Rightarrow> PlannedOperation list \<Rightarrow> PlannedPatchSet \<Rightarrow> faultTreeState \<Rightarrow> nat
    \<Rightarrow> graph_error + PlannedPatchSet \<times> faultTreeState" where
  "plan_all d [] merged s k = Inr (merged, s)"
| "plan_all d (op # ops) merged s k =
     (case PlanFaultTreeOperation d s (po_ToolName op) (po_Args op) k of
        Inl e \<Rightarrow> Inl e
      | Inr (opPlan, s', k') \<Rightarrow>
          plan_all d ops \<lparr>
            plan_Operations = plan_Operations merged @ [\<lparr> po_ToolName = TrimSpace (po_ToolName op),
               po_Args = cloneJSONRaw (po_Args op) \<rparr>],
            plan_Patch = mergePatch (plan_Patch merged) (plan_Patch opPlan),
            plan_Summary = plan_Summary merged @ plan_Summary opPlan,
            plan_ChangedNodes = plan_ChangedNodes merged + plan_ChangedNodes opPlan,
            plan_ChangedEdges = plan_ChangedEdges merged + plan_ChangedEdges opPlan,
            plan_RepairMode = (plan_RepairMode merged \<or> plan_RepairMode opPlan) \<rparr> s' k')"

definition ApplyPatchSet ::
    "draws \<Rightarrow> (db \<Rightarrow> bool) \<Rightarrow> graph_error + FaultTreeNode list \<times> FaultTreeEdge list
      \<Rightarrow> graph_error + project_row option \<Rightarrow> string \<Rightarrow> string \<Rightarrow> PlannedPatchSet option \<Rightarrow> nat \<Rightarrow> db
      \<Rightarrow> (graph_error + ExecuteResult) \<times> db" where
  "ApplyPatchSet d accepts loaded found rawProject rawType planned k db =
     (let projectID = TrimSpace rawProject; graphType = TrimSpace rawType in
      if projectID = '''' \<or> graphType = '''' then (Inl (invalid ''missing projectID/graphType''), db)
      else if graphType \<noteq> ''faultTree'' then (Inl (ErrExecutorUnsupportedGraph graphType), db)
      else case planned of
        None \<Rightarrow> (Inl (invalid ''operations is required''), db)
      | Some plan \<Rightarrow>
          if plan_Operations plan = [] then (Inl (invalid ''operations is required''), db)
          else case loaded of
            Inl e \<Rightarrow> (Inl e, db)
          | Inr (nodes, edges) \<Rightarrow>
              (case plan_all d (plan_Operations plan)
                      \<lparr> plan_Operations = [], plan_Patch = empty_patch, plan_Summary = [],
                        plan_ChangedNodes = 0, plan_ChangedEdges = 0, plan_RepairMode = plan_RepairMode plan \<rparr>
                      (newFaultTreeState nodes edges) k of
                 Inl e \<Rightarrow> (Inl e, db)
               | Inr (merged, s) \<Rightarrow>
                   drop_graph (applyPlannedPatchSet accepts found projectID ''batch_operations'' s merged (-1) db)))"

subsection \<open>Tools that only read\<close>

lemma read_plan_unchanged:
  assumes "\<not> ToolMutatesGraph (TrimSpace t)" and "PlanFaultTreeOperation d s t args k = Inr (plan, s', k')"
  shows "\<not> plannedPatchHasGraphChanges plan \<and> s' = s"
  using read_tool_unchanged [OF assms(1), of s k d args] assms(2)
  by (auto simp: PlanFaultTreeOperation_def Let_def leaves_unchanged_def plannedPatchHasGraphChanges_def
      patchChangedCounts_def patch_empty_def empty_patch_def simp del: ValidateParameters.simps split: if_splits)

lemma read_snapshot_unchanged:
  assumes "\<not> ToolMutatesGraph (TrimSpace t)"
  shows "snd (ExecuteFaultTreeSnapshot d accepts found p t args ns es r k db) = db"
  using read_plan_unchanged [of "TrimSpace t"] assms
  by (auto simp: ExecuteFaultTreeSnapshot_def Let_def applyPlannedPatchSet_def split: sum.split)

lemma read_execute_unchanged:
  assumes "\<not> ToolMutatesGraph (TrimSpace t)"
  shows "snd (Execute d accepts loaded found p g t args k db) = db"
  using read_plan_unchanged [of "TrimSpace t"] assms
  by (auto simp: Execute_def Let_def applyPlannedPatchSet_def drop_graph_def split: sum.split)

subsection \<open>What a commit does\<close>

text \<open>The rules of a tree do not depend on the columns a commit fills in, nor on the index.\<close>

definition stored :: "string \<Rightarrow> faultTreeState \<Rightarrow> faultTreeState" where
  "stored pid s = newFaultTreeState (map (fill_defaults \<circ> own_node pid) (st_nodes s)) (map (own_edge pid) (st_edges s))"

lemma stored_sel [simp]:
  "st_nodes (stored pid s) = map (fill_defaults \<circ> own_node pid) (st_nodes s)"
  "st_edges (stored pid s) = map (own_edge pid) (st_edges s)"
  by (simp_all add: stored_def)

lemma stored_ids [simp]: "node_ids (stored pid s) = node_ids s"
  by (simp add: node_ids_def image_image)

lemma edge_rel_own [simp]: "edge_rel (map (own_edge pid) es) = edge_rel es"
  by (auto simp: edge_rel_iff)

lemma gate_type_stored [simp]: "gate_type ((fill_defaults \<circ> own_node pid) n) = gate_type n"
  by (simp add: gate_type_def)

lemma live_edge_own [simp]: "live_edge (own_edge pid e) = live_edge e"
  by (simp add: live_edge_def)

lemma wf_fatal_stored [simp]: "wf_fatal (stored pid s) = wf_fatal s"
  by (simp add: wf_fatal_def edges_connected_def one_top_event_def top_events_def top_is_root_def
      filter_map comp_def)

lemma wf_fta_stored [simp]: "wf_fta (stored pid s) = wf_fta s"
  by (simp add: wf_fta_def basic_is_leaf_def gates_alternate_def gate_arity_ok_def child_count_def
      filter_map comp_def gate_type_stored [unfolded comp_def])

lemma unique_ids_stored [simp]: "unique_ids (stored pid s) = unique_ids s"
  by (simp add: unique_ids_def comp_def)

lemma commit_graph_ok:
  assumes "commit_graph accepts pid tool sm (map (own_node pid) ns) (map (own_edge pid) es) base db = Inr db'"
  shows "GetFaultTreeGraph db' pid = (map (fill_defaults \<circ> own_node pid) ns, map (own_edge pid) es)"
    and "q \<noteq> pid \<Longrightarrow> GetFaultTreeGraph db' q = GetFaultTreeGraph db q"
    and "\<exists>p. db_projects db pid = Some p \<and> proj_GraphRevision p = base"
    and "\<exists>p. db_projects db pid = Some p \<and>
      db_projects db' = (db_projects db)(pid \<mapsto> set_graph_meta (base + 1) (length ns) (length es) 0 0 p)"
    and "db_audits db' = db_audits db @ [\<lparr> audit_Action = buildGraphAuditAction tool,
      audit_ResourceID = pid, audit_Summary = sm \<rparr>]"
    and "GetKnowledgeGraphGraph db' = GetKnowledgeGraphGraph db"
proof -
  let ?audit = "\<lparr> audit_Action = buildGraphAuditAction tool, audit_ResourceID = pid, audit_Summary = sm \<rparr>"
  from assms obtain db1 where
    r: "BatchReplaceFaultTree accepts db pid (map (own_node pid) ns) (map (own_edge pid) es) = Inr db1" and
    rest: "(case UpdateGraphMetaCAS db1 pid base (base + 1) (length ns) (length es) 0 0 of (affected, db2) \<Rightarrow>
      bindE (guardE (affected = 0) ErrExecutorVersionConflict)
        (\<lambda>_. if accepts (CreateAudit db2 ?audit) then Inr (CreateAudit db2 ?audit) else Inl ErrDB)) = Inr db'"
    by (auto simp: commit_graph_def Let_def)
  obtain affected db2 where u: "UpdateGraphMetaCAS db1 pid base (base + 1) (length ns) (length es) 0 0 = (affected, db2)"
    by fastforce
  with rest have "affected \<noteq> 0" and db': "db' = CreateAudit db2 ?audit"
    by (auto split: if_splits)
  then obtain n where cas: "UpdateGraphMetaCAS db1 pid base (base + 1) (length ns) (length es) 0 0 = (Suc n, db2)"
    using u by (cases affected) auto
  note frame = BatchReplace_frame [OF r]
  from cas obtain p where p: "db_projects db1 pid = Some p" "proj_GraphRevision p = base" and
    db2: "db2 = db1\<lparr>db_projects := (db_projects db1)(pid \<mapsto>
      set_graph_meta (base + 1) (length ns) (length es) 0 0 p)\<rparr>"
    unfolding CAS_won by auto
  have graph: "GetFaultTreeGraph db' q = GetFaultTreeGraph db1 q" for q
    by (simp add: db' db2 CreateAudit_def GetFaultTreeGraph_def)
  show "GetFaultTreeGraph db' pid = (map (fill_defaults \<circ> own_node pid) ns, map (own_edge pid) es)"
    using graph BatchReplace_own [OF r] by simp
  show "q \<noteq> pid \<Longrightarrow> GetFaultTreeGraph db' q = GetFaultTreeGraph db q"
    using graph BatchReplace_other [OF r] by simp
  show "\<exists>p. db_projects db pid = Some p \<and> proj_GraphRevision p = base" using p frame by simp
  show "\<exists>p. db_projects db pid = Some p \<and>
      db_projects db' = (db_projects db)(pid \<mapsto> set_graph_meta (base + 1) (length ns) (length es) 0 0 p)"
    using db' db2 frame p by (simp add: CreateAudit_def)
  show "db_audits db' = db_audits db @ [\<lparr> audit_Action = buildGraphAuditAction tool,
      audit_ResourceID = pid, audit_Summary = sm \<rparr>]"
    using db' db2 frame by (simp add: CreateAudit_def)
  have "GetKnowledgeGraphGraph db' = GetKnowledgeGraphGraph db1"
    by (rule ext) (simp add: db' db2 CreateAudit_def GetKnowledgeGraphGraph_def)
  with frame show "GetKnowledgeGraphGraph db' = GetKnowledgeGraphGraph db" by simp
qed

lemma persist_ok:
  assumes "persistFaultTreeWithExpectedRevision accepts found pid tool sm ns es oldRev db = (Inr nextRev, db')"
  obtains base where "nextRev = base + 1" and "0 \<le> oldRev \<Longrightarrow> base = oldRev"
    and "commit_graph accepts pid tool sm (map (own_node pid) ns) (map (own_edge pid) es) base db = Inr db'"
  using assms that
  by (auto simp: persistFaultTreeWithExpectedRevision_def base_revision_def transaction_def
      split: sum.splits option.splits prod.splits if_splits)

lemma persist_error:
  assumes "persistFaultTreeWithExpectedRevision accepts found pid tool sm ns es oldRev db = (Inl e, db')"
  shows "db' = db"
  using assms
  by (auto simp: persistFaultTreeWithExpectedRevision_def transaction_def
      split: sum.splits option.splits prod.splits)

text \<open>The commit of a plan: either nothing was written, or the checked state is what the project
  now holds, one revision up.\<close>

definition committed :: "string \<Rightarrow> faultTreeState \<Rightarrow> int \<Rightarrow> db \<Rightarrow> db \<Rightarrow> bool" where
  "committed pid s base db db' \<longleftrightarrow>
     (\<exists>p. db_projects db pid = Some p \<and> proj_GraphRevision p = base)
     \<and> (\<exists>p. db_projects db' pid = Some p \<and> proj_GraphRevision p = base + 1
          \<and> proj_NodeCount p = length (st_nodes s) \<and> proj_EdgeCount p = length (st_edges s))
     \<and> GetFaultTreeGraph db' pid = (st_nodes (stored pid s), st_edges (stored pid s))
     \<and> (\<forall>q. q \<noteq> pid \<longrightarrow> GetFaultTreeGraph db' q = GetFaultTreeGraph db q \<and> db_projects db' q = db_projects db q)
     \<and> GetKnowledgeGraphGraph db' = GetKnowledgeGraphGraph db
     \<and> length (db_audits db') = length (db_audits db) + 1"

lemma commit_graph_committed:
  "commit_graph accepts pid tool sm (map (own_node pid) (st_nodes s)) (map (own_edge pid) (st_edges s)) base db = Inr db'
    \<Longrightarrow> committed pid s base db db'"
proof -
  assume c: "commit_graph accepts pid tool sm (map (own_node pid) (st_nodes s)) (map (own_edge pid) (st_edges s)) base db = Inr db'"
  from commit_graph_ok(4) [OF c] obtain p where "db_projects db' = (db_projects db)(pid \<mapsto>
      set_graph_meta (base + 1) (length (st_nodes s)) (length (st_edges s)) 0 0 p)" by blast
  then show ?thesis
    using commit_graph_ok(1,3,5,6) [OF c] commit_graph_ok(2) [OF c] by (simp add: committed_def)
qed

lemma apply_ok_cases:
  assumes "applyPlannedPatchSet accepts found pid tool s plan oldRev db = (Inr (res, ns, es, nextRev), db')"
  shows "\<not> plannedPatchHasGraphChanges plan \<and> db' = db \<and> nextRev = oldRev \<and> ns = st_nodes s \<and> es = st_edges s
    \<or> plannedPatchHasGraphChanges plan \<and> safety_check (detectRepairMode plan) s = ok
      \<and> committed pid s (nextRev - 1) db db' \<and> (0 \<le> oldRev \<longrightarrow> nextRev = oldRev + 1)
      \<and> ns = st_nodes (stored pid s) \<and> es = st_edges (stored pid s)"
  using assms
  by (auto simp: applyPlannedPatchSet_def split: if_splits sum.splits prod.splits
      elim!: persist_ok dest!: commit_graph_committed)

lemma apply_error:
  assumes "applyPlannedPatchSet accepts found pid tool s plan oldRev db = (Inl e, db')"
  shows "db' = db"
  using assms
  by (auto simp: applyPlannedPatchSet_def split: if_splits sum.splits prod.splits dest!: persist_error)

lemma safety_check_wf:
  "unique_ids s \<Longrightarrow> safety_check repair s = ok \<longleftrightarrow> (if repair then wf_fatal s else wf_fta s)"
  by (simp add: safety_check_def strict_ok_iff permissive_ok_iff)

subsection \<open>From a plan to the stored tree\<close>

lemma plan_Inr:
  assumes "PlanFaultTreeOperation d s t args k = Inr (plan, s', k')"
  obtains res where "applyOperation d s (TrimSpace t) args k = Inr (res, s', k')"
    and "ValidateParameters (TrimSpace t) args = ok" and "plan_Patch plan = op_patch res"
    and "plannedPatchHasGraphChanges plan \<longleftrightarrow> operationHasGraphChanges res"
    and "plan_RepairMode plan = isRepairModeBatchOperation (TrimSpace t) args"
proof -
  from assms obtain res where *: "applyOperation d s (TrimSpace t) args k = Inr (res, s', k')"
    "ValidateParameters (TrimSpace t) args = ok" and plan: "plan = \<lparr> plan_Operations = expandPlannedOperations (TrimSpace t) args,
      plan_Patch = op_patch res, plan_Summary = [op_summary res],
      plan_ChangedNodes = fst (if op_changedNodes res = 0 \<and> op_changedEdges res = 0
        then patchChangedCounts (op_patch res) else (op_changedNodes res, op_changedEdges res)),
      plan_ChangedEdges = snd (if op_changedNodes res = 0 \<and> op_changedEdges res = 0
        then patchChangedCounts (op_patch res) else (op_changedNodes res, op_changedEdges res)),
      plan_RepairMode = isRepairModeBatchOperation (TrimSpace t) args \<rparr>"
    by (auto simp: PlanFaultTreeOperation_def Let_def bindE_Inr_iff simp del: ValidateParameters.simps)
  have "plannedPatchHasGraphChanges plan \<longleftrightarrow> operationHasGraphChanges res"
    by (auto simp: plan plannedPatchHasGraphChanges_def operationHasGraphChanges_def patch_empty_def patchChangedCounts_def)
  with * plan that show thesis by simp
qed

lemma plan_inv:
  assumes "PlanFaultTreeOperation d s t args k = Inr (plan, s', k')" and "ft_inv s" and "fresh_draws d k k' s"
  shows "ft_inv s'"
proof -
  from assms(1) obtain res where "applyOperation d s (TrimSpace t) args k = Inr (res, s', k')" by (rule plan_Inr)
  from good_stepD(2) [OF dispatch_good(1) this] assms show ?thesis by simp
qed

lemma snapshot_Inr:
  assumes "ExecuteFaultTreeSnapshot d accepts found pid t args bn be oldRev k db = (Inr (res, ns, es, nextRev), db')"
  obtains plan s k' where "PlanFaultTreeOperation d (newFaultTreeState bn be) (TrimSpace t) args k = Inr (plan, s, k')"
    and "applyPlannedPatchSet accepts found (TrimSpace pid) (TrimSpace t) s plan oldRev db = (Inr (res, ns, es, nextRev), db')"
  using assms that
  by (auto simp: ExecuteFaultTreeSnapshot_def Let_def split: if_splits sum.splits)

lemma snapshot_error:
  assumes "ExecuteFaultTreeSnapshot d accepts found pid t args bn be oldRev k db = (Inl e, db')"
  shows "db' = db"
  using assms
  by (auto simp: ExecuteFaultTreeSnapshot_def Let_def split: if_splits sum.splits dest!: apply_error)

lemma drop_graph_Inr:
  "drop_graph r = (Inr res, db') \<longleftrightarrow> (\<exists>ns es nr. r = (Inr (res, ns, es, nr), db'))"
  by (auto simp: drop_graph_def split: prod.splits sum.splits)

lemma drop_graph_Inl: "drop_graph r = (Inl e, db') \<longleftrightarrow> r = (Inl e, db')"
  by (auto simp: drop_graph_def split: prod.splits sum.splits)

lemma Execute_Inr:
  assumes "Execute d accepts loaded found pid ty t args k db = (Inr res, db')"
  obtains nodes edges plan s k' ns es nr where "loaded = Inr (nodes, edges)"
    and "PlanFaultTreeOperation d (newFaultTreeState nodes edges) (TrimSpace t) args k = Inr (plan, s, k')"
    and "applyPlannedPatchSet accepts found (TrimSpace pid) (TrimSpace t) s plan (-1) db = (Inr (res, ns, es, nr), db')"
  using assms that
  by (auto simp: Execute_def Let_def drop_graph_Inr split: if_splits sum.splits prod.splits)

lemma Execute_error:
  assumes "Execute d accepts loaded found pid ty t args k db = (Inl e, db')"
  shows "db' = db"
  using assms
  by (auto simp: Execute_def Let_def drop_graph_Inl split: if_splits sum.splits prod.splits dest!: apply_error)

lemma ApplyPatchSet_Inr:
  assumes "ApplyPatchSet d accepts loaded found pid ty planned k db = (Inr res, db')"
  obtains plan s ns es nr where
    "applyPlannedPatchSet accepts found (TrimSpace pid) ''batch_operations'' s plan (-1) db = (Inr (res, ns, es, nr), db')"
  using assms that
  by (auto simp: ApplyPatchSet_def Let_def drop_graph_Inr split: if_splits sum.splits prod.splits option.splits)

lemma ApplyPatchSet_error:
  assumes "ApplyPatchSet d accepts loaded found pid ty planned k db = (Inl e, db')"
  shows "db' = db"
  using assms
  by (auto simp: ApplyPatchSet_def Let_def drop_graph_Inl split: if_splits sum.splits prod.splits option.splits
      dest!: apply_error)

end
