(* ===== verification/GraphService.thy ===== *)
theory GraphService
  imports Executor
begin

text \<open>
  The fault-tree service behind the editor (\<open>internal/service/fault_tree.go\<close>): loading with the
  cache, saving with the optimistic lock, the editor's own validation.
\<close>

subsection \<open>Loading\<close>

datatype service_error = SvcErr graph_error | ErrProjectNotFound | ErrVersionConflict

type_synonym ft_graph = "FaultTreeNode list \<times> FaultTreeEdge list"

record cache_payload =
  cp_Revision :: int
  cp_Graph :: ft_graph

definition GetGraph ::
    "graph_error + project_row option \<Rightarrow> bool \<Rightarrow> cache_payload option \<Rightarrow> graph_error + ft_graph
      \<Rightarrow> service_error + (ft_graph \<times> int \<times> cache_payload option)" where
  \<comment> \<open>the project row, whether the cache is on, what it holds, what the tables hold; the last
     component of the result is what the cache holds afterwards\<close>
  "GetGraph found cacheOn cached loaded =
     (case found of
        Inl e \<Rightarrow> Inl (SvcErr e)
      | Inr None \<Rightarrow> Inl ErrProjectNotFound
      | Inr (Some project) \<Rightarrow>
          (case (if cacheOn then cached else None) of
             Some payload \<Rightarrow>
               if cp_Revision payload = proj_GraphRevision project
               then Inr (cp_Graph payload, proj_GraphRevision project, cached)
               else (case loaded of Inl e \<Rightarrow> Inl (SvcErr e)
                     | Inr g \<Rightarrow> Inr (g, proj_GraphRevision project,
                         Some \<lparr> cp_Revision = proj_GraphRevision project, cp_Graph = g \<rparr>))
           | None \<Rightarrow>
               (case loaded of Inl e \<Rightarrow> Inl (SvcErr e)
                | Inr g \<Rightarrow> Inr (g, proj_GraphRevision project,
                    (if cacheOn then Some \<lparr> cp_Revision = proj_GraphRevision project, cp_Graph = g \<rparr> else cached)))))"

subsection \<open>Saving\<close>

record SaveGraphResult =
  sg_Revision :: int
  sg_NodeCount :: nat
  sg_EdgeCount :: nat

definition save_graph ::
    "(db \<Rightarrow> bool) \<Rightarrow> string \<Rightarrow> FaultTreeNode list \<Rightarrow> FaultTreeEdge list \<Rightarrow> int \<Rightarrow> db \<Rightarrow> graph_error + db" where
  \<comment> \<open>the body of the transaction; the service's conflict error is mapped below\<close>
  "save_graph accepts pid nodes edges revision db =
     bindE (BatchReplaceFaultTree accepts db pid (map (own_node pid) nodes) (map (own_edge pid) edges)) (\<lambda>db1.
       case UpdateGraphMetaCAS db1 pid revision (revision + 1) (length nodes) (length edges) 0 0 of
         (affected, db2) \<Rightarrow> if affected = 0 then Inl ErrExecutorVersionConflict else Inr db2)"

definition SaveGraph ::
    "(db \<Rightarrow> bool) \<Rightarrow> string \<Rightarrow> FaultTreeNode list \<Rightarrow> FaultTreeEdge list \<Rightarrow> int \<Rightarrow> db
      \<Rightarrow> (service_error + SaveGraphResult) \<times> db" where
  "SaveGraph accepts pid nodes edges revision db =
     (case transaction db (save_graph accepts pid nodes edges revision) of
        (Inl e, db') \<Rightarrow> (Inl (if e = ErrExecutorVersionConflict then ErrVersionConflict else SvcErr e), db')
      | (Inr _, db') \<Rightarrow> (Inr \<lparr> sg_Revision = revision + 1, sg_NodeCount = length nodes,
            sg_EdgeCount = length edges \<rparr>, db'))"

lemma SaveGraph_ok:
  assumes "SaveGraph accepts pid ns es r db = (Inr res, db')"
  shows "\<exists>p. db_projects db pid = Some p \<and> proj_GraphRevision p = r"
    and "GetFaultTreeGraph db' pid = (map (fill_defaults \<circ> own_node pid) ns, map (own_edge pid) es)"
    and "\<exists>p. db_projects db' pid = Some p \<and> proj_GraphRevision p = r + 1" and "sg_Revision res = r + 1"
    and "q \<noteq> pid \<Longrightarrow> GetFaultTreeGraph db' q = GetFaultTreeGraph db q \<and> db_projects db' q = db_projects db q"
    and "GetKnowledgeGraphGraph db' = GetKnowledgeGraphGraph db"
proof -
  from assms have body: "save_graph accepts pid ns es r db = Inr db'" and res: "sg_Revision res = r + 1"
    by (auto simp: SaveGraph_def transaction_def split: sum.splits prod.splits)
  then obtain db1 where rep: "BatchReplaceFaultTree accepts db pid (map (own_node pid) ns) (map (own_edge pid) es) = Inr db1"
    and rest: "(case UpdateGraphMetaCAS db1 pid r (r + 1) (length ns) (length es) 0 0 of
        (affected, db2) \<Rightarrow> if affected = 0 then Inl ErrExecutorVersionConflict else Inr db2) = Inr db'"
    by (auto simp: save_graph_def)
  from rest obtain n where cas: "UpdateGraphMetaCAS db1 pid r (r + 1) (length ns) (length es) 0 0 = (Suc n, db')"
    by (cases "UpdateGraphMetaCAS db1 pid r (r + 1) (length ns) (length es) 0 0")
      (auto simp: neq0_conv gr0_conv_Suc split: if_splits)
  note frame = BatchReplace_frame [OF rep]
  from cas obtain p where p: "db_projects db1 pid = Some p" "proj_GraphRevision p = r" and
    db': "db' = db1\<lparr>db_projects := (db_projects db1)(pid \<mapsto>
      set_graph_meta (r + 1) (length ns) (length es) 0 0 p)\<rparr>"
    unfolding CAS_won by auto
  have graph: "GetFaultTreeGraph db' q = GetFaultTreeGraph db1 q" for q
    by (simp add: db' GetFaultTreeGraph_def)
  show "\<exists>p. db_projects db pid = Some p \<and> proj_GraphRevision p = r" using p frame by simp
  show "GetFaultTreeGraph db' pid = (map (fill_defaults \<circ> own_node pid) ns, map (own_edge pid) es)"
    using graph BatchReplace_own [OF rep] by simp
  show "\<exists>p. db_projects db' pid = Some p \<and> proj_GraphRevision p = r + 1" by (simp add: db')
  show "sg_Revision res = r + 1" by (rule res)
  show "q \<noteq> pid \<Longrightarrow> GetFaultTreeGraph db' q = GetFaultTreeGraph db q \<and> db_projects db' q = db_projects db q"
    using graph BatchReplace_other [OF rep] frame by (simp add: db')
  have "GetKnowledgeGraphGraph db' = GetKnowledgeGraphGraph db1"
    by (rule ext) (simp add: db' GetKnowledgeGraphGraph_def)
  with frame show "GetKnowledgeGraphGraph db' = GetKnowledgeGraphGraph db" by simp
qed

lemma SaveGraph_error: "SaveGraph accepts pid ns es r db = (Inl e, db') \<Longrightarrow> db' = db"
  by (auto simp: SaveGraph_def transaction_def split: sum.splits prod.splits)

subsection \<open>The editor's validation\<close>

text \<open>It compares IDs and types as they are, without trimming.\<close>

definition edge_touching :: "FaultTreeEdge list \<Rightarrow> string \<Rightarrow> bool" where
  "edge_touching es i \<longleftrightarrow> list_ex (\<lambda>e. edge_FromNodeID e = i \<or> edge_ToNodeID e = i) es"

definition ValidateGraph :: "FaultTreeNode list \<Rightarrow> FaultTreeEdge list \<Rightarrow> ftaConstraintIssue list" where
  "ValidateGraph nodes edges =
     (let tops = length (filter (\<lambda>n. node_Type n = ''topEvent'') nodes) in
      (if tops = 0 then [mk_issue '''' ''error'' ''MISSING_TOP_EVENT'']
       else if tops > 1 then [mk_issue '''' ''error'' ''MULTIPLE_TOP_EVENTS''] else []))
     @ map (\<lambda>n. mk_issue (node_ID n) ''error'' ''INVALID_PROBABILITY'')
         (filter (\<lambda>n. node_Type n = ''basicEvent'' \<and>
            (\<exists>p \<in> set_option (node_Probability n). p < 0 \<or> p > 1)) nodes)
     @ map (\<lambda>n. mk_issue (node_ID n) ''warning'' ''ISOLATED_NODE'')
         (filter (\<lambda>n. node_Type n \<noteq> ''topEvent'' \<and> \<not> edge_touching edges (node_ID n) \<and> length nodes > 1) nodes)
     @ map (\<lambda>n. mk_issue (node_ID n) ''error'' ''UNCONNECTED_GATE'')
         (filter (\<lambda>n. node_Type n = ''gate'' \<and> (node_GateType n = None \<or> node_GateType n = Some '''')) nodes)"

end
