(* ===== verification/Hybrid.thy ===== *)
theory Hybrid
  imports GraphService
begin

text \<open>
  The preview engine (\<open>internal/graph_ops/hybrid_engine.go\<close>): it proposes changes as preview items
  and commits the approved ones as one batch. The previews are computed from the stored nodes
  (\<open>loaded\<close>). \<open>sort.Slice\<close> on the node IDs is a sort by key: the IDs of a project are distinct.
  The order in which Go walks a map is an argument (\<open>ks\<close>).
\<close>

datatype change =
    GateTypeIs string
  | NameIs string
  | PositionIs rat rat
  | NodeIDsAre "string list"
  | KeepNode string

datatype preview_reason = AndMayBeStrict | UnifyLabel | GridPreview | DuplicateLabel string

record PreviewItem =
  pi_ID :: string
  pi_NodeID :: string
  pi_ChangeType :: string
  pi_Before :: change
  pi_After :: change
  pi_Reason :: preview_reason
  pi_Confidence :: rat
  pi_ToolName :: string
  pi_ToolArgs :: raw_message

datatype preview_summary = FixGates nat | FixLabels nat | LayoutReady | MergeGroups nat

record HybridPreview =
  hp_ToolName :: string
  hp_TotalItems :: nat
  hp_Summary :: preview_summary
  hp_Items :: "PreviewItem list"

definition FilterByIDs :: "HybridPreview \<Rightarrow> string list \<Rightarrow> HybridPreview" where
  "FilterByIDs p ids =
     (if ids = [] then p\<lparr>hp_TotalItems := length (hp_Items p)\<rparr>
      else let allow = set (filter (\<lambda>i. i \<noteq> '''') (map TrimSpace ids));
               filtered = filter (\<lambda>item. pi_ID item \<in> allow) (hp_Items p)
           in p\<lparr>hp_TotalItems := length filtered, hp_Items := filtered\<rparr>)"

subsection \<open>Previews\<close>

definition normalizeLabel :: "string \<Rightarrow> string" where
  "normalizeLabel raw = (if TrimSpace raw = '''' then '''' else Join (Fields (TrimSpace raw)) '' '')"

fun number_items :: "draws \<Rightarrow> nat \<Rightarrow> (string \<Rightarrow> PreviewItem) list \<Rightarrow> PreviewItem list" where
  \<comment> \<open>each item draws its ID when it is made\<close>
  "number_items d k [] = []"
| "number_items d k (f # fs) = f (NewID d k ''pi'') # number_items d (Suc k) fs"

definition gate_item :: "FaultTreeNode \<Rightarrow> string \<Rightarrow> PreviewItem" where
  "gate_item n i = \<lparr> pi_ID = i, pi_NodeID = node_ID n, pi_ChangeType = ''update_gate'',
     pi_Before = GateTypeIs ''AND'', pi_After = GateTypeIs ''OR'', pi_Reason = AndMayBeStrict,
     pi_Confidence = 72 / 100, pi_ToolName = ''update_gate'',
     pi_ToolArgs = RawJson (JObj [(''gateType'', JStr ''OR''), (''nodeId'', JStr (node_ID n))]) \<rparr>"

definition is_and_gate :: "FaultTreeNode \<Rightarrow> bool" where
  "is_and_gate n \<longleftrightarrow> EqualFold (ntype n) ''gate'' \<and>
     (\<exists>g \<in> set_option (node_GateType n). EqualFold (TrimSpace g) ''AND'')"

definition generateGateCorrectionPreview :: "draws \<Rightarrow> nat \<Rightarrow> FaultTreeNode list \<Rightarrow> HybridPreview" where
  "generateGateCorrectionPreview d k nodes =
     (let items = number_items d k (map gate_item (filter is_and_gate nodes))
      in \<lparr> hp_ToolName = ''suggest_gate_corrections'', hp_TotalItems = length items,
           hp_Summary = FixGates (length items), hp_Items = sort_key pi_NodeID items \<rparr>)"

definition label_item :: "FaultTreeNode \<Rightarrow> string \<Rightarrow> PreviewItem" where
  "label_item n i = \<lparr> pi_ID = i, pi_NodeID = node_ID n, pi_ChangeType = ''update_node'',
     pi_Before = NameIs (node_Name n), pi_After = NameIs (normalizeLabel (node_Name n)),
     pi_Reason = UnifyLabel, pi_Confidence = 95 / 100, pi_ToolName = ''update_node'',
     pi_ToolArgs = RawJson (JObj [(''name'', JStr (normalizeLabel (node_Name n))), (''nodeId'', JStr (node_ID n))]) \<rparr>"

definition needs_label_fix :: "FaultTreeNode \<Rightarrow> bool" where
  "needs_label_fix n \<longleftrightarrow> normalizeLabel (node_Name n) \<noteq> TrimSpace (node_Name n)
     \<and> normalizeLabel (node_Name n) \<noteq> ''''"

definition generateBatchLabelFixPreview :: "draws \<Rightarrow> nat \<Rightarrow> FaultTreeNode list \<Rightarrow> HybridPreview" where
  "generateBatchLabelFixPreview d k nodes =
     (let items = number_items d k (map label_item (filter needs_label_fix nodes))
      in \<lparr> hp_ToolName = ''suggest_batch_label_fix'', hp_TotalItems = length items,
           hp_Summary = FixLabels (length items), hp_Items = sort_key pi_NodeID items \<rparr>)"

definition layout_item :: "nat \<Rightarrow> FaultTreeNode \<Rightarrow> string \<Rightarrow> PreviewItem" where
  "layout_item i n newID = \<lparr> pi_ID = newID, pi_NodeID = node_ID n, pi_ChangeType = ''layout_preview'',
     pi_Before = PositionIs (node_X n) (node_Y n),
     pi_After = PositionIs (of_nat ((i mod 8) * 320)) (of_nat ((i div 8) * 140)),
     pi_Reason = GridPreview, pi_Confidence = 58 / 100, pi_ToolName = '''', pi_ToolArgs = RawEmpty \<rparr>"

definition generateLayoutPreview :: "draws \<Rightarrow> nat \<Rightarrow> FaultTreeNode list \<Rightarrow> HybridPreview" where
  "generateLayoutPreview d k nodes =
     (let items = number_items d k (map (\<lambda>(i, n). layout_item i n) (enumerate 0 nodes))
      in \<lparr> hp_ToolName = ''suggest_layout_optimization'', hp_TotalItems = length items,
           hp_Summary = LayoutReady, hp_Items = items \<rparr>)"

definition name_key :: "FaultTreeNode \<Rightarrow> string" where
  "name_key n = ToLower (TrimSpace (node_Name n))"

definition ids_of_key :: "FaultTreeNode list \<Rightarrow> string \<Rightarrow> string list" where
  "ids_of_key nodes key = map node_ID (filter (\<lambda>n. name_key n = key) nodes)"

definition merge_item :: "FaultTreeNode list \<Rightarrow> string \<Rightarrow> string \<Rightarrow> PreviewItem" where
  "merge_item nodes key i =
     (let ids = sort (ids_of_key nodes key) in
      \<lparr> pi_ID = i, pi_NodeID = hd ids, pi_ChangeType = ''merge_candidate'', pi_Before = NodeIDsAre ids,
        pi_After = KeepNode (hd ids), pi_Reason = DuplicateLabel key, pi_Confidence = 66 / 100,
        pi_ToolName = '''', pi_ToolArgs = RawEmpty \<rparr>)"

definition generateNodeMergePreview :: "draws \<Rightarrow> nat \<Rightarrow> string list \<Rightarrow> FaultTreeNode list \<Rightarrow> HybridPreview" where
  "generateNodeMergePreview d k ks nodes =
     (let items = number_items d k (map (merge_item nodes)
            (filter (\<lambda>key. key \<noteq> '''' \<and> length (ids_of_key nodes key) \<ge> 2) ks))
      in \<lparr> hp_ToolName = ''suggest_node_merge'', hp_TotalItems = length items,
           hp_Summary = MergeGroups (length items), hp_Items = items \<rparr>)"

definition GeneratePreview ::
    "draws \<Rightarrow> nat \<Rightarrow> string list \<Rightarrow> graph_error + FaultTreeNode list \<times> FaultTreeEdge list
      \<Rightarrow> string \<Rightarrow> string \<Rightarrow> graph_error + HybridPreview" where
  "GeneratePreview d k ks loaded graphType toolName =
     (if TrimSpace graphType \<noteq> ''faultTree'' then Inl (ErrUnsupportedGraph graphType)
      else let n = ToLower (TrimSpace toolName) in
        if n = ''suggest_gate_corrections''
          then bindE loaded (\<lambda>g. Inr (generateGateCorrectionPreview d k (fst g)))
        else if n = ''suggest_batch_label_fix''
          then bindE loaded (\<lambda>g. Inr (generateBatchLabelFixPreview d k (fst g)))
        else if n = ''suggest_layout_optimization''
          then bindE loaded (\<lambda>g. Inr (generateLayoutPreview d k (fst g)))
        else if n = ''suggest_node_merge''
          then bindE loaded (\<lambda>g. Inr (generateNodeMergePreview d k ks (fst g)))
        else Inl (ErrUnknownTool toolName))"

subsection \<open>Commit\<close>

text \<open>An item's arguments pass through a Go map, which sorts the members of every object and prints the
  numbers anew.\<close>

fun as_map :: "json \<Rightarrow> json" where
  "as_map (JArr vs) = JArr (map as_map vs)"
| "as_map (JObj m) = JObj (map_members (map (\<lambda>(k, v). (k, as_map v)) m))"
| "as_map v = reprinted v"

definition item_op :: "PreviewItem \<Rightarrow> json option" where
  "item_op item =
     (if TrimSpace (pi_ToolName item) = '''' then None
      else case pi_ToolArgs item of
        RawJson (JObj m) \<Rightarrow> Some (JObj [(''args'', as_map (JObj m)), (''tool'', JStr (TrimSpace (pi_ToolName item)))])
      | RawJson JNull \<Rightarrow> Some (JObj [(''args'', JNull), (''tool'', JStr (TrimSpace (pi_ToolName item)))])
      | _ \<Rightarrow> None)"

definition commit_args :: "PreviewItem list \<Rightarrow> raw_message option" where
  "commit_args items =
     (let ops = List.map_filter item_op items
      in if ops = [] then None else Some (RawJson (JObj [(''operations'', JArr ops)])))"

definition plain_result :: "exec_summary \<Rightarrow> ExecuteResult" where
  "plain_result sm = \<lparr> er_Summary = sm, er_Patch = empty_patch, er_ChangedNodes = 0, er_ChangedEdges = 0 \<rparr>"

definition Commit ::
    "draws \<Rightarrow> (db \<Rightarrow> bool) \<Rightarrow> graph_error + FaultTreeNode list \<times> FaultTreeEdge list
      \<Rightarrow> graph_error + project_row option \<Rightarrow> string \<Rightarrow> string \<Rightarrow> HybridPreview option \<Rightarrow> string list
      \<Rightarrow> nat \<Rightarrow> db \<Rightarrow> (graph_error + ExecuteResult) \<times> db" where
  "Commit d accepts loaded found projectID graphType preview approvedIDs k db =
     (case preview of
        None \<Rightarrow> (Inl ErrHybridPreviewInvalid, db)
      | Some p \<Rightarrow>
          if hp_Items (FilterByIDs p approvedIDs) = [] then (Inr (plain_result NothingSelected), db)
          else (case commit_args (hp_Items (FilterByIDs p approvedIDs)) of
                  None \<Rightarrow> (Inr (plain_result PreviewOnly), db)
                | Some raw \<Rightarrow>
                    Execute d accepts loaded found projectID graphType ''batch_operations'' raw k db))"

subsection \<open>What a preview promises\<close>

lemma FilterByIDs_items:
  "set (hp_Items (FilterByIDs p ids)) \<subseteq> set (hp_Items p)"
  "hp_TotalItems (FilterByIDs p ids) = length (hp_Items (FilterByIDs p ids))"
  by (auto simp: FilterByIDs_def Let_def)

lemma set_number_items:
  "item \<in> set (number_items d k fs) \<Longrightarrow> \<exists>f \<in> set fs. \<exists>i. item = f i"
  by (induction d k fs rule: number_items.induct) auto

lemma length_number_items [simp]: "length (number_items d k fs) = length fs"
  by (induction d k fs rule: number_items.induct) auto

end
