(* ===== verification/Effects.thy ===== *)
theory Effects
  imports FTInvariant
begin

text \<open>
  What each mutation does to the graph: the exact set of nodes and arcs it leaves, for a tree that
  keeps the invariant. The arcs are those of \<open>erel\<close>.
\<close>

subsection \<open>Adding edges to a proper tree\<close>

definition proper_edges :: "faultTreeState \<Rightarrow> bool" where
  "proper_edges s \<longleftrightarrow> case_unique s \<and> [] \<notin> node_ids s \<and> (\<forall>e \<in> set (st_edges s). ends_in s e)"

lemma ft_inv_proper: "ft_inv s \<Longrightarrow> proper_edges s"
  using ft_inv_edge [of s] by (auto simp: proper_edges_def ends_in_def ft_invD)

lemma ends_in_edges [simp]: "ends_in (s\<lparr>st_edges := es\<rparr>) e = ends_in s e"
  by (simp add: ends_in_def)

lemma case_unique_edges [simp]: "case_unique (s\<lparr>st_edges := es\<rparr>) = case_unique s"
  by (simp add: case_unique_def)

lemma proper_addEdge:
  "proper_edges s \<Longrightarrow> ends_in s e \<Longrightarrow> proper_edges (snd (addEdge s e))"
  by (auto simp: proper_edges_def addEdge_def)

lemma erel_addEdge:
  assumes "proper_edges s" and "ends_in s e"
  shows "erel (snd (addEdge s e)) = insert (ends e) (erel s)"
proof -
  have live: "live_edge e" "efrom e = edge_FromNodeID e" "eto e = edge_ToNodeID e"
    using assms by (auto simp: proper_edges_def ends_in_def live_edge_def)
  have "ends e \<in> erel s" if "e' \<in> set (st_edges s)" "EqualFold (edge_FromNodeID e') (edge_FromNodeID e)"
    "EqualFold (edge_ToNodeID e') (edge_ToNodeID e)" for e'
  proof -
    have e': "ends_in s e'" using assms that by (simp add: proper_edges_def)
    have "edge_FromNodeID e' = edge_FromNodeID e" "edge_ToNodeID e' = edge_ToNodeID e"
      using assms e' that by (auto simp: proper_edges_def ends_in_def intro: case_unique_eq [of s])
    with live e' have "ends e = (efrom e', eto e')" "live_edge e'" by (auto simp: ends_in_def live_edge_def)
    with that(1) show ?thesis by (auto simp: edge_rel_def)
  qed
  then show ?thesis using live by (auto simp: addEdge_def list_ex_iff edge_rel_Cons)
qed

lemma erel_addEdges:
  assumes "proper_edges s" and "\<And>e. e \<in> set es \<Longrightarrow> ends_in s e"
  shows "erel (snd (addEdges s es)) = erel s \<union> ends ` set es"
  using assms
proof (induction es arbitrary: s)
  case (Cons e es)
  let ?s = "snd (addEdge s e)"
  have "ends_in ?s e'" if "e' \<in> set es" for e'
    using Cons.prems(2) [of e'] that by (simp add: ends_in_def)
  moreover have "proper_edges ?s" using Cons.prems by (simp add: proper_addEdge)
  ultimately have "erel (snd (addEdges ?s es)) = erel ?s \<union> ends ` set es" by (intro Cons.IH)
  then show ?case using Cons.prems by (simp add: erel_addEdge)
qed simp

subsection \<open>Deleting\<close>

lemma bypass_pairs_Nil: "bypass_pairs [] cs = []" "bypass_pairs ps [] = []"
proof -
  have "List.product ps [] = []" by (induction ps) simp_all
  then show "bypass_pairs ps [] = []" by (simp add: bypass_pairs_def)
qed (simp add: bypass_pairs_def)

lemma erel_removeNodes: "erel (snd (removeNodes s ids)) = {(a, b) \<in> erel s. a \<notin> ids \<and> b \<notin> ids}"
  by (auto simp: edge_rel_iff touches_def)

text \<open>The children of the deleted node become children of its parents.\<close>

lemma erel_bypass:
  assumes inv: "ft_inv s" and x: "TrimSpace x = x" "x \<noteq> []"
  shows "erel (snd (addEdges (snd (removeNodes s {x}))
      (fresh_edges d k (bypass_pairs (parentIDsOf s x) (childIDsOf s x))))) =
    {(a, b) \<in> erel s. a \<noteq> x \<and> b \<noteq> x} \<union> {(p, c). (p, x) \<in> erel s \<and> (x, c) \<in> erel s}"
proof -
  let ?s1 = "snd (removeNodes s {x})"
  let ?ps = "bypass_pairs (parentIDsOf s x) (childIDsOf s x)"
  have ps: "set ?ps = {(p, c). (p, x) \<in> erel s \<and> (x, c) \<in> erel s}"
  proof -
    have "p \<noteq> c" if "(p, x) \<in> erel s" "(x, c) \<in> erel s" for p c
    proof
      assume "p = c"
      with that have "(p, p) \<in> (erel s)\<^sup>+" by (auto intro: trancl_into_trancl)
      with ft_invD(6) [OF inv] show False by (auto simp: acyclic_def)
    qed
    then show ?thesis
      using x parentIDsOf_erel [of x] childIDsOf_erel [of x] by (auto simp: bypass_pairs_iff)
  qed
  have "ends_in ?s1 e" if "e \<in> set (fresh_edges d k ?ps)" for e
    using _ that
  proof (rule ends_in_fresh_edges)
    fix a b assume "(a, b) \<in> set ?ps"
    then have ab: "(a, x) \<in> erel s" "(x, b) \<in> erel s" by (auto simp: ps)
    have "TrimSpace a = a" "TrimSpace b = b" using ab by (auto simp: edge_rel_iff)
    with erel_nodes [OF inv ab(1)] erel_nodes [OF inv ab(2)]
    show "a \<in> node_ids ?s1 \<and> b \<in> node_ids ?s1 \<and> TrimSpace a = a \<and> TrimSpace b = b" by auto
  qed
  then have "erel (snd (addEdges ?s1 (fresh_edges d k ?ps))) = erel ?s1 \<union> ends ` set (fresh_edges d k ?ps)"
    by (intro erel_addEdges ft_inv_proper ft_inv_removeNodes inv)
  then show ?thesis unfolding ends_fresh_edges ps erel_removeNodes by auto
qed

definition delete_request :: "raw_message \<Rightarrow> graph_error + string \<times> bool" where
  \<comment> \<open>the request of \<open>delete_node\<close>: the trimmed ID and \<open>deleteChildren\<close>\<close>
  "delete_request args = bindE (unmarshal args) (\<lambda>m. bindE (req_string m ''nodeId'') (\<lambda>i.
     bindE (req_bool m ''deleteChildren'') (\<lambda>c. Inr (TrimSpace i, c))))"

lemma delete_with_Inr:
  assumes "delete_with b d s args k = Inr (res, s', k')" and "ft_inv s"
  obtains x c n where "delete_request args = Inr (x, c)" and "getNode s x = Some n"
    and "\<not> EqualFold (ntype n) ''topEvent''" and "TrimSpace x = x" and "x \<noteq> []"
    and "op_summary res = DeletedNodes b (op_changedNodes res)"
    and "DeleteNodes (op_patch res) = map node_ID (filter (\<lambda>n. nid n \<in> insert x (if c then set (collectDescendants s x) else {})) (st_nodes s))"
    and "s' = (if c then snd (removeNodes s (insert x (set (collectDescendants s x))))
      else snd (addEdges (snd (removeNodes s {x}))
        (fresh_edges d k (bypass_pairs (parentIDsOf s x) (childIDsOf s x)))))"
proof -
  from assms(1) obtain m i c n where req: "unmarshal args = Inr m" "req_string m ''nodeId'' = Inr i"
      "req_bool m ''deleteChildren'' = Inr c" and n: "getNode s i = Some n" "\<not> EqualFold (ntype n) ''topEvent''"
    and rest: "(case removeNodes s (insert (TrimSpace i) (if c then set (collectDescendants s (TrimSpace i)) else {})) of
      ((dn, de), s1) \<Rightarrow> bindE (guardE (dn = []) (forbidden ''no node deleted'')) (\<lambda>_.
       let pairs = (if \<not> c \<and> parentIDsOf s (TrimSpace i) \<noteq> [] \<and> childIDsOf s (TrimSpace i) \<noteq> []
                    then bypass_pairs (parentIDsOf s (TrimSpace i)) (childIDsOf s (TrimSpace i)) else [])
       in case addEdges s1 (fresh_edges d k pairs) of (added, s2) \<Rightarrow>
         let patch = empty_patch\<lparr>DeleteNodes := dn, DeleteEdges := de, UpsertEdges := map faultTreeEdgePatch added\<rparr>
         in Inr (mk_result (DeletedNodes b (length dn)) patch (length dn) (snd (patchChangedCounts patch)), s2,
              k + length pairs))) = Inr (res, s', k')"
    unfolding delete_with_def Let_def by (auto simp: bindE_Inr_iff)
  have "TrimSpace i \<noteq> []"
    using n(1) getNode_ex_iff [of s i] assms(2) by (auto simp: ft_invD)
  have pairs: "(if \<not> c \<and> parentIDsOf s (TrimSpace i) \<noteq> [] \<and> childIDsOf s (TrimSpace i) \<noteq> []
      then bypass_pairs (parentIDsOf s (TrimSpace i)) (childIDsOf s (TrimSpace i)) else []) =
    (if c then [] else bypass_pairs (parentIDsOf s (TrimSpace i)) (childIDsOf s (TrimSpace i)))"
    by (cases "childIDsOf s (TrimSpace i) = []") (auto simp: bypass_pairs_Nil)
  show thesis
  proof (rule that [of "TrimSpace i" c n])
    show "delete_request args = Inr (TrimSpace i, c)" using req by (simp add: delete_request_def)
    show "getNode s (TrimSpace i) = Some n" "TrimSpace (TrimSpace i) = TrimSpace i" using n by simp_all
    obtain dn de s1 where rn: "removeNodes s (insert (TrimSpace i) (if c then set (collectDescendants s (TrimSpace i)) else {})) = ((dn, de), s1)"
      by (metis prod.exhaust)
    have dn: "dn = map node_ID (filter (\<lambda>n. nid n \<in> insert (TrimSpace i) (if c then set (collectDescendants s (TrimSpace i)) else {})) (st_nodes s))"
      and s1: "s1 = snd (removeNodes s (insert (TrimSpace i) (if c then set (collectDescendants s (TrimSpace i)) else {})))"
      using rn by (simp_all add: removeNodes_def)
    from rest rn pairs show "op_summary res = DeletedNodes b (op_changedNodes res)"
      by (auto simp: Let_def split: prod.splits)
    from rest rn pairs dn show "DeleteNodes (op_patch res) = map node_ID (filter (\<lambda>n. nid n \<in> insert (TrimSpace i) (if c then set (collectDescendants s (TrimSpace i)) else {})) (st_nodes s))"
      by (auto simp: Let_def split: prod.splits)
    from rest rn pairs show "s' = (if c then snd (removeNodes s (insert (TrimSpace i) (set (collectDescendants s (TrimSpace i)))))
      else snd (addEdges (snd (removeNodes s {TrimSpace i}))
        (fresh_edges d k (bypass_pairs (parentIDsOf s (TrimSpace i)) (childIDsOf s (TrimSpace i))))))"
      by (cases c) (auto simp: Let_def s1 addEdges.simps split: prod.splits)
  qed (use n \<open>TrimSpace i \<noteq> []\<close> in simp_all)
qed

subsection \<open>Moving\<close>

definition move_request :: "raw_message \<Rightarrow> graph_error + string \<times> string" where
  \<comment> \<open>the request of \<open>move_node\<close>: the trimmed IDs of the node and of its new parent\<close>
  "move_request args = bindE (unmarshal args) (\<lambda>m. bindE (req_string m ''nodeId'') (\<lambda>i.
     bindE (req_string m ''newParentId'') (\<lambda>p. Inr (TrimSpace i, TrimSpace p))))"

lemma move_with_request:
  assumes "move_with b d s args k = Inr (res, s', k')"
  shows "\<exists>x p. move_request args = Inr (x, p) \<and> op_summary res = MovedNode b x p"
  using assms unfolding move_with_def Let_def
  by (elim bindE_InrE) (clarsimp simp: move_request_def split: prod.splits)

subsection \<open>Adding a gate\<close>

lemma erel_gate_state:
  assumes inv: "ft_inv s" and fresh: "fold_case (node_ID gate) \<notin> fold_case ` node_ids s"
    and gate: "nid gate = node_ID gate" "node_ID gate \<noteq> []"
    and p: "p \<in> node_ids s" "TrimSpace p = p" and cs: "\<And>c. c \<in> set cs \<Longrightarrow> child_ok s p c"
  shows "erel (gate_state d s gate p cs k) =
    {(a, b) \<in> erel s. \<not> (a = p \<and> b \<in> set cs)} \<union> {(p, node_ID gate)} \<union> {node_ID gate} \<times> set cs"
proof -
  let ?g = "node_ID gate"
  let ?s1 = "addNode s gate"
  let ?s2 = "?s1\<lparr>st_edges := filter (\<lambda>e. \<not> rewired p (set cs) e) (st_edges s)\<rparr>"
  let ?ps = "(p, ?g) # map (\<lambda>c. (?g, c)) cs"
  note new = fresh_node [OF inv fresh gate]
  have pc: "(p, c) \<in> erel s" if "c \<in> set cs" for c
    using child_ok_edge [OF inv p cs [OF that]] .
  have s2: "ft_inv ?s2" using ft_inv_filter_edges [OF new(1)] by simp
  have ps: "a \<in> node_ids ?s2 \<and> b \<in> node_ids ?s2 \<and> TrimSpace a = a \<and> TrimSpace b = b"
    if "(a, b) \<in> set ?ps" for a b
    using that p gate pc cs erel_nodes(2) [OF inv] by (auto simp: child_ok_def)
  have rew: "rewired p (set cs) e \<longleftrightarrow> efrom e = p \<and> eto e \<in> set cs" if "e \<in> set (st_edges s)" for e
    using case_unique_eq [OF ft_invD(2) [OF inv] ft_inv_edge(2) [OF inv that] p(1)] p(2)
    by (auto simp: rewired_def)
  have "erel ?s2 = {(a, b) \<in> erel s. \<not> (a = p \<and> b \<in> set cs)}"
  proof -
    have "filter (\<lambda>e. \<not> rewired p (set cs) e) (st_edges s) = filter (\<lambda>e. \<not> (efrom e = p \<and> eto e \<in> set cs)) (st_edges s)"
      using rew by (intro filter_cong) auto
    then show ?thesis by (auto simp: edge_rel_iff)
  qed
  moreover have "erel (snd (addEdges ?s2 (fresh_edges d k ?ps))) = erel ?s2 \<union> ends ` set (fresh_edges d k ?ps)"
    using ps by (intro erel_addEdges ft_inv_proper s2 ends_in_fresh_edges)
  ultimately show ?thesis unfolding gate_state_def ends_fresh_edges by auto
qed

lemma arity_ok_iff:
  "arity_ok b g n = Inr u \<longleftrightarrow> (if g = ''NOT'' then n = 1 else if b then 1 \<le> n else 2 \<le> n)"
  by (cases "g = ''NOT''"; cases b; cases "n = 0"; cases "n = 1") (simp_all add: arity_ok_def guardE_def)

lemma add_gate_with_Inr:
  assumes "add_gate_with b d s args k = Inr (res, s', k')"
  obtains g p cs n where "getNode s p = Some n" and "\<not> EqualFold (ntype n) ''basicEvent''" and "TrimSpace p = p"
    and "\<forall>c \<in> set cs. child_ok s p c" and "distinct cs" and "cs \<noteq> []" and "isValidGateType g"
    and "g = ''NOT'' \<longrightarrow> length cs = 1" and "g \<noteq> ''NOT'' \<longrightarrow> \<not> b \<longrightarrow> 2 \<le> length cs"
    and "s' = gate_state d s (gate_node (NewID d k ''gate'') g) p cs (Suc k)" and "k' = Suc k + Suc (length cs)"
    and "op_summary res = AddedGate b (NewID d k ''gate'') (length cs) p"
proof -
  from assms obtain rawGate rawParent req n cs where
    n: "getNode s (TrimSpace rawParent) = Some n" "\<not> EqualFold (ntype n) ''basicEvent''"
    and g: "isValidGateType (ToUpper (TrimSpace rawGate))"
    and oc: "order_children s (TrimSpace rawParent) [] req = Inr cs"
    and ar: "arity_ok b (ToUpper (TrimSpace rawGate)) (length cs) = ok"
    and r: "insert_gate b d s (ToUpper (TrimSpace rawGate)) (TrimSpace rawParent) cs k = (res, s', k')"
    unfolding add_gate_with_def Let_def by (auto simp: bindE_Inr_iff)
  note sound = order_children_sound [OF oc]
  have "op_summary res = AddedGate b (NewID d k ''gate'') (length cs) (TrimSpace rawParent)"
    using r by (auto simp: insert_gate_def Let_def split: prod.splits)
  moreover have "cs \<noteq> []" using ar by (auto simp: arity_ok_iff split: if_splits)
  ultimately show thesis
    using n g r sound ar insert_gate_state [of b d s "ToUpper (TrimSpace rawGate)" "TrimSpace rawParent" cs k]
    by (intro that [of "TrimSpace rawParent" n cs "ToUpper (TrimSpace rawGate)"])
      (auto simp: arity_ok_iff split: if_splits)
qed

subsection \<open>Adding a node\<close>

lemma erel_attach:
  assumes inv: "ft_inv s" and fresh: "fold_case (node_ID n) \<notin> fold_case ` node_ids s"
    and n: "nid n = node_ID n" "node_ID n \<noteq> []" and p: "p \<in> node_ids s" "TrimSpace p = p"
  shows "erel (snd (addEdge (addNode s n) (mk_edge i p (node_ID n)))) = insert (p, node_ID n) (erel s)"
  using p n by (subst erel_addEdge)
    (auto simp: ends_in_def intro!: ft_inv_proper fresh_node [OF inv fresh n])

lemma attach_node_state:
  "snd (attach_node b d s n p k) =
     (if p = [] then (addNode s n, k)
      else (snd (addEdge (addNode s n) (mk_edge (NewID d k ''fte'') p (node_ID n))), Suc k))"
  by (simp add: attach_node_def Let_def)

lemma applyAddNode_Inr:
  assumes "applyAddNode d s args k = Inr (res, s', k')"
  obtains t name v p where "s' = fst (snd (attach_node False d s (new_node (NewID d k ''ftn'') t name v) p (Suc k)))"
    and "t \<in> {''topEvent'', ''midEvent'', ''basicEvent''}" and "name \<noteq> []" and "length (runes name) \<le> 60"
    and "t = ''topEvent'' \<longrightarrow> st_nodes s = [] \<and> p = []"
    and "t \<noteq> ''topEvent'' \<longrightarrow> (\<exists>n. getNode s p = Some n \<and> EqualFold (ntype n) ''gate'') \<and> p \<noteq> []"
    and "TrimSpace p = p" and "k' = (if p = [] then Suc k else Suc (Suc k))"
proof -
  from assms obtain name rawType v parent p where p: "p = (case parent of None \<Rightarrow> [] | Some p \<Rightarrow> TrimSpace p)"
    and nm: "SanitizeStringParam name 60 \<noteq> []" and ty: "isValidNodeType (TrimSpace rawType)" "TrimSpace rawType \<noteq> ''gate''"
    and pl: "place_ok s (TrimSpace rawType) parent = ok" and po: "parent_ok False s p = ok"
    and r: "attach_node False d s (new_node (NewID d k ''ftn'') (TrimSpace rawType) (SanitizeStringParam name 60) v) p (Suc k) = (res, s', k')"
    unfolding applyAddNode_def Let_def by (auto simp: bindE_Inr_iff)
  have "TrimSpace p = p" using p by (cases parent) auto
  with p nm ty pl po r show thesis
    using attach_node_state [of False d s "new_node (NewID d k ''ftn'') (TrimSpace rawType) (SanitizeStringParam name 60) v" p "Suc k"]
    by (intro that [of "TrimSpace rawType" "SanitizeStringParam name 60" v p])
      (auto simp: isValidNodeType_def place_ok_def parent_ok_def bindE_Inr_iff Let_def SanitizeStringParam_bound
        split: if_splits)
qed

end
