(* ===== verification/Subtree.thy ===== *)
theory Subtree
  imports ReadTools
begin

text \<open>
  The search of \<open>get_subtree\<close> computes shortest distances: a node is reported with depth \<open>n\<close>
  exactly when \<open>n\<close> is the length of a shortest path from the root and does not exceed the limit.
  The proof does not use that the queue is first-in first-out; it keeps the invariant of every
  label-correcting search.
\<close>

definition at_most :: "(string \<Rightarrow> nat option) \<Rightarrow> string \<Rightarrow> nat \<Rightarrow> bool" where
  "at_most v x n \<longleftrightarrow> (\<exists>m. v x = Some m \<and> m \<le> n)"

lemma at_most_reached: "at_most v x n \<longleftrightarrow> reached_by v x n"
  by (auto simp: at_most_def reached_by_def split: option.split)

text \<open>One relaxation: the children are within \<open>nd\<close>; labels only improve; a label that changed is
  \<open>nd\<close>, belongs to a child and is queued.\<close>

lemma relax_spec:
  assumes "relax nd v cs = (v', q)"
  shows "(\<forall>c \<in> set cs. at_most v' c nd)
    \<and> (\<forall>x n. at_most v x n \<longrightarrow> at_most v' x n)
    \<and> (\<forall>x. v' x \<noteq> v x \<longrightarrow> v' x = Some nd \<and> x \<in> set cs \<and> (x, nd) \<in> set q)
    \<and> (\<forall>(x, n) \<in> set q. n = nd \<and> x \<in> set cs)"
  using assms
proof (induction nd v cs arbitrary: v' q rule: relax.induct)
  case (2 nd v child cs)
  show ?case
  proof (cases "reached_by v child nd")
    case True
    then have "relax nd v cs = (v', q)" using "2.prems" by simp
    from "2.IH"(1) [OF True this] True show ?thesis by (auto simp: at_most_reached)
  next
    case False
    obtain v1 q1 where r: "relax nd (v(child \<mapsto> nd)) cs = (v1, q1)" by fastforce
    with False "2.prems" have vq: "v' = v1" "q = (child, nd) # q1" by auto
    have up: "at_most v x n \<Longrightarrow> at_most (v(child \<mapsto> nd)) x n" for x n
      using False by (auto simp: at_most_def reached_by_def)
    have "at_most (v(child \<mapsto> nd)) child nd" by (simp add: at_most_def)
    note IH = "2.IH"(2) [OF False r]
    show ?thesis
      unfolding vq
    proof (intro conjI)
      show "\<forall>c \<in> set (child # cs). at_most v1 c nd"
      proof -
        have "at_most v1 child nd" using IH \<open>at_most (v(child \<mapsto> nd)) child nd\<close> by blast
        with IH show ?thesis by simp
      qed
      show "\<forall>x n. at_most v x n \<longrightarrow> at_most v1 x n" using IH up by blast
      show "\<forall>x. v1 x \<noteq> v x \<longrightarrow> v1 x = Some nd \<and> x \<in> set (child # cs) \<and> (x, nd) \<in> set ((child, nd) # q1)"
      proof (intro allI impI)
        fix x assume "v1 x \<noteq> v x"
        show "v1 x = Some nd \<and> x \<in> set (child # cs) \<and> (x, nd) \<in> set ((child, nd) # q1)"
        proof (cases "v1 x = (v(child \<mapsto> nd)) x")
          case True
          with \<open>v1 x \<noteq> v x\<close> have "x = child" by (auto split: if_splits)
          with True show ?thesis by simp
        next
          case False
          with IH show ?thesis by auto
        qed
      qed
      show "\<forall>(x, n) \<in> set ((child, nd) # q1). n = nd \<and> x \<in> set (child # cs)" using IH by auto
    qed
  qed
qed (auto simp: at_most_def)

definition path_len :: "FaultTreeEdge list \<Rightarrow> string \<Rightarrow> string \<Rightarrow> nat \<Rightarrow> bool" where
  "path_len es a b n \<longleftrightarrow> (a, b) \<in> edge_rel es ^^ n"

text \<open>The invariant: labels are lengths of paths within the limit; the queue holds lengths of paths
  no shorter than the label; a label below the limit is queued or its children are within one
  more.\<close>

definition search_inv :: "FaultTreeEdge list \<Rightarrow> string \<Rightarrow> nat \<Rightarrow> (string \<times> nat) list \<Rightarrow> (string \<Rightarrow> nat option) \<Rightarrow> bool" where
  "search_inv es r D q v \<longleftrightarrow>
     v r = Some 0
     \<and> (\<forall>x n. v x = Some n \<longrightarrow> path_len es r x n \<and> n \<le> D)
     \<and> (\<forall>(x, n) \<in> set q. path_len es r x n)
     \<and> (\<forall>x n y. v x = Some n \<longrightarrow> n < D \<longrightarrow> (x, n) \<notin> set q \<longrightarrow> (x, y) \<in> edge_rel es \<longrightarrow> at_most v y (Suc n))"

lemma search_inv_init: "search_inv es r D [(r, 0)] [r \<mapsto> 0]"
  by (auto simp: search_inv_def path_len_def split: if_splits)

lemma search_inv_skip:
  assumes "search_inv es r D ((c, d) # q) v" and "D \<le> d"
  shows "search_inv es r D q v"
  using assms by (force simp: search_inv_def)

lemma search_inv_relax:
  assumes inv: "search_inv es r D ((c, d) # q) v" and "d < D"
    and rel: "relax (Suc d) v (childrenMap es c) = (v', new)"
  shows "search_inv es r D (q @ new) v'"
proof -
  note spec = relax_spec [OF rel]
  have path: "path_len es r y (Suc d)" if "y \<in> set (childrenMap es c)" for y
    using inv that by (auto simp: search_inv_def path_len_def)
  have changed: "v' x = v x \<or> v' x = Some (Suc d) \<and> x \<in> set (childrenMap es c) \<and> (x, Suc d) \<in> set new" for x
    using spec by blast
  have "v' r = Some 0"
  proof -
    have "at_most v r 0" using inv by (simp add: search_inv_def at_most_def)
    then have "at_most v' r 0" using spec by blast
    then show ?thesis by (simp add: at_most_def)
  qed
  moreover have "path_len es r x n \<and> n \<le> D" if "v' x = Some n" for x n
    using changed [of x] that path inv \<open>d < D\<close> by (auto simp: search_inv_def)
  moreover have "\<forall>(x, n) \<in> set (q @ new). path_len es r x n"
    using inv spec path by (auto simp: search_inv_def)
  moreover have "at_most v' y (Suc n)"
    if x: "v' x = Some n" "n < D" "(x, n) \<notin> set (q @ new)" and e: "(x, y) \<in> edge_rel es" for x n y
  proof -
    from changed [of x] x have v: "v x = Some n" by auto
    show ?thesis
    proof (cases "(x, n) = (c, d)")
      case True
      with e spec show ?thesis by simp
    next
      case False
      with x v e inv have "at_most v y (Suc n)" by (auto simp: search_inv_def)
      with spec show ?thesis by blast
    qed
  qed
  ultimately show ?thesis by (auto simp: search_inv_def)
qed

lemma subtree_bfs_inv: "search_inv es r D q v \<Longrightarrow> search_inv es r D [] (subtree_bfs es D q v)"
proof (induction es D q v rule: subtree_bfs.induct)
  case (2 es D c d q v)
  show ?case
  proof (cases "D \<le> d")
    case True
    with 2 show ?thesis by (simp add: search_inv_skip)
  next
    case False
    obtain v' new where rel: "relax (Suc d) v (childrenMap es c) = (v', new)" by fastforce
    have "search_inv es r D (q @ new) v'" using "2.prems" _ rel by (rule search_inv_relax) (use False in simp)
    with "2.IH"(2) [OF False rel [symmetric]] False rel show ?thesis by simp
  qed
qed simp

lemma search_done:
  assumes "search_inv es r D [] v"
  shows "path_len es r x n \<Longrightarrow> n \<le> D \<Longrightarrow> at_most v x n"
proof (induction n arbitrary: x)
  case 0
  with assms show ?case by (auto simp: search_inv_def path_len_def at_most_def)
next
  case (Suc n)
  then obtain y where y: "path_len es r y n" "(y, x) \<in> edge_rel es" by (auto simp: path_len_def)
  then obtain m where m: "v y = Some m" "m \<le> n" using Suc by (auto simp: at_most_def)
  with assms y(2) Suc.prems(2) have "at_most v x (Suc m)" by (auto simp: search_inv_def)
  with m(2) show ?case by (auto simp: at_most_def)
qed

lemma subtree_depths_shortest:
  "subtree_depths es r D x = Some n \<longleftrightarrow>
     path_len es r x n \<and> n \<le> nat D \<and> (\<forall>m < n. \<not> path_len es r x m)"
proof -
  let ?v = "subtree_depths es r D"
  have inv: "search_inv es r (nat D) [] ?v"
    unfolding subtree_depths_def by (rule subtree_bfs_inv [OF search_inv_init])
  note complete = search_done [OF inv]
  show ?thesis
  proof
    assume v: "?v x = Some n"
    with inv have "path_len es r x n" "n \<le> nat D" by (auto simp: search_inv_def)
    moreover have "\<not> path_len es r x m" if "m < n" for m
      using complete [of x m] that v \<open>n \<le> nat D\<close> by (auto simp: at_most_def)
    ultimately show "path_len es r x n \<and> n \<le> nat D \<and> (\<forall>m < n. \<not> path_len es r x m)" by blast
  next
    assume *: "path_len es r x n \<and> n \<le> nat D \<and> (\<forall>m < n. \<not> path_len es r x m)"
    then obtain m where m: "?v x = Some m" "m \<le> n" using complete [of x n] by (auto simp: at_most_def)
    with inv have "path_len es r x m" by (auto simp: search_inv_def)
    with * m show "?v x = Some n" by (cases "m = n") auto
  qed
qed

subsection \<open>The report\<close>

lemma set_subtree_ids:
  "x \<in> set (subtree_ids es r (subtree_depths es r D)) \<longleftrightarrow> subtree_depths es r D x \<noteq> None"
proof -
  have "x \<in> insert r (eto ` set es)" if "subtree_depths es r D x = Some m" for m
  proof (cases m)
    case 0
    with that show ?thesis by (simp add: subtree_depths_shortest path_len_def)
  next
    case (Suc n)
    with that obtain y where "(y, x) \<in> edge_rel es"
      by (auto simp: subtree_depths_shortest path_len_def)
    then show ?thesis by (auto simp: edge_rel_iff)
  qed
  then show ?thesis by (auto simp: subtree_ids_def)
qed

lemma subtree_ids_trimmed:
  "TrimSpace r = r \<Longrightarrow> x \<in> set (subtree_ids es r v) \<Longrightarrow> TrimSpace x = x"
  by (auto simp: subtree_ids_def split: if_splits)

definition report_nodes :: "faultTreeState \<Rightarrow> string \<Rightarrow> int \<Rightarrow> (FaultTreeNode \<times> nat) list" where
  "report_nodes s r D = List.map_filter (\<lambda>i. map_option (\<lambda>n. (n, the (subtree_depths (st_edges s) r D i))) (getNode s i))
     (subtree_ids (st_edges s) r (subtree_depths (st_edges s) r D))"

definition report_edges :: "faultTreeState \<Rightarrow> string \<Rightarrow> int \<Rightarrow> FaultTreeEdge list" where
  "report_edges s r D = (let ids = subtree_ids (st_edges s) r (subtree_depths (st_edges s) r D)
     in filter (\<lambda>e. efrom e \<in> set ids \<and> eto e \<in> set ids) (st_edges s))"

lemma applyGetSubtree_report:
  "applyGetSubtree s args k =
     bindE (unmarshal args) (\<lambda>m.
     bindE (req_string m ''rootNodeId'') (\<lambda>rawID.
     bindE (req_int m ''maxDepth'') (\<lambda>rawDepth.
     bindE (lookup s (TrimSpace rawID) (TrimSpace rawID)) (\<lambda>_.
       let D = (if rawDepth \<le> 0 then 3 else rawDepth); r = TrimSpace rawID
       in Inr (read_result (SubtreePayload r D (report_nodes s r D) (report_edges s r D)) s k)))))"
  by (simp add: applyGetSubtree_def report_nodes_def report_edges_def Let_def)

lemma applyGetSubtree_Inr:
  assumes "applyGetSubtree s args k = Inr (res, s', k')"
  obtains rawID D where "0 < D" and "s' = s"
    and "op_summary res = ReadResult (SubtreePayload (TrimSpace rawID) D
      (report_nodes s (TrimSpace rawID) D) (report_edges s (TrimSpace rawID) D))"
proof -
  from assms obtain m rawID rawDepth n where "unmarshal args = Inr m" "req_string m ''rootNodeId'' = Inr rawID"
    "req_int m ''maxDepth'' = Inr rawDepth" "getNode s rawID = Some n"
    and r: "read_result (SubtreePayload (TrimSpace rawID) (if rawDepth \<le> 0 then 3 else rawDepth)
      (report_nodes s (TrimSpace rawID) (if rawDepth \<le> 0 then 3 else rawDepth))
      (report_edges s (TrimSpace rawID) (if rawDepth \<le> 0 then 3 else rawDepth))) s k = (res, s', k')"
    unfolding applyGetSubtree_report Let_def by (auto simp only: bindE_Inr_iff lookup_Inr getNode_trim sum.inject)
  then show thesis
    by (intro that [of "if rawDepth \<le> 0 then 3 else rawDepth" rawID]) (auto simp: read_result_def)
qed

text \<open>A listed pair is a stored node at its shortest distance; every node near enough is listed.\<close>

lemma report_nodes_iff:
  assumes "index_ok s" and "TrimSpace r = r"
  shows "(\<exists>n. (n, d) \<in> set (report_nodes s r D) \<and> nid n = x) \<longleftrightarrow>
    x \<in> node_ids s \<and> subtree_depths (st_edges s) r D x = Some d"
proof -
  let ?ids = "subtree_ids (st_edges s) r (subtree_depths (st_edges s) r D)"
  have t: "TrimSpace x = x" if "x \<in> node_ids s \<or> subtree_depths (st_edges s) r D x \<noteq> None"
    using that subtree_ids_trimmed [OF assms(2), of x "st_edges s"] set_subtree_ids [of x "st_edges s" r D]
    by (auto simp: node_ids_def)
  have "(n, d) \<in> set (report_nodes s r D) \<and> nid n = x \<longleftrightarrow>
      x \<in> set ?ids \<and> getNode s x = Some n \<and> the (subtree_depths (st_edges s) r D x) = d" for n
    using subtree_ids_trimmed [OF assms(2), of _ "st_edges s"] getNode_Some [OF assms(1)]
    by (force simp: report_nodes_def map_filter_def)
  then show ?thesis
    using getNode_ex_iff [OF assms(1), of x] t by (auto simp: set_subtree_ids)
qed

lemma report_edges_iff:
  "e \<in> set (report_edges s r D) \<longleftrightarrow> e \<in> set (st_edges s)
     \<and> subtree_depths (st_edges s) r D (efrom e) \<noteq> None \<and> subtree_depths (st_edges s) r D (eto e) \<noteq> None"
  by (auto simp: report_edges_def Let_def set_subtree_ids)

definition in_reach :: "FaultTreeEdge list \<Rightarrow> string \<Rightarrow> int \<Rightarrow> string \<Rightarrow> nat \<Rightarrow> bool" where
  \<comment> \<open>\<open>x\<close> is at distance \<open>n\<close> of \<open>r\<close>, not more than \<open>D\<close>\<close>
  "in_reach es r D x n \<longleftrightarrow> path_len es r x n \<and> int n \<le> D \<and> (\<forall>m < n. \<not> path_len es r x m)"

lemma subtree_depths_reach: "0 < D \<Longrightarrow> subtree_depths es r D x = Some n \<longleftrightarrow> in_reach es r D x n"
  by (auto simp: subtree_depths_shortest in_reach_def)

end
