(* ===== verification/Session.thy ===== *)
theory Session
  imports GoJson
begin

text \<open>
  The in-memory sessions of a streaming run (\<open>internal/agent/session.go\<close>) and the wait for a
  confirmation (\<open>waitForConfirmation\<close> in \<open>internal/agent/engine.go\<close>). The confirmation
  channel is a queue of at most eight signals; closing the cancel channel is a flag. Where a
  \<open>select\<close> has two ready cases Go picks one at random: the choice is an argument. Times are
  nanoseconds.
\<close>

definition StateRunning :: string where "StateRunning = ''running''"
definition StatePausedForConfirm :: string where "StatePausedForConfirm = ''paused_confirm''"
definition StatePausedForPreview :: string where "StatePausedForPreview = ''paused_preview''"
definition StateDone :: string where "StateDone = ''done''"
definition StateCancelled :: string where "StateCancelled = ''cancelled''"

lemmas state_defs = StateRunning_def StatePausedForConfirm_def StatePausedForPreview_def
  StateDone_def StateCancelled_def

datatype session_error = ErrSessionNotFound | ErrSessionClosed | ErrSessionNotWaiting
  | ErrSessionAlreadyExists | ErrSessionConfirmTimeout | ErrContextDone

record ConfirmSignal =
  cs_CallID :: string
  cs_Approved :: bool
  cs_ApprovedOps :: "string list"
  cs_ContinueRounds :: int

record AgentSession =
  se_ID :: string
  se_ConversationID :: string
  se_ProjectID :: string
  se_UserID :: string
  se_GraphType :: string
  se_PendingCallID :: string
  se_PendingTool :: string
  se_PendingArgs :: raw_message
  se_confirmCh :: "ConfirmSignal list"
  se_cancelClosed :: bool
  se_createdAt :: int
  se_expiresAt :: int
  se_state :: string
  se_recentReadContext :: bool
  se_toolCallCount :: nat
  se_serverOps :: nat
  se_clientOps :: nat
  se_hybridOps :: nat
  se_tokensUsed :: int

definition confirm_capacity :: nat where "confirm_capacity = 8"

definition default_ttl :: int where "default_ttl = 30 * 60 * 1000000000"

definition NewAgentSession :: "string \<Rightarrow> string \<Rightarrow> string \<Rightarrow> string \<Rightarrow> string \<Rightarrow> int \<Rightarrow> int \<Rightarrow> AgentSession" where
  "NewAgentSession i conversationID projectID userID graphType ttl now =
     (let t = (if ttl \<le> 0 then default_ttl else ttl) in
      \<lparr> se_ID = TrimSpace i, se_ConversationID = TrimSpace conversationID,
        se_ProjectID = TrimSpace projectID, se_UserID = TrimSpace userID,
        se_GraphType = TrimSpace graphType, se_PendingCallID = '''', se_PendingTool = '''',
        se_PendingArgs = RawEmpty, se_confirmCh = [], se_cancelClosed = False, se_createdAt = now,
        se_expiresAt = now + t, se_state = StateRunning, se_recentReadContext = False,
        se_toolCallCount = 0, se_serverOps = 0, se_clientOps = 0, se_hybridOps = 0, se_tokensUsed = 0 \<rparr>)"

subsection \<open>Updates of one session\<close>

definition SetState :: "string \<Rightarrow> AgentSession \<Rightarrow> AgentSession" where
  "SetState st s = s\<lparr>se_state := TrimSpace st\<rparr>"

definition SetPending :: "string \<Rightarrow> string \<Rightarrow> raw_message \<Rightarrow> AgentSession \<Rightarrow> AgentSession" where
  "SetPending callID toolName args s =
     s\<lparr>se_PendingCallID := TrimSpace callID, se_PendingTool := TrimSpace toolName, se_PendingArgs := args\<rparr>"

definition ClearPending :: "AgentSession \<Rightarrow> AgentSession" where
  "ClearPending s = s\<lparr>se_PendingCallID := '''', se_PendingTool := '''', se_PendingArgs := RawEmpty\<rparr>"

definition IncToolCallCount :: "AgentSession \<Rightarrow> AgentSession" where
  "IncToolCallCount s = s\<lparr>se_toolCallCount := se_toolCallCount s + 1\<rparr>"

definition IncTierOps :: "string \<Rightarrow> AgentSession \<Rightarrow> AgentSession" where
  "IncTierOps tier s =
     (let t = ToLower (TrimSpace tier) in
      if t = ''server'' then s\<lparr>se_serverOps := se_serverOps s + 1\<rparr>
      else if t = ''client'' then s\<lparr>se_clientOps := se_clientOps s + 1\<rparr>
      else if t = ''hybrid'' then s\<lparr>se_hybridOps := se_hybridOps s + 1\<rparr>
      else s)"

definition AddTokens :: "int \<Rightarrow> AgentSession \<Rightarrow> AgentSession" where
  "AddTokens tokens s = (if tokens \<le> 0 then s else s\<lparr>se_tokensUsed := se_tokensUsed s + tokens\<rparr>)"

definition SetRecentReadContext :: "bool \<Rightarrow> AgentSession \<Rightarrow> AgentSession" where
  "SetRecentReadContext v s = s\<lparr>se_recentReadContext := v\<rparr>"

definition MarkCancelled :: "AgentSession \<Rightarrow> AgentSession" where
  "MarkCancelled s = s\<lparr>se_state := StateCancelled, se_cancelClosed := True\<rparr>"

definition IsExpired :: "int \<Rightarrow> AgentSession \<Rightarrow> bool" where
  "IsExpired now s \<longleftrightarrow> now > se_expiresAt s"

subsection \<open>Summaries\<close>

definition summarizePendingArgs :: "raw_message \<Rightarrow> string" where
  "summarizePendingArgs raw = (case raw of
     RawEmpty \<Rightarrow> '''' | RawBlank \<Rightarrow> ''''
   | RawBad t \<Rightarrow> if length (TrimSpace t) > 120
       then ''invalid_json(len='' @ show_nat (length (TrimSpace t)) @ '')'' else ''invalid_json''
   | RawJson (JObj m) \<Rightarrow>
       (let keys = filter (\<lambda>k. k \<noteq> '''') (map TrimSpace (remdups (map fst m))) in
        if keys = [] then ''json_object(keys=0)''
        else ''json_object(keys='' @ Join (take 6 (sort keys)) '','' @ '')'')
   | RawJson (JArr vs) \<Rightarrow> ''json_array(size='' @ show_nat (length vs) @ '')''
   | RawJson _ \<Rightarrow> ''json_scalar'')"

subsection \<open>The manager\<close>

type_synonym sessions = "string \<Rightarrow> AgentSession option"

definition Create :: "AgentSession option \<Rightarrow> sessions \<Rightarrow> (session_error + unit) \<times> sessions" where
  "Create session m = (case session of
     None \<Rightarrow> (Inl ErrSessionNotFound, m)
   | Some s \<Rightarrow>
       if TrimSpace (se_ID s) = '''' then (Inl ErrSessionNotFound, m)
       else if m (se_ID s) \<noteq> None then (Inl ErrSessionAlreadyExists, m)
       else (Inr (), m(se_ID s \<mapsto> s)))"

definition Get :: "string \<Rightarrow> sessions \<Rightarrow> AgentSession option" where
  "Get sessionID m = m (TrimSpace sessionID)"

definition paused :: "AgentSession \<Rightarrow> bool" where
  "paused s \<longleftrightarrow> se_state s = StatePausedForConfirm \<or> se_state s = StatePausedForPreview"

definition confirm_session :: "bool \<Rightarrow> ConfirmSignal \<Rightarrow> AgentSession \<Rightarrow> (session_error + unit) \<times> AgentSession" where
  "confirm_session pickCancel signal s =
     (if se_state s = StateCancelled \<or> se_state s = StateDone then (Inl ErrSessionClosed, s)
      else if \<not> paused s then (Inl ErrSessionNotWaiting, s)
      else let pending = TrimSpace (se_PendingCallID s);
               sig = (if pending \<noteq> '''' \<and> TrimSpace (cs_CallID signal) = ''''
                      then signal\<lparr>cs_CallID := pending\<rparr> else signal);
               room = length (se_confirmCh s) < confirm_capacity
           in if pending \<noteq> '''' \<and> TrimSpace (cs_CallID signal) \<noteq> '''' \<and> TrimSpace (cs_CallID signal) \<noteq> pending
              then (Inl ErrSessionNotWaiting, s)
              else if se_cancelClosed s \<and> (pickCancel \<or> \<not> room) then (Inl ErrSessionClosed, s)
              else if room then (Inr (), s\<lparr>se_confirmCh := se_confirmCh s @ [sig]\<rparr>)
              else (Inl ErrSessionNotWaiting, s))"

definition Confirm :: "bool \<Rightarrow> string \<Rightarrow> ConfirmSignal \<Rightarrow> sessions \<Rightarrow> (session_error + unit) \<times> sessions" where
  "Confirm pickCancel sessionID signal m = (case Get sessionID m of
     None \<Rightarrow> (Inl ErrSessionNotFound, m)
   | Some s \<Rightarrow> (case confirm_session pickCancel signal s of
       (r, s') \<Rightarrow> (r, m(TrimSpace sessionID \<mapsto> s'))))"

definition Cancel :: "string \<Rightarrow> sessions \<Rightarrow> (session_error + unit) \<times> sessions" where
  "Cancel sessionID m = (case Get sessionID m of
     None \<Rightarrow> (Inl ErrSessionNotFound, m)
   | Some s \<Rightarrow> (Inr (), m(TrimSpace sessionID \<mapsto> MarkCancelled s)))"

definition Remove :: "string \<Rightarrow> sessions \<Rightarrow> sessions" where
  "Remove sessionID m = m(TrimSpace sessionID := None)"

definition cleanup :: "int \<Rightarrow> sessions \<Rightarrow> sessions" where
  \<comment> \<open>one tick of \<open>StartCleanup\<close>\<close>
  "cleanup now m = (\<lambda>i. case m i of None \<Rightarrow> None | Some s \<Rightarrow> if IsExpired now s then None else Some s)"

subsection \<open>Waiting for a confirmation\<close>

text \<open>What the wait sees, in the order its \<open>select\<close> picks them.\<close>

datatype wait_event = CtxDone | CancelClosed | TimedOut | Got ConfirmSignal

fun wait_loop :: "string \<Rightarrow> wait_event list \<Rightarrow> (session_error + ConfirmSignal) option" where
  \<comment> \<open>\<open>None\<close>: still waiting after these events\<close>
  "wait_loop pending [] = None"
| "wait_loop pending (CtxDone # es) = Some (Inl ErrContextDone)"
| "wait_loop pending (CancelClosed # es) = Some (Inl ErrSessionClosed)"
| "wait_loop pending (TimedOut # es) = Some (Inl ErrSessionConfirmTimeout)"
| "wait_loop pending (Got sg # es) =
     (if pending = '''' then
        (if TrimSpace (cs_CallID sg) = '''' then Some (Inr sg) else wait_loop pending es)
      else if TrimSpace (cs_CallID sg) = pending then Some (Inr sg)
      else wait_loop pending es)"

definition waitForConfirmation :: "AgentSession \<Rightarrow> wait_event list \<Rightarrow> (session_error + ConfirmSignal) option" where
  "waitForConfirmation s events = wait_loop (se_PendingCallID s) events"

subsection \<open>Sessions stay well formed\<close>

definition session_ok :: "AgentSession \<Rightarrow> bool" where
  "session_ok s \<longleftrightarrow> length (se_confirmCh s) \<le> confirm_capacity \<and> se_createdAt s < se_expiresAt s
     \<and> TrimSpace (se_PendingCallID s) = se_PendingCallID s"

lemma session_ok_updates:
  "session_ok (NewAgentSession i c p u g ttl now)"
  "session_ok s \<Longrightarrow> session_ok (SetState st s)"
  "session_ok s \<Longrightarrow> session_ok (SetPending ci t a s)"
  "session_ok s \<Longrightarrow> session_ok (ClearPending s)"
  "session_ok s \<Longrightarrow> session_ok (IncToolCallCount s)"
  "session_ok s \<Longrightarrow> session_ok (IncTierOps tier s)"
  "session_ok s \<Longrightarrow> session_ok (AddTokens n s)"
  "session_ok s \<Longrightarrow> session_ok (SetRecentReadContext b s)"
  "session_ok s \<Longrightarrow> session_ok (MarkCancelled s)"
  "session_ok s \<Longrightarrow> session_ok (snd (confirm_session pick sg s))"
  by (simp_all add: session_ok_def NewAgentSession_def Let_def default_ttl_def SetState_def SetPending_def
      ClearPending_def IncToolCallCount_def IncTierOps_def AddTokens_def SetRecentReadContext_def
      MarkCancelled_def confirm_session_def confirm_capacity_def)

lemma confirm_accepted:
  assumes "confirm_session pick sg s = (Inr (), s')"
  shows "paused s \<and> (\<exists>sig. se_confirmCh s' = se_confirmCh s @ [sig] \<and> cs_Approved sig = cs_Approved sg
    \<and> (TrimSpace (se_PendingCallID s) \<noteq> [] \<longrightarrow> TrimSpace (cs_CallID sig) = TrimSpace (se_PendingCallID s)))
    \<and> length (se_confirmCh s') \<le> confirm_capacity"
  using assms
  by (cases sg) (auto simp: confirm_session_def Let_def split: if_splits)

lemma wait_loop_answer:
  assumes "wait_loop pending es = Some (Inr sg)"
  shows "Got sg \<in> set es \<and> TrimSpace (cs_CallID sg) = pending"
  using assms by (induction pending es rule: wait_loop.induct) (auto split: if_splits)

subsection \<open>The status of a call\<close>

definition normalizeToolFinalStatus :: "string \<Rightarrow> string" where
  "normalizeToolFinalStatus status =
     (if TrimSpace status \<in> {''failed'', ''cancelled'', ''discarded'', ''client_only'', ''success'', ''pending'', ''warning''}
      then TrimSpace status else ''success'')"

end
