(* ===== verification/Safety.thy ===== *)
theory Safety
  imports Session
begin

text \<open>
  The runtime limits of an agent session (\<open>internal/agent/safety.go\<close>): rounds, tool calls, calls
  per kind and round, repeated calls and mutated nodes. The maps of the controller are functions with
  Go's zero value as default. Warnings carry their code; the message text is not modelled.
\<close>

record AgentConfig =
  MaxRounds :: int
  MaxToolCalls :: int
  MaxNodesPerSession :: int
  ToolCallRateLimit :: int
  EnableLoopSoftWarning :: bool

record ToolCall =
  call_ID :: string
  call_Name :: string
  call_Arguments :: raw_message

record callFingerprint =
  fp_ToolName :: string
  fp_ArgsHash :: string
  fp_NodeID :: string
  fp_GateType :: string

datatype safety_error = ErrAgentMaxRoundsExceeded | ErrAgentMaxToolCalls | ErrAgentRateLimited
  | ErrAgentLoopDetected | ErrAgentNodeLimitExceeded | ErrAgentSessionInactive

datatype warning = LoopWarning | ReadStreakWarning

definition safetyHistoryWindow :: nat where "safetyHistoryWindow = 16"
definition maxLoopSoftWarningsPerKey :: nat where "maxLoopSoftWarningsPerKey = 2"
definition readValidateStreakThreshold :: nat where "readValidateStreakThreshold = 4"

record SafetyController =
  sc_currentRound :: "string \<Rightarrow> int"
  sc_roundCalls :: "string \<Rightarrow> string \<Rightarrow> nat"
  sc_historyCalls :: "string \<Rightarrow> callFingerprint list"
  sc_nodeMutations :: "string \<Rightarrow> int"
  sc_loopWarnings :: "string \<Rightarrow> string \<Rightarrow> nat"

definition NewSafetyController :: SafetyController where
  "NewSafetyController = \<lparr> sc_currentRound = (\<lambda>_. 0), sc_roundCalls = (\<lambda>_ _. 0),
     sc_historyCalls = (\<lambda>_. []), sc_nodeMutations = (\<lambda>_. 0), sc_loopWarnings = (\<lambda>_ _. 0) \<rparr>"

subsection \<open>Rounds\<close>

definition BeginRound :: "string \<Rightarrow> int \<Rightarrow> SafetyController \<Rightarrow> SafetyController" where
  "BeginRound rawID round c =
     (let i = TrimSpace rawID in
      if i = '''' \<or> sc_currentRound c i = round then c
      else c\<lparr>sc_currentRound := (sc_currentRound c)(i := round),
             sc_roundCalls := (sc_roundCalls c)(i := (\<lambda>_. 0))\<rparr>)"

definition CheckRoundWithLimit :: "int \<Rightarrow> int \<Rightarrow> safety_error + unit" where
  "CheckRoundWithLimit round roundLimit =
     guardE (roundLimit > 0 \<and> round \<ge> roundLimit) ErrAgentMaxRoundsExceeded"

definition CheckRound :: "AgentConfig \<Rightarrow> int \<Rightarrow> safety_error + unit" where
  "CheckRound cfg round = CheckRoundWithLimit round (MaxRounds cfg)"

subsection \<open>Fingerprints\<close>

definition classifyToolKind :: "string \<Rightarrow> string" where
  "classifyToolKind toolName =
     (let name = ToLower (TrimSpace toolName) in
      if name \<in> {''get_graph_snapshot'', ''get_node_detail'', ''get_subtree''} then ''read''
      else if name \<in> {''check_gate_semantics'', ''validate_fta_constraints''} then ''validate''
      else if name \<in> {''update_node'', ''update_gate'', ''add_node'', ''add_gate'', ''delete_node'',
                     ''move_node'', ''batch_operations''} then ''mutation''
      else ''other'')"

definition isReadOrValidateKind :: "string \<Rightarrow> bool" where
  "isReadOrValidateKind kind \<longleftrightarrow> kind = ''read'' \<or> kind = ''validate''"

definition normalizeArgsHash :: "raw_message \<Rightarrow> string" where
  "normalizeArgsHash raw = (case raw of
     RawEmpty \<Rightarrow> ''{}'' | RawBlank \<Rightarrow> ''{}'' | RawBad t \<Rightarrow> TrimSpace t | RawJson v \<Rightarrow> Marshal v)"

definition gate_args :: "raw_message \<Rightarrow> (string \<times> string) option" where
  "gate_args raw = (case struct_members raw of None \<Rightarrow> None
     | Some m \<Rightarrow> (case dec_string '''' (field_vals ''nodeId'' m) of None \<Rightarrow> None
         | Some n \<Rightarrow> map_option (Pair n) (dec_string '''' (field_vals ''gateType'' m))))"

definition callFingerprintFromToolCall :: "ToolCall \<Rightarrow> callFingerprint" where
  "callFingerprintFromToolCall call =
     (let base = \<lparr> fp_ToolName = TrimSpace (call_Name call),
                   fp_ArgsHash = normalizeArgsHash (call_Arguments call),
                   fp_NodeID = '''', fp_GateType = '''' \<rparr> in
      if EqualFold (TrimSpace (call_Name call)) ''update_gate'' then
        (case gate_args (call_Arguments call) of
           None \<Rightarrow> base
         | Some (n, g) \<Rightarrow> base\<lparr>fp_NodeID := TrimSpace n, fp_GateType := ToUpper (TrimSpace g)\<rparr>)
      else base)"

definition named_fingerprint :: "ToolCall \<Rightarrow> callFingerprint" where
  "named_fingerprint call =
     (let fp = callFingerprintFromToolCall call in
      if fp_ToolName fp = '''' then fp\<lparr>fp_ToolName := ''unknown''\<rparr> else fp)"

definition callFingerprintKey :: "callFingerprint \<Rightarrow> string" where
  "callFingerprintKey fp = Join [TrimSpace (fp_ToolName fp), TrimSpace (fp_ArgsHash fp),
     TrimSpace (fp_NodeID fp), TrimSpace (fp_GateType fp)] ''#''"

definition loopWarningKeyForFingerprint :: "callFingerprint \<Rightarrow> string" where
  "loopWarningKeyForFingerprint fp = ''fp:'' @ callFingerprintKey fp"

definition loopWarningKeyForPattern ::
    "string \<Rightarrow> callFingerprint \<Rightarrow> callFingerprint \<Rightarrow> callFingerprint \<Rightarrow> callFingerprint \<Rightarrow> string" where
  "loopWarningKeyForPattern kind a b c d =
     TrimSpace kind @ '':'' @ callFingerprintKey a @ ''|'' @ callFingerprintKey b @ ''|''
       @ callFingerprintKey c @ ''|'' @ callFingerprintKey d"

subsection \<open>Loops\<close>

definition isGenericABABLoop :: "callFingerprint \<Rightarrow> callFingerprint \<Rightarrow> callFingerprint \<Rightarrow> callFingerprint \<Rightarrow> bool" where
  "isGenericABABLoop a b c d \<longleftrightarrow> a = c \<and> b = d \<and>
     \<not> (isReadOrValidateKind (classifyToolKind (fp_ToolName a))
        \<and> isReadOrValidateKind (classifyToolKind (fp_ToolName b)))"

definition isReadValidateAlternatingLoop ::
    "callFingerprint \<Rightarrow> callFingerprint \<Rightarrow> callFingerprint \<Rightarrow> callFingerprint \<Rightarrow> bool" where
  "isReadValidateAlternatingLoop a b c d \<longleftrightarrow> a = c \<and> b = d \<and>
     map (\<lambda>x. classifyToolKind (fp_ToolName x)) [a, b, c, d]
       \<in> {[''read'', ''validate'', ''read'', ''validate''], [''validate'', ''read'', ''validate'', ''read'']}"

definition isGateTypeToggleLoop ::
    "callFingerprint \<Rightarrow> callFingerprint \<Rightarrow> callFingerprint \<Rightarrow> callFingerprint \<Rightarrow> bool" where
  "isGateTypeToggleLoop a b c d \<longleftrightarrow>
     list_all (\<lambda>x. EqualFold (fp_ToolName x) ''update_gate'' \<and> fp_NodeID x = fp_NodeID a
        \<and> fp_GateType x \<noteq> '''') [a, b, c, d]
     \<and> fp_NodeID a \<noteq> '''' \<and> fp_GateType a = fp_GateType c \<and> fp_GateType b = fp_GateType d
     \<and> fp_GateType a \<noteq> fp_GateType b"

definition consumeLoopWarningToken :: "string \<Rightarrow> string \<Rightarrow> SafetyController \<Rightarrow> bool \<times> SafetyController" where
  "consumeLoopWarningToken rawID rawKey c =
     (let i = TrimSpace rawID; key = TrimSpace rawKey in
      if i = '''' \<or> key = '''' then (False, c)
      else let used = sc_loopWarnings c i key in
        (used < maxLoopSoftWarningsPerKey,
         c\<lparr>sc_loopWarnings := (sc_loopWarnings c)(i := (sc_loopWarnings c i)(key := used + 1))\<rparr>))"

definition last_n :: "nat \<Rightarrow> 'a list \<Rightarrow> 'a list" where
  "last_n n xs = drop (length xs - n) xs"

definition buildEarlyDuplicateWarning :: "string \<Rightarrow> callFingerprint list \<Rightarrow> SafetyController \<Rightarrow> bool \<times> SafetyController" where
  \<comment> \<open>whether there is a warning\<close>
  "buildEarlyDuplicateWarning i history c =
     (case last_n 2 history of
        [prev, cur] \<Rightarrow> if cur \<noteq> prev then (False, c)
          else consumeLoopWarningToken i (loopWarningKeyForFingerprint cur) c
      | _ \<Rightarrow> (False, c))"

definition buildReadValidateStreakWarning :: "string \<Rightarrow> callFingerprint list \<Rightarrow> SafetyController \<Rightarrow> bool \<times> SafetyController" where
  "buildReadValidateStreakWarning i history c =
     (if length history < readValidateStreakThreshold then (False, c)
      else let recent = last_n readValidateStreakThreshold history in
        if \<not> list_all (\<lambda>fp. isReadOrValidateKind (classifyToolKind (fp_ToolName fp))) recent then (False, c)
        else if card (set (map callFingerprintKey recent)) < 2 then (False, c)
        else consumeLoopWarningToken i (''read_streak:'' @
          Join (map (\<lambda>fp. classifyToolKind (fp_ToolName fp) @ '':'' @ callFingerprintKey fp) recent) ''|'') c)"

definition soft_or_loop ::
    "AgentConfig \<Rightarrow> string \<Rightarrow> string \<Rightarrow> SafetyController \<Rightarrow> (safety_error + warning option) \<times> SafetyController" where
  \<comment> \<open>a detected loop: a warning while tokens last, then the error\<close>
  "soft_or_loop cfg i key c =
     (if EnableLoopSoftWarning cfg then
        (case consumeLoopWarningToken i key c of
           (True, c') \<Rightarrow> (Inr (Some LoopWarning), c')
         | (False, c') \<Rightarrow> (Inl ErrAgentLoopDetected, c'))
      else (Inl ErrAgentLoopDetected, c))"

definition loop_check ::
    "AgentConfig \<Rightarrow> string \<Rightarrow> callFingerprint list \<Rightarrow> SafetyController
      \<Rightarrow> ((safety_error + warning option) \<times> SafetyController) option" where
  \<comment> \<open>\<open>None\<close>: no loop\<close>
  "loop_check cfg i history c =
     (case last_n 3 history of
        [d, b, a] \<Rightarrow>
          if a = b \<and> b = d then Some (soft_or_loop cfg i (loopWarningKeyForFingerprint a) c)
          else (case last_n 4 history of
            [d, c2, b, a] \<Rightarrow>
              if isGenericABABLoop d c2 b a
                then Some (soft_or_loop cfg i (loopWarningKeyForPattern ''abab'' d c2 b a) c)
              else if isReadValidateAlternatingLoop d c2 b a
                then Some (soft_or_loop cfg i (loopWarningKeyForPattern ''read_validate'' d c2 b a) c)
              else if isGateTypeToggleLoop d c2 b a
                then Some (soft_or_loop cfg i (loopWarningKeyForPattern ''gate_toggle'' d c2 b a) c)
              else None
          | _ \<Rightarrow> None)
      | _ \<Rightarrow> None)"

subsection \<open>Checking a call\<close>

definition mutation_check :: "AgentConfig \<Rightarrow> string \<Rightarrow> int \<Rightarrow> SafetyController
    \<Rightarrow> (safety_error + unit) \<times> SafetyController" where
  "mutation_check cfg i n c =
     (if n > 0 \<and> MaxNodesPerSession cfg > 0 then
        (if sc_nodeMutations c i + n > MaxNodesPerSession cfg then (Inl ErrAgentNodeLimitExceeded, c)
         else (Inr (), c\<lparr>sc_nodeMutations := (sc_nodeMutations c)(i := sc_nodeMutations c i + n)\<rparr>))
      else (Inr (), c))"

definition push_history :: "string \<Rightarrow> callFingerprint \<Rightarrow> SafetyController \<Rightarrow> SafetyController" where
  "push_history i fp c =
     c\<lparr>sc_historyCalls := (sc_historyCalls c)(i := last_n safetyHistoryWindow (sc_historyCalls c i @ [fp]))\<rparr>"

definition check_history ::
    "AgentConfig \<Rightarrow> string \<Rightarrow> int \<Rightarrow> SafetyController \<Rightarrow> (safety_error + warning option) \<times> SafetyController" where
  \<comment> \<open>what follows the recording of the call\<close>
  "check_history cfg i n c =
     (let history = sc_historyCalls c i in
      case (if EnableLoopSoftWarning cfg then buildEarlyDuplicateWarning i history c else (False, c)) of
        (True, c1) \<Rightarrow> (Inr (Some LoopWarning), c1)
      | (False, c1) \<Rightarrow>
          (case (if EnableLoopSoftWarning cfg then buildReadValidateStreakWarning i history c1 else (False, c1)) of
             (True, c2) \<Rightarrow> (Inr (Some ReadStreakWarning), c2)
           | (False, c2) \<Rightarrow>
               (case loop_check cfg i history c2 of
                  Some r \<Rightarrow> r
                | None \<Rightarrow> (case mutation_check cfg i n c2 of
                    (Inl e, c3) \<Rightarrow> (Inl e, c3)
                  | (Inr _, c3) \<Rightarrow> (Inr None, c3)))))"

definition rate_check :: "AgentConfig \<Rightarrow> string \<Rightarrow> string \<Rightarrow> SafetyController \<Rightarrow> (safety_error + unit) \<times> SafetyController" where
  "rate_check cfg i kind c =
     (if ToolCallRateLimit cfg > 0 then
        (if int (sc_roundCalls c i kind) \<ge> ToolCallRateLimit cfg then (Inl ErrAgentRateLimited, c)
         else (Inr (), c\<lparr>sc_roundCalls := (sc_roundCalls c)(i := (sc_roundCalls c i)(kind := sc_roundCalls c i kind + 1))\<rparr>))
      else (Inr (), c))"

definition CheckToolCallWithWarning ::
    "AgentConfig \<Rightarrow> AgentSession option \<Rightarrow> ToolCall \<Rightarrow> int \<Rightarrow> SafetyController
      \<Rightarrow> (safety_error + warning option) \<times> SafetyController" where
  "CheckToolCallWithWarning cfg session call n c =
     (case session of
        None \<Rightarrow> (Inl ErrAgentSessionInactive, c)
      | Some s \<Rightarrow>
          if se_state s = StateCancelled \<or> se_state s = StateDone then (Inl ErrAgentSessionInactive, c)
          else if MaxToolCalls cfg > 0 \<and> int (se_toolCallCount s) \<ge> MaxToolCalls cfg
            then (Inl ErrAgentMaxToolCalls, c)
          else let i = TrimSpace (se_ID s) in
            if i = '''' then (Inl ErrAgentSessionInactive, c)
            else (case rate_check cfg i (classifyToolKind (call_Name call)) c of
              (Inl e, c1) \<Rightarrow> (Inl e, c1)
            | (Inr _, c1) \<Rightarrow> check_history cfg i n (push_history i (named_fingerprint call) c1)))"

definition CheckToolCall ::
    "AgentConfig \<Rightarrow> AgentSession option \<Rightarrow> ToolCall \<Rightarrow> int \<Rightarrow> SafetyController \<Rightarrow> (safety_error + unit) \<times> SafetyController" where
  "CheckToolCall cfg session call n c =
     (case CheckToolCallWithWarning cfg session call n c of
        (Inl e, c') \<Rightarrow> (Inl e, c') | (Inr _, c') \<Rightarrow> (Inr (), c'))"

definition RecordMutation :: "AgentConfig \<Rightarrow> string \<Rightarrow> int \<Rightarrow> SafetyController \<Rightarrow> (safety_error + unit) \<times> SafetyController" where
  "RecordMutation cfg rawID changedNodes c =
     (if changedNodes \<le> 0 \<or> MaxNodesPerSession cfg \<le> 0 then (Inr (), c)
      else let i = TrimSpace rawID in
        if i = '''' then (Inl ErrAgentSessionInactive, c)
        else mutation_check cfg i changedNodes c)"

definition ClearSession :: "string \<Rightarrow> SafetyController \<Rightarrow> SafetyController" where
  "ClearSession rawID c =
     (let i = TrimSpace rawID in
      if i = '''' then c
      else c\<lparr>sc_currentRound := (sc_currentRound c)(i := 0), sc_roundCalls := (sc_roundCalls c)(i := (\<lambda>_. 0)),
             sc_historyCalls := (sc_historyCalls c)(i := []), sc_nodeMutations := (sc_nodeMutations c)(i := 0),
             sc_loopWarnings := (sc_loopWarnings c)(i := (\<lambda>_. 0))\<rparr>)"

subsection \<open>The limits hold\<close>

lemma length_last_n [simp]: "length (last_n n xs) = min n (length xs)"
  by (simp add: last_n_def)

text \<open>What a controller keeps of a session, and that a call changes only its own session.\<close>

definition safety_inv :: "AgentConfig \<Rightarrow> SafetyController \<Rightarrow> bool" where
  "safety_inv cfg c \<longleftrightarrow> (\<forall>i.
     length (sc_historyCalls c i) \<le> safetyHistoryWindow
     \<and> (ToolCallRateLimit cfg > 0 \<longrightarrow> (\<forall>kind. int (sc_roundCalls c i kind) \<le> ToolCallRateLimit cfg))
     \<and> (MaxNodesPerSession cfg > 0 \<longrightarrow> sc_nodeMutations c i \<le> MaxNodesPerSession cfg))"

definition same_session :: "string \<Rightarrow> SafetyController \<Rightarrow> SafetyController \<Rightarrow> bool" where
  "same_session j c c' \<longleftrightarrow> sc_currentRound c' j = sc_currentRound c j \<and> sc_roundCalls c' j = sc_roundCalls c j
     \<and> sc_historyCalls c' j = sc_historyCalls c j \<and> sc_nodeMutations c' j = sc_nodeMutations c j
     \<and> sc_loopWarnings c' j = sc_loopWarnings c j"

lemma same_session_refl [simp]: "same_session j c c"
  by (simp add: same_session_def)

lemma same_session_trans: "same_session j a b \<Longrightarrow> same_session j b c \<Longrightarrow> same_session j a c"
  by (simp add: same_session_def)

text \<open>The warning helpers touch the warning counters of the session and nothing else.\<close>

definition warnings_only :: "string \<Rightarrow> SafetyController \<Rightarrow> SafetyController \<Rightarrow> bool" where
  "warnings_only i c c' \<longleftrightarrow> (\<exists>w. c' = c\<lparr>sc_loopWarnings := (sc_loopWarnings c)(i := w)\<rparr>
     \<and> (\<forall>key. sc_loopWarnings c i key \<le> w key))"

lemma warnings_only_refl [simp]: "warnings_only i c c"
  unfolding warnings_only_def by (intro exI [of _ "sc_loopWarnings c i"]) simp

lemma warnings_only_trans: "warnings_only i a b \<Longrightarrow> warnings_only i b c \<Longrightarrow> warnings_only i a c"
proof -
  assume "warnings_only i a b" "warnings_only i b c"
  then obtain v w where v: "b = a\<lparr>sc_loopWarnings := (sc_loopWarnings a)(i := v)\<rparr>" "\<forall>key. sc_loopWarnings a i key \<le> v key"
    and w: "c = b\<lparr>sc_loopWarnings := (sc_loopWarnings b)(i := w)\<rparr>" "\<forall>key. sc_loopWarnings b i key \<le> w key"
    by (auto simp: warnings_only_def)
  then have "c = a\<lparr>sc_loopWarnings := (sc_loopWarnings a)(i := w)\<rparr>" by simp
  moreover have "sc_loopWarnings a i key \<le> w key" for key
    using v w by simp (metis order_trans)
  ultimately show ?thesis unfolding warnings_only_def by blast
qed

lemma consume_warnings:
  "TrimSpace i = i \<Longrightarrow> consumeLoopWarningToken i key c = (b, c') \<Longrightarrow> warnings_only i c c'"
proof -
  assume i: "TrimSpace i = i" and r: "consumeLoopWarningToken i key c = (b, c')"
  show ?thesis
  proof (cases "i = [] \<or> TrimSpace key = []")
    case True
    with i r show ?thesis by (simp add: consumeLoopWarningToken_def)
  next
    case False
    with i r show ?thesis
      unfolding warnings_only_def
      by (intro exI [of _ "(sc_loopWarnings c i)(TrimSpace key := sc_loopWarnings c i (TrimSpace key) + 1)"])
        (auto simp: consumeLoopWarningToken_def Let_def)
  qed
qed

lemma early_warnings:
  "TrimSpace i = i \<Longrightarrow> buildEarlyDuplicateWarning i h c = (b, c') \<Longrightarrow> warnings_only i c c'"
  by (auto simp: buildEarlyDuplicateWarning_def split: list.splits if_splits dest: consume_warnings)

lemma streak_warnings:
  "TrimSpace i = i \<Longrightarrow> buildReadValidateStreakWarning i h c = (b, c') \<Longrightarrow> warnings_only i c c'"
  by (auto simp: buildReadValidateStreakWarning_def Let_def split: if_splits dest: consume_warnings)

lemma soft_warnings:
  "TrimSpace i = i \<Longrightarrow> soft_or_loop cfg i key c = (r, c') \<Longrightarrow> warnings_only i c c'"
  by (auto simp: soft_or_loop_def split: if_splits prod.splits bool.splits dest: consume_warnings)

lemma loop_warnings:
  "TrimSpace i = i \<Longrightarrow> loop_check cfg i h c = Some (r, c') \<Longrightarrow> warnings_only i c c'"
  by (auto simp: loop_check_def split: list.splits if_splits dest: soft_warnings)

lemma check_history_effect:
  assumes i: "TrimSpace i = i" and r: "check_history cfg i n c = (r, c')"
  shows "\<exists>c1 r'. warnings_only i c c1 \<and> (c' = c1 \<or> mutation_check cfg i n c1 = (r', c'))"
proof -
  let ?h = "sc_historyCalls c i"
  obtain b1 c1 where e: "(if EnableLoopSoftWarning cfg then buildEarlyDuplicateWarning i ?h c else (False, c)) = (b1, c1)"
    by fastforce
  have w1: "warnings_only i c c1" using e i by (auto dest: early_warnings split: if_splits)
  obtain b2 c2 where st: "(if EnableLoopSoftWarning cfg then buildReadValidateStreakWarning i ?h c1 else (False, c1)) = (b2, c2)"
    by fastforce
  have w2: "warnings_only i c c2"
    using st i w1 by (auto dest: streak_warnings intro: warnings_only_trans split: if_splits)
  show ?thesis
  proof (cases "b1 \<or> b2")
    case True
    with e st r w1 w2 show ?thesis
      by (cases b1) (auto simp: check_history_def Let_def)
  next
    case False
    show ?thesis
    proof (cases "loop_check cfg i ?h c2")
      case (Some res)
      then obtain r1 c3 where res: "loop_check cfg i ?h c2 = Some (r1, c3)" by (cases res) simp
      with i have "warnings_only i c2 c3" by (rule loop_warnings)
      with w2 have "warnings_only i c c3" by (rule warnings_only_trans)
      with False e st r res show ?thesis by (auto simp: check_history_def Let_def)
    next
      case None
      obtain r1 c3 where m: "mutation_check cfg i n c2 = (r1, c3)" by fastforce
      with False e st r None have "c' = c3" by (cases r1) (auto simp: check_history_def Let_def)
      with m w2 show ?thesis by blast
    qed
  qed
qed

lemma mutation_check_inv:
  assumes "mutation_check cfg i n c = (r, c')" and "safety_inv cfg c"
  shows "safety_inv cfg c'"
  using assms by (auto simp: mutation_check_def safety_inv_def split: if_splits)

lemma warnings_only_inv: "warnings_only i c c' \<Longrightarrow> safety_inv cfg c' = safety_inv cfg c"
  by (auto simp: warnings_only_def safety_inv_def)

lemma push_history_inv: "safety_inv cfg c \<Longrightarrow> safety_inv cfg (push_history i fp c)"
  by (auto simp: push_history_def safety_inv_def)

lemma rate_check_inv:
  assumes "rate_check cfg i kind c = (r, c')" and "safety_inv cfg c"
  shows "safety_inv cfg c'"
  using assms by (auto simp: rate_check_def safety_inv_def split: if_splits)

lemma CheckToolCall_cases:
  assumes "CheckToolCallWithWarning cfg session call n c = (r, c')"
  obtains (refused) e where "r = Inl e" and "c' = c"
    | (checked) s c1 where "session = Some s" and "TrimSpace (se_ID s) \<noteq> []"
      and "rate_check cfg (TrimSpace (se_ID s)) (classifyToolKind (call_Name call)) c = (Inr (), c1)"
      and "check_history cfg (TrimSpace (se_ID s)) n (push_history (TrimSpace (se_ID s)) (named_fingerprint call) c1) = (r, c')"
proof -
  from assms show thesis
  proof (cases session)
    case None
    with assms that(1) show thesis by (auto simp: CheckToolCallWithWarning_def)
  next
    case (Some s)
    let ?rc = "rate_check cfg (TrimSpace (se_ID s)) (classifyToolKind (call_Name call)) c"
    obtain q c1 where q: "?rc = (q, c1)" by fastforce
    show thesis
    proof (cases "se_state s = StateCancelled \<or> se_state s = StateDone
        \<or> MaxToolCalls cfg > 0 \<and> int (se_toolCallCount s) \<ge> MaxToolCalls cfg \<or> TrimSpace (se_ID s) = []")
      case True
      with assms Some that(1) show thesis by (auto simp: CheckToolCallWithWarning_def Let_def split: if_splits)
    next
      case False
      show thesis
      proof (cases q)
        case (Inl e)
        with q have "c1 = c" by (auto simp: rate_check_def split: if_splits)
        with assms Some False q Inl that(1) show thesis
          by (auto simp: CheckToolCallWithWarning_def Let_def split: if_splits)
      next
        case (Inr u)
        with assms Some False q that(2) show thesis
          by (auto simp: CheckToolCallWithWarning_def Let_def split: if_splits)
      qed
    qed
  qed
qed

lemma CheckToolCall_inv:
  assumes "CheckToolCallWithWarning cfg session call n c = (r, c')" and inv: "safety_inv cfg c"
  shows "safety_inv cfg c'"
  using assms(1)
proof (cases rule: CheckToolCall_cases)
  case (checked s c1)
  let ?i = "TrimSpace (se_ID s)"
  have "safety_inv cfg c1" using checked(3) inv by (rule rate_check_inv)
  then have p: "safety_inv cfg (push_history ?i (named_fingerprint call) c1)" by (rule push_history_inv)
  obtain c2 r' where w: "warnings_only ?i (push_history ?i (named_fingerprint call) c1) c2"
    and m: "c' = c2 \<or> mutation_check cfg ?i n c2 = (r', c')"
    using check_history_effect [OF TrimSpace_TrimSpace checked(4)] by blast
  have "safety_inv cfg c2" using p by (simp only: warnings_only_inv [OF w])
  with m show ?thesis by (auto dest: mutation_check_inv)
qed (simp add: inv)

lemma safety_inv_others:
  "0 \<le> MaxNodesPerSession cfg \<Longrightarrow> safety_inv cfg NewSafetyController"
  "safety_inv cfg c \<Longrightarrow> safety_inv cfg (BeginRound i round c)"
  "safety_inv cfg c \<Longrightarrow> safety_inv cfg (ClearSession i c)"
  "safety_inv cfg c \<Longrightarrow> RecordMutation cfg i n c = (r, c') \<Longrightarrow> safety_inv cfg c'"
proof -
  show "0 \<le> MaxNodesPerSession cfg \<Longrightarrow> safety_inv cfg NewSafetyController"
    by (simp add: safety_inv_def NewSafetyController_def)
  show "safety_inv cfg c \<Longrightarrow> safety_inv cfg (BeginRound i round c)"
    by (auto simp: safety_inv_def BeginRound_def Let_def)
  show "safety_inv cfg c \<Longrightarrow> safety_inv cfg (ClearSession i c)"
    by (auto simp: safety_inv_def ClearSession_def Let_def)
  show "safety_inv cfg c \<Longrightarrow> RecordMutation cfg i n c = (r, c') \<Longrightarrow> safety_inv cfg c'"
    by (auto simp: RecordMutation_def Let_def split: if_splits dest: mutation_check_inv)
qed

subsection \<open>Sessions do not interfere\<close>

lemma warnings_only_other: "warnings_only i c c' \<Longrightarrow> j \<noteq> i \<Longrightarrow> same_session j c c'"
  by (auto simp: warnings_only_def same_session_def)

lemma mutation_check_other: "mutation_check cfg i n c = (r, c') \<Longrightarrow> j \<noteq> i \<Longrightarrow> same_session j c c'"
  by (auto simp: mutation_check_def same_session_def split: if_splits)

lemma CheckToolCall_other:
  assumes "CheckToolCallWithWarning cfg (Some s) call n c = (r, c')" and j: "j \<noteq> TrimSpace (se_ID s)"
  shows "same_session j c c'"
  using assms(1)
proof (cases rule: CheckToolCall_cases)
  case (checked s' c1)
  let ?i = "TrimSpace (se_ID s)"
  from checked(1) have s': "s' = s" by simp
  have "same_session j c c1"
    using checked(3) j s' by (auto simp: rate_check_def same_session_def split: if_splits)
  moreover have "same_session j c1 (push_history ?i (named_fingerprint call) c1)"
    using j by (simp add: push_history_def same_session_def)
  moreover obtain c2 r' where w: "warnings_only ?i (push_history ?i (named_fingerprint call) c1) c2"
    and m: "c' = c2 \<or> mutation_check cfg ?i n c2 = (r', c')"
    using check_history_effect [OF TrimSpace_TrimSpace checked(4) [unfolded s']] by blast
  moreover have "same_session j c2 c'" using m j by (auto dest: mutation_check_other)
  ultimately show ?thesis using warnings_only_other [OF w j] by (blast intro: same_session_trans)
qed simp

subsection \<open>Repeating a call\<close>

text \<open>The history of a session ends with \<open>k\<close> copies of a fingerprint.\<close>

definition repeated :: "callFingerprint list \<Rightarrow> callFingerprint \<Rightarrow> nat \<Rightarrow> bool" where
  "repeated h fp k \<longleftrightarrow> (\<exists>xs. h = xs @ replicate k fp)"

lemma repeated_push:
  assumes "repeated h fp k" and "Suc k \<le> n"
  shows "repeated (last_n n (h @ [fp])) fp (Suc k)"
proof -
  from assms obtain xs where h: "h @ [fp] = xs @ replicate (Suc k) fp"
    by (auto simp: repeated_def replicate_append_same)
  have "last_n n (xs @ replicate (Suc k) fp) = drop (length xs + Suc k - n) xs @ replicate (Suc k) fp"
    using assms(2) by (simp add: last_n_def del: replicate_Suc)
  with h show ?thesis by (auto simp: repeated_def)
qed

lemma last_n_replicate: "last_n m (xs @ replicate k fp) = replicate m fp" if "m \<le> k"
proof -
  have "last_n m (xs @ replicate k fp) = drop (k - m) (replicate k fp)"
    using that by (simp add: last_n_def)
  then show ?thesis using that by simp
qed

lemma repeated_last: "repeated h fp k \<Longrightarrow> m \<le> k \<Longrightarrow> last_n m h = replicate m fp"
  by (auto simp: repeated_def last_n_replicate)

lemma repeated_0: "repeated h fp 0"
  by (simp add: repeated_def)

abbreviation fp_key :: "callFingerprint \<Rightarrow> string" where
  "fp_key fp \<equiv> TrimSpace (loopWarningKeyForFingerprint fp)"

lemma consume_used:
  assumes "TrimSpace i = i" "i \<noteq> []" "TrimSpace key \<noteq> []"
  shows "consumeLoopWarningToken i key c =
    (sc_loopWarnings c i (TrimSpace key) < 2,
     c\<lparr>sc_loopWarnings := (sc_loopWarnings c)(i := (sc_loopWarnings c i)(TrimSpace key := sc_loopWarnings c i (TrimSpace key) + 1))\<rparr>)"
  using assms by (simp add: consumeLoopWarningToken_def Let_def maxLoopSoftWarningsPerKey_def)

text \<open>A third copy is refused, or warned about while tokens last; each repetition uses one.\<close>

lemma check_third:
  assumes "\<not> EnableLoopSoftWarning cfg" and "repeated (sc_historyCalls c i) fp 3"
  shows "fst (check_history cfg i n c) = Inl ErrAgentLoopDetected"
  using assms repeated_last [OF assms(2), of 3]
  by (simp add: check_history_def Let_def loop_check_def soft_or_loop_def numeral_3_eq_3)

lemma check_repeat_used:
  assumes cfg: "EnableLoopSoftWarning cfg" and i: "TrimSpace i = i" "i \<noteq> []" and key: "fp_key fp \<noteq> []"
    and h: "repeated (sc_historyCalls c i) fp 2" and r: "check_history cfg i n c = (Inr w, c')"
  shows "sc_loopWarnings c i (fp_key fp) + 1 \<le> sc_loopWarnings c' i (fp_key fp)"
proof -
  let ?k = "fp_key fp"
  let ?h = "sc_historyCalls c i"
  let ?u = "sc_loopWarnings c i ?k"
  let ?c1 = "c\<lparr>sc_loopWarnings := (sc_loopWarnings c)(i := (sc_loopWarnings c i)(?k := ?u + 1))\<rparr>"
  have early: "buildEarlyDuplicateWarning i ?h c = (?u < 2, ?c1)"
    using repeated_last [OF h, of 2] consume_used [OF i key, of c]
    by (simp add: buildEarlyDuplicateWarning_def numeral_2_eq_2)
  show ?thesis
  proof (cases "?u < 2")
    case True
    with early cfg r have "c' = ?c1" by (simp add: check_history_def Let_def)
    then show ?thesis by simp
  next
    case False
    obtain c2 r' where w: "warnings_only i ?c1 c2" and m: "c' = c2 \<or> mutation_check cfg i n c2 = (r', c')"
    proof -
      obtain b2 c2 where st: "buildReadValidateStreakWarning i ?h ?c1 = (b2, c2)" by fastforce
      have w2: "warnings_only i ?c1 c2" using i(1) st by (rule streak_warnings)
      show thesis
      proof (cases b2)
        case True
        with False early cfg r st have "c' = c2" by (simp add: check_history_def Let_def)
        with w2 that show thesis by blast
      next
        case nb: False
        show thesis
        proof (cases "loop_check cfg i ?h c2")
          case (Some res)
          with False early cfg r st nb have "res = (Inr w, c')" by (simp add: check_history_def Let_def)
          with Some have "warnings_only i c2 c'" using loop_warnings [OF i(1)] by simp
          with w2 that show thesis by (blast intro: warnings_only_trans)
        next
          case None
          obtain r1 c3 where "mutation_check cfg i n c2 = (r1, c3)" by fastforce
          with None False early cfg r st nb have "mutation_check cfg i n c2 = (r1, c')"
            by (cases r1) (auto simp: check_history_def Let_def)
          with w2 that show thesis by blast
        qed
      qed
    qed
    have "?u + 1 \<le> sc_loopWarnings c2 i ?k"
      using w by (auto simp: warnings_only_def dest: spec [of _ ?k])
    moreover have "sc_loopWarnings c' = sc_loopWarnings c2"
      using m by (auto simp: mutation_check_def split: if_splits)
    ultimately show ?thesis by simp
  qed
qed

lemma streak_same:
  "repeated h fp 4 \<Longrightarrow> buildReadValidateStreakWarning i h c = (False, c)"
  using repeated_last [of h fp 4 4]
  by (auto simp: buildReadValidateStreakWarning_def Let_def readValidateStreakThreshold_def numeral_eq_Suc)

lemma check_fourth:
  assumes cfg: "EnableLoopSoftWarning cfg" and i: "TrimSpace i = i" "i \<noteq> []"
    and h: "repeated (sc_historyCalls c i) fp 4"
    and u: "fp_key fp \<noteq> [] \<Longrightarrow> 2 \<le> sc_loopWarnings c i (fp_key fp)"
  shows "fst (check_history cfg i n c) = Inl ErrAgentLoopDetected"
proof -
  let ?h = "sc_historyCalls c i"
  have h3: "last_n 3 ?h = [fp, fp, fp]" "last_n 2 ?h = [fp, fp]"
    using repeated_last [OF h, of 3] repeated_last [OF h, of 2] by (simp_all add: numeral_eq_Suc)
  have "\<exists>c1. buildEarlyDuplicateWarning i ?h c = (False, c1) \<and> fst (soft_or_loop cfg i (loopWarningKeyForFingerprint fp) c1) = Inl ErrAgentLoopDetected"
  proof (cases "fp_key fp = []")
    case True
    then show ?thesis
      using h3 cfg i by (simp add: buildEarlyDuplicateWarning_def consumeLoopWarningToken_def soft_or_loop_def)
  next
    case False
    with u have "2 \<le> sc_loopWarnings c i (fp_key fp)" by simp
    then show ?thesis
      using h3 cfg consume_used [OF i False]
      by (simp add: buildEarlyDuplicateWarning_def soft_or_loop_def)
  qed
  then obtain c1 where c1: "buildEarlyDuplicateWarning i ?h c = (False, c1)"
    "fst (soft_or_loop cfg i (loopWarningKeyForFingerprint fp) c1) = Inl ErrAgentLoopDetected" by blast
  then show ?thesis
    using cfg h3 streak_same [OF h, of i c1] by (simp add: check_history_def Let_def loop_check_def)
qed

text \<open>One accepted call: what it leaves in the history and the counters.\<close>

lemma accepted_call:
  assumes r: "CheckToolCallWithWarning cfg (Some s) call n c = (Inr w, c')" and i: "TrimSpace (se_ID s) = i"
    and rep: "repeated (sc_historyCalls c i) (named_fingerprint call) k" and k: "Suc k \<le> 16"
  shows "i \<noteq> [] \<and> repeated (sc_historyCalls c' i) (named_fingerprint call) (Suc k)
    \<and> (\<exists>d. check_history cfg i n d = (Inr w, c') \<and> repeated (sc_historyCalls d i) (named_fingerprint call) (Suc k)
        \<and> sc_loopWarnings d = sc_loopWarnings c)
    \<and> (\<forall>key. sc_loopWarnings c i key \<le> sc_loopWarnings c' i key)"
  using r
proof (cases rule: CheckToolCall_cases)
  case (checked s' c1)
  let ?fp = "named_fingerprint call"
  let ?d = "push_history i ?fp c1"
  from checked i have ne: "i \<noteq> []" and d: "check_history cfg i n ?d = (Inr w, c')" by auto
  have c1: "sc_historyCalls c1 = sc_historyCalls c" "sc_loopWarnings c1 = sc_loopWarnings c"
    using checked(3) by (auto simp: rate_check_def split: if_splits)
  have rd: "repeated (sc_historyCalls ?d i) ?fp (Suc k)"
    using repeated_push [OF rep, of safetyHistoryWindow] k c1 by (simp add: push_history_def safetyHistoryWindow_def)
  have ld: "sc_loopWarnings ?d = sc_loopWarnings c" using c1 by (simp add: push_history_def)
  have ti: "TrimSpace i = i" using i by auto
  obtain c2 r' where wo: "warnings_only i ?d c2" and m: "c' = c2 \<or> mutation_check cfg i n c2 = (r', c')"
    using check_history_effect [OF ti d] by blast
  have "sc_historyCalls c2 = sc_historyCalls ?d" "sc_loopWarnings ?d i key \<le> sc_loopWarnings c2 i key" for key
    using wo by (auto simp: warnings_only_def)
  moreover have "sc_historyCalls c' = sc_historyCalls c2" "sc_loopWarnings c' = sc_loopWarnings c2"
    using m by (auto simp: mutation_check_def split: if_splits)
  ultimately show ?thesis using ne d rd ld by auto
qed simp

lemma fourth_identical_call:
  assumes "CheckToolCallWithWarning cfg (Some s1) call n1 c = (Inr w1, c1)"
    and "CheckToolCallWithWarning cfg (Some s2) call n2 c1 = (Inr w2, c2)"
    and "CheckToolCallWithWarning cfg (Some s3) call n3 c2 = (Inr w3, c3)"
    and "CheckToolCallWithWarning cfg (Some s4) call n4 c3 = (r, c4)"
    and ids: "\<forall>s \<in> {s1, s2, s3, s4}. TrimSpace (se_ID s) = i"
  shows "\<exists>e. r = Inl e"
proof (rule ccontr)
  assume "\<nexists>e. r = Inl e"
  then obtain w4 where r4: "CheckToolCallWithWarning cfg (Some s4) call n4 c3 = (Inr w4, c4)"
    using assms(4) by (cases r) auto
  let ?fp = "named_fingerprint call"
  have id: "TrimSpace (se_ID s1) = i" "TrimSpace (se_ID s2) = i" "TrimSpace (se_ID s3) = i" "TrimSpace (se_ID s4) = i"
    using ids by auto
  then have ti: "TrimSpace i = i" by auto
  note a1 = accepted_call [OF assms(1) id(1) repeated_0]
  then have "repeated (sc_historyCalls c1 i) ?fp 1" by simp
  note a2 = accepted_call [OF assms(2) id(2) this]
  then have "repeated (sc_historyCalls c2 i) ?fp 2" by (simp add: numeral_2_eq_2)
  note a3 = accepted_call [OF assms(3) id(3) this]
  then have "repeated (sc_historyCalls c3 i) ?fp 3" by (simp add: numeral_3_eq_3)
  note a4 = accepted_call [OF r4 id(4) this]
  obtain d2 where d2: "check_history cfg i n2 d2 = (Inr w2, c2)" "repeated (sc_historyCalls d2 i) ?fp 2"
      "sc_loopWarnings d2 = sc_loopWarnings c1" using a2 by (auto simp: numeral_2_eq_2)
  obtain d3 where d3: "check_history cfg i n3 d3 = (Inr w3, c3)" "repeated (sc_historyCalls d3 i) ?fp 3"
      "sc_loopWarnings d3 = sc_loopWarnings c2" using a3 by (auto simp: numeral_3_eq_3)
  obtain d4 where d4: "check_history cfg i n4 d4 = (Inr w4, c4)" "repeated (sc_historyCalls d4 i) ?fp 4"
      "sc_loopWarnings d4 = sc_loopWarnings c3" using a4 by (auto simp: numeral_eq_Suc)
  have ne: "i \<noteq> []" using a1 by simp
  show False
  proof (cases "EnableLoopSoftWarning cfg")
    case False
    from check_third [OF False d3(2), of n3] d3(1) show False by simp
  next
    case True
    have rep3: "repeated (sc_historyCalls d3 i) ?fp 2"
    proof -
      from d3(2) obtain xs where "sc_historyCalls d3 i = xs @ replicate 3 ?fp" by (auto simp: repeated_def)
      then have "sc_historyCalls d3 i = (xs @ [?fp]) @ replicate 2 ?fp" by (simp add: numeral_eq_Suc)
      then show ?thesis unfolding repeated_def by blast
    qed
    have "2 \<le> sc_loopWarnings d4 i (fp_key ?fp)" if key: "fp_key ?fp \<noteq> []"
    proof -
      have "sc_loopWarnings c1 i (fp_key ?fp) + 1 \<le> sc_loopWarnings c2 i (fp_key ?fp)"
        using check_repeat_used [OF True ti ne key d2(2,1)] d2(3) by simp
      moreover have "sc_loopWarnings c2 i (fp_key ?fp) + 1 \<le> sc_loopWarnings c3 i (fp_key ?fp)"
        using check_repeat_used [OF True ti ne key rep3 d3(1)] d3(3) by simp
      ultimately show ?thesis using d4(3) by simp
    qed
    from check_fourth [OF True ti ne d4(2) this, of n4] d4(1) show False by simp
  qed
qed

end
