(* ===== verification/Fixtures.thy ===== *)
theory Fixtures
  imports Hybrid Effects Subtree Safety
begin

text \<open>
  A small fault tree and the inputs the witnesses evaluate the theorems on: a top event over an
  OR gate with two basic events, stored for one project at revision 7.
\<close>

definition ex_nodes :: "FaultTreeNode list" where
  "ex_nodes = [zero_node ''t'' ''topEvent'' ''T'', gate_node ''g'' ''OR'',
     zero_node ''a'' ''basicEvent'' ''A'', zero_node ''b'' ''basicEvent'' ''B'']"

definition ex_edges :: "FaultTreeEdge list" where
  "ex_edges = [mk_edge ''e1'' ''t'' ''g'', mk_edge ''e2'' ''g'' ''a'', mk_edge ''e3'' ''g'' ''b'']"

definition ex_state :: faultTreeState where
  "ex_state = newFaultTreeState ex_nodes ex_edges"

definition ex_draws :: draws where
  "ex_draws k = (k, 0)"

definition ex_db :: db where
  "ex_db = \<lparr> db_nodes = map (own_node ''p'') ex_nodes, db_edges = map (own_edge ''p'') ex_edges, db_knodes = [], db_kedges = [],
     db_projects = [''p'' \<mapsto> set_graph_meta 7 4 3 0 0 (newProject ''p'' ''P'' ''ft'' '''' [] ''u'')], db_audits = [] \<rparr>"

definition args1 :: "(string \<times> json) list \<Rightarrow> raw_message" where
  "args1 m = RawJson (JObj m)"

lemma ex_state_sel [simp]: "st_nodes ex_state = ex_nodes" "st_edges ex_state = ex_edges"
  by (simp_all add: ex_state_def)

lemma ex_acyclic: "acyclic (edge_rel ex_edges)"
proof -
  have "\<not> hasDirectedCycle ex_edges" by code_simp
  then show ?thesis by (simp add: hasDirectedCycle_iff)
qed

lemma ex_ids: "node_ids ex_state = {''t'', ''g'', ''a'', ''b''}"
proof -
  have "map nid ex_nodes = [''t'', ''g'', ''a'', ''b'']" by code_simp
  then have "set (map nid ex_nodes) = {''t'', ''g'', ''a'', ''b''}" by simp
  then show ?thesis by (simp add: node_ids_def)
qed

lemma edge_rel_set: "edge_rel es = set (map (\<lambda>e. (efrom e, eto e)) (filter live_edge es))"
  by (auto simp: edge_rel_def)

lemma ex_erel: "edge_rel ex_edges = {(''t'', ''g''), (''g'', ''a''), (''g'', ''b'')}"
proof -
  have m: "map (\<lambda>e. (efrom e, eto e)) (filter live_edge ex_edges) = [(''t'', ''g''), (''g'', ''a''), (''g'', ''b'')]"
    by code_simp
  show ?thesis by (simp only: edge_rel_set m list.set)
qed

lemma ex_inv: "ft_inv ex_state"
proof -
  have "case_unique ex_state"
  proof -
    have "distinct (map (\<lambda>n. fold_case (nid n)) ex_nodes)" by code_simp
    then show ?thesis by (simp add: case_unique_def)
  qed
  moreover have "edges_connected ex_state"
  proof -
    have "list_all (\<lambda>e. live_edge e \<and> efrom e \<in> {''t'', ''g'', ''a'', ''b''}
      \<and> eto e \<in> {''t'', ''g'', ''a'', ''b''}) ex_edges" by code_simp
    then show ?thesis by (simp add: edges_connected_def ex_ids list_all_iff)
  qed
  moreover have "ends_trimmed ex_state"
  proof -
    have "list_all (\<lambda>e. efrom e = edge_FromNodeID e \<and> eto e = edge_ToNodeID e) ex_edges" by code_simp
    then show ?thesis by (simp add: ends_trimmed_def list_all_iff)
  qed
  moreover have "index_ok ex_state" by (simp add: ex_state_def newFaultTreeState_ok)
  ultimately show ?thesis by (simp add: ft_inv_def ex_ids ex_acyclic)
qed

text \<open>The identifiers of the first draws.\<close>

definition ex_drawn :: "(nat \<times> string) list" where
  "ex_drawn = [(1, ''ftn''), (1, ''gate''), (2, ''ftn''), (2, ''gate''), (3, ''ftn''), (3, ''gate''),
     (4, ''ftn''), (4, ''gate'')]"

lemma ex_drawn_ids:
  "map (\<lambda>(j, p). fold_case (NewID ex_draws j p)) ex_drawn =
     [''ftn_1_00000000'', ''gate_1_00000000'', ''ftn_2_00000000'', ''gate_2_00000000'',
      ''ftn_3_00000000'', ''gate_3_00000000'', ''ftn_4_00000000'', ''gate_4_00000000'']"
  by code_simp

lemma ex_fold: "map fold_case [''t'', ''g'', ''a'', ''b''] = [''t'', ''g'', ''a'', ''b'']"
  by code_simp

lemma ex_fresh: "fresh_draws ex_draws 1 5 ex_state"
proof -
  have r: "{Suc 0..<5} = {Suc 0, 2, 3, 4}" by auto
  show ?thesis
    using ex_drawn_ids ex_fold
    by (simp add: fresh_draws_def drawn_def r ex_ids node_prefixes_def ex_drawn_def)
qed

subsection \<open>Calls on the example\<close>

text \<open>\<open>gives r P\<close>: the call succeeds and its value satisfies \<open>P\<close>.\<close>

definition gives :: "'e + 'a \<Rightarrow> ('a \<Rightarrow> bool) \<Rightarrow> bool" where
  "gives r P = (case r of Inl _ \<Rightarrow> False | Inr x \<Rightarrow> P x)"

lemma gives_iff: "gives r P \<longleftrightarrow> (\<exists>x. r = Inr x \<and> P x)"
  by (cases r) (simp_all add: gives_def)

lemma gives_stepE:
  assumes "gives r (\<lambda>(res, s', k'). P res s' k')"
  obtains res s' k' where "r = Inr (res, s', k')" and "P res s' k'"
  using assms by (auto simp: gives_iff)

definition ex_add :: raw_message where
  "ex_add = args1 [(''name'', JStr ''C''), (''nodeType'', JStr ''basicEvent''), (''parentId'', JStr ''g'')]"

definition ex_move :: raw_message where
  "ex_move = args1 [(''nodeId'', JStr ''b''), (''newParentId'', JStr ''t'')]"

definition ex_delete :: raw_message where
  "ex_delete = args1 [(''nodeId'', JStr ''g''), (''deleteChildren'', JBool False)]"

definition ex_prune :: raw_message where
  "ex_prune = args1 [(''nodeId'', JStr ''g''), (''deleteChildren'', JBool True)]"

definition ex_gate :: raw_message where
  "ex_gate = args1 [(''gateType'', JStr ''AND''), (''parentNodeId'', JStr ''g''),
     (''childNodeIds'', JArr [JStr ''a'', JStr ''b''])]"

text \<open>The smallest tree, a top event, stored at revision 7, and a new name for it.\<close>

definition ex_top :: "FaultTreeNode list" where
  "ex_top = [zero_node ''t'' ''topEvent'' ''T'']"

definition ex_rename :: raw_message where
  "ex_rename = args1 [(''nodeId'', JStr ''t''), (''name'', JStr ''R'')]"

definition ex_db1 :: db where
  "ex_db1 = \<lparr> db_nodes = map (own_node ''p'') ex_top, db_edges = [], db_knodes = [], db_kedges = [],
     db_projects = [''p'' \<mapsto> set_graph_meta 7 1 0 0 0 (newProject ''p'' ''P'' ''ft'' '''' [] ''u'')], db_audits = [] \<rparr>"

definition ex_renamed :: "exec_return \<times> db" where
  "ex_renamed = ExecuteFaultTreeSnapshot ex_draws (\<lambda>_. True) (Inr (db_projects ex_db1 ''p'')) ''p'' ''update_node''
     ex_rename ex_top [] 7 1 ex_db1"

lemma ex_renamed_run:
  "is_ok (fst ex_renamed) \<and> map node_Name (db_nodes (snd ex_renamed)) = [''R'']
     \<and> map node_Name (db_nodes ex_db1) = [''T'']"
  by code_simp

lemma ex_renamed_changed: "snd ex_renamed \<noteq> ex_db1"
  using ex_renamed_run by auto

lemma ex_top_inv: "ft_inv (newFaultTreeState ex_top [])"
proof -
  have ids: "node_ids (newFaultTreeState ex_top []) = {''t''}"
  proof -
    have "map nid ex_top = [''t'']" by code_simp
    then have "set (map nid ex_top) = {''t''}" by simp
    then show ?thesis by (simp add: node_ids_def)
  qed
  have "case_unique (newFaultTreeState ex_top [])" by (simp add: case_unique_def ex_top_def)
  then show ?thesis
    by (simp add: ft_inv_def ids newFaultTreeState_ok edges_connected_def ends_trimmed_def acyclic_def)
qed

end
