(* ===== verification/TreeTheorems.thy ===== *)
theory TreeTheorems
  imports Fixtures Modes
begin

text \<open>
  What the graph tools promise of a fault tree: the safety checks accept exactly the well-formed
  trees, every call keeps the tree's invariant, and each mutation changes the parent relation in
  the way its description says. Each property is evaluated on the example tree.
\<close>

subsection \<open>The safety checks\<close>

text \<open>C4: on trees with distinct IDs the strict safety check accepts exactly the trees that have one
  top event, which is a root, edges between existing nodes, no cycle, childless basic events, no gate
  directly under a gate, and gates with a known type and enough children.\<close>

theorem strict_check_exact:
  assumes "unique_ids s"
  shows "enforceFaultTreeMutationSafety s = ok \<longleftrightarrow> wf_fta s"
  using assms by (rule strict_ok_iff)

theorem strict_check_exact_witness: "wf_fta ex_state"
proof -
  have "enforceFaultTreeMutationSafety ex_state = ok" by code_simp
  then show ?thesis using strict_check_exact [OF case_unique_ids [OF ft_invD(2) [OF ex_inv]]] by simp
qed

text \<open>the permissive check, used to repair a broken tree, accepts exactly the trees with one top
  event that is a root, edges between existing nodes and no cycle.\<close>

theorem permissive_check_exact:
  assumes "unique_ids s"
  shows "enforceFaultTreeMutationSafetyPermissive s = ok \<longleftrightarrow>
    edges_connected s \<and> one_top_event s \<and> top_is_root s \<and> (\<nexists>x. (x, x) \<in> (erel s)\<^sup>+)"
  using permissive_ok_iff [OF assms] by (simp add: wf_fatal_def acyclic_def)

text \<open>The example without its basic events is refused by the strict check and accepted here.\<close>

definition bare_gate :: faultTreeState where
  "bare_gate = newFaultTreeState (take 2 ex_nodes) (take 1 ex_edges)"

theorem permissive_check_exact_witness:
  "\<not> is_ok (enforceFaultTreeMutationSafety bare_gate) \<and> (\<nexists>x. (x, x) \<in> (erel bare_gate)\<^sup>+)"
proof -
  have "distinct (map nid (take 2 ex_nodes))" by code_simp
  then have u: "unique_ids bare_gate" by (simp add: unique_ids_def bare_gate_def)
  have "enforceFaultTreeMutationSafetyPermissive bare_gate = ok" by code_simp
  moreover have "\<not> is_ok (enforceFaultTreeMutationSafety bare_gate)" by code_simp
  ultimately show ?thesis using permissive_check_exact [OF u] by simp
qed

text \<open>A refusal names at most five issues and says how many more there are; nothing is refused
  without an issue.\<close>

theorem refusal_message_bounded:
  assumes "enforceFaultTreeMutationSafety s = Inl e"
  shows "\<exists>shown more. e = ErrOperationNotAllowed (Issues shown more) \<and> length shown \<le> 5
    \<and> length (filter isBlockingMutationIssue (evaluateFTAConstraintIssues s)) = length shown + more
    \<and> 0 < length shown + more \<and> (0 < more \<longrightarrow> length shown = 5)"
  using assms by (auto simp: enforceFaultTreeMutationSafety_def refuse_def split: if_splits)

theorem refusal_message_bounded_witness:
  "\<exists>shown more. 0 < length shown + more \<and> length shown \<le> 5
    \<and> enforceFaultTreeMutationSafety bare_gate = Inl (ErrOperationNotAllowed (Issues shown more))"
proof -
  have "\<not> is_ok (enforceFaultTreeMutationSafety bare_gate)" by code_simp
  then obtain e where e: "enforceFaultTreeMutationSafety bare_gate = Inl e"
    by (cases "enforceFaultTreeMutationSafety bare_gate") auto
  from refusal_message_bounded [OF this] e show ?thesis by auto
qed

subsection \<open>Every call keeps the invariant\<close>

text \<open>C3: whatever tool is called on a fault tree, with whatever arguments and however deeply batched,
  a call that succeeds leaves an index that agrees with the nodes, distinct IDs, edges between
  existing nodes and no cycle; new nodes carry IDs drawn during the call.\<close>

theorem every_call_keeps_invariant:
  assumes "ft_inv s" and "fresh_draws d k k' s" and "applyOperation d s t args k = Inr (res, s', k')"
  shows "ft_inv s' \<and> node_ids s' \<subseteq> node_ids s \<union> drawn d k k'"
  using good_stepD(2,3) [OF dispatch_good(1) assms(3) assms(1,2)] by blast

theorem every_call_keeps_invariant_witness:
  "gives (applyOperation ex_draws ex_state ''add_node'' ex_add 1) (\<lambda>(res, s', k'). ft_inv s')"
proof -
  have "gives (applyOperation ex_draws ex_state ''add_node'' ex_add 1) (\<lambda>(res, s', k'). k' = 3)"
    by code_simp
  then obtain res s' where r: "applyOperation ex_draws ex_state ''add_node'' ex_add 1 = Inr (res, s', 3)"
    by (auto elim!: gives_stepE)
  have "fresh_draws ex_draws 1 3 ex_state" using ex_fresh by (rule fresh_first) simp
  from every_call_keeps_invariant [OF ex_inv this r] r show ?thesis by (simp add: gives_def)
qed

text \<open>a successful call of a tool that the registry does not mark as mutating leaves the tree
  as it was, draws no identifier and reports an empty patch and no change.\<close>

theorem read_tools_change_nothing:
  assumes "\<not> ToolMutatesGraph t" and "applyOperation d s t args k = Inr (res, s', k')"
  shows "s' = s \<and> k' = k \<and> op_patch res = empty_patch \<and> op_changedNodes res = 0 \<and> op_changedEdges res = 0"
  using read_tool_unchanged [OF assms(1)] assms(2) by (simp add: leaves_unchanged_def)

theorem read_tools_change_nothing_witness:
  "gives (applyOperation ex_draws ex_state ''get_graph_snapshot'' (args1 []) 1)
     (\<lambda>(res, s', k'). s' = ex_state \<and> k' = 1)"
proof -
  have "\<not> ToolMutatesGraph ''get_graph_snapshot''" by code_simp
  moreover have "is_ok (applyOperation ex_draws ex_state ''get_graph_snapshot'' (args1 []) 1)" by code_simp
  ultimately show ?thesis
    using read_tools_change_nothing [of "''get_graph_snapshot''" ex_draws ex_state "args1 []" 1]
    by (auto simp: is_ok_iff gives_iff)
qed

subsection \<open>What each mutation does to the tree\<close>

text \<open>C16: \<open>move_node\<close>, strict or permissive, takes the requested node from all its parents and
  hangs it under the requested one, which is not below it; every other edge and every node stay.\<close>

theorem move_node_effect:
  assumes "ft_inv s" and "move_with permissive d s args k = Inr (res, s', k')"
  shows "\<exists>x p. move_request args = Inr (x, p) \<and> (x, p) \<notin> (erel s)\<^sup>*
    \<and> erel s' = insert (p, x) {(a, b) \<in> erel s. b \<noteq> x} \<and> st_nodes s' = st_nodes s"
proof -
  obtain x p where req: "move_request args = Inr (x, p)" and sm: "op_summary res = MovedNode permissive x p"
    using move_with_request [OF assms(2)] by blast
  with move_with_Inr [OF assms(2)] obtain n m where m: "s' = moved s x p (NewID d k ''fte'')"
    "TrimSpace x = x" "TrimSpace p = p" "x \<noteq> p" "p \<notin> set (collectDescendants s x)" "x \<noteq> []"
    "getNode s x = Some n" "getNode s p = Some m" by auto
  have ids: "x \<in> node_ids s" "p \<in> node_ids s"
    using node_present [OF assms(1)] m by blast+
  have "erel s' = insert (p, x) {(a, b) \<in> erel s. b \<noteq> x}"
    unfolding m(1) erel_moved [OF assms(1) ids(1) m(2) ids(2) m(3)] by (simp add: case_prod_unfold)
  moreover have "(x, p) \<notin> (erel s)\<^sup>*" using m set_collectDescendants [of x s] by auto
  moreover have "st_nodes s' = st_nodes s"
    using moved_eq [OF assms(1) ids(1) m(2,3)] m(1) by simp
  ultimately show ?thesis using req by blast
qed

theorem move_node_effect_witness:
  "gives (move_with True ex_draws ex_state ex_move 1)
     (\<lambda>(res, s', k'). erel s' = insert (''t'', ''b'') {(a, b) \<in> erel ex_state. b \<noteq> ''b''})"
proof -
  have "is_ok (move_with True ex_draws ex_state ex_move 1)" by code_simp
  then obtain res s' k' where r: "move_with True ex_draws ex_state ex_move 1 = Inr (res, s', k')"
    by (auto simp: is_ok_iff)
  have "move_request ex_move = Inr (''b'', ''t'')" by code_simp
  with move_node_effect [OF ex_inv r] r show ?thesis by (auto simp: gives_def)
qed

text \<open>Two deletions in the example.\<close>

lemma ex_deletes:
  "is_ok (delete_with False ex_draws ex_state ex_delete 1)"
  "is_ok (delete_with False ex_draws ex_state ex_prune 1)"
proof -
  have f: "unmarshal ex_delete = Inr [(''nodeId'', JStr ''g''), (''deleteChildren'', JBool False)]"
    "unmarshal ex_prune = Inr [(''nodeId'', JStr ''g''), (''deleteChildren'', JBool True)]"
    "req_string [(''nodeId'', JStr ''g''), (''deleteChildren'', JBool b)] ''nodeId'' = Inr ''g''"
    "req_bool [(''nodeId'', JStr ''g''), (''deleteChildren'', JBool b)] ''deleteChildren'' = Inr b"
    "TrimSpace ''g'' = ''g''" for b by code_simp+
  have g: "parentIDsOf ex_state ''g'' = [''t'']" "childIDsOf ex_state ''g'' = [''a'', ''b'']"
    "collectDescendants ex_state ''g'' = [''a'', ''b'']" by code_simp+
  show "is_ok (delete_with False ex_draws ex_state ex_delete 1)"
    unfolding delete_with_def f bindE_simps Let_def g by code_simp
  show "is_ok (delete_with False ex_draws ex_state ex_prune 1)"
    unfolding delete_with_def f bindE_simps Let_def g by code_simp
qed

text \<open>C17: \<open>delete_node\<close> without its children removes the node and connects each of its parents to
  each of its children; every other edge stays.\<close>

theorem delete_node_bypass:
  assumes "ft_inv s" and "delete_with permissive d s args k = Inr (res, s', k')"
    and "delete_request args = Inr (x, False)"
  shows "node_ids s' = node_ids s - {x} \<and> x \<in> node_ids s \<and>
    erel s' = {(a, b) \<in> erel s. a \<noteq> x \<and> b \<noteq> x} \<union> {(p, c). (p, x) \<in> erel s \<and> (x, c) \<in> erel s}"
  using assms(2,1)
proof (rule delete_with_Inr)
  fix y c n assume *: "delete_request args = Inr (y, c)" "getNode s y = Some n" "TrimSpace y = y" "y \<noteq> []"
    and s': "s' = (if c then snd (removeNodes s (insert y (set (collectDescendants s y))))
      else snd (addEdges (snd (removeNodes s {y}))
        (fresh_edges d k (bypass_pairs (parentIDsOf s y) (childIDsOf s y)))))"
  from * assms(3) have y: "y = x" "\<not> c" by auto
  have "x \<in> node_ids s" using node_present [OF assms(1)] * y by blast
  then show ?thesis using s' * y erel_bypass [OF assms(1), of x d k] by simp
qed

theorem delete_node_bypass_witness:
  "gives (delete_with False ex_draws ex_state ex_delete 1)
     (\<lambda>(res, s', k'). erel s' = {(''t'', ''a''), (''t'', ''b'')})"
proof -
  obtain res s' k' where r: "delete_with False ex_draws ex_state ex_delete 1 = Inr (res, s', k')"
    using ex_deletes by (auto simp: is_ok_iff)
  have "delete_request ex_delete = Inr (''g'', False)" by code_simp
  from delete_node_bypass [OF ex_inv r this] r show ?thesis by (simp add: gives_def ex_erel, blast)
qed

text \<open>\<open>delete_node\<close> with its children removes the node and everything below it, and exactly the
  edges that touched them.\<close>

theorem delete_subtree_effect:
  assumes "ft_inv s" and "delete_with permissive d s args k = Inr (res, s', k')"
    and "delete_request args = Inr (x, True)"
  shows "st_nodes s' = filter (\<lambda>n. (x, nid n) \<notin> (erel s)\<^sup>*) (st_nodes s)
    \<and> erel s' = {(a, b) \<in> erel s. (x, a) \<notin> (erel s)\<^sup>* \<and> (x, b) \<notin> (erel s)\<^sup>*}"
  using assms(2,1)
proof (rule delete_with_Inr)
  fix y c n assume *: "delete_request args = Inr (y, c)" "TrimSpace y = y" "y \<noteq> []"
    and s': "s' = (if c then snd (removeNodes s (insert y (set (collectDescendants s y))))
      else snd (addEdges (snd (removeNodes s {y}))
        (fresh_edges d k (bypass_pairs (parentIDsOf s y) (childIDsOf s y)))))"
  from * assms(3) have y: "y = x" "c" by auto
  have below: "z \<in> insert x (set (collectDescendants s x)) \<longleftrightarrow> (x, z) \<in> (erel s)\<^sup>*" for z
    using * y set_collectDescendants [of x s] by auto
  have s': "s' = snd (removeNodes s (insert x (set (collectDescendants s x))))" using s' y by simp
  have "erel s' = {(a, b) \<in> erel s. (x, a) \<notin> (erel s)\<^sup>* \<and> (x, b) \<notin> (erel s)\<^sup>*}"
    unfolding s' erel_removeNodes below ..
  moreover have "st_nodes s' = filter (\<lambda>n. (x, nid n) \<notin> (erel s)\<^sup>*) (st_nodes s)"
    unfolding s' removeNodes_sel below ..
  ultimately show ?thesis by blast
qed

theorem delete_subtree_effect_witness:
  "gives (delete_with False ex_draws ex_state ex_prune 1) (\<lambda>(res, s', k'). erel s' = {})"
proof -
  obtain res s' k' where r: "delete_with False ex_draws ex_state ex_prune 1 = Inr (res, s', k')"
    using ex_deletes by (auto simp: is_ok_iff)
  have "delete_request ex_prune = Inr (''g'', True)" by code_simp
  from delete_subtree_effect [OF ex_inv r this] r show ?thesis by (auto simp: gives_def ex_erel)
qed

text \<open>\<open>add_gate\<close> makes one new node, hangs it under the requested parent and moves exactly the
  chosen children of that parent under it; a NOT gate takes one child, and in strict mode any other
  gate takes at least two.\<close>

theorem add_gate_effect:
  assumes "ft_inv s" and "fresh_draws d k k' s" and "add_gate_with permissive d s args k = Inr (res, s', k')"
  shows "\<exists>p gate g cs. node_ids s' = insert gate (node_ids s) \<and> gate \<notin> node_ids s \<and> p \<in> node_ids s
    \<and> set cs \<subseteq> {c. (p, c) \<in> erel s} \<and> distinct cs \<and> cs \<noteq> []
    \<and> erel s' = {(a, b) \<in> erel s. \<not> (a = p \<and> b \<in> set cs)} \<union> {(p, gate)} \<union> {gate} \<times> set cs
    \<and> isValidGateType g \<and> (g = ''NOT'' \<longrightarrow> length cs = 1) \<and> (g \<noteq> ''NOT'' \<and> \<not> permissive \<longrightarrow> 2 \<le> length cs)"
  using assms(3)
proof (rule add_gate_with_Inr)
  fix g p cs n assume *: "getNode s p = Some n" "TrimSpace p = p" "\<forall>c \<in> set cs. child_ok s p c" "distinct cs"
    "cs \<noteq> []" "isValidGateType g" "g = ''NOT'' \<longrightarrow> length cs = 1" "g \<noteq> ''NOT'' \<longrightarrow> \<not> permissive \<longrightarrow> 2 \<le> length cs"
    and s': "s' = gate_state d s (gate_node (NewID d k ''gate'') g) p cs (Suc k)" and k': "k' = Suc k + Suc (length cs)"
  let ?g = "NewID d k ''gate''"
  have p: "p \<in> node_ids s" using node_present [OF assms(1) *(1,2)] .
  have cs: "(p, c) \<in> erel s" if "c \<in> set cs" for c
    using child_ok_edge [OF assms(1) p *(2)] *(3) that by blast
  have fresh: "fold_case ?g \<notin> fold_case ` node_ids s"
    using fresh_first_id [OF assms(2)] k' by (simp add: node_prefixes_def)
  then have new: "?g \<notin> node_ids s" by auto
  have "erel s' = {(a, b) \<in> erel s. \<not> (a = p \<and> b \<in> set cs)} \<union> {(p, ?g)} \<union> {?g} \<times> set cs"
    using erel_gate_state [OF assms(1), of "gate_node ?g g" p cs d "Suc k"] s' fresh p *(2,3) by simp
  moreover have "node_ids s' = insert ?g (node_ids s)"
    by (simp add: s' gate_state_def del: addEdges.simps)
  ultimately show ?thesis using new p cs * by blast
qed

theorem add_gate_effect_witness:
  "gives (add_gate_with False ex_draws ex_state ex_gate 1)
     (\<lambda>(res, s', k'). \<exists>gate. node_ids s' = insert gate (node_ids ex_state) \<and> gate \<notin> node_ids ex_state)"
proof -
  have "gives (add_gate_with False ex_draws ex_state ex_gate 1) (\<lambda>(res, s', k'). k' = 5)" by code_simp
  then obtain res s' where r: "add_gate_with False ex_draws ex_state ex_gate 1 = Inr (res, s', 5)"
    by (auto elim!: gives_stepE)
  from add_gate_effect [OF ex_inv ex_fresh r] r show ?thesis by (auto simp: gives_def)
qed

subsection \<open>Strict and permissive handlers\<close>

text \<open>C18: the permissive dispatcher refines the strict one: every call the strict dispatcher accepts is
  accepted in repair mode too, with the same new tree, the same patch and counts and the same
  identifiers drawn.\<close>

theorem repair_mode_accepts_strict_calls:
  assumes "applyOperation d s t args k = Inr (res, s', k')"
  shows "\<exists>res'. applyOperationPermissive d s t args k = Inr (res', s', k') \<and> op_patch res' = op_patch res
    \<and> op_changedNodes res' = op_changedNodes res \<and> op_changedEdges res' = op_changedEdges res"
  using dispatch_accepted [of d s t args k] assms
  by (auto simp: accepted_by_def same_effect_def)

definition ex_first :: raw_message where
  "ex_first = args1 [(''name'', JStr ''T''), (''nodeType'', JStr ''topEvent'')]"

theorem repair_mode_accepts_strict_calls_witness:
  "is_ok (applyOperationPermissive ex_draws (newFaultTreeState [] []) ''add_node'' ex_first 1)"
proof -
  have "is_ok (applyOperation ex_draws (newFaultTreeState [] []) ''add_node'' ex_first 1)" by code_simp
  then obtain res s' k' where "applyOperation ex_draws (newFaultTreeState [] []) ''add_node'' ex_first 1 = Inr (res, s', k')"
    by (auto simp: is_ok_iff)
  from repair_mode_accepts_strict_calls [OF this] show ?thesis by auto
qed

subsection \<open>The subtree report\<close>

text \<open>\<open>get_subtree\<close> lists exactly the nodes within the depth limit of the requested root, each
  with the length of a shortest path from it, and exactly the edges between nodes in that range.\<close>

theorem subtree_report_exact:
  assumes "applyGetSubtree s args k = Inr (res, s', k')" and "index_ok s"
  shows "\<exists>r D nodes edges. op_summary res = ReadResult (SubtreePayload r D nodes edges) \<and> 0 < D \<and> s' = s
    \<and> (\<forall>x d. (\<exists>n. (n, d) \<in> set nodes \<and> nid n = x) \<longleftrightarrow> x \<in> node_ids s \<and> in_reach (st_edges s) r D x d)
    \<and> (\<forall>e. e \<in> set edges \<longleftrightarrow> e \<in> set (st_edges s)
         \<and> (\<exists>d. in_reach (st_edges s) r D (efrom e) d) \<and> (\<exists>d. in_reach (st_edges s) r D (eto e) d))"
proof -
  from assms(1) obtain rawID D where D: "0 < D" and "s' = s"
    and res: "op_summary res = ReadResult (SubtreePayload (TrimSpace rawID) D
      (report_nodes s (TrimSpace rawID) D) (report_edges s (TrimSpace rawID) D))"
    by (rule applyGetSubtree_Inr)
  have "(\<exists>n. (n, d) \<in> set (report_nodes s (TrimSpace rawID) D) \<and> nid n = x) \<longleftrightarrow>
      x \<in> node_ids s \<and> in_reach (st_edges s) (TrimSpace rawID) D x d" for x d
    using report_nodes_iff [OF assms(2)] D by (simp add: subtree_depths_reach)
  moreover have "e \<in> set (report_edges s (TrimSpace rawID) D) \<longleftrightarrow> e \<in> set (st_edges s)
      \<and> (\<exists>d. in_reach (st_edges s) (TrimSpace rawID) D (efrom e) d)
      \<and> (\<exists>d. in_reach (st_edges s) (TrimSpace rawID) D (eto e) d)" for e
    using D by (simp add: report_edges_iff subtree_depths_reach [symmetric])
  ultimately show ?thesis using res D \<open>s' = s\<close> by blast
qed

definition ex_subtree :: raw_message where
  "ex_subtree = args1 [(''rootNodeId'', JStr ''t''), (''maxDepth'', JNum ''1'' 1 (Some 1))]"

theorem subtree_report_exact_witness:
  "\<exists>(res :: operationResult) r D nodes edges. op_summary res = ReadResult (SubtreePayload r D nodes edges)
     \<and> (\<forall>x d. (\<exists>n. (n, d) \<in> set nodes \<and> nid n = x) \<longleftrightarrow> x \<in> {''t'', ''g'', ''a'', ''b''} \<and> in_reach ex_edges r D x d)"
proof -
  have f: "unmarshal ex_subtree = Inr [(''rootNodeId'', JStr ''t''), (''maxDepth'', JNum ''1'' 1 (Some 1))]"
    "req_string [(''rootNodeId'', JStr ''t''), (''maxDepth'', JNum ''1'' 1 (Some 1))] ''rootNodeId'' = Inr ''t''"
    "req_int [(''rootNodeId'', JStr ''t''), (''maxDepth'', JNum ''1'' 1 (Some 1))] ''maxDepth'' = Inr 1" by code_simp+
  have "getNode ex_state ''t'' \<noteq> None" by code_simp
  then obtain n where l: "lookup ex_state (TrimSpace ''t'') (TrimSpace ''t'') = Inr n" by auto
  have "is_ok (applyGetSubtree ex_state ex_subtree 1)"
    unfolding applyGetSubtree_report f bindE_simps Let_def l by simp
  then obtain res s' k' where r: "applyGetSubtree ex_state ex_subtree 1 = Inr (res, s', k')"
    by (auto simp: is_ok_iff)
  from subtree_report_exact [OF r ft_invD(1) [OF ex_inv], unfolded ex_ids ex_state_sel]
  obtain rt D nodes edges where "op_summary res = ReadResult (SubtreePayload rt D nodes edges)"
    and "\<forall>x d. (\<exists>n. (n, d) \<in> set nodes \<and> nid n = x) \<longleftrightarrow>
      x \<in> {''t'', ''g'', ''a'', ''b''} \<and> in_reach ex_edges rt D x d" by (elim exE conjE)
  then show ?thesis by (intro exI conjI) assumption+
qed

end
