(* ===== verification/KnowledgeGraph.thy ===== *)
theory KnowledgeGraph
  imports GraphService
begin

text \<open>
  The knowledge-graph service (\<open>internal/service/knowledge_graph.go\<close>): the normalisation of types and
  identifiers before a save, the save with the optimistic lock, and the validation. The text of
  a SHA-1 sum in hexadecimal is the parameter \<open>sha\<close>.
\<close>

subsection \<open>Normalisation\<close>

definition normalizeKGNodeType :: "string \<Rightarrow> string" where
  "normalizeKGNodeType raw =
     (let v = TrimSpace raw in
      if v = ''entityNode'' \<or> v = ''eventNode'' \<or> v = ''causeNode'' then v else ''entityNode'')"

definition normalizeKGEntityType :: "string \<Rightarrow> string" where
  "normalizeKGEntityType raw =
     (let v = ToLower (TrimSpace raw) in
      if v = ''component'' \<or> v = ''event'' \<or> v = ''cause'' \<or> v = ''other'' then v
      else if v = ''componentnode'' \<or> v = ''entitynode'' then ''component''
      else if v = ''eventnode'' then ''event''
      else if v = ''causenode'' then ''cause''
      else ''other'')"

definition normalize_node_types :: "KnowledgeGraphNode \<Rightarrow> KnowledgeGraphNode" where
  "normalize_node_types n =
     (let ty = normalizeKGNodeType (kn_Type n); et = normalizeKGEntityType (kn_EntityType n) in
      n\<lparr>kn_Type := ty, kn_EntityType :=
         (if et = ''other''
          then (if ty = ''eventNode'' then ''event'' else if ty = ''causeNode'' then ''cause'' else ''component'')
          else et)\<rparr>)"

definition normalizeKnowledgeGraphNodes :: "KnowledgeGraphNode list \<Rightarrow> KnowledgeGraphNode list" where
  "normalizeKnowledgeGraphNodes ns = map normalize_node_types ns"

definition bounded_id :: "(string \<Rightarrow> string) \<Rightarrow> nat \<Rightarrow> string \<Rightarrow> string \<Rightarrow> string" where
  \<comment> \<open>the common body of \<open>normalizeKGBoundedID\<close> and \<open>normalizeBoundedID\<close>; Go's \<open>maxLen - len(prefix) - 1\<close>
     may be negative, the difference here is at least 0 and both are raised to 8\<close>
  "bounded_id sha maxLen raw prefix =
     (let v = (if TrimSpace raw = '''' then prefix else TrimSpace raw) in
      if length v \<le> maxLen then v
      else prefix @ ''_'' @ take (min (max (maxLen - length prefix - 1) 8) (length (sha v))) (sha v))"

definition normalizeKGBoundedID :: "(string \<Rightarrow> string) \<Rightarrow> string \<Rightarrow> string \<Rightarrow> string" where
  "normalizeKGBoundedID sha raw prefix = bounded_id sha 32 raw prefix"

definition old_id :: "nat \<Rightarrow> KnowledgeGraphNode \<Rightarrow> string" where
  "old_id i n = (if TrimSpace (kn_ID n) = '''' then ''node_'' @ show_nat (i + 1) else TrimSpace (kn_ID n))"

definition id_pairs :: "(string \<Rightarrow> string) \<Rightarrow> KnowledgeGraphNode list \<Rightarrow> (string \<times> string) list" where
  "id_pairs sha ns = map (\<lambda>(i, n). (old_id i n, normalizeKGBoundedID sha (old_id i n) ''n'')) (enumerate 0 ns)"

definition id_map :: "(string \<Rightarrow> string) \<Rightarrow> KnowledgeGraphNode list \<Rightarrow> string \<Rightarrow> string option" where
  \<comment> \<open>the last node with an ID wins\<close>
  "id_map sha ns = map_of (rev (id_pairs sha ns))"

definition renamed_end :: "(string \<Rightarrow> string) \<Rightarrow> (string \<Rightarrow> string option) \<Rightarrow> string \<Rightarrow> string" where
  "renamed_end sha m raw = (case m (TrimSpace raw) of Some i \<Rightarrow> i | None \<Rightarrow> normalizeKGBoundedID sha (TrimSpace raw) ''n'')"

definition renamed_edge :: "(string \<Rightarrow> string) \<Rightarrow> (string \<Rightarrow> string option) \<Rightarrow> nat \<Rightarrow> KnowledgeGraphEdge \<Rightarrow> KnowledgeGraphEdge" where
  "renamed_edge sha m i e =
     (let eid = (if TrimSpace (ke_ID e) = ''''
            then ''edge_'' @ show_nat (i + 1) @ ''_'' @ ke_SourceNodeID e @ ''_'' @ ke_TargetNodeID e
            else TrimSpace (ke_ID e))
      in e\<lparr>ke_ID := normalizeKGBoundedID sha eid ''e'', ke_SourceNodeID := renamed_end sha m (ke_SourceNodeID e),
           ke_TargetNodeID := renamed_end sha m (ke_TargetNodeID e)\<rparr>)"

definition normalizeKnowledgeGraphIDs ::
    "(string \<Rightarrow> string) \<Rightarrow> KnowledgeGraphNode list \<Rightarrow> KnowledgeGraphEdge list
      \<Rightarrow> KnowledgeGraphNode list \<times> KnowledgeGraphEdge list" where
  "normalizeKnowledgeGraphIDs sha ns es =
     (map (\<lambda>(i, n). n\<lparr>kn_ID := normalizeKGBoundedID sha (old_id i n) ''n''\<rparr>) (enumerate 0 ns),
      map (\<lambda>(i, e). renamed_edge sha (id_map sha ns) i e) (enumerate 0 es))"

subsection \<open>Saving and validating\<close>

definition own_knode :: "string \<Rightarrow> KnowledgeGraphNode \<Rightarrow> KnowledgeGraphNode" where
  "own_knode pid n = n\<lparr>kn_ProjectID := pid\<rparr>"

definition own_kedge :: "string \<Rightarrow> KnowledgeGraphEdge \<Rightarrow> KnowledgeGraphEdge" where
  "own_kedge pid e = e\<lparr>ke_ProjectID := pid\<rparr>"

definition save_kg ::
    "(db \<Rightarrow> bool) \<Rightarrow> string \<Rightarrow> KnowledgeGraphNode list \<Rightarrow> KnowledgeGraphEdge list \<Rightarrow> int \<Rightarrow> db
      \<Rightarrow> graph_error + db" where
  "save_kg accepts pid nodes edges revision db =
     bindE (BatchReplaceKnowledgeGraph accepts db pid (map (own_knode pid) nodes) (map (own_kedge pid) edges)) (\<lambda>db1.
       case UpdateGraphMetaCAS db1 pid revision (revision + 1) 0 0 (length nodes) (length edges) of
         (affected, db2) \<Rightarrow> if affected = 0 then Inl ErrExecutorVersionConflict else Inr db2)"

definition SaveKnowledgeGraph ::
    "(string \<Rightarrow> string) \<Rightarrow> (db \<Rightarrow> bool) \<Rightarrow> string \<Rightarrow> KnowledgeGraphNode list \<Rightarrow> KnowledgeGraphEdge list \<Rightarrow> int
      \<Rightarrow> db \<Rightarrow> (service_error + SaveGraphResult) \<times> db" where
  "SaveKnowledgeGraph sha accepts pid nodes edges revision db =
     (let (ns, es) = normalizeKnowledgeGraphIDs sha (normalizeKnowledgeGraphNodes nodes) edges in
      case transaction db (save_kg accepts pid ns es revision) of
        (Inl e, db') \<Rightarrow> (Inl (if e = ErrExecutorVersionConflict then ErrVersionConflict else SvcErr e), db')
      | (Inr _, db') \<Rightarrow> (Inr \<lparr> sg_Revision = revision + 1, sg_NodeCount = length ns, sg_EdgeCount = length es \<rparr>, db'))"

definition ValidateKnowledgeGraph :: "KnowledgeGraphNode list \<Rightarrow> KnowledgeGraphEdge list \<Rightarrow> ftaConstraintIssue list" where
  "ValidateKnowledgeGraph nodes edges =
     (let known = (\<lambda>i. list_ex (\<lambda>n. kn_ID n = i) nodes) in
      concat (map (\<lambda>e.
          (if known (ke_SourceNodeID e) then [] else [mk_issue (ke_SourceNodeID e) ''error'' ''MISSING_SOURCE_NODE''])
        @ (if known (ke_TargetNodeID e) then [] else [mk_issue (ke_TargetNodeID e) ''error'' ''MISSING_TARGET_NODE'']))
        edges)
      @ map (\<lambda>n. mk_issue (kn_ID n) ''warning'' ''EMPTY_LABEL'') (filter (\<lambda>n. kn_Label n = '''') nodes))"

subsection \<open>Bounded identifiers\<close>

text \<open>What a SHA-1 sum in hexadecimal looks like: forty characters, none of them white space.\<close>

definition hex40 :: "(string \<Rightarrow> string) \<Rightarrow> bool" where
  "hex40 sha \<longleftrightarrow> (\<forall>v. length (sha v) = 40 \<and> list_all plain_char (sha v))"

lemma bounded_id_short: "length (TrimSpace raw) \<le> m \<Longrightarrow> TrimSpace raw \<noteq> [] \<Longrightarrow> bounded_id sha m raw p = TrimSpace raw"
  by (simp add: bounded_id_def)

lemma bounded_id_length:
  assumes "hex40 sha" and "length p + 9 \<le> m"
  shows "length (bounded_id sha m raw p) \<le> m"
  using assms by (auto simp: bounded_id_def hex40_def Let_def)

lemma bounded_id_nonempty: "p \<noteq> [] \<Longrightarrow> bounded_id sha m raw p \<noteq> []"
  by (auto simp: bounded_id_def Let_def)

lemma bounded_id_trim:
  assumes "hex40 sha" and "p \<noteq> []" and "list_all plain_char p"
  shows "TrimSpace (bounded_id sha m raw p) = bounded_id sha m raw p"
proof -
  let ?v = "if TrimSpace raw = '''' then p else TrimSpace raw"
  have plain: "plain_char (hd p)" "plain_char (last p)" using assms(2,3) by (auto simp: list_all_iff)
  have hash: "TrimSpace (p @ ''_'' @ take k (sha w)) = p @ ''_'' @ take k (sha w)" if "0 < k" for k w
  proof (rule TrimSpace_plain)
    have "length (sha w) = 40" using assms(1) by (simp add: hex40_def)
    with that have ne: "take k (sha w) \<noteq> []" by auto
    then have "last (take k (sha w)) \<in> set (sha w)" by (meson in_set_takeD last_in_set)
    with assms(1) ne show "plain_char (last (p @ ''_'' @ take k (sha w)))"
      by (auto simp: hex40_def list_all_iff)
    show "plain_char (hd (p @ ''_'' @ take k (sha w)))" using assms(2) plain by simp
  qed (use assms(2) in simp)
  have v: "TrimSpace ?v = ?v" using TrimSpace_plain [of p] assms(2) plain by simp
  have "0 < min (max (m - length p - 1) 8) (length (sha ?v))" using assms(1) by (simp add: hex40_def)
  from v hash [OF this] show ?thesis by (auto simp: bounded_id_def Let_def)
qed

lemma bounded_id_idem:
  assumes "hex40 sha" and "p \<noteq> []" and "list_all plain_char p" and "length p + 9 \<le> m"
  shows "bounded_id sha m (bounded_id sha m raw p) q = bounded_id sha m raw p"
  using bounded_id_short [of "bounded_id sha m raw p" m sha q] bounded_id_length [OF assms(1,4), of raw]
    bounded_id_nonempty [OF assms(2)] bounded_id_trim [OF assms(1-3)] by simp

text \<open>The table of the identifiers holds nothing that the fallback would not compute.\<close>

lemma renamed_end_table:
  "renamed_end sha (id_map sha ns) raw = normalizeKGBoundedID sha (TrimSpace raw) ''n''"
  by (auto simp: renamed_end_def id_map_def id_pairs_def split: option.split dest!: map_of_rev_Some_in)

subsection \<open>Normalising twice\<close>

lemma kg_prefix_plain [simp]: "plain_char (CHR ''n'')" "plain_char (CHR ''e'')"
  by (simp_all add: plain_char_def less_eq_char_def)

lemma kg_id_idem [simp]:
  assumes "hex40 sha" and "p = ''n'' \<or> p = ''e''"
  shows "normalizeKGBoundedID sha (normalizeKGBoundedID sha raw p) q = normalizeKGBoundedID sha raw p"
    and "TrimSpace (normalizeKGBoundedID sha raw p) = normalizeKGBoundedID sha raw p"
    and "normalizeKGBoundedID sha raw p \<noteq> []"
  using assms by (auto simp: normalizeKGBoundedID_def bounded_id_idem bounded_id_trim bounded_id_nonempty)

lemma node_type_cases:
  "normalizeKGNodeType raw \<in> {''entityNode'', ''eventNode'', ''causeNode''}"
  by (simp add: normalizeKGNodeType_def Let_def)

lemma type_names:
  "TrimSpace ''entityNode'' = ''entityNode''" "TrimSpace ''eventNode'' = ''eventNode''"
  "TrimSpace ''causeNode'' = ''causeNode''"
  "normalizeKGEntityType ''component'' = ''component''" "normalizeKGEntityType ''event'' = ''event''"
  "normalizeKGEntityType ''cause'' = ''cause''"
  by code_simp+

lemma entity_type_cases:
  "normalizeKGEntityType raw \<in> {''component'', ''event'', ''cause'', ''other''}"
  by (simp add: normalizeKGEntityType_def Let_def)

lemma stored_types:
  "kn_Type (normalize_node_types n) \<in> {''entityNode'', ''eventNode'', ''causeNode''}"
  "kn_EntityType (normalize_node_types n) \<in> {''component'', ''event'', ''cause''}"
  using node_type_cases [of "kn_Type n"] entity_type_cases [of "kn_EntityType n"]
  by (auto simp: normalize_node_types_def Let_def)

lemma normalize_node_types_id:
  assumes "kn_Type n \<in> {''entityNode'', ''eventNode'', ''causeNode''}"
    and "kn_EntityType n \<in> {''component'', ''event'', ''cause''}"
  shows "normalize_node_types n = n"
proof -
  have "normalizeKGNodeType (kn_Type n) = kn_Type n"
    using assms(1) by (auto simp: normalizeKGNodeType_def type_names)
  moreover have "normalizeKGEntityType (kn_EntityType n) = kn_EntityType n"
    using assms(2) by (auto simp: type_names)
  moreover have "kn_EntityType n \<noteq> ''other''" using assms(2) by auto
  ultimately show ?thesis by (simp add: normalize_node_types_def Let_def)
qed

text \<open>A normalised graph: its types are the three known ones and every identifier is one that the
  normalisation produces.\<close>

definition kg_normal :: "(string \<Rightarrow> string) \<Rightarrow> KnowledgeGraphNode list \<Rightarrow> KnowledgeGraphEdge list \<Rightarrow> bool" where
  "kg_normal sha ns es \<longleftrightarrow>
     (\<forall>n\<in>set ns. kn_Type n \<in> {''entityNode'', ''eventNode'', ''causeNode''}
        \<and> kn_EntityType n \<in> {''component'', ''event'', ''cause''} \<and> kn_ID n \<in> range (\<lambda>r. normalizeKGBoundedID sha r ''n''))
     \<and> (\<forall>e\<in>set es. ke_ID e \<in> range (\<lambda>r. normalizeKGBoundedID sha r ''e'')
        \<and> ke_SourceNodeID e \<in> range (\<lambda>r. normalizeKGBoundedID sha r ''n'')
        \<and> ke_TargetNodeID e \<in> range (\<lambda>r. normalizeKGBoundedID sha r ''n''))"

lemma renamed_edge_sel [simp]:
  "ke_ProjectID (renamed_edge sha m i e) = ke_ProjectID e"
  "ke_SourceNodeID (renamed_edge sha m i e) = renamed_end sha m (ke_SourceNodeID e)"
  "ke_TargetNodeID (renamed_edge sha m i e) = renamed_end sha m (ke_TargetNodeID e)"
  by (simp_all add: renamed_edge_def)

lemma normalised_normal:
  assumes "normalizeKnowledgeGraphIDs sha (normalizeKnowledgeGraphNodes ns) es = (ns', es')"
  shows "kg_normal sha ns' es'"
proof -
  have "kn_Type n \<in> {''entityNode'', ''eventNode'', ''causeNode''}
      \<and> kn_EntityType n \<in> {''component'', ''event'', ''cause''} \<and> kn_ID n \<in> range (\<lambda>r. normalizeKGBoundedID sha r ''n'')"
    if "n \<in> set ns'" for n
  proof -
    from that assms obtain m i where "n = (normalize_node_types m)\<lparr>kn_ID := normalizeKGBoundedID sha i ''n''\<rparr>"
      by (auto simp: normalizeKnowledgeGraphIDs_def normalizeKnowledgeGraphNodes_def in_set_enumerate_eq)
    with stored_types [of m] show ?thesis by simp
  qed
  moreover have "ke_ID e \<in> range (\<lambda>r. normalizeKGBoundedID sha r ''e'')
      \<and> ke_SourceNodeID e \<in> range (\<lambda>r. normalizeKGBoundedID sha r ''n'')
      \<and> ke_TargetNodeID e \<in> range (\<lambda>r. normalizeKGBoundedID sha r ''n'')" if "e \<in> set es'" for e
    using that assms by (auto simp: normalizeKnowledgeGraphIDs_def renamed_edge_def renamed_end_table Let_def)
  ultimately show ?thesis by (simp add: kg_normal_def)
qed

lemma normal_fixpoint:
  assumes "hex40 sha" and "kg_normal sha ns es"
  shows "normalizeKnowledgeGraphIDs sha (normalizeKnowledgeGraphNodes ns) es = (ns, es)"
proof -
  have types: "normalizeKnowledgeGraphNodes ns = ns"
    using assms(2) by (auto simp: normalizeKnowledgeGraphNodes_def kg_normal_def intro!: map_idI normalize_node_types_id)
  have node: "n\<lparr>kn_ID := normalizeKGBoundedID sha (old_id i n) ''n''\<rparr> = n" if n: "n \<in> set ns" for i n
  proof -
    from n assms(2) have "kn_ID n \<in> range (\<lambda>r. normalizeKGBoundedID sha r ''n'')" by (simp add: kg_normal_def)
    with assms(1) have "normalizeKGBoundedID sha (old_id i n) ''n'' = kn_ID n" by (auto simp: old_id_def)
    then show ?thesis by simp
  qed
  have edge: "renamed_edge sha (id_map sha ns) i e = e" if e: "e \<in> set es" for i e
  proof -
    from e assms(2) have "ke_ID e \<in> range (\<lambda>r. normalizeKGBoundedID sha r ''e'')"
      "ke_SourceNodeID e \<in> range (\<lambda>r. normalizeKGBoundedID sha r ''n'')"
      "ke_TargetNodeID e \<in> range (\<lambda>r. normalizeKGBoundedID sha r ''n'')" by (auto simp: kg_normal_def)
    with assms(1) show ?thesis by (auto simp: renamed_edge_def renamed_end_table Let_def)
  qed
  have "map (\<lambda>(i, n). n\<lparr>kn_ID := normalizeKGBoundedID sha (old_id i n) ''n''\<rparr>) (enumerate 0 ns) = ns"
    by (rule nth_equalityI) (simp_all add: nth_enumerate_eq node)
  moreover have "map (\<lambda>(i, e). renamed_edge sha (id_map sha ns) i e) (enumerate 0 es) = es"
    by (rule nth_equalityI) (simp_all add: nth_enumerate_eq edge)
  ultimately show ?thesis by (simp add: types normalizeKnowledgeGraphIDs_def)
qed

subsection \<open>What a save stores\<close>

lemma BatchReplaceKG_other:
  assumes "BatchReplaceKnowledgeGraph accepts db pid (map (own_knode pid) ns) (map (own_kedge pid) es) = Inr db'"
    and "q \<noteq> pid"
  shows "GetKnowledgeGraphGraph db' q = GetKnowledgeGraphGraph db q"
  using assms by (auto simp: BatchReplaceKnowledgeGraph_def GetKnowledgeGraphGraph_def own_knode_def own_kedge_def
      filter_empty_conv Let_def split: if_splits intro: filter_cong)

lemma SaveKG_error: "SaveKnowledgeGraph sha accepts pid ns es r db = (Inl e, db') \<Longrightarrow> db' = db"
  by (auto simp: SaveKnowledgeGraph_def transaction_def split: sum.splits prod.splits)

lemma SaveKG_ok:
  assumes "SaveKnowledgeGraph sha accepts pid ns es r db = (Inr res, db')"
    and "normalizeKnowledgeGraphIDs sha (normalizeKnowledgeGraphNodes ns) es = (ns', es')"
  shows "\<exists>p. db_projects db pid = Some p \<and> proj_GraphRevision p = r"
    and "GetKnowledgeGraphGraph db' pid = (map (fill_knode \<circ> own_knode pid) ns', map (fill_kedge \<circ> own_kedge pid) es')"
    and "\<exists>p. db_projects db pid = Some p \<and>
      db_projects db' = (db_projects db)(pid \<mapsto> set_graph_meta (r + 1) 0 0 (length ns') (length es') p)"
    and "GetFaultTreeGraph db' = GetFaultTreeGraph db"
    and "q \<noteq> pid \<Longrightarrow> GetKnowledgeGraphGraph db' q = GetKnowledgeGraphGraph db q"
proof -
  from assms obtain db1 n where
    rep: "BatchReplaceKnowledgeGraph accepts db pid (map (own_knode pid) ns') (map (own_kedge pid) es') = Inr db1"
    and cas: "UpdateGraphMetaCAS db1 pid r (r + 1) 0 0 (length ns') (length es') = (Suc n, db')"
    by (auto simp: SaveKnowledgeGraph_def save_kg_def transaction_def gr0_conv_Suc split: sum.splits prod.splits if_splits)
  note frame = BatchReplaceKG_frame [OF rep]
  from cas obtain p where p: "db_projects db1 pid = Some p" "proj_GraphRevision p = r" and
    db': "db' = db1\<lparr>db_projects := (db_projects db1)(pid \<mapsto> set_graph_meta (r + 1) 0 0 (length ns') (length es') p)\<rparr>"
    unfolding CAS_won by auto
  have graph: "GetKnowledgeGraphGraph db' q = GetKnowledgeGraphGraph db1 q" for q
    by (simp add: db' GetKnowledgeGraphGraph_def)
  show "\<exists>p. db_projects db pid = Some p \<and> proj_GraphRevision p = r" using p frame by simp
  show "GetKnowledgeGraphGraph db' pid = (map (fill_knode \<circ> own_knode pid) ns', map (fill_kedge \<circ> own_kedge pid) es')"
    using BatchReplaceKG_own [OF rep] by (simp add: graph own_knode_def own_kedge_def)
  show "\<exists>p. db_projects db pid = Some p \<and>
      db_projects db' = (db_projects db)(pid \<mapsto> set_graph_meta (r + 1) 0 0 (length ns') (length es') p)"
    using p frame by (simp add: db')
  show "GetFaultTreeGraph db' = GetFaultTreeGraph db"
    by (rule ext) (simp add: db' GetFaultTreeGraph_def frame)
  show "q \<noteq> pid \<Longrightarrow> GetKnowledgeGraphGraph db' q = GetKnowledgeGraphGraph db q"
    using BatchReplaceKG_other [OF rep] by (simp add: graph)
qed

lemma SaveKG_succeeds:
  assumes "db_projects db pid = Some p" and "proj_GraphRevision p = r" and "\<forall>d. accepts d"
  obtains res where "SaveKnowledgeGraph sha accepts pid ns es r db = (Inr res, snd (SaveKnowledgeGraph sha accepts pid ns es r db))"
proof -
  obtain ns' es' where norm: "normalizeKnowledgeGraphIDs sha (normalizeKnowledgeGraphNodes ns) es = (ns', es')" by fastforce
  obtain db1 where "BatchReplaceKnowledgeGraph accepts db pid (map (own_knode pid) ns') (map (own_kedge pid) es') = Inr db1"
    using assms(3) by (simp add: BatchReplaceKnowledgeGraph_def Let_def)
  with BatchReplaceKG_frame [OF this] assms show thesis
    by (intro that) (simp add: SaveKnowledgeGraph_def norm save_kg_def transaction_def UpdateGraphMetaCAS_def)
qed

lemma fill_kg_idem [simp]:
  "fill_knode (fill_knode n) = fill_knode n" "fill_kedge (fill_kedge e) = fill_kedge e"
  "own_knode pid (fill_knode n) = fill_knode (own_knode pid n)" "own_kedge pid (fill_kedge e) = fill_kedge (own_kedge pid e)"
  "own_knode pid (own_knode pid n) = own_knode pid n" "own_kedge pid (own_kedge pid e) = own_kedge pid e"
  by (simp_all add: fill_knode_def fill_kedge_def json_or_def own_knode_def own_kedge_def)

lemma kg_normal_stored:
  "kg_normal sha ns es \<Longrightarrow> kg_normal sha (map (fill_knode \<circ> own_knode pid) ns) (map (fill_kedge \<circ> own_kedge pid) es)"
  by (simp add: kg_normal_def fill_knode_def fill_kedge_def own_knode_def own_kedge_def)

end
