(* ===== verification/Writers.thy ===== *)
theory Writers
  imports KnowledgeGraph
begin

text \<open>
  All writers of a project's graphs: the entry points of the executor and the two graph services. Each
  call leaves both graphs of a project alone or raises the project's revision by one. That contract is
  the locale \<open>revisioned\<close>: the content of a revision never changes, so a reader whose revision is
  still the current one has read the current graph.
\<close>

definition current_revision :: "string \<Rightarrow> db \<Rightarrow> int" where
  "current_revision pid db = (case db_projects db pid of None \<Rightarrow> -1 | Some p \<Rightarrow> proj_GraphRevision p)"

definition graphs_of :: "db \<Rightarrow> string \<Rightarrow> ft_graph \<times> (KnowledgeGraphNode list \<times> KnowledgeGraphEdge list)" where
  "graphs_of db pid = (GetFaultTreeGraph db pid, GetKnowledgeGraphGraph db pid)"

text \<open>One call of one of the functions that write graphs, by any client, for any project.\<close>

inductive graph_write :: "db \<Rightarrow> db \<Rightarrow> bool" where
  snapshot: "ExecuteFaultTreeSnapshot d accepts found pid t args bn be r k db = (res, db') \<Longrightarrow> graph_write db db'"
| execute: "Execute d accepts loaded found pid ty t args k db = (eres, db') \<Longrightarrow> graph_write db db'"
| patch_set: "ApplyPatchSet d accepts loaded found pid ty planned k db = (eres, db') \<Longrightarrow> graph_write db db'"
| save: "SaveGraph accepts pid ns es r db = (sres, db') \<Longrightarrow> graph_write db db'"
| save_kg: "SaveKnowledgeGraph sha accepts pid kns kes r db = (sres, db') \<Longrightarrow> graph_write db db'"

definition step_of :: "string \<Rightarrow> db \<Rightarrow> db \<Rightarrow> bool" where
  \<comment> \<open>the graphs of a project are untouched, or the revision went up by one\<close>
  "step_of pid db db' \<longleftrightarrow>
     current_revision pid db' = current_revision pid db \<and> graphs_of db' pid = graphs_of db pid
     \<or> current_revision pid db' = current_revision pid db + 1"

lemma step_of_refl [simp]: "step_of pid db db"
  by (simp add: step_of_def)

lemma committed_step: "committed p s base db db' \<Longrightarrow> step_of pid db db'"
  by (cases "p = pid") (auto simp: committed_def step_of_def current_revision_def graphs_of_def)

lemma graph_write_step: "graph_write db db' \<Longrightarrow> step_of pid db db'"
proof (induction rule: graph_write.induct)
  case (snapshot d accepts found p t args bn be r k db res db')
  then show ?case
    by (cases res) (auto dest!: snapshot_error elim!: snapshot_Inr dest: apply_ok_cases committed_step)
next
  case (execute d accepts loaded found p ty t args k db eres db')
  then show ?case
    by (cases eres) (auto dest!: Execute_error elim!: Execute_Inr dest: apply_ok_cases committed_step)
next
  case (patch_set d accepts loaded found p ty planned k db eres db')
  then show ?case
    by (cases eres) (auto dest!: ApplyPatchSet_error elim!: ApplyPatchSet_Inr dest: apply_ok_cases committed_step)
next
  case (save accepts p ns es r db sres db')
  show ?case
  proof (cases sres)
    case (Inl e)
    with save show ?thesis by (auto dest!: SaveGraph_error)
  next
    case (Inr res)
    with save have "SaveGraph accepts p ns es r db = (Inr res, db')" by simp
    note ok = SaveGraph_ok [OF this]
    show ?thesis
    proof (cases "p = pid")
      case True
      with ok(1,3) show ?thesis by (auto simp: step_of_def current_revision_def)
    next
      case False
      with ok(5) [of pid] ok(6) show ?thesis by (auto simp: step_of_def current_revision_def graphs_of_def)
    qed
  qed
next
  case (save_kg sha accepts p kns kes r db sres db')
  show ?case
  proof (cases sres)
    case (Inl e)
    with save_kg show ?thesis by (auto dest!: SaveKG_error)
  next
    case (Inr res)
    obtain ns' es' where "normalizeKnowledgeGraphIDs sha (normalizeKnowledgeGraphNodes kns) kes = (ns', es')" by fastforce
    note ok = SaveKG_ok [OF save_kg [unfolded Inr] this]
    show ?thesis
    proof (cases "p = pid")
      case True
      with ok(1,3) show ?thesis by (auto simp: step_of_def current_revision_def)
    next
      case False
      with ok(3,4) ok(5) [of pid] show ?thesis by (auto simp: step_of_def current_revision_def graphs_of_def)
    qed
  qed
qed

subsection \<open>The contract of a revisioned graph\<close>

locale revisioned =
  fixes version :: "'s \<Rightarrow> int" and content :: "'s \<Rightarrow> 'g" and writes :: "'s \<Rightarrow> 's \<Rightarrow> bool"
  assumes write_step: "writes s s' \<Longrightarrow>
    version s' = version s \<and> content s' = content s \<or> version s' = version s + 1"
begin

lemma writes_version:
  assumes "writes\<^sup>*\<^sup>* s s'"
  shows "version s \<le> version s' \<and> (version s' = version s \<longrightarrow> content s' = content s)"
  using assms
proof (induction rule: rtranclp_induct)
  case (step y z)
  from write_step [OF step.hyps(2)] step.IH show ?case by auto
qed simp

text \<open>A reader takes the version first and the content later, while others write.\<close>

lemma view_current:
  assumes "writes\<^sup>*\<^sup>* s0 s1" and "writes\<^sup>*\<^sup>* s1 s" and "version s = version s0"
  shows "content s = content s1"
proof -
  have "version s0 \<le> version s1" "version s1 \<le> version s"
    using assms(1,2) writes_version by blast+
  with assms(3) have "version s = version s1" by simp
  with writes_version [OF assms(2)] show ?thesis by simp
qed

end

interpretation project: revisioned "current_revision pid" "\<lambda>db. graphs_of db pid" graph_write
  by unfold_locales (use graph_write_step in \<open>auto simp: step_of_def\<close>)

end
