(* ===== verification/Members.thy ===== *)
theory Members
  imports Database
begin

text \<open>
  Members, roles and invitations of a project (\<open>internal/service/member.go\<close>,
  \<open>internal/repository/member.go\<close>, \<open>internal/model/member.go\<close>, the roles and statuses of
  \<open>internal/constant/roles.go\<close>). An operation takes what its queries outside the transaction were
  answered (\<open>found\<close>, \<open>user\<close>, \<open>target\<close>, \<open>admins\<close>) and the database at the time it writes.
  \<open>env\<close> holds the clock, the draws of identifiers, which queries fail, which rows the server takes
  and which repositories are configured. \<open>Save\<close> of gorm inserts a row whose key is not there.
  A transaction whose body returns an error leaves the database as it was.
\<close>

subsection \<open>Rows\<close>

record User =
  user_ID :: string
  user_Username :: string
  user_DisplayName :: string
  user_Email :: string
  user_Status :: string

record ProjectMember =
  pm_ID :: string
  pm_ProjectID :: string
  pm_UserID :: string
  pm_Role :: string
  pm_Status :: string

record Invitation =
  inv_ID :: string
  inv_ProjectID :: string
  inv_Email :: string
  inv_Role :: string
  inv_Status :: string
  inv_Token :: string
  inv_InvitedBy :: string
  inv_ExpiresAt :: int

text \<open>Titles, contents and summaries are format strings: one constructor per format, with its
  arguments.\<close>

datatype note_text =
    InviteTitle string | InviteContent string string
  | DecidedTitle string | DecidedContent string bool string
  | RevokedTitle | RevokedContent string
  | RoleTitle | RoleContent string string string
  | RemovedTitle | RemovedContent string

datatype note_extra =
    InviteExtra string string string string int
  | DecisionExtra string string string string string
  | RevokeExtra string string string
  | RoleExtra string string
  | RemovedExtra

record Notification =
  note_ID :: string
  note_UserID :: string
  note_Type :: string
  note_Title :: note_text
  note_Content :: note_text
  note_ProjectID :: "string option"
  note_ResourceID :: "string option"
  note_Extra :: note_extra

datatype log_text =
    InviteSummary string string | DecisionSummary bool string | RevokeSummary string
  | RoleSummary string string string | RemoveSummary string

datatype operator_name = SystemName | Named string

record AuditLog =
  log_ID :: string
  log_UserID :: "string option"
  log_OperatorName :: operator_name
  log_Action :: string
  log_ResourceType :: string
  log_ResourceID :: string
  log_Summary :: log_text
  log_ProjectID :: "string option"

record org =
  org_projects :: "string \<Rightarrow> project_row option"
  org_users :: "User list"
  org_members :: "ProjectMember list"
  org_invs :: "Invitation list"
  org_notes :: "Notification list"
  org_logs :: "AuditLog list"

datatype member_error =
    ErrMemberNotFound | ErrAlreadyMember | ErrCannotRemoveLastAdmin | ErrInvalidRole
  | ErrMemberProjectNotFound | ErrInvitationNotFound | ErrInvitationExpired | ErrInvitationProcessed
  | ErrInvitationEmailMismatch | ErrInviteEmailRequired | ErrUserNotFound | ErrToken | ErrMemberDB

subsection \<open>Queries and statements\<close>

definition FindByProjectAndUser :: "org \<Rightarrow> string \<Rightarrow> string \<Rightarrow> ProjectMember option" where
  "FindByProjectAndUser db pid uid =
     List.find (\<lambda>m. pm_ProjectID m = pid \<and> pm_UserID m = uid \<and> pm_Status m = ''active'') (org_members db)"

definition FindByProject :: "org \<Rightarrow> string \<Rightarrow> ProjectMember list" where
  "FindByProject db pid = filter (\<lambda>m. pm_ProjectID m = pid \<and> pm_Status m = ''active'') (org_members db)"

definition FindMemberByID :: "org \<Rightarrow> string \<Rightarrow> ProjectMember option" where
  "FindMemberByID db i = List.find (\<lambda>m. pm_ID m = i) (org_members db)"

definition CountAdmins :: "org \<Rightarrow> string \<Rightarrow> nat" where
  "CountAdmins db pid = length (filter
     (\<lambda>m. pm_ProjectID m = pid \<and> pm_Role m = ''admin'' \<and> pm_Status m = ''active'') (org_members db))"

definition FindProject :: "org \<Rightarrow> string \<Rightarrow> project_row option" where
  "FindProject db i = (if TrimSpace i = '''' then None else org_projects db (TrimSpace i))"

definition FindUser :: "org \<Rightarrow> string \<Rightarrow> User option" where
  "FindUser db i = List.find (\<lambda>u. user_ID u = i \<and> user_Status u \<noteq> ''banned'') (org_users db)"

definition FindUserByEmail :: "org \<Rightarrow> string \<Rightarrow> User option" where
  "FindUserByEmail db email = List.find (\<lambda>u. user_Email u = email) (org_users db)"

definition FindInvitation :: "org \<Rightarrow> string \<Rightarrow> Invitation option" where
  "FindInvitation db i = List.find (\<lambda>v. inv_ID v = i) (org_invs db)"

definition FindPendingInvitation :: "org \<Rightarrow> string \<Rightarrow> string \<Rightarrow> Invitation option" where
  "FindPendingInvitation db pid email =
     List.find (\<lambda>v. inv_ProjectID v = pid \<and> inv_Email v = email \<and> inv_Status v = ''pending'') (org_invs db)"

definition save_row :: "('a \<Rightarrow> string) \<Rightarrow> 'a \<Rightarrow> 'a list \<Rightarrow> 'a list" where
  \<comment> \<open>gorm's \<open>Save\<close>: update by primary key, insert when no row has it\<close>
  "save_row key r rows =
     (if key r \<in> set (map key rows) then map (\<lambda>x. if key x = key r then r else x) rows else rows @ [r])"

definition CreateMember :: "org \<Rightarrow> ProjectMember \<Rightarrow> org" where
  "CreateMember db m = db\<lparr>org_members := org_members db @ [m]\<rparr>"

definition UpdateMember :: "org \<Rightarrow> ProjectMember \<Rightarrow> org" where
  "UpdateMember db m = db\<lparr>org_members := save_row pm_ID m (org_members db)\<rparr>"

definition DeleteMember :: "org \<Rightarrow> string \<Rightarrow> org" where
  "DeleteMember db i = db\<lparr>org_members := filter (\<lambda>m. pm_ID m \<noteq> i) (org_members db)\<rparr>"

definition DeleteMembersByProject :: "org \<Rightarrow> string \<Rightarrow> org" where
  "DeleteMembersByProject db pid = db\<lparr>org_members := filter (\<lambda>m. pm_ProjectID m \<noteq> pid) (org_members db)\<rparr>"

definition IncrMemberCount :: "org \<Rightarrow> string \<Rightarrow> int \<Rightarrow> org" where
  "IncrMemberCount db pid delta = db\<lparr>org_projects := (org_projects db)(pid :=
     map_option (\<lambda>p. p\<lparr>proj_MemberCount := proj_MemberCount p + delta\<rparr>) (org_projects db pid))\<rparr>"

definition CreateInvitation :: "org \<Rightarrow> Invitation \<Rightarrow> org" where
  "CreateInvitation db v = db\<lparr>org_invs := org_invs db @ [v]\<rparr>"

definition UpdateInvitation :: "org \<Rightarrow> Invitation \<Rightarrow> org" where
  "UpdateInvitation db v = db\<lparr>org_invs := save_row inv_ID v (org_invs db)\<rparr>"

definition CreateNotification :: "org \<Rightarrow> Notification \<Rightarrow> org" where
  "CreateNotification db n = db\<lparr>org_notes := org_notes db @ [n]\<rparr>"

definition CreateLog :: "org \<Rightarrow> AuditLog \<Rightarrow> org" where
  "CreateLog db a = db\<lparr>org_logs := org_logs db @ [a]\<rparr>"

text \<open>What a call meets: the clock, the draws and the next one, the queries that fail, the
  databases the server takes after a statement, and the configured repositories.\<close>

datatype query = QInvitation | QMember | QPending | QInvited

record env =
  e_now :: int
  e_draws :: draws
  e_fails :: "query \<Rightarrow> bool"
  e_accepts :: "org \<Rightarrow> bool"
  e_notify :: bool
  e_audit :: bool

definition ask :: "env \<Rightarrow> query \<Rightarrow> 'a \<Rightarrow> member_error + 'a" where
  "ask env q answer = (if e_fails env q then Inl ErrMemberDB else Inr answer)"

definition put :: "env \<Rightarrow> org \<Rightarrow> member_error + org" where
  "put env db = (if e_accepts env db then Inr db else Inl ErrMemberDB)"

definition put_if :: "bool \<Rightarrow> env \<Rightarrow> org \<Rightarrow> org \<Rightarrow> member_error + org" where
  \<comment> \<open>\<open>if configured { if err := repo.Create(tx, row); err != nil { return err } }\<close>\<close>
  "put_if b env db db' = (if b then put env db' else Inr db)"

definition try_put :: "bool \<Rightarrow> env \<Rightarrow> org \<Rightarrow> org \<Rightarrow> org" where
  \<comment> \<open>\<open>_ = repo.Create(nil, row)\<close>: an error is dropped\<close>
  "try_put b env db db' = (if b \<and> e_accepts env db' then db' else db)"

definition org_transaction :: "org \<Rightarrow> (org \<Rightarrow> member_error + 'a \<times> org) \<Rightarrow> (member_error + 'a) \<times> org" where
  "org_transaction db body = (case body db of Inl e \<Rightarrow> (Inl e, db) | Inr (r, db') \<Rightarrow> (Inr r, db'))"

definition present :: "member_error \<Rightarrow> member_error + 'a option \<Rightarrow> member_error + 'a" where
  \<comment> \<open>\<open>if err != nil { return err }; if x == nil { return missing }\<close>\<close>
  "present missing r = (case r of Inl e \<Rightarrow> Inl e | Inr None \<Rightarrow> Inl missing | Inr (Some x) \<Rightarrow> Inr x)"

subsection \<open>Roles, names and e-mail addresses\<close>

definition isValidRole :: "string \<Rightarrow> bool" where
  "isValidRole role \<longleftrightarrow> role = ''admin'' \<or> role = ''editor'' \<or> role = ''viewer''"

definition RoleWeight :: "string \<Rightarrow> int" where
  \<comment> \<open>a Go map yields 0 for a key it does not hold\<close>
  "RoleWeight role = (case map_of [(''viewer'', 0), (''editor'', 1), (''admin'', 2)] role of
     None \<Rightarrow> 0 | Some w \<Rightarrow> w)"

definition normalizeEmail :: "string \<Rightarrow> string" where
  "normalizeEmail email = ToLower (TrimSpace email)"

definition displayName :: "User option \<Rightarrow> operator_name" where
  "displayName user = (case user of
     None \<Rightarrow> SystemName
   | Some u \<Rightarrow> Named (if TrimSpace (user_DisplayName u) \<noteq> '''' then user_DisplayName u
       else if TrimSpace (user_Username u) \<noteq> '''' then user_Username u else user_ID u))"

definition name_of :: "User \<Rightarrow> string" where
  "name_of u = (case displayName (Some u) of Named n \<Rightarrow> n | SystemName \<Rightarrow> '''')"
subsection \<open>Inviting\<close>

definition make_note ::
    "string \<Rightarrow> string \<Rightarrow> string \<Rightarrow> note_text \<Rightarrow> note_text \<Rightarrow> string \<Rightarrow> string \<Rightarrow> note_extra \<Rightarrow> Notification" where
  "make_note i uid ty title content pid res extra = \<lparr> note_ID = i, note_UserID = uid, note_Type = ty,
     note_Title = title, note_Content = content, note_ProjectID = Some pid, note_ResourceID = Some res,
     note_Extra = extra \<rparr>"

definition make_log ::
    "string \<Rightarrow> string option \<Rightarrow> operator_name \<Rightarrow> string \<Rightarrow> string \<Rightarrow> string \<Rightarrow> log_text \<Rightarrow> string \<Rightarrow> AuditLog" where
  "make_log i uid nm action ty res summary pid = \<lparr> log_ID = i, log_UserID = uid, log_OperatorName = nm,
     log_Action = action, log_ResourceType = ty, log_ResourceID = res, log_Summary = summary,
     log_ProjectID = Some pid \<rparr>"

record InviteMemberInput =
  in_ProjectID :: string
  in_Email :: string
  in_Role :: string
  in_InvitedBy :: string

definition invite_tx ::
    "env \<Rightarrow> InviteMemberInput \<Rightarrow> project_row \<Rightarrow> User \<Rightarrow> User option \<Rightarrow> string \<Rightarrow> string \<Rightarrow> int \<Rightarrow> org
      \<Rightarrow> member_error + Invitation \<times> org" where
  "invite_tx env input project inviter user email token expiresAt db =
     bindE (ask env QPending (FindPendingInvitation db (in_ProjectID input) email)) (\<lambda>pending.
     let invitation = (case pending of
           Some v \<Rightarrow> v\<lparr>inv_Role := in_Role input, inv_Status := ''pending'', inv_Token := token,
                      inv_InvitedBy := in_InvitedBy input, inv_ExpiresAt := expiresAt\<rparr>
         | None \<Rightarrow> \<lparr> inv_ID = NewID (e_draws env) 0 ''invite'', inv_ProjectID = in_ProjectID input,
                    inv_Email = email, inv_Role = in_Role input, inv_Status = ''pending'',
                    inv_Token = token, inv_InvitedBy = in_InvitedBy input, inv_ExpiresAt = expiresAt \<rparr>);
         k = (case pending of Some _ \<Rightarrow> 0 | None \<Rightarrow> 1)
     in bindE (put env (case pending of Some _ \<Rightarrow> UpdateInvitation db invitation | None \<Rightarrow> CreateInvitation db invitation)) (\<lambda>db1.
     bindE (case user of
         None \<Rightarrow> Inr db1
       | Some u \<Rightarrow> put env (CreateNotification db1 (make_note (NewID (e_draws env) k ''notif'') (user_ID u)
           ''project_invite'' (InviteTitle (name_of inviter)) (InviteContent (proj_Name project) (in_Role input))
           (proj_ID project) (inv_ID invitation)
           (InviteExtra (inv_ID invitation) (proj_ID project) (proj_Name project) (in_Role input)
              (inv_ExpiresAt invitation))))) (\<lambda>db2.
     bindE (put env (CreateLog db2 (make_log (NewID (e_draws env) (k + (if user = None then 0 else 1)) ''alog'')
         (Some (in_InvitedBy input)) (displayName (Some inviter)) ''member.invite'' ''invitation''
         (inv_ID invitation) (InviteSummary email (in_Role input)) (proj_ID project)))) (\<lambda>db3.
     Inr (invitation, db3)))))"

definition already_member :: "(User \<Rightarrow> member_error + ProjectMember option) \<Rightarrow> User option \<Rightarrow> member_error + unit" where
  "already_member membership user = (case user of
     None \<Rightarrow> ok
   | Some u \<Rightarrow> bindE (membership u) (\<lambda>existing. guardE (existing \<noteq> None) ErrAlreadyMember))"

definition InviteMember ::
    "env \<Rightarrow> member_error + project_row option \<Rightarrow> member_error + User option \<Rightarrow> (string \<Rightarrow> member_error + User option)
      \<Rightarrow> (User \<Rightarrow> member_error + ProjectMember option) \<Rightarrow> member_error + string \<Rightarrow> InviteMemberInput \<Rightarrow> org
      \<Rightarrow> (member_error + Invitation) \<times> org" where
  \<comment> \<open>\<open>found\<close>, \<open>sender\<close>, \<open>byEmail\<close> and \<open>membership\<close> answer the queries before the transaction, \<open>tok\<close> is
     \<open>RandomToken(32)\<close>; an invitation lives 72 hours\<close>
  "InviteMember env found sender byEmail membership tok input db =
     (let email = normalizeEmail (in_Email input) in
      case bindE (guardE (\<not> isValidRole (in_Role input)) ErrInvalidRole) (\<lambda>_.
           bindE (guardE (email = '''') ErrInviteEmailRequired) (\<lambda>_.
           bindE (present ErrMemberProjectNotFound found) (\<lambda>project.
           bindE (present ErrUserNotFound sender) (\<lambda>inviter.
           bindE (byEmail email) (\<lambda>user.
           bindE (already_member membership user) (\<lambda>_.
           bindE tok (\<lambda>token. Inr (project, inviter, user, token)))))))) of
        Inl e \<Rightarrow> (Inl e, db)
      | Inr (project, inviter, user, token) \<Rightarrow>
          org_transaction db (invite_tx env input project inviter user email token (e_now env + 72 * 3600)))"

record InviteCandidate =
  cand_Email :: string
  cand_Registered :: bool
  cand_UserID :: string
  cand_DisplayName :: string
  cand_AlreadyMember :: bool
  cand_HasPendingInvitation :: bool
  cand_PendingInvitationID :: string
  cand_PendingExpiresAt :: "int option"

definition GetInviteCandidate ::
    "env \<Rightarrow> member_error + project_row option \<Rightarrow> (string \<Rightarrow> member_error + User option) \<Rightarrow> string \<Rightarrow> string \<Rightarrow> org
      \<Rightarrow> member_error + InviteCandidate" where
  "GetInviteCandidate env found byEmail pid email db =
     (let e = normalizeEmail email in
     bindE (guardE (e = '''') ErrInviteEmailRequired) (\<lambda>_.
     bindE (present ErrMemberProjectNotFound found) (\<lambda>_.
     bindE (byEmail e) (\<lambda>user.
     bindE (case user of None \<Rightarrow> Inr None
            | Some u \<Rightarrow> ask env QMember (FindByProjectAndUser db pid (user_ID u))) (\<lambda>member.
     bindE (ask env QPending (FindPendingInvitation db pid e)) (\<lambda>pending.
     Inr \<lparr> cand_Email = e, cand_Registered = (user \<noteq> None),
           cand_UserID = (case user of None \<Rightarrow> '''' | Some u \<Rightarrow> user_ID u),
           cand_DisplayName = (case user of None \<Rightarrow> '''' | Some u \<Rightarrow> name_of u),
           cand_AlreadyMember = (member \<noteq> None), cand_HasPendingInvitation = (pending \<noteq> None),
           cand_PendingInvitationID = (case pending of None \<Rightarrow> '''' | Some v \<Rightarrow> inv_ID v),
           cand_PendingExpiresAt = map_option inv_ExpiresAt pending \<rparr>))))))"

subsection \<open>Answering an invitation\<close>

definition createInviteDecisionSideEffects ::
    "env \<Rightarrow> project_row \<Rightarrow> Invitation \<Rightarrow> User \<Rightarrow> bool \<Rightarrow> nat \<Rightarrow> org \<Rightarrow> member_error + org" where
  "createInviteDecisionSideEffects env project v actor accepted k db =
     (let action = (if accepted then ''accept'' else ''reject'');
          notify = (e_notify env \<and> inv_InvitedBy v \<noteq> '''' \<and> inv_InvitedBy v \<noteq> user_ID actor) in
     bindE (put_if notify env db (CreateNotification db (make_note (NewID (e_draws env) k ''notif'')
         (inv_InvitedBy v) ''project_invite'' (DecidedTitle (name_of actor))
         (DecidedContent (name_of actor) accepted (proj_Name project)) (proj_ID project) (inv_ID v)
         (DecisionExtra (inv_ID v) (proj_ID project) (proj_Name project) action (user_ID actor))))) (\<lambda>db1.
     put_if (e_audit env) env db1 (CreateLog db1 (make_log (NewID (e_draws env) (if notify then k + 1 else k) ''alog'')
         (Some (user_ID actor)) (displayName (Some actor))
         (if accepted then ''member.invite.accept'' else ''member.invite.reject'') ''invitation''
         (inv_ID v) (DecisionSummary accepted (inv_Email v)) (proj_ID project)))))"

definition the_invitation :: "env \<Rightarrow> org \<Rightarrow> string \<Rightarrow> string \<Rightarrow> member_error + Invitation" where
  \<comment> \<open>the lookup every transaction on an invitation begins with\<close>
  "the_invitation env db pid iid =
     bindE (ask env QInvitation (FindInvitation db iid)) (\<lambda>r. case r of
       None \<Rightarrow> Inl ErrInvitationNotFound
     | Some v \<Rightarrow> if inv_ProjectID v \<noteq> pid then Inl ErrInvitationNotFound else Inr v)"

definition expire_if_due :: "env \<Rightarrow> Invitation \<Rightarrow> org \<Rightarrow> member_error + unit" where
  \<comment> \<open>past its time an invitation is marked expired and the call returns an error, which rolls the
     mark back\<close>
  "expire_if_due env v db =
     (if e_now env > inv_ExpiresAt v
      then bindE (put env (UpdateInvitation db (v\<lparr>inv_Status := ''expired''\<rparr>))) (\<lambda>_. Inl ErrInvitationExpired)
      else ok)"

definition new_member :: "env \<Rightarrow> string \<Rightarrow> string \<Rightarrow> string \<Rightarrow> ProjectMember" where
  "new_member env pid uid role = \<lparr> pm_ID = NewID (e_draws env) 0 ''member'', pm_ProjectID = pid,
     pm_UserID = uid, pm_Role = role, pm_Status = ''active'' \<rparr>"

definition accept_tx ::
    "env \<Rightarrow> project_row \<Rightarrow> User \<Rightarrow> string \<Rightarrow> string \<Rightarrow> string \<Rightarrow> org \<Rightarrow> member_error + ProjectMember \<times> org" where
  "accept_tx env project user pid iid uid db =
     bindE (the_invitation env db pid iid) (\<lambda>v.
     if inv_Status v = ''accepted'' then
       bindE (ask env QMember (FindByProjectAndUser db pid uid)) (\<lambda>existing. case existing of
         Some m \<Rightarrow> Inr (m, db) | None \<Rightarrow> Inl ErrInvitationProcessed)
     else if inv_Status v = ''rejected'' \<or> inv_Status v = ''expired'' then Inl ErrInvitationProcessed
     else
       bindE (expire_if_due env v db) (\<lambda>_.
       bindE (guardE (normalizeEmail (inv_Email v) \<noteq> normalizeEmail (user_Email user)) ErrInvitationEmailMismatch) (\<lambda>_.
       bindE (ask env QMember (FindByProjectAndUser db pid uid)) (\<lambda>existing.
       let v' = v\<lparr>inv_Status := ''accepted''\<rparr> in
       case existing of
         Some m \<Rightarrow> bindE (put env (UpdateInvitation db v')) (\<lambda>db1. Inr (m, db1))
       | None \<Rightarrow>
           bindE (guardE (\<not> isValidRole (inv_Role v)) ErrInvalidRole) (\<lambda>_.
           let m = new_member env pid uid (inv_Role v) in
           bindE (put env (CreateMember db m)) (\<lambda>db1.
           bindE (put env (IncrMemberCount db1 pid 1)) (\<lambda>db2.
           bindE (put env (UpdateInvitation db2 v')) (\<lambda>db3.
           bindE (createInviteDecisionSideEffects env project v' user True 1 db3) (\<lambda>db4.
           Inr (m, db4))))))))))"

definition AcceptInvitation ::
    "env \<Rightarrow> member_error + project_row option \<Rightarrow> member_error + User option \<Rightarrow> string \<Rightarrow> string \<Rightarrow> string \<Rightarrow> org
      \<Rightarrow> (member_error + ProjectMember) \<times> org" where
  "AcceptInvitation env found user pid iid uid db =
     (case bindE (present ErrMemberProjectNotFound found) (\<lambda>project.
           bindE (present ErrUserNotFound user) (\<lambda>u. Inr (project, u))) of
        Inl e \<Rightarrow> (Inl e, db)
      | Inr (project, u) \<Rightarrow> org_transaction db (accept_tx env project u pid iid uid))"

definition reject_tx ::
    "env \<Rightarrow> project_row \<Rightarrow> User \<Rightarrow> string \<Rightarrow> string \<Rightarrow> org \<Rightarrow> member_error + unit \<times> org" where
  "reject_tx env project user pid iid db =
     bindE (the_invitation env db pid iid) (\<lambda>v.
     if inv_Status v = ''rejected'' then Inr ((), db)
     else if inv_Status v = ''accepted'' then Inl ErrInvitationProcessed
     else if inv_Status v = ''expired'' then Inl ErrInvitationExpired
     else
       bindE (expire_if_due env v db) (\<lambda>_.
       bindE (guardE (normalizeEmail (inv_Email v) \<noteq> normalizeEmail (user_Email user)) ErrInvitationEmailMismatch) (\<lambda>_.
       let v' = v\<lparr>inv_Status := ''rejected''\<rparr> in
       bindE (put env (UpdateInvitation db v')) (\<lambda>db1.
       bindE (createInviteDecisionSideEffects env project v' user False 0 db1) (\<lambda>db2. Inr ((), db2))))))"

definition RejectInvitation ::
    "env \<Rightarrow> member_error + project_row option \<Rightarrow> member_error + User option \<Rightarrow> string \<Rightarrow> string \<Rightarrow> org
      \<Rightarrow> (member_error + unit) \<times> org" where
  "RejectInvitation env found user pid iid db =
     (case bindE (present ErrMemberProjectNotFound found) (\<lambda>project.
           bindE (present ErrUserNotFound user) (\<lambda>u. Inr (project, u))) of
        Inl e \<Rightarrow> (Inl e, db)
      | Inr (project, u) \<Rightarrow> org_transaction db (reject_tx env project u pid iid))"

definition revoke_tx ::
    "env \<Rightarrow> project_row \<Rightarrow> User \<Rightarrow> string \<Rightarrow> string \<Rightarrow> org \<Rightarrow> member_error + unit \<times> org" where
  "revoke_tx env project operator pid iid db =
     bindE (the_invitation env db pid iid) (\<lambda>v.
     if inv_Status v = ''accepted'' then Inl ErrInvitationProcessed
     else if inv_Status v = ''expired'' then Inl ErrInvitationExpired
     else if inv_Status v = ''rejected'' then Inr ((), db)
     else
       bindE (expire_if_due env v db) (\<lambda>_.
       let v' = v\<lparr>inv_Status := ''rejected''\<rparr> in
       bindE (put env (UpdateInvitation db v')) (\<lambda>db1.
       bindE (if e_notify env then ask env QInvited (FindUserByEmail db1 (normalizeEmail (inv_Email v))) else Inr None) (\<lambda>invited.
       bindE (case invited of None \<Rightarrow> Inr db1
         | Some u \<Rightarrow> put env (CreateNotification db1 (make_note (NewID (e_draws env) 0 ''notif'') (user_ID u)
             ''project_invite'' RevokedTitle (RevokedContent (proj_Name project)) (proj_ID project) (inv_ID v)
             (RevokeExtra (inv_ID v) (proj_ID project) (proj_Name project))))) (\<lambda>db2.
       bindE (put_if (e_audit env) env db2 (CreateLog db2
           (make_log (NewID (e_draws env) (if invited = None then 0 else 1) ''alog'') (Some (user_ID operator))
             (displayName (Some operator)) ''member.invite.revoke'' ''invitation'' (inv_ID v)
             (RevokeSummary (inv_Email v)) (proj_ID project)))) (\<lambda>db3. Inr ((), db3)))))))"

definition RevokeInvitation ::
    "env \<Rightarrow> member_error + project_row option \<Rightarrow> member_error + User option \<Rightarrow> string \<Rightarrow> string \<Rightarrow> org
      \<Rightarrow> (member_error + unit) \<times> org" where
  "RevokeInvitation env found operator pid iid db =
     (case bindE (present ErrMemberProjectNotFound found) (\<lambda>project.
           bindE (present ErrUserNotFound operator) (\<lambda>u. Inr (project, u))) of
        Inl e \<Rightarrow> (Inl e, db)
      | Inr (project, u) \<Rightarrow> org_transaction db (revoke_tx env project u pid iid))"

subsection \<open>Changing and removing members\<close>

definition operator_name_of :: "member_error + User option \<Rightarrow> operator_name" where
  "operator_name_of who = (case who of Inr (Some u) \<Rightarrow> displayName (Some u) | _ \<Rightarrow> SystemName)"

definition the_member :: "string \<Rightarrow> member_error + ProjectMember option \<Rightarrow> member_error + ProjectMember" where
  "the_member pid target =
     bindE (present ErrMemberNotFound target) (\<lambda>m. if pm_ProjectID m \<noteq> pid then Inl ErrMemberNotFound else Inr m)"

definition keeps_an_admin :: "bool \<Rightarrow> member_error + nat \<Rightarrow> member_error + unit" where
  \<comment> \<open>the count of admins is only taken when an admin leaves or steps down\<close>
  "keeps_an_admin leaves admins =
     (if leaves then bindE admins (\<lambda>count. guardE (count \<le> 1) ErrCannotRemoveLastAdmin) else ok)"

definition UpdateRole ::
    "env \<Rightarrow> member_error + project_row option \<Rightarrow> member_error + ProjectMember option \<Rightarrow> member_error + nat
      \<Rightarrow> member_error + User option \<Rightarrow> string \<Rightarrow> string \<Rightarrow> string \<Rightarrow> org \<Rightarrow> (member_error + ProjectMember) \<times> org" where
  "UpdateRole env found target admins who pid newRole operatorID db =
     (case bindE (guardE (\<not> isValidRole newRole) ErrInvalidRole) (\<lambda>_.
           bindE (present ErrMemberProjectNotFound found) (\<lambda>project.
           bindE (the_member pid target) (\<lambda>m.
           bindE (keeps_an_admin (pm_Role m = ''admin'' \<and> newRole \<noteq> ''admin'') admins) (\<lambda>_.
           bindE (put env (UpdateMember db (m\<lparr>pm_Role := newRole\<rparr>))) (\<lambda>db1.
           Inr (project, m, db1)))))) of
        Inl e \<Rightarrow> (Inl e, db)
      | Inr (project, m, db1) \<Rightarrow>
          (Inr (m\<lparr>pm_Role := newRole\<rparr>),
           if pm_Role m = newRole then db1
           else
             let k = (if e_notify env then 1 else 0);
                 db2 = try_put (e_notify env) env db1 (CreateNotification db1
                   (make_note (NewID (e_draws env) 0 ''notif'') (pm_UserID m) ''member_role_changed'' RoleTitle
                     (RoleContent (proj_Name project) (pm_Role m) newRole) (proj_ID project) (pm_ID m)
                     (RoleExtra (pm_Role m) newRole)))
             in try_put (e_audit env) env db2 (CreateLog db2
                   (make_log (NewID (e_draws env) k ''alog'') (if operatorID = '''' then None else Some operatorID)
                     (operator_name_of who) ''member.role.update'' ''member'' (pm_ID m)
                     (RoleSummary (pm_UserID m) (pm_Role m) newRole) (proj_ID project)))))"

definition RemoveMember ::
    "env \<Rightarrow> member_error + project_row option \<Rightarrow> member_error + ProjectMember option \<Rightarrow> member_error + nat
      \<Rightarrow> member_error + User option \<Rightarrow> string \<Rightarrow> string \<Rightarrow> string \<Rightarrow> org \<Rightarrow> (member_error + unit) \<times> org" where
  "RemoveMember env found target admins who pid memberID operatorID db =
     (case bindE (present ErrMemberProjectNotFound found) (\<lambda>project.
           bindE (the_member pid target) (\<lambda>m.
           bindE (keeps_an_admin (pm_Role m = ''admin'') admins) (\<lambda>_.
           bindE (put env (DeleteMember db memberID)) (\<lambda>db1.
           Inr (project, m, db1))))) of
        Inl e \<Rightarrow> (Inl e, db)
      | Inr (project, m, db1) \<Rightarrow>
          (ok,
           let k = (if e_notify env then 1 else 0);
               db2 = try_put True env db1 (IncrMemberCount db1 pid (- 1));
               db3 = try_put (e_notify env) env db2 (CreateNotification db2
                 (make_note (NewID (e_draws env) 0 ''notif'') (pm_UserID m) ''member_role_changed'' RemovedTitle
                   (RemovedContent (proj_Name project)) (proj_ID project) (pm_ID m) RemovedExtra))
           in try_put (e_audit env) env db3 (CreateLog db3
                 (make_log (NewID (e_draws env) k ''alog'') (if operatorID = '''' then None else Some operatorID)
                   (operator_name_of who) ''member.remove'' ''member'' (pm_ID m)
                   (RemoveSummary (pm_UserID m)) (proj_ID project)))))"

end
