(* ===== verification/MemberEffects.thy ===== *)
theory MemberEffects
  imports Members
begin

text \<open>
  What the member operations do to the tables: elimination rules for their successful runs, the
  well-formedness of the member and invitation tables and the rule that a project keeps an
  administrator, each shown for one call whose queries are answered by the database it writes to.
\<close>

named_theorems org_simps \<open>the tables after a statement\<close>

lemma statements_sel [simp, org_simps]:
  "org_members (CreateMember db m) = org_members db @ [m]"
  "org_members (UpdateMember db m) = save_row pm_ID m (org_members db)"
  "org_members (DeleteMember db i) = filter (\<lambda>x. pm_ID x \<noteq> i) (org_members db)"
  "org_members (IncrMemberCount db pid d) = org_members db"
  "org_members (CreateInvitation db v) = org_members db"
  "org_members (UpdateInvitation db v) = org_members db"
  "org_members (CreateNotification db n) = org_members db"
  "org_members (CreateLog db a) = org_members db"
  "org_invs (CreateMember db m) = org_invs db"
  "org_invs (UpdateMember db m) = org_invs db"
  "org_invs (DeleteMember db i) = org_invs db"
  "org_invs (IncrMemberCount db pid d) = org_invs db"
  "org_invs (CreateInvitation db v) = org_invs db @ [v]"
  "org_invs (UpdateInvitation db v) = save_row inv_ID v (org_invs db)"
  "org_invs (CreateNotification db n) = org_invs db"
  "org_invs (CreateLog db a) = org_invs db"
  "org_projects (CreateMember db m) = org_projects db"
  "org_projects (UpdateMember db m) = org_projects db"
  "org_projects (DeleteMember db i) = org_projects db"
  "org_projects (CreateInvitation db v) = org_projects db"
  "org_projects (UpdateInvitation db v) = org_projects db"
  "org_projects (CreateNotification db n) = org_projects db"
  "org_projects (CreateLog db a) = org_projects db"
  by (simp_all add: CreateMember_def UpdateMember_def DeleteMember_def IncrMemberCount_def
      CreateInvitation_def UpdateInvitation_def CreateNotification_def CreateLog_def)

lemma ask_Inr [simp]: "ask env q a = Inr r \<longleftrightarrow> \<not> e_fails env q \<and> r = a"
  by (auto simp: ask_def)

lemma put_Inr [simp]: "put env db = Inr db' \<longleftrightarrow> e_accepts env db \<and> db' = db"
  by (auto simp: put_def)

lemma present_Inr [simp]: "present e r = Inr x \<longleftrightarrow> r = Inr (Some x)"
  by (auto simp: present_def split: sum.splits option.splits)

lemma org_transaction_Inr [simp]: "org_transaction db body = (Inr r, db') \<longleftrightarrow> body db = Inr (r, db')"
  by (auto simp: org_transaction_def split: sum.splits)

lemma org_transaction_Inl: "org_transaction db body = (Inl e, db') \<Longrightarrow> db' = db"
  by (auto simp: org_transaction_def split: sum.splits)

text \<open>The part of the database the rules are about; notifications and audit rows are left out.\<close>

definition core :: "org \<Rightarrow> (string \<Rightarrow> project_row option) \<times> ProjectMember list \<times> Invitation list" where
  "core db = (org_projects db, org_members db, org_invs db)"

lemma core_note [simp]: "core (CreateNotification db n) = core db" "core (CreateLog db a) = core db"
  by (simp_all add: core_def)

lemma put_if_core: "put_if b env db db1 = Inr db2 \<Longrightarrow> core db1 = core db \<Longrightarrow> core db2 = core db"
  by (auto simp: put_if_def split: if_splits)

lemma try_put_core [simp]: "core db1 = core db \<Longrightarrow> core (try_put b env db db1) = core db"
  by (simp add: try_put_def)

lemma side_effects_core:
  "createInviteDecisionSideEffects env project v actor acc k db = Inr db' \<Longrightarrow> core db' = core db"
  by (auto simp: createInviteDecisionSideEffects_def Let_def dest!: put_if_core)

subsection \<open>Successful runs\<close>

lemma the_invitation_Inr [simp]:
  "the_invitation env db pid iid = Inr v \<longleftrightarrow>
     \<not> e_fails env QInvitation \<and> FindInvitation db iid = Some v \<and> inv_ProjectID v = pid"
  by (auto simp: the_invitation_def bindE_Inr_iff split: option.splits if_splits)

lemma expire_if_due_Inr [simp]: "expire_if_due env v db = Inr u \<longleftrightarrow> e_now env \<le> inv_ExpiresAt v"
  by (auto simp: expire_if_due_def bindE_Inr_iff)

lemma accept_InrE:
  assumes "AcceptInvitation env found user pid iid uid db = (Inr m, db')"
  obtains (again) v where "FindInvitation db iid = Some v" "inv_ProjectID v = pid" "inv_Status v = ''accepted''"
      "FindByProjectAndUser db pid uid = Some m" "db' = db"
  | (already) v u where "FindInvitation db iid = Some v" "inv_ProjectID v = pid"
      "inv_Status v \<notin> {''accepted'', ''rejected'', ''expired''}" "e_now env \<le> inv_ExpiresAt v"
      "user = Inr (Some u)" "normalizeEmail (inv_Email v) = normalizeEmail (user_Email u)"
      "FindByProjectAndUser db pid uid = Some m" "db' = UpdateInvitation db (v\<lparr>inv_Status := ''accepted''\<rparr>)"
  | (joined) v u where "FindInvitation db iid = Some v" "inv_ProjectID v = pid"
      "inv_Status v \<notin> {''accepted'', ''rejected'', ''expired''}" "e_now env \<le> inv_ExpiresAt v"
      "user = Inr (Some u)" "normalizeEmail (inv_Email v) = normalizeEmail (user_Email u)"
      "FindByProjectAndUser db pid uid = None" "isValidRole (inv_Role v)"
      "m = new_member env pid uid (inv_Role v)"
      "core db' = core (UpdateInvitation (IncrMemberCount (CreateMember db m) pid 1) (v\<lparr>inv_Status := ''accepted''\<rparr>))"
proof -
  from assms obtain project u where u: "user = Inr (Some u)" and
    tx: "accept_tx env project u pid iid uid db = Inr (m, db')"
    by (auto simp: AcceptInvitation_def bindE_Inr_iff split: sum.splits)
  from tx obtain v where v: "FindInvitation db iid = Some v" "inv_ProjectID v = pid"
    by (auto simp: accept_tx_def bindE_Inr_iff)
  show thesis
  proof (cases "inv_Status v = ''accepted''")
    case True
    with tx v show thesis by (auto simp: accept_tx_def bindE_Inr_iff intro: again split: option.splits)
  next
    case False
    with tx v have st: "inv_Status v \<notin> {''accepted'', ''rejected'', ''expired''}"
      by (auto simp: accept_tx_def bindE_Inr_iff)
    with tx v have due: "e_now env \<le> inv_ExpiresAt v"
      and mail: "normalizeEmail (inv_Email v) = normalizeEmail (user_Email u)"
      by (auto simp: accept_tx_def bindE_Inr_iff)
    show thesis
    proof (cases "FindByProjectAndUser db pid uid")
      case (Some x)
      with tx v st have "m = x" "db' = UpdateInvitation db (v\<lparr>inv_Status := ''accepted''\<rparr>)"
        by (auto simp: accept_tx_def bindE_Inr_iff Let_def)
      with Some v st due u mail show thesis by (intro already) auto
    next
      case None
      with tx v st have "isValidRole (inv_Role v)" "m = new_member env pid uid (inv_Role v)"
        "core db' = core (UpdateInvitation (IncrMemberCount (CreateMember db m) pid 1) (v\<lparr>inv_Status := ''accepted''\<rparr>))"
        by (auto simp: accept_tx_def bindE_Inr_iff Let_def dest!: side_effects_core)
      with None v st due u mail show thesis by (intro joined) auto
    qed
  qed
qed

lemma accept_error: "AcceptInvitation env found user pid iid uid db = (Inl e, db') \<Longrightarrow> db' = db"
  by (auto simp: AcceptInvitation_def dest: org_transaction_Inl split: sum.splits)

text \<open>Rejecting and revoking either find the invitation rejected or reject a pending one.\<close>

definition rejected_from :: "env \<Rightarrow> string \<Rightarrow> string \<Rightarrow> org \<Rightarrow> org \<Rightarrow> bool" where
  "rejected_from env pid iid db db' \<longleftrightarrow>
     (\<exists>v. FindInvitation db iid = Some v \<and> inv_ProjectID v = pid \<and>
       (inv_Status v = ''rejected'' \<and> db' = db \<or>
        inv_Status v \<notin> {''accepted'', ''rejected'', ''expired''} \<and> e_now env \<le> inv_ExpiresAt v \<and>
        core db' = core (UpdateInvitation db (v\<lparr>inv_Status := ''rejected''\<rparr>))))"

lemma reject_Inr: "RejectInvitation env found user pid iid db = (Inr r, db') \<Longrightarrow> rejected_from env pid iid db db'"
  by (auto simp: RejectInvitation_def reject_tx_def rejected_from_def bindE_Inr_iff Let_def
      dest!: side_effects_core split: sum.splits if_splits)

lemma reject_error: "RejectInvitation env found user pid iid db = (Inl e, db') \<Longrightarrow> db' = db"
  by (auto simp: RejectInvitation_def dest: org_transaction_Inl split: sum.splits)

lemma revoke_Inr: "RevokeInvitation env found operator pid iid db = (Inr r, db') \<Longrightarrow> rejected_from env pid iid db db'"
  by (auto simp: RevokeInvitation_def revoke_tx_def rejected_from_def bindE_Inr_iff Let_def
      dest!: put_if_core split: sum.splits if_splits option.splits)

lemma revoke_error: "RevokeInvitation env found operator pid iid db = (Inl e, db') \<Longrightarrow> db' = db"
  by (auto simp: RevokeInvitation_def dest: org_transaction_Inl split: sum.splits)

definition stepped_down :: "string \<Rightarrow> string \<Rightarrow> bool" where
  "stepped_down old new \<longleftrightarrow> old = ''admin'' \<and> new \<noteq> ''admin''"

lemma keeps_an_admin_Inr: "keeps_an_admin b admins = Inr u \<longleftrightarrow> (b \<longrightarrow> (\<exists>n. admins = Inr n \<and> 1 < n))"
  by (auto simp: keeps_an_admin_def bindE_Inr_iff)

lemma the_member_Inr: "the_member pid target = Inr m \<longleftrightarrow> target = Inr (Some m) \<and> pm_ProjectID m = pid"
  by (auto simp: the_member_def bindE_Inr_iff)

lemma update_InrE:
  assumes "UpdateRole env found target admins who pid newRole op db = (Inr r, db')"
  obtains m where "target = Inr (Some m)" "pm_ProjectID m = pid" "isValidRole newRole"
    "stepped_down (pm_Role m) newRole \<longrightarrow> (\<exists>n. admins = Inr n \<and> 1 < n)" "r = m\<lparr>pm_Role := newRole\<rparr>"
    "core db' = core (UpdateMember db r)"
proof -
  let ?pre = "bindE (guardE (\<not> isValidRole newRole) ErrInvalidRole) (\<lambda>_.
           bindE (present ErrMemberProjectNotFound found) (\<lambda>project.
           bindE (the_member pid target) (\<lambda>m.
           bindE (keeps_an_admin (pm_Role m = ''admin'' \<and> newRole \<noteq> ''admin'') admins) (\<lambda>_.
           bindE (put env (UpdateMember db (m\<lparr>pm_Role := newRole\<rparr>))) (\<lambda>db1.
           Inr (project, m, db1))))))"
  from assms obtain project m db1 where pre: "?pre = Inr (project, m, db1)"
    by (auto simp: UpdateRole_def split: sum.splits)
  then have "target = Inr (Some m)" "pm_ProjectID m = pid" "isValidRole newRole"
    "stepped_down (pm_Role m) newRole \<longrightarrow> (\<exists>n. admins = Inr n \<and> 1 < n)"
    and db1: "db1 = UpdateMember db (m\<lparr>pm_Role := newRole\<rparr>)"
    by (auto simp: bindE_Inr_iff keeps_an_admin_Inr the_member_Inr stepped_down_def)
  moreover from assms pre have "r = m\<lparr>pm_Role := newRole\<rparr>" and "core db' = core db1"
    by (auto simp: UpdateRole_def Let_def split: if_splits)
  ultimately show thesis using that by simp
qed

lemma update_error: "UpdateRole env found target admins who pid newRole op db = (Inl e, db') \<Longrightarrow> db' = db"
  by (auto simp: UpdateRole_def split: sum.splits)

lemma remove_InrE:
  assumes "RemoveMember env found target admins who pid mid op db = (Inr r, db')"
  obtains m where "target = Inr (Some m)" "pm_ProjectID m = pid"
    "pm_Role m = ''admin'' \<longrightarrow> (\<exists>n. admins = Inr n \<and> 1 < n)"
    "core db' = core (try_put True env (DeleteMember db mid) (IncrMemberCount (DeleteMember db mid) pid (- 1)))"
proof -
  let ?pre = "bindE (present ErrMemberProjectNotFound found) (\<lambda>project.
           bindE (the_member pid target) (\<lambda>m.
           bindE (keeps_an_admin (pm_Role m = ''admin'') admins) (\<lambda>_.
           bindE (put env (DeleteMember db mid)) (\<lambda>db1.
           Inr (project, m, db1)))))"
  from assms obtain project m db1 where pre: "?pre = Inr (project, m, db1)"
    by (auto simp: RemoveMember_def split: sum.splits)
  then have "target = Inr (Some m)" "pm_ProjectID m = pid"
    "pm_Role m = ''admin'' \<longrightarrow> (\<exists>n. admins = Inr n \<and> 1 < n)" and db1: "db1 = DeleteMember db mid"
    by (auto simp: bindE_Inr_iff keeps_an_admin_Inr the_member_Inr)
  moreover from assms pre db1
  have "core db' = core (try_put True env (DeleteMember db mid) (IncrMemberCount (DeleteMember db mid) pid (- 1)))"
    by (auto simp: RemoveMember_def Let_def)
  ultimately show thesis using that by blast
qed

lemma remove_error: "RemoveMember env found target admins who pid mid op db = (Inl e, db') \<Longrightarrow> db' = db"
  by (auto simp: RemoveMember_def split: sum.splits)

lemma invite_InrE:
  assumes "InviteMember env found sender byEmail membership tok input db = (Inr v, db')"
  obtains (renewed) w where "w \<in> set (org_invs db)" "inv_Status w = ''pending''" "inv_ID v = inv_ID w"
      "isValidRole (inv_Role v)" "inv_Status v = ''pending''" "core db' = core (UpdateInvitation db v)"
  | (created) "inv_ID v = NewID (e_draws env) 0 ''invite''" "isValidRole (inv_Role v)" "inv_Status v = ''pending''"
      "core db' = core (CreateInvitation db v)"
proof -
  from assms obtain project inviter u token where valid: "isValidRole (in_Role input)" and
    tx: "invite_tx env input project inviter u (normalizeEmail (in_Email input)) token (e_now env + 72 * 3600) db = Inr (v, db')"
    by (auto simp: InviteMember_def Let_def bindE_Inr_iff split: sum.splits)
  show thesis
  proof (cases "FindPendingInvitation db (in_ProjectID input) (normalizeEmail (in_Email input))")
    case None
    with tx valid show thesis
      by (auto simp: invite_tx_def Let_def bindE_Inr_iff intro!: created split: option.splits)
  next
    case (Some w)
    then have w: "w \<in> set (org_invs db)" "inv_Status w = ''pending''"
      by (auto simp: FindPendingInvitation_def find_Some_iff)
    from tx Some valid w show thesis
      by (auto simp: invite_tx_def Let_def bindE_Inr_iff intro!: renewed split: option.splits)
  qed
qed

lemma invite_error: "InviteMember env found sender byEmail membership tok input db = (Inl e, db') \<Longrightarrow> db' = db"
  by (auto simp: InviteMember_def Let_def dest: org_transaction_Inl split: sum.splits)

subsection \<open>The tables stay well-formed\<close>

definition member_key :: "ProjectMember \<Rightarrow> string \<times> string" where
  "member_key m = (pm_ProjectID m, pm_UserID m)"

definition members_ok :: "ProjectMember list \<Rightarrow> bool" where
  "members_ok ms \<longleftrightarrow> distinct (map pm_ID ms) \<and> distinct (map member_key ms)
     \<and> (\<forall>m\<in>set ms. isValidRole (pm_Role m) \<and> pm_Status m = ''active'')"

definition invs_ok :: "Invitation list \<Rightarrow> bool" where
  "invs_ok vs \<longleftrightarrow> distinct (map inv_ID vs)
     \<and> (\<forall>v\<in>set vs. isValidRole (inv_Role v) \<and> inv_Status v \<in> {''pending'', ''accepted'', ''rejected''})"

definition size_of :: "org \<Rightarrow> string \<Rightarrow> nat" where
  "size_of db pid = length (filter (\<lambda>m. pm_ProjectID m = pid) (org_members db))"

definition org_ok :: "org \<Rightarrow> bool" where
  "org_ok db \<longleftrightarrow> members_ok (org_members db) \<and> invs_ok (org_invs db)"

definition counts_ok :: "org \<Rightarrow> bool" where
  "counts_ok db \<longleftrightarrow> (\<forall>pid p. org_projects db pid = Some p \<longrightarrow> proj_MemberCount p = int (size_of db pid))"

lemma core_eq: "core db' = core db \<Longrightarrow> org_ok db' = org_ok db \<and> counts_ok db' = counts_ok db
    \<and> CountAdmins db' = CountAdmins db \<and> FindByProjectAndUser db' = FindByProjectAndUser db
    \<and> org_members db' = org_members db \<and> org_invs db' = org_invs db \<and> org_projects db' = org_projects db"
  by (auto simp: core_def org_ok_def counts_ok_def size_of_def CountAdmins_def fun_eq_iff FindByProjectAndUser_def)

text \<open>\<open>Save\<close> of a row with the key of a stored one replaces that row.\<close>

lemma save_row_known: "r0 \<in> set rows \<Longrightarrow> key r = key r0 \<Longrightarrow>
    save_row key r rows = map (\<lambda>x. if key x = key r then r else x) rows"
  by (auto simp: save_row_def intro: rev_image_eqI)

lemma map_save_row:
  assumes "r0 \<in> set rows" and "key r = key r0" and "distinct (map key rows)" and "f r = f r0"
  shows "map f (save_row key r rows) = map f rows"
proof -
  have "f (if key x = key r then r else x) = f x" if "x \<in> set rows" for x
    using assms that by (auto simp: distinct_map inj_on_def)
  then show ?thesis using save_row_known [OF assms(1,2)] by simp
qed

lemma set_save_row: "set (save_row key r rows) \<subseteq> insert r (set rows)"
  by (auto simp: save_row_def)

lemma invs_ok_save:
  assumes "invs_ok vs" and "v0 \<in> set vs" and "inv_ID v = inv_ID v0" and "isValidRole (inv_Role v)"
    and "inv_Status v \<in> {''pending'', ''accepted'', ''rejected''}"
  shows "invs_ok (save_row inv_ID v vs)"
  using assms set_save_row [of inv_ID v vs] map_save_row [of v0 vs inv_ID v inv_ID]
  by (fastforce simp: invs_ok_def)

lemma FindInvitation_in: "FindInvitation db iid = Some v \<Longrightarrow> v \<in> set (org_invs db) \<and> inv_ID v = iid"
  by (auto simp: FindInvitation_def find_Some_iff)

lemma FindMemberByID_in: "FindMemberByID db i = Some m \<Longrightarrow> m \<in> set (org_members db) \<and> pm_ID m = i"
  by (auto simp: FindMemberByID_def find_Some_iff)

lemma members_ok_add:
  assumes "members_ok (org_members db)" and "FindByProjectAndUser db pid uid = None"
    and "pm_ID m \<notin> pm_ID ` set (org_members db)" and "m = new_member env pid uid role" and "isValidRole role"
  shows "members_ok (org_members db @ [m])"
proof -
  have "member_key m \<notin> member_key ` set (org_members db)"
    using assms(1,2,4) by (auto simp: FindByProjectAndUser_def find_None_iff member_key_def members_ok_def new_member_def)
  then show ?thesis using assms by (auto simp: members_ok_def new_member_def)
qed

lemma members_ok_update:
  assumes "members_ok ms" and "m \<in> set ms" and "isValidRole r"
  shows "members_ok (save_row pm_ID (m\<lparr>pm_Role := r\<rparr>) ms)"
proof -
  let ?m = "m\<lparr>pm_Role := r\<rparr>"
  have d: "distinct (map pm_ID ms)" using assms(1) by (simp add: members_ok_def)
  have "map pm_ID (save_row pm_ID ?m ms) = map pm_ID ms"
    by (rule map_save_row [OF assms(2) _ d]) simp_all
  moreover have "map member_key (save_row pm_ID ?m ms) = map member_key ms"
    by (rule map_save_row [OF assms(2) _ d]) (simp_all add: member_key_def)
  moreover have "\<forall>x\<in>set (save_row pm_ID ?m ms). isValidRole (pm_Role x) \<and> pm_Status x = ''active''"
    using assms set_save_row [of pm_ID ?m ms] by (auto simp: members_ok_def)
  ultimately show ?thesis using assms(1) by (simp add: members_ok_def)
qed

lemma members_ok_filter: "members_ok ms \<Longrightarrow> members_ok (filter P ms)"
  by (auto simp: members_ok_def distinct_map_filter)

subsection \<open>One call with fresh answers\<close>

text \<open>A call whose queries are all answered by the database it writes to. The rules name the
  identifiers it may draw: they are new.\<close>

definition fresh_env :: "env \<Rightarrow> org \<Rightarrow> bool" where
  "fresh_env env db \<longleftrightarrow> NewID (e_draws env) 0 ''member'' \<notin> pm_ID ` set (org_members db)
     \<and> NewID (e_draws env) 0 ''invite'' \<notin> inv_ID ` set (org_invs db)"

inductive member_call :: "env \<Rightarrow> org \<Rightarrow> org \<Rightarrow> bool" for env where
  invite: "InviteMember env (Inr (FindProject db (in_ProjectID input))) (Inr (FindUser db (in_InvitedBy input)))
      (\<lambda>email. Inr (FindUserByEmail db email))
      (\<lambda>u. Inr (FindByProjectAndUser db (in_ProjectID input) (user_ID u))) tok input db = (ri, db')
    \<Longrightarrow> fresh_env env db \<Longrightarrow> member_call env db db'"
| accept: "AcceptInvitation env (Inr (FindProject db pid)) (Inr (FindUser db uid)) pid iid uid db = (ra, db')
    \<Longrightarrow> fresh_env env db \<Longrightarrow> member_call env db db'"
| reject: "RejectInvitation env (Inr (FindProject db pid)) (Inr (FindUser db uid)) pid iid db = (rr, db')
    \<Longrightarrow> member_call env db db'"
| revoke: "RevokeInvitation env (Inr (FindProject db pid)) (Inr (FindUser db uid)) pid iid db = (rv, db')
    \<Longrightarrow> member_call env db db'"
| update: "UpdateRole env (Inr (FindProject db pid)) (Inr (FindMemberByID db mid)) (Inr (CountAdmins db pid))
      who pid role op db = (ru, db') \<Longrightarrow> member_call env db db'"
| remove: "RemoveMember env (Inr (FindProject db pid)) (Inr (FindMemberByID db mid)) (Inr (CountAdmins db pid))
      who pid mid op db = (rm, db') \<Longrightarrow> member_call env db db'"

lemma rejected_org_ok:
  assumes "rejected_from env pid iid db db'" and "org_ok db"
  shows "org_ok db' \<and> org_members db' = org_members db \<and> org_projects db' = org_projects db"
proof -
  from assms(1) obtain v where v: "FindInvitation db iid = Some v" and
    "db' = db \<or> core db' = core (UpdateInvitation db (v\<lparr>inv_Status := ''rejected''\<rparr>))"
    by (auto simp: rejected_from_def)
  then consider "db' = db" | "core db' = core (UpdateInvitation db (v\<lparr>inv_Status := ''rejected''\<rparr>))" by blast
  then show ?thesis
  proof cases
    case 2
    have "invs_ok (save_row inv_ID (v\<lparr>inv_Status := ''rejected''\<rparr>) (org_invs db))"
      using assms(2) FindInvitation_in [OF v] by (intro invs_ok_save [of _ v]) (auto simp: org_ok_def invs_ok_def)
    with core_eq [OF 2] assms(2) show ?thesis by (auto simp: org_ok_def)
  qed (use assms in simp)
qed


lemma accept_org_ok:
  assumes "AcceptInvitation env found user pid iid uid db = (Inr m, db')" and "org_ok db" and "fresh_env env db"
  shows "org_ok db'"
  using assms(1)
proof (cases rule: accept_InrE)
  case (already v u)
  have "invs_ok (save_row inv_ID (v\<lparr>inv_Status := ''accepted''\<rparr>) (org_invs db))"
    using assms(2) FindInvitation_in [OF already(1)] by (intro invs_ok_save [of _ v]) (auto simp: org_ok_def invs_ok_def)
  with already assms(2) show ?thesis by (simp add: org_ok_def)
next
  case (joined v u)
  have "invs_ok (save_row inv_ID (v\<lparr>inv_Status := ''accepted''\<rparr>) (org_invs db))"
    using assms(2) FindInvitation_in [OF joined(1)] by (intro invs_ok_save [of _ v]) (auto simp: org_ok_def invs_ok_def)
  moreover have "members_ok (org_members db @ [m])"
    using joined assms(2,3) by (intro members_ok_add) (auto simp: org_ok_def fresh_env_def new_member_def)
  ultimately show ?thesis using core_eq [OF joined(10)] by (simp add: org_ok_def)
qed (use assms in simp)

lemma invite_org_ok:
  assumes "InviteMember env found sender byEmail membership tok input db = (Inr v, db')" and "org_ok db" and "fresh_env env db"
  shows "org_ok db' \<and> org_members db' = org_members db \<and> org_projects db' = org_projects db"
  using assms(1)
proof (cases rule: invite_InrE)
  case (renewed w)
  then have "invs_ok (save_row inv_ID v (org_invs db))"
    using assms(2) by (intro invs_ok_save [of _ w]) (auto simp: org_ok_def)
  with core_eq [OF renewed(6)] assms(2) show ?thesis by (simp add: org_ok_def)
next
  case created
  then have "invs_ok (org_invs db @ [v])"
    using assms(2,3) by (auto simp: org_ok_def invs_ok_def fresh_env_def)
  with core_eq [OF created(4)] assms(2) show ?thesis by (simp add: org_ok_def)
qed

lemma update_org_ok:
  assumes "UpdateRole env found (Inr (FindMemberByID db mid)) admins who pid role op db = (Inr r, db')" and "org_ok db"
  shows "org_ok db'"
  using assms(1)
proof (cases rule: update_InrE)
  case (1 m)
  then have "FindMemberByID db mid = Some m" by simp
  then have "members_ok (save_row pm_ID r (org_members db))"
    using assms(2) 1 by (auto simp: org_ok_def dest!: FindMemberByID_in intro: members_ok_update)
  with core_eq [OF 1(6)] assms(2) show ?thesis by (simp add: org_ok_def)
qed

lemma remove_org_ok:
  assumes "RemoveMember env found target admins who pid mid op db = (Inr r, db')" and "org_ok db"
  shows "org_ok db'"
  using assms(1)
proof (cases rule: remove_InrE)
  case (1 m)
  with core_eq [OF 1(4)] assms(2) show ?thesis by (auto simp: org_ok_def try_put_def members_ok_filter)
qed

lemma member_call_org_ok: "member_call env db db' \<Longrightarrow> org_ok db \<Longrightarrow> org_ok db'"
proof (induction rule: member_call.induct)
  case (invite db input tok ri db')
  then show ?case by (cases ri) (auto dest!: invite_error dest: invite_org_ok)
next
  case (accept db pid uid iid ra db')
  then show ?case by (cases ra) (auto dest!: accept_error dest: accept_org_ok)
next
  case (reject db pid uid iid rr db')
  then show ?case by (cases rr) (auto dest!: reject_error reject_Inr dest: rejected_org_ok)
next
  case (revoke db pid uid iid rv db')
  then show ?case by (cases rv) (auto dest!: revoke_error revoke_Inr dest: rejected_org_ok)
next
  case (update db pid mid who role op ru db')
  then show ?case by (cases ru) (auto dest!: update_error dest: update_org_ok)
next
  case (remove db pid mid who op rm db')
  then show ?case by (cases rm) (auto dest!: remove_error dest: remove_org_ok)
qed

subsection \<open>A project keeps an administrator\<close>

definition is_admin :: "string \<Rightarrow> ProjectMember \<Rightarrow> bool" where
  "is_admin pid m \<longleftrightarrow> pm_ProjectID m = pid \<and> pm_Role m = ''admin'' \<and> pm_Status m = ''active''"

lemma CountAdmins_filter: "CountAdmins db pid = length (filter (is_admin pid) (org_members db))"
  by (simp add: CountAdmins_def is_admin_def [abs_def])

lemma CountAdmins_pos: "0 < CountAdmins db pid \<longleftrightarrow> (\<exists>m\<in>set (org_members db). is_admin pid m)"
  by (auto simp: CountAdmins_filter filter_empty_conv)

text \<open>With more than one administrator another one is left whoever goes.\<close>

lemma another_admin:
  assumes "1 < CountAdmins db pid" and "distinct (map pm_ID (org_members db))"
  obtains x where "x \<in> set (org_members db)" and "is_admin pid x" and "pm_ID x \<noteq> i"
proof -
  let ?as = "filter (is_admin pid) (org_members db)"
  have d: "distinct (map pm_ID ?as)" using assms(2) by (simp add: distinct_map_filter)
  have "\<not> set (map pm_ID ?as) \<subseteq> {i}"
  proof
    assume "set (map pm_ID ?as) \<subseteq> {i}"
    then have "card (set (map pm_ID ?as)) \<le> 1" using card_mono [of "{i}"] by simp
    with distinct_card [OF d] assms(1) show False by (simp add: CountAdmins_filter)
  qed
  then show thesis using that by auto
qed

lemma update_admin:
  assumes "UpdateRole env found (Inr (FindMemberByID db mid)) (Inr (CountAdmins db pid)) who pid role op db = (Inr r, db')"
    and "org_ok db" and "0 < CountAdmins db q"
  shows "0 < CountAdmins db' q"
  using assms(1)
proof (cases rule: update_InrE)
  case (1 m)
  then have m: "m \<in> set (org_members db)" "pm_ID m = mid" by (auto dest!: FindMemberByID_in)
  have d: "distinct (map pm_ID (org_members db))" using assms(2) by (simp add: org_ok_def members_ok_def)
  have known: "org_members db' = map (\<lambda>x. if pm_ID x = mid then r else x) (org_members db)"
    using core_eq [OF 1(6)] save_row_known [OF m(1), of pm_ID r] m(2) 1(5) by simp
  obtain x where x: "x \<in> set (org_members db)" "is_admin q x" using assms(3) by (auto simp: CountAdmins_pos)
  show ?thesis
  proof (cases "pm_ID x = mid \<and> stepped_down (pm_Role m) role")
    case True
    with x m d have "x = m" by (auto simp: distinct_map inj_on_def)
    with x 1 have "q = pid" by (auto simp: is_admin_def)
    moreover obtain y where y: "y \<in> set (org_members db)" "is_admin pid y" "pm_ID y \<noteq> mid"
      using another_admin [of db pid mid] d 1(4) True by auto
    ultimately have "y \<in> set (org_members db')" using known by (auto intro!: image_eqI [of _ _ y])
    with y \<open>q = pid\<close> show ?thesis by (auto simp: CountAdmins_pos)
  next
    case False
    let ?x = "if pm_ID x = mid then r else x"
    have "?x \<in> set (org_members db')" using known x by auto
    moreover have "is_admin q ?x"
    proof (cases "pm_ID x = mid")
      case True
      with x m d have "x = m" by (auto simp: distinct_map inj_on_def)
      with x False True 1(5) show ?thesis by (auto simp: is_admin_def stepped_down_def)
    qed (use x in simp)
    ultimately show ?thesis by (auto simp: CountAdmins_pos)
  qed
qed

lemma remove_admin:
  assumes "RemoveMember env found (Inr (FindMemberByID db mid)) (Inr (CountAdmins db pid)) who pid mid op db = (Inr r, db')"
    and "org_ok db" and "0 < CountAdmins db q"
  shows "0 < CountAdmins db' q"
  using assms(1)
proof (cases rule: remove_InrE)
  case (1 m)
  then have m: "m \<in> set (org_members db)" "pm_ID m = mid" by (auto dest!: FindMemberByID_in)
  have d: "distinct (map pm_ID (org_members db))" using assms(2) by (simp add: org_ok_def members_ok_def)
  have known: "org_members db' = filter (\<lambda>x. pm_ID x \<noteq> mid) (org_members db)"
    using core_eq [OF 1(4)] by (simp add: try_put_def)
  obtain x where x: "x \<in> set (org_members db)" "is_admin q x" using assms(3) by (auto simp: CountAdmins_pos)
  show ?thesis
  proof (cases "pm_ID x = mid")
    case True
    with x m d have "x = m" by (auto simp: distinct_map inj_on_def)
    with x 1 have "q = pid" "pm_Role m = ''admin''" by (auto simp: is_admin_def)
    moreover obtain y where "y \<in> set (org_members db)" "is_admin pid y" "pm_ID y \<noteq> mid"
      using another_admin [of db pid mid] d 1(3) \<open>pm_Role m = ''admin''\<close> by auto
    ultimately show ?thesis using known by (auto simp: CountAdmins_pos)
  next
    case False
    with x known show ?thesis by (auto simp: CountAdmins_pos)
  qed
qed

lemma accept_members:
  assumes "AcceptInvitation env found user pid iid uid db = (Inr m, db')"
  shows "set (org_members db) \<subseteq> set (org_members db')"
  using assms by (cases rule: accept_InrE) (auto dest: core_eq)

lemma member_call_admin: "member_call env db db' \<Longrightarrow> org_ok db \<Longrightarrow> 0 < CountAdmins db q \<Longrightarrow> 0 < CountAdmins db' q"
proof (induction rule: member_call.induct)
  case (invite db input tok ri db')
  then show ?case by (cases ri) (auto dest!: invite_error dest: invite_org_ok simp: CountAdmins_def)
next
  case (accept db pid uid iid ra db')
  then show ?case by (cases ra) (auto dest!: accept_error accept_members simp: CountAdmins_pos)
next
  case (reject db pid uid iid rr db')
  then show ?case by (cases rr) (auto dest!: reject_error reject_Inr dest: rejected_org_ok simp: CountAdmins_def)
next
  case (revoke db pid uid iid rv db')
  then show ?case by (cases rv) (auto dest!: revoke_error revoke_Inr dest: rejected_org_ok simp: CountAdmins_def)
next
  case (update db pid mid who role op ru db')
  then show ?case by (cases ru) (auto dest!: update_error dest: update_admin)
next
  case (remove db pid mid who op rm db')
  then show ?case by (cases rm) (auto dest!: remove_error dest: remove_admin)
qed


subsection \<open>The member count of a project\<close>

lemma length_filter_drop_key:
  assumes "distinct (map f xs)" and "x \<in> set xs"
  shows "length (filter P xs) = length (filter P (filter (\<lambda>y. f y \<noteq> f x) xs)) + (if P x then 1 else 0)"
  using assms
proof (induction xs)
  case (Cons y ys)
  show ?case
  proof (cases "y = x")
    case True
    with Cons.prems have "f x \<notin> f ` set ys" by simp
    then have "\<forall>z\<in>set ys. f z \<noteq> f x" by (metis image_eqI)
    then have "filter (\<lambda>z. f z \<noteq> f x) ys = ys" by (simp add: filter_id_conv)
    with True show ?thesis by simp
  next
    case False
    with Cons.prems have "f y \<noteq> f x" by auto
    with Cons False show ?thesis by auto
  qed
qed simp

lemma length_filter_proj: "length (filter (\<lambda>m. pm_ProjectID m = pid) ms) = count_list (map pm_ProjectID ms) pid"
  by (induction ms) auto

definition counts_cover :: "org \<Rightarrow> bool" where
  \<comment> \<open>no project counts fewer members than it has\<close>
  "counts_cover db \<longleftrightarrow> (\<forall>pid p. org_projects db pid = Some p \<longrightarrow> int (size_of db pid) \<le> proj_MemberCount p)"

definition counted_as :: "org \<Rightarrow> org \<Rightarrow> string \<Rightarrow> int \<Rightarrow> int \<Rightarrow> bool" where
  \<comment> \<open>the members of a project change by one number, its count by another\<close>
  "counted_as db db' pid d e \<longleftrightarrow> (\<forall>q. int (size_of db' q) = int (size_of db q) + (if q = pid then d else 0))
     \<and> org_projects db' = org_projects (IncrMemberCount db pid e)"

lemma counts_incr: "counted_as db db' pid d d \<Longrightarrow> counts_ok db \<Longrightarrow> counts_ok db'"
  by (auto simp: counted_as_def counts_ok_def IncrMemberCount_def)

lemma cover_incr: "counted_as db db' pid d e \<Longrightarrow> d \<le> e \<Longrightarrow> counts_cover db \<Longrightarrow> counts_cover db'"
  by (fastforce simp: counted_as_def counts_cover_def IncrMemberCount_def split: if_splits)

lemma incr_zero: "org_projects (IncrMemberCount db pid 0) = org_projects db"
  by (cases "org_projects db pid") (auto simp: IncrMemberCount_def)

lemma counted_same: "map pm_ProjectID (org_members db') = map pm_ProjectID (org_members db) \<Longrightarrow> org_projects db' = org_projects db
    \<Longrightarrow> counted_as db db' pid 0 0"
  by (simp add: counted_as_def incr_zero size_of_def length_filter_proj)

lemma member_call_counted:
  assumes "member_call env db db'" and "org_ok db"
  shows "\<exists>pid d e. counted_as db db' pid d e \<and> d \<le> e \<and> ((\<forall>x. e_accepts env x) \<longrightarrow> d = e)"
  using assms
proof (induction rule: member_call.induct)
  case (invite db input tok ri db')
  then have "counted_as db db' '''' 0 0"
    by (cases ri) (auto dest!: invite_error dest: invite_org_ok intro!: counted_same)
  then show ?case by blast
next
  case (accept db pid uid iid ra db')
  show ?case
  proof (cases ra)
    case (Inr m)
    with accept have "AcceptInvitation env (Inr (FindProject db pid)) (Inr (FindUser db uid)) pid iid uid db = (Inr m, db')"
      by simp
    then show ?thesis
    proof (cases rule: accept_InrE)
      case (joined v u)
      have ms: "org_members db' = org_members db @ [m]" using core_eq [OF joined(10)] by simp
      have "org_projects db' = org_projects (IncrMemberCount (CreateMember db m) pid 1)"
        using core_eq [OF joined(10)] by simp
      then have ps: "org_projects db' = org_projects (IncrMemberCount db pid 1)"
        by (simp add: IncrMemberCount_def)
      have "pm_ProjectID m = pid" using joined(9) by (simp add: new_member_def)
      then have "int (size_of db' q) = int (size_of db q) + (if q = pid then 1 else 0)" for q
        by (simp add: size_of_def ms)
      then have "counted_as db db' pid 1 1" using ps by (simp add: counted_as_def)
      then show ?thesis by blast
    next
      case (again v)
      then have "counted_as db db' pid 0 0" by (simp add: counted_same)
      then show ?thesis by blast
    next
      case (already v u)
      then have "counted_as db db' pid 0 0" by (simp add: counted_same)
      then show ?thesis by blast
    qed
  next
    case (Inl e)
    with accept have "db' = db" by (auto dest: accept_error)
    then have "counted_as db db' pid 0 0" by (simp add: counted_same)
    then show ?thesis by blast
  qed
next
  case (reject db pid uid iid rr db')
  then have "counted_as db db' pid 0 0"
    by (cases rr) (auto dest!: reject_error reject_Inr dest: rejected_org_ok intro!: counted_same)
  then show ?case by blast
next
  case (revoke db pid uid iid rv db')
  then have "counted_as db db' pid 0 0"
    by (cases rv) (auto dest!: revoke_error revoke_Inr dest: rejected_org_ok intro!: counted_same)
  then show ?case by blast
next
  case (update db pid mid who role op ru db')
  have "counted_as db db' pid 0 0"
  proof (cases ru)
    case (Inr r)
    with update have "UpdateRole env (Inr (FindProject db pid)) (Inr (FindMemberByID db mid)) (Inr (CountAdmins db pid)) who pid role op db = (Inr r, db')"
      by simp
    then show ?thesis
    proof (cases rule: update_InrE)
      case (1 m)
      then have m: "m \<in> set (org_members db)" by (auto dest!: FindMemberByID_in)
      have "map pm_ProjectID (org_members db') = map pm_ProjectID (org_members db)"
        using core_eq [OF 1(6)] update(2) 1(5) by (simp add: org_ok_def members_ok_def map_save_row [OF m])
      with core_eq [OF 1(6)] show ?thesis by (simp add: counted_same)
    qed
  qed (use update in \<open>auto dest: update_error intro!: counted_same\<close>)
  then show ?case by blast
next
  case (remove db pid mid who op rm db')
  show ?case
  proof (cases rm)
    case (Inr r)
    with remove have "RemoveMember env (Inr (FindProject db pid)) (Inr (FindMemberByID db mid)) (Inr (CountAdmins db pid)) who pid mid op db = (Inr r, db')"
      by simp
    then show ?thesis
    proof (cases rule: remove_InrE)
      case (1 m)
      then have m: "m \<in> set (org_members db)" "pm_ID m = mid" by (auto dest!: FindMemberByID_in)
      have d: "distinct (map pm_ID (org_members db))" using remove(2) by (simp add: org_ok_def members_ok_def)
      have ms: "org_members db' = filter (\<lambda>x. pm_ID x \<noteq> mid) (org_members db)"
        using core_eq [OF 1(4)] by (simp add: try_put_def)
      have size: "size_of db q = size_of db' q + (if q = pid then 1 else 0)" for q
        using length_filter_drop_key [OF d m(1), of "\<lambda>m. pm_ProjectID m = q"] 1(2) m(2)
        by (auto simp: size_of_def ms)
      then have size: "int (size_of db' q) = int (size_of db q) + (if q = pid then - 1 else 0)" for q
        by simp
      have ps: "org_projects db' = org_projects (IncrMemberCount db pid (- 1)) \<or> (\<exists>x. \<not> e_accepts env x) \<and> org_projects db' = org_projects (IncrMemberCount db pid 0)"
        using core_eq [OF 1(4)] unfolding incr_zero by (auto simp: try_put_def IncrMemberCount_def split: if_splits)
      then have "counted_as db db' pid (- 1) (- 1) \<or> (\<exists>x. \<not> e_accepts env x) \<and> counted_as db db' pid (- 1) 0"
        using size by (auto simp: counted_as_def)
      then show ?thesis
      proof
        assume "counted_as db db' pid (- 1) (- 1)"
        then show ?thesis by blast
      next
        assume "(\<exists>x. \<not> e_accepts env x) \<and> counted_as db db' pid (- 1) 0"
        then show ?thesis by (intro exI [of _ pid] exI [of _ "- 1"] exI [of _ 0]) auto
      qed
    qed
  next
    case (Inl e)
    with remove have "db' = db" by (auto dest: remove_error)
    then have "counted_as db db' pid 0 0" by (simp add: counted_same)
    then show ?thesis by blast
  qed
qed

lemma member_call_counts:
  assumes "member_call env db db'" and "org_ok db"
  shows "counts_cover db \<Longrightarrow> counts_cover db'" and "counts_ok db \<Longrightarrow> \<forall>x. e_accepts env x \<Longrightarrow> counts_ok db'"
  using member_call_counted [OF assms] cover_incr counts_incr by blast+

subsection \<open>Histories\<close>

definition member_calls :: "org \<Rightarrow> org \<Rightarrow> bool" where
  "member_calls = (\<lambda>db db'. \<exists>env. member_call env db db')\<^sup>*\<^sup>*"

lemma member_calls_keep:
  assumes "member_calls db db'" and "org_ok db"
  shows "org_ok db' \<and> (\<forall>q. 0 < CountAdmins db q \<longrightarrow> 0 < CountAdmins db' q)"
  using assms(1) unfolding member_calls_def
proof (induction rule: rtranclp_induct)
  case (step y z)
  then obtain env where "member_call env y z" by blast
  with step.IH show ?case using member_call_org_ok member_call_admin by blast
qed (use assms in simp)


text \<open>\<open>Save\<close> inserts a row that is gone: a role update whose member was removed after it was read
  brings the member back.\<close>

lemma update_revives_removed:
  assumes "UpdateRole env found (Inr (Some m)) admins who pid newRole op (DeleteMember db (pm_ID m)) = (Inr r, db')"
  shows "m\<lparr>pm_Role := newRole\<rparr> \<in> set (org_members db')"
  using assms by (cases rule: update_InrE) (auto dest!: core_eq simp: save_row_def)

end
