(* ===== verification/Projects.thy ===== *)
theory Projects
  imports GraphService MemberEffects
begin

text \<open>
  The project service (\<open>internal/service/project.go\<close>) over the project table and its detail cache
  (\<open>internal/repository/project.go\<close>). \<open>Update\<close> and \<open>Rename\<close> read a row, possibly from the cache, and
  save the whole row; in between, other clients may change its counters. The row they were
  answered is an argument (\<open>found\<close>). The cache is a map of decoded rows.
\<close>

type_synonym project_table = "string \<Rightarrow> project_row option"

record project_store =
  ps_table :: project_table
  ps_cache :: project_table

subsection \<open>The repository\<close>

definition cacheProjectDetail :: "bool \<Rightarrow> project_row \<Rightarrow> project_table \<Rightarrow> project_table" where
  "cacheProjectDetail on p cache =
     (if \<not> on \<or> TrimSpace (proj_ID p) = '''' then cache else cache(TrimSpace (proj_ID p) \<mapsto> p))"

definition invalidateProjectDetailCache :: "bool \<Rightarrow> string \<Rightarrow> project_table \<Rightarrow> project_table" where
  "invalidateProjectDetailCache on i cache =
     (if \<not> on \<or> TrimSpace i = '''' then cache else cache(TrimSpace i := None))"

definition ProjectFindByID :: "bool \<Rightarrow> string \<Rightarrow> project_store \<Rightarrow> project_row option \<times> project_store" where
  "ProjectFindByID on i st =
     (let k = TrimSpace i in
      if k = '''' then (None, st)
      else case (if on then ps_cache st k else None) of
        Some p \<Rightarrow> (Some p, st)
      | None \<Rightarrow> (case ps_table st k of
            None \<Rightarrow> (None, st)
          | Some p \<Rightarrow> (Some p, st\<lparr>ps_cache := cacheProjectDetail on p (ps_cache st)\<rparr>)))"

definition ProjectSave :: "bool \<Rightarrow> project_row \<Rightarrow> project_store \<Rightarrow> project_store" where
  \<comment> \<open>\<open>Save\<close> writes every column of the row\<close>
  "ProjectSave on p st = st\<lparr>ps_table := (ps_table st)(proj_ID p \<mapsto> p),
     ps_cache := invalidateProjectDetailCache on (proj_ID p) (ps_cache st)\<rparr>"

definition ProjectInsert :: "bool \<Rightarrow> project_row \<Rightarrow> project_store \<Rightarrow> project_store" where
  "ProjectInsert on p st = st\<lparr>ps_table := (ps_table st)(proj_ID p \<mapsto> p),
     ps_cache := cacheProjectDetail on p (ps_cache st)\<rparr>"

definition IncrMemberCountRow :: "string \<Rightarrow> int \<Rightarrow> project_store \<Rightarrow> project_store" where
  \<comment> \<open>the statement of \<open>IncrMemberCount\<close>; the cached row stays\<close>
  "IncrMemberCountRow i d st = st\<lparr>ps_table := (ps_table st)(i :=
     map_option (\<lambda>p. p\<lparr>proj_MemberCount := proj_MemberCount p + d\<rparr>) (ps_table st i))\<rparr>"

subsection \<open>The service\<close>

datatype project_error = ErrInvalidProjectType | ErrProjectMissing | ErrProjectNameEmpty | ErrProjectDB

record CreateProjectInput =
  cp_Name :: string
  cp_Type :: string
  cp_Description :: string
  cp_Tags :: "string list"

record account_store =
  as_projects :: project_store
  as_members :: "ProjectMember list"

definition ProjectCreate ::
    "(account_store \<Rightarrow> bool) \<Rightarrow> bool \<Rightarrow> draws \<Rightarrow> string \<Rightarrow> CreateProjectInput \<Rightarrow> account_store
      \<Rightarrow> (project_error + project_row) \<times> account_store" where
  \<comment> \<open>two statements outside a transaction: when the second fails, the first stays\<close>
  "ProjectCreate accepts on d userID input st =
     (if cp_Type input \<noteq> ''ft'' \<and> cp_Type input \<noteq> ''kg'' then (Inl ErrInvalidProjectType, st)
      else
        let p = newProject (NewID d 0 ''proj'') (cp_Name input) (cp_Type input) (cp_Description input) (cp_Tags input) userID;
            st1 = st\<lparr>as_projects := ProjectInsert on p (as_projects st)\<rparr>;
            m = \<lparr> pm_ID = NewID d 1 ''member'', pm_ProjectID = proj_ID p, pm_UserID = userID,
                  pm_Role = ''admin'', pm_Status = ''active'' \<rparr>;
            st2 = st1\<lparr>as_members := as_members st1 @ [m]\<rparr>
        in if \<not> accepts st1 then (Inl ErrProjectDB, st)
           else if \<not> accepts st2 then (Inl ErrProjectDB, st1)
           else (Inr p, st2))"

definition ProjectGetByID :: "bool \<Rightarrow> string \<Rightarrow> project_store \<Rightarrow> (project_error + project_row) \<times> project_store" where
  "ProjectGetByID on i st = (case ProjectFindByID on i st of
     (None, st') \<Rightarrow> (Inl ErrProjectMissing, st') | (Some p, st') \<Rightarrow> (Inr p, st'))"

definition save_changed ::
    "(project_store \<Rightarrow> bool) \<Rightarrow> bool \<Rightarrow> project_row \<Rightarrow> project_store \<Rightarrow> (project_error + project_row) \<times> project_store" where
  "save_changed accepts on p st =
     (let st' = ProjectSave on p st in if accepts st' then (Inr p, st') else (Inl ErrProjectDB, st))"

definition ProjectUpdate ::
    "(project_store \<Rightarrow> bool) \<Rightarrow> bool \<Rightarrow> project_row option \<Rightarrow> string \<Rightarrow> string option \<Rightarrow> string list \<Rightarrow> project_store
      \<Rightarrow> (project_error + project_row) \<times> project_store" where
  "ProjectUpdate accepts on found name desc tags st = (case found of
     None \<Rightarrow> (Inl ErrProjectMissing, st)
   | Some p \<Rightarrow> save_changed accepts on
       (p\<lparr>proj_Name := name, proj_Description := desc, proj_Tags := tags\<rparr>) st)"

definition ProjectRename ::
    "(project_store \<Rightarrow> bool) \<Rightarrow> bool \<Rightarrow> project_row option \<Rightarrow> string \<Rightarrow> project_store
      \<Rightarrow> (project_error + project_row) \<times> project_store" where
  "ProjectRename accepts on found newName st = (case found of
     None \<Rightarrow> (Inl ErrProjectMissing, st)
   | Some p \<Rightarrow>
       if TrimSpace newName = '''' then (Inl ErrProjectNameEmpty, st)
       else save_changed accepts on (p\<lparr>proj_Name := TrimSpace newName\<rparr>) st)"

subsection \<open>What a rename writes back\<close>

lemma ProjectRename_ok:
  "ProjectRename accepts on (Some p) newName st = (Inr q, st') \<longleftrightarrow>
     TrimSpace newName \<noteq> '''' \<and> q = p\<lparr>proj_Name := TrimSpace newName\<rparr> \<and> accepts st' \<and> st' = ProjectSave on q st"
  by (auto simp: ProjectRename_def save_changed_def Let_def)

text \<open>Every other column of the row is the one that was read.\<close>

lemma rename_row:
  "ProjectRename accepts on (Some p) newName st = (Inr q, st') \<Longrightarrow>
     ps_table st' = (ps_table st)(proj_ID p \<mapsto> p\<lparr>proj_Name := TrimSpace newName\<rparr>)"
  by (auto simp: ProjectRename_ok ProjectSave_def)

definition rename_in_db :: "project_row \<Rightarrow> string \<Rightarrow> db \<Rightarrow> db" where
  \<comment> \<open>a rename that was answered this row, as it changes the graph database\<close>
  "rename_in_db p newName db = db\<lparr>db_projects := ps_table (snd
     (ProjectRename (\<lambda>_. True) False (Some p) newName \<lparr> ps_table = db_projects db, ps_cache = Map.empty \<rparr>))\<rparr>"

lemma rename_in_db_row:
  assumes "TrimSpace newName \<noteq> ''''"
  shows "db_projects (rename_in_db p newName db) = (db_projects db)(proj_ID p \<mapsto> p\<lparr>proj_Name := TrimSpace newName\<rparr>)"
    and "GetFaultTreeGraph (rename_in_db p newName db) = GetFaultTreeGraph db"
  using assms
  by (simp_all add: rename_in_db_def ProjectRename_def save_changed_def ProjectSave_def GetFaultTreeGraph_def fun_eq_iff)

text \<open>With the cache on, a member who joined after the row was cached is forgotten by the next
  rename: the cached row still has the old count.\<close>

lemma rename_forgets_member:
  assumes "ps_table st i = Some p" and "proj_ID p = i" and "TrimSpace i = i" and "i \<noteq> ''''"
    and "ps_cache st i = None" and "TrimSpace newName \<noteq> ''''"
  shows "let st1 = snd (ProjectGetByID True i st);
             st2 = IncrMemberCountRow i 1 st1;
             found = fst (ProjectFindByID True i st2);
             st3 = snd (ProjectRename (\<lambda>_. True) True found newName st2)
         in map_option proj_MemberCount (ps_table st2 i) = Some (proj_MemberCount p + 1)
            \<and> map_option proj_MemberCount (ps_table st3 i) = Some (proj_MemberCount p)"
  using assms
  by (simp add: ProjectGetByID_def ProjectFindByID_def cacheProjectDetail_def IncrMemberCountRow_def
      ProjectRename_def save_changed_def ProjectSave_def)

end
