(* ===== verification/ProjectWriters.thy ===== *)
theory ProjectWriters
  imports Writers Projects
begin

text \<open>
  All writers of a project's graphs and of its row: besides the functions of \<open>Writers\<close>, the creation of a
  project, the statements that set other columns of its row, and \<open>Rename\<close> and \<open>Update\<close>, which save the whole
  row they were answered, the revision included. The contract \<open>revisioned\<close> holds for all of them as long as
  no rename or update was answered a row whose revision is not the stored one.
\<close>

definition project_rows :: "db \<Rightarrow> project_table \<Rightarrow> project_store" where
  "project_rows db cache = \<lparr> ps_table = db_projects db, ps_cache = cache \<rparr>"

definition current_answer :: "db \<Rightarrow> project_row option \<Rightarrow> bool" where
  \<comment> \<open>the row a service works on has the stored revision\<close>
  "current_answer db found \<longleftrightarrow> (case found of None \<Rightarrow> True
     | Some p \<Rightarrow> map_option proj_GraphRevision (db_projects db (proj_ID p)) = Some (proj_GraphRevision p))"

inductive project_write :: "db \<Rightarrow> db \<Rightarrow> bool" where
  graphs: "graph_write db db' \<Longrightarrow> project_write db db'"
| create: "ProjectCreate accepts on d user input \<lparr> as_projects = project_rows db cache, as_members = ms \<rparr> = (cres, st)
    \<Longrightarrow> db_projects db (NewID d 0 ''proj'') = None \<Longrightarrow> project_write db (db\<lparr>db_projects := ps_table (as_projects st)\<rparr>)"
| columns: "(\<And>q. map_option proj_GraphRevision (ps q) = map_option proj_GraphRevision (db_projects db q))
    \<Longrightarrow> project_write db (db\<lparr>db_projects := ps\<rparr>)"
| rename: "ProjectRename saved on found name (project_rows db cache) = (res, st') \<Longrightarrow> current_answer db found
    \<Longrightarrow> project_write db (db\<lparr>db_projects := ps_table st'\<rparr>)"
| update: "ProjectUpdate saved on found name desc tags (project_rows db cache) = (res, st') \<Longrightarrow> current_answer db found
    \<Longrightarrow> project_write db (db\<lparr>db_projects := ps_table st'\<rparr>)"

lemma graphs_of_rows [simp]: "graphs_of (db\<lparr>db_projects := ps\<rparr>) = graphs_of db"
  by (simp add: graphs_of_def GetFaultTreeGraph_def GetKnowledgeGraphGraph_def fun_eq_iff)

lemma current_revision_rows:
  "map_option proj_GraphRevision (ps q) = map_option proj_GraphRevision (db_projects db q)
    \<Longrightarrow> current_revision q (db\<lparr>db_projects := ps\<rparr>) = current_revision q db"
  by (auto simp: current_revision_def split: option.splits)

lemma saved_rows:
  assumes "save_changed saved on p' (project_rows db cache) = (res, st')" and "current_answer db (Some p)"
    and "proj_ID p' = proj_ID p" and "proj_GraphRevision p' = proj_GraphRevision p"
  shows "map_option proj_GraphRevision (ps_table st' q) = map_option proj_GraphRevision (db_projects db q)"
  using assms by (auto simp: save_changed_def Let_def ProjectSave_def project_rows_def current_answer_def split: if_splits)

lemma project_write_step: "project_write db db' \<Longrightarrow> step_of pid db db'"
proof (induction rule: project_write.induct)
  case (graphs db db')
  then show ?case by (rule graph_write_step)
next
  case (create accepts on d user input db cache ms cres st)
  then have "ps_table (as_projects st) = db_projects db
      \<or> (\<exists>p. ps_table (as_projects st) = (db_projects db)(NewID d 0 ''proj'' \<mapsto> p) \<and> proj_GraphRevision p = 0)"
    by (auto simp: ProjectCreate_def Let_def ProjectInsert_def project_rows_def newProject_def split: if_splits)
  then show ?case using create(2) by (auto simp: step_of_def current_revision_def)
next
  case (columns ps db)
  then show ?case by (simp add: step_of_def current_revision_rows)
next
  case (rename saved on found name db cache res st')
  have "map_option proj_GraphRevision (ps_table st' q) = map_option proj_GraphRevision (db_projects db q)" for q
  proof (cases found)
    case (Some p)
    show ?thesis
      using rename(1) saved_rows [OF _ rename(2) [unfolded Some], of saved on "p\<lparr>proj_Name := TrimSpace name\<rparr>" cache res st' q]
      by (auto simp: ProjectRename_def Some project_rows_def split: if_splits)
  qed (use rename(1) in \<open>auto simp: ProjectRename_def project_rows_def\<close>)
  then show ?case by (simp add: step_of_def current_revision_rows)
next
  case (update saved on found name desc tags db cache res st')
  have "map_option proj_GraphRevision (ps_table st' q) = map_option proj_GraphRevision (db_projects db q)" for q
  proof (cases found)
    case (Some p)
    show ?thesis
      using update(1) saved_rows [OF _ update(2) [unfolded Some], of saved on
          "p\<lparr>proj_Name := name, proj_Description := desc, proj_Tags := tags\<rparr>" cache res st' q]
      by (simp add: ProjectUpdate_def Some)
  qed (use update(1) in \<open>auto simp: ProjectUpdate_def project_rows_def\<close>)
  then show ?case by (simp add: step_of_def current_revision_rows)
qed

interpretation stored: revisioned "current_revision pid" "\<lambda>db. graphs_of db pid" project_write
  by unfold_locales (use project_write_step in \<open>auto simp: step_of_def\<close>)

text \<open>A rename as it changes the database, answered the stored row.\<close>

lemma rename_write:
  assumes "db_projects db (proj_ID p) = Some p"
  shows "project_write db (rename_in_db p newName db)"
proof -
  have "current_answer db (Some p)" using assms by (simp add: current_answer_def)
  then show ?thesis
    unfolding rename_in_db_def project_rows_def [symmetric] by (intro project_write.rename) (rule prod.collapse [symmetric])
qed

end
