(* ===== verification/StoreTheorems.thy ===== *)
theory StoreTheorems
  imports Fixtures ProjectWriters
begin

text \<open>
  What the write paths of the stored fault tree promise: which trees a commit can store, that an edit
  based on a revision is applied to the tree of that revision, that a failed call changes nothing and
  that two saves from one revision do not both succeed; and what the entry point without a revision
  does not promise.
\<close>

subsection \<open>Which check a plan gets\<close>

text \<open>No operation of a batch that ran is itself a batch, so repair mode is on exactly when the call
  itself asked for it.\<close>

lemma run_ops_each:
  "run_ops step ops acc s k = Inr r \<Longrightarrow> op \<in> set ops \<Longrightarrow> \<exists>s k x. step op s k = Inr x"
proof (induction ops arbitrary: acc s k)
  case (Cons o1 ops)
  from Cons.prems(1) obtain x s1 k1 acc1 where 1: "step o1 s k = Inr (x, s1, k1)"
    and 2: "run_ops step ops acc1 s1 k1 = Inr r"
    by (auto split: sum.splits prod.splits)
  show ?case
  proof (cases "op = o1")
    case True
    with 1 show ?thesis by blast
  next
    case False
    with Cons.IH [OF 2] Cons.prems(2) show ?thesis by simp
  qed
qed simp

lemma batch_ops_allowed:
  assumes "applyBatchOperations d s args k = Inr r"
  obtains ops rep where "batch_request args = Inr (ops, rep)"
    and "\<forall>op \<in> set ops. \<not> is_batch_name (fst op)"
proof -
  from assms obtain ops rep acc where q: "batch_request args = Inr (ops, rep)"
    and run: "run_ops (\<lambda>op s k. bindE (op_allowed op) (\<lambda>_.
        if rep then applyOperationPermissive d s (fst op) (snd op) k
        else applyOperation d s (fst op) (snd op) k)) ops (empty_patch, 0, 0) s k = Inr acc"
    by (auto simp: applyBatchOperations.simps [of d s args k] bindE_Inr_iff split: sum.splits prod.splits if_splits)
  have "\<not> is_batch_name (fst op)" if "op \<in> set ops" for op
    using run_ops_each [OF run that] by (auto simp: is_batch_name_def op_allowed_def bindE_Inr_iff)
  with q that show thesis by blast
qed

lemma fold_b: "fold_case n = CHR ''b'' # r \<Longrightarrow> \<exists>r'. ToLower n = CHR ''b'' # r'"
proof -
  have l: "ascii_lower CHR 0xC4 = CHR 0xC4" by code_simp
  show "fold_case n = CHR ''b'' # r \<Longrightarrow> \<exists>r'. ToLower n = CHR ''b'' # r'"
    by (cases n rule: fold_case.cases) (auto simp: l split: if_splits)
qed

lemma batch_dispatch:
  assumes "is_batch_name t" and "applyOperation d s t args k = Inr r"
  shows "applyBatchOperations d s args k = Inr r"
proof -
  have "fold_case ''batch_operations'' = ''batch_operations''" by code_simp
  then obtain r' where "ToLower (TrimSpace t) = CHR ''b'' # r'"
    using assms(1) fold_b by (force simp: is_batch_name_def EqualFold_def)
  with assms(2) show ?thesis
    by (auto simp: applyOperation.simps applyDirect_def Let_def split: if_splits)
qed

lemma detect_requested:
  assumes "PlanFaultTreeOperation d s t args k = Inr (plan, s', k')"
  shows "detectRepairMode plan \<longleftrightarrow> isRepairModeBatchOperation (TrimSpace t) args"
proof -
  from assms obtain res where run: "applyOperation d s (TrimSpace t) args k = Inr (res, s', k')"
    and ops: "plan_Operations plan = expandPlannedOperations (TrimSpace t) args"
    and rep: "plan_RepairMode plan = isRepairModeBatchOperation (TrimSpace t) args"
    by (auto simp: PlanFaultTreeOperation_def Let_def bindE_Inr_iff simp del: ValidateParameters.simps)
  have whole: "list_ex (\<lambda>op. isRepairModeBatchOperation (po_ToolName op) (po_Args op))
      [\<lparr> po_ToolName = TrimSpace t, po_Args = cloneJSONRaw args \<rparr>] \<longrightarrow> isRepairModeBatchOperation (TrimSpace t) args"
    by (cases args) (auto simp: isRepairModeBatchOperation_def cloneJSONRaw_def unmarshal_def req_bool_def need_def
        field_vals_def bindE_Inr_iff split: option.splits)
  show ?thesis
  proof (cases "is_batch_name t")
    case False
    with whole show ?thesis by (auto simp: detectRepairMode_def rep ops expandPlannedOperations_def is_batch_name_def)
  next
    case True
    then have "is_batch_name (TrimSpace t)" by (simp add: is_batch_name_def)
    from batch_dispatch [OF this run] obtain os rm where q: "batch_request args = Inr (os, rm)"
      and no: "\<forall>op \<in> set os. \<not> is_batch_name (fst op)" by (rule batch_ops_allowed)
    have "\<not> isRepairModeBatchOperation (TrimSpace (fst op)) a" if "op \<in> set os" for op a
      using no that by (auto simp: isRepairModeBatchOperation_def is_batch_name_def)
    moreover from q have "bindE (unmarshal args) (\<lambda>m. need (dec_ops [] (field_vals ''operations'' m))) = Inr os"
      by (auto simp: batch_request_def bindE_Inr_iff)
    ultimately show ?thesis
      using whole True
      by (auto simp: detectRepairMode_def rep ops expandPlannedOperations_def Let_def list_ex_iff is_batch_name_def
          filter_empty_conv split: if_splits)
  qed
qed

subsection \<open>Committing an edit\<close>

definition ids_drawn :: "draws \<Rightarrow> faultTreeState \<Rightarrow> string \<Rightarrow> raw_message \<Rightarrow> nat \<Rightarrow> nat" where
  \<comment> \<open>the counter after the plan of a call\<close>
  "ids_drawn d s t args k =
     (case PlanFaultTreeOperation d s (TrimSpace t) args k of Inl _ \<Rightarrow> k | Inr (_, _, k') \<Rightarrow> k')"

abbreviation tree_of :: "db \<Rightarrow> string \<Rightarrow> faultTreeState" where
  "tree_of db pid \<equiv> newFaultTreeState (fst (GetFaultTreeGraph db pid)) (snd (GetFaultTreeGraph db pid))"

lemma committed_tree: "committed pid s base db db' \<Longrightarrow> tree_of db' pid = stored pid s"
  by (simp add: committed_def stored_def)

text \<open>C1: an agent's edit of a well-formed snapshot either leaves the database as it was or stores a
  tree that satisfies every rule of a fault tree, or, when the call asked for repair mode, the rules
  whose violation is fatal.\<close>

theorem commit_stores_wellformed:
  assumes "ft_inv (newFaultTreeState bn be)"
    and "fresh_draws d k (ids_drawn d (newFaultTreeState bn be) t args k) (newFaultTreeState bn be)"
    and "ExecuteFaultTreeSnapshot d accepts found pid t args bn be oldRev k db = (r, db')"
  shows "db' = db \<or> unique_ids (tree_of db' (TrimSpace pid)) \<and>
    (if isRepairModeBatchOperation (TrimSpace t) args then wf_fatal (tree_of db' (TrimSpace pid))
     else wf_fta (tree_of db' (TrimSpace pid)))"
proof (cases r)
  case (Inl e)
  with assms(3) show ?thesis by (auto dest: snapshot_error)
next
  case (Inr res)
  then obtain out ns es nr where "ExecuteFaultTreeSnapshot d accepts found pid t args bn be oldRev k db =
      (Inr (out, ns, es, nr), db')" using assms(3) by (cases res) auto
  then obtain plan s k' where plan: "PlanFaultTreeOperation d (newFaultTreeState bn be) (TrimSpace t) args k = Inr (plan, s, k')"
    and ap: "applyPlannedPatchSet accepts found (TrimSpace pid) (TrimSpace t) s plan oldRev db = (Inr (out, ns, es, nr), db')"
    by (rule snapshot_Inr)
  have "ft_inv s" using plan_inv [OF plan assms(1)] assms(2) plan by (simp add: ids_drawn_def)
  then have u: "unique_ids s" by (simp add: ft_invD case_unique_ids)
  from apply_ok_cases [OF ap] show ?thesis
    using safety_check_wf [OF u, of "detectRepairMode plan"] committed_tree [of "TrimSpace pid" s "nr - 1" db db']
      detect_requested [OF plan] u
    by (auto split: if_splits)
qed

theorem commit_stores_wellformed_witness: "wf_fta (tree_of (snd ex_renamed) ''p'')"
proof -
  have n: "ids_drawn ex_draws (newFaultTreeState ex_top []) ''update_node'' ex_rename 1 = 1" by code_simp
  have f: "fresh_draws ex_draws 1 (ids_drawn ex_draws (newFaultTreeState ex_top []) ''update_node'' ex_rename 1)
      (newFaultTreeState ex_top [])"
    unfolding n by (simp add: fresh_draws_def drawn_def)
  have t: "TrimSpace ''p'' = ''p''" "TrimSpace ''update_node'' = ''update_node''"
    "\<not> isRepairModeBatchOperation ''update_node'' ex_rename" by code_simp+
  from commit_stores_wellformed [OF ex_top_inv f prod.collapse [symmetric], of "\<lambda>_. True" "Inr (db_projects ex_db1 ''p'')"
      "''p''" 7 ex_db1] show ?thesis
    using ex_renamed_changed by (simp add: t ex_renamed_def)
qed

text \<open>A call that changes the graph takes effect only if the project is still at the revision the
  caller expected; it raises the revision by one, writes one audit record, and touches no other
  project.\<close>

theorem commit_at_expected_revision:
  assumes "ExecuteFaultTreeSnapshot d accepts found pid t args bn be oldRev k db = (Inr (res, ns, es, nextRev), db')"
    and "0 \<le> oldRev" and "db' \<noteq> db"
  shows "current_revision (TrimSpace pid) db = oldRev \<and> nextRev = oldRev + 1
    \<and> current_revision (TrimSpace pid) db' = oldRev + 1
    \<and> GetFaultTreeGraph db' (TrimSpace pid) = (ns, es)
    \<and> (\<forall>q. q \<noteq> TrimSpace pid \<longrightarrow> GetFaultTreeGraph db' q = GetFaultTreeGraph db q \<and> db_projects db' q = db_projects db q)
    \<and> length (db_audits db') = length (db_audits db) + 1"
proof -
  obtain plan s k' where ap: "applyPlannedPatchSet accepts found (TrimSpace pid) (TrimSpace t) s plan oldRev db =
      (Inr (res, ns, es, nextRev), db')"
    using assms(1) by (rule snapshot_Inr)
  from apply_ok_cases [OF ap] assms(2,3)
  have c: "committed (TrimSpace pid) s (nextRev - 1) db db'" and r: "nextRev = oldRev + 1"
    and g: "ns = st_nodes (stored (TrimSpace pid) s)" "es = st_edges (stored (TrimSpace pid) s)" by auto
  show ?thesis
    using c unfolding r g committed_def current_revision_def by (auto simp del: stored_sel)
qed

theorem commit_at_expected_revision_witness: "current_revision ''p'' (snd ex_renamed) = 8"
proof -
  obtain res ns es nr where r: "fst ex_renamed = Inr (res, ns, es, nr)"
    using ex_renamed_run by (auto simp: is_ok_iff)
  have run: "ExecuteFaultTreeSnapshot ex_draws (\<lambda>_. True) (Inr (db_projects ex_db1 ''p'')) ''p'' ''update_node''
     ex_rename ex_top [] 7 1 ex_db1 = (Inr (res, ns, es, nr), snd ex_renamed)"
    using r unfolding ex_renamed_def by (metis prod.collapse)
  have "TrimSpace ''p'' = ''p''" by code_simp
  with commit_at_expected_revision [OF run _ ex_renamed_changed] show ?thesis by simp
qed

text \<open>C2: no update is lost on the path of the agent. The caller reads the revision, then the graph, while in
  between and until its own call anybody may write: the functions that write graphs, the creation of
  projects, the statements that set other columns of a project's row, and every rename or update whose
  answered row has the stored revision. If the caller's edit is stored, the graph it edited is the one that
  was current when it was replaced. A rename or update that writes an older revision back is excluded: it
  lets an update be lost (\<open>rename_reopens_revision\<close>).\<close>

theorem agent_loses_no_update:
  assumes "project_write\<^sup>*\<^sup>* db0 db1" and "project_write\<^sup>*\<^sup>* db1 db"
    and "rev0 = current_revision (TrimSpace pid) db0" and "0 \<le> rev0"
    and "GetFaultTreeGraph db1 (TrimSpace pid) = (bn, be)"
    and "ExecuteFaultTreeSnapshot d accepts found pid t args bn be rev0 k db = (r, db')" and "db' \<noteq> db"
  shows "GetFaultTreeGraph db (TrimSpace pid) = (bn, be)"
proof -
  have "\<exists>x. r = Inr x" using assms(6,7) snapshot_error [of d accepts found pid t args bn be rev0 k db _ db'] by (cases r) auto
  then obtain res ns es nr where run: "ExecuteFaultTreeSnapshot d accepts found pid t args bn be rev0 k db = (Inr (res, ns, es, nr), db')"
    using assms(6) by (metis prod.collapse)
  obtain plan s k' where ap: "applyPlannedPatchSet accepts found (TrimSpace pid) (TrimSpace t) s plan rev0 db = (Inr (res, ns, es, nr), db')"
    using run by (rule snapshot_Inr)
  from apply_ok_cases [OF ap] assms(4,7) have "current_revision (TrimSpace pid) db = rev0"
    by (auto simp: committed_def current_revision_def)
  then show ?thesis
    using stored.view_current [OF assms(1,2)] assms(3,5) by (simp add: graphs_of_def)
qed

text \<open>Here somebody renames the project between the reading and the edit.\<close>

theorem agent_loses_no_update_witness:
  "\<exists>db. project_write ex_db1 db \<and> map_option proj_Name (db_projects db ''p'') = Some ''N''
    \<and> GetFaultTreeGraph db ''p'' = (map (own_node ''p'') ex_top, [])
    \<and> snd (ExecuteFaultTreeSnapshot ex_draws (\<lambda>_. True) (Inr (db_projects db ''p'')) ''p'' ''update_node''
        ex_rename (map (own_node ''p'') ex_top) [] 7 1 db) \<noteq> db"
proof -
  let ?p = "set_graph_meta 7 1 0 0 0 (newProject ''p'' ''P'' ''ft'' '''' [] ''u'')"
  let ?db = "rename_in_db ?p ''N'' ex_db1"
  let ?run = "ExecuteFaultTreeSnapshot ex_draws (\<lambda>_. True) (Inr (db_projects ?db ''p'')) ''p'' ''update_node''
        ex_rename (map (own_node ''p'') ex_top) [] 7 1 ?db"
  have p: "db_projects ex_db1 (proj_ID ?p) = Some ?p" by (simp add: ex_db1_def set_graph_meta_def newProject_def)
  have "map node_Name (db_nodes (snd ?run)) = [''R''] \<and> map node_Name (db_nodes ?db) = [''T'']
      \<and> current_revision ''p'' ex_db1 = 7 \<and> map_option proj_Name (db_projects ?db ''p'') = Some ''N''" by code_simp
  then have ch: "snd ?run \<noteq> ?db" and rev: "7 = current_revision ''p'' ex_db1" and nm: "map_option proj_Name (db_projects ?db ''p'') = Some ''N''"
    by auto
  have t: "TrimSpace ''p'' = ''p''" by code_simp
  have g: "GetFaultTreeGraph ex_db1 ''p'' = (map (own_node ''p'') ex_top, [])"
    by (simp add: GetFaultTreeGraph_def ex_db1_def)
  have w: "project_write ex_db1 ?db" using p by (rule rename_write)
  from agent_loses_no_update [OF rtranclp.rtrancl_refl r_into_rtranclp [of project_write, OF w], of 7 "''p''", unfolded t,
      OF rev _ g prod.collapse [symmetric] ch] ch nm w show ?thesis by auto
qed

subsection \<open>Failing\<close>

lemma failed_iff: "map_prod is_ok id r = (False, db') \<longleftrightarrow> (\<exists>e. r = (Inl e, db'))"
  by (cases r; cases "fst r") auto

text \<open>One call of any of the functions that write a fault tree.\<close>

datatype write_call =
    CallSnapshot string string raw_message ft_graph int
  | CallExecute string string string raw_message "graph_error + ft_graph"
  | CallPatchSet string string "PlannedPatchSet option" "graph_error + ft_graph"
  | CallSave string "FaultTreeNode list" "FaultTreeEdge list" int

fun run_write :: "draws \<Rightarrow> (db \<Rightarrow> bool) \<Rightarrow> graph_error + project_row option \<Rightarrow> nat \<Rightarrow> write_call \<Rightarrow> db \<Rightarrow> bool \<times> db" where
  \<comment> \<open>whether the call succeeded, and the database after it\<close>
  "run_write d accepts found k (CallSnapshot pid t args g r) db =
     map_prod is_ok id (ExecuteFaultTreeSnapshot d accepts found pid t args (fst g) (snd g) r k db)"
| "run_write d accepts found k (CallExecute pid ty t args loaded) db =
     map_prod is_ok id (Execute d accepts loaded found pid ty t args k db)"
| "run_write d accepts found k (CallPatchSet pid ty planned loaded) db =
     map_prod is_ok id (ApplyPatchSet d accepts loaded found pid ty planned k db)"
| "run_write d accepts found k (CallSave pid ns es r) db =
     map_prod is_ok id (SaveGraph accepts pid ns es r db)"

text \<open>C5: whichever write function fails, for whatever reason and at whatever point, the nodes, edges,
  revisions and audit records are what they were.\<close>

theorem failed_write_changes_nothing:
  assumes "run_write d accepts found k call db = (False, db')"
  shows "db' = db"
  using assms
  by (cases call) (auto simp: failed_iff dest!: snapshot_error Execute_error ApplyPatchSet_error SaveGraph_error)

text \<open>An edit against a revision that is gone.\<close>

theorem failed_write_changes_nothing_witness:
  "snd (run_write ex_draws (\<lambda>_. True) (Inr (db_projects ex_db1 ''p'')) 1
     (CallSnapshot ''p'' ''update_node'' ex_rename (ex_top, []) 6) ex_db1) = ex_db1"
proof -
  let ?run = "run_write ex_draws (\<lambda>_. True) (Inr (db_projects ex_db1 ''p'')) 1
     (CallSnapshot ''p'' ''update_node'' ex_rename (ex_top, []) 6) ex_db1"
  have "\<not> fst ?run" by code_simp
  then have "?run = (False, snd ?run)" by (metis prod.collapse)
  then show ?thesis by (rule failed_write_changes_nothing)
qed

subsection \<open>Saving from the editor\<close>

text \<open>of two saves of a project from the same revision, whatever succeeds in between, the second
  is refused with a version conflict and changes nothing.\<close>

theorem second_save_conflicts:
  assumes "SaveGraph accepts pid ns es r db = (Inr res, db1)" and "project_write\<^sup>*\<^sup>* db1 db2"
    and "\<forall>x. accepts2 x"
  shows "SaveGraph accepts2 pid ns2 es2 r db2 = (Inl ErrVersionConflict, db2)"
proof -
  have "current_revision pid db1 = r + 1"
    using SaveGraph_ok(3) [OF assms(1)] by (auto simp: current_revision_def)
  moreover have "current_revision pid db1 \<le> current_revision pid db2"
    using stored.writes_version [OF assms(2)] by blast
  ultimately have rev: "r < current_revision pid db2" by simp
  let ?ns = "map (own_node pid) ns2" and ?es = "map (own_edge pid) es2"
  obtain db3 where rep: "BatchReplaceFaultTree accepts2 db2 pid ?ns ?es = Inr db3"
    using assms(3) by (auto simp: BatchReplaceFaultTree_def Let_def)
  with BatchReplace_frame [OF rep] rev
  have "UpdateGraphMetaCAS db3 pid r (r + 1) (length ns2) (length es2) 0 0 = (0, db3)"
    by (auto simp: UpdateGraphMetaCAS_def current_revision_def split: option.splits)
  with rep show ?thesis by (simp add: SaveGraph_def save_graph_def transaction_def)
qed

theorem second_save_conflicts_witness:
  "fst (SaveGraph (\<lambda>_. True) ''p'' [] [] 7 (snd (SaveGraph (\<lambda>_. True) ''p'' ex_top [] 7 ex_db1))) = Inl ErrVersionConflict"
proof -
  let ?run = "SaveGraph (\<lambda>_. True) ''p'' ex_top [] 7 ex_db1"
  have "is_ok (fst ?run)" by code_simp
  then obtain res where "?run = (Inr res, snd ?run)" by (cases ?run) (auto simp: is_ok_iff)
  from second_save_conflicts [OF this rtranclp.rtrancl_refl, of "\<lambda>_. True" "[]" "[]"] show ?thesis by simp
qed

definition both_edits :: "(bool \<times> bool) \<times> string list" where
  "both_edits =
     (let arg = (\<lambda>x. args1 [(''nodeId'', JStr ''t''), x]);
          g = GetFaultTreeGraph ex_db1 ''p'';
          (r1, db1) = Execute ex_draws (\<lambda>_. True) (Inr g) (Inr (db_projects ex_db1 ''p'')) ''p'' ''faultTree''
                        ''update_node'' (arg (''name'', JStr ''R'')) 1 ex_db1;
          (r2, db2) = Execute ex_draws (\<lambda>_. True) (Inr g) (Inr (db_projects db1 ''p'')) ''p'' ''faultTree''
                        ''update_node'' (arg (''description'', JStr ''D'')) 1 db1
      in ((is_ok r1, is_ok r2), map node_Name (db_nodes db2)))"

text \<open>The entry point without an expected revision keeps the graph it loaded: two edits that both
  loaded the tree before either was stored both succeed, and the first one is gone.\<close>

theorem execute_loses_update: "both_edits = ((True, True), [''T''])"
  by code_simp

end
