(* ===== verification/AgentTheorems.thy ===== *)
theory AgentTheorems
  imports Fixtures
begin

text \<open>
  What guards the agent: the tool registry and the parameter validator, the limits of the safety
  controller, the confirmation of a pending call, and the previews a user commits.
\<close>

subsection \<open>The registry\<close>

text \<open>Every tool of the registry is found by its name, whatever the letter case and the space
  around it, and no other tool is.\<close>

theorem registry_lookup:
  assumes "tool \<in> set toolRegistry" and "ToLower (TrimSpace name) = tool_Name tool"
  shows "GetTool name = Some (normalizeToolDefinition tool)"
proof -
  have "map (\<lambda>t. fold_case (tool_Name t)) toolRegistry = map tool_Name toolRegistry"
    and "distinct (map tool_Name toolRegistry)" by code_simp+
  then have "distinct (map (\<lambda>t. fold_case (tool_Name t)) toolRegistry)" by (simp only:)
  from find_unique [OF this assms(1)] assms(2) show ?thesis
    by (simp add: GetTool_def EqualFold_def)
qed

theorem registry_lookup_witness:
  "GetTool '' Move_Node '' = Some (normalizeToolDefinition tool_move_node)"
proof -
  have "tool_move_node \<in> set toolRegistry" by (simp add: toolRegistry_def)
  moreover have "ToLower (TrimSpace '' Move_Node '') = tool_Name tool_move_node" by code_simp
  ultimately show ?thesis by (rule registry_lookup)
qed

lemma normalize_sel [simp]:
  "tool_Name (normalizeToolDefinition def) = tool_Name def"
  "tool_MutatesGraph (normalizeToolDefinition def) = tool_MutatesGraph def"
  "tool_Tier (normalizeToolDefinition def) = tool_Tier def"
  by (auto simp: normalizeToolDefinition_def Let_def split: ExecutionTier.splits)

text \<open>A tool offered in read-only mode is not marked as mutating, is not a hybrid tool, and is a
  tool of the registry that supports the graph type.\<close>

theorem read_only_mode_offers_no_mutation:
  assumes "def \<in> set (FilterToolsForMode graphType True includeHybrid)"
  shows "\<not> tool_MutatesGraph def \<and> tool_Tier def \<noteq> TierHybrid
    \<and> (\<exists>tool \<in> set toolRegistry. def = normalizeToolDefinition tool
         \<and> supportsGraphType (tool_GraphTypes tool) (TrimSpace graphType))"
  using assms by (auto simp: FilterToolsForMode_def GetToolsForGraphType_def keepForMode_def split: if_splits)

theorem read_only_mode_offers_no_mutation_witness:
  "\<exists>tool \<in> set toolRegistry. normalizeToolDefinition tool_get_node_detail = normalizeToolDefinition tool
     \<and> supportsGraphType (tool_GraphTypes tool) (TrimSpace ''faultTree'')"
proof -
  have "supportsGraphType (tool_GraphTypes tool_get_node_detail) (TrimSpace ''faultTree'')" by code_simp
  moreover have "keepForMode True True (normalizeToolDefinition tool_get_node_detail)" by code_simp
  moreover have "tool_get_node_detail \<in> set toolRegistry" by (simp add: toolRegistry_def)
  ultimately have "normalizeToolDefinition tool_get_node_detail \<in> set (FilterToolsForMode ''faultTree'' True True)"
    by (auto simp: FilterToolsForMode_def GetToolsForGraphType_def)
  from read_only_mode_offers_no_mutation [OF this] show ?thesis by blast
qed

subsection \<open>The validator\<close>

lemma batch_tool: "GetTool ''batch_operations'' = Some (normalizeToolDefinition tool_batch_operations)"
  "ToLower (TrimSpace (tool_Name tool_batch_operations)) = ''batch_operations''"
  "validate_simple ''batch_operations'' ''batch_operations'' m = None"
  by code_simp+

text \<open>\<open>batch_operations\<close> passes validation exactly when it holds between 1 and 50 operations, each
  of them a call of another tool, by a name that is not a case variant of \<open>batch_operations\<close>, that
  passes validation itself.\<close>

theorem batch_validation_exact:
  assumes "decode_payload args = Inr m"
  shows "ValidateParameters ''batch_operations'' args = ok \<longleftrightarrow>
    1 \<le> length (objectSliceFrom m ''operations'') \<and> length (objectSliceFrom m ''operations'') \<le> 50
    \<and> (\<forall>op \<in> set (objectSliceFrom m ''operations''). strFrom op ''tool'' \<noteq> ''''
         \<and> \<not> EqualFold (strFrom op ''tool'') ''batch_operations''
         \<and> ValidateParameters (strFrom op ''tool'') (op_args op) = ok)"
proof -
  have "ValidateParameters ''batch_operations'' args =
      (if objectSliceFrom m ''operations'' = [] then Inl (ErrInvalidParameters ''operations is required'')
       else if length (objectSliceFrom m ''operations'') > 50 then Inl (ErrInvalidParameters ''operations too many'')
       else validate_batch (objectSliceFrom m ''operations''))"
    by (simp add: ValidateParameters.simps [of "''batch_operations''"] batch_tool assms Let_def
        del: ValidateParameters.simps)
  then show ?thesis
    by (simp add: validate_batch_ok_iff Suc_le_eq del: ValidateParameters.simps)
qed

definition ex_batch :: raw_message where
  "ex_batch = args1 [(''operations'', JArr [JObj [(''tool'', JStr ''update_node''),
     (''args'', JObj [(''nodeId'', JStr ''t''), (''name'', JStr ''R'')])]])]"

theorem batch_validation_exact_witness:
  "ValidateParameters ''update_node'' (RawJson (JObj [(''nodeId'', JStr ''t''), (''name'', JStr ''R'')])) = ok"
proof -
  let ?op = "[(''tool'', JStr ''update_node''), (''args'', JObj [(''nodeId'', JStr ''t''), (''name'', JStr ''R'')])]"
  have d: "decode_payload ex_batch = Inr [(''operations'', JArr [JObj ?op])]"
    by (simp add: ex_batch_def args1_def)
  have o: "objectSliceFrom [(''operations'', JArr [JObj ?op])] ''operations'' = [?op]"
    "strFrom ?op ''tool'' = ''update_node''"
    "op_args ?op = RawJson (JObj [(''nodeId'', JStr ''t''), (''name'', JStr ''R'')])" by code_simp+
  have "ValidateParameters ''batch_operations'' ex_batch = ok" by code_simp
  then show ?thesis unfolding batch_validation_exact [OF d] by (simp add: o del: ValidateParameters.simps)
qed

definition dotted_batch_name :: string where
  "dotted_batch_name = ''batch_operat'' @ [CHR 0xC4, CHR 0xB0] @ ''ons''"

definition nested_batch :: raw_message where
  "nested_batch = args1 [(''operations'', JArr [JObj [(''tool'', JStr dotted_batch_name),
     (''args'', JObj [(''operations'', JArr [JObj [(''tool'', JStr ''update_node''),
        (''args'', JObj [(''nodeId'', JStr ''t''), (''name'', JStr ''R'')])]])])]])]"

text \<open>A batch inside a batch is not always refused: the checks compare the tool's name without
  regard to letter case, the dispatcher lower-cases it, and these differ on U+0130. A batch whose
  operation is named with that letter passes the validator and is executed, batch inside batch.\<close>

theorem nested_batch_accepted:
  "ValidateParameters ''batch_operations'' nested_batch = ok
    \<and> gives (applyOperation ex_draws (newFaultTreeState ex_top []) ''batch_operations'' nested_batch 1)
        (\<lambda>(res, s', k'). map node_Name (st_nodes s') = [''R''])"
proof
  show "ValidateParameters ''batch_operations'' nested_batch = ok" by code_simp
  show "gives (applyOperation ex_draws (newFaultTreeState ex_top []) ''batch_operations'' nested_batch 1)
        (\<lambda>(res, s', k'). map node_Name (st_nodes s') = [''R''])" by code_simp
qed

text \<open>Cleaning a text never makes it longer than the limit, counted in characters and not in
  bytes, and gives the empty text only for a text that is blank without its zero bytes.\<close>

theorem sanitize_bounds:
  assumes "0 < maxLen"
  shows "length (runes (SanitizeStringParam s maxLen)) \<le> maxLen
    \<and> (SanitizeStringParam s maxLen = [] \<longleftrightarrow> TrimSpace (filter (\<lambda>c. c \<noteq> CHR 0x00) s) = [])"
  using SanitizeStringParam_bound [OF assms] SanitizeStringParam_empty_iff [OF assms] by blast

theorem sanitize_bounds_witness:
  "length (runes (SanitizeStringParam ([CHR 0xC3, CHR 0xA9, CHR 0xC3, CHR 0xA9] @ ''ab'') 3)) \<le> 3
    \<and> SanitizeStringParam ([CHR 0xC3, CHR 0xA9, CHR 0xC3, CHR 0xA9] @ ''ab'') 3 = [CHR 0xC3, CHR 0xA9, CHR 0xC3, CHR 0xA9] @ ''a''"
proof
  show "length (runes (SanitizeStringParam ([CHR 0xC3, CHR 0xA9, CHR 0xC3, CHR 0xA9] @ ''ab'') 3)) \<le> 3"
    using sanitize_bounds [of 3] by simp
  show "SanitizeStringParam ([CHR 0xC3, CHR 0xA9, CHR 0xC3, CHR 0xA9] @ ''ab'') 3 = [CHR 0xC3, CHR 0xA9, CHR 0xC3, CHR 0xA9] @ ''a''"
    by code_simp
qed

subsection \<open>Previews\<close>

lemma objectSliceFrom_objs:
  "objectSliceFrom [(''operations'', JArr (map JObj ms))] ''operations'' = ms"
proof -
  have "List.map_filter obj_members (map JObj ms) = ms"
    by (induction ms) (simp_all add: map_filter_simps)
  then show ?thesis by (simp add: objectSliceFrom_def member_of_def)
qed

lemma item_op_obj: "item_op item = Some v \<Longrightarrow> \<exists>m. v = JObj m"
  by (auto simp: item_op_def split: if_splits raw_message.splits json.splits)

lemma ops_objs: "\<exists>ms. List.map_filter item_op items = map JObj ms \<and> length ms = length (List.map_filter item_op items)"
proof (induction items)
  case (Cons item items)
  then obtain ms where ms: "List.map_filter item_op items = map JObj ms" by blast
  show ?case
  proof (cases "item_op item")
    case (Some v)
    then obtain m where "v = JObj m" using item_op_obj by blast
    with Some ms have "List.map_filter item_op (item # items) = map JObj (m # ms)"
      by (simp add: map_filter_simps)
    then show ?thesis by (metis length_map)
  qed (use ms in \<open>auto simp: map_filter_simps\<close>)
qed (simp add: map_filter_simps)

text \<open>More than fifty approved preview items are never committed: the commit sends them as one
  batch, which the validator refuses, and nothing is written.\<close>

theorem large_preview_never_commits:
  assumes "50 < length (List.map_filter item_op (hp_Items (FilterByIDs p approved)))"
  shows "\<exists>e. Commit d accepts loaded found pid ty (Some p) approved k db = (Inl e, db)"
proof -
  let ?items = "hp_Items (FilterByIDs p approved)"
  obtain ms where ms: "List.map_filter item_op ?items = map JObj ms" "50 < length ms"
    using ops_objs [of ?items] assms by metis
  have ne: "List.map_filter item_op ?items \<noteq> []" "?items \<noteq> []" using assms by (auto simp: map_filter_simps)
  let ?raw = "RawJson (JObj [(''operations'', JArr (map JObj ms))])"
  have raw: "commit_args ?items = Some ?raw" using ms(1) ne by (simp add: commit_args_def Let_def)
  have bad: "ValidateParameters ''batch_operations'' ?raw = Inl (ErrInvalidParameters ''operations too many'')"
    using ms(2) by (auto simp: ValidateParameters.simps [of "''batch_operations''"] batch_tool objectSliceFrom_objs Let_def
        simp del: ValidateParameters.simps)
  have t: "TrimSpace ''batch_operations'' = ''batch_operations''" by code_simp
  have plan: "PlanFaultTreeOperation d s ''batch_operations'' ?raw k = Inl (ErrInvalidParameters ''operations too many'')" for s
    by (simp add: PlanFaultTreeOperation_def Let_def t bad del: ValidateParameters.simps)
  have "\<exists>e. Execute d accepts loaded found pid ty ''batch_operations'' ?raw k db = (Inl e, db)"
    using plan by (auto simp: Execute_def Let_def t split: sum.splits)
  then show ?thesis using ne raw by (simp add: Commit_def)
qed

text \<open>Fifty-one gate corrections.\<close>

definition many_gates :: HybridPreview where
  "many_gates = \<lparr> hp_ToolName = ''suggest_gate_corrections'', hp_TotalItems = 51, hp_Summary = FixGates 51,
     hp_Items = replicate 51 (gate_item (gate_node ''g'' ''AND'') ''i'') \<rparr>"

theorem large_preview_never_commits_witness:
  "\<exists>e. Commit ex_draws (\<lambda>_. True) (Inr (ex_nodes, ex_edges)) (Inr (db_projects ex_db ''p'')) ''p'' ''faultTree''
     (Some many_gates) [] 1 ex_db = (Inl e, ex_db)"
proof (rule large_preview_never_commits)
  have "item_op (gate_item (gate_node ''g'' ''AND'') ''i'') \<noteq> None" by code_simp
  then obtain v where "item_op (gate_item (gate_node ''g'' ''AND'') ''i'') = Some v" by blast
  then have "List.map_filter item_op (replicate n (gate_item (gate_node ''g'' ''AND'') ''i'')) = replicate n v" for n
    by (induction n) (simp_all add: map_filter_simps)
  then show "50 < length (List.map_filter item_op (hp_Items (FilterByIDs many_gates [])))"
    by (simp add: many_gates_def FilterByIDs_def)
qed

lemma update_gate_tool: "GetTool ''update_gate'' = Some (normalizeToolDefinition tool_update_gate)"
  "ToLower (TrimSpace (tool_Name tool_update_gate)) = ''update_gate''"
  by code_simp+

text \<open>Every gate correction a preview offers is a call the validator accepts, for a gate of the
  stored tree that is an AND gate, provided its ID is not blank.\<close>

theorem gate_corrections_valid:
  assumes "item \<in> set (hp_Items (generateGateCorrectionPreview d k nodes))"
  shows "\<exists>n \<in> set nodes. is_and_gate n \<and> pi_NodeID item = node_ID n
    \<and> (ValidateParameters (pi_ToolName item) (pi_ToolArgs item) = ok \<longleftrightarrow> TrimSpace (node_ID n) \<noteq> [])"
proof -
  obtain n i where n: "n \<in> set nodes" "is_and_gate n" and item: "item = gate_item n i"
    using assms set_number_items [of item d k "map gate_item (filter is_and_gate nodes)"]
    by (auto simp: generateGateCorrectionPreview_def Let_def)
  have t: "isValidGateType (TrimSpace ''OR'')" by code_simp
  have m: "member_of [(''gateType'', JStr ''OR''), (''nodeId'', JStr (node_ID n))] ''nodeId'' = Some (JStr (node_ID n))"
    "member_of [(''gateType'', JStr ''OR''), (''nodeId'', JStr (node_ID n))] ''gateType'' = Some (JStr ''OR'')"
    by (simp_all add: member_of_def)
  have "ValidateParameters (pi_ToolName item) (pi_ToolArgs item) = ok \<longleftrightarrow> TrimSpace (node_ID n) \<noteq> []"
    by (simp add: item gate_item_def ValidateParameters.simps [of "''update_gate''"] update_gate_tool validate_simple_def
        validate_update_gate_def strFrom_def m anyToString_def t Let_def del: ValidateParameters.simps)
  with n item show ?thesis by (auto simp: gate_item_def)
qed

theorem gate_corrections_valid_witness:
  "\<exists>n \<in> set [gate_node ''g'' ''AND'']. is_and_gate n"
proof -
  have "is_and_gate (gate_node ''g'' ''AND'')" by code_simp
  then have "set (hp_Items (generateGateCorrectionPreview ex_draws 0 [gate_node ''g'' ''AND''])) =
      {gate_item (gate_node ''g'' ''AND'') (NewID ex_draws 0 ''pi'')}"
    by (simp add: generateGateCorrectionPreview_def)
  then have "gate_item (gate_node ''g'' ''AND'') (NewID ex_draws 0 ''pi'')
      \<in> set (hp_Items (generateGateCorrectionPreview ex_draws 0 [gate_node ''g'' ''AND'']))" by simp
  from gate_corrections_valid [OF this] show ?thesis by blast
qed

subsection \<open>Confirming a pending call\<close>

lemma wait_loop_finds:
  assumes "pending \<noteq> []" and "sg \<in> set sgs" and "TrimSpace (cs_CallID sg) = pending"
  shows "\<exists>sg'. wait_loop pending (map Got sgs) = Some (Inr sg')"
  using assms by (induction sgs) auto

text \<open>an accepted confirmation wakes the waiting agent: with the signals that are then in the
  channel the wait ends, with one that is for the pending call; and a session accepts one only while
  it is paused, and never holds more than eight.\<close>

theorem confirm_wakes_waiter:
  assumes "session_ok s" and "se_PendingCallID s \<noteq> []" and "confirm_session pickCancel signal s = (Inr (), s')"
  shows "paused s \<and> session_ok s' \<and> (\<exists>sg. waitForConfirmation s' (map Got (se_confirmCh s')) = Some (Inr sg)
    \<and> sg \<in> set (se_confirmCh s') \<and> TrimSpace (cs_CallID sg) = se_PendingCallID s)"
proof -
  have t: "TrimSpace (se_PendingCallID s) = se_PendingCallID s" using assms(1) by (simp add: session_ok_def)
  from confirm_accepted [OF assms(3)] t assms(2) obtain sig where p: "paused s"
    and ch: "se_confirmCh s' = se_confirmCh s @ [sig]" "TrimSpace (cs_CallID sig) = se_PendingCallID s" by auto
  have pend: "se_PendingCallID s' = se_PendingCallID s"
    using assms(3) by (auto simp: confirm_session_def Let_def split: if_splits)
  obtain sg where w: "wait_loop (se_PendingCallID s) (map Got (se_confirmCh s')) = Some (Inr sg)"
    using wait_loop_finds [OF assms(2), of sig "se_confirmCh s'"] ch by auto
  have "session_ok s'" using session_ok_updates(10) [OF assms(1), of pickCancel signal] assms(3) by simp
  with p w pend wait_loop_answer [OF w] show ?thesis
    by (auto simp: waitForConfirmation_def)
qed

definition ex_session :: AgentSession where
  "ex_session = SetState StatePausedForConfirm (SetPending ''call1'' ''delete_node'' RawEmpty
     (NewAgentSession ''s1'' ''c'' ''p'' ''u'' ''faultTree'' 0 0))"

definition ex_signal :: ConfirmSignal where
  "ex_signal = \<lparr> cs_CallID = '''', cs_Approved = True, cs_ApprovedOps = [], cs_ContinueRounds = 0 \<rparr>"

theorem confirm_wakes_waiter_witness:
  "\<exists>sg. waitForConfirmation (snd (confirm_session False ex_signal ex_session))
     (map Got (se_confirmCh (snd (confirm_session False ex_signal ex_session)))) = Some (Inr sg)"
proof -
  have ok: "session_ok ex_session" unfolding ex_session_def by (intro session_ok_updates)
  have r: "is_ok (fst (confirm_session False ex_signal ex_session))" by code_simp
  then have c: "confirm_session False ex_signal ex_session = (Inr (), snd (confirm_session False ex_signal ex_session))"
    by (cases "confirm_session False ex_signal ex_session") (auto simp: is_ok_iff)
  have "se_PendingCallID ex_session = ''call1''" by code_simp
  then have "se_PendingCallID ex_session \<noteq> []" by simp
  from confirm_wakes_waiter [OF ok this c] show ?thesis by blast
qed

subsection \<open>The limits of the safety controller\<close>

text \<open>What the engine asks of the controller of a process. The trace holds every operation with whether the
  controller allowed it, the newest first; what a session was allowed is counted on the trace alone.\<close>

datatype safety_op =
    OpRound string int
  | OpCheck AgentSession ToolCall int
  | OpRecord string int
  | OpClear string

type_synonym safety_trace = "(safety_op \<times> bool) list"

fun safety_step :: "AgentConfig \<Rightarrow> safety_op \<Rightarrow> SafetyController \<Rightarrow> bool \<times> SafetyController" where
  "safety_step cfg (OpRound i r) c = (True, BeginRound i r c)"
| "safety_step cfg (OpCheck s call n) c = (let (r, c') = CheckToolCallWithWarning cfg (Some s) call n c in (is_ok r, c'))"
| "safety_step cfg (OpRecord i n) c = (let (r, c') = RecordMutation cfg i n c in (is_ok r, c'))"
| "safety_step cfg (OpClear i) c = (True, ClearSession i c)"

definition safety_do :: "AgentConfig \<Rightarrow> safety_op \<Rightarrow> SafetyController \<times> safety_trace \<Rightarrow> SafetyController \<times> safety_trace" where
  "safety_do cfg op x = (case safety_step cfg op (fst x) of (allowed, c) \<Rightarrow> (c, (op, allowed) # snd x))"

fun round_of :: "string \<Rightarrow> safety_trace \<Rightarrow> int" where
  "round_of i [] = 0"
| "round_of i ((OpRound j r, _) # tr) = (if TrimSpace j = i then r else round_of i tr)"
| "round_of i ((OpClear j, _) # tr) = (if TrimSpace j = i then 0 else round_of i tr)"
| "round_of i (_ # tr) = round_of i tr"

fun allowed_calls :: "string \<Rightarrow> string \<Rightarrow> safety_trace \<Rightarrow> nat" where
  \<comment> \<open>the calls of a kind that a session was allowed since its current round began\<close>
  "allowed_calls i kind [] = 0"
| "allowed_calls i kind ((OpRound j r, _) # tr) = (if TrimSpace j = i \<and> r \<noteq> round_of i tr then 0 else allowed_calls i kind tr)"
| "allowed_calls i kind ((OpClear j, _) # tr) = (if TrimSpace j = i then 0 else allowed_calls i kind tr)"
| "allowed_calls i kind ((OpCheck s call n, allowed) # tr) =
     (if allowed \<and> TrimSpace (se_ID s) = i \<and> classifyToolKind (call_Name call) = kind then 1 else 0) + allowed_calls i kind tr"
| "allowed_calls i kind ((OpRecord j n, _) # tr) = allowed_calls i kind tr"

fun allowed_changes :: "string \<Rightarrow> safety_trace \<Rightarrow> int" where
  \<comment> \<open>the changes recorded for a session without an error since it was last cleared\<close>
  "allowed_changes i [] = 0"
| "allowed_changes i ((OpClear j, _) # tr) = (if TrimSpace j = i then 0 else allowed_changes i tr)"
| "allowed_changes i ((OpRecord j n, allowed) # tr) =
     (if allowed \<and> TrimSpace j = i \<and> 0 < n then n else 0) + allowed_changes i tr"
| "allowed_changes i (_ # tr) = allowed_changes i tr"

definition open_call :: "AgentConfig \<Rightarrow> safety_op \<times> bool \<Rightarrow> bool" where
  \<comment> \<open>an allowed call comes from a session that is neither cancelled nor done and has calls left\<close>
  "open_call cfg x = (case x of (OpCheck s call n, True) \<Rightarrow> se_state s \<noteq> StateCancelled \<and> se_state s \<noteq> StateDone
       \<and> (0 < MaxToolCalls cfg \<longrightarrow> int (se_toolCallCount s) < MaxToolCalls cfg) | _ \<Rightarrow> True)"

text \<open>The counters of the controller are never below what the trace allowed.\<close>

definition counters_cover :: "AgentConfig \<Rightarrow> SafetyController \<times> safety_trace \<Rightarrow> bool" where
  "counters_cover cfg x \<longleftrightarrow> safety_inv cfg (fst x) \<and> list_all (open_call cfg) (snd x)
     \<and> (\<forall>i. 0 \<le> sc_nodeMutations (fst x) i) \<and> (\<forall>i. i \<noteq> '''' \<longrightarrow> round_of i (snd x) = sc_currentRound (fst x) i)
     \<and> (0 < ToolCallRateLimit cfg \<longrightarrow> (\<forall>i kind. allowed_calls i kind (snd x) \<le> sc_roundCalls (fst x) i kind))
     \<and> (0 < MaxNodesPerSession cfg \<longrightarrow> (\<forall>i. allowed_changes i (snd x) \<le> sc_nodeMutations (fst x) i))"

lemma mutation_check_counts:
  assumes "mutation_check cfg i n c = (r, c')"
  shows "sc_currentRound c' = sc_currentRound c \<and> sc_roundCalls c' = sc_roundCalls c
    \<and> sc_nodeMutations c j \<le> sc_nodeMutations c' j
    \<and> (0 < n \<and> 0 < MaxNodesPerSession cfg \<and> is_ok r \<longrightarrow> sc_nodeMutations c' i = sc_nodeMutations c i + n)"
  using assms by (auto simp: mutation_check_def split: if_splits)

lemma check_counts:
  assumes "CheckToolCallWithWarning cfg (Some s) call n c = (r, c')"
  shows "sc_currentRound c' = sc_currentRound c \<and> sc_nodeMutations c j \<le> sc_nodeMutations c' j
    \<and> sc_roundCalls c j kind + (if is_ok r \<and> TrimSpace (se_ID s) = j \<and> classifyToolKind (call_Name call) = kind
          \<and> 0 < ToolCallRateLimit cfg then 1 else 0) \<le> sc_roundCalls c' j kind"
  using assms
proof (cases rule: CheckToolCall_cases)
  case (checked t c1)
  let ?i = "TrimSpace (se_ID s)"
  have t: "t = s" using checked(1) by simp
  let ?d = "push_history ?i (named_fingerprint call) c1"
  obtain c2 r' where w: "warnings_only ?i ?d c2" and m: "c' = c2 \<or> mutation_check cfg ?i n c2 = (r', c')"
    using check_history_effect [OF TrimSpace_TrimSpace checked(4) [unfolded t]] by blast
  have d: "sc_currentRound c2 = sc_currentRound c1" "sc_roundCalls c2 = sc_roundCalls c1" "sc_nodeMutations c2 = sc_nodeMutations c1"
    using w by (auto simp: warnings_only_def push_history_def)
  have "sc_currentRound c' = sc_currentRound c2 \<and> sc_roundCalls c' = sc_roundCalls c2 \<and> sc_nodeMutations c2 j \<le> sc_nodeMutations c' j"
    using m mutation_check_counts by blast
  then show ?thesis using d checked(3) t by (auto simp: rate_check_def split: if_splits)
qed simp

lemma check_open:
  assumes "CheckToolCallWithWarning cfg (Some s) call n c = (r, c')"
  shows "open_call cfg (OpCheck s call n, is_ok r)"
  using assms by (auto simp: CheckToolCallWithWarning_def open_call_def split: if_splits bool.splits)

lemma record_counts:
  assumes "RecordMutation cfg i n c = (r, c')"
  shows "sc_currentRound c' = sc_currentRound c \<and> sc_roundCalls c' = sc_roundCalls c \<and> sc_nodeMutations c j \<le> sc_nodeMutations c' j
    \<and> (is_ok r \<and> 0 < n \<and> 0 < MaxNodesPerSession cfg \<longrightarrow> sc_nodeMutations c' (TrimSpace i) = sc_nodeMutations c (TrimSpace i) + n)"
  using assms mutation_check_counts [of cfg "TrimSpace i" n c r c']
  by (auto simp: RecordMutation_def Let_def split: if_splits)

lemma safety_do_covers:
  assumes "counters_cover cfg x"
  shows "counters_cover cfg (safety_do cfg op x)"
proof -
  obtain c tr where x: "x = (c, tr)" by fastforce
  show ?thesis
  proof (cases op)
    case (OpRound i r)
    have "safety_inv cfg (BeginRound i r c)" using assms safety_inv_others(2) by (simp add: counters_cover_def x)
    then show ?thesis
      using assms by (auto simp: counters_cover_def x OpRound safety_do_def open_call_def BeginRound_def Let_def)
  next
    case (OpClear i)
    have "safety_inv cfg (ClearSession i c)" using assms safety_inv_others(3) by (simp add: counters_cover_def x)
    then show ?thesis
      using assms by (auto simp: counters_cover_def x OpClear safety_do_def open_call_def ClearSession_def Let_def)
  next
    case (OpCheck s call n)
    obtain r c' where r: "CheckToolCallWithWarning cfg (Some s) call n c = (r, c')" by fastforce
    have inv: "safety_inv cfg c'" using CheckToolCall_inv [OF r] assms by (simp add: counters_cover_def x)
    have calls: "allowed_calls j kind ((OpCheck s call n, is_ok r) # tr) \<le> sc_roundCalls c' j kind" if "0 < ToolCallRateLimit cfg" for j kind
    proof -
      have "allowed_calls j kind tr \<le> sc_roundCalls c j kind" using assms that by (simp add: counters_cover_def x)
      then show ?thesis using check_counts [OF r, of j kind] that by (simp split: if_splits)
    qed
    have more: "sc_currentRound c' = sc_currentRound c" "sc_nodeMutations c j \<le> sc_nodeMutations c' j" for j
      using check_counts [OF r, of j] by simp_all
    have "0 \<le> sc_nodeMutations c' j" for j using assms order_trans [OF _ more(2)] by (simp add: counters_cover_def x)
    moreover have "allowed_changes j tr \<le> sc_nodeMutations c' j" if "0 < MaxNodesPerSession cfg" for j
      using assms that order_trans [OF _ more(2)] by (simp add: counters_cover_def x)
    ultimately show ?thesis
      using assms inv calls check_open [OF r] more(1) by (simp add: counters_cover_def x OpCheck safety_do_def r)
  next
    case (OpRecord i n)
    obtain r c' where r: "RecordMutation cfg i n c = (r, c')" by fastforce
    have inv: "safety_inv cfg c'" using safety_inv_others(4) [OF _ r] assms by (simp add: counters_cover_def x)
    have changes: "allowed_changes j ((OpRecord i n, is_ok r) # tr) \<le> sc_nodeMutations c' j" if "0 < MaxNodesPerSession cfg" for j
    proof -
      have "allowed_changes j tr \<le> sc_nodeMutations c j" using assms that by (simp add: counters_cover_def x)
      then show ?thesis using record_counts [OF r, of j] that by (auto split: if_splits)
    qed
    have more: "sc_currentRound c' = sc_currentRound c" "sc_roundCalls c' = sc_roundCalls c" "sc_nodeMutations c j \<le> sc_nodeMutations c' j" for j
      using record_counts [OF r, of j] by simp_all
    have "0 \<le> sc_nodeMutations c' j" for j using assms order_trans [OF _ more(3)] by (simp add: counters_cover_def x)
    then show ?thesis
      using assms inv changes more(1,2) by (simp add: counters_cover_def x OpRecord safety_do_def r open_call_def)
  qed
qed

text \<open>C19: whatever the sessions of a process ask of the controller, in any order, no session is ever allowed
  more calls of a kind in a round than the rate limit, nor recorded more changed nodes than the session
  limit since it was cleared, nor allowed a call when it is cancelled, done or out of calls; its history
  holds at most sixteen calls. Allowed calls and recorded changes are counted on the answers alone, without
  the counters of the controller. The engine records changes after the commit: the call whose changes are
  refused is already done, and the refusal keeps the calls after it from being made. Only the changes of
  server tools are recorded, not those the client confirms for a hybrid one.\<close>

theorem safety_limits_hold:
  assumes "0 < ToolCallRateLimit cfg" and "0 < MaxNodesPerSession cfg"
    and "fold (safety_do cfg) ops (NewSafetyController, []) = (c, tr)"
  shows "int (allowed_calls i kind tr) \<le> ToolCallRateLimit cfg \<and> allowed_changes i tr \<le> MaxNodesPerSession cfg
    \<and> list_all (open_call cfg) tr \<and> length (sc_historyCalls c i) \<le> safetyHistoryWindow"
proof -
  have "counters_cover cfg x \<Longrightarrow> counters_cover cfg (fold (safety_do cfg) ops x)" for x
    by (induction ops arbitrary: x) (simp_all add: safety_do_covers)
  moreover have "counters_cover cfg (NewSafetyController, [])"
    using assms(2) safety_inv_others(1) [of cfg] by (simp add: counters_cover_def NewSafetyController_def)
  ultimately have "counters_cover cfg (c, tr)" using assms(3) by metis
  then have inv: "safety_inv cfg c" "list_all (open_call cfg) tr" and calls: "allowed_calls i kind tr \<le> sc_roundCalls c i kind"
    and changes: "allowed_changes i tr \<le> sc_nodeMutations c i"
    using assms(1,2) by (simp_all add: counters_cover_def)
  have "int (sc_roundCalls c i kind) \<le> ToolCallRateLimit cfg" "sc_nodeMutations c i \<le> MaxNodesPerSession cfg"
    "length (sc_historyCalls c i) \<le> safetyHistoryWindow"
    using inv(1) assms(1,2) unfolding safety_inv_def by blast+
  then show ?thesis using calls changes inv(2) by linarith
qed

definition ex_cfg :: AgentConfig where
  "ex_cfg = \<lparr> MaxRounds = 5, MaxToolCalls = 20, MaxNodesPerSession = 3, ToolCallRateLimit = 2, EnableLoopSoftWarning = False \<rparr>"

definition ex_call :: "string \<Rightarrow> ToolCall" where
  "ex_call name = \<lparr> call_ID = ''c'', call_Name = name, call_Arguments = RawEmpty \<rparr>"

definition ex_ops :: "safety_op list" where
  "ex_ops = [OpRound ''s1'' 1, OpCheck ex_session (ex_call ''move_node'') 0, OpRecord ''s1'' 2,
     OpCheck ex_session (ex_call ''add_node'') 0, OpRecord ''s1'' 2, OpCheck ex_session (ex_call ''delete_node'') 0]"

text \<open>The second two changes of three and the third changing call of a round are refused.\<close>

lemma ex_ops_run:
  "map snd (snd (fold (safety_do ex_cfg) ex_ops (NewSafetyController, []))) = [False, False, True, True, True, True]"
  by code_simp

theorem safety_limits_hold_witness:
  "map snd (snd (fold (safety_do ex_cfg) ex_ops (NewSafetyController, []))) = [False, False, True, True, True, True]
   \<and> int (allowed_calls ''s1'' ''mutation'' (snd (fold (safety_do ex_cfg) ex_ops (NewSafetyController, [])))) \<le> 2
   \<and> allowed_changes ''s1'' (snd (fold (safety_do ex_cfg) ex_ops (NewSafetyController, []))) \<le> 3"
  using ex_ops_run safety_limits_hold [of ex_cfg ex_ops, OF _ _ prod.collapse [symmetric], of "''s1''" "''mutation''"]
  by (simp add: ex_cfg_def)

text \<open>A check of one session's call leaves every other session's round, counters, history and
  warnings as they were.\<close>

theorem sessions_do_not_interfere:
  assumes "j \<noteq> TrimSpace (se_ID s)"
  shows "same_session j c (snd (CheckToolCallWithWarning cfg (Some s) call n c))"
  using CheckToolCall_other [OF prod.collapse [symmetric] assms] .

theorem sessions_do_not_interfere_witness:
  "same_session ''s2'' NewSafetyController
     (snd (CheckToolCallWithWarning ex_cfg (Some ex_session) (ex_call ''move_node'') 2 NewSafetyController))"
proof -
  have "''s2'' \<noteq> TrimSpace (se_ID ex_session)" by code_simp
  then show ?thesis by (rule sessions_do_not_interfere)
qed

text \<open>the fourth identical call of a session in a row is always refused, with the soft warnings on
  or off, whatever the limits and whatever the earlier history.\<close>

theorem fourth_repeat_refused:
  assumes "CheckToolCallWithWarning cfg (Some s1) call n1 c = (Inr w1, c1)"
    and "CheckToolCallWithWarning cfg (Some s2) call n2 c1 = (Inr w2, c2)"
    and "CheckToolCallWithWarning cfg (Some s3) call n3 c2 = (Inr w3, c3)"
    and "TrimSpace (se_ID s1) = i" and "TrimSpace (se_ID s2) = i" and "TrimSpace (se_ID s3) = i"
    and "TrimSpace (se_ID s4) = i"
  shows "\<not> is_ok (fst (CheckToolCallWithWarning cfg (Some s4) call n4 c3))"
proof -
  have "\<exists>e. fst (CheckToolCallWithWarning cfg (Some s4) call n4 c3) = Inl e"
    using fourth_identical_call [OF assms(1-3) prod.collapse [symmetric]] assms(4-7) by blast
  then show ?thesis by auto
qed

definition warn_cfg :: AgentConfig where
  "warn_cfg = \<lparr> MaxRounds = 0, MaxToolCalls = 0, MaxNodesPerSession = 0, ToolCallRateLimit = 0,
     EnableLoopSoftWarning = True \<rparr>"

theorem fourth_repeat_refused_witness:
  "let step = (\<lambda>c. CheckToolCallWithWarning warn_cfg (Some ex_session) (ex_call ''delete_node'') 0 c);
       c1 = snd (step NewSafetyController); c2 = snd (step c1); c3 = snd (step c2)
   in is_ok (fst (step c2)) \<and> \<not> is_ok (fst (step c3))"
proof -
  let ?step = "\<lambda>c. CheckToolCallWithWarning warn_cfg (Some ex_session) (ex_call ''delete_node'') 0 c"
  let ?c1 = "snd (?step NewSafetyController)"
  let ?c2 = "snd (?step ?c1)"
  have r: "is_ok (fst (?step NewSafetyController))" "is_ok (fst (?step ?c1))" "is_ok (fst (?step ?c2))"
    by code_simp+
  obtain w1 w2 w3 where "?step NewSafetyController = (Inr w1, ?c1)" "?step ?c1 = (Inr w2, ?c2)"
      "?step ?c2 = (Inr w3, snd (?step ?c2))"
    using r unfolding is_ok_iff by (metis prod.collapse)
  from fourth_repeat_refused [OF this refl refl refl refl, of 0] r(3) show ?thesis by (simp only: Let_def) blast
qed

text \<open>Two different reads, or two different validations, called in turn are never detected as a
  loop, however often they alternate.\<close>

theorem alternating_reads_unnoticed:
  assumes "last_n 4 (sc_historyCalls c i) = [a, b, a, b]" and "a \<noteq> b"
    and "classifyToolKind (fp_ToolName a) = classifyToolKind (fp_ToolName b)"
    and "isReadOrValidateKind (classifyToolKind (fp_ToolName a))" and "fp_GateType a = []"
  shows "fst (check_history cfg i n c) \<noteq> Inl ErrAgentLoopDetected"
proof -
  let ?h = "sc_historyCalls c i"
  have len: "4 \<le> length ?h" using arg_cong [OF assms(1), of length] by simp
  have "Suc (length ?h - 4) = length ?h - 3" using len by linarith
  then have "last_n 3 ?h = tl (last_n 4 ?h)" unfolding last_n_def by (metis drop_Suc tl_drop)
  then have l3: "last_n 3 ?h = [b, a, b]" by (simp add: assms(1))
  have rk: "classifyToolKind (fp_ToolName a) = ''read'' \<or> classifyToolKind (fp_ToolName a) = ''validate''"
    using assms(4) by (simp add: isReadOrValidateKind_def)
  have "loop_check cfg i ?h d = None" for d
    using l3 assms rk
    by (auto simp: loop_check_def isGenericABABLoop_def isReadValidateAlternatingLoop_def isGateTypeToggleLoop_def)
  then show ?thesis
    by (auto simp: check_history_def Let_def mutation_check_def split: prod.splits bool.splits)
qed

definition read_fp :: "string \<Rightarrow> callFingerprint" where
  "read_fp name = \<lparr> fp_ToolName = name, fp_ArgsHash = ''{}'', fp_NodeID = [], fp_GateType = [] \<rparr>"

theorem alternating_reads_unnoticed_witness:
  "fst (check_history ex_cfg ''s1'' 0 (NewSafetyController\<lparr>sc_historyCalls := (\<lambda>_.
     concat (replicate 10 [read_fp ''get_subtree'', read_fp ''get_graph_snapshot'']) @
     [read_fp ''get_subtree'', read_fp ''get_graph_snapshot'', read_fp ''get_subtree'', read_fp ''get_graph_snapshot''])\<rparr>))
   \<noteq> Inl ErrAgentLoopDetected"
proof (rule alternating_reads_unnoticed)
  have k: "classifyToolKind ''get_subtree'' = ''read''" "classifyToolKind ''get_graph_snapshot'' = ''read''" by code_simp+
  show "read_fp ''get_subtree'' \<noteq> read_fp ''get_graph_snapshot''" by (simp add: read_fp_def)
  show "classifyToolKind (fp_ToolName (read_fp ''get_subtree'')) = classifyToolKind (fp_ToolName (read_fp ''get_graph_snapshot''))"
    "isReadOrValidateKind (classifyToolKind (fp_ToolName (read_fp ''get_subtree'')))"
    by (simp_all add: read_fp_def k isReadOrValidateKind_def)
qed (simp_all add: read_fp_def last_n_def)

subsection \<open>Waiting ends\<close>

text \<open>the wait for a confirmation ends: once the request's context is done, the session is
  cancelled or the time is up, it has returned, however many signals for other calls came before.\<close>

theorem waiting_ends:
  assumes "CtxDone \<in> set events \<or> CancelClosed \<in> set events \<or> TimedOut \<in> set events"
  shows "waitForConfirmation s events \<noteq> None"
proof -
  have "\<exists>e \<in> set es. e \<in> {CtxDone, CancelClosed, TimedOut} \<Longrightarrow> wait_loop p es \<noteq> None" for p es
    by (induction p es rule: wait_loop.induct) auto
  with assms show ?thesis by (auto simp: waitForConfirmation_def)
qed

theorem waiting_ends_witness:
  "waitForConfirmation ex_session [Got ex_signal, Got ex_signal, TimedOut] = Some (Inl ErrSessionConfirmTimeout)
    \<and> waitForConfirmation ex_session (replicate 20 (Got ex_signal) @ [CancelClosed]) \<noteq> None"
proof
  show "waitForConfirmation ex_session [Got ex_signal, Got ex_signal, TimedOut] = Some (Inl ErrSessionConfirmTimeout)"
    by code_simp
  show "waitForConfirmation ex_session (replicate 20 (Got ex_signal) @ [CancelClosed]) \<noteq> None"
    by (rule waiting_ends) simp
qed

subsection \<open>From preview to batch\<close>

text \<open>The operation a preview item stands for.\<close>

definition op_of_item :: "PreviewItem \<Rightarrow> batch_op option" where
  "op_of_item item =
     (if TrimSpace (pi_ToolName item) = [] then None
      else case pi_ToolArgs item of
        RawJson (JObj m) \<Rightarrow> Some (TrimSpace (pi_ToolName item), RawJson (as_map (JObj m)))
      | RawJson JNull \<Rightarrow> Some (TrimSpace (pi_ToolName item), RawJson JNull)
      | _ \<Rightarrow> None)"

lemma dec_item_op: "item_op item = Some v \<Longrightarrow> \<exists>op. op_of_item item = Some op \<and> dec_op v = Some op"
proof -
  have e: "\<not> EqualFold ''tool'' ''args''" "\<not> EqualFold ''args'' ''tool''" by code_simp+
  show "item_op item = Some v \<Longrightarrow> \<exists>op. op_of_item item = Some op \<and> dec_op v = Some op"
    by (auto simp: item_op_def op_of_item_def field_vals_def e split: if_splits raw_message.splits json.splits)
qed

lemma no_item_op: "item_op item = None \<Longrightarrow> op_of_item item = None"
  by (auto simp: item_op_def op_of_item_def split: if_splits raw_message.splits json.splits)

lemma dec_item_ops: "dec_op_elems (List.map_filter item_op items) = Some (List.map_filter op_of_item items)"
proof (induction items)
  case (Cons item items)
  then show ?case
    by (cases "item_op item") (use dec_item_op no_item_op in \<open>fastforce simp: map_filter_simps\<close>)+
qed (simp add: map_filter_simps)

text \<open>What a commit sends as one batch decodes to exactly the operations of the approved items, in
  order, each with its tool and its arguments, and never asks for repair mode.\<close>

theorem committed_items_decode:
  assumes "commit_args items = Some raw"
  shows "batch_request raw = Inr (List.map_filter op_of_item items, False)"
proof -
  have e: "EqualFold ''operations'' ''operations''" "\<not> EqualFold ''operations'' ''repairMode''" by code_simp+
  have "raw = RawJson (JObj [(''operations'', JArr (List.map_filter item_op items))])"
    using assms by (auto simp: commit_args_def Let_def split: if_splits)
  then show ?thesis
    by (simp add: batch_request_def unmarshal_def field_vals_def need_def req_bool_def e dec_item_ops)
qed

theorem committed_items_decode_witness:
  "\<exists>raw. commit_args [gate_item (gate_node ''g'' ''AND'') ''i''] = Some raw
     \<and> batch_request raw = Inr ([(''update_gate'', RawJson (JObj [(''gateType'', JStr ''OR''), (''nodeId'', JStr ''g'')]))], False)"
proof -
  let ?item = "gate_item (gate_node ''g'' ''AND'') ''i''"
  have "commit_args [?item] \<noteq> None" by code_simp
  then obtain raw where raw: "commit_args [?item] = Some raw" by blast
  have "List.map_filter op_of_item [?item] =
      [(''update_gate'', RawJson (JObj [(''gateType'', JStr ''OR''), (''nodeId'', JStr ''g'')]))]" by code_simp
  with committed_items_decode [OF raw] raw show ?thesis by auto
qed

end
