(* ===== verification/Access.thy ===== *)
theory Access
  imports Validator MemberEffects
begin

text \<open>
  Who may call what: the role check of \<open>internal/middleware/rbac.go\<close>, the agent's
  \<open>ValidatePermissionBoundary\<close> (\<open>internal/graph_ops/validator.go\<close>), the wrappers of
  \<open>main.go\<close> that attach the role check to routes, and the handlers of
  \<open>internal/handler/member.go\<close>. A request is what a handler reads of its context; a reply is the
  code it writes. A handler maps a request and the database to both afterwards. The database answers
  a handler's queries with the state it finds. gin's \<open>HandlersChain.Last\<close> is a parameter of the
  wrappers.
\<close>

subsection \<open>Requests and replies\<close>

record ctx =
  ctx_UserID :: string
  ctx_projectId :: string
  ctx_memberId :: string
  ctx_invitationId :: string
  ctx_BindOK :: bool
  ctx_Email :: string
  ctx_Role :: string
  ctx_projectRole :: "string option"
  ctx_Replies :: "nat list"
  ctx_Aborted :: bool

definition Fail :: "nat \<Rightarrow> ctx \<Rightarrow> ctx" where
  "Fail code c = c\<lparr>ctx_Replies := ctx_Replies c @ [code]\<rparr>"

definition Success :: "ctx \<Rightarrow> ctx" where "Success = Fail 0"
definition Abort :: "ctx \<Rightarrow> ctx" where "Abort c = c\<lparr>ctx_Aborted := True\<rparr>"
definition FailServerError :: "ctx \<Rightarrow> ctx" where "FailServerError = Fail 50000"
definition FailNotFound :: "ctx \<Rightarrow> ctx" where "FailNotFound = Fail 40400"
definition FailUnauthorized :: "ctx \<Rightarrow> ctx" where "FailUnauthorized c = Abort (Fail 40100 c)"
definition FailForbidden :: "ctx \<Rightarrow> ctx" where "FailForbidden c = Abort (Fail 40300 c)"

lemmas reply_defs = Fail_def Success_def Abort_def FailServerError_def FailNotFound_def
  FailUnauthorized_def FailForbidden_def

subsection \<open>The role check\<close>

definition RequireProjectRole :: "string \<Rightarrow> (string \<Rightarrow> string \<Rightarrow> member_error + ProjectMember option) \<Rightarrow> ctx \<Rightarrow> ctx" where
  "RequireProjectRole minRole lookup c =
     (if ctx_UserID c = '''' then FailUnauthorized c
      else if ctx_projectId c = '''' then Abort (Fail 40001 c)
      else case lookup (ctx_projectId c) (ctx_UserID c) of
        Inl _ \<Rightarrow> FailServerError c
      | Inr None \<Rightarrow> FailForbidden c
      | Inr (Some member) \<Rightarrow>
          if RoleWeight (pm_Role member) < RoleWeight minRole then FailForbidden c
          else c\<lparr>ctx_projectRole := Some (pm_Role member)\<rparr>)"

definition ValidatePermissionBoundary ::
    "string \<Rightarrow> string \<Rightarrow> (string \<Rightarrow> string \<Rightarrow> graph_error + ProjectMember option) option \<Rightarrow> graph_error + unit" where
  "ValidatePermissionBoundary userID projectID memberRepo =
     (case memberRepo of
        None \<Rightarrow> Inl (ErrInvalidParameters ''member repository is nil'')
      | Some lookup \<Rightarrow>
          if TrimSpace userID = '''' \<or> TrimSpace projectID = ''''
          then Inl (ErrInvalidParameters ''userID and projectID are required'')
          else bindE (lookup (TrimSpace projectID) (TrimSpace userID)) (\<lambda>r. case r of
              None \<Rightarrow> Inl ErrPermissionDenied
            | Some member \<Rightarrow> guardE (RoleWeight (pm_Role member) < RoleWeight ''editor'') ErrPermissionDenied))"

definition ValidateNodeExists ::
    "string \<Rightarrow> string \<Rightarrow> string
      \<Rightarrow> ((string \<Rightarrow> graph_error + string list) \<times> (string \<Rightarrow> graph_error + string list)) option \<Rightarrow> graph_error + unit" where
  \<comment> \<open>the repository, when there is one, lists the IDs of the fault-tree nodes and of the
     knowledge-graph nodes of a project\<close>
  "ValidateNodeExists projectID graphType nodeID graphRepo =
     (case graphRepo of
        None \<Rightarrow> Inl (ErrInvalidParameters ''graph repository is nil'')
      | Some (ftNodes, kgNodes) \<Rightarrow>
          if TrimSpace projectID = '''' \<or> TrimSpace nodeID = ''''
          then Inl (ErrInvalidParameters ''projectID and nodeID are required'')
          else
            let search = (\<lambda>list. bindE (list (TrimSpace projectID)) (\<lambda>ids.
                  if list_ex (\<lambda>i. TrimSpace i = TrimSpace nodeID) ids then ok
                  else Inl (ErrNodeNotFound (TrimSpace nodeID))))
            in if TrimSpace graphType = ''faultTree'' then search ftNodes
               else if TrimSpace graphType = ''knowledgeGraph'' then search kgNodes
               else Inl (ErrUnsupportedGraph graphType))"

subsection \<open>Routes\<close>

type_synonym HandlerFunc = "ctx \<Rightarrow> org \<Rightarrow> ctx \<times> org"

definition role_guard :: "string \<Rightarrow> HandlerFunc" where
  \<comment> \<open>\<open>RequireProjectRole\<close> as a handler; it reads the member table\<close>
  "role_guard minRole c db =
     (RequireProjectRole minRole (\<lambda>pid uid. Inr (FindByProjectAndUser db pid uid)) c, db)"

definition withEditorRole :: "(HandlerFunc list \<Rightarrow> HandlerFunc) \<Rightarrow> HandlerFunc \<Rightarrow> HandlerFunc" where
  "withEditorRole Last handler = Last [role_guard ''editor'', handler]"

definition withAdminRole :: "(HandlerFunc list \<Rightarrow> HandlerFunc) \<Rightarrow> HandlerFunc \<Rightarrow> HandlerFunc" where
  "withAdminRole Last handler = Last [role_guard ''admin'', handler]"

subsection \<open>The handlers of the member routes\<close>

definition answer :: "(member_error \<Rightarrow> nat) \<Rightarrow> ctx \<Rightarrow> (member_error + 'a) \<times> org \<Rightarrow> ctx \<times> org" where
  "answer code c run = (case run of (Inl e, db') \<Rightarrow> (Fail (code e) c, db') | (Inr _, db') \<Rightarrow> (Success c, db'))"

definition invite_code :: "member_error \<Rightarrow> nat" where
  "invite_code e = (case e of ErrAlreadyMember \<Rightarrow> 40009 | ErrInvalidRole \<Rightarrow> 40001 | ErrInviteEmailRequired \<Rightarrow> 40001
     | ErrMemberProjectNotFound \<Rightarrow> 40400 | _ \<Rightarrow> 50000)"

definition accept_code :: "member_error \<Rightarrow> nat" where
  "accept_code e = (case e of ErrMemberProjectNotFound \<Rightarrow> 40400 | ErrInvitationNotFound \<Rightarrow> 40400
     | ErrInvitationExpired \<Rightarrow> 40000 | ErrInvitationEmailMismatch \<Rightarrow> 40300 | ErrInvitationProcessed \<Rightarrow> 40009
     | ErrAlreadyMember \<Rightarrow> 40009 | _ \<Rightarrow> 50000)"

definition reject_code :: "member_error \<Rightarrow> nat" where
  "reject_code e = (case e of ErrMemberProjectNotFound \<Rightarrow> 40400 | ErrInvitationNotFound \<Rightarrow> 40400
     | ErrInvitationExpired \<Rightarrow> 40000 | ErrInvitationEmailMismatch \<Rightarrow> 40300 | ErrInvitationProcessed \<Rightarrow> 40009
     | _ \<Rightarrow> 50000)"

definition revoke_code :: "member_error \<Rightarrow> nat" where
  "revoke_code e = (case e of ErrMemberProjectNotFound \<Rightarrow> 40400 | ErrInvitationNotFound \<Rightarrow> 40400
     | ErrInvitationExpired \<Rightarrow> 40000 | ErrInvitationProcessed \<Rightarrow> 40009 | _ \<Rightarrow> 50000)"

definition update_code :: "member_error \<Rightarrow> nat" where
  "update_code e = (case e of ErrMemberNotFound \<Rightarrow> 40400 | ErrCannotRemoveLastAdmin \<Rightarrow> 40000
     | ErrInvalidRole \<Rightarrow> 40001 | ErrMemberProjectNotFound \<Rightarrow> 40400 | _ \<Rightarrow> 50000)"

definition remove_code :: "member_error \<Rightarrow> nat" where
  "remove_code e = (case e of ErrMemberNotFound \<Rightarrow> 40400 | ErrCannotRemoveLastAdmin \<Rightarrow> 40000
     | ErrMemberProjectNotFound \<Rightarrow> 40400 | _ \<Rightarrow> 50000)"

definition HandleInviteMember :: "env \<Rightarrow> member_error + string \<Rightarrow> HandlerFunc" where
  "HandleInviteMember env tok c db =
     (if \<not> ctx_BindOK c then (Fail 40001 c, db)
      else answer invite_code c (InviteMember env (Inr (FindProject db (ctx_projectId c)))
        (Inr (FindUser db (ctx_UserID c))) (\<lambda>email. Inr (FindUserByEmail db email))
        (\<lambda>u. Inr (FindByProjectAndUser db (ctx_projectId c) (user_ID u))) tok
        \<lparr> in_ProjectID = ctx_projectId c, in_Email = ctx_Email c, in_Role = ctx_Role c, in_InvitedBy = ctx_UserID c \<rparr> db))"

definition HandleAcceptInvitation :: "env \<Rightarrow> HandlerFunc" where
  "HandleAcceptInvitation env c db = answer accept_code c
     (AcceptInvitation env (Inr (FindProject db (ctx_projectId c))) (Inr (FindUser db (ctx_UserID c)))
        (ctx_projectId c) (ctx_invitationId c) (ctx_UserID c) db)"

definition HandleRejectInvitation :: "env \<Rightarrow> HandlerFunc" where
  "HandleRejectInvitation env c db = answer reject_code c
     (RejectInvitation env (Inr (FindProject db (ctx_projectId c))) (Inr (FindUser db (ctx_UserID c)))
        (ctx_projectId c) (ctx_invitationId c) db)"

definition HandleRevokeInvitation :: "env \<Rightarrow> HandlerFunc" where
  "HandleRevokeInvitation env c db = answer revoke_code c
     (RevokeInvitation env (Inr (FindProject db (ctx_projectId c))) (Inr (FindUser db (ctx_UserID c)))
        (ctx_projectId c) (ctx_invitationId c) db)"

definition HandleUpdateRole :: "env \<Rightarrow> HandlerFunc" where
  "HandleUpdateRole env c db =
     (if \<not> ctx_BindOK c then (Fail 40001 c, db)
      else answer update_code c (UpdateRole env (Inr (FindProject db (ctx_projectId c)))
        (Inr (FindMemberByID db (ctx_memberId c))) (Inr (CountAdmins db (ctx_projectId c)))
        (Inr (FindUser db (ctx_UserID c))) (ctx_projectId c) (ctx_Role c) (ctx_UserID c) db))"

definition HandleRemoveMember :: "env \<Rightarrow> HandlerFunc" where
  "HandleRemoveMember env c db = answer remove_code c
     (RemoveMember env (Inr (FindProject db (ctx_projectId c))) (Inr (FindMemberByID db (ctx_memberId c)))
        (Inr (CountAdmins db (ctx_projectId c))) (Inr (FindUser db (ctx_UserID c)))
        (ctx_projectId c) (ctx_memberId c) (ctx_UserID c) db)"

text \<open>The two routes whose handlers change who is a member.\<close>

definition update_route :: "(HandlerFunc list \<Rightarrow> HandlerFunc) \<Rightarrow> env \<Rightarrow> HandlerFunc" where
  "update_route Last env = withAdminRole Last (HandleUpdateRole env)"

definition remove_route :: "(HandlerFunc list \<Rightarrow> HandlerFunc) \<Rightarrow> env \<Rightarrow> HandlerFunc" where
  "remove_route Last env = withAdminRole Last (HandleRemoveMember env)"

definition invite_route :: "(HandlerFunc list \<Rightarrow> HandlerFunc) \<Rightarrow> env \<Rightarrow> member_error + string \<Rightarrow> HandlerFunc" where
  "invite_route Last env tok = withAdminRole Last (HandleInviteMember env tok)"

definition revoke_route :: "(HandlerFunc list \<Rightarrow> HandlerFunc) \<Rightarrow> env \<Rightarrow> HandlerFunc" where
  "revoke_route Last env = withAdminRole Last (HandleRevokeInvitation env)"

subsection \<open>What the check lets through\<close>

definition may :: "org \<Rightarrow> string \<Rightarrow> string \<Rightarrow> string \<Rightarrow> bool" where
  \<comment> \<open>the user is an active member with at least the weight of the role\<close>
  "may db minRole pid uid \<longleftrightarrow>
     (\<exists>m. FindByProjectAndUser db pid uid = Some m \<and> RoleWeight minRole \<le> RoleWeight (pm_Role m))"

lemma RoleWeight_simps [simp]:
  "RoleWeight ''viewer'' = 0" "RoleWeight ''editor'' = 1" "RoleWeight ''admin'' = 2"
  by (simp_all add: RoleWeight_def)

lemma may_order: "may db ''admin'' pid uid \<Longrightarrow> may db ''editor'' pid uid"
  "may db ''editor'' pid uid \<Longrightarrow> may db ''viewer'' pid uid"
  by (auto simp: may_def)

lemma role_guard_passes:
  assumes "ctx_Replies c = []" and "\<not> ctx_Aborted c"
  shows "(let c' = fst (role_guard minRole c db) in ctx_Replies c' = [] \<and> \<not> ctx_Aborted c') \<longleftrightarrow>
     ctx_UserID c \<noteq> '''' \<and> ctx_projectId c \<noteq> '''' \<and> may db minRole (ctx_projectId c) (ctx_UserID c)"
  using assms by (auto simp: role_guard_def RequireProjectRole_def may_def reply_defs Let_def split: option.splits)


text \<open>The check fails open: when the database does not answer, the error is written but the request is
  not aborted, so the next handler runs.\<close>

lemma role_check_fails_open:
  assumes "ctx_UserID c \<noteq> ''''" and "ctx_projectId c \<noteq> ''''" and "\<not> ctx_Aborted c"
  shows "\<not> ctx_Aborted (RequireProjectRole minRole (\<lambda>_ _. Inl e) c)"
  using assms by (simp add: RequireProjectRole_def reply_defs)

text \<open>A role or a minimal role outside the table counts as the weakest one.\<close>

lemma unknown_minimum_admits_viewers:
  "role \<notin> {''viewer'', ''editor'', ''admin''} \<Longrightarrow> may db role pid uid \<longleftrightarrow> may db ''viewer'' pid uid"
  by (simp add: may_def RoleWeight_def)

end
