(* ===== verification/MemberTheorems.thy ===== *)
theory MemberTheorems
  imports Access Projects Fixtures
begin

text \<open>
  The properties of members, invitations, access and projects, with the small organisation their
  witnesses use: one project with an administrator, a second user and an invitation for them.
\<close>

definition ex_user :: "string \<Rightarrow> string \<Rightarrow> User" where
  "ex_user i mail = \<lparr> user_ID = i, user_Username = i, user_DisplayName = '''', user_Email = mail,
     user_Status = ''active'' \<rparr>"

definition ex_member :: "string \<Rightarrow> string \<Rightarrow> string \<Rightarrow> ProjectMember" where
  "ex_member i uid role = \<lparr> pm_ID = i, pm_ProjectID = ''p'', pm_UserID = uid, pm_Role = role,
     pm_Status = ''active'' \<rparr>"

definition ex_invitation :: Invitation where
  "ex_invitation = \<lparr> inv_ID = ''i'', inv_ProjectID = ''p'', inv_Email = ''bo@x'', inv_Role = ''editor'',
     inv_Status = ''pending'', inv_Token = ''k'', inv_InvitedBy = ''ada'', inv_ExpiresAt = 100 \<rparr>"

definition ex_org :: "ProjectMember list \<Rightarrow> org" where
  "ex_org ms = \<lparr> org_projects = [''p'' \<mapsto> (newProject ''p'' ''P'' ''ft'' '''' [] ''ada'')\<lparr>proj_MemberCount := int (length ms)\<rparr>],
     org_users = [ex_user ''ada'' ''ada@x'', ex_user ''bo'' ''bo@x''], org_members = ms,
     org_invs = [ex_invitation], org_notes = [], org_logs = [] \<rparr>"

definition ex_env :: "int \<Rightarrow> env" where
  "ex_env now = \<lparr> e_now = now, e_draws = ex_draws, e_fails = (\<lambda>_. False), e_accepts = (\<lambda>_. True),
     e_notify = True, e_audit = True \<rparr>"

definition ex_ctx :: "string \<Rightarrow> string \<Rightarrow> ctx" where
  "ex_ctx uid mid = \<lparr> ctx_UserID = uid, ctx_projectId = ''p'', ctx_memberId = mid, ctx_invitationId = ''i'',
     ctx_BindOK = True, ctx_Email = '''', ctx_Role = ''viewer'', ctx_projectRole = None, ctx_Replies = [],
     ctx_Aborted = False \<rparr>"

definition ex_two :: org where
  "ex_two = ex_org [ex_member ''m1'' ''ada'' ''admin'', ex_member ''m2'' ''bo'' ''admin'']"

definition ex_one :: org where
  "ex_one = ex_org [ex_member ''m1'' ''ada'' ''admin'']"

definition ex_pair :: org where
  "ex_pair = ex_org [ex_member ''m1'' ''ada'' ''admin'', ex_member ''m2'' ''bo'' ''editor'']"

lemma ex_trim_p: "TrimSpace ''p'' = ''p''"
  by code_simp

lemma ex_org_ok: "org_ok ex_one \<and> counts_ok ex_one \<and> org_ok ex_pair"
  by (auto simp: org_ok_def ex_one_def ex_pair_def ex_org_def members_ok_def invs_ok_def ex_member_def member_key_def
      ex_invitation_def isValidRole_def counts_ok_def size_of_def)

subsection \<open>Access\<close>

text \<open>The role check lets a request on, without a reply, exactly when it names a user and a project
  and that user is an active member of the project whose role weighs at least as much as the one
  the route asks for.\<close>

theorem role_check_exact:
  assumes "ctx_Replies c = []" and "\<not> ctx_Aborted c"
  shows "(let c' = fst (role_guard minRole c db) in ctx_Replies c' = [] \<and> \<not> ctx_Aborted c') \<longleftrightarrow>
     ctx_UserID c \<noteq> '''' \<and> ctx_projectId c \<noteq> '''' \<and> may db minRole (ctx_projectId c) (ctx_UserID c)"
  using assms by (rule role_guard_passes)

theorem role_check_exact_witness:
  "(let c' = fst (role_guard ''admin'' (ex_ctx ''bo'' ''m1'') ex_pair) in ctx_Replies c' = [] \<and> \<not> ctx_Aborted c') \<longleftrightarrow>
     ctx_UserID (ex_ctx ''bo'' ''m1'') \<noteq> '''' \<and> ctx_projectId (ex_ctx ''bo'' ''m1'') \<noteq> '''' \<and>
     may ex_pair ''admin'' (ctx_projectId (ex_ctx ''bo'' ''m1'')) (ctx_UserID (ex_ctx ''bo'' ''m1''))"
  by (rule role_check_exact) (simp_all add: ex_ctx_def)

text \<open>C6: the wrappers of the routes keep only the last handler of the chain they build (gin's
  \<open>HandlersChain.Last\<close> returns the last handler), so the role check never runs: whoever sends the
  request, also a user whom the check for administrators refuses, removes any member who is not an
  administrator.\<close>

theorem outsider_removes_member:
  assumes last: "\<forall>chain. chain \<noteq> [] \<longrightarrow> Last chain = last chain"
    and refused: "ctx_Aborted (fst (role_guard ''admin'' c db))"
    and member: "FindMemberByID db (ctx_memberId c) = Some m" "pm_ProjectID m = ctx_projectId c" "pm_Role m \<noteq> ''admin''"
    and "FindProject db (ctx_projectId c) = Some p" and "e_accepts env (DeleteMember db (ctx_memberId c))"
  shows "FindMemberByID (snd (remove_route Last env c db)) (ctx_memberId c) = None"
proof -
  have "remove_route Last env c db = HandleRemoveMember env c db"
    using last by (simp add: remove_route_def withAdminRole_def)
  moreover let ?run = "RemoveMember env (Inr (FindProject db (ctx_projectId c))) (Inr (FindMemberByID db (ctx_memberId c)))
      (Inr (CountAdmins db (ctx_projectId c))) (Inr (FindUser db (ctx_UserID c))) (ctx_projectId c) (ctx_memberId c) (ctx_UserID c) db"
  have "fst ?run = ok"
    using assms by (simp add: RemoveMember_def the_member_def present_def keeps_an_admin_def put_def)
  then obtain db' where run: "?run = (ok, db')" by (metis prod.collapse)
  then have "org_members db' = filter (\<lambda>x. pm_ID x \<noteq> ctx_memberId c) (org_members db)"
    by (cases rule: remove_InrE) (auto dest!: core_eq simp: try_put_def)
  moreover have "snd (HandleRemoveMember env c db) = db'"
    by (simp add: HandleRemoveMember_def answer_def run)
  ultimately show ?thesis by (auto simp: FindMemberByID_def find_None_iff)
qed

theorem outsider_removes_member_witness:
  "FindMemberByID (snd (remove_route last (ex_env 0) (ex_ctx ''eve'' ''m2'') ex_pair)) (ctx_memberId (ex_ctx ''eve'' ''m2'')) = None"
  by (rule outsider_removes_member [where m = "ex_member ''m2'' ''bo'' ''editor''"])
    (simp_all add: role_guard_def RequireProjectRole_def reply_defs ex_ctx_def ex_pair_def ex_org_def ex_member_def
      FindByProjectAndUser_def FindMemberByID_def FindProject_def ex_trim_p ex_env_def)

subsection \<open>Members\<close>

text \<open>C7: whatever calls on members and invitations are made, one after the other, a project that has an
  active administrator keeps one.\<close>

theorem project_keeps_admin:
  assumes "member_calls db db'" and "org_ok db" and "0 < CountAdmins db pid"
  shows "0 < CountAdmins db' pid"
  using member_calls_keep [OF assms(1,2)] assms(3) by blast

definition ex_demotion :: "(member_error + ProjectMember) \<times> org" where
  "ex_demotion = UpdateRole (ex_env 0) (Inr (FindProject ex_pair ''p'')) (Inr (FindMemberByID ex_pair ''m2''))
     (Inr (CountAdmins ex_pair ''p'')) (Inr None) ''p'' ''viewer'' ''ada'' ex_pair"

lemma ex_demotion_call: "member_calls ex_pair (snd ex_demotion)"
proof -
  have "member_call (ex_env 0) ex_pair (snd ex_demotion)"
    by (rule member_call.update [where ru = "fst ex_demotion"]) (simp add: ex_demotion_def)
  then show ?thesis unfolding member_calls_def by blast
qed

theorem project_keeps_admin_witness:
  "map pm_Role (org_members (snd ex_demotion)) = [''admin'', ''viewer''] \<and> 0 < CountAdmins (snd ex_demotion) ''p''"
proof -
  have "map pm_Role (org_members (snd ex_demotion)) = [''admin'', ''viewer'']" by code_simp
  moreover have "0 < CountAdmins ex_pair ''p''" by code_simp
  then have "0 < CountAdmins (snd ex_demotion) ''p''"
    using project_keeps_admin [OF ex_demotion_call] ex_org_ok by blast
  ultimately show ?thesis by simp
qed

definition both_removed :: "nat \<times> bool \<times> bool \<times> nat" where
  "both_removed =
     (let go = (\<lambda>mid db. RemoveMember (ex_env 0) (Inr (FindProject ex_two ''p'')) (Inr (FindMemberByID ex_two mid))
                  (Inr (CountAdmins ex_two ''p'')) (Inr None) ''p'' mid '''' db);
          (r1, db1) = go ''m1'' ex_two; (r2, db2) = go ''m2'' db1
      in (CountAdmins ex_two ''p'', is_ok r1, is_ok r2, CountAdmins db2 ''p''))"

text \<open>Two administrators who are removed at the same time: both calls count the administrators
  before either deletes, both succeed, and the project has no administrator left.\<close>

theorem last_admins_removed: "both_removed = (2, True, True, 0)"
  by code_simp

text \<open>C9: every call keeps the tables valid, whichever statements the server refuses: member identifiers and the
  pairs of project and user stay unique, every role is one of the three and every invitation pending, accepted
  or rejected, and no project counts fewer members than it has rows; the count stays exact when no
  statement is refused (the error of the update that counts a removed member is dropped).\<close>

theorem member_tables_stay_valid:
  assumes "member_call env db db'" and "org_ok db" and "counts_cover db"
  shows "org_ok db' \<and> counts_cover db' \<and> ((\<forall>x. e_accepts env x) \<and> counts_ok db \<longrightarrow> counts_ok db')"
  using member_call_org_ok [OF assms(1,2)] member_call_counts [OF assms(1,2)] assms(3) by blast

definition ex_joined :: "(member_error + ProjectMember) \<times> org" where
  "ex_joined = AcceptInvitation (ex_env 50) (Inr (FindProject ex_one ''p'')) (Inr (FindUser ex_one ''bo'')) ''p'' ''i'' ''bo'' ex_one"

theorem member_tables_stay_valid_witness: "org_ok (snd ex_joined) \<and> counts_ok (snd ex_joined)"
proof -
  have "fresh_env (ex_env 50) ex_one"
  proof -
    have "NewID (e_draws (ex_env 50)) 0 ''member'' \<notin> set (map pm_ID (org_members ex_one))" by code_simp
    moreover have "NewID (e_draws (ex_env 50)) 0 ''invite'' \<notin> set (map inv_ID (org_invs ex_one))" by code_simp
    ultimately show ?thesis by (simp add: fresh_env_def)
  qed
  then have "member_call (ex_env 50) ex_one (snd ex_joined)"
    by (intro member_call.accept [where ra = "fst ex_joined"]) (simp_all add: ex_joined_def)
  moreover have "counts_cover ex_one" using ex_org_ok by (simp add: counts_ok_def counts_cover_def)
  ultimately show ?thesis using member_tables_stay_valid [of "ex_env 50" ex_one "snd ex_joined"] ex_org_ok by (simp add: ex_env_def)
qed

subsection \<open>Invitations\<close>

definition role_of :: "org \<Rightarrow> string \<Rightarrow> string \<Rightarrow> string option" where
  "role_of db pid uid = map_option pm_Role (FindByProjectAndUser db pid uid)"

definition status_of :: "org \<Rightarrow> string \<Rightarrow> string option" where
  "status_of db iid = map_option inv_Status (FindInvitation db iid)"

lemma find_append: "List.find P (xs @ ys) = (case List.find P xs of None \<Rightarrow> List.find P ys | Some x \<Rightarrow> Some x)"
  by (induction xs) auto

lemma find_save_row:
  assumes "List.find (\<lambda>x. key x = k) rows = Some r0" and "key r = k"
  shows "List.find (\<lambda>x. key x = k) (save_row key r rows) = Some r"
proof -
  from assms(1) have "r0 \<in> set rows" "key r0 = k" by (auto simp: find_Some_iff)
  with assms have "save_row key r rows = map (\<lambda>x. if key x = k then r else x) rows"
    using save_row_known [of r0 rows key r] by simp
  moreover have "List.find (\<lambda>x. key x = k) (map (\<lambda>x. if key x = k then r else x) rows) = Some r"
    using assms by (induction rows) auto
  ultimately show ?thesis by simp
qed

text \<open>an acceptance that makes a new member found the invitation pending and not past its time, was
  made by the user with the invited address, gives that user the role of the invitation and leaves
  everybody else's role as it was; the invitation is then accepted.\<close>

theorem accept_grants_invited_role:
  assumes "AcceptInvitation env found (Inr (Some u)) pid iid uid db = (Inr m, db')"
    and "role_of db pid uid = None" and "FindInvitation db iid = Some v"
  shows "e_now env \<le> inv_ExpiresAt v \<and> normalizeEmail (inv_Email v) = normalizeEmail (user_Email u)
    \<and> inv_Status v \<notin> {''accepted'', ''rejected'', ''expired''}
    \<and> role_of db' pid uid = Some (inv_Role v) \<and> status_of db' iid = Some ''accepted''
    \<and> (\<forall>q w. (q, w) \<noteq> (pid, uid) \<longrightarrow> role_of db' q w = role_of db q w)"
proof -
  have none: "FindByProjectAndUser db pid uid = None" using assms(2) by (simp add: role_of_def)
  from assms(1) show ?thesis
  proof (cases rule: accept_InrE)
    case (joined v' u')
    then have v: "v' = v" "u' = u" using assms(3) by simp_all
    have ms: "org_members db' = org_members db @ [m]" and
      vs: "org_invs db' = save_row inv_ID (v\<lparr>inv_Status := ''accepted''\<rparr>) (org_invs db)"
      using core_eq [OF joined(10)] v by simp_all
    have "status_of db' iid = Some ''accepted''"
      using assms(3) find_save_row [of inv_ID iid "org_invs db" v "v\<lparr>inv_Status := ''accepted''\<rparr>"]
      by (auto simp: status_of_def FindInvitation_def vs find_Some_iff)
    moreover have "role_of db' pid uid = Some (inv_Role v)"
      using none joined(9) v by (simp add: role_of_def FindByProjectAndUser_def ms find_append new_member_def)
    moreover have "role_of db' q w = role_of db q w" if "(q, w) \<noteq> (pid, uid)" for q w
      using that joined(9) by (auto simp: role_of_def FindByProjectAndUser_def ms find_append new_member_def split: option.splits)
    ultimately show ?thesis using joined(3-6) v by simp
  qed (use none in simp_all)
qed


lemma ex_joined_run: "is_ok (fst ex_joined) \<and> role_of (snd ex_joined) ''p'' ''bo'' = Some ''editor''"
  by code_simp

theorem accept_grants_invited_role_witness:
  "status_of (snd ex_joined) ''i'' = Some ''accepted'' \<and> role_of (snd ex_joined) ''p'' ''ada'' = role_of ex_one ''p'' ''ada''"
proof -
  obtain m where "fst ex_joined = Inr m" using ex_joined_run by (auto simp: is_ok_iff)
  then have run: "AcceptInvitation (ex_env 50) (Inr (FindProject ex_one ''p'')) (Inr (Some (ex_user ''bo'' ''bo@x'')))
      ''p'' ''i'' ''bo'' ex_one = (Inr m, snd ex_joined)"
    by (simp add: ex_joined_def FindUser_def ex_one_def ex_org_def ex_user_def prod_eq_iff)
  have "role_of ex_one ''p'' ''bo'' = None" and "FindInvitation ex_one ''i'' = Some ex_invitation"
    by (simp_all add: role_of_def FindByProjectAndUser_def FindInvitation_def ex_one_def ex_org_def ex_member_def ex_invitation_def)
  from accept_grants_invited_role [OF run this] show ?thesis by simp
qed

text \<open>Answering an invitation after its time marks it expired and then returns an error, which rolls
  the transaction back: the database is as before and the invitation is still pending.\<close>

theorem expired_mark_rolled_back:
  assumes "FindInvitation db iid = Some v" and "inv_ProjectID v = pid" and "inv_Status v = ''pending''"
    and "inv_ExpiresAt v < e_now env" and "\<not> e_fails env QInvitation" and "\<forall>x. e_accepts env x"
    and "found = Inr (Some p)" and "user = Inr (Some u)"
  shows "AcceptInvitation env found user pid iid uid db = (Inl ErrInvitationExpired, db)"
  using assms
  by (simp add: AcceptInvitation_def present_def org_transaction_def accept_tx_def the_invitation_def ask_def
      expire_if_due_def put_def)

theorem expired_mark_rolled_back_witness:
  "AcceptInvitation (ex_env 101) (Inr (Some (newProject ''p'' ''P'' ''ft'' '''' [] ''ada'')))
     (Inr (Some (ex_user ''bo'' ''bo@x''))) ''p'' ''i'' ''bo'' ex_one = (Inl ErrInvitationExpired, ex_one)"
  by (rule expired_mark_rolled_back [where v = ex_invitation])
    (simp_all add: FindInvitation_def ex_one_def ex_org_def ex_invitation_def ex_env_def)

subsection \<open>Projects and their revision\<close>

text \<open>C8: a rename that read the project before a save was committed writes the old revision back, so a
  second save from the old revision succeeds after all and the first save's tree is gone.\<close>

theorem rename_reopens_revision:
  assumes "db_projects db pid = Some p" and "proj_ID p = pid" and "TrimSpace newName \<noteq> ''''"
    and "SaveGraph accepts pid ns es (proj_GraphRevision p) db = (Inr res, db1)"
  shows "GetFaultTreeGraph (snd (SaveGraph (\<lambda>_. True) pid ns2 es2 (proj_GraphRevision p) (rename_in_db p newName db1))) pid
    = (map (fill_defaults \<circ> own_node pid) ns2, map (own_edge pid) es2)"
proof -
  let ?db = "rename_in_db p newName db1" and ?r = "proj_GraphRevision p"
  let ?ns = "map (own_node pid) ns2" and ?es = "map (own_edge pid) es2"
  have row: "db_projects ?db pid = Some (p\<lparr>proj_Name := TrimSpace newName\<rparr>)"
    using rename_in_db_row(1) [OF assms(3)] assms(2) by simp
  obtain db2 where rep: "BatchReplaceFaultTree (\<lambda>_. True) ?db pid ?ns ?es = Inr db2"
    by (auto simp: BatchReplaceFaultTree_def Let_def)
  with BatchReplace_frame [OF rep] row
  have "\<exists>db3. UpdateGraphMetaCAS db2 pid ?r (?r + 1) (length ns2) (length es2) 0 0 = (Suc 0, db3)"
    by (simp add: CAS_won)
  then obtain db3 where "UpdateGraphMetaCAS db2 pid ?r (?r + 1) (length ns2) (length es2) 0 0 = (Suc 0, db3)" ..
  then have "save_graph (\<lambda>_. True) pid ns2 es2 ?r ?db = Inr db3" using rep by (simp add: save_graph_def)
  then have "\<exists>out. SaveGraph (\<lambda>_. True) pid ns2 es2 ?r ?db = (Inr out, db3)"
    by (simp add: SaveGraph_def transaction_def)
  then obtain out where "SaveGraph (\<lambda>_. True) pid ns2 es2 ?r ?db = (Inr out, db3)" ..
  from SaveGraph_ok(2) [OF this] this show ?thesis by simp
qed

theorem rename_reopens_revision_witness:
  "\<exists>p. db_projects ex_db1 ''p'' = Some p \<and>
    GetFaultTreeGraph (snd (SaveGraph (\<lambda>_. True) ''p'' [] [] (proj_GraphRevision p)
      (rename_in_db p ''N'' (snd (SaveGraph (\<lambda>_. True) ''p'' ex_top [] (proj_GraphRevision p) ex_db1))))) ''p'' = ([], [])"
proof -
  let ?p = "set_graph_meta 7 1 0 0 0 (newProject ''p'' ''P'' ''ft'' '''' [] ''u'')"
  let ?run = "SaveGraph (\<lambda>_. True) ''p'' ex_top [] (proj_GraphRevision ?p) ex_db1"
  have p: "db_projects ex_db1 ''p'' = Some ?p" by (simp add: ex_db1_def)
  have "TrimSpace ''N'' \<noteq> ''''" by code_simp
  moreover have "is_ok (fst ?run)" by code_simp
  then obtain res where "?run = (Inr res, snd ?run)" by (cases ?run) (auto simp: is_ok_iff)
  moreover have "proj_ID ?p = ''p''" by (simp add: set_graph_meta_def newProject_def)
  ultimately show ?thesis
    using rename_reopens_revision [OF p, of "''N''" "\<lambda>_. True" ex_top "[]" res "snd ?run" "[]" "[]"] p by simp
qed

end
