(* ===== verification/Tasks.thy ===== *)
theory Tasks
  imports Members
begin

text \<open>
  Generation tasks: the task table (\<open>internal/repository/ai_task.go\<close>), the callback of the worker
  (\<open>HandleTaskCallback\<close> of \<open>internal/service/ai_task.go\<close>) and the dispatcher with its lock per project
  (\<open>internal/service/ai_task_dispatcher.go\<close>). The state holds the task rows, the generation status of
  the projects, the keys in Redis with the time they expire, the queues and the published events. The
  content of a graph store is a type parameter, and \<open>persist\<close>, what saving a result does to it, an
  argument. The environment says what time it is and which Redis commands and SQL statements
  succeed. Fixed Chinese labels and messages are named by a key, a fixed prefix of a message too.
\<close>

subsection \<open>Rows, messages and events\<close>

datatype label = Text string | Fixed string | FixedWith string string

record AITask =
  task_ID :: string
  task_Type :: string
  task_Status :: string
  task_Progress :: int
  task_Stage :: string
  task_StageLabel :: label
  task_Result :: "payload option"
  task_ErrorMessage :: "label option"
  task_AttemptCount :: int
  task_MaxAttempts :: int
  task_WorkerID :: "string option"
  task_StartedAt :: "int option"
  task_CompletedAt :: "int option"
  task_IdempotencyKey :: "string option"
  task_Model :: string
  task_CreatedBy :: string
  task_ProjectID :: "string option"

record TaskCallbackInput =
  cb_TaskID :: string
  cb_ProjectID :: string
  cb_EventKey :: string
  cb_Status :: string
  cb_Progress :: int
  cb_Stage :: string
  cb_StageLabel :: string
  cb_ErrorMessage :: string
  cb_Result :: payload
  cb_WorkerID :: string
  cb_Attempt :: int

record AITaskQueueMessage =
  msg_TaskID :: string
  msg_ProjectID :: string
  msg_TaskType :: string
  msg_UserID :: string
  msg_TopEvent :: string
  msg_DocIDs :: "string list"
  msg_UserRequirements :: string
  msg_FileName :: string

record TaskProgressEvent =
  ev_Event :: string
  ev_ProjectID :: string
  ev_TaskID :: string
  ev_Status :: string
  ev_ProjectStatus :: string
  ev_Progress :: int
  ev_Stage :: string
  ev_StageLabel :: label

type_synonym cached_status = "string \<times> int \<times> string \<times> label"

record 'g gen =
  gn_tasks :: "AITask list"
  gn_status :: "string \<Rightarrow> string option"
  gn_locks :: "string \<Rightarrow> (string \<times> int) option"
  gn_dedupe :: "string \<Rightarrow> int option"
  gn_cache :: "string \<Rightarrow> cached_status option"
  gn_worker :: "AITaskQueueMessage list"
  gn_producer :: "AITaskQueueMessage list"
  gn_delayed :: "(AITaskQueueMessage \<times> int) list"
  gn_events :: "TaskProgressEvent list"
  gn_graph :: 'g

datatype command = CDedupe | CLockGet | CLockSet | CLockExpire | CLockDel | CEnqueue | CDelay
  | CTaskRead | CTaskWrite | CProjectStatus | CCacheStatus

record tenv =
  t_now :: int
  t_lockTTL :: int
  t_dedupeTTL :: int
  t_retryDelay :: int
  t_readCount :: nat
  t_works :: "command \<Rightarrow> bool"

datatype task_error = ErrCallbackTaskNotFound | ErrCallbackInvalidStatus | ErrCallbackProjectMismatch
  | ErrTaskProjectNotFound | ErrTaskIncomplete | ErrTaskStore | ErrTaskQueue | ErrTaskPersist string

subsection \<open>The task table\<close>

definition find_task :: "'g gen \<Rightarrow> string \<Rightarrow> AITask option" where
  "find_task g i = List.find (\<lambda>t. task_ID t = i) (gn_tasks g)"

definition FindByIdempotencyKey :: "'g gen \<Rightarrow> string \<Rightarrow> AITask option" where
  "FindByIdempotencyKey g key = (if TrimSpace key = '''' then None
     else List.find (\<lambda>t. task_IdempotencyKey t = Some (TrimSpace key)) (gn_tasks g))"

definition update_task :: "string \<Rightarrow> (AITask \<Rightarrow> AITask) \<Rightarrow> 'g gen \<Rightarrow> 'g gen" where
  "update_task i f g = g\<lparr>gn_tasks := map (\<lambda>t. if task_ID t = i then f t else t) (gn_tasks g)\<rparr>"

definition UpdateStatus :: "string \<Rightarrow> int \<Rightarrow> string \<Rightarrow> label \<Rightarrow> AITask \<Rightarrow> AITask" where
  "UpdateStatus status progress stage lbl t =
     t\<lparr>task_Status := status, task_Progress := progress, task_Stage := stage, task_StageLabel := lbl\<rparr>"

definition UpdateStatusExt ::
    "int \<Rightarrow> string \<Rightarrow> int \<Rightarrow> string \<Rightarrow> label \<Rightarrow> string option \<Rightarrow> int \<Rightarrow> label option \<Rightarrow> AITask \<Rightarrow> AITask" where
  "UpdateStatusExt now status progress stage lbl worker attempt err t =
     t\<lparr>task_Status := status, task_Progress := progress, task_Stage := stage, task_StageLabel := lbl,
       task_ErrorMessage := (case err of None \<Rightarrow> task_ErrorMessage t | Some e \<Rightarrow> Some e),
       task_AttemptCount := attempt,
       task_WorkerID := (case worker of None \<Rightarrow> task_WorkerID t
          | Some w \<Rightarrow> if TrimSpace w \<noteq> '''' then Some (TrimSpace w) else task_WorkerID t),
       task_StartedAt := (if status = ''processing'' \<or> status = ''retrying''
          then (case task_StartedAt t of None \<Rightarrow> Some now | Some s \<Rightarrow> Some s) else task_StartedAt t),
       task_CompletedAt := (if status = ''completed'' \<or> status = ''failed'' \<or> status = ''dead''
          then Some now else task_CompletedAt t)\<rparr>"

definition SetCompleted :: "int \<Rightarrow> payload \<Rightarrow> AITask \<Rightarrow> AITask" where
  "SetCompleted now result t =
     t\<lparr>task_Status := ''completed'', task_Progress := 100, task_Stage := ''completed'',
       task_StageLabel := Fixed ''done'', task_Result := Some result, task_ErrorMessage := None,
       task_CompletedAt := Some now\<rparr>"

definition SetFailed :: "int \<Rightarrow> label \<Rightarrow> AITask \<Rightarrow> AITask" where
  "SetFailed now err t =
     t\<lparr>task_Status := ''failed'', task_Stage := ''failed'', task_StageLabel := Fixed ''task failed'',
       task_ErrorMessage := Some err, task_CompletedAt := Some now\<rparr>"

definition isAITaskTerminalStatus :: "string \<Rightarrow> bool" where
  "isAITaskTerminalStatus s \<longleftrightarrow> s = ''completed'' \<or> s = ''failed'' \<or> s = ''dead''"

definition projectGenerationStatusFromTaskStatus :: "string \<Rightarrow> string" where
  "projectGenerationStatusFromTaskStatus s =
     (let t = TrimSpace s in
      if t = ''completed'' then ''completed''
      else if t = ''failed'' \<or> t = ''dead'' then ''failed''
      else if t = ''processing'' \<or> t = ''retrying'' then ''generating'' else ''pending_generating'')"

subsection \<open>Small effects whose failure is ignored\<close>

definition setProjectGenerationStatus :: "tenv \<Rightarrow> string \<Rightarrow> string \<Rightarrow> 'g gen \<Rightarrow> 'g gen" where
  "setProjectGenerationStatus env pid s g =
     (if t_works env CProjectStatus then g\<lparr>gn_status := (gn_status g)(pid \<mapsto> s)\<rparr> else g)"

definition cacheStatus :: "tenv \<Rightarrow> string \<Rightarrow> string \<Rightarrow> int \<Rightarrow> string \<Rightarrow> label \<Rightarrow> 'g gen \<Rightarrow> 'g gen" where
  "cacheStatus env i s progress stage lbl g =
     (if t_works env CCacheStatus then g\<lparr>gn_cache := (gn_cache g)(i \<mapsto> (s, progress, stage, lbl))\<rparr> else g)"

definition publishTaskEvent :: "TaskProgressEvent \<Rightarrow> 'g gen \<Rightarrow> 'g gen" where
  "publishTaskEvent e g = (if ev_ProjectID e = '''' then g else g\<lparr>gn_events := gn_events g @ [e]\<rparr>)"

definition mk_event :: "string \<Rightarrow> string \<Rightarrow> string \<Rightarrow> string \<Rightarrow> string \<Rightarrow> int \<Rightarrow> string \<Rightarrow> label \<Rightarrow> TaskProgressEvent" where
  "mk_event nm pid tid s ps progress stage lbl = \<lparr> ev_Event = nm, ev_ProjectID = pid, ev_TaskID = tid,
     ev_Status = s, ev_ProjectStatus = ps, ev_Progress = progress, ev_Stage = stage, ev_StageLabel = lbl \<rparr>"

subsection \<open>The lock of a project\<close>

definition live_lock :: "tenv \<Rightarrow> string \<Rightarrow> 'g gen \<Rightarrow> string option" where
  \<comment> \<open>what \<open>GET\<close> returns: a key past its time is gone\<close>
  "live_lock env pid g = (case gn_locks g pid of
     None \<Rightarrow> None | Some (tid, until) \<Rightarrow> if t_now env < until then Some tid else None)"

definition set_lock :: "tenv \<Rightarrow> string \<Rightarrow> string \<Rightarrow> 'g gen \<Rightarrow> 'g gen" where
  "set_lock env pid tid g = g\<lparr>gn_locks := (gn_locks g)(pid \<mapsto> (tid, t_now env + t_lockTTL env))\<rparr>"

definition tryAcquireProjectLock :: "tenv \<Rightarrow> string \<Rightarrow> string \<Rightarrow> 'g gen \<Rightarrow> (task_error + bool) \<times> 'g gen" where
  "tryAcquireProjectLock env pid tid g =
     (if TrimSpace pid = '''' \<or> TrimSpace tid = '''' then (Inr False, g)
      else if \<not> t_works env CLockSet then (Inl ErrTaskQueue, g)
      else if live_lock env pid g \<noteq> None then (Inr False, g)
      else (Inr True, set_lock env pid tid g))"

definition touchProjectLock :: "tenv \<Rightarrow> string \<Rightarrow> string \<Rightarrow> 'g gen \<Rightarrow> 'g gen" where
  "touchProjectLock env pid tid g =
     (if TrimSpace pid = '''' \<or> TrimSpace tid = '''' \<or> \<not> t_works env CLockGet then g
      else case live_lock env pid g of
        None \<Rightarrow> if t_works env CLockSet then set_lock env pid tid g else g
      | Some owner \<Rightarrow> if owner = tid \<and> t_works env CLockExpire then set_lock env pid tid g else g)"

definition releaseProjectLock :: "tenv \<Rightarrow> string \<Rightarrow> string \<Rightarrow> 'g gen \<Rightarrow> 'g gen" where
  "releaseProjectLock env pid tid g =
     (if TrimSpace pid = '''' \<or> TrimSpace tid = '''' \<or> \<not> t_works env CLockGet then g
      else if live_lock env pid g = Some tid \<and> t_works env CLockDel
        then g\<lparr>gn_locks := (gn_locks g)(pid := None)\<rparr> else g)"

subsection \<open>The callback of the worker\<close>

definition dedupe :: "tenv \<Rightarrow> string \<Rightarrow> string \<Rightarrow> 'g gen \<Rightarrow> 'g gen option" where
  \<comment> \<open>\<open>None\<close>: the event was seen before; an event without a key is never a duplicate\<close>
  "dedupe env tid eventKey g =
     (if eventKey = '''' \<or> \<not> t_works env CDedupe then Some g
      else let key = tid @ '':'' @ eventKey in
        case gn_dedupe g key of
          Some until \<Rightarrow> if t_now env < until then None
            else Some (g\<lparr>gn_dedupe := (gn_dedupe g)(key \<mapsto> t_now env + t_dedupeTTL env)\<rparr>)
        | None \<Rightarrow> Some (g\<lparr>gn_dedupe := (gn_dedupe g)(key \<mapsto> t_now env + t_dedupeTTL env)\<rparr>))"

definition callback_target :: "tenv \<Rightarrow> TaskCallbackInput \<Rightarrow> 'g gen \<Rightarrow> task_error + AITask \<times> string \<times> string" where
  \<comment> \<open>the task, its project and the reported status\<close>
  "callback_target env input g =
     (if \<not> t_works env CTaskRead then Inl ErrTaskStore
      else case find_task g (TrimSpace (cb_TaskID input)) of
        None \<Rightarrow> Inl ErrCallbackTaskNotFound
      | Some t \<Rightarrow>
          let pid = (case task_ProjectID t of None \<Rightarrow> '''' | Some p \<Rightarrow> TrimSpace p);
              claimed = TrimSpace (cb_ProjectID input); status = TrimSpace (cb_Status input)
          in if pid = '''' then Inl ErrTaskProjectNotFound
             else if claimed \<noteq> '''' \<and> claimed \<noteq> pid then Inl ErrCallbackProjectMismatch
             else if status = '''' then Inl ErrCallbackInvalidStatus
             else Inr (t, pid, status))"

definition clamp_progress :: "int \<Rightarrow> int" where
  "clamp_progress p = (if p < 0 then 0 else if p > 100 then 100 else p)"

definition effective_attempt :: "int \<Rightarrow> AITask \<Rightarrow> int" where
  "effective_attempt a t = (let b = (if a < 0 then 0 else a) in if b = 0 then task_AttemptCount t else b)"

definition outdated :: "AITask \<Rightarrow> string \<Rightarrow> int \<Rightarrow> int \<Rightarrow> bool" where
  "outdated t status progress attempt \<longleftrightarrow>
     attempt > 0 \<and> task_AttemptCount t > 0 \<and> attempt < task_AttemptCount t
     \<or> \<not> isAITaskTerminalStatus status \<and> progress < task_Progress t \<and> attempt \<le> task_AttemptCount t"

definition or_default :: "string \<Rightarrow> string \<Rightarrow> string" where
  "or_default s d = (if TrimSpace s = '''' then d else TrimSpace s)"

definition or_fixed :: "string \<Rightarrow> string \<Rightarrow> label" where
  "or_fixed s d = (if TrimSpace s = '''' then Fixed d else Text (TrimSpace s))"

definition clearTaskStreamEntries :: "string \<Rightarrow> 'g gen \<Rightarrow> 'g gen" where
  \<comment> \<open>the entries of the task are deleted from both streams\<close>
  "clearTaskStreamEntries tid g =
     g\<lparr>gn_worker := filter (\<lambda>m. TrimSpace (msg_TaskID m) \<noteq> tid) (gn_worker g),
       gn_producer := filter (\<lambda>m. TrimSpace (msg_TaskID m) \<noteq> tid) (gn_producer g)\<rparr>"

definition on_processing :: "tenv \<Rightarrow> TaskCallbackInput \<Rightarrow> string \<Rightarrow> string \<Rightarrow> int \<Rightarrow> int \<Rightarrow> 'g gen \<Rightarrow> (task_error + unit) \<times> 'g gen" where
  "on_processing env input pid status progress attempt g =
     (let tid = TrimSpace (cb_TaskID input); g1 = touchProjectLock env pid tid g;
          stage = or_default (cb_Stage input) ''processing''; lbl = or_fixed (cb_StageLabel input) ''processing'';
          worker = (if TrimSpace (cb_WorkerID input) = '''' then None else Some (TrimSpace (cb_WorkerID input)))
      in if \<not> t_works env CTaskWrite then (Inl ErrTaskStore, g1)
         else
           (ok, publishTaskEvent
              (mk_event (if status = ''retrying'' then ''task.retrying'' else ''task.progress'') pid tid status ''generating'' progress stage lbl)
             (cacheStatus env tid status progress stage lbl
             (setProjectGenerationStatus env pid ''generating''
             (update_task tid (UpdateStatusExt (t_now env) status progress stage lbl worker attempt None) g1)))))"

definition on_completed ::
    "tenv \<Rightarrow> (AITask \<Rightarrow> payload \<Rightarrow> 'g \<Rightarrow> string + payload \<times> 'g) \<Rightarrow> TaskCallbackInput \<Rightarrow> AITask \<Rightarrow> string \<Rightarrow> 'g gen
      \<Rightarrow> (task_error + unit) \<times> 'g gen" where
  \<comment> \<open>\<open>persist\<close> normalises the result and saves it; it gives an error or the normalised result and the
     new content\<close>
  "on_completed env persist input t pid g =
     (let tid = TrimSpace (cb_TaskID input); finish = (\<lambda>x. clearTaskStreamEntries tid (releaseProjectLock env pid tid x));
          stage = or_default (cb_Stage input) ''completed''; lbl = or_fixed (cb_StageLabel input) ''done''
      in case persist t (cb_Result input) (gn_graph g) of
        Inl e \<Rightarrow>
          (Inl (ErrTaskPersist e),
           publishTaskEvent (mk_event ''task.failed'' pid tid ''failed'' ''failed'' 0 ''failed'' (Fixed ''failed''))
             (cacheStatus env tid ''failed'' 0 ''failed'' (Fixed ''failed'')
             (setProjectGenerationStatus env pid ''failed''
             (finish (if t_works env CTaskWrite then update_task tid (SetFailed (t_now env) (FixedWith ''saving the result failed'' e)) g else g)))))
      | Inr (result, graph) \<Rightarrow>
          let g1 = g\<lparr>gn_graph := graph\<rparr> in
          if \<not> t_works env CTaskWrite then (Inl ErrTaskStore, finish g1)
          else
            (ok, publishTaskEvent (mk_event ''task.completed'' pid tid ''completed'' ''completed'' 100 stage lbl)
               (cacheStatus env tid ''completed'' 100 stage lbl
               (setProjectGenerationStatus env pid ''completed''
               (finish (update_task tid (SetCompleted (t_now env) result) g1))))))"

definition on_failed :: "tenv \<Rightarrow> TaskCallbackInput \<Rightarrow> string \<Rightarrow> string \<Rightarrow> int \<Rightarrow> int \<Rightarrow> 'g gen \<Rightarrow> (task_error + unit) \<times> 'g gen" where
  "on_failed env input pid status progress attempt g =
     (let tid = TrimSpace (cb_TaskID input);
          stage = or_default (cb_Stage input) ''failed''; lbl = or_fixed (cb_StageLabel input) ''failed'';
          err = or_fixed (cb_ErrorMessage input) ''task failed'';
          worker = (if TrimSpace (cb_WorkerID input) = '''' then None else Some (TrimSpace (cb_WorkerID input)))
      in if \<not> t_works env CTaskWrite then (Inl ErrTaskStore, g)
         else
           (ok, publishTaskEvent
              (mk_event (if status = ''dead'' then ''task.dead'' else ''task.failed'') pid tid status ''failed'' progress stage lbl)
             (cacheStatus env tid status progress stage lbl
             (setProjectGenerationStatus env pid ''failed''
             (clearTaskStreamEntries tid (releaseProjectLock env pid tid
             (update_task tid (UpdateStatusExt (t_now env) status progress stage lbl worker attempt (Some err)) g)))))))"

definition HandleTaskCallback ::
    "tenv \<Rightarrow> (AITask \<Rightarrow> payload \<Rightarrow> 'g \<Rightarrow> string + payload \<times> 'g) \<Rightarrow> TaskCallbackInput \<Rightarrow> 'g gen
      \<Rightarrow> (task_error + unit) \<times> 'g gen" where
  "HandleTaskCallback env persist input g =
     (if TrimSpace (cb_TaskID input) = '''' then (Inl ErrCallbackTaskNotFound, g)
      else case dedupe env (TrimSpace (cb_TaskID input)) (TrimSpace (cb_EventKey input)) g of
        None \<Rightarrow> (ok, g)
      | Some g1 \<Rightarrow> (case callback_target env input g1 of
          Inl e \<Rightarrow> (Inl e, g1)
        | Inr (t, pid, status) \<Rightarrow>
            if isAITaskTerminalStatus (task_Status t) \<and> task_Status t = ''completed'' \<and> status = ''completed''
            then (ok, clearTaskStreamEntries (TrimSpace (cb_TaskID input))
                   (releaseProjectLock env pid (TrimSpace (cb_TaskID input)) g1))
            else if isAITaskTerminalStatus (task_Status t) \<and> \<not> (task_Status t = ''failed'' \<and> status = ''dead'')
            then (ok, g1)
            else
              let progress = clamp_progress (cb_Progress input); attempt = effective_attempt (cb_Attempt input) t
              in if outdated t status progress attempt then (ok, g1)
                 else if status = ''processing'' \<or> status = ''retrying''
                   then on_processing env input pid status progress attempt g1
                 else if status = ''completed'' then on_completed env persist input t pid g1
                 else if status = ''failed'' \<or> status = ''dead''
                   then on_failed env input pid status progress attempt g1
                 else (Inl ErrCallbackInvalidStatus, g1)))"

subsection \<open>The dispatcher\<close>

definition enqueueTask :: "tenv \<Rightarrow> AITaskQueueMessage \<Rightarrow> 'g gen \<Rightarrow> (task_error + unit) \<times> 'g gen" where
  "enqueueTask env m g =
     (if t_works env CEnqueue then (ok, g\<lparr>gn_worker := gn_worker g @ [m]\<rparr>) else (Inl ErrTaskQueue, g))"

definition enqueueFaultTreeProducerTask :: "tenv \<Rightarrow> AITaskQueueMessage \<Rightarrow> 'g gen \<Rightarrow> (task_error + unit) \<times> 'g gen" where
  "enqueueFaultTreeProducerTask env m g =
     (if t_works env CEnqueue then (ok, g\<lparr>gn_producer := gn_producer g @ [m]\<rparr>) else (Inl ErrTaskQueue, g))"

definition requeueDelayed :: "tenv \<Rightarrow> AITaskQueueMessage \<Rightarrow> 'g gen \<Rightarrow> (task_error + unit) \<times> 'g gen" where
  \<comment> \<open>a sorted set holds a member once; adding it again moves it\<close>
  "requeueDelayed env m g =
     (if t_retryDelay env \<le> 0 then enqueueFaultTreeProducerTask env m g
      else if t_works env CDelay
        then (ok, g\<lparr>gn_delayed := filter (\<lambda>(x, _). x \<noteq> m) (gn_delayed g) @ [(m, t_now env + t_retryDelay env)]\<rparr>)
      else (Inl ErrTaskQueue, g))"

definition updateDispatchState ::
    "tenv \<Rightarrow> AITaskQueueMessage \<Rightarrow> int \<Rightarrow> string \<Rightarrow> string \<Rightarrow> 'g gen \<Rightarrow> 'g gen" where
  "updateDispatchState env m progress stage lbl g =
     (let tid = TrimSpace (msg_TaskID m); pid = TrimSpace (msg_ProjectID m) in
      if tid = '''' \<or> pid = '''' then g
      else publishTaskEvent (mk_event ''task.progress'' pid tid ''pending'' ''pending_generating'' progress stage (Fixed lbl))
        (cacheStatus env tid ''pending'' progress stage (Fixed lbl)
        (if t_works env CTaskWrite
         then update_task tid (UpdateStatus ''pending'' progress stage (Fixed lbl)) g else g)))"

text \<open>\<open>dispatchFaultTreePayload\<close> is a sequence of steps between which the workers run: announcing the
  message, taking the lock and handing the message to the worker queue, and announcing that. The
  last step is separate here so that what happens in between can be stated.\<close>

definition hand_over :: "tenv \<Rightarrow> AITaskQueueMessage \<Rightarrow> 'g gen \<Rightarrow> (task_error + bool) \<times> 'g gen" where
  \<comment> \<open>up to \<open>enqueueTask\<close>; \<open>True\<close> when the message is in the worker queue under the lock\<close>
  "hand_over env m g =
     (let tid = TrimSpace (msg_TaskID m); pid = TrimSpace (msg_ProjectID m);
          g1 = updateDispatchState env m 4 ''dispatching'' ''waiting for a slot'' g in
      case tryAcquireProjectLock env pid tid g1 of
        (Inl e, g2) \<Rightarrow> (Inl e, g2)
      | (Inr False, g2) \<Rightarrow>
          (case requeueDelayed env m (updateDispatchState env m 3 ''waiting_project_slot'' ''queued behind another task'' g2) of
             (Inl e, g3) \<Rightarrow> (Inl e, g3) | (Inr _, g3) \<Rightarrow> (Inr False, g3))
      | (Inr True, g2) \<Rightarrow>
          (case enqueueTask env m g2 of
             (Inl e, g3) \<Rightarrow> (Inl e, updateDispatchState env m 3 ''dispatch_retrying'' ''retrying'' (releaseProjectLock env pid tid g3))
           | (Inr _, g3) \<Rightarrow> (Inr True, g3)))"

definition announce_enqueued :: "tenv \<Rightarrow> AITaskQueueMessage \<Rightarrow> 'g gen \<Rightarrow> 'g gen" where
  "announce_enqueued env m g = updateDispatchState env m 8 ''enqueued'' ''handed to the worker'' g"

definition dispatchFaultTreePayload ::
    "tenv \<Rightarrow> AITaskQueueMessage \<Rightarrow> 'g gen \<Rightarrow> (task_error + unit) \<times> 'g gen" where
  "dispatchFaultTreePayload env m g =
     (if TrimSpace (msg_TaskType m) \<noteq> ''generateFaultTree'' then enqueueTask env m g
      else if TrimSpace (msg_TaskID m) = '''' \<or> TrimSpace (msg_ProjectID m) = '''' then (Inl ErrTaskIncomplete, g)
      else case hand_over env m g of
        (Inl e, g1) \<Rightarrow> (Inl e, g1)
      | (Inr handed, g1) \<Rightarrow> (ok, if handed then announce_enqueued env m g1 else g1))"

definition handleProducerMessage :: "tenv \<Rightarrow> AITaskQueueMessage \<Rightarrow> 'g gen \<Rightarrow> 'g gen" where
  \<comment> \<open>a message that could be decoded; it is acknowledged in any case\<close>
  "handleProducerMessage env m g =
     (case dispatchFaultTreePayload env m g of
        (Inl _, g1) \<Rightarrow> snd (requeueDelayed env m g1)
      | (Inr _, g1) \<Rightarrow> g1)"

definition releaseDelayedProducerTasks :: "tenv \<Rightarrow> 'g gen \<Rightarrow> 'g gen" where
  \<comment> \<open>the earliest due messages, as many as are read at once; a message that cannot be added to the
     stream is gone\<close>
  "releaseDelayedProducerTasks env g =
     (let due = take (t_readCount env) (sort_key snd (filter (\<lambda>(_, time). time \<le> t_now env) (gn_delayed g))) in
      g\<lparr>gn_delayed := filter (\<lambda>x. x \<notin> set due) (gn_delayed g),
        gn_producer := gn_producer g @ (if t_works env CEnqueue then map fst due else [])\<rparr>)"


subsection \<open>Starting a generation\<close>

definition createTask ::
    "tenv \<Rightarrow> string \<Rightarrow> string \<Rightarrow> string \<Rightarrow> string \<Rightarrow> string \<Rightarrow> string \<Rightarrow> 'g gen \<Rightarrow> (task_error + AITask \<times> bool) \<times> 'g gen" where
  \<comment> \<open>the idempotency key is unique in the table; when it is taken, the task that has it is returned\<close>
  "createTask env i taskType modelName userID pid key g =
     (let t = \<lparr> task_ID = i, task_Type = taskType, task_Status = ''pending'', task_Progress = 0,
            task_Stage = ''queued'', task_StageLabel = Fixed ''queued'', task_Result = None,
            task_ErrorMessage = None, task_AttemptCount = 0, task_MaxAttempts = 3, task_WorkerID = None,
            task_StartedAt = None, task_CompletedAt = None,
            task_IdempotencyKey = (if TrimSpace key \<noteq> '''' then Some (TrimSpace key) else None),
            task_Model = modelName, task_CreatedBy = userID, task_ProjectID = Some pid \<rparr>
      in if \<not> t_works env CTaskWrite then (Inl ErrTaskStore, g)
         else case FindByIdempotencyKey g key of
           Some old \<Rightarrow>
             if \<not> t_works env CTaskRead then (Inl ErrTaskStore, g)
             else (Inr (old, False), cacheStatus env (task_ID old) (task_Status old) (task_Progress old)
                    (task_Stage old) (task_StageLabel old) g)
         | None \<Rightarrow> (Inr (t, True), cacheStatus env i ''pending'' 0 ''queued'' (Fixed ''queued'')
                    (g\<lparr>gn_tasks := gn_tasks g @ [t]\<rparr>)))"

definition normalizeDocIDs :: "string list \<Rightarrow> string list" where
  "normalizeDocIDs ids = rev (fold (\<lambda>i acc. let t = TrimSpace i in
     if t = '''' \<or> t \<in> set acc then acc else t # acc) ids [])"

record GenerateConfig =
  cfg_Quality :: string
  cfg_Model :: string
  cfg_Depth :: nat
  cfg_MaxNodes :: nat
  cfg_EntityTypes :: "string list option"

definition defaultFaultTreeGenerateConfig :: GenerateConfig where
  "defaultFaultTreeGenerateConfig = \<lparr> cfg_Quality = ''balanced'', cfg_Model = '''', cfg_Depth = 4,
     cfg_MaxNodes = 30, cfg_EntityTypes = None \<rparr>"

definition jnat :: "nat \<Rightarrow> json" where
  "jnat n = JNum (show_nat n) (int n) (Some (int n))"

definition buildIdempotencyKey ::
    "(string \<Rightarrow> string) \<Rightarrow> string \<Rightarrow> string \<Rightarrow> string \<Rightarrow> string \<Rightarrow> string list \<Rightarrow> GenerateConfig \<Rightarrow> string" where
  \<comment> \<open>\<open>sha\<close> is \<open>util.SHA256\<close>\<close>
  "buildIdempotencyKey sha taskType userID pid topEvent docIDs cfg =
     sha (Marshal (JObj [(''taskType'', JStr taskType), (''userID'', JStr (TrimSpace userID)),
       (''projectID'', JStr (TrimSpace pid)), (''topEvent'', JStr (TrimSpace topEvent)),
       (''docIDs'', JArr (map JStr (sort docIDs))),
       (''config'', JObj [(''quality'', JStr (cfg_Quality cfg)), (''model'', JStr (cfg_Model cfg)),
          (''depth'', jnat (cfg_Depth cfg)), (''maxNodes'', jnat (cfg_MaxNodes cfg)),
          (''entityTypes'', (case cfg_EntityTypes cfg of None \<Rightarrow> JNull | Some ts \<Rightarrow> JArr (map JStr ts)))])]))"

record GenerateFaultTreeInput =
  gi_DocIDs :: "string list"
  gi_TopEvent :: string
  gi_UserID :: string
  gi_UserRequirements :: string

record GenerateFaultTreeOutput =
  go_TaskID :: string
  go_Status :: string
  go_ProjectID :: string
  go_EffectiveDocIDs :: "string list"

definition fail_generation :: "tenv \<Rightarrow> string \<Rightarrow> string \<Rightarrow> label \<Rightarrow> 'g gen \<Rightarrow> 'g gen" where
  "fail_generation env tid pid err g =
     cacheStatus env tid ''failed'' 0 ''failed'' (Fixed ''failed'')
       (setProjectGenerationStatus env pid ''failed''
       (if t_works env CTaskWrite then update_task tid (SetFailed (t_now env) err) g else g))"

definition GenerateFaultTree ::
    "tenv \<Rightarrow> (string \<Rightarrow> string) \<Rightarrow> string \<Rightarrow> task_error + string \<Rightarrow> (string list \<Rightarrow> string + string list \<times> string)
      \<Rightarrow> GenerateFaultTreeInput \<Rightarrow> 'g gen \<Rightarrow> (task_error + GenerateFaultTreeOutput) \<times> 'g gen" where
  \<comment> \<open>\<open>i\<close> is the drawn task ID, \<open>project\<close> the ID of the project found or created, \<open>docs\<close> gives the
     effective document IDs and the name of the first file, or an error\<close>
  "GenerateFaultTree env sha i project docs input g =
     (case project of Inl e \<Rightarrow> (Inl e, g)
      | Inr pid \<Rightarrow>
        if \<not> t_works env CProjectStatus then (Inl ErrTaskStore, g) else
        let g1 = setProjectGenerationStatus env pid ''pending_generating'' g;
            request = normalizeDocIDs (gi_DocIDs input);
            key = buildIdempotencyKey sha ''generateFaultTree'' (gi_UserID input) pid (gi_TopEvent input) request
                    defaultFaultTreeGenerateConfig
        in case createTask env i ''generateFaultTree'' ''default'' (gi_UserID input) pid key g1 of
          (Inl e, g2) \<Rightarrow> (Inl e, setProjectGenerationStatus env pid ''failed'' g2)
        | (Inr (t, False), g2) \<Rightarrow>
            (Inr \<lparr> go_TaskID = task_ID t, go_Status = task_Status t, go_ProjectID = pid, go_EffectiveDocIDs = [] \<rparr>,
             setProjectGenerationStatus env pid (projectGenerationStatusFromTaskStatus (task_Status t)) g2)
        | (Inr (t, True), g2) \<Rightarrow>
            (case docs request of
               Inl msg \<Rightarrow> (Inl (ErrTaskPersist msg), fail_generation env i pid (Text msg) g2)
             | Inr (effective, fileName) \<Rightarrow>
                 let m = \<lparr> msg_TaskID = i, msg_ProjectID = pid, msg_TaskType = ''generateFaultTree'',
                       msg_UserID = gi_UserID input, msg_TopEvent = gi_TopEvent input, msg_DocIDs = effective,
                       msg_UserRequirements = gi_UserRequirements input, msg_FileName = fileName \<rparr>
                 in case enqueueFaultTreeProducerTask env m g2 of
                   (Inl e, g3) \<Rightarrow> (Inl e, fail_generation env i pid (Fixed ''queue'') g3)
                 | (Inr _, g3) \<Rightarrow>
                     (Inr \<lparr> go_TaskID = i, go_Status = ''pending'', go_ProjectID = pid, go_EffectiveDocIDs = effective \<rparr>,
                      publishTaskEvent (mk_event ''task.progress'' pid i ''pending'' ''pending_generating'' 1
                          ''producer_queued'' (Fixed ''producer queued''))
                        (cacheStatus env i ''pending'' 1 ''producer_queued'' (Fixed ''producer queued'')
                        (if t_works env CTaskWrite
                         then update_task i (UpdateStatus ''pending'' 1 ''producer_queued'' (Fixed ''producer queued'')) g3
                         else g3)))))"

definition defaultKnowledgeGraphGenerateConfig :: GenerateConfig where
  "defaultKnowledgeGraphGenerateConfig = \<lparr> cfg_Quality = ''balanced'', cfg_Model = '''', cfg_Depth = 0,
     cfg_MaxNodes = 0, cfg_EntityTypes = Some [] \<rparr>"

record GenerateKnowledgeGraphInput =
  gk_DocIDs :: "string list"
  gk_UserID :: string
  gk_UserRequirements :: string

definition GenerateKnowledgeGraph ::
    "tenv \<Rightarrow> (string \<Rightarrow> string) \<Rightarrow> string \<Rightarrow> task_error + string \<Rightarrow> (string list \<Rightarrow> string + string list \<times> string)
      \<Rightarrow> GenerateKnowledgeGraphInput \<Rightarrow> 'g gen \<Rightarrow> (task_error + GenerateFaultTreeOutput) \<times> 'g gen" where
  \<comment> \<open>unlike a fault tree the message goes to the worker at once, without the dispatcher and its lock\<close>
  "GenerateKnowledgeGraph env sha i project docs input g =
     (case project of Inl e \<Rightarrow> (Inl e, g)
      | Inr pid \<Rightarrow>
        if \<not> t_works env CProjectStatus then (Inl ErrTaskStore, g) else
        let g1 = setProjectGenerationStatus env pid ''pending_generating'' g;
            request = normalizeDocIDs (gk_DocIDs input);
            key = buildIdempotencyKey sha ''generateKnowledgeGraph'' (gk_UserID input) pid '''' request
                    defaultKnowledgeGraphGenerateConfig
        in case createTask env i ''generateKnowledgeGraph'' ''default'' (gk_UserID input) pid key g1 of
          (Inl e, g2) \<Rightarrow> (Inl e, setProjectGenerationStatus env pid ''failed'' g2)
        | (Inr (t, False), g2) \<Rightarrow>
            (Inr \<lparr> go_TaskID = task_ID t, go_Status = task_Status t, go_ProjectID = pid, go_EffectiveDocIDs = [] \<rparr>,
             setProjectGenerationStatus env pid (projectGenerationStatusFromTaskStatus (task_Status t)) g2)
        | (Inr (t, True), g2) \<Rightarrow>
            (case docs request of
               Inl msg \<Rightarrow> (Inl (ErrTaskPersist msg), fail_generation env i pid (Text msg) g2)
             | Inr (effective, fileName) \<Rightarrow>
                 let m = \<lparr> msg_TaskID = i, msg_ProjectID = pid, msg_TaskType = ''generateKnowledgeGraph'',
                       msg_UserID = gk_UserID input, msg_TopEvent = '''', msg_DocIDs = effective,
                       msg_UserRequirements = gk_UserRequirements input, msg_FileName = fileName \<rparr>
                 in case enqueueTask env m g2 of
                   (Inl e, g3) \<Rightarrow> (Inl e, fail_generation env i pid (Fixed ''queue'') g3)
                 | (Inr _, g3) \<Rightarrow>
                     (Inr \<lparr> go_TaskID = i, go_Status = ''pending'', go_ProjectID = pid, go_EffectiveDocIDs = effective \<rparr>,
                      publishTaskEvent (mk_event ''task.pending'' pid i ''pending'' ''pending_generating'' 0
                          ''queued'' (Fixed ''queued'')) g3)))"

end
