(* ===== verification/TaskEffects.thy ===== *)
theory TaskEffects
  imports Tasks
begin

text \<open>
  What callbacks and the dispatcher do to the rows of the task table and to the locks: each effect
  seen through the row of one task, the order of the statuses a callback can move along, and the
  locks that stay as they are.
\<close>

named_theorems task_simps \<open>the tables after a small effect\<close>

lemma small_effects_tasks [simp, task_simps]:
  "gn_tasks (setProjectGenerationStatus env pid s g) = gn_tasks g"
  "gn_tasks (cacheStatus env i s p st lbl g) = gn_tasks g"
  "gn_tasks (publishTaskEvent e g) = gn_tasks g"
  "gn_tasks (set_lock env pid tid g) = gn_tasks g"
  "gn_tasks (touchProjectLock env pid tid g) = gn_tasks g"
  "gn_tasks (releaseProjectLock env pid tid g) = gn_tasks g"
  "gn_tasks (clearTaskStreamEntries tid g) = gn_tasks g"
  "gn_graph (setProjectGenerationStatus env pid s g) = gn_graph g"
  "gn_graph (cacheStatus env i s p st lbl g) = gn_graph g"
  "gn_graph (publishTaskEvent e g) = gn_graph g"
  "gn_graph (touchProjectLock env pid tid g) = gn_graph g"
  "gn_graph (releaseProjectLock env pid tid g) = gn_graph g"
  "gn_graph (clearTaskStreamEntries tid g) = gn_graph g"
  "gn_graph (update_task i f g) = gn_graph g"
  by (simp_all add: setProjectGenerationStatus_def cacheStatus_def publishTaskEvent_def set_lock_def
      touchProjectLock_def releaseProjectLock_def clearTaskStreamEntries_def update_task_def split: option.split)

lemma small_effects_locks [simp, task_simps]:
  "gn_locks (setProjectGenerationStatus env pid s g) = gn_locks g"
  "gn_locks (cacheStatus env i s p st lbl g) = gn_locks g"
  "gn_locks (publishTaskEvent e g) = gn_locks g"
  "gn_locks (clearTaskStreamEntries tid g) = gn_locks g"
  "gn_locks (update_task i f g) = gn_locks g"
  "gn_worker (setProjectGenerationStatus env pid s g) = gn_worker g"
  "gn_worker (cacheStatus env i s p st lbl g) = gn_worker g"
  "gn_worker (publishTaskEvent e g) = gn_worker g"
  "gn_worker (update_task i f g) = gn_worker g"
  "gn_delayed (setProjectGenerationStatus env pid s g) = gn_delayed g"
  "gn_delayed (cacheStatus env i s p st lbl g) = gn_delayed g"
  "gn_delayed (publishTaskEvent e g) = gn_delayed g"
  "gn_delayed (update_task i f g) = gn_delayed g"
  by (simp_all add: setProjectGenerationStatus_def cacheStatus_def publishTaskEvent_def
      clearTaskStreamEntries_def update_task_def)

lemma find_task_effects [simp, task_simps]:
  "find_task (setProjectGenerationStatus env pid s g) j = find_task g j"
  "find_task (cacheStatus env i s p st lbl g) j = find_task g j"
  "find_task (publishTaskEvent e g) j = find_task g j"
  "find_task (touchProjectLock env pid tid g) j = find_task g j"
  "find_task (releaseProjectLock env pid tid g) j = find_task g j"
  "find_task (clearTaskStreamEntries tid g) j = find_task g j"
  "find_task (g\<lparr>gn_graph := x\<rparr>) j = find_task g j"
  by (simp_all add: find_task_def)

lemma find_key_effects [simp, task_simps]:
  "FindByIdempotencyKey (setProjectGenerationStatus env pid s g) key = FindByIdempotencyKey g key"
  "FindByIdempotencyKey (cacheStatus env i s p st lbl g) key = FindByIdempotencyKey g key"
  by (simp_all add: FindByIdempotencyKey_def)

lemma find_update_task:
  assumes "\<And>t. task_ID (f t) = task_ID t"
  shows "find_task (update_task i f g) j = (if i = j then map_option f (find_task g j) else find_task g j)"
proof -
  have "List.find (\<lambda>t. task_ID t = j) (map (\<lambda>t. if task_ID t = i then f t else t) ts) =
      (if i = j then map_option f (List.find (\<lambda>t. task_ID t = j) ts) else List.find (\<lambda>t. task_ID t = j) ts)" for ts
    using assms by (induction ts) auto
  then show ?thesis by (simp add: find_task_def update_task_def)
qed

lemma row_functions_id [simp]:
  "task_ID (UpdateStatus s p st lbl t) = task_ID t"
  "task_ID (UpdateStatusExt now s p st lbl w a e t) = task_ID t"
  "task_ID (SetCompleted now r t) = task_ID t" "task_ID (SetFailed now err t) = task_ID t"
  by (simp_all add: UpdateStatus_def UpdateStatusExt_def SetCompleted_def SetFailed_def)

lemma row_functions_sel [simp]:
  "task_Status (UpdateStatus s p st lbl t) = s" "task_Status (UpdateStatusExt now s p st lbl w a e t) = s"
  "task_Status (SetCompleted now r t) = ''completed''" "task_Status (SetFailed now err t) = ''failed''"
  "task_Progress (UpdateStatus s p st lbl t) = p" "task_Progress (UpdateStatusExt now s p st lbl w a e t) = p"
  "task_Progress (SetCompleted now r t) = 100" "task_Progress (SetFailed now err t) = task_Progress t"
  "task_AttemptCount (UpdateStatusExt now s p st lbl w a e t) = a"
  "task_AttemptCount (SetCompleted now r t) = task_AttemptCount t"
  "task_AttemptCount (SetFailed now err t) = task_AttemptCount t"
  by (simp_all add: UpdateStatus_def UpdateStatusExt_def SetCompleted_def SetFailed_def)

lemma dedupe_same [simp]:
  "dedupe env tid key g = Some g1 \<Longrightarrow> gn_tasks g1 = gn_tasks g \<and> gn_graph g1 = gn_graph g \<and> gn_locks g1 = gn_locks g"
  by (auto simp: dedupe_def Let_def split: if_splits option.splits)

subsection \<open>One callback\<close>

text \<open>The row a callback writes for its own task, for each reported status.\<close>

definition new_row :: "tenv \<Rightarrow> TaskCallbackInput \<Rightarrow> AITask \<Rightarrow> AITask \<Rightarrow> bool" where
  "new_row env input t t' \<longleftrightarrow>
     (let s = TrimSpace (cb_Status input); p = clamp_progress (cb_Progress input);
          a = effective_attempt (cb_Attempt input) t in
      \<not> outdated t s p a \<and>
      (\<exists>st lbl w. s \<in> {''processing'', ''retrying''} \<and> t' = UpdateStatusExt (t_now env) s p st lbl w a None t
       \<or> s \<in> {''failed'', ''dead''} \<and> (\<exists>e. t' = UpdateStatusExt (t_now env) s p st lbl w a (Some e) t))
      \<or> s = ''completed'' \<and> (\<exists>r e. t' = SetCompleted (t_now env) r t \<or> t' = SetFailed (t_now env) e t))"

definition open_for :: "AITask \<Rightarrow> string \<Rightarrow> bool" where
  \<comment> \<open>a callback that reports this status may change the task\<close>
  "open_for t s \<longleftrightarrow> \<not> isAITaskTerminalStatus (task_Status t) \<or> task_Status t = ''failed'' \<and> s = ''dead''"

lemma callback_target_Inr:
  "callback_target env input g = Inr (t, pid, s) \<Longrightarrow>
     find_task g (TrimSpace (cb_TaskID input)) = Some t \<and> s = TrimSpace (cb_Status input)"
  by (auto simp: callback_target_def Let_def split: if_splits option.splits)

lemma on_processing_row:
  assumes "on_processing env input pid s p a g = (r, g')" and "find_task g i = Some t"
  shows "gn_graph g' = gn_graph g \<and> (find_task g' i = Some t \<or> i = TrimSpace (cb_TaskID input) \<and>
    (\<exists>st lbl w. find_task g' i = Some (UpdateStatusExt (t_now env) s p st lbl w a None t)))"
  using assms by (auto simp: on_processing_def Let_def find_update_task split: if_splits; blast)

lemma on_failed_row:
  assumes "on_failed env input pid s p a g = (r, g')" and "find_task g i = Some t"
  shows "gn_graph g' = gn_graph g \<and> (find_task g' i = Some t \<or> i = TrimSpace (cb_TaskID input) \<and>
    (\<exists>st lbl w e. find_task g' i = Some (UpdateStatusExt (t_now env) s p st lbl w a (Some e) t)))"
  using assms by (auto simp: on_failed_def Let_def find_update_task split: if_splits; blast)

lemma on_completed_row:
  assumes "on_completed env persist input u pid g = (r, g')" and "find_task g i = Some t"
  shows "find_task g' i = Some t \<or> i = TrimSpace (cb_TaskID input) \<and>
    (\<exists>res e. find_task g' i = Some (SetCompleted (t_now env) res t) \<or> find_task g' i = Some (SetFailed (t_now env) e t))"
  using assms by (auto simp: on_completed_def Let_def find_update_task split: if_splits sum.splits prod.splits)

lemma callback_row:
  assumes "HandleTaskCallback env persist input g = (r, g')" and "find_task g i = Some t"
  shows "find_task g' i = Some t \<or> i = TrimSpace (cb_TaskID input) \<and> open_for t (TrimSpace (cb_Status input)) \<and>
    (\<exists>t'. find_task g' i = Some t' \<and> new_row env input t t')"
proof (cases "dedupe env (TrimSpace (cb_TaskID input)) (TrimSpace (cb_EventKey input)) g")
  case None
  with assms show ?thesis by (auto simp: HandleTaskCallback_def split: if_splits)
next
  case (Some g1)
  from dedupe_same [OF this] assms(2) have t1: "find_task g1 i = Some t" by (simp add: find_task_def)
  show ?thesis
  proof (cases "callback_target env input g1")
    case (Inl e)
    with assms Some t1 show ?thesis by (auto simp: HandleTaskCallback_def split: if_splits)
  next
    case (Inr x)
    then obtain u pid s where x: "callback_target env input g1 = Inr (u, pid, s)" by (cases x) auto
    note tgt = callback_target_Inr [OF x]
    let ?p = "clamp_progress (cb_Progress input)" and ?a = "effective_attempt (cb_Attempt input) u"
    have same: "u = t" if "i = TrimSpace (cb_TaskID input)" using tgt t1 that by simp
    consider (same) "find_task g' i = Some t"
      | (proc) "open_for u s" "\<not> outdated u s ?p ?a" "s \<in> {''processing'', ''retrying''}"
          "on_processing env input pid s ?p ?a g1 = (r, g')"
      | (comp) "open_for u s" "\<not> outdated u s ?p ?a" "s = ''completed''" "on_completed env persist input u pid g1 = (r, g')"
      | (fail) "open_for u s" "\<not> outdated u s ?p ?a" "s \<in> {''failed'', ''dead''}" "on_failed env input pid s ?p ?a g1 = (r, g')"
      using assms Some x t1
      by (auto simp: HandleTaskCallback_def Let_def open_for_def split: if_splits)
    then show ?thesis
    proof cases
      case proc
      from on_processing_row [OF proc(4) t1] proc same tgt show ?thesis by (fastforce simp: new_row_def Let_def)
    next
      case comp
      from on_completed_row [OF comp(4) t1] comp same tgt show ?thesis by (fastforce simp: new_row_def Let_def)
    next
      case fail
      from on_failed_row [OF fail(4) t1] fail same tgt show ?thesis by (fastforce simp: new_row_def Let_def)
    qed simp
  qed
qed


subsection \<open>Order of statuses\<close>

definition advances :: "AITask \<Rightarrow> AITask \<Rightarrow> bool" where
  \<comment> \<open>a finished task stays finished, except that a failed one may be declared dead; attempts never go
     back, and within an attempt neither does the progress of a running task\<close>
  "advances t t' \<longleftrightarrow>
     task_Status t' \<in> {''processing'', ''retrying'', ''completed'', ''failed'', ''dead''}
     \<and> (isAITaskTerminalStatus (task_Status t) \<longrightarrow> task_Status t = ''failed'' \<and> task_Status t' = ''dead'')
     \<and> task_AttemptCount t \<le> task_AttemptCount t'
     \<and> (\<not> isAITaskTerminalStatus (task_Status t') \<and> task_AttemptCount t' = task_AttemptCount t
        \<longrightarrow> task_Progress t \<le> task_Progress t' \<and> task_Progress t' \<le> 100)"

lemma isTerminal_simps [simp]:
  "isAITaskTerminalStatus ''completed''" "isAITaskTerminalStatus ''failed''" "isAITaskTerminalStatus ''dead''"
  "\<not> isAITaskTerminalStatus ''processing''" "\<not> isAITaskTerminalStatus ''retrying''" "\<not> isAITaskTerminalStatus ''pending''"
  by (simp_all add: isAITaskTerminalStatus_def)

lemma clamp_le [simp]: "clamp_progress p \<le> 100" "0 \<le> clamp_progress p"
  by (simp_all add: clamp_progress_def)

lemma attempt_mono:
  "0 \<le> task_AttemptCount t \<Longrightarrow> \<not> outdated t s p (effective_attempt a t) \<Longrightarrow> task_AttemptCount t \<le> effective_attempt a t"
  by (auto simp: outdated_def effective_attempt_def Let_def split: if_splits)

lemma new_row_advances:
  assumes "new_row env input t t'" and "open_for t (TrimSpace (cb_Status input))" and "0 \<le> task_AttemptCount t"
  shows "advances t t'"
proof -
  let ?s = "TrimSpace (cb_Status input)" and ?p = "clamp_progress (cb_Progress input)"
  let ?a = "effective_attempt (cb_Attempt input) t"
  consider (run) st lbl w where "\<not> outdated t ?s ?p ?a" "?s \<in> {''processing'', ''retrying''}"
      "t' = UpdateStatusExt (t_now env) ?s ?p st lbl w ?a None t"
    | (fail) st lbl w e where "\<not> outdated t ?s ?p ?a" "?s \<in> {''failed'', ''dead''}"
      "t' = UpdateStatusExt (t_now env) ?s ?p st lbl w ?a (Some e) t"
    | (comp) res e where "?s = ''completed''" "t' = SetCompleted (t_now env) res t \<or> t' = SetFailed (t_now env) e t"
    using assms(1) unfolding new_row_def Let_def by blast
  then show ?thesis
  proof cases
    case run
    with attempt_mono [OF assms(3) run(1)] assms(2) show ?thesis
      by (auto simp: advances_def open_for_def outdated_def)
  next
    case fail
    with attempt_mono [OF assms(3) fail(1)] assms(2) show ?thesis
      by (auto simp: advances_def open_for_def)
  next
    case comp
    with assms(2) show ?thesis by (auto simp: advances_def open_for_def)
  qed
qed

lemma callback_advances:
  assumes "HandleTaskCallback env persist input g = (r, g')" and "find_task g i = Some t" and "0 \<le> task_AttemptCount t"
  shows "\<exists>t'. find_task g' i = Some t' \<and> (t' = t \<or> advances t t')"
  using callback_row [OF assms(1,2)] new_row_advances [of env input t] assms(3) by blast

text \<open>A callback for a completed or dead task changes neither the row nor the graph.\<close>

lemma callback_finished:
  assumes "HandleTaskCallback env persist input g = (r, g')" and "find_task g (TrimSpace (cb_TaskID input)) = Some t"
    and "task_Status t \<in> {''completed'', ''dead''}"
  shows "gn_tasks g' = gn_tasks g \<and> gn_graph g' = gn_graph g"
proof (cases "dedupe env (TrimSpace (cb_TaskID input)) (TrimSpace (cb_EventKey input)) g")
  case None
  with assms show ?thesis by (auto simp: HandleTaskCallback_def split: if_splits)
next
  case (Some g1)
  note same = dedupe_same [OF Some]
  show ?thesis
  proof (cases "callback_target env input g1")
    case (Inl e)
    with assms(1) Some same show ?thesis by (auto simp: HandleTaskCallback_def split: if_splits)
  next
    case (Inr x)
    then obtain pid s where "callback_target env input g1 = Inr (t, pid, s)"
      using assms(2) same by (cases x) (auto dest!: callback_target_Inr simp: find_task_def)
    with assms(1,3) Some same show ?thesis by (auto simp: HandleTaskCallback_def split: if_splits)
  qed
qed

subsection \<open>Events seen once\<close>

lemma dedupe_effects [simp, task_simps]:
  "gn_dedupe (setProjectGenerationStatus env pid s g) = gn_dedupe g"
  "gn_dedupe (cacheStatus env i s p st lbl g) = gn_dedupe g"
  "gn_dedupe (publishTaskEvent e g) = gn_dedupe g"
  "gn_dedupe (touchProjectLock env pid tid g) = gn_dedupe g"
  "gn_dedupe (releaseProjectLock env pid tid g) = gn_dedupe g"
  "gn_dedupe (clearTaskStreamEntries tid g) = gn_dedupe g"
  "gn_dedupe (update_task i f g) = gn_dedupe g"
  by (simp_all add: setProjectGenerationStatus_def cacheStatus_def publishTaskEvent_def set_lock_def
      touchProjectLock_def releaseProjectLock_def clearTaskStreamEntries_def update_task_def split: option.split)

lemma on_dedupe:
  "gn_dedupe (snd (on_processing env input pid st p a g)) = gn_dedupe g"
  "gn_dedupe (snd (on_failed env input pid st p a g)) = gn_dedupe g"
  "gn_dedupe (snd (on_completed env persist input t pid g)) = gn_dedupe g"
  by (simp_all add: on_processing_def on_failed_def on_completed_def Let_def split: sum.split prod.split)

lemma callback_dedupe:
  assumes "HandleTaskCallback env persist input g = (r, g')" and "TrimSpace (cb_TaskID input) \<noteq> ''''"
    and "dedupe env (TrimSpace (cb_TaskID input)) (TrimSpace (cb_EventKey input)) g = Some g1"
  shows "gn_dedupe g' = gn_dedupe g1"
proof (cases "callback_target env input g1")
  case (Inl e)
  with assms show ?thesis by (simp add: HandleTaskCallback_def)
next
  case (Inr x)
  have "gn_dedupe (snd (HandleTaskCallback env persist input g)) = gn_dedupe g1"
    using assms(2,3) Inr
    by (simp add: HandleTaskCallback_def Let_def on_dedupe split: prod.split)
  with assms(1) show ?thesis by simp
qed

lemma dedupe_Some:
  assumes "dedupe env tid key g = Some g1" and "key \<noteq> ''''" and "t_works env CDedupe"
  shows "g1 = g\<lparr>gn_dedupe := (gn_dedupe g)(tid @ '':'' @ key \<mapsto> t_now env + t_dedupeTTL env)\<rparr>"
proof (cases "gn_dedupe g (tid @ '':'' @ key)")
  case None
  then show ?thesis using assms unfolding dedupe_def Let_def by simp
next
  case (Some u)
  then show ?thesis using assms unfolding dedupe_def Let_def by (cases "t_now env < u") simp_all
qed

lemma dedupe_again:
  assumes "dedupe env tid key g = Some g1" and "key \<noteq> ''''" and "t_works env CDedupe" and "0 < t_dedupeTTL env"
    and "gn_dedupe g' = gn_dedupe g1"
  shows "dedupe env tid key g' = None"
proof -
  let ?key = "tid @ '':'' @ key"
  have "gn_dedupe g1 ?key = Some (t_now env + t_dedupeTTL env)"
    using dedupe_Some [OF assms(1-3)] by simp
  then show ?thesis using assms(2-4) unfolding dedupe_def assms(5) by simp
qed

subsection \<open>Waiting for the slot of a project\<close>

lemma updateDispatchState_same [simp, task_simps]:
  "gn_locks (updateDispatchState env m p st lbl g) = gn_locks g"
  "gn_worker (updateDispatchState env m p st lbl g) = gn_worker g"
  "gn_delayed (updateDispatchState env m p st lbl g) = gn_delayed g"
  by (simp_all add: updateDispatchState_def Let_def)

lemma live_lock_cong: "gn_locks g' = gn_locks g \<Longrightarrow> live_lock env pid g' = live_lock env pid g"
  by (simp add: live_lock_def)

lemma dispatch_waits:
  assumes "live_lock env (TrimSpace (msg_ProjectID m)) g = Some owner" and "TrimSpace (msg_TaskType m) = ''generateFaultTree''"
    and "TrimSpace (msg_TaskID m) \<noteq> ''''" and "TrimSpace (msg_ProjectID m) \<noteq> ''''"
    and "0 < t_retryDelay env" and "t_works env CLockSet" and "t_works env CDelay"
  shows "gn_worker (handleProducerMessage env m g) = gn_worker g \<and> gn_locks (handleProducerMessage env m g) = gn_locks g
    \<and> (m, t_now env + t_retryDelay env) \<in> set (gn_delayed (handleProducerMessage env m g))"
proof -
  let ?pid = "TrimSpace (msg_ProjectID m)"
  have live: "live_lock env ?pid (updateDispatchState env m p st lbl g) = Some owner" for p st lbl
    unfolding live_lock_cong [OF updateDispatchState_same(1)] by (rule assms(1))
  let ?g1 = "updateDispatchState env m 4 ''dispatching'' ''waiting for a slot'' g"
  let ?g2 = "updateDispatchState env m 3 ''waiting_project_slot'' ''queued behind another task'' ?g1"
  have "tryAcquireProjectLock env ?pid (TrimSpace (msg_TaskID m)) ?g1 = (Inr False, ?g1)"
    using assms(3,4,6) live by (simp add: tryAcquireProjectLock_def)
  moreover have req: "requeueDelayed env m ?g2 = (ok, ?g2\<lparr>gn_delayed := filter (\<lambda>(x, _). x \<noteq> m) (gn_delayed ?g2)
      @ [(m, t_now env + t_retryDelay env)]\<rparr>)"
    using assms(5,7) by (simp add: requeueDelayed_def)
  ultimately have "hand_over env m g = (Inr False, snd (requeueDelayed env m ?g2))"
    by (simp add: hand_over_def Let_def)
  then have "handleProducerMessage env m g = snd (requeueDelayed env m ?g2)"
    using assms(2-4) by (simp add: handleProducerMessage_def dispatchFaultTreePayload_def)
  then show ?thesis by (simp add: req)
qed

subsection \<open>A task completed before its dispatch is announced\<close>

text \<open>What a handed-over message leaves: its task is pending and holds the lock of the project.\<close>

lemma handed_over:
  assumes "hand_over env m g = (Inr True, g1)" and "t_works env CTaskWrite" and "find_task g1 (TrimSpace (msg_TaskID m)) = Some t"
  shows "task_Status t = ''pending'' \<and> TrimSpace (msg_TaskID m) \<noteq> '''' \<and> TrimSpace (msg_ProjectID m) \<noteq> ''''
    \<and> gn_locks g1 (TrimSpace (msg_ProjectID m)) = Some (TrimSpace (msg_TaskID m), t_now env + t_lockTTL env)"
proof -
  let ?tid = "TrimSpace (msg_TaskID m)" and ?pid = "TrimSpace (msg_ProjectID m)"
  let ?g = "updateDispatchState env m 4 ''dispatching'' ''waiting for a slot'' g"
  have ids: "?tid \<noteq> ''''" "?pid \<noteq> ''''" and g1: "gn_tasks g1 = gn_tasks ?g" "gn_locks g1 = gn_locks (set_lock env ?pid ?tid ?g)"
    using assms(1) by (auto simp: hand_over_def Let_def tryAcquireProjectLock_def enqueueTask_def split: if_splits sum.splits prod.splits)
  have "find_task g1 ?tid = find_task ?g ?tid" using g1(1) by (simp add: find_task_def)
  then have "task_Status t = ''pending''"
    using assms(2,3) ids by (cases "find_task g ?tid") (auto simp: updateDispatchState_def Let_def find_update_task)
  then show ?thesis using ids g1(2) by (simp add: set_lock_def)
qed

lemma callback_found:
  assumes "HandleTaskCallback env persist input g = (ok, g')" and "find_task g' (TrimSpace (cb_TaskID input)) \<noteq> None"
  shows "find_task g (TrimSpace (cb_TaskID input)) \<noteq> None"
proof (cases "dedupe env (TrimSpace (cb_TaskID input)) (TrimSpace (cb_EventKey input)) g")
  case None
  with assms show ?thesis by (auto simp: HandleTaskCallback_def split: if_splits)
next
  case (Some g0)
  then show ?thesis
    using assms(1) dedupe_same [OF Some] callback_target_Inr [of env input g0]
    by (cases "callback_target env input g0") (auto simp: HandleTaskCallback_def find_task_def split: if_splits)
qed

lemma callback_completes:
  assumes "HandleTaskCallback env persist input g = (ok, g')" and "find_task g (TrimSpace (cb_TaskID input)) = Some t"
    and "\<not> isAITaskTerminalStatus (task_Status t)" and "find_task g' (TrimSpace (cb_TaskID input)) = Some t'"
    and "task_Status t' = ''completed''"
  obtains g0 p where "dedupe env (TrimSpace (cb_TaskID input)) (TrimSpace (cb_EventKey input)) g = Some g0"
    and "task_ProjectID t = Some p" and "TrimSpace p \<noteq> ''''" and "on_completed env persist input t (TrimSpace p) g0 = (ok, g')"
proof -
  have changed: "find_task g' (TrimSpace (cb_TaskID input)) \<noteq> Some t" using assms(3-5) by (auto simp: isAITaskTerminalStatus_def)
  then have s: "TrimSpace (cb_Status input) = ''completed''"
    using callback_row [OF assms(1,2)] assms(4,5) by (auto simp: new_row_def Let_def)
  obtain g0 where g0: "dedupe env (TrimSpace (cb_TaskID input)) (TrimSpace (cb_EventKey input)) g = Some g0"
    using assms(1,2) changed by (cases "dedupe env (TrimSpace (cb_TaskID input)) (TrimSpace (cb_EventKey input)) g")
      (auto simp: HandleTaskCallback_def split: if_splits)
  have t0: "find_task g0 (TrimSpace (cb_TaskID input)) = Some t" using dedupe_same [OF g0] assms(2) by (simp add: find_task_def)
  obtain u pid st where x: "callback_target env input g0 = Inr (u, pid, st)"
    using assms(1) g0 by (cases "callback_target env input g0") (auto simp: HandleTaskCallback_def split: if_splits)
  then have u: "u = t" "st = ''completed''" using callback_target_Inr [OF x] t0 s by auto
  obtain p where p: "task_ProjectID t = Some p" "TrimSpace p = pid" "pid \<noteq> ''''"
    using x t0 u by (auto simp: callback_target_def Let_def split: if_splits option.splits)
  have "on_completed env persist input t pid g0 = (ok, g')"
    using assms(1,3) g0 x u changed t0 by (auto simp: HandleTaskCallback_def Let_def split: if_splits)
  then show thesis using that g0 p by blast
qed

lemma release_frees:
  assumes "gn_locks g pid = Some (tid, until)" and "t_works env CLockGet" and "t_works env CLockDel"
    and "pid = TrimSpace p" and "tid = TrimSpace i" and "pid \<noteq> ''''" and "tid \<noteq> ''''" and "t_now env \<le> t_now env'"
  shows "live_lock env' pid (releaseProjectLock env pid tid g) = None"
  using assms by (auto simp: releaseProjectLock_def live_lock_def)

lemma completed_callback_clears:
  fixes g :: "'g gen"
  assumes "on_completed env persist input t pid g = (ok, g')"
  shows "(\<forall>x \<in> set (gn_worker g'). TrimSpace (msg_TaskID x) \<noteq> TrimSpace (cb_TaskID input))
    \<and> (\<exists>x :: 'g gen. gn_locks x = gn_locks g \<and> gn_locks g' = gn_locks (releaseProjectLock env pid (TrimSpace (cb_TaskID input)) x))"
proof -
  obtain result graph where "persist t (cb_Result input) (gn_graph g) = Inr (result, graph)" "t_works env CTaskWrite"
    using assms by (auto simp: on_completed_def Let_def split: sum.splits if_splits prod.splits)
  then have g': "g' = snd (on_completed env persist input t pid g)"
      "persist t (cb_Result input) (gn_graph g) = Inr (result, graph)" "t_works env CTaskWrite" using assms by simp_all
  let ?x = "update_task (TrimSpace (cb_TaskID input)) (SetCompleted (t_now env) result) (g\<lparr>gn_graph := graph\<rparr>)"
  have "gn_locks ?x = gn_locks g" by simp
  moreover have "gn_locks g' = gn_locks (releaseProjectLock env pid (TrimSpace (cb_TaskID input)) ?x)"
    using g' by (simp add: on_completed_def Let_def)
  moreover have "\<forall>x \<in> set (gn_worker g'). TrimSpace (msg_TaskID x) \<noteq> TrimSpace (cb_TaskID input)"
    using g' by (simp add: on_completed_def Let_def clearTaskStreamEntries_def)
  ultimately show ?thesis by blast
qed

lemma announced_row:
  assumes "find_task g (TrimSpace (msg_TaskID m)) = Some t" and "t_works env CTaskWrite"
    and "TrimSpace (msg_TaskID m) \<noteq> ''''" and "TrimSpace (msg_ProjectID m) \<noteq> ''''"
  shows "find_task (announce_enqueued env m g) (TrimSpace (msg_TaskID m))
    = Some (UpdateStatus ''pending'' 8 ''enqueued'' (Fixed ''handed to the worker'') t)"
  using assms by (simp add: announce_enqueued_def updateDispatchState_def Let_def find_update_task)

lemma UpdateStatus_keeps [simp]:
  "task_ProjectID (UpdateStatus s p st lbl t) = task_ProjectID t" "task_AttemptCount (UpdateStatus s p st lbl t) = task_AttemptCount t"
  by (simp_all add: UpdateStatus_def)

lemma SetCompleted_keeps [simp]: "task_ProjectID (SetCompleted now r t) = task_ProjectID t"
  by (simp add: SetCompleted_def)

text \<open>A completed report that is new, current and names the right project is saved while the row is open.\<close>

definition fresh_report :: "tenv \<Rightarrow> TaskCallbackInput \<Rightarrow> AITask \<Rightarrow> 'g gen \<Rightarrow> bool" where
  "fresh_report env input t g \<longleftrightarrow> TrimSpace (cb_TaskID input) = task_ID t \<and> TrimSpace (cb_Status input) = ''completed''
     \<and> (case task_ProjectID t of None \<Rightarrow> False | Some p \<Rightarrow> TrimSpace p \<noteq> '''' \<and> TrimSpace (cb_ProjectID input) \<in> {'''', TrimSpace p})
     \<and> (cb_Attempt input \<le> 0 \<or> task_AttemptCount t \<le> cb_Attempt input)
     \<and> dedupe env (task_ID t) (TrimSpace (cb_EventKey input)) g \<noteq> None \<and> t_works env CTaskRead \<and> t_works env CTaskWrite"

lemma fresh_report_saved:
  assumes "fresh_report env input t g" and "find_task g (task_ID t) = Some t" and "task_ID t \<noteq> ''''"
    and "\<not> isAITaskTerminalStatus (task_Status t)" and "persist t (cb_Result input) (gn_graph g) = Inr (result, graph)"
  shows "fst (HandleTaskCallback env persist input g) = ok \<and> gn_graph (snd (HandleTaskCallback env persist input g)) = graph"
proof -
  obtain g0 where g0: "dedupe env (task_ID t) (TrimSpace (cb_EventKey input)) g = Some g0"
    using assms(1) by (auto simp: fresh_report_def)
  obtain p where p: "task_ProjectID t = Some p" "TrimSpace p \<noteq> ''''" "TrimSpace (cb_ProjectID input) \<in> {'''', TrimSpace p}"
    using assms(1) by (auto simp: fresh_report_def split: option.splits)
  have id: "TrimSpace (cb_TaskID input) = task_ID t" and st: "TrimSpace (cb_Status input) = ''completed''"
    and works: "t_works env CTaskRead" "t_works env CTaskWrite" using assms(1) by (simp_all add: fresh_report_def)
  have "find_task g0 (task_ID t) = Some t" and g0g: "gn_graph g0 = gn_graph g" using dedupe_same [OF g0] assms(2) by (simp_all add: find_task_def)
  then have tgt: "callback_target env input g0 = Inr (t, TrimSpace p, ''completed'')"
    using p id st works by (auto simp: callback_target_def Let_def)
  have current: "\<not> outdated t ''completed'' q (effective_attempt (cb_Attempt input) t)" for q
    using assms(1) by (auto simp: fresh_report_def outdated_def effective_attempt_def Let_def)
  have "HandleTaskCallback env persist input g = on_completed env persist input t (TrimSpace p) g0"
    using assms(3,4) g0 tgt id current by (simp add: HandleTaskCallback_def Let_def)
  then show ?thesis using assms(5) g0g works by (simp add: on_completed_def Let_def)
qed

end
