(* ===== verification/TaskTheorems.thy ===== *)
theory TaskTheorems
  imports TaskEffects
begin

text \<open>
  The properties of generation tasks, with a task of one project as the example: its row, the events
  its worker reports and a store whose content is a number that a saved result replaces.
\<close>

definition ex_tenv :: "int \<Rightarrow> tenv" where
  "ex_tenv now = \<lparr> t_now = now, t_lockTTL = 1200, t_dedupeTTL = 86400, t_retryDelay = 2, t_readCount = 10,
     t_works = (\<lambda>_. True) \<rparr>"

definition ex_task :: AITask where
  "ex_task = \<lparr> task_ID = ''t'', task_Type = ''generateFaultTree'', task_Status = ''pending'', task_Progress = 4,
     task_Stage = '''', task_StageLabel = Text '''', task_Result = None, task_ErrorMessage = None,
     task_AttemptCount = 0, task_MaxAttempts = 3, task_WorkerID = None, task_StartedAt = None,
     task_CompletedAt = None, task_IdempotencyKey = None, task_Model = '''', task_CreatedBy = ''u'',
     task_ProjectID = Some ''p'' \<rparr>"

definition ex_gen :: "nat gen" where
  "ex_gen = \<lparr> gn_tasks = [ex_task], gn_status = Map.empty, gn_locks = Map.empty, gn_dedupe = Map.empty,
     gn_cache = Map.empty, gn_worker = [], gn_producer = [], gn_delayed = [], gn_events = [], gn_graph = 0 \<rparr>"

definition ex_event :: "string \<Rightarrow> int \<Rightarrow> string \<Rightarrow> TaskCallbackInput" where
  "ex_event status progress key = \<lparr> cb_TaskID = ''t'', cb_ProjectID = ''p'', cb_EventKey = key,
     cb_Status = status, cb_Progress = progress, cb_Stage = '''', cb_StageLabel = '''', cb_ErrorMessage = '''',
     cb_Result = [], cb_WorkerID = ''w'', cb_Attempt = 1 \<rparr>"

definition ex_message :: AITaskQueueMessage where
  "ex_message = \<lparr> msg_TaskID = ''t'', msg_ProjectID = ''p'', msg_TaskType = ''generateFaultTree'', msg_UserID = ''u'',
     msg_TopEvent = '''', msg_DocIDs = [], msg_UserRequirements = '''', msg_FileName = '''' \<rparr>"

definition ex_persist :: "AITask \<Rightarrow> payload \<Rightarrow> nat \<Rightarrow> string + payload \<times> nat" where
  "ex_persist t raw n = Inr (raw, n + 1)"

definition ex_refuse :: "AITask \<Rightarrow> payload \<Rightarrow> nat \<Rightarrow> string + payload \<times> nat" where
  "ex_refuse t raw n = Inl ''conflict''"

definition report :: "string \<Rightarrow> int \<Rightarrow> string \<Rightarrow> nat gen \<Rightarrow> nat gen" where
  "report status progress key g = snd (HandleTaskCallback (ex_tenv 5) ex_persist (ex_event status progress key) g)"

lemma ex_trims: "TrimSpace ''t'' = ''t''" "TrimSpace ''p'' = ''p''" "TrimSpace ''k'' = ''k''"
  "TrimSpace ''generateFaultTree'' = ''generateFaultTree''"
  by code_simp+

text \<open>C10: a callback leaves every task as it is or moves it forward: a finished task stays finished (a
  failed one may be declared dead), attempts never go back, and within an attempt neither does the
  progress of a running task, which stays at most 100.\<close>

theorem callbacks_move_forward:
  assumes "HandleTaskCallback env persist input g = (r, g')" and "find_task g i = Some t" and "0 \<le> task_AttemptCount t"
  shows "\<exists>t'. find_task g' i = Some t' \<and> (t' = t \<or> advances t t')"
  using assms by (rule callback_advances)

theorem callbacks_move_forward_witness:
  "\<exists>t'. find_task (report ''processing'' 30 ''k'' ex_gen) ''t'' = Some t' \<and> (t' = ex_task \<or> advances ex_task t')"
proof -
  let ?run = "HandleTaskCallback (ex_tenv 5) ex_persist (ex_event ''processing'' 30 ''k'') ex_gen"
  have "?run = (fst ?run, report ''processing'' 30 ''k'' ex_gen)" by (simp add: report_def)
  moreover have "find_task ex_gen ''t'' = Some ex_task" by (simp add: find_task_def ex_gen_def ex_task_def)
  moreover have "0 \<le> task_AttemptCount ex_task" by (simp add: ex_task_def)
  ultimately show ?thesis by (rule callbacks_move_forward)
qed

text \<open>a result is saved once: a callback for a task that is completed or dead changes neither a row of
  the task table nor the stored graph.\<close>

theorem finished_task_final:
  assumes "HandleTaskCallback env persist input g = (r, g')" and "find_task g (TrimSpace (cb_TaskID input)) = Some t"
    and "task_Status t \<in> {''completed'', ''dead''}"
  shows "gn_tasks g' = gn_tasks g \<and> gn_graph g' = gn_graph g"
  using assms by (rule callback_finished)

definition ex_done :: "nat gen" where
  "ex_done = report ''completed'' 100 ''k'' ex_gen"

lemma ex_done_run: "map task_Status (gn_tasks ex_done) = [''completed''] \<and> gn_graph ex_done = 1"
  by code_simp

theorem finished_task_final_witness: "gn_graph (report ''completed'' 100 ''k2'' ex_done) = 1"
proof -
  let ?run = "HandleTaskCallback (ex_tenv 5) ex_persist (ex_event ''completed'' 100 ''k2'') ex_done"
  have "?run = (fst ?run, report ''completed'' 100 ''k2'' ex_done)" by (simp add: report_def)
  moreover have "TrimSpace (cb_TaskID (ex_event ''completed'' 100 ''k2'')) = ''t''" by (simp add: ex_event_def ex_trims)
  moreover have "map task_ID (gn_tasks ex_done) = [''t'']" by code_simp
  with ex_done_run obtain t where "find_task ex_done ''t'' = Some t" "task_Status t = ''completed''"
    by (cases "gn_tasks ex_done") (auto simp: find_task_def)
  ultimately have "gn_graph (report ''completed'' 100 ''k2'' ex_done) = gn_graph ex_done"
    using finished_task_final [of "ex_tenv 5" ex_persist "ex_event ''completed'' 100 ''k2''" ex_done] by simp
  with ex_done_run show ?thesis by simp
qed







text \<open>The key of an event is recorded before the event is handled: when handling fails, the worker's
  second try with the same key is answered as a success and changes nothing.\<close>

theorem failed_event_not_retried:
  assumes "HandleTaskCallback env persist input g = (Inl e, g1)" and "TrimSpace (cb_TaskID input) \<noteq> ''''"
    and "TrimSpace (cb_EventKey input) \<noteq> ''''" and "t_works env CDedupe" and "0 < t_dedupeTTL env"
  shows "HandleTaskCallback env persist2 input g1 = (ok, g1)"
proof (cases "dedupe env (TrimSpace (cb_TaskID input)) (TrimSpace (cb_EventKey input)) g")
  case None
  with assms(1,2) show ?thesis by (simp add: HandleTaskCallback_def)
next
  case (Some g0)
  from dedupe_again [OF this assms(3-5) callback_dedupe [OF assms(1,2) this]] assms(2)
  show ?thesis by (simp add: HandleTaskCallback_def)
qed

definition ex_lost :: "(task_error + unit) \<times> nat gen" where
  "ex_lost = HandleTaskCallback (ex_tenv 5) ex_refuse (ex_event ''completed'' 100 ''k'') ex_gen"

theorem failed_event_not_retried_witness:
  "fst ex_lost = Inl (ErrTaskPersist ''conflict'') \<and>
   HandleTaskCallback (ex_tenv 5) ex_persist (ex_event ''completed'' 100 ''k'') (snd ex_lost) = (ok, snd ex_lost)"
proof -
  have e: "fst ex_lost = Inl (ErrTaskPersist ''conflict'')" by code_simp
  then have "HandleTaskCallback (ex_tenv 5) ex_refuse (ex_event ''completed'' 100 ''k'') ex_gen
      = (Inl (ErrTaskPersist ''conflict''), snd ex_lost)"
    by (simp add: ex_lost_def prod_eq_iff)
  from failed_event_not_retried [OF this, of ex_persist] e show ?thesis
    by (simp add: ex_event_def ex_tenv_def ex_trims)
qed

text \<open>While another task holds the lock of a project, a message for the project goes back to the delayed
  set with the time of its next try; the worker queue and the locks stay as they are.\<close>

theorem waiting_task_requeued:
  assumes "live_lock env (TrimSpace (msg_ProjectID m)) g = Some owner" and "TrimSpace (msg_TaskType m) = ''generateFaultTree''"
    and "TrimSpace (msg_TaskID m) \<noteq> ''''" and "TrimSpace (msg_ProjectID m) \<noteq> ''''"
    and "0 < t_retryDelay env" and "t_works env CLockSet" and "t_works env CDelay"
  shows "gn_worker (handleProducerMessage env m g) = gn_worker g \<and> gn_locks (handleProducerMessage env m g) = gn_locks g
    \<and> (m, t_now env + t_retryDelay env) \<in> set (gn_delayed (handleProducerMessage env m g))"
  using assms by (rule dispatch_waits)

definition ex_locked :: "nat gen" where
  "ex_locked = ex_gen\<lparr>gn_locks := [''p'' \<mapsto> (''other'', 100)]\<rparr>"

theorem waiting_task_requeued_witness:
  "(ex_message, 7) \<in> set (gn_delayed (handleProducerMessage (ex_tenv 5) ex_message ex_locked))"
  using waiting_task_requeued [of "ex_tenv 5" ex_message ex_locked "''other''"]
  by (simp add: ex_tenv_def ex_message_def ex_locked_def live_lock_def ex_trims)

text \<open>The row a first request leaves when its documents cannot be used.\<close>

definition request_key :: "(string \<Rightarrow> string) \<Rightarrow> string \<Rightarrow> GenerateFaultTreeInput \<Rightarrow> string" where
  "request_key sha pid input = buildIdempotencyKey sha ''generateFaultTree'' (gi_UserID input) pid (gi_TopEvent input)
     (normalizeDocIDs (gi_DocIDs input)) defaultFaultTreeGenerateConfig"

lemma failed_row:
  assumes "GenerateFaultTree env sha i (Inr pid) docs input g = (Inl (ErrTaskPersist msg), g1)"
    and "FindByIdempotencyKey g (request_key sha pid input) = None" and "\<forall>t\<in>set (gn_tasks g). task_ID t \<noteq> i"
    and "TrimSpace (request_key sha pid input) \<noteq> ''''" and "\<forall>c. t_works env c"
  obtains t where "FindByIdempotencyKey g1 (request_key sha pid input) = Some t" and "task_ID t = i"
    and "task_Status t = ''failed''"
proof -
  let ?key = "request_key sha pid input" and ?g0 = "setProjectGenerationStatus env pid ''pending_generating'' g"
  have none: "FindByIdempotencyKey ?g0 ?key = None" using assms(2) by simp
  then obtain t g2 where new: "createTask env i ''generateFaultTree'' ''default'' (gi_UserID input) pid ?key ?g0 = (Inr (t, True), g2)"
    and t: "task_ID t = i" "task_IdempotencyKey t = Some (TrimSpace ?key)" and g2: "gn_tasks g2 = gn_tasks g @ [t]"
    using assms(4,5) by (simp add: createTask_def Let_def)
  obtain d where "docs (normalizeDocIDs (gi_DocIDs input)) = Inl d"
    using assms(1,5) new
    by (auto simp: GenerateFaultTree_def request_key_def [symmetric] enqueueFaultTreeProducerTask_def Let_def split: sum.splits prod.splits)
  then have "gn_tasks g1 = gn_tasks (fail_generation env i pid (Text d) g2)"
    using assms(1,5) new by (auto simp: GenerateFaultTree_def request_key_def [symmetric] Let_def)
  moreover have "map (\<lambda>x. if task_ID x = i then SetFailed (t_now env) (Text d) x else x) (gn_tasks g) = gn_tasks g"
    using assms(3) by (intro map_idI) auto
  ultimately have rows: "gn_tasks g1 = gn_tasks g @ [SetFailed (t_now env) (Text d) t]"
    using assms(5) g2 t(1) by (simp add: fail_generation_def update_task_def)
  have key: "task_IdempotencyKey (SetFailed (t_now env) (Text d) t) = Some (TrimSpace ?key)"
    using t(2) by (simp add: SetFailed_def)
  have "List.find P (xs @ [y]) = Some y" if "List.find P xs = None" "P y" for P and xs :: "AITask list" and y
    using that by (induction xs) (auto split: if_splits)
  then have "FindByIdempotencyKey g1 ?key = Some (SetFailed (t_now env) (Text d) t)"
    using assms(2,4) key rows by (simp add: FindByIdempotencyKey_def)
  then show thesis using that t(1) by simp
qed

text \<open>a generation that failed cannot be asked for again: the same user's second request for the same
  top event, documents and project gets the failed task back, whatever its requirements say now, and
  nothing is queued.\<close>

theorem failed_generation_sticks:
  assumes "GenerateFaultTree env sha i (Inr pid) docs input g = (Inl (ErrTaskPersist msg), g1)"
    and "FindByIdempotencyKey g (request_key sha pid input) = None" and "\<forall>t\<in>set (gn_tasks g). task_ID t \<noteq> i"
    and "TrimSpace (request_key sha pid input) \<noteq> ''''" and "\<forall>c. t_works env c"
  shows "let (out, g2) = GenerateFaultTree env sha j (Inr pid) docs2 (input\<lparr>gi_UserRequirements := wishes\<rparr>) g1
    in out = Inr \<lparr> go_TaskID = i, go_Status = ''failed'', go_ProjectID = pid, go_EffectiveDocIDs = [] \<rparr>
       \<and> gn_producer g2 = gn_producer g1"
proof -
  let ?g0 = "setProjectGenerationStatus env pid ''pending_generating'' g1"
  obtain t where t: "FindByIdempotencyKey g1 (request_key sha pid input) = Some t" "task_ID t = i" "task_Status t = ''failed''"
    using failed_row [OF assms] .
  then have "FindByIdempotencyKey ?g0 (request_key sha pid input) = Some t" by simp
  then have "\<exists>g2. createTask env j ''generateFaultTree'' ''default'' (gi_UserID input) pid (request_key sha pid input) ?g0
      = (Inr (t, False), g2) \<and> gn_producer g2 = gn_producer g1"
    using assms(5) by (simp add: createTask_def Let_def cacheStatus_def setProjectGenerationStatus_def)
  then obtain g2 where "createTask env j ''generateFaultTree'' ''default'' (gi_UserID input) pid (request_key sha pid input) ?g0
      = (Inr (t, False), g2)" "gn_producer g2 = gn_producer g1" by blast
  then show ?thesis
    using t(2,3) assms(5) by (simp add: GenerateFaultTree_def Let_def request_key_def setProjectGenerationStatus_def)
qed

definition ex_request :: GenerateFaultTreeInput where
  "ex_request = \<lparr> gi_DocIDs = [''d''], gi_TopEvent = ''T'', gi_UserID = ''u'', gi_UserRequirements = '''' \<rparr>"

definition ex_failed :: "(task_error + GenerateFaultTreeOutput) \<times> nat gen" where
  "ex_failed = GenerateFaultTree (ex_tenv 5) (\<lambda>s. s) ''n'' (Inr ''p'') (\<lambda>_. Inl ''no documents'') ex_request ex_gen"

theorem failed_generation_sticks_witness:
  "fst (GenerateFaultTree (ex_tenv 5) (\<lambda>s. s) ''m'' (Inr ''p'') (\<lambda>ids. Inr (ids, ''f''))
      (ex_request\<lparr>gi_UserRequirements := ''more detail''\<rparr>) (snd ex_failed))
    = Inr \<lparr> go_TaskID = ''n'', go_Status = ''failed'', go_ProjectID = ''p'', go_EffectiveDocIDs = [] \<rparr>"
proof -
  have "fst ex_failed = Inl (ErrTaskPersist ''no documents'')" by code_simp
  then have run: "GenerateFaultTree (ex_tenv 5) (\<lambda>s. s) ''n'' (Inr ''p'') (\<lambda>_. Inl ''no documents'') ex_request ex_gen
      = (Inl (ErrTaskPersist ''no documents''), snd ex_failed)"
    by (simp add: ex_failed_def prod_eq_iff)
  have "TrimSpace (request_key (\<lambda>s. s) ''p'' ex_request) \<noteq> ''''" by code_simp
  then show ?thesis
    using failed_generation_sticks [OF run, of "''m''" "\<lambda>ids. Inr (ids, ''f'')" "''more detail''"]
    by (simp add: FindByIdempotencyKey_def ex_gen_def ex_task_def ex_tenv_def split: prod.splits)
qed

end
