(* ===== verification/Versions.thy ===== *)
theory Versions
  imports Writers
begin

text \<open>
  Versions of a project's graph (\<open>internal/service/version.go\<close>, \<open>internal/repository/version.go\<close>,
  \<open>internal/model/version.go\<close>): create with the limit of thirty, detail, delete and rollback. The two
  graph types use different JSON keys (\<open>nodes\<close>, \<open>edges\<close> and \<open>rfNodes\<close>, \<open>rfEdges\<close>), and Go's decoder
  ignores unknown keys, so a snapshot of one type decodes to the empty graph of the other; \<open>null\<close>
  decodes to the empty graph of either. A snapshot that a client sent is represented by what the two
  decoders return on it. The list cache is not modelled.
\<close>

subsection \<open>Rows and queries\<close>

type_synonym kg_graph = "KnowledgeGraphNode list \<times> KnowledgeGraphEdge list"

datatype snapshot =
    NullSnap
  | TreeSnap ft_graph
  | KGSnap kg_graph
  | ClientSnap "graph_error + ft_graph" "graph_error + kg_graph"

definition json_node :: "FaultTreeNode \<Rightarrow> FaultTreeNode" where
  \<comment> \<open>\<open>omitempty\<close> drops an empty list of documents\<close>
  "json_node n = (if node_Documents n = Some [] then n\<lparr>node_Documents := None\<rparr> else n)"

fun decode_tree :: "snapshot \<Rightarrow> graph_error + ft_graph" where
  "decode_tree NullSnap = Inr ([], [])"
| "decode_tree (TreeSnap g) = Inr (map json_node (fst g), snd g)"
| "decode_tree (KGSnap _) = Inr ([], [])"
| "decode_tree (ClientSnap t _) = t"

fun decode_kg :: "snapshot \<Rightarrow> graph_error + kg_graph" where
  "decode_kg NullSnap = Inr ([], [])"
| "decode_kg (TreeSnap _) = Inr ([], [])"
| "decode_kg (KGSnap g) = Inr g"
| "decode_kg (ClientSnap _ k) = k"

datatype version_label = Given string | Stamped string | BeforeRollback string

record VersionSnapshot =
  vs_ID :: string
  vs_ProjectID :: string
  vs_ProjectType :: string
  vs_Label :: version_label
  vs_CreatedAt :: nat
  vs_CreatedBy :: string
  vs_Snapshot :: snapshot

record version_store =
  vst_db :: db
  vst_versions :: "VersionSnapshot list"

datatype version_query = QFindVersion | QCountVersions | QOldestVersion | QDeleteVersion | QLatest

record version_env =
  ve_now :: nat
  ve_stamp :: string
  ve_draws :: draws
  ve_fails :: "version_query \<Rightarrow> bool"
  ve_accepts :: "version_store \<Rightarrow> bool"

datatype version_error = ErrVersionNotFound | ErrVersionProject | ErrVersionDB | VersionSave service_error

definition FindVersion :: "version_store \<Rightarrow> string \<Rightarrow> VersionSnapshot option" where
  "FindVersion st i = List.find (\<lambda>v. vs_ID v = i) (vst_versions st)"

definition versions_of :: "version_store \<Rightarrow> string \<Rightarrow> VersionSnapshot list" where
  "versions_of st pid = filter (\<lambda>v. vs_ProjectID v = pid) (vst_versions st)"

definition CountByProject :: "version_store \<Rightarrow> string \<Rightarrow> nat" where
  "CountByProject st pid = length (versions_of st pid)"

definition older :: "VersionSnapshot \<Rightarrow> VersionSnapshot \<Rightarrow> bool" where
  \<comment> \<open>\<open>Order(created_at ASC)\<close>, to which \<open>First\<close> adds the primary key\<close>
  "older v w \<longleftrightarrow> vs_CreatedAt v < vs_CreatedAt w \<or> vs_CreatedAt v = vs_CreatedAt w \<and> vs_ID v < vs_ID w"

fun oldest_of :: "VersionSnapshot list \<Rightarrow> VersionSnapshot option" where
  "oldest_of [] = None"
| "oldest_of (v # vs) = (case oldest_of vs of None \<Rightarrow> Some v | Some w \<Rightarrow> Some (if older w v then w else v))"

definition GetOldestByProject :: "version_store \<Rightarrow> string \<Rightarrow> VersionSnapshot option" where
  "GetOldestByProject st pid = oldest_of (versions_of st pid)"

definition DeleteVersionRow :: "version_store \<Rightarrow> string \<Rightarrow> version_store" where
  "DeleteVersionRow st i = st\<lparr>vst_versions := filter (\<lambda>v. vs_ID v \<noteq> i) (vst_versions st)\<rparr>"

definition UpdateLatestVersion :: "version_store \<Rightarrow> string \<Rightarrow> string option \<Rightarrow> version_store" where
  "UpdateLatestVersion st pid vid = st\<lparr>vst_db := (vst_db st)\<lparr>db_projects := (db_projects (vst_db st))(pid :=
     map_option (\<lambda>p. p\<lparr>proj_LatestVersionID := vid\<rparr>) (db_projects (vst_db st) pid))\<rparr>\<rparr>"

subsection \<open>Creating and deleting\<close>

definition new_version :: "version_env \<Rightarrow> project_row \<Rightarrow> string \<Rightarrow> version_label \<Rightarrow> string \<Rightarrow> snapshot \<Rightarrow> VersionSnapshot" where
  "new_version env project pid label userID snap =
     \<lparr> vs_ID = NewID (ve_draws env) 0 ''ver'', vs_ProjectID = pid, vs_ProjectType = proj_Type project,
       vs_Label = (if label = Given '''' then Stamped (ve_stamp env) else label),
       vs_CreatedAt = ve_now env, vs_CreatedBy = userID, vs_Snapshot = snap \<rparr>"

definition prune :: "version_env \<Rightarrow> string \<Rightarrow> version_store \<Rightarrow> version_store" where
  \<comment> \<open>a count that fails is 0; a query for the oldest that fails yields a row without ID\<close>
  "prune env pid st =
     (if (if ve_fails env QCountVersions then 0 else CountByProject st pid) > 30
      then (case (if ve_fails env QOldestVersion then None else GetOldestByProject st pid) of
              Some v \<Rightarrow> if ve_fails env QDeleteVersion then st else DeleteVersionRow st (vs_ID v)
            | None \<Rightarrow> st)
      else st)"

definition VersionCreate ::
    "version_env \<Rightarrow> project_row option \<Rightarrow> string \<Rightarrow> version_label \<Rightarrow> string \<Rightarrow> snapshot \<Rightarrow> version_store
      \<Rightarrow> (version_error + VersionSnapshot) \<times> version_store" where
  \<comment> \<open>\<open>found\<close> is the project row, \<open>None\<close> also when the query failed\<close>
  "VersionCreate env found pid label userID snap st =
     (case found of
        None \<Rightarrow> (Inl ErrVersionProject, st)
      | Some project \<Rightarrow>
          let v = new_version env project pid label userID snap;
              st1 = st\<lparr>vst_versions := vst_versions st @ [v]\<rparr>;
              st2 = prune env pid st1
          in if \<not> ve_accepts env st1 then (Inl ErrVersionDB, st)
             else (Inr v, if ve_fails env QLatest then st2 else UpdateLatestVersion st2 pid (Some (vs_ID v))))"

definition VersionGetDetail :: "version_env \<Rightarrow> string \<Rightarrow> string \<Rightarrow> version_store \<Rightarrow> version_error + VersionSnapshot" where
  "VersionGetDetail env pid vid st =
     (if ve_fails env QFindVersion then Inl ErrVersionDB
      else case FindVersion st vid of
        None \<Rightarrow> Inl ErrVersionNotFound
      | Some v \<Rightarrow> if vs_ProjectID v \<noteq> pid then Inl ErrVersionNotFound else Inr v)"

definition VersionDelete :: "version_env \<Rightarrow> string \<Rightarrow> string \<Rightarrow> version_store \<Rightarrow> (version_error + unit) \<times> version_store" where
  "VersionDelete env pid vid st =
     (case VersionGetDetail env pid vid st of
        Inl e \<Rightarrow> (Inl e, st)
      | Inr _ \<Rightarrow> if ve_fails env QDeleteVersion then (Inl ErrVersionDB, st) else (ok, DeleteVersionRow st vid))"

subsection \<open>Rollback\<close>

definition current_snapshot :: "project_row \<Rightarrow> service_error + ft_graph \<Rightarrow> service_error + kg_graph \<Rightarrow> snapshot" where
  \<comment> \<open>what \<open>GetGraph\<close> answered; its error is dropped and the nil pointer is marshalled\<close>
  "current_snapshot project tree kg =
     (if proj_Type project = ''ft''
      then (case tree of Inl _ \<Rightarrow> NullSnap | Inr g \<Rightarrow> TreeSnap g)
      else (case kg of Inl _ \<Rightarrow> NullSnap | Inr g \<Rightarrow> KGSnap g))"

definition save_snapshot ::
    "(string \<Rightarrow> string) \<Rightarrow> (db \<Rightarrow> bool) \<Rightarrow> string \<Rightarrow> project_row \<Rightarrow> snapshot \<Rightarrow> db \<Rightarrow> (version_error + unit) \<times> db" where
  "save_snapshot sha accepts pid project snap db =
     (if proj_Type project = ''ft''
      then (case decode_tree snap of
              Inl e \<Rightarrow> (Inl (VersionSave (SvcErr e)), db)
            | Inr (ns, es) \<Rightarrow> (case SaveGraph accepts pid ns es (proj_GraphRevision project) db of
                (Inl e, db') \<Rightarrow> (Inl (VersionSave e), db') | (Inr _, db') \<Rightarrow> (ok, db')))
      else (case decode_kg snap of
              Inl e \<Rightarrow> (Inl (VersionSave (SvcErr e)), db)
            | Inr (ns, es) \<Rightarrow> (case SaveKnowledgeGraph sha accepts pid ns es (proj_GraphRevision project) db of
                (Inl e, db') \<Rightarrow> (Inl (VersionSave e), db') | (Inr _, db') \<Rightarrow> (ok, db'))))"

definition VersionRollback ::
    "(string \<Rightarrow> string) \<Rightarrow> (db \<Rightarrow> bool) \<Rightarrow> version_env \<Rightarrow> project_row option \<Rightarrow> project_row option
      \<Rightarrow> service_error + ft_graph \<Rightarrow> service_error + kg_graph \<Rightarrow> string \<Rightarrow> string \<Rightarrow> string \<Rightarrow> bool
      \<Rightarrow> version_store \<Rightarrow> (version_error + unit) \<times> version_store" where
  \<comment> \<open>\<open>found\<close> and \<open>found2\<close>: the project row when the rollback and when its \<open>Create\<close> asked\<close>
  "VersionRollback sha accepts env found found2 tree kg pid vid userID saveCurrent st =
     (case VersionGetDetail env pid vid st of
        Inl e \<Rightarrow> (Inl e, st)
      | Inr v \<Rightarrow> (case found of
          None \<Rightarrow> (Inl ErrVersionProject, st)
        | Some project \<Rightarrow>
            let st1 = (if saveCurrent
                       then snd (VersionCreate env found2 pid (BeforeRollback (ve_stamp env)) userID
                              (current_snapshot project tree kg) st)
                       else st)
            in map_prod id (\<lambda>db'. st1\<lparr>vst_db := db'\<rparr>)
                 (save_snapshot sha accepts pid project (vs_Snapshot v) (vst_db st1))))"

subsection \<open>What is kept\<close>

lemma oldest_of_None [simp]: "oldest_of vs = None \<longleftrightarrow> vs = []"
  by (cases vs) (auto split: option.splits)

lemma older_trans: "older u v \<Longrightarrow> older v w \<Longrightarrow> older u w"
  by (auto simp: older_def)

lemma older_irrefl [simp]: "\<not> older v v"
  by (simp add: older_def)

lemma not_older_trans: "\<not> older u v \<Longrightarrow> \<not> older v w \<Longrightarrow> \<not> older u w"
  by (auto simp: older_def not_less)

lemma oldest_of_Some:
  "oldest_of vs = Some w \<Longrightarrow> w \<in> set vs \<and> (\<forall>x \<in> set vs. \<not> older x w)"
proof (induction vs arbitrary: w)
  case (Cons v vs)
  show ?case
  proof (cases "oldest_of vs")
    case None
    with Cons.prems show ?thesis by simp
  next
    case (Some u)
    with Cons.IH have u: "u \<in> set vs" "\<forall>x \<in> set vs. \<not> older x u" by auto
    have "\<not> older x v" if "\<not> older u v" "x \<in> set vs" for x
      using u(2) that by (auto simp: older_def not_less)
    with Cons.prems Some u show ?thesis by (auto split: if_splits dest: older_trans)
  qed
qed simp

lemma oldest_of_snoc:
  "oldest_of vs = Some v \<Longrightarrow> \<not> older n v \<Longrightarrow> oldest_of (vs @ [n]) = Some v"
proof (induction vs arbitrary: v)
  case (Cons w vs)
  show ?case
  proof (cases "oldest_of vs")
    case (Some x)
    obtain y where y: "oldest_of (vs @ [n]) = Some y" by (cases "oldest_of (vs @ [n])") auto
    have "\<not> older y w" if "\<not> older x w" "\<not> older n w"
      using that oldest_of_Some [OF y] oldest_of_Some [OF Some] not_older_trans [of y x w] by auto
    with Some y Cons show ?thesis by (auto split: if_splits)
  qed (use Cons.prems in simp)
qed simp

lemma versions_of_DeleteVersionRow:
  "versions_of (DeleteVersionRow st i) pid = filter (\<lambda>v. vs_ID v \<noteq> i) (versions_of st pid)"
  by (simp add: versions_of_def DeleteVersionRow_def conj_commute)

lemma versions_of_UpdateLatest [simp]: "vst_versions (UpdateLatestVersion st pid i) = vst_versions st"
  by (simp add: UpdateLatestVersion_def)

lemma versions_frame: "vst_versions st = vst_versions st' \<Longrightarrow> versions_of st = versions_of st'"
  by (simp add: versions_of_def fun_eq_iff)

lemma prune_cases:
  obtains "prune env pid st = st"
  | w where "GetOldestByProject st pid = Some w" and "prune env pid st = DeleteVersionRow st (vs_ID w)"
proof (cases "prune env pid st = st")
  case False
  then show ?thesis using that(2) by (auto simp: prune_def split: option.splits if_splits)
qed (rule that(1))

lemma prune_db [simp]: "vst_db (prune env pid st) = vst_db st"
  by (simp add: prune_def DeleteVersionRow_def split: option.splits)

lemma prune_count:
  assumes "\<forall>q. \<not> ve_fails env q" and "CountByProject st pid \<le> 31"
  shows "CountByProject (prune env pid st) pid \<le> 30"
proof (cases "CountByProject st pid > 30")
  case True
  then have "versions_of st pid \<noteq> []" by (auto simp: CountByProject_def)
  then obtain w where w: "GetOldestByProject st pid = Some w"
    by (cases "GetOldestByProject st pid") (simp_all add: GetOldestByProject_def)
  have "w \<in> set (versions_of st pid)" using oldest_of_Some w by (simp add: GetOldestByProject_def)
  then have "length (filter (\<lambda>v. vs_ID v \<noteq> vs_ID w) (versions_of st pid)) < length (versions_of st pid)"
    by (rule length_filter_less) simp
  with True w assms show ?thesis
    by (simp add: prune_def CountByProject_def versions_of_DeleteVersionRow)
qed (use assms in \<open>simp add: prune_def\<close>)

lemma VersionCreate_ok:
  assumes "VersionCreate env found pid l u snap st = (Inr v, st')"
  obtains p where "found = Some p" and "v = new_version env p pid l u snap"
    and "vst_versions st' = vst_versions (prune env pid (st\<lparr>vst_versions := vst_versions st @ [v]\<rparr>))"
  using assms that unfolding VersionCreate_def Let_def by (auto split: option.splits if_splits)

lemma VersionCreate_db:
  assumes "VersionCreate env found pid l u snap st = (r, st')"
  shows "GetFaultTreeGraph (vst_db st') = GetFaultTreeGraph (vst_db st)"
    and "GetKnowledgeGraphGraph (vst_db st') = GetKnowledgeGraphGraph (vst_db st)"
    and "current_revision q (vst_db st') = current_revision q (vst_db st)"
  using assms
  by (auto simp: VersionCreate_def Let_def UpdateLatestVersion_def GetFaultTreeGraph_def GetKnowledgeGraphGraph_def
      current_revision_def fun_eq_iff split: option.splits if_splits)

subsection \<open>What a rollback stores\<close>

lemma fill_json_stored:
  "fill_defaults n = n \<Longrightarrow> node_ProjectID n = pid \<Longrightarrow> fill_defaults (own_node pid (json_node n)) = n"
proof -
  assume filled: "fill_defaults n = n" and pid: "node_ProjectID n = pid"
  have "node_Documents (fill_defaults n) \<noteq> None" by (simp add: fill_defaults_def split: option.split)
  with filled have docs: "node_Documents n \<noteq> None" by simp
  have "node_Rules (fill_defaults n) \<noteq> ''''" by (simp add: fill_defaults_def)
  with filled have "node_Rules n \<noteq> ''''" by simp
  with docs pid show "fill_defaults (own_node pid (json_node n)) = n"
    by (intro FaultTreeNode.equality) (auto simp: fill_defaults_def own_node_def json_node_def split: option.split)
qed

lemma own_edge_id: "edge_ProjectID e = pid \<Longrightarrow> own_edge pid e = e"
  by (cases e) (simp add: own_edge_def)

lemma Rollback_ok:
  assumes "VersionRollback sha accepts env found found2 tree kg pid vid userID saveCurrent st = (Inr u, st')"
  obtains v p st1 where "FindVersion st vid = Some v" and "vs_ProjectID v = pid" and "found = Some p"
    and "st1 = (if saveCurrent then snd (VersionCreate env found2 pid (BeforeRollback (ve_stamp env)) userID
           (current_snapshot p tree kg) st) else st)"
    and "save_snapshot sha accepts pid p (vs_Snapshot v) (vst_db st1) = (ok, vst_db st')"
    and "vst_versions st' = vst_versions st1"
proof -
  from assms obtain v where v: "VersionGetDetail env pid vid st = Inr v"
    by (cases "VersionGetDetail env pid vid st") (auto simp: VersionRollback_def)
  with assms obtain p where p: "found = Some p"
    by (cases found) (auto simp: VersionRollback_def)
  let ?st1 = "if saveCurrent then snd (VersionCreate env found2 pid (BeforeRollback (ve_stamp env)) userID
           (current_snapshot p tree kg) st) else st"
  from assms v p have "map_prod id (\<lambda>db'. ?st1\<lparr>vst_db := db'\<rparr>)
      (save_snapshot sha accepts pid p (vs_Snapshot v) (vst_db ?st1)) = (Inr u, st')"
    by (simp add: VersionRollback_def Let_def)
  then obtain db' where "save_snapshot sha accepts pid p (vs_Snapshot v) (vst_db ?st1) = (Inr u, db')"
    and "st' = ?st1\<lparr>vst_db := db'\<rparr>"
    by (cases "save_snapshot sha accepts pid p (vs_Snapshot v) (vst_db ?st1)") auto
  moreover from v have "FindVersion st vid = Some v" and "vs_ProjectID v = pid"
    by (auto simp: VersionGetDetail_def split: if_splits option.splits)
  ultimately show thesis using that [of v p ?st1] p by simp
qed

lemma save_snapshot_tree:
  assumes "save_snapshot sha accepts pid p snap db = (ok, db')" and "proj_Type p = ''ft''"
  obtains ns es res where "decode_tree snap = Inr (ns, es)"
    and "SaveGraph accepts pid ns es (proj_GraphRevision p) db = (Inr res, db')"
  using assms that by (auto simp: save_snapshot_def split: sum.splits prod.splits)

end
