(* ===== verification/GraphTheorems.thy ===== *)
theory GraphTheorems
  imports Fixtures Versions
begin

text \<open>
  What the knowledge-graph service and the versions of a project promise: which identifiers and types
  a save stores, that saving what was loaded changes nothing, how many versions are kept, and what a
  rollback restores and loses.
\<close>

subsection \<open>Knowledge graphs\<close>

text \<open>A sum for the examples, and a graph with a long identifier, an unnamed node and an edge between
  them.\<close>

definition ex_sha :: "string \<Rightarrow> string" where
  "ex_sha v = replicate 40 (CHR ''0'')"

lemma ex_sha_hex: "hex40 ex_sha"
  by (simp add: hex40_def ex_sha_def list_all_iff plain_char_def less_eq_char_def)

definition ex_knode :: "string \<Rightarrow> KnowledgeGraphNode" where
  "ex_knode i = \<lparr> kn_ID = i, kn_ProjectID = '''', kn_Type = ''componentNode'', kn_PositionX = 0, kn_PositionY = 0,
     kn_Label = ''L'', kn_EntityType = ''other'', kn_Description = None, kn_SourceDoc = None, kn_StyleJson = '''',
     kn_DataExtJson = '''' \<rparr>"

definition ex_kedge :: "string \<Rightarrow> string \<Rightarrow> KnowledgeGraphEdge" where
  "ex_kedge a b = \<lparr> ke_ID = '''', ke_ProjectID = '''', ke_SourceNodeID = a, ke_TargetNodeID = b, ke_Label = None,
     ke_Type = '''', ke_Animated = False, ke_StyleJson = '''', ke_LabelStyleJson = '''', ke_LabelBgStyleJson = '''' \<rparr>"

definition ex_long :: string where "ex_long = replicate 33 (CHR ''x'')"

definition ex_knodes :: "KnowledgeGraphNode list" where "ex_knodes = [ex_knode ex_long, ex_knode '''']"
definition ex_kedges :: "KnowledgeGraphEdge list" where "ex_kedges = [ex_kedge ex_long ''node_2'']"

definition ex_kg_saved :: "(service_error + SaveGraphResult) \<times> db" where
  "ex_kg_saved = SaveKnowledgeGraph ex_sha (\<lambda>_. True) ''p'' ex_knodes ex_kedges 7 ex_db1"

lemma ex_kg_run:
  obtains res where "SaveKnowledgeGraph ex_sha (\<lambda>_. True) ''p'' ex_knodes ex_kedges 7 ex_db1 = (Inr res, snd ex_kg_saved)"
proof -
  have "is_ok (fst ex_kg_saved)" by code_simp
  then show thesis using that unfolding ex_kg_saved_def is_ok_iff by (metis prod.collapse)
qed

definition kg_column_ok :: "KnowledgeGraphNode list \<Rightarrow> KnowledgeGraphEdge list \<Rightarrow> bool" where
  \<comment> \<open>an identifier is not empty and fits its column, and the types are known\<close>
  "kg_column_ok ns es \<longleftrightarrow>
     (\<forall>n\<in>set ns. 0 < length (kn_ID n) \<and> length (kn_ID n) \<le> 32
        \<and> kn_Type n \<in> {''entityNode'', ''eventNode'', ''causeNode''}
        \<and> kn_EntityType n \<in> {''component'', ''event'', ''cause''})
     \<and> (\<forall>e\<in>set es. (\<forall>i \<in> {ke_ID e, ke_SourceNodeID e, ke_TargetNodeID e}. 0 < length i \<and> length i \<le> 32))"

lemma kg_id_bounds:
  assumes "hex40 sha" and "p = ''n'' \<or> p = ''e''"
  shows "0 < length (normalizeKGBoundedID sha raw p) \<and> length (normalizeKGBoundedID sha raw p) \<le> 32"
  using assms bounded_id_length [of sha p 32 raw] bounded_id_nonempty [of p sha 32 raw]
  by (auto simp: normalizeKGBoundedID_def)

text \<open>whatever a client sends, a successful save of a knowledge graph stores only identifiers of one to
  32 bytes, the width of the columns, and only the known node and entity types.\<close>

theorem kg_save_fits_columns:
  assumes "hex40 sha" and "SaveKnowledgeGraph sha accepts pid ns es r db = (Inr res, db')"
  shows "kg_column_ok (fst (GetKnowledgeGraphGraph db' pid)) (snd (GetKnowledgeGraphGraph db' pid))"
proof -
  obtain ns' es' where norm: "normalizeKnowledgeGraphIDs sha (normalizeKnowledgeGraphNodes ns) es = (ns', es')"
    by fastforce
  have "kg_normal sha (fst (GetKnowledgeGraphGraph db' pid)) (snd (GetKnowledgeGraphGraph db' pid))"
    using kg_normal_stored [OF normalised_normal [OF norm], of pid] SaveKG_ok(2) [OF assms(2) norm] by simp
  with kg_id_bounds [OF assms(1)] show ?thesis by (fastforce simp: kg_normal_def kg_column_ok_def)
qed

theorem kg_save_fits_columns_witness:
  "kg_column_ok (fst (GetKnowledgeGraphGraph (snd ex_kg_saved) ''p'')) (snd (GetKnowledgeGraphGraph (snd ex_kg_saved) ''p''))"
proof -
  obtain res where "SaveKnowledgeGraph ex_sha (\<lambda>_. True) ''p'' ex_knodes ex_kedges 7 ex_db1 = (Inr res, snd ex_kg_saved)"
    by (rule ex_kg_run)
  from kg_save_fits_columns [OF ex_sha_hex this] show ?thesis .
qed

text \<open>saving a knowledge graph as it was loaded stores the same nodes and edges again: the
  normalisation of types and identifiers and the defaults of the columns are idempotent.\<close>

theorem kg_load_save_roundtrip:
  assumes "hex40 sha" and "SaveKnowledgeGraph sha accepts pid ns es r db = (Inr res, db1)"
    and "GetKnowledgeGraphGraph db1 pid = (ns1, es1)"
    and "SaveKnowledgeGraph sha accepts2 pid ns1 es1 (r + 1) db1 = (Inr res2, db2)"
  shows "GetKnowledgeGraphGraph db2 pid = (ns1, es1)"
proof -
  obtain ns' es' where norm: "normalizeKnowledgeGraphIDs sha (normalizeKnowledgeGraphNodes ns) es = (ns', es')"
    by fastforce
  have 1: "ns1 = map (fill_knode \<circ> own_knode pid) ns'" "es1 = map (fill_kedge \<circ> own_kedge pid) es'"
    using SaveKG_ok(2) [OF assms(2) norm] assms(3) by auto
  then have "kg_normal sha ns1 es1" using kg_normal_stored [OF normalised_normal [OF norm]] by simp
  from SaveKG_ok(2) [OF assms(4) normal_fixpoint [OF assms(1) this]] show ?thesis by (simp add: 1 comp_def)
qed

theorem kg_load_save_roundtrip_witness:
  "let (ns1, es1) = GetKnowledgeGraphGraph (snd ex_kg_saved) ''p'' in
     GetKnowledgeGraphGraph (snd (SaveKnowledgeGraph ex_sha (\<lambda>_. True) ''p'' ns1 es1 8 (snd ex_kg_saved))) ''p'' = (ns1, es1)"
proof -
  obtain ns1 es1 where g: "GetKnowledgeGraphGraph (snd ex_kg_saved) ''p'' = (ns1, es1)" by fastforce
  obtain res where 1: "SaveKnowledgeGraph ex_sha (\<lambda>_. True) ''p'' ex_knodes ex_kedges 7 ex_db1 = (Inr res, snd ex_kg_saved)"
    by (rule ex_kg_run)
  obtain p where "db_projects (snd ex_kg_saved) ''p'' = Some p" "proj_GraphRevision p = 7 + 1"
    using SaveKG_ok(3) [OF 1 prod.collapse [symmetric]] by auto
  then obtain res2 where "SaveKnowledgeGraph ex_sha (\<lambda>_. True) ''p'' ns1 es1 (7 + 1) (snd ex_kg_saved)
      = (Inr res2, snd (SaveKnowledgeGraph ex_sha (\<lambda>_. True) ''p'' ns1 es1 (7 + 1) (snd ex_kg_saved)))"
    by (rule SaveKG_succeeds [OF _ _ TrueI [THEN allI]])
  from kg_load_save_roundtrip [OF ex_sha_hex 1 g this] g show ?thesis by simp
qed

text \<open>The renaming of identifiers keeps edges on their nodes: when every end of an edge is, up to white
  space, the identifier a node has or is given, the editor's validation of the normalised graph reports
  no missing node.\<close>

theorem kg_edges_stay_attached:
  assumes "normalizeKnowledgeGraphIDs sha ns es = (ns', es')"
    and "\<forall>e \<in> set es. \<forall>x \<in> {ke_SourceNodeID e, ke_TargetNodeID e}. \<exists>i < length ns. old_id i (ns ! i) = TrimSpace x"
  shows "\<forall>iss \<in> set (ValidateKnowledgeGraph ns' es'). issue_Code iss = ''EMPTY_LABEL''"
proof -
  have ends: "\<exists>n \<in> set ns'. kn_ID n = y" if e: "e' \<in> set es'" and y: "y = ke_SourceNodeID e' \<or> y = ke_TargetNodeID e'" for e' y
  proof -
    from e assms(1) obtain j where j: "j < length es" "e' = renamed_edge sha (id_map sha ns) j (es ! j)"
      by (auto simp: normalizeKnowledgeGraphIDs_def in_set_enumerate_eq)
    with y obtain x where x: "x \<in> {ke_SourceNodeID (es ! j), ke_TargetNodeID (es ! j)}" and
      yx: "y = normalizeKGBoundedID sha (TrimSpace x) ''n''" by (auto simp: renamed_end_table)
    from nth_mem [OF j(1)] x assms(2) obtain i where i: "i < length ns" "old_id i (ns ! i) = TrimSpace x" by blast
    moreover from assms(1) have ns': "ns' = map (\<lambda>(i, n). n\<lparr>kn_ID := normalizeKGBoundedID sha (old_id i n) ''n''\<rparr>) (enumerate 0 ns)"
      by (simp add: normalizeKnowledgeGraphIDs_def)
    ultimately have "kn_ID (ns' ! i) = y" "i < length ns'" using yx by (simp_all add: nth_enumerate_eq)
    then show ?thesis using nth_mem by blast
  qed
  then show ?thesis by (auto simp: ValidateKnowledgeGraph_def list_ex_iff split: if_splits)
qed

theorem kg_edges_stay_attached_witness:
  "list_all (\<lambda>iss. issue_Code iss = ''EMPTY_LABEL'')
     (case_prod ValidateKnowledgeGraph (normalizeKnowledgeGraphIDs ex_sha ex_knodes ex_kedges))"
proof -
  obtain ns' es' where n: "normalizeKnowledgeGraphIDs ex_sha ex_knodes ex_kedges = (ns', es')" by fastforce
  have "old_id 0 (ex_knodes ! 0) = TrimSpace ex_long \<and> old_id 1 (ex_knodes ! 1) = TrimSpace ''node_2''"
    by code_simp
  then have "\<forall>e \<in> set ex_kedges. \<forall>x \<in> {ke_SourceNodeID e, ke_TargetNodeID e}.
      \<exists>i < length ex_knodes. old_id i (ex_knodes ! i) = TrimSpace x"
    by (auto simp: ex_kedges_def ex_kedge_def ex_knodes_def less_Suc_eq)
  from kg_edges_stay_attached [OF n this] n show ?thesis by (simp add: list_all_iff)
qed

subsection \<open>Versions\<close>

definition ex_venv :: version_env where
  "ex_venv = \<lparr> ve_now = 100, ve_stamp = ''s'', ve_draws = ex_draws, ve_fails = \<lambda>_. False, ve_accepts = \<lambda>_. True \<rparr>"

definition ex_version :: "nat \<Rightarrow> VersionSnapshot" where
  "ex_version k = \<lparr> vs_ID = show_nat k, vs_ProjectID = ''p'', vs_ProjectType = ''ft'', vs_Label = Given ''L'',
     vs_CreatedAt = k, vs_CreatedBy = ''u'', vs_Snapshot = NullSnap \<rparr>"

definition ex_vstore :: "nat \<Rightarrow> version_store" where
  "ex_vstore n = \<lparr> vst_db = ex_db1, vst_versions = map ex_version [0..<n] \<rparr>"

definition ex_project :: project_row where
  "ex_project = set_graph_meta 7 1 0 0 0 (newProject ''p'' ''P'' ''ft'' '''' [] ''u'')"

text \<open>a project that has at most thirty versions has at most thirty after another one is created,
  and what was removed is older than everything that is kept.\<close>

theorem at_most_thirty_versions:
  assumes "VersionCreate env found pid label u snap st = (Inr v, st')" and "\<forall>q. \<not> ve_fails env q"
    and "distinct (map vs_ID (vst_versions st @ [v]))" and "CountByProject st pid \<le> 30"
  shows "CountByProject st' pid \<le> 30 \<and>
    (\<forall>w \<in> set (versions_of st pid). w \<notin> set (versions_of st' pid) \<longrightarrow> (\<forall>x \<in> set (versions_of st' pid). \<not> older x w))"
proof -
  let ?st1 = "st\<lparr>vst_versions := vst_versions st @ [v]\<rparr>"
  obtain p where v: "v = new_version env p pid label u snap"
    and kept: "vst_versions st' = vst_versions (prune env pid ?st1)"
    using assms(1) by (rule VersionCreate_ok)
  have rows: "versions_of st' = versions_of (prune env pid ?st1)" using kept by (rule versions_frame)
  have vs: "versions_of ?st1 pid = versions_of st pid @ [v]" by (simp add: versions_of_def v new_version_def)
  with assms(4) have "CountByProject ?st1 pid \<le> 31" by (simp add: CountByProject_def)
  from prune_count [OF assms(2) this] have "CountByProject st' pid \<le> 30" by (simp add: CountByProject_def rows)
  moreover have "\<not> older x w" if w: "w \<in> set (versions_of st pid)" "w \<notin> set (versions_of st' pid)"
    and x: "x \<in> set (versions_of st' pid)" for w x
  proof (cases rule: prune_cases [of env pid ?st1])
    case 1
    with w vs rows show ?thesis by simp
  next
    case (2 o1)
    from oldest_of_Some 2(1) have o1: "o1 \<in> set (versions_of ?st1 pid)" "\<forall>y \<in> set (versions_of ?st1 pid). \<not> older y o1"
      by (auto simp: GetOldestByProject_def)
    have all: "set (versions_of ?st1 pid) \<subseteq> set (vst_versions st @ [v])" by (auto simp: versions_of_def)
    from w rows 2(2) vs have "vs_ID w = vs_ID o1" "w \<in> set (versions_of ?st1 pid)"
      by (auto simp: versions_of_DeleteVersionRow)
    with o1(1) all assms(3) have "w = o1" by (meson distinct_map inj_onD subsetD)
    moreover from x rows 2(2) have "x \<in> set (versions_of ?st1 pid)"
      by (auto simp: versions_of_DeleteVersionRow)
    ultimately show ?thesis using o1(2) by blast
  qed
  ultimately show ?thesis by blast
qed

lemma ex_version_ids: "map vs_ID (map ex_version [0..<30]) = map show_nat [0..<30]"
  by (simp add: ex_version_def comp_def del: upt_rec_numeral)

theorem at_most_thirty_versions_witness:
  "CountByProject (snd (VersionCreate ex_venv (Some ex_project) ''p'' (Given ''L'') ''u'' NullSnap (ex_vstore 30))) ''p'' \<le> 30"
proof -
  let ?run = "VersionCreate ex_venv (Some ex_project) ''p'' (Given ''L'') ''u'' NullSnap (ex_vstore 30)"
  have "is_ok (fst ?run)" by code_simp
  then obtain v where v: "?run = (Inr v, snd ?run)" by (metis is_ok_iff prod.collapse)
  have "distinct (map vs_ID (vst_versions (ex_vstore 30)) @ [vs_ID (new_version ex_venv ex_project ''p'' (Given ''L'') ''u'' NullSnap)])"
    by code_simp
  moreover from v have "v = new_version ex_venv ex_project ''p'' (Given ''L'') ''u'' NullSnap"
    by (auto elim: VersionCreate_ok)
  ultimately have "distinct (map vs_ID (vst_versions (ex_vstore 30) @ [v]))" by simp
  moreover have "CountByProject (ex_vstore 30) ''p'' \<le> 30" by code_simp
  ultimately show ?thesis using at_most_thirty_versions [OF v] by (simp add: ex_venv_def)
qed

text \<open>C15: a rollback to the version made from a stored fault tree restores that tree exactly, whatever was
  written in between, and leaves the trees of other projects alone.\<close>

theorem rollback_restores_tree:
  assumes "\<forall>n \<in> set (db_nodes (vst_db st)). fill_defaults n = n"
    and "VersionCreate env1 found1 pid label u1 (current_snapshot p1 (Inr (GetFaultTreeGraph (vst_db st) pid)) kg) st = (Inr v, st1)"
    and "proj_Type p1 = ''ft''" and "proj_Type p2 = ''ft''"
    and "FindVersion st2 (vs_ID v) = Some v"
    and "VersionRollback sha accepts env2 (Some p2) found2 tree2 kg2 pid (vs_ID v) u2 saveCurrent st2 = (Inr r, st3)"
  shows "\<forall>q. GetFaultTreeGraph (vst_db st3) q =
    (if q = pid then GetFaultTreeGraph (vst_db st) pid else GetFaultTreeGraph (vst_db st2) q)"
proof -
  let ?g = "GetFaultTreeGraph (vst_db st) pid"
  from assms(2,3) have v: "vs_Snapshot v = TreeSnap ?g"
    by (auto elim!: VersionCreate_ok simp: new_version_def current_snapshot_def)
  obtain v' p' st2' where same: "FindVersion st2 (vs_ID v) = Some v'" "Some p2 = Some p'" and
    st2': "st2' = (if saveCurrent then snd (VersionCreate env2 found2 pid (BeforeRollback (ve_stamp env2)) u2
           (current_snapshot p' tree2 kg2) st2) else st2)"
    and "save_snapshot sha accepts pid p' (vs_Snapshot v') (vst_db st2') = (ok, vst_db st3)"
    by (rule Rollback_ok [OF assms(6)])
  with assms(5) have save: "save_snapshot sha accepts pid p2 (vs_Snapshot v) (vst_db st2') = (ok, vst_db st3)"
    by simp
  obtain res where run: "SaveGraph accepts pid (map json_node (fst ?g)) (snd ?g) (proj_GraphRevision p2) (vst_db st2') = (Inr res, vst_db st3)"
    using save_snapshot_tree [OF save assms(4)] v by auto
  have "GetFaultTreeGraph (vst_db st2') = GetFaultTreeGraph (vst_db st2)"
    using VersionCreate_db(1) [OF prod.collapse [symmetric]] by (simp add: st2')
  moreover have "map (fill_defaults \<circ> own_node pid) (map json_node (fst ?g)) = fst ?g"
    using assms(1) fill_json_stored by (auto simp: GetFaultTreeGraph_def intro!: map_idI)
  moreover have "map (own_edge pid) (snd ?g) = snd ?g"
    using own_edge_id by (auto simp: GetFaultTreeGraph_def intro!: map_idI)
  ultimately show ?thesis using SaveGraph_ok(2) [OF run] SaveGraph_ok(5) [OF run] by (metis prod.collapse)
qed

text \<open>A version of the saved tree, a rename of its top event, and the rollback.\<close>

definition ex_saved_tree :: version_store where
  "ex_saved_tree = \<lparr> vst_db = snd (SaveGraph (\<lambda>_. True) ''p'' ex_top [] 7 ex_db1), vst_versions = [] \<rparr>"

definition ex_versioned :: "(version_error + VersionSnapshot) \<times> version_store" where
  "ex_versioned = VersionCreate ex_venv (Some ex_project) ''p'' (Given ''L'') ''u''
     (current_snapshot ex_project (Inr (GetFaultTreeGraph (vst_db ex_saved_tree) ''p'')) (Inr ([], []))) ex_saved_tree"

definition ex_changed_tree :: version_store where
  "ex_changed_tree = (snd ex_versioned)\<lparr>vst_db := snd (SaveGraph (\<lambda>_. True) ''p'' [] [] 8 (vst_db (snd ex_versioned)))\<rparr>"

definition ex_rolled_back :: "(version_error + unit) \<times> version_store" where
  "ex_rolled_back = VersionRollback ex_sha (\<lambda>_. True) ex_venv (Some (ex_project\<lparr>proj_GraphRevision := 9\<rparr>)) None
     (Inr ([], [])) (Inr ([], [])) ''p'' (vs_ID (hd (vst_versions (snd ex_versioned)))) ''u'' False ex_changed_tree"

theorem rollback_restores_tree_witness:
  "GetFaultTreeGraph (vst_db (snd ex_rolled_back)) ''p'' = GetFaultTreeGraph (vst_db ex_saved_tree) ''p''
     \<and> GetFaultTreeGraph (vst_db ex_changed_tree) ''p'' = ([], []) \<and> GetFaultTreeGraph (vst_db ex_saved_tree) ''p'' \<noteq> ([], [])"
proof -
  have facts: "is_ok (fst ex_versioned) \<and> is_ok (fst ex_rolled_back)
      \<and> GetFaultTreeGraph (vst_db ex_changed_tree) ''p'' = ([], [])
      \<and> length (fst (GetFaultTreeGraph (vst_db ex_saved_tree) ''p'')) = 1
      \<and> proj_Type ex_project = ''ft'' \<and> length (vst_versions (snd ex_versioned)) = 1" by code_simp
  then obtain v where v: "ex_versioned = (Inr v, snd ex_versioned)" by (metis is_ok_iff prod.collapse)
  from v have "v \<in> set (vst_versions (snd ex_versioned))"
    by (auto simp: ex_versioned_def ex_saved_tree_def VersionCreate_def prune_def CountByProject_def versions_of_def
        Let_def ex_venv_def split: option.splits if_splits)
  with facts have hd: "vst_versions (snd ex_versioned) = [v]" by (auto simp: length_Suc_conv)
  obtain u where r: "ex_rolled_back = (Inr u, snd ex_rolled_back)" using facts by (metis is_ok_iff prod.collapse)
  have stored: "\<forall>n \<in> set (db_nodes (vst_db ex_saved_tree)). fill_defaults n = n" by code_simp
  have found: "FindVersion ex_changed_tree (vs_ID v) = Some v" by (simp add: FindVersion_def ex_changed_tree_def hd)
  have type: "proj_Type (ex_project\<lparr>proj_GraphRevision := 9\<rparr>) = ''ft''" using facts by simp
  from rollback_restores_tree [OF stored v [unfolded ex_versioned_def] _ type found
      r [unfolded ex_rolled_back_def hd list.sel]] facts
  show ?thesis by (auto simp: ex_rolled_back_def hd)
qed

text \<open>"save the current state first" can cost the version one rolls back to: when the project has
  thirty versions and the target is the oldest of them, the new one evicts it, and it is gone even if
  the rollback is then refused.\<close>

theorem rollback_evicts_its_version:
  assumes "CountByProject st pid = 30" and "distinct (map vs_ID (vst_versions st))"
    and "GetOldestByProject st pid = Some v" and "vs_CreatedAt v < ve_now env"
    and "VersionRollback sha accepts env (Some p) (Some p2) tree kg pid (vs_ID v) u True st = (r, st')"
    and "\<forall>q. \<not> ve_fails env q" and "\<forall>s. ve_accepts env s"
  shows "FindVersion st' (vs_ID v) = None"
proof -
  let ?snap = "current_snapshot p tree kg"
  let ?n = "new_version env p2 pid (BeforeRollback (ve_stamp env)) u ?snap"
  let ?st1 = "st\<lparr>vst_versions := vst_versions st @ [?n]\<rparr>"
  have v: "v \<in> set (versions_of st pid)" "\<forall>x \<in> set (versions_of st pid). \<not> older x v"
    using oldest_of_Some assms(3) by (auto simp: GetOldestByProject_def)
  have vs: "versions_of ?st1 pid = versions_of st pid @ [?n]" by (simp add: versions_of_def new_version_def)
  have found: "FindVersion st (vs_ID v) = Some v"
    using find_unique [OF assms(2)] v(1) by (simp add: FindVersion_def versions_of_def)
  have old: "GetOldestByProject ?st1 pid = Some v"
  proof -
    have "\<not> older ?n v" using assms(4) by (simp add: older_def new_version_def)
    with oldest_of_snoc [of "versions_of st pid" v ?n] assms(3) show ?thesis
      by (simp add: GetOldestByProject_def vs)
  qed
  have "CountByProject ?st1 pid = 31" using assms(1) by (simp add: CountByProject_def vs)
  with old assms(6) have "prune env pid ?st1 = DeleteVersionRow ?st1 (vs_ID v)" by (simp add: prune_def)
  then have gone: "FindVersion (prune env pid ?st1) (vs_ID v) = None"
    by (auto simp: FindVersion_def DeleteVersionRow_def find_None_iff)
  have "vst_versions st' = vst_versions (prune env pid ?st1)"
    using assms(5-7) found v(1)
    by (auto simp: VersionRollback_def VersionGetDetail_def VersionCreate_def Let_def versions_of_def
        map_prod_def split: prod.splits)
  with gone show ?thesis by (simp add: FindVersion_def)
qed

theorem rollback_evicts_its_version_witness:
  "FindVersion (snd (VersionRollback ex_sha (\<lambda>_. True) ex_venv (Some (ex_project\<lparr>proj_GraphRevision := 6\<rparr>)) (Some ex_project)
     (Inr ([], [])) (Inr ([], [])) ''p'' ''0'' ''u'' True (ex_vstore 30))) ''0'' = None
   \<and> \<not> is_ok (fst (VersionRollback ex_sha (\<lambda>_. True) ex_venv (Some (ex_project\<lparr>proj_GraphRevision := 6\<rparr>)) (Some ex_project)
     (Inr ([], [])) (Inr ([], [])) ''p'' ''0'' ''u'' True (ex_vstore 30)))"
proof -
  let ?run = "VersionRollback ex_sha (\<lambda>_. True) ex_venv (Some (ex_project\<lparr>proj_GraphRevision := 6\<rparr>)) (Some ex_project)
     (Inr ([], [])) (Inr ([], [])) ''p'' ''0'' ''u'' True (ex_vstore 30)"
  have facts: "CountByProject (ex_vstore 30) ''p'' = 30 \<and> distinct (map vs_ID (vst_versions (ex_vstore 30)))
      \<and> map_option vs_CreatedAt (GetOldestByProject (ex_vstore 30) ''p'') = Some 0 \<and> \<not> is_ok (fst ?run)
      \<and> map_option vs_ID (GetOldestByProject (ex_vstore 30) ''p'') = Some ''0''" by code_simp
  then obtain v where v: "GetOldestByProject (ex_vstore 30) ''p'' = Some v" "vs_CreatedAt v = 0" "vs_ID v = ''0''" by auto
  have "?run = (fst ?run, snd ?run)" by simp
  from rollback_evicts_its_version [OF _ _ v(1) _ this [folded v(3)]] facts v(2,3)
  show ?thesis by (simp add: ex_venv_def)
qed

end
