(* ===== verification/Generated.thy ===== *)
theory Generated
  imports Writers Tasks
begin

text \<open>
  What a worker's result becomes (\<open>internal/service/ai_generation_project_helpers.go\<close> and the payload
  functions at the end of \<open>internal/service/ai_task.go\<close>): the payload is normalised, parsed, turned into
  rows and saved to the project. A value of Go's \<open>interface{}\<close> is a JSON value, an absent key reads as
  \<open>JNull\<close>. The argument \<open>fp\<close> says which \<open>float64\<close> a number literal denotes, what \<open>fmt.Sscanf\<close> with
  \<open>%f\<close> reads from a string, and how \<open>%v\<close> prints a value; \<open>sha\<close> is SHA-1 in hexadecimal.
\<close>

subsection \<open>Reading loose values\<close>

record formats =
  fp_num :: "string \<Rightarrow> rat"
  fp_scan :: "string \<Rightarrow> rat option"
  fp_print :: "json \<Rightarrow> string"

definition mget :: "payload \<Rightarrow> string \<Rightarrow> json" where
  "mget m k = (case member_of m k of None \<Rightarrow> JNull | Some v \<Rightarrow> v)"

definition mhas :: "payload \<Rightarrow> string \<Rightarrow> bool" where
  "mhas m k \<longleftrightarrow> member_of m k \<noteq> None"

definition mset_key :: "payload \<Rightarrow> string \<Rightarrow> json \<Rightarrow> payload" where
  "mset_key m k v = filter (\<lambda>(k', _). k' \<noteq> k) m @ [(k, v)]"

fun toMap :: "json \<Rightarrow> payload" where
  "toMap (JObj m) = m"
| "toMap _ = []"

fun toString :: "json \<Rightarrow> string" where
  "toString (JStr s) = TrimSpace s"
| "toString _ = ''''"

fun toFloat :: "formats \<Rightarrow> json \<Rightarrow> rat \<Rightarrow> rat" where
  "toFloat fp (JNum t _ _) d = fp_num fp t"
| "toFloat fp (JStr t) d = (if t = '''' then d else case fp_scan fp (TrimSpace t) of None \<Rightarrow> d | Some f \<Rightarrow> f)"
| "toFloat fp _ d = d"

definition go_int :: "rat \<Rightarrow> int" where
  \<comment> \<open>Go's conversion of a float to an integer drops the fraction\<close>
  "go_int q = (if q < 0 then - \<lfloor>- q\<rfloor> else \<lfloor>q\<rfloor>)"

fun toBool :: "formats \<Rightarrow> json \<Rightarrow> bool" where
  "toBool fp (JBool b) = b"
| "toBool fp (JStr s) = (let l = ToLower (TrimSpace s) in l = ''true'' \<or> l = ''1'' \<or> l = ''yes'')"
| "toBool fp (JNum t _ _) = (fp_num fp t \<noteq> 0)"
| "toBool fp _ = False"

definition pickFloatPtr :: "formats \<Rightarrow> json \<Rightarrow> rat option" where
  "pickFloatPtr fp v = (if v = JNull then None else Some (toFloat fp v 0))"

fun toStringArray :: "json \<Rightarrow> string list" where
  "toStringArray (JArr vs) = filter (\<lambda>s. s \<noteq> '''') (map toString vs)"
| "toStringArray _ = []"

definition marshalMaybe :: "json \<Rightarrow> string \<Rightarrow> string" where
  "marshalMaybe v d = (if v = JNull then d else Marshal v)"

fun firstNonEmpty :: "string list \<Rightarrow> string" where
  "firstNonEmpty [] = ''''"
| "firstNonEmpty (v # vs) = (if TrimSpace v \<noteq> '''' then TrimSpace v else firstNonEmpty vs)"

definition ptr :: "string \<Rightarrow> string option" where
  "ptr s = (if TrimSpace s = '''' then None else Some (TrimSpace s))"

definition normalizeBoundedID :: "(string \<Rightarrow> string) \<Rightarrow> string \<Rightarrow> string \<Rightarrow> nat \<Rightarrow> string" where
  "normalizeBoundedID sha raw prefix maxLen = bounded_id sha maxLen raw prefix"

definition TrimSuffix :: "string \<Rightarrow> string \<Rightarrow> string" where
  "TrimSuffix s suf = (if drop (length s - length suf) s = suf \<and> length suf \<le> length s
     then take (length s - length suf) s else s)"

definition pickXY :: "formats \<Rightarrow> string \<Rightarrow> string \<Rightarrow> payload \<Rightarrow> rat \<times> rat" where
  \<comment> \<open>\<open>pickXY\<close> with the keys \<open>x\<close>, \<open>y\<close> and \<open>pickKGXY\<close> with \<open>positionX\<close>, \<open>positionY\<close>\<close>
  "pickXY fp kx ky raw =
     (let x = toFloat fp (mget raw kx) 0; y = toFloat fp (mget raw ky) 0; pos = toMap (mget raw ''position'') in
      if pos = [] then (x, y)
      else (if x = 0 then toFloat fp (mget pos ''x'') 0 else x, if y = 0 then toFloat fp (mget pos ''y'') 0 else y))"

subsection \<open>A generated fault tree\<close>

definition gate_of :: "string \<Rightarrow> string \<times> string option" where
  "gate_of v = (let up = ToUpper v in
     if v = '''' \<or> (up \<noteq> ''AND'' \<and> up \<noteq> ''OR'' \<and> up \<noteq> ''NOT'') then (''gate'', None) else (''gate'', ptr up))"

definition mapFaultTreeNodeType :: "string \<Rightarrow> payload \<Rightarrow> string \<times> string option" where
  "mapFaultTreeNodeType rawType data =
     (let t = ToLower (TrimSpace rawType);
          nodeType = ToLower (TrimSpace (toString (mget data ''nodeType'')));
          lbl = ToUpper (TrimSpace (toString (mget data ''label'')));
          named = (lbl = ''AND'' \<or> lbl = ''OR'' \<or> lbl = ''NOT'') in
      if t \<in> {''topevent'', ''top_event''} then (''topEvent'', None)
      else if t \<in> {''midevent'', ''intermediateevent'', ''intermediate_event'', ''middleevent''} then (''midEvent'', None)
      else if t \<in> {''basicevent'', ''basic_event''} then (''basicEvent'', None)
      else if t \<in> {''gate'', ''gatenode''} then (if named then gate_of lbl else gate_of '''')
      else if t \<in> {''andgate'', ''orgate'', ''notgate'', ''and'', ''or'', ''not''}
        then gate_of (ToUpper (TrimSuffix (TrimSuffix t ''gate'') ''node''))
      else if nodeType \<in> {''topevent'', ''top_event''} then (''topEvent'', None)
      else if nodeType \<in> {''midevent'', ''intermediateevent'', ''intermediate_event''} then (''midEvent'', None)
      else if nodeType \<in> {''basicevent'', ''basic_event''} then (''basicEvent'', None)
      else if nodeType = ''andgate'' then gate_of ''AND''
      else if nodeType = ''orgate'' then gate_of ''OR''
      else if nodeType = ''notgate'' then gate_of ''NOT''
      else if named then gate_of lbl
      else (''midEvent'', None))"

record faultTreeNodeDefaults =
  fd_Width :: rat
  fd_Height :: rat
  fd_Priority :: int
  fd_ShowProbability :: bool
  fd_ErrorLevel :: string
  fd_InvestigateMethod :: string
  fd_Description :: string
  fd_Documents :: "string list"

definition faultTreeNodeDefaultsFrom :: "faultTreeNodeDefaults \<Rightarrow> string list \<Rightarrow> faultTreeNodeDefaults" where
  \<comment> \<open>the configuration has the same fields but the documents\<close>
  "faultTreeNodeDefaultsFrom cfg docs = \<lparr> fd_Width = (if fd_Width cfg \<le> 0 then 140 else fd_Width cfg),
     fd_Height = (if fd_Height cfg \<le> 0 then 60 else fd_Height cfg), fd_Priority = fd_Priority cfg,
     fd_ShowProbability = fd_ShowProbability cfg, fd_ErrorLevel = TrimSpace (fd_ErrorLevel cfg),
     fd_InvestigateMethod = TrimSpace (fd_InvestigateMethod cfg), fd_Description = TrimSpace (fd_Description cfg),
     fd_Documents = docs \<rparr>"

definition raw_node_id :: "nat \<Rightarrow> payload \<Rightarrow> string" where
  "raw_node_id idx raw = (let i = toString (mget raw ''id'') in if i = '''' then ''n_'' @ show_nat (idx + 1) else i)"

definition positive_or :: "rat \<Rightarrow> rat \<Rightarrow> rat" where
  "positive_or q d = (if q \<le> 0 then d else q)"

definition text_or :: "payload \<Rightarrow> string \<Rightarrow> string \<Rightarrow> string option" where
  "text_or raw key d = (let v = toString (mget raw key) in if v \<noteq> '''' then ptr v else if d \<noteq> '''' then ptr d else None)"

definition generated_node ::
    "(string \<Rightarrow> string) \<Rightarrow> formats \<Rightarrow> faultTreeNodeDefaults \<Rightarrow> nat \<Rightarrow> payload \<Rightarrow> FaultTreeNode" where
  "generated_node sha fp d idx raw =
     (let data = toMap (mget raw ''data'');
          nodeID = normalizeBoundedID sha (raw_node_id idx raw) ''n'' 32;
          (nodeType, gateType) = mapFaultTreeNodeType (toString (mget raw ''type'')) data;
          name = (if toString (mget raw ''name'') \<noteq> '''' then toString (mget raw ''name'')
                  else if toString (mget data ''label'') \<noteq> '''' then toString (mget data ''label'') else nodeID);
          (x, y) = pickXY fp ''x'' ''y'' raw;
          docs = toStringArray (mget raw ''documents'')
      in \<lparr> node_ID = nodeID, node_ProjectID = '''', node_Type = nodeType, node_Name = name, node_X = x, node_Y = y,
           node_Width = positive_or (toFloat fp (mget raw ''width'') (fd_Width d)) (fd_Width d),
           node_Height = positive_or (toFloat fp (mget raw ''height'') (fd_Height d)) (fd_Height d),
           node_Probability = (case pickFloatPtr fp (mget raw ''probability'') of
              Some p \<Rightarrow> Some p | None \<Rightarrow> pickFloatPtr fp (mget data ''probability'')),
           node_GateType = gateType, node_EventID = text_or raw ''eventId'' '''',
           node_Description = text_or raw ''description'' (fd_Description d),
           node_ErrorLevel = text_or raw ''errorLevel'' (fd_ErrorLevel d),
           node_Priority = go_int (toFloat fp (mget raw ''priority'') (of_int (fd_Priority d))),
           node_ShowProbability = (if mhas raw ''showProbability'' then toBool fp (mget raw ''showProbability'')
              else fd_ShowProbability d),
           node_Rules = marshalMaybe (mget raw ''rules'') ''[]'',
           node_InvestigateMethod = text_or raw ''investigateMethod'' (fd_InvestigateMethod d),
           node_Documents = Some (if docs = [] then fd_Documents d else docs),
           node_Transfer = text_or raw ''transfer'' '''' \<rparr>)"

definition generated_ids :: "(string \<Rightarrow> string) \<Rightarrow> payload list \<Rightarrow> string \<Rightarrow> string option" where
  "generated_ids sha ns = map_of (rev (map (\<lambda>(i, raw).
     (raw_node_id i raw, normalizeBoundedID sha (raw_node_id i raw) ''n'' 32)) (enumerate 0 ns)))"

definition generated_end :: "(string \<Rightarrow> string) \<Rightarrow> (string \<Rightarrow> string option) \<Rightarrow> string \<Rightarrow> string" where
  "generated_end sha ids raw = firstNonEmpty [case ids raw of None \<Rightarrow> '''' | Some i \<Rightarrow> i, normalizeBoundedID sha raw ''n'' 32]"

definition edge_ends :: "payload \<Rightarrow> string \<times> string" where
  "edge_ends raw = (firstNonEmpty [toString (mget raw ''from''), toString (mget raw ''source'')],
                    firstNonEmpty [toString (mget raw ''to''), toString (mget raw ''target'')])"

definition generated_edge ::
    "(string \<Rightarrow> string) \<Rightarrow> (string \<Rightarrow> string option) \<Rightarrow> nat \<Rightarrow> payload \<Rightarrow> FaultTreeEdge option" where
  "generated_edge sha ids idx raw =
     (let (a, b) = edge_ends raw; rawID = toString (mget raw ''id'') in
      if a = '''' \<or> b = '''' then None
      else Some \<lparr> edge_ID = normalizeBoundedID sha
                    (if rawID = '''' then ''e_'' @ show_nat (idx + 1) @ ''_'' @ a @ ''_'' @ b else rawID) ''e'' 32,
                  edge_ProjectID = '''', edge_FromNodeID = generated_end sha ids a, edge_ToNodeID = generated_end sha ids b \<rparr>)"

datatype generation_error = ErrResultFormat | ErrResultDecode | ErrUnsupportedTask | SaveFailed service_error

definition toFaultTreeGraph ::
    "(string \<Rightarrow> string) \<Rightarrow> formats \<Rightarrow> faultTreeNodeDefaults \<Rightarrow> payload list \<Rightarrow> payload list \<Rightarrow> generation_error + ft_graph" where
  "toFaultTreeGraph sha fp d ns es =
     (if ns = [] then Inl ErrResultFormat
      else Inr (map (\<lambda>(i, raw). generated_node sha fp d i raw) (enumerate 0 ns),
                List.map_filter (\<lambda>(i, raw). generated_edge sha (generated_ids sha ns) i raw) (enumerate 0 es)))"

subsection \<open>A generated knowledge graph\<close>

definition kg_raw_id :: "nat \<Rightarrow> payload \<Rightarrow> string" where
  "kg_raw_id idx raw = (let i = toString (mget raw ''id'') in if i = '''' then ''kg_n_'' @ show_nat (idx + 1) else i)"

definition generated_knode :: "formats \<Rightarrow> nat \<Rightarrow> payload \<Rightarrow> KnowledgeGraphNode" where
  "generated_knode fp idx raw =
     (let data = toMap (mget raw ''data''); i = kg_raw_id idx raw;
          either = (\<lambda>key. firstNonEmpty [toString (mget raw key), toString (mget data key)]);
          (x, y) = pickXY fp ''positionX'' ''positionY'' raw
      in \<lparr> kn_ID = i, kn_ProjectID = '''', kn_Type = firstNonEmpty [toString (mget raw ''type''), ''entityNode''],
           kn_PositionX = x, kn_PositionY = y, kn_Label = (if either ''label'' = '''' then i else either ''label''),
           kn_EntityType = firstNonEmpty [toString (mget raw ''entityType''), toString (mget data ''entityType''), ''component''],
           kn_Description = ptr (either ''description''), kn_SourceDoc = ptr (either ''sourceDoc''),
           kn_StyleJson = marshalMaybe (mget raw ''style'') ''{}'',
           kn_DataExtJson = marshalMaybe (JObj (filter (\<lambda>(k, _). k \<notin> {''label'', ''entityType'', ''description'', ''sourceDoc''}) data))
              ''{}'' \<rparr>)"

definition generated_kedge :: "formats \<Rightarrow> nat \<Rightarrow> payload \<Rightarrow> KnowledgeGraphEdge option" where
  "generated_kedge fp idx raw =
     (let a = firstNonEmpty [toString (mget raw ''source''), toString (mget raw ''from'')];
          b = firstNonEmpty [toString (mget raw ''target''), toString (mget raw ''to'')];
          i = toString (mget raw ''id''); data = toMap (mget raw ''data'') in
      if a = '''' \<or> b = '''' then None
      else Some \<lparr> ke_ID = (if i = '''' then ''kg_e_'' @ show_nat (idx + 1) else i), ke_ProjectID = '''',
           ke_SourceNodeID = a, ke_TargetNodeID = b,
           ke_Label = ptr (firstNonEmpty [toString (mget raw ''label''), toString (mget data ''label'')]),
           ke_Type = firstNonEmpty [toString (mget raw ''type''), ''smoothstep''], ke_Animated = toBool fp (mget raw ''animated''),
           ke_StyleJson = marshalMaybe (mget raw ''style'') ''{}'',
           ke_LabelStyleJson = marshalMaybe (mget raw ''labelStyle'') ''{}'',
           ke_LabelBgStyleJson = marshalMaybe (mget raw ''labelBgStyle'') ''{}'' \<rparr>)"

definition toKnowledgeGraph ::
    "formats \<Rightarrow> payload list \<Rightarrow> payload list
      \<Rightarrow> generation_error + (KnowledgeGraphNode list \<times> KnowledgeGraphEdge list)" where
  "toKnowledgeGraph fp ns es =
     (if ns = [] then Inl ErrResultFormat
      else Inr (map (\<lambda>(i, raw). generated_knode fp i raw) (enumerate 0 ns),
                List.map_filter (\<lambda>(i, raw). generated_kedge fp i raw) (enumerate 0 es)))"

subsection \<open>The payload of a result\<close>

definition generatedText :: string where
  \<comment> \<open>the bytes of the four characters for "generation finished"\<close>
  "generatedText = [CHR 0xE7, CHR 0x94, CHR 0x9F, CHR 0xE6, CHR 0x88, CHR 0x90, CHR 0xE5, CHR 0xAE, CHR 0x8C, CHR 0xE6, CHR 0x88, CHR 0x90]"

definition printedText :: "formats \<Rightarrow> json \<Rightarrow> string" where
  "printedText fp v = (let t = TrimSpace (fp_print fp v) in
     if t = '''' \<or> t = ''<nil>'' \<or> t = ''map[]'' then generatedText else t)"

fun normalizeSummaryText :: "formats \<Rightarrow> json \<Rightarrow> string" where
  "normalizeSummaryText fp (JStr s) = (if TrimSpace s \<noteq> '''' then TrimSpace s else printedText fp (JStr s))"
| "normalizeSummaryText fp (JObj m) =
     (let found = firstNonEmpty (map (\<lambda>k. toString (mget m k)) [''text'', ''summary'', ''message'', ''phase'']) in
      if found \<noteq> '''' then found else printedText fp (JObj m))"
| "normalizeSummaryText fp v = printedText fp v"

definition take_over :: "payload \<Rightarrow> string \<Rightarrow> (payload \<times> string) list \<Rightarrow> payload" where
  \<comment> \<open>when \<open>m\<close> has no \<open>key\<close>, the first of the given places that has one supplies it\<close>
  "take_over m key places =
     (if mhas m key then m
      else case List.find (\<lambda>(p, k). mhas p k) places of None \<Rightarrow> m | Some (p, k) \<Rightarrow> mset_key m key (mget p k))"

definition normalizeFaultTreeResultPayload :: "formats \<Rightarrow> payload \<Rightarrow> payload" where
  "normalizeFaultTreeResultPayload fp raw =
     (let ft = toMap (mget raw ''faultTree''); metrics = toMap (mget (toMap (mget raw ''summary'')) ''qualityMetrics'');
          n1 = take_over raw ''nodes'' [(ft, ''nodes'')]; n2 = take_over n1 ''edges'' [(ft, ''edges'')];
          n3 = take_over n2 ''accuracy'' [(ft, ''accuracy''), (metrics, ''accuracy''), (metrics, ''score'')]
      in mset_key n3 ''summary'' (JStr (normalizeSummaryText fp (mget n3 ''summary''))))"

fun sliceLength :: "json \<Rightarrow> nat" where
  "sliceLength (JArr vs) = length vs"
| "sliceLength _ = 0"

fun toInt :: "(string \<Rightarrow> int option) \<Rightarrow> json \<Rightarrow> int" where
  \<comment> \<open>\<open>atoi\<close> is \<open>strconv.Atoi\<close>\<close>
  "toInt atoi (JNum _ i _) = i"
| "toInt atoi (JStr s) = (case atoi (TrimSpace s) of None \<Rightarrow> 0 | Some i \<Rightarrow> i)"
| "toInt atoi _ = 0"

definition normalizeKnowledgeGraphResultPayload :: "formats \<Rightarrow> (string \<Rightarrow> int option) \<Rightarrow> payload \<Rightarrow> payload" where
  "normalizeKnowledgeGraphResultPayload fp atoi raw =
     (let graph = toMap (mget raw ''knowledgeGraph'');
          n1 = take_over raw ''nodes'' [(raw, ''rfNodes''), (graph, ''nodes''), (graph, ''rfNodes'')];
          n2 = take_over n1 ''edges'' [(raw, ''rfEdges''), (graph, ''edges''), (graph, ''rfEdges'')];
          n3 = mset_key n2 ''summary'' (JStr (normalizeSummaryText fp (mget n2 ''summary'')));
          n4 = (if toInt atoi (mget n3 ''entityCount'') = 0
                then mset_key n3 ''entityCount'' (jnat (sliceLength (mget n3 ''nodes''))) else n3)
      in if toInt atoi (mget n4 ''relationCount'') = 0
         then mset_key n4 ''relationCount'' (jnat (sliceLength (mget n4 ''edges''))) else n4)"

text \<open>Decoding the printed payload into the result struct. Elements of the two lists are objects or
  \<open>null\<close>; the field of a float or an integer takes a number. Payload keys that differ from a field's
  name in letter case only are not distinguished from it, the last one wins.\<close>

fun dec_objects :: "json list \<Rightarrow> payload list option" where
  "dec_objects [] = Some []"
| "dec_objects (JObj m # vs) = map_option ((#) m) (dec_objects vs)"
| "dec_objects (JNull # vs) = map_option ((#) []) (dec_objects vs)"
| "dec_objects (_ # vs) = None"

fun dec_object_lists :: "payload list \<Rightarrow> json list \<Rightarrow> payload list option" where
  "dec_object_lists cur [] = Some cur"
| "dec_object_lists cur (JArr es # vs) = (case dec_objects es of None \<Rightarrow> None | Some ms \<Rightarrow> dec_object_lists ms vs)"
| "dec_object_lists cur (JNull # vs) = dec_object_lists [] vs"
| "dec_object_lists cur (_ # vs) = None"

fun is_number_or_null :: "json \<Rightarrow> bool" where
  "is_number_or_null (JNum _ _ _) = True"
| "is_number_or_null JNull = True"
| "is_number_or_null _ = False"

definition decode_lists :: "payload \<Rightarrow> generation_error + (payload list \<times> payload list)" where
  "decode_lists m =
     (case (dec_object_lists [] (field_vals ''nodes'' m), dec_object_lists [] (field_vals ''edges'' m)) of
        (Some ns, Some es) \<Rightarrow> if ns = [] then Inl ErrResultFormat else Inr (ns, es)
      | _ \<Rightarrow> Inl ErrResultDecode)"

definition parseFaultTreeResult :: "formats \<Rightarrow> payload \<Rightarrow> generation_error + (payload list \<times> payload list)" where
  "parseFaultTreeResult fp raw =
     (let m = map_members (normalizeFaultTreeResultPayload fp raw) in
      if \<not> list_all is_number_or_null (field_vals ''accuracy'' m) then Inl ErrResultDecode else decode_lists m)"

definition parseKnowledgeGraphResult ::
    "formats \<Rightarrow> (string \<Rightarrow> int option) \<Rightarrow> payload \<Rightarrow> generation_error + (payload list \<times> payload list)" where
  "parseKnowledgeGraphResult fp atoi raw =
     (let m = map_members (normalizeKnowledgeGraphResultPayload fp atoi raw) in
      if dec_int 0 (map reprinted (field_vals ''entityCount'' m)) = None
         \<or> dec_int 0 (map reprinted (field_vals ''relationCount'' m)) = None
      then Inl ErrResultDecode else decode_lists m)"

subsection \<open>Saving with one retry\<close>

text \<open>The revision is read anew for each of two attempts; between the reading and the save of an attempt
  other clients may write (\<open>others\<close>). The services write the project and the defaults into the rows they
  are given; doing so again for the second attempt changes nothing. \<open>found\<close> is how the repository answers for a project.\<close>

definition save_attempt ::
    "(db \<Rightarrow> graph_error + project_row option) \<Rightarrow> (db \<Rightarrow> db)
      \<Rightarrow> (int \<Rightarrow> db \<Rightarrow> (service_error + SaveGraphResult) \<times> db) \<Rightarrow> db \<Rightarrow> (service_error + SaveGraphResult) \<times> db" where
  "save_attempt found others save db =
     (case found db of
        Inl e \<Rightarrow> (Inl (SvcErr e), db)
      | Inr None \<Rightarrow> (Inl ErrProjectNotFound, db)
      | Inr (Some project) \<Rightarrow> save (proj_GraphRevision project) (others db))"

definition save_twice ::
    "(db \<Rightarrow> graph_error + project_row option) \<Rightarrow> (nat \<Rightarrow> db \<Rightarrow> db)
      \<Rightarrow> (int \<Rightarrow> db \<Rightarrow> (service_error + SaveGraphResult) \<times> db) \<Rightarrow> db \<Rightarrow> (service_error + SaveGraphResult) \<times> db" where
  "save_twice found others save db =
     (case save_attempt found (others 0) save db of
        (Inl ErrVersionConflict, db1) \<Rightarrow> save_attempt found (others 1) save db1
      | r \<Rightarrow> r)"

record gen_env =
  ge_sha :: "string \<Rightarrow> string"
  ge_formats :: formats
  ge_atoi :: "string \<Rightarrow> int option"
  ge_defaults :: faultTreeNodeDefaults
  ge_files :: "string list"
  ge_found :: "string \<Rightarrow> db \<Rightarrow> graph_error + project_row option"
  ge_others :: "nat \<Rightarrow> db \<Rightarrow> db"
  ge_accepts :: "db \<Rightarrow> bool"

definition docFileNames :: "string list \<Rightarrow> string list" where
  "docFileNames files = filter (\<lambda>s. s \<noteq> '''') (map TrimSpace files)"

definition saveGeneratedFaultTreeToProject ::
    "gen_env \<Rightarrow> string \<Rightarrow> payload list \<Rightarrow> payload list \<Rightarrow> db \<Rightarrow> (generation_error + unit) \<times> db" where
  "saveGeneratedFaultTreeToProject env pid ns es db =
     (case toFaultTreeGraph (ge_sha env) (ge_formats env)
             (faultTreeNodeDefaultsFrom (ge_defaults env) (docFileNames (ge_files env))) ns es of
        Inl e \<Rightarrow> (Inl e, db)
      | Inr (nodes, edges) \<Rightarrow>
          (case save_twice (ge_found env pid) (ge_others env) (SaveGraph (ge_accepts env) pid nodes edges) db of
             (Inl e, db') \<Rightarrow> (Inl (SaveFailed e), db') | (Inr _, db') \<Rightarrow> (ok, db')))"

definition saveGeneratedKnowledgeGraphToProject ::
    "gen_env \<Rightarrow> string \<Rightarrow> payload list \<Rightarrow> payload list \<Rightarrow> db \<Rightarrow> (generation_error + unit) \<times> db" where
  "saveGeneratedKnowledgeGraphToProject env pid ns es db =
     (case toKnowledgeGraph (ge_formats env) ns es of
        Inl e \<Rightarrow> (Inl e, db)
      | Inr (nodes, edges) \<Rightarrow>
          (case save_twice (ge_found env pid) (ge_others env)
                  (SaveKnowledgeGraph (ge_sha env) (ge_accepts env) pid nodes edges) db of
             (Inl e, db') \<Rightarrow> (Inl (SaveFailed e), db') | (Inr _, db') \<Rightarrow> (ok, db')))"

definition persistGeneratedGraph ::
    "gen_env \<Rightarrow> AITask \<Rightarrow> payload \<Rightarrow> db \<Rightarrow> (generation_error + unit) \<times> db" where
  "persistGeneratedGraph env t raw db =
     (case task_ProjectID t of
        None \<Rightarrow> (Inl (SaveFailed ErrProjectNotFound), db)
      | Some p \<Rightarrow>
          if TrimSpace p = '''' then (Inl (SaveFailed ErrProjectNotFound), db)
          else if task_Type t = ''generateFaultTree'' then
            (case parseFaultTreeResult (ge_formats env) raw of Inl e \<Rightarrow> (Inl e, db)
             | Inr (ns, es) \<Rightarrow> saveGeneratedFaultTreeToProject env (TrimSpace p) ns es db)
          else if task_Type t = ''generateKnowledgeGraph'' then
            (case parseKnowledgeGraphResult (ge_formats env) (ge_atoi env) raw of Inl e \<Rightarrow> (Inl e, db)
             | Inr (ns, es) \<Rightarrow> saveGeneratedKnowledgeGraphToProject env (TrimSpace p) ns es db)
          else (Inl ErrUnsupportedTask, db))"

definition normalizeTaskResultPayload :: "gen_env \<Rightarrow> string \<Rightarrow> payload \<Rightarrow> payload" where
  "normalizeTaskResultPayload env taskType raw =
     (if TrimSpace taskType = ''generateFaultTree'' then normalizeFaultTreeResultPayload (ge_formats env) raw
      else if TrimSpace taskType = ''generateKnowledgeGraph''
        then normalizeKnowledgeGraphResultPayload (ge_formats env) (ge_atoi env) raw
      else raw)"

definition persist_result ::
    "gen_env \<Rightarrow> (generation_error \<Rightarrow> string) \<Rightarrow> AITask \<Rightarrow> payload \<Rightarrow> db \<Rightarrow> (string + payload) \<times> db" where
  \<comment> \<open>what the callback does with a completed result; \<open>msg\<close> is the text of an error\<close>
  "persist_result env msg t raw db =
     (let normalized = normalizeTaskResultPayload env (task_Type t) raw in
      case persistGeneratedGraph env t normalized db of
        (Inl e, db') \<Rightarrow> (Inl (msg e), db')
      | (Inr _, db') \<Rightarrow> (Inr normalized, db'))"

subsection \<open>Facts\<close>

lemma gate_names: "ptr ''AND'' = Some ''AND''" "ptr ''OR'' = Some ''OR''" "ptr ''NOT'' = Some ''NOT''"
  by code_simp+

definition known_types :: "(string \<times> string option) set" where
  "known_types = {(''topEvent'', None), (''midEvent'', None), (''basicEvent'', None), (''gate'', None),
     (''gate'', Some ''AND''), (''gate'', Some ''OR''), (''gate'', Some ''NOT'')}"

lemma gate_of_known: "gate_of v \<in> known_types"
  by (auto simp: gate_of_def Let_def gate_names known_types_def)

lemma event_known:
  "(''topEvent'', None) \<in> known_types" "(''midEvent'', None) \<in> known_types" "(''basicEvent'', None) \<in> known_types"
  by (simp_all add: known_types_def)

lemma if_in: "x \<in> A \<Longrightarrow> y \<in> A \<Longrightarrow> (if b then x else y) \<in> A"
  by simp

lemma mapped_type: "mapFaultTreeNodeType ty data \<in> known_types"
  unfolding mapFaultTreeNodeType_def Let_def by (intro if_in gate_of_known event_known)

definition fits :: "string \<Rightarrow> bool" where
  "fits i \<longleftrightarrow> 0 < length i \<and> length i \<le> 32"

lemma normalizeBoundedID_fits:
  assumes "hex40 sha" and "p = ''n'' \<or> p = ''e''"
  shows "fits (normalizeBoundedID sha raw p 32)" and "TrimSpace (normalizeBoundedID sha raw p 32) = normalizeBoundedID sha raw p 32"
  using assms bounded_id_length [of sha p 32 raw] bounded_id_nonempty [of p sha 32 raw] bounded_id_trim [of sha p 32 raw]
  by (auto simp: normalizeBoundedID_def fits_def)

text \<open>The table of the renamed identifiers holds nothing that the fallback would not compute.\<close>

lemma generated_end_table:
  assumes "hex40 sha"
  shows "generated_end sha (generated_ids sha ns) raw = normalizeBoundedID sha raw ''n'' 32"
proof -
  have "generated_ids sha ns raw = None \<or> generated_ids sha ns raw = Some (normalizeBoundedID sha raw ''n'' 32)"
    by (cases "generated_ids sha ns raw") (auto simp: generated_ids_def dest!: map_of_rev_Some_in)
  with normalizeBoundedID_fits [OF assms, of "''n''" raw] show ?thesis
    by (auto simp: generated_end_def fits_def)
qed

lemma firstNonEmpty_trim: "TrimSpace (firstNonEmpty vs) = firstNonEmpty vs"
  by (induction vs) simp_all

lemma generated_edge_Some:
  assumes "generated_edge sha ids idx raw = Some e"
  obtains i where "edge_ID e = normalizeBoundedID sha i ''e'' 32"
    and "edge_FromNodeID e = generated_end sha ids (fst (edge_ends raw))"
    and "edge_ToNodeID e = generated_end sha ids (snd (edge_ends raw))"
  using assms that by (auto simp: generated_edge_def Let_def split: if_splits prod.splits)

lemma save_twice_ok:
  assumes "found db = Inr (db_projects db pid)" and "found (others 0 db) = Inr (db_projects (others 0 db) pid)"
    and "db_projects db pid \<noteq> None" and "db_projects (others 0 db) pid \<noteq> None" and "others 1 (others 0 db) = others 0 db"
    and wins: "\<And>d p. db_projects d pid = Some p \<Longrightarrow> \<exists>res d'. save (proj_GraphRevision p) d = (Inr res, d')"
    and loses: "\<And>r d e d'. save r d = (Inl e, d') \<Longrightarrow> d' = d"
    and only: "\<And>p r d e d'. db_projects d pid = Some p \<Longrightarrow> save r d = (Inl e, d') \<Longrightarrow> e = ErrVersionConflict"
  shows "\<exists>res d r d'. save_twice found others save db = (Inr res, d') \<and> save r d = (Inr res, d')"
proof -
  obtain p where p: "db_projects db pid = Some p" using assms(3) by auto
  obtain q where q: "db_projects (others 0 db) pid = Some q" using assms(4) by auto
  obtain x d1 where first: "save (proj_GraphRevision p) (others 0 db) = (x, d1)" by fastforce
  show ?thesis
  proof (cases x)
    case (Inr res)
    with first p assms(1) show ?thesis by (auto simp: save_twice_def save_attempt_def)
  next
    case (Inl e)
    with first have "d1 = others 0 db" and e: "e = ErrVersionConflict" using loses only [OF q] by auto
    moreover obtain res d2 where "save (proj_GraphRevision q) (others 0 db) = (Inr res, d2)" using wins [OF q] by blast
    ultimately show ?thesis using first p q Inl assms(1,2,5)
      by (auto simp: save_twice_def save_attempt_def)
  qed
qed

lemma save_twice_Inr: "save_twice found others save db = (Inr res, db') \<Longrightarrow> \<exists>r d. save r d = (Inr res, db')"
  by (auto simp: save_twice_def save_attempt_def split: sum.splits prod.splits option.splits service_error.splits)

lemma save_twice_Inl:
  assumes "\<And>r d e d'. save r d = (Inl e, d') \<Longrightarrow> d' = d" and "save_twice found others save db = (Inl e, db')"
  shows "db' \<in> {db, others 0 db, others 1 (others 0 db)}"
proof -
  have att: "d' \<in> {d, o' d}" if "save_attempt found o' save d = (Inl x, d')" for o' d x d'
    using that assms(1) by (auto simp: save_attempt_def split: sum.splits option.splits)
  have lost: "d' = o' d" if "save_attempt found o' save d = (Inl ErrVersionConflict, d')" for o' d d'
    using that assms(1) by (auto simp: save_attempt_def split: sum.splits option.splits)
  obtain x d1 where first: "save_attempt found (others 0) save db = (x, d1)" by fastforce
  show ?thesis
  proof (cases "x = Inl ErrVersionConflict")
    case True
    then have "d1 = others 0 db" "save_attempt found (others 1) save d1 = (Inl e, db')"
      using assms(2) first lost by (simp_all add: save_twice_def)
    then show ?thesis using att by blast
  next
    case False
    then have "(x, d1) = (Inl e, db')" using assms(2) first by (auto simp: save_twice_def split: sum.splits service_error.splits)
    then show ?thesis using att first by blast
  qed
qed

lemma SaveGraph_all_accepted:
  assumes "\<forall>d. accepts d" and "db_projects db pid = Some p"
  shows "proj_GraphRevision p = r \<Longrightarrow> \<exists>res db'. SaveGraph accepts pid ns es r db = (Inr res, db')"
    and "SaveGraph accepts pid ns es r db = (Inl e, db') \<Longrightarrow> e = ErrVersionConflict"
proof -
  obtain db1 where rep: "BatchReplaceFaultTree accepts db pid (map (own_node pid) ns) (map (own_edge pid) es) = Inr db1"
    using assms(1) by (auto simp: BatchReplaceFaultTree_def Let_def)
  have p1: "db_projects db1 pid = Some p" using BatchReplace_frame [OF rep] assms(2) by simp
  show "proj_GraphRevision p = r \<Longrightarrow> \<exists>res db'. SaveGraph accepts pid ns es r db = (Inr res, db')"
    using rep p1 by (simp add: SaveGraph_def save_graph_def transaction_def UpdateGraphMetaCAS_def)
  show "SaveGraph accepts pid ns es r db = (Inl e, db') \<Longrightarrow> e = ErrVersionConflict"
    using rep p1 by (auto simp: SaveGraph_def save_graph_def transaction_def UpdateGraphMetaCAS_def split: if_splits)
qed

end
