(* ===== verification/GenerationTheorems.thy ===== *)
theory GenerationTheorems
  imports Generated Fixtures
begin

text \<open>
  What a worker's result becomes in the database: the rows it yields and that a save survives one
  conflict. The example is a result with a gate given by its label and an edge to an unnamed node.
\<close>

definition row_ok :: "FaultTreeNode \<Rightarrow> bool" where
  "row_ok n \<longleftrightarrow> fits (node_ID n) \<and> (node_Type n, node_GateType n) \<in> known_types \<and> node_Name n \<noteq> ''''
     \<and> node_Width n > 0 \<and> node_Height n > 0 \<and> node_Documents n \<noteq> None"

definition edge_ok :: "FaultTreeEdge \<Rightarrow> bool" where
  "edge_ok e \<longleftrightarrow> fits (edge_ID e) \<and> fits (edge_FromNodeID e) \<and> fits (edge_ToNodeID e)"

lemma positive_or_pos: "0 < d \<Longrightarrow> 0 < positive_or q d"
  by (simp add: positive_or_def)

lemma generated_node_ok:
  assumes "hex40 sha" and "0 < fd_Width d" and "0 < fd_Height d"
  shows "row_ok (generated_node sha fp d i raw)"
proof -
  let ?id = "normalizeBoundedID sha (raw_node_id i raw) ''n'' 32"
  have id: "fits ?id" by (rule normalizeBoundedID_fits [OF assms(1)]) simp
  then have "?id \<noteq> ''''" by (auto simp: fits_def)
  with id show ?thesis
    using mapped_type [of "toString (mget raw ''type'')" "toMap (mget raw ''data'')"] positive_or_pos assms(2,3)
    by (auto simp: row_ok_def generated_node_def Let_def split: prod.splits)
qed

definition ex_formats :: formats where
  "ex_formats = \<lparr> fp_num = (\<lambda>t. if t = ''0.5'' then 1/2 else 0), fp_scan = (\<lambda>_. None), fp_print = (\<lambda>_. '''') \<rparr>"

definition ex_node_defaults :: faultTreeNodeDefaults where
  "ex_node_defaults = \<lparr> fd_Width = 0, fd_Height = 0, fd_Priority = 0, fd_ShowProbability = False, fd_ErrorLevel = '''',
     fd_InvestigateMethod = '''', fd_Description = '''', fd_Documents = [] \<rparr>"

definition ex_sum :: "string \<Rightarrow> string" where
  "ex_sum v = replicate 40 (CHR ''0'')"

lemma ex_sum_hex: "hex40 ex_sum"
  by (simp add: hex40_def ex_sum_def list_all_iff plain_char_def less_eq_char_def)

definition ex_raw_nodes :: "payload list" where
  "ex_raw_nodes = [[(''id'', JStr ''g''), (''type'', JStr ''gate''), (''data'', JObj [(''label'', JStr ''and'')])],
     [(''type'', JStr ''Basic_Event''), (''probability'', JNum ''0.5'' 0 None)]]"

definition ex_raw_edges :: "payload list" where
  "ex_raw_edges = [[(''source'', JStr '' g''), (''target'', JStr ''n_2'')], [(''source'', JStr ''g'')]]"

text \<open>whatever a model answers, every row made from it can be stored and read as a fault tree: the
  node's type is one of the four, a gate type is AND, OR or NOT and only at a gate, identifiers have one
  to 32 bytes, names are not empty and sizes are positive.\<close>

theorem generated_rows_valid:
  assumes "hex40 sha" and "toFaultTreeGraph sha fp (faultTreeNodeDefaultsFrom cfg docs) ns es = Inr (nodes, edges)"
  shows "list_all row_ok nodes \<and> list_all edge_ok edges"
proof -
  let ?d = "faultTreeNodeDefaultsFrom cfg docs"
  have d: "0 < fd_Width ?d" "0 < fd_Height ?d" by (simp_all add: faultTreeNodeDefaultsFrom_def)
  from assms(2) have "nodes = map (\<lambda>(i, raw). generated_node sha fp ?d i raw) (enumerate 0 ns)"
    and edges: "edges = List.map_filter (\<lambda>(i, raw). generated_edge sha (generated_ids sha ns) i raw) (enumerate 0 es)"
    by (auto simp: toFaultTreeGraph_def split: if_splits)
  then have "list_all row_ok nodes" using generated_node_ok [OF assms(1) d] by (auto simp: list_all_iff)
  moreover have "edge_ok e" if "generated_edge sha (generated_ids sha ns) i raw = Some e" for i raw e
    using that
  proof (rule generated_edge_Some)
    fix j assume e: "edge_ID e = normalizeBoundedID sha j ''e'' 32"
      "edge_FromNodeID e = generated_end sha (generated_ids sha ns) (fst (edge_ends raw))"
      "edge_ToNodeID e = generated_end sha (generated_ids sha ns) (snd (edge_ends raw))"
    show "edge_ok e" by (simp add: edge_ok_def e generated_end_table [OF assms(1)] normalizeBoundedID_fits [OF assms(1)])
  qed
  ultimately show ?thesis by (auto simp: list_all_iff edges List.map_filter_def)
qed

definition ex_generated :: "generation_error + ft_graph" where
  "ex_generated = toFaultTreeGraph ex_sum ex_formats (faultTreeNodeDefaultsFrom ex_node_defaults []) ex_raw_nodes ex_raw_edges"

lemma ex_generated_run:
  obtains nodes edges where "ex_generated = Inr (nodes, edges)"
    and "map (\<lambda>n. (node_ID n, node_Type n, node_GateType n)) nodes = [(''g'', ''gate'', Some ''AND''), (''n_2'', ''basicEvent'', None)]"
    and "map (\<lambda>e. (edge_ID e, edge_FromNodeID e, edge_ToNodeID e)) edges = [(''e_1_g_n_2'', ''g'', ''n_2'')]"
proof -
  have facts: "is_ok ex_generated
     \<and> map_sum (\<lambda>_. ()) (\<lambda>(nodes, edges). (map (\<lambda>n. (node_ID n, node_Type n, node_GateType n)) nodes,
          map (\<lambda>e. (edge_ID e, edge_FromNodeID e, edge_ToNodeID e)) edges)) ex_generated
       = Inr ([(''g'', ''gate'', Some ''AND''), (''n_2'', ''basicEvent'', None)], [(''e_1_g_n_2'', ''g'', ''n_2'')])" by code_simp
  then obtain nodes edges where g: "ex_generated = Inr (nodes, edges)" unfolding is_ok_iff by auto
  show thesis by (rule that [OF g]) (use facts in \<open>simp_all add: g\<close>)
qed

theorem generated_rows_valid_witness:
  "\<exists>nodes edges. ex_generated = Inr (nodes, edges) \<and> list_all row_ok nodes \<and> list_all edge_ok edges
     \<and> map (\<lambda>n. (node_ID n, node_Type n, node_GateType n)) nodes = [(''g'', ''gate'', Some ''AND''), (''n_2'', ''basicEvent'', None)]
     \<and> map (\<lambda>e. (edge_ID e, edge_FromNodeID e, edge_ToNodeID e)) edges = [(''e_1_g_n_2'', ''g'', ''n_2'')]"
proof -
  obtain nodes edges where g: "ex_generated = Inr (nodes, edges)"
    and rows: "map (\<lambda>n. (node_ID n, node_Type n, node_GateType n)) nodes = [(''g'', ''gate'', Some ''AND''), (''n_2'', ''basicEvent'', None)]"
      "map (\<lambda>e. (edge_ID e, edge_FromNodeID e, edge_ToNodeID e)) edges = [(''e_1_g_n_2'', ''g'', ''n_2'')]"
    by (rule ex_generated_run)
  from generated_rows_valid [OF ex_sum_hex g [unfolded ex_generated_def]] rows show ?thesis by (simp add: g)
qed

text \<open>C12: saving a generated tree is all or nothing, and survives a conflict. Whatever other clients write during
  the two attempts and however the server answers: when the save is reported as successful the project
  holds exactly the generated tree, and otherwise the database is as the other clients left it. It is
  successful although another client saves the project during the first attempt, provided that the server
  accepts the rows, that both attempts read the project as it is and find it, and that nobody writes during
  the second.\<close>

theorem generation_survives_a_conflict:
  assumes "toFaultTreeGraph (ge_sha env) (ge_formats env)
        (faultTreeNodeDefaultsFrom (ge_defaults env) (docFileNames (ge_files env))) ns es = Inr (nodes, edges)"
    and "saveGeneratedFaultTreeToProject env pid ns es db = (r, db')" and "mid = ge_others env 0 db"
  shows "(r = ok \<longrightarrow> GetFaultTreeGraph db' pid = (map (fill_defaults \<circ> own_node pid) nodes, map (own_edge pid) edges))
    \<and> (r \<noteq> ok \<longrightarrow> db' \<in> {db, mid, ge_others env 1 mid})
    \<and> ((\<forall>d. ge_accepts env d) \<and> ge_found env pid db = Inr (db_projects db pid) \<and> ge_found env pid mid = Inr (db_projects mid pid)
        \<and> db_projects db pid \<noteq> None \<and> db_projects mid pid \<noteq> None \<and> ge_others env 1 mid = mid \<longrightarrow> r = ok)"
proof -
  let ?save = "SaveGraph (ge_accepts env) pid nodes edges"
  obtain x where x: "save_twice (ge_found env pid) (ge_others env) ?save db = (x, db')"
      and r: "r = (case x of Inl e \<Rightarrow> Inl (SaveFailed e) | Inr _ \<Rightarrow> ok)"
    using assms(1,2) by (auto simp: saveGeneratedFaultTreeToProject_def split: sum.splits prod.splits)
  have "GetFaultTreeGraph db' pid = (map (fill_defaults \<circ> own_node pid) nodes, map (own_edge pid) edges)" if "r = ok"
    using that r x SaveGraph_ok(2) by (auto split: sum.splits dest!: save_twice_Inr)
  moreover have "db' \<in> {db, mid, ge_others env 1 mid}" if "r \<noteq> ok"
    using that r x save_twice_Inl [of ?save, OF SaveGraph_error] assms(3) by (cases x) auto
  moreover have "r = ok" if accepts: "\<forall>d. ge_accepts env d" and "ge_found env pid db = Inr (db_projects db pid)"
      "ge_found env pid mid = Inr (db_projects mid pid)" "db_projects db pid \<noteq> None" "db_projects mid pid \<noteq> None"
      "ge_others env 1 mid = mid"
  proof -
    have "\<exists>res d r d'. save_twice (ge_found env pid) (ge_others env) ?save db = (Inr res, d') \<and> ?save r d = (Inr res, d')"
    proof (rule save_twice_ok [of "ge_found env pid" db pid])
      show "\<exists>res d'. ?save (proj_GraphRevision p) d = (Inr res, d')" if "db_projects d pid = Some p" for d p
        using SaveGraph_all_accepted(1) [OF accepts that] by simp
      show "e = ErrVersionConflict" if "db_projects d pid = Some p" "?save r d = (Inl e, d')" for p r d e d'
        using SaveGraph_all_accepted(2) [OF accepts that] .
    qed (use that assms(3) SaveGraph_error in auto)
    then show ?thesis using x r by auto
  qed
  ultimately show ?thesis by blast
qed

definition ex_genv :: gen_env where
  "ex_genv = \<lparr> ge_sha = ex_sum, ge_formats = ex_formats, ge_atoi = (\<lambda>_. None), ge_defaults = ex_node_defaults,
     ge_files = [], ge_found = (\<lambda>pid d. Inr (db_projects d pid)),
     ge_others = (\<lambda>i d. if i = 0 then snd (SaveGraph (\<lambda>_. True) ''p'' ex_top [] 7 d) else d), ge_accepts = (\<lambda>_. True) \<rparr>"

text \<open>Here the editor saves the project during the first attempt.\<close>

theorem generation_survives_a_conflict_witness:
  "\<exists>db'. saveGeneratedFaultTreeToProject ex_genv ''p'' ex_raw_nodes ex_raw_edges ex_db1 = (ok, db')
     \<and> map node_ID (fst (GetFaultTreeGraph db' ''p'')) = [''g'', ''n_2''] \<and> current_revision ''p'' db' = 9"
proof -
  obtain nodes edges where g: "ex_generated = Inr (nodes, edges)" and ids: "map node_ID nodes = [''g'', ''n_2'']"
  proof (rule ex_generated_run)
    fix nodes edges assume g: "ex_generated = Inr (nodes, edges)"
      and "map (\<lambda>n. (node_ID n, node_Type n, node_GateType n)) nodes = [(''g'', ''gate'', Some ''AND''), (''n_2'', ''basicEvent'', None)]"
    then have "map fst (map (\<lambda>n. (node_ID n, node_Type n, node_GateType n)) nodes) = [''g'', ''n_2'']" by simp
    with g show thesis using that by (simp add: comp_def)
  qed
  let ?run = "saveGeneratedFaultTreeToProject ex_genv ''p'' ex_raw_nodes ex_raw_edges ex_db1"
  have rev: "current_revision ''p'' (snd ?run) = 9" by code_simp
  have there: "db_projects ex_db1 ''p'' \<noteq> None \<and> db_projects (ge_others ex_genv 0 ex_db1) ''p'' \<noteq> None" by code_simp
  have "docFileNames (ge_files ex_genv) = []" by (simp add: docFileNames_def ex_genv_def)
  then have "toFaultTreeGraph (ge_sha ex_genv) (ge_formats ex_genv)
        (faultTreeNodeDefaultsFrom (ge_defaults ex_genv) (docFileNames (ge_files ex_genv))) ex_raw_nodes ex_raw_edges
      = Inr (nodes, edges)"
    using g by (simp add: ex_generated_def ex_genv_def)
  from generation_survives_a_conflict [OF this, of "''p''" ex_db1 "fst ?run" "snd ?run"] there
  have "fst ?run = ok \<and> GetFaultTreeGraph (snd ?run) ''p'' = (map (fill_defaults \<circ> own_node ''p'') nodes, map (own_edge ''p'') edges)"
    by (simp add: ex_genv_def)
  then have "\<exists>db'. ?run = (ok, db') \<and> GetFaultTreeGraph db' ''p'' = (map (fill_defaults \<circ> own_node ''p'') nodes, map (own_edge ''p'') edges)"
    by (metis prod.collapse)
  with ids rev show ?thesis by (auto simp: comp_def)
qed

end
