(* ===== verification/Documents.thy ===== *)
theory Documents
  imports Tasks
begin

text \<open>
  Documents of a project (\<open>DocumentRepository\<close> and \<open>DocumentConversionTaskRepository\<close> of
  \<open>internal/repository/ai_task.go\<close>, \<open>internal/service/document.go\<close> without its text search,
  \<open>internal/service/document_conversion_queue.go\<close>, and what a generation does to its documents in
  \<open>internal/service/ai_task.go\<close>). A docx file is shown through a PDF that a worker derives from it; the
  conversion task of a document is pending, processing, completed or failed. The environment holds the
  clock, the draws of identifiers, which statements and commands succeed, which rows the server takes
  and how the file storage answers; error texts are named.
\<close>

subsection \<open>Rows and environment\<close>

datatype doc_message = MsgTaskCreation | MsgEnqueue | MsgExpired | MsgConversion string

record Document =
  doc_ID :: string
  doc_FileName :: string
  doc_FileType :: string
  doc_ReaderKind :: string
  doc_MimeType :: string
  doc_Size :: int
  doc_Status :: string
  doc_PreviewStatus :: string
  doc_DerivedPdfDocID :: "string option"
  doc_PreviewErrorMessage :: "doc_message option"
  doc_Summary :: "string option"
  doc_SourceURL :: string
  doc_TextExtractURL :: "string option"
  doc_UploadedBy :: string
  doc_ProjectID :: "string option"

record DocumentConversionTask =
  ct_ID :: string
  ct_DocumentID :: string
  ct_ProjectID :: "string option"
  ct_Status :: string
  ct_AttemptCount :: nat
  ct_ErrorMessage :: "doc_message option"
  ct_DerivedPDFDocID :: "string option"
  ct_StartedAt :: "int option"
  ct_CompletedAt :: "int option"
  ct_CreatedAt :: int

record doc_store =
  ds_docs :: "Document list"
  ds_tasks :: "DocumentConversionTask list"
  ds_queue :: "(string \<times> int) list"
  ds_next :: nat

datatype doc_command = DFind | DBind | DUpdate | DUpsert | DTake | DTaskSet | DQueue

datatype storage_answer = Opened | StorageNotFound | StorageError

record doc_env =
  de_draws :: draws
  de_now :: int
  de_redis :: bool
  de_works :: "doc_command \<Rightarrow> bool"
  de_accepts :: "doc_store \<Rightarrow> bool"
  de_open :: "string \<Rightarrow> storage_answer"
  de_save :: "string \<Rightarrow> string option"
  de_pdfSize :: "string \<Rightarrow> int"

datatype doc_error = ErrDocumentNotFound | ErrDocumentPermissionDenied | ErrDocumentPreviewProcessing
  | ErrDocumentPreviewFailed | ErrNoDocuments | ErrProjectDenied | ErrIDRequired | ErrDocDB | ErrStorage

definition new_doc_id :: "doc_env \<Rightarrow> string \<Rightarrow> doc_store \<Rightarrow> string \<times> doc_store" where
  "new_doc_id env prefix st = (NewID (de_draws env) (ds_next st) prefix, st\<lparr>ds_next := Suc (ds_next st)\<rparr>)"

subsection \<open>The document table\<close>

definition CreateDoc :: "doc_env \<Rightarrow> Document \<Rightarrow> doc_store \<Rightarrow> (doc_error + unit) \<times> doc_store" where
  "CreateDoc env d st = (let st' = st\<lparr>ds_docs := ds_docs st @ [d]\<rparr> in if de_accepts env st' then (ok, st') else (Inl ErrDocDB, st))"

definition find_doc :: "doc_store \<Rightarrow> string \<Rightarrow> Document option" where
  "find_doc st i = List.find (\<lambda>d. doc_ID d = i) (ds_docs st)"

definition FindDocByID :: "doc_env \<Rightarrow> string \<Rightarrow> doc_store \<Rightarrow> doc_error + Document option" where
  "FindDocByID env i st = (if de_works env DFind then Inr (find_doc st i) else Inl ErrDocDB)"

definition FindByIDsOrdered :: "doc_env \<Rightarrow> string list \<Rightarrow> doc_store \<Rightarrow> doc_error + Document list" where
  "FindByIDsOrdered env ids st =
     (if ids = [] then Inr []
      else if \<not> de_works env DFind then Inl ErrDocDB
      else Inr (List.map_filter (\<lambda>i. if TrimSpace i = '''' \<or> TrimSpace i \<notin> set ids then None else find_doc st (TrimSpace i)) ids))"

definition unbound :: "Document \<Rightarrow> bool" where
  \<comment> \<open>\<open>project_id IS NULL OR TRIM(project_id) = ''\<close>; SQL trims blanks\<close>
  "unbound d = (case doc_ProjectID d of None \<Rightarrow> True | Some p \<Rightarrow> list_all (\<lambda>c. c = CHR '' '') p)"

definition BindOrphanDocsToProject :: "doc_env \<Rightarrow> string list \<Rightarrow> string \<Rightarrow> doc_store \<Rightarrow> (doc_error + unit) \<times> doc_store" where
  "BindOrphanDocsToProject env ids pid st =
     (if ids = [] then (ok, st)
      else if TrimSpace pid = '''' then (Inl ErrIDRequired, st)
      else if normalizeDocIDs ids = [] then (ok, st)
      else if \<not> de_works env DBind then (Inl ErrDocDB, st)
      else (ok, st\<lparr>ds_docs := map (\<lambda>d. if doc_ID d \<in> set (normalizeDocIDs ids) \<and> unbound d
              then d\<lparr>doc_ProjectID := Some (TrimSpace pid)\<rparr> else d) (ds_docs st)\<rparr>))"

definition preview_row :: "string \<Rightarrow> string option \<Rightarrow> doc_message option \<Rightarrow> Document \<Rightarrow> Document" where
  "preview_row status derived msg d =
     d\<lparr>doc_PreviewStatus := status, doc_DerivedPdfDocID := (case derived of None \<Rightarrow> None
          | Some x \<Rightarrow> if TrimSpace x = '''' then None else Some (TrimSpace x)), doc_PreviewErrorMessage := msg\<rparr>"

definition UpdatePreviewMeta ::
    "doc_env \<Rightarrow> string \<Rightarrow> string \<Rightarrow> string option \<Rightarrow> doc_message option \<Rightarrow> doc_store \<Rightarrow> (doc_error + unit) \<times> doc_store" where
  "UpdatePreviewMeta env i status derived msg st =
     (if \<not> de_works env DUpdate then (Inl ErrDocDB, st)
      else (ok, st\<lparr>ds_docs := map (\<lambda>d. if doc_ID d = i then preview_row status derived msg d else d) (ds_docs st)\<rparr>))"

definition blank_or :: "string \<Rightarrow> string \<Rightarrow> string" where
  "blank_or s d = (if TrimSpace s = '''' then d else s)"

definition derived_of :: "Document \<Rightarrow> string" where
  "derived_of d = (case doc_DerivedPdfDocID d of None \<Rightarrow> '''' | Some x \<Rightarrow> TrimSpace x)"

definition clone_derived ::
    "doc_env \<Rightarrow> Document \<Rightarrow> string \<Rightarrow> string \<Rightarrow> doc_store \<Rightarrow> (doc_error + string option) \<times> doc_store" where
  \<comment> \<open>the ID of the copy of the derived document, if there is one\<close>
  "clone_derived env source pid uploader st =
     (if derived_of source = '''' then (Inr None, st)
      else case FindDocByID env (derived_of source) st of
        Inl e \<Rightarrow> (Inl e, st)
      | Inr None \<Rightarrow> (Inr None, st)
      | Inr (Some dd) \<Rightarrow>
          let (i, st1) = new_doc_id env ''doc'' st;
              copy = dd\<lparr>doc_ID := i, doc_Status := blank_or (doc_Status dd) ''parsed'',
                        doc_ReaderKind := blank_or (doc_ReaderKind dd) ''pdf'',
                        doc_PreviewStatus := blank_or (doc_PreviewStatus dd) ''ready'', doc_DerivedPdfDocID := None,
                        doc_UploadedBy := uploader, doc_ProjectID := Some pid\<rparr>
          in (case CreateDoc env copy st1 of (Inl e, st2) \<Rightarrow> (Inl e, st2) | (Inr _, st2) \<Rightarrow> (Inr (Some i), st2)))"

definition CloneToProject ::
    "doc_env \<Rightarrow> Document \<Rightarrow> string \<Rightarrow> string \<Rightarrow> doc_store \<Rightarrow> (doc_error + Document) \<times> doc_store" where
  \<comment> \<open>two statements outside a transaction: a copied derived document stays when the second fails\<close>
  "CloneToProject env source projectID uploadedBy st =
     (let pid = TrimSpace projectID;
          uploader = (if TrimSpace uploadedBy = '''' then TrimSpace (doc_UploadedBy source) else TrimSpace uploadedBy);
          docx = (ToLower (TrimSpace (doc_FileType source)) = ''docx'') in
      if pid = '''' then (Inl ErrIDRequired, st)
      else case (if docx then clone_derived env source pid uploader st else (Inr None, st)) of
        (Inl e, st1) \<Rightarrow> (Inl e, st1)
      | (Inr derived, st1) \<Rightarrow>
          let status = (if derived \<noteq> None then ''ready''
                        else if docx \<and> TrimSpace (doc_PreviewStatus source) \<in> {'''', ''ready''} then ''processing''
                        else doc_PreviewStatus source);
              (i, st2) = new_doc_id env ''doc'' st1;
              clone = source\<lparr>doc_ID := i, doc_Status := blank_or (doc_Status source) ''pending'',
                        doc_ReaderKind := blank_or (doc_ReaderKind source) ''unsupported'',
                        doc_PreviewStatus := blank_or status ''ready'', doc_DerivedPdfDocID := derived,
                        doc_PreviewErrorMessage := (if derived \<noteq> None then None else doc_PreviewErrorMessage source),
                        doc_UploadedBy := uploader, doc_ProjectID := Some pid\<rparr>
          in (case CreateDoc env clone st2 of (Inl e, st3) \<Rightarrow> (Inl e, st3) | (Inr _, st3) \<Rightarrow> (Inr clone, st3)))"

subsection \<open>Conversion tasks\<close>

definition UpsertPendingByDocument ::
    "doc_env \<Rightarrow> string \<Rightarrow> string option \<Rightarrow> doc_store \<Rightarrow> (doc_error + unit) \<times> doc_store" where
  \<comment> \<open>a document has at most one task; a second request resets it\<close>
  "UpsertPendingByDocument env documentID projectID st =
     (let docID = TrimSpace documentID;
          pid = (case projectID of None \<Rightarrow> None | Some p \<Rightarrow> if TrimSpace p = '''' then None else Some (TrimSpace p));
          (i, st1) = new_doc_id env ''dct'' st in
      if docID = '''' then (Inl ErrIDRequired, st)
      else if \<not> de_works env DUpsert then (Inl ErrDocDB, st1)
      else if list_ex (\<lambda>t. ct_DocumentID t = docID) (ds_tasks st)
        then (ok, st1\<lparr>ds_tasks := map (\<lambda>t. if ct_DocumentID t = docID
                then t\<lparr>ct_ProjectID := pid, ct_Status := ''pending'', ct_AttemptCount := 0, ct_ErrorMessage := None,
                       ct_DerivedPDFDocID := None, ct_StartedAt := None, ct_CompletedAt := None\<rparr> else t) (ds_tasks st)\<rparr>)
      else (ok, st1\<lparr>ds_tasks := ds_tasks st @ [\<lparr> ct_ID = i, ct_DocumentID = docID, ct_ProjectID = pid, ct_Status = ''pending'',
              ct_AttemptCount = 0, ct_ErrorMessage = None, ct_DerivedPDFDocID = None, ct_StartedAt = None,
              ct_CompletedAt = None, ct_CreatedAt = de_now env \<rparr>]\<rparr>))"

definition taken :: "doc_env \<Rightarrow> DocumentConversionTask \<Rightarrow> DocumentConversionTask" where
  "taken env t = t\<lparr>ct_Status := ''processing'', ct_AttemptCount := ct_AttemptCount t + 1, ct_ErrorMessage := None,
     ct_StartedAt := (case ct_StartedAt t of None \<Rightarrow> Some (de_now env) | Some s \<Rightarrow> Some s)\<rparr>"

definition take_first ::
    "doc_env \<Rightarrow> (DocumentConversionTask \<Rightarrow> bool) \<Rightarrow> doc_store \<Rightarrow> (doc_error + DocumentConversionTask option) \<times> doc_store" where
  \<comment> \<open>the transaction of the two \<open>Take\<close> functions: the oldest task with the property is marked\<close>
  "take_first env P st =
     (if \<not> de_works env DTake then (Inl ErrDocDB, st)
      else case sort_key ct_CreatedAt (filter P (ds_tasks st)) of
        [] \<Rightarrow> (Inr None, st)
      | t # _ \<Rightarrow> (Inr (Some (taken env t)),
           st\<lparr>ds_tasks := map (\<lambda>x. if ct_ID x = ct_ID t then taken env x else x) (ds_tasks st)\<rparr>))"

definition TakePendingByDocument :: "doc_env \<Rightarrow> string \<Rightarrow> doc_store \<Rightarrow> (doc_error + DocumentConversionTask option) \<times> doc_store" where
  "TakePendingByDocument env documentID st =
     (if TrimSpace documentID = '''' then (Inr None, st)
      else take_first env (\<lambda>t. ct_DocumentID t = TrimSpace documentID \<and> ct_Status t = ''pending'') st)"

definition TakeNextPending :: "doc_env \<Rightarrow> doc_store \<Rightarrow> (doc_error + DocumentConversionTask option) \<times> doc_store" where
  "TakeNextPending env st = take_first env (\<lambda>t. ct_Status t = ''pending'') st"

definition set_tasks :: "doc_env \<Rightarrow> (DocumentConversionTask \<Rightarrow> bool) \<Rightarrow> (DocumentConversionTask \<Rightarrow> DocumentConversionTask)
      \<Rightarrow> doc_store \<Rightarrow> doc_store" where
  "set_tasks env P f st = (if de_works env DTaskSet
     then st\<lparr>ds_tasks := map (\<lambda>t. if P t then f t else t) (ds_tasks st)\<rparr> else st)"

definition ConversionCompleted :: "doc_env \<Rightarrow> string \<Rightarrow> string option \<Rightarrow> doc_store \<Rightarrow> doc_store" where
  "ConversionCompleted env i derived =
     set_tasks env (\<lambda>t. ct_ID t = TrimSpace i)
       (\<lambda>t. t\<lparr>ct_Status := ''completed'', ct_ErrorMessage := None, ct_CompletedAt := Some (de_now env),
              ct_DerivedPDFDocID := (case derived of None \<Rightarrow> None | Some x \<Rightarrow> if TrimSpace x = '''' then None else Some (TrimSpace x))\<rparr>)"

definition ConversionFailed :: "doc_env \<Rightarrow> string \<Rightarrow> doc_message \<Rightarrow> doc_store \<Rightarrow> doc_store" where
  "ConversionFailed env i msg =
     set_tasks env (\<lambda>t. ct_ID t = TrimSpace i)
       (\<lambda>t. t\<lparr>ct_Status := ''failed'', ct_ErrorMessage := Some msg, ct_CompletedAt := Some (de_now env)\<rparr>)"

definition SetFailedByDocument :: "doc_env \<Rightarrow> string \<Rightarrow> doc_message \<Rightarrow> doc_store \<Rightarrow> doc_store" where
  "SetFailedByDocument env documentID msg st =
     (if TrimSpace documentID = '''' then st
      else set_tasks env (\<lambda>t. ct_DocumentID t = TrimSpace documentID \<and> ct_Status t \<in> {''pending'', ''processing''})
       (\<lambda>t. t\<lparr>ct_Status := ''failed'', ct_ErrorMessage := Some msg, ct_CompletedAt := Some (de_now env)\<rparr>) st)"

subsection \<open>Kinds of files\<close>

definition mimeToFileType :: "string \<Rightarrow> string" where
  "mimeToFileType m = (case map_of [
     (''application/pdf'', ''pdf''), (''application/msword'', ''doc''),
     (''application/vnd.openxmlformats-officedocument.wordprocessingml.document'', ''docx''),
     (''application/vnd.ms-excel'', ''xlsx''),
     (''application/vnd.openxmlformats-officedocument.spreadsheetml.sheet'', ''xlsx''),
     (''text/csv'', ''csv''), (''text/tab-separated-values'', ''tsv''), (''text/plain'', ''txt''),
     (''application/json'', ''json''), (''application/xml'', ''xml''), (''text/xml'', ''xml''),
     (''application/x-yaml'', ''yaml''), (''text/yaml'', ''yaml'')] m of None \<Rightarrow> '''' | Some t \<Rightarrow> t)"

definition file_ext :: "string \<Rightarrow> string" where
  \<comment> \<open>\<open>filepath.Ext\<close>: from the last dot of the last path element\<close>
  "file_ext name = (let e = rev (takeWhile (\<lambda>c. c \<noteq> CHR ''/'') (rev name)); tail = takeWhile (\<lambda>c. c \<noteq> CHR ''.'') (rev e) in
     if length tail = length e then '''' else ''.'' @ rev tail)"

definition lower_ext :: "string \<Rightarrow> string" where
  "lower_ext name = (case ToLower (file_ext name) of [] \<Rightarrow> [] | c # cs \<Rightarrow> if c = CHR ''.'' then cs else c # cs)"

definition inferFileType :: "string \<Rightarrow> string \<Rightarrow> string" where
  "inferFileType fileName mime =
     (if TrimSpace (mimeToFileType mime) \<noteq> '''' then TrimSpace (mimeToFileType mime) else lower_ext fileName)"

definition has_prefix :: "string \<Rightarrow> string \<Rightarrow> bool" where
  "has_prefix s p \<longleftrightarrow> take (length p) s = p"

definition inferReaderKind :: "string \<Rightarrow> string \<Rightarrow> string \<Rightarrow> string" where
  "inferReaderKind fileType mime fileName =
     (let f = ToLower (TrimSpace fileType); ft = (if f = '''' then lower_ext fileName else f) in
      if ft \<in> {''pdf'', ''docx''} then ''pdf''
      else if ft \<in> {''xlsx'', ''xls'', ''csv'', ''tsv''} then ''tabular''
      else if ft \<in> {''txt'', ''md'', ''markdown'', ''log'', ''json'', ''xml'', ''yaml'', ''yml''} then ''text''
      else if has_prefix (ToLower (TrimSpace mime)) ''text/'' then ''text'' else ''unsupported'')"

definition is_docx :: "Document \<Rightarrow> bool" where
  "is_docx d \<longleftrightarrow> EqualFold (TrimSpace (doc_FileType d)) ''docx''"

definition inferPreviewStatus :: "string \<Rightarrow> string \<Rightarrow> string" where
  "inferPreviewStatus fileType readerKind =
     (if EqualFold (TrimSpace fileType) ''docx'' then ''processing''
      else if TrimSpace readerKind = ''unsupported'' then ''failed'' else ''ready'')"

definition effectiveReaderKind :: "Document \<Rightarrow> string" where
  "effectiveReaderKind d = (if TrimSpace (doc_ReaderKind d) \<noteq> '''' then TrimSpace (doc_ReaderKind d)
     else inferReaderKind (doc_FileType d) (doc_MimeType d) (doc_FileName d))"

definition effectivePreviewStatus :: "Document \<Rightarrow> string \<Rightarrow> string" where
  "effectivePreviewStatus d readerKind = (if TrimSpace (doc_PreviewStatus d) \<noteq> '''' then TrimSpace (doc_PreviewStatus d)
     else inferPreviewStatus (doc_FileType d) readerKind)"

definition replaceFileExt :: "string \<Rightarrow> string \<Rightarrow> string" where
  "replaceFileExt fileName newExt =
     (let b = (if TrimSpace fileName = '''' then ''document'' else TrimSpace fileName) in
      take (length b - length (file_ext b)) b @ newExt)"

subsection \<open>Uploading\<close>

definition enqueueDocumentConversionTask :: "doc_env \<Rightarrow> string \<Rightarrow> doc_store \<Rightarrow> (doc_error + unit) \<times> doc_store" where
  "enqueueDocumentConversionTask env documentID st =
     (if TrimSpace documentID = '''' then (Inl ErrIDRequired, st)
      else if \<not> de_works env DQueue then (Inl ErrDocDB, st)
      else (ok, st\<lparr>ds_queue := ds_queue st @ [(TrimSpace documentID, de_now env)]\<rparr>))"

definition conversion_refused :: "doc_env \<Rightarrow> string \<Rightarrow> doc_message \<Rightarrow> doc_store \<Rightarrow> doc_store" where
  "conversion_refused env i msg st = SetFailedByDocument env i msg (snd (UpdatePreviewMeta env i ''failed'' None (Some msg) st))"

definition request_conversion :: "doc_env \<Rightarrow> Document \<Rightarrow> doc_store \<Rightarrow> doc_message option \<times> doc_store" where
  \<comment> \<open>the task and its message; the failure, if there is one\<close>
  "request_conversion env d st =
     (case UpsertPendingByDocument env (doc_ID d) (doc_ProjectID d) st of
        (Inl _, st1) \<Rightarrow> (Some MsgTaskCreation, conversion_refused env (doc_ID d) MsgTaskCreation st1)
      | (Inr _, st1) \<Rightarrow>
          if \<not> de_redis env then (None, st1)
          else (case enqueueDocumentConversionTask env (doc_ID d) st1 of
                  (Inl _, st2) \<Rightarrow> (Some MsgEnqueue, conversion_refused env (doc_ID d) MsgEnqueue st2)
                | (Inr _, st2) \<Rightarrow> (None, st2)))"

definition DocumentUpload ::
    "doc_env \<Rightarrow> string \<Rightarrow> string \<Rightarrow> int \<Rightarrow> string \<Rightarrow> string option \<Rightarrow> doc_store \<Rightarrow> (doc_error + Document) \<times> doc_store" where
  "DocumentUpload env fileName mime bytes uploadedBy projectID st =
     (case de_save env fileName of
        None \<Rightarrow> (Inl ErrStorage, st)
      | Some url \<Rightarrow>
          let ft = inferFileType fileName mime; kind = inferReaderKind ft mime fileName;
              (i, st1) = new_doc_id env ''doc'' st;
              d = \<lparr> doc_ID = i, doc_FileName = fileName, doc_FileType = ft, doc_ReaderKind = kind, doc_MimeType = mime,
                    doc_Size = bytes, doc_Status = ''pending'', doc_PreviewStatus = inferPreviewStatus ft kind,
                    doc_DerivedPdfDocID = None, doc_PreviewErrorMessage = None, doc_Summary = None, doc_SourceURL = url,
                    doc_TextExtractURL = None, doc_UploadedBy = uploadedBy, doc_ProjectID = projectID \<rparr>
          in (case CreateDoc env d st1 of
                (Inl e, st2) \<Rightarrow> (Inl e, st2)
              | (Inr _, st2) \<Rightarrow>
                  if is_docx d
                  then (case request_conversion env d st2 of
                          (None, st3) \<Rightarrow> (Inr d, st3)
                        | (Some msg, st3) \<Rightarrow>
                            (Inr (d\<lparr>doc_PreviewStatus := ''failed'', doc_PreviewErrorMessage := Some msg\<rparr>), st3))
                  else (Inr d, st2)))"

subsection \<open>The conversion worker\<close>

definition failConversionTask ::
    "doc_env \<Rightarrow> DocumentConversionTask \<Rightarrow> Document option \<Rightarrow> string \<Rightarrow> doc_store \<Rightarrow> doc_store" where
  "failConversionTask env t source why st =
     (let st1 = (case source of None \<Rightarrow> st
             | Some d \<Rightarrow> snd (UpdatePreviewMeta env (doc_ID d) ''failed'' None (Some (MsgConversion why)) st))
      in ConversionFailed env (ct_ID t) (MsgConversion why) st1)"

definition handleConversionTask :: "doc_env \<Rightarrow> DocumentConversionTask \<Rightarrow> doc_store \<Rightarrow> doc_store" where
  "handleConversionTask env t st =
     (case FindDocByID env (TrimSpace (ct_DocumentID t)) st of
        Inl _ \<Rightarrow> failConversionTask env t None ''read'' st
      | Inr None \<Rightarrow> failConversionTask env t None ''source document not found'' st
      | Inr (Some d) \<Rightarrow>
          if \<not> is_docx d
          then ConversionCompleted env (ct_ID t) None (snd (UpdatePreviewMeta env (doc_ID d) ''ready'' None None st))
          else if de_open env (doc_SourceURL d) \<noteq> Opened then failConversionTask env t (Some d) ''open'' st
          else case de_save env (replaceFileExt (doc_FileName d) ''.pdf'') of
            None \<Rightarrow> failConversionTask env t (Some d) ''save'' st
          | Some url \<Rightarrow>
              let (i, st1) = new_doc_id env ''doc'' st;
                  pdf = \<lparr> doc_ID = i, doc_FileName = replaceFileExt (doc_FileName d) ''.pdf'', doc_FileType = ''pdf'',
                          doc_ReaderKind = ''pdf'', doc_MimeType = ''application/pdf'', doc_Size = de_pdfSize env (doc_FileName d),
                          doc_Status = ''parsed'', doc_PreviewStatus = ''ready'', doc_DerivedPdfDocID = None,
                          doc_PreviewErrorMessage = None, doc_Summary = None, doc_SourceURL = url, doc_TextExtractURL = None,
                          doc_UploadedBy = doc_UploadedBy d, doc_ProjectID = doc_ProjectID d \<rparr>
              in (case CreateDoc env pdf st1 of
                    (Inl _, st2) \<Rightarrow> failConversionTask env t (Some d) ''create'' st2
                  | (Inr _, st2) \<Rightarrow> (case UpdatePreviewMeta env (doc_ID d) ''ready'' (Some i) None st2 of
                        (Inl _, st3) \<Rightarrow> failConversionTask env t (Some d) ''update'' st3
                      | (Inr _, st3) \<Rightarrow> ConversionCompleted env (ct_ID t) (Some i) st3)))"

definition documentConversionTaskTTL :: int where
  \<comment> \<open>thirty minutes in milliseconds\<close>
  "documentConversionTaskTTL = 30 * 60 * 1000"

definition finish_message :: "doc_env \<Rightarrow> int \<Rightarrow> DocumentConversionTask \<Rightarrow> doc_store \<Rightarrow> doc_store" where
  "finish_message env enqueuedAt t st =
     (if de_now env - enqueuedAt > documentConversionTaskTTL
      then ConversionFailed env (ct_ID t) MsgExpired (snd (UpdatePreviewMeta env (ct_DocumentID t) ''failed'' None (Some MsgExpired) st))
      else handleConversionTask env t st)"

definition ackMessage :: "string \<times> int \<Rightarrow> doc_store \<Rightarrow> doc_store" where
  "ackMessage m st = st\<lparr>ds_queue := remove1 m (ds_queue st)\<rparr>"

definition conversion_step :: "doc_env \<Rightarrow> string \<times> int \<Rightarrow> doc_store \<Rightarrow> doc_store" where
  \<comment> \<open>one turn of the worker's loop, for the message it read\<close>
  "conversion_step env m st =
     (case TakePendingByDocument env (fst m) st of
        (Inl _, st1) \<Rightarrow> st1
      | (Inr None, st1) \<Rightarrow> ackMessage m st1
      | (Inr (Some t), st1) \<Rightarrow> ackMessage m (finish_message env (snd m) t st1))"

definition fallback_step :: "doc_env \<Rightarrow> doc_store \<Rightarrow> doc_store" where
  "fallback_step env st =
     (case TakeNextPending env st of (Inr (Some t), st1) \<Rightarrow> handleConversionTask env t st1 | (_, st1) \<Rightarrow> st1)"

subsection \<open>Who may read a document\<close>

type_synonym membership = "string \<Rightarrow> string \<Rightarrow> doc_error + ProjectMember option"

definition ensureProjectViewer :: "membership \<Rightarrow> string \<Rightarrow> string \<Rightarrow> doc_error + unit" where
  "ensureProjectViewer member pid userID =
     (if TrimSpace pid = '''' \<or> TrimSpace userID = '''' then Inl ErrDocumentPermissionDenied
      else bindE (member (TrimSpace pid) (TrimSpace userID)) (\<lambda>m. guardE (m = None) ErrDocumentPermissionDenied))"

definition doc_project :: "Document \<Rightarrow> string" where
  "doc_project d = (case doc_ProjectID d of None \<Rightarrow> '''' | Some p \<Rightarrow> TrimSpace p)"

definition ensureDocumentAccess :: "membership \<Rightarrow> Document \<Rightarrow> string \<Rightarrow> doc_error + unit" where
  "ensureDocumentAccess member d userID =
     (if TrimSpace userID = '''' then Inl ErrDocumentPermissionDenied
      else if doc_project d \<noteq> '''' then ensureProjectViewer member (doc_project d) (TrimSpace userID)
      else guardE (TrimSpace (doc_UploadedBy d) \<noteq> TrimSpace userID) ErrDocumentPermissionDenied)"

definition DocumentGetByID :: "doc_env \<Rightarrow> string \<Rightarrow> doc_store \<Rightarrow> doc_error + Document" where
  "DocumentGetByID env i st =
     bindE (FindDocByID env i st) (\<lambda>found. case found of
        None \<Rightarrow> Inl ErrDocumentNotFound
      | Some d \<Rightarrow>
          let kind = (if TrimSpace (doc_ReaderKind d) = '''' then inferReaderKind (doc_FileType d) (doc_MimeType d) (doc_FileName d)
                      else doc_ReaderKind d)
          in Inr (d\<lparr>doc_ReaderKind := kind, doc_PreviewStatus :=
               (if TrimSpace (doc_PreviewStatus d) = '''' then inferPreviewStatus (doc_FileType d) kind else doc_PreviewStatus d)\<rparr>))"

definition resolvePreviewTarget :: "doc_env \<Rightarrow> Document \<Rightarrow> doc_store \<Rightarrow> doc_error + Document" where
  "resolvePreviewTarget env d st =
     (if is_docx d
      then (if derived_of d = '''' then Inl ErrDocumentPreviewFailed
            else bindE (FindDocByID env (derived_of d) st) (\<lambda>found. case found of
                   None \<Rightarrow> Inl ErrDocumentPreviewFailed | Some dd \<Rightarrow> Inr dd))
      else Inr d)"

record DocumentBinary =
  bin_URL :: string
  bin_FileName :: string

definition openDocumentBinary :: "doc_env \<Rightarrow> Document \<Rightarrow> doc_error + DocumentBinary" where
  \<comment> \<open>the opened file is named by its place in the storage\<close>
  "openDocumentBinary env d = (case de_open env (doc_SourceURL d) of
     Opened \<Rightarrow> Inr \<lparr> bin_URL = doc_SourceURL d, bin_FileName = doc_FileName d \<rparr>
   | StorageNotFound \<Rightarrow> Inl ErrDocumentNotFound | StorageError \<Rightarrow> Inl ErrStorage)"

definition DocumentPreview :: "doc_env \<Rightarrow> membership \<Rightarrow> string \<Rightarrow> string \<Rightarrow> doc_store \<Rightarrow> doc_error + DocumentBinary" where
  "DocumentPreview env member i userID st =
     bindE (DocumentGetByID env i st) (\<lambda>d.
     bindE (ensureDocumentAccess member d userID) (\<lambda>_.
       let status = effectivePreviewStatus d (effectiveReaderKind d) in
       if status = ''processing'' then Inl ErrDocumentPreviewProcessing
       else if status = ''failed'' then Inl ErrDocumentPreviewFailed
       else bindE (resolvePreviewTarget env d st) (\<lambda>target.
            bindE (openDocumentBinary env target) (\<lambda>b.
              Inr (if TrimSpace (bin_FileName b) = '''' then b\<lparr>bin_FileName := doc_FileName d\<rparr> else b)))))"

definition DocumentDownload :: "doc_env \<Rightarrow> membership \<Rightarrow> string \<Rightarrow> string \<Rightarrow> doc_store \<Rightarrow> doc_error + DocumentBinary" where
  "DocumentDownload env member i userID st =
     bindE (DocumentGetByID env i st) (\<lambda>d.
     bindE (ensureDocumentAccess member d userID) (\<lambda>_.
       case openDocumentBinary env d of
         Inr b \<Rightarrow> Inr b
       | Inl e \<Rightarrow>
           if e \<noteq> ErrDocumentNotFound then Inl e
           else if derived_of d = '''' then Inl ErrDocumentNotFound
           else bindE (FindDocByID env (derived_of d) st) (\<lambda>found. case found of
                  None \<Rightarrow> Inl ErrDocumentNotFound | Some dd \<Rightarrow> openDocumentBinary env dd)))"

subsection \<open>The documents of a generation\<close>

fun orphans_if_allowed :: "membership \<Rightarrow> string \<Rightarrow> string \<Rightarrow> Document list \<Rightarrow> doc_error + string list" where
  \<comment> \<open>the loop that checks every document and collects those without a project\<close>
  "orphans_if_allowed member target userID [] = Inr []"
| "orphans_if_allowed member target userID (d # ds) =
     (if doc_project d = ''''
      then (if TrimSpace (doc_UploadedBy d) \<noteq> userID then Inl ErrProjectDenied
            else bindE (orphans_if_allowed member target userID ds) (\<lambda>os. Inr (doc_ID d # os)))
      else if doc_project d = target then orphans_if_allowed member target userID ds
      else bindE (member (doc_project d) userID) (\<lambda>m.
             if m = None then Inl ErrProjectDenied else orphans_if_allowed member target userID ds))"

fun adopt_docs :: "doc_env \<Rightarrow> string \<Rightarrow> string \<Rightarrow> Document list \<Rightarrow> doc_store \<Rightarrow> (doc_error + string list) \<times> doc_store" where
  "adopt_docs env target userID [] st = (Inr [], st)"
| "adopt_docs env target userID (d # ds) st =
     (if doc_project d = '''' \<or> doc_project d = target
      then (case adopt_docs env target userID ds st of
              (Inl e, st1) \<Rightarrow> (Inl e, st1) | (Inr ids, st1) \<Rightarrow> (Inr (doc_ID d # ids), st1))
      else case CloneToProject env d target userID st of
        (Inl e, st1) \<Rightarrow> (Inl e, st1)
      | (Inr c, st1) \<Rightarrow>
          let st2 = (if is_docx c \<and> doc_DerivedPdfDocID c = None then snd (request_conversion env c st1) else st1)
          in (case adopt_docs env target userID ds st2 of
                (Inl e, st3) \<Rightarrow> (Inl e, st3) | (Inr ids, st3) \<Rightarrow> (Inr (doc_ID c # ids), st3)))"

definition normalizeTaskDocumentsToProject ::
    "doc_env \<Rightarrow> membership \<Rightarrow> string \<Rightarrow> string \<Rightarrow> string list \<Rightarrow> doc_store \<Rightarrow> (doc_error + string list) \<times> doc_store" where
  "normalizeTaskDocumentsToProject env member targetID user docIDs st =
     (let target = TrimSpace targetID; userID = TrimSpace user; ids = normalizeDocIDs docIDs in
      if target = '''' \<or> ids = [] then (Inr ids, st)
      else case FindByIDsOrdered env ids st of
        Inl e \<Rightarrow> (Inl e, st)
      | Inr docs \<Rightarrow>
          if docs = [] then (Inl ErrNoDocuments, st)
          else case orphans_if_allowed member target userID docs of
            Inl e \<Rightarrow> (Inl e, st)
          | Inr orphans \<Rightarrow>
              (case (if orphans = [] then (ok, st) else BindOrphanDocsToProject env orphans target st) of
                 (Inl e, st1) \<Rightarrow> (Inl e, st1)
               | (Inr _, st1) \<Rightarrow>
                   (case (if orphans = [] then Inr docs else FindByIDsOrdered env ids st1) of
                      Inl e \<Rightarrow> (Inl e, st1)
                    | Inr docs1 \<Rightarrow> (case adopt_docs env target userID docs1 st1 of
                          (Inl e, st2) \<Rightarrow> (Inl e, st2)
                        | (Inr effective, st2) \<Rightarrow> (if effective = [] then Inl ErrNoDocuments else Inr effective, st2)))))"

definition collectTaskDocuments :: "doc_env \<Rightarrow> string list \<Rightarrow> doc_store \<Rightarrow> doc_error + Document list" where
  "collectTaskDocuments env ids st =
     (if ids = [] then Inl ErrNoDocuments
      else bindE (FindByIDsOrdered env ids st) (\<lambda>docs.
        if docs = [] then Inl ErrNoDocuments
        else let refs = List.map_filter (\<lambda>i. List.find (\<lambda>d. doc_ID d = i) docs) ids
             in if refs = [] then Inl ErrNoDocuments else Inr refs))"

end
