(* ===== verification/DocumentEffects.thy ===== *)
theory DocumentEffects
  imports Documents
begin

text \<open>
  What the document operations keep: identifiers stay distinct (the primary key of the table), and a
  docx that is shown as ready has a row for the PDF it is shown through. The store only grows, and
  every operation is a \<open>doc_step\<close>.
\<close>

subsection \<open>The two tests for docx\<close>

text \<open>\<open>CloneToProject\<close> compares with \<open>ToLower\<close>, the other functions with \<open>EqualFold\<close>.\<close>

lemma fold_head:
  assumes "fold_case s = c # r" and "c \<noteq> CHR ''k''" and "c \<noteq> CHR ''s''"
  obtains a t where "s = a # t" and "ascii_lower a = c" and "fold_case t = r"
  using assms that by (cases s rule: fold_case.cases) (auto split: if_splits)

lemma lower_head:
  assumes "ascii_lower a = c" and "c \<noteq> CHR 0xE2" and "c \<noteq> CHR 0xC4"
  shows "ToLower (a # t) = c # ToLower t"
proof -
  have "ascii_lower CHR 0xE2 = CHR 0xE2" "ascii_lower CHR 0xC4 = CHR 0xC4" by code_simp+
  with assms have "a \<noteq> CHR 0xE2" "a \<noteq> CHR 0xC4" by auto
  with assms(1) show ?thesis by (cases "a # t" rule: ToLower.cases) auto
qed

lemma ToLower_x: "ascii_lower d = CHR ''x'' \<Longrightarrow> ToLower [d] = ''x''"
  using lower_head [of d "CHR ''x''" "[]"] by simp

lemma fold_docx_lower: "fold_case s = ''docx'' \<Longrightarrow> ToLower s = ''docx''"
proof -
  assume "fold_case s = ''docx''"
  then obtain a t where 1: "s = a # t" "ascii_lower a = CHR ''d''" "fold_case t = ''ocx''" by (rule fold_head) simp_all
  from 1(3) obtain b u where 2: "t = b # u" "ascii_lower b = CHR ''o''" "fold_case u = ''cx''" by (rule fold_head) simp_all
  from 2(3) obtain c v where 3: "u = c # v" "ascii_lower c = CHR ''c''" "fold_case v = ''x''" by (rule fold_head) simp_all
  from 3(3) obtain d w where 4: "v = d # w" "ascii_lower d = CHR ''x''" "fold_case w = ''''" by (rule fold_head) simp_all
  from 4(1) 4(3) have "v = [d]" by simp
  with 4(2) have "ToLower v = ''x''" by (simp only: ToLower_x)
  then have "ToLower u = ''cx''" using lower_head [OF 3(2), of v] by (simp only: 3(1)) simp
  then have "ToLower t = ''ocx''" using lower_head [OF 2(2), of u] by (simp only: 2(1)) simp
  then show ?thesis using lower_head [OF 1(2), of t] by (simp only: 1(1)) simp
qed

lemma is_docx_lower:
  assumes "is_docx d"
  shows "ToLower (TrimSpace (doc_FileType d)) = ''docx''"
proof -
  have "fold_case ''docx'' = ''docx''" by code_simp
  with assms have "fold_case (TrimSpace (doc_FileType d)) = ''docx''" by (simp only: is_docx_def EqualFold_def)
  then show ?thesis by (rule fold_docx_lower)
qed

subsection \<open>Links to derived documents\<close>

definition shown_ready :: "Document \<Rightarrow> bool" where
  "shown_ready d \<longleftrightarrow> is_docx d \<and> TrimSpace (doc_PreviewStatus d) = ''ready''"

definition pdf_row :: "Document list \<Rightarrow> string \<Rightarrow> bool" where
  "pdf_row ds i \<longleftrightarrow> (\<exists>d \<in> set ds. doc_ID d = i \<and> \<not> is_docx d)"

definition link_ok :: "Document list \<Rightarrow> Document \<Rightarrow> bool" where
  "link_ok ds d \<longleftrightarrow> (shown_ready d \<longrightarrow> derived_of d \<noteq> '''') \<and> (derived_of d \<noteq> '''' \<longrightarrow> pdf_row ds (derived_of d))"

definition doc_inv :: "doc_store \<Rightarrow> bool" where
  "doc_inv st \<longleftrightarrow> distinct (map doc_ID (ds_docs st)) \<and> (\<forall>d \<in> set (ds_docs st). link_ok (ds_docs st) d)"

definition primary_key :: "doc_env \<Rightarrow> bool" where
  \<comment> \<open>the server refuses two rows with one identifier\<close>
  "primary_key env \<longleftrightarrow> (\<forall>st. de_accepts env st \<longrightarrow> distinct (map doc_ID (ds_docs st)))"

definition keeps :: "doc_store \<Rightarrow> doc_store \<Rightarrow> bool" where
  "keeps st st' \<longleftrightarrow> (doc_inv st \<longrightarrow> doc_inv st' \<and> (\<forall>i. pdf_row (ds_docs st) i \<longrightarrow> pdf_row (ds_docs st') i))"

lemma keeps_same: "ds_docs st' = ds_docs st \<Longrightarrow> keeps st st'"
  by (simp add: keeps_def doc_inv_def)

lemma keeps_trans: "keeps a b \<Longrightarrow> keeps b c \<Longrightarrow> keeps a c"
  by (auto simp: keeps_def)

lemma keepsD: "keeps a b \<Longrightarrow> doc_inv a \<Longrightarrow> doc_inv b"
  by (simp add: keeps_def)

lemma keeps_row: "keeps a b \<Longrightarrow> doc_inv a \<Longrightarrow> pdf_row (ds_docs a) i \<Longrightarrow> pdf_row (ds_docs b) i"
  by (simp add: keeps_def)

lemma pdf_row_snoc [simp]: "pdf_row (ds @ [d]) i \<longleftrightarrow> pdf_row ds i \<or> (doc_ID d = i \<and> \<not> is_docx d)"
  by (auto simp: pdf_row_def)

lemma pdf_row_map:
  assumes "\<And>d. doc_ID (f d) = doc_ID d" and "\<And>d. is_docx (f d) = is_docx d"
  shows "pdf_row (map f ds) i = pdf_row ds i"
  by (auto simp: pdf_row_def assms)

lemma link_ok_snoc: "link_ok ds d \<Longrightarrow> link_ok (ds @ [x]) d"
  by (auto simp: link_ok_def)

lemma link_ok_none: "derived_of d = '''' \<Longrightarrow> \<not> shown_ready d \<Longrightarrow> link_ok ds d"
  by (simp add: link_ok_def)

subsection \<open>The statements\<close>

lemma preview_row_sel [simp]:
  "doc_ID (preview_row s x m d) = doc_ID d" "is_docx (preview_row s x m d) = is_docx d"
  "derived_of (preview_row s x m d) = (case x of None \<Rightarrow> '''' | Some y \<Rightarrow> TrimSpace y)"
  "doc_PreviewStatus (preview_row s x m d) = s"
  by (auto simp: preview_row_def is_docx_def derived_of_def split: option.split)

lemma failed_not_ready [simp]: "\<not> shown_ready (preview_row ''failed'' x m d)"
proof -
  have "TrimSpace ''failed'' = ''failed''" by code_simp
  then show ?thesis by (simp add: shown_ready_def)
qed

lemma map_docs_keeps:
  assumes "\<And>d. doc_ID (f d) = doc_ID d" and "\<And>d. is_docx (f d) = is_docx d"
    and "\<And>d. doc_inv st \<Longrightarrow> d \<in> set (ds_docs st) \<Longrightarrow> link_ok (ds_docs st) d \<Longrightarrow> link_ok (ds_docs st) (f d)"
    and "ds_docs st' = map f (ds_docs st)"
  shows "keeps st st'"
proof -
  have rows: "pdf_row (ds_docs st') i = pdf_row (ds_docs st) i" for i
    using pdf_row_map [of f] assms(1,2,4) by simp
  have "distinct (map doc_ID (ds_docs st))" "\<And>d. d \<in> set (ds_docs st) \<Longrightarrow> link_ok (ds_docs st') (f d)" if "doc_inv st"
    using that assms(3) by (auto simp: doc_inv_def link_ok_def rows)
  moreover have "map doc_ID (ds_docs st') = map doc_ID (ds_docs st)" using assms(1,4) by simp
  moreover have "set (ds_docs st') = f ` set (ds_docs st)" using assms(4) by simp
  ultimately show ?thesis unfolding keeps_def rows by (auto simp: doc_inv_def)
qed

lemma UpdatePreview_keeps:
  assumes "\<And>d. doc_inv st \<Longrightarrow> d \<in> set (ds_docs st) \<Longrightarrow> doc_ID d = i \<Longrightarrow> link_ok (ds_docs st) (preview_row s x m d)"
  shows "keeps st (snd (UpdatePreviewMeta env i s x m st))"
proof (cases "de_works env DUpdate")
  case True
  then show ?thesis
    by (intro map_docs_keeps [of "\<lambda>d. if doc_ID d = i then preview_row s x m d else d"])
      (simp_all add: UpdatePreviewMeta_def assms)
qed (simp add: UpdatePreviewMeta_def keeps_same)

lemma UpdatePreview_failed: "keeps st (snd (UpdatePreviewMeta env i ''failed'' None m st))"
  by (rule UpdatePreview_keeps) (simp add: link_ok_none)

lemma CreateDoc_keeps:
  assumes "CreateDoc env d st = (r, st')" and "primary_key env" and "doc_inv st \<Longrightarrow> link_ok (ds_docs st) d"
  shows "keeps st st'"
  using assms link_ok_snoc [of "ds_docs st" _ d]
  by (auto simp: CreateDoc_def Let_def keeps_def doc_inv_def primary_key_def keeps_same split: if_splits)

lemma CreateDoc_ok: "CreateDoc env d st = (Inr u, st') \<Longrightarrow> ds_docs st' = ds_docs st @ [d]"
  by (auto simp: CreateDoc_def Let_def split: if_splits)

lemma new_doc_id_docs [simp]: "ds_docs (snd (new_doc_id env p st)) = ds_docs st"
  by (simp add: new_doc_id_def)

lemma new_doc_id_trim: "TrimSpace (NewID d k ''doc'') = NewID d k ''doc''"
  by (rule NewID_trim) (simp_all add: plain_char_def less_eq_char_def)

lemma set_tasks_docs [simp]: "ds_docs (set_tasks env P f st) = ds_docs st"
  by (simp add: set_tasks_def)

lemma task_ops_docs [simp]:
  "ds_docs (ConversionCompleted env i x st) = ds_docs st" "ds_docs (ConversionFailed env i m st) = ds_docs st"
  "ds_docs (SetFailedByDocument env i m st) = ds_docs st" "ds_docs (ackMessage mm st) = ds_docs st"
  "ds_docs (snd (enqueueDocumentConversionTask env i st)) = ds_docs st"
  by (simp_all add: ConversionCompleted_def ConversionFailed_def SetFailedByDocument_def ackMessage_def
      enqueueDocumentConversionTask_def)

lemma upsert_docs [simp]: "ds_docs (snd (UpsertPendingByDocument env i p st)) = ds_docs st"
  by (simp add: UpsertPendingByDocument_def new_doc_id_def Let_def)

lemma take_docs: "take_first env P st = (r, st') \<Longrightarrow> ds_docs st' = ds_docs st"
  by (auto simp: take_first_def split: if_splits list.splits)

subsection \<open>The operations\<close>

lemma conversion_refused_keeps: "keeps st (conversion_refused env i m st)"
  unfolding conversion_refused_def
  by (rule keeps_trans [OF UpdatePreview_failed]) (rule keeps_same, simp)

lemma request_keeps: "keeps st (snd (request_conversion env d st))"
proof -
  obtain r st1 where u: "UpsertPendingByDocument env (doc_ID d) (doc_ProjectID d) st = (r, st1)" by fastforce
  then have 1: "keeps st st1" using keeps_same upsert_docs by (metis snd_conv)
  obtain q st2 where e: "enqueueDocumentConversionTask env (doc_ID d) st1 = (q, st2)" by fastforce
  then have "keeps st1 st2" using keeps_same task_ops_docs(5) by (metis snd_conv)
  with 1 have "keeps st st2" by (rule keeps_trans)
  with 1 show ?thesis using keeps_trans [OF _ conversion_refused_keeps]
    by (auto simp: request_conversion_def u e split: sum.split)
qed

lemma find_doc_mem: "find_doc st i = Some d \<Longrightarrow> d \<in> set (ds_docs st) \<and> doc_ID d = i"
  by (auto simp: find_doc_def find_Some_iff)

lemma clone_derived_keeps:
  assumes "clone_derived env s pid u st = (r, st')" and "primary_key env" and "doc_inv st" and "link_ok (ds_docs st) s"
  shows "keeps st st' \<and> (\<forall>i. r = Inr (Some i) \<longrightarrow> i \<noteq> '''' \<and> TrimSpace i = i \<and> pdf_row (ds_docs st') i)"
proof (cases "\<exists>dd. derived_of s \<noteq> '''' \<and> FindDocByID env (derived_of s) st = Inr (Some dd)")
  case True
  then obtain dd where ne: "derived_of s \<noteq> ''''" and f: "FindDocByID env (derived_of s) st = Inr (Some dd)" by auto
  then have dd: "dd \<in> set (ds_docs st)" "doc_ID dd = derived_of s"
    by (auto dest: find_doc_mem simp: FindDocByID_def split: if_splits)
  from assms(4) ne obtain e where e: "e \<in> set (ds_docs st)" "doc_ID e = derived_of s" "\<not> is_docx e"
    by (auto simp: link_ok_def pdf_row_def)
  have "dd = e" using assms(3) dd e by (auto simp: doc_inv_def distinct_map inj_on_def)
  with e have nd: "\<not> is_docx dd" by simp
  define i where "i = NewID (de_draws env) (ds_next st) ''doc''"
  define copy where "copy = dd\<lparr>doc_ID := i, doc_Status := blank_or (doc_Status dd) ''parsed'',
      doc_ReaderKind := blank_or (doc_ReaderKind dd) ''pdf'', doc_PreviewStatus := blank_or (doc_PreviewStatus dd) ''ready'',
      doc_DerivedPdfDocID := None, doc_UploadedBy := u, doc_ProjectID := Some pid\<rparr>"
  define st1 where "st1 = st\<lparr>ds_next := Suc (ds_next st)\<rparr>"
  obtain q st2 where c: "CreateDoc env copy st1 = (q, st2)" by fastforce
  have r: "st' = st2" "r = (case q of Inl e \<Rightarrow> Inl e | Inr _ \<Rightarrow> Inr (Some i))"
    using assms(1) ne f c by (auto simp: clone_derived_def new_doc_id_def i_def copy_def st1_def split: sum.splits)
  have copy: "\<not> is_docx copy" "derived_of copy = ''''" "doc_ID copy = i"
    using nd by (simp_all add: copy_def is_docx_def derived_of_def)
  have "keeps st1 st2" using c assms(2) copy by (intro CreateDoc_keeps [OF c]) (simp_all add: link_ok_none shown_ready_def)
  moreover have "keeps st st1" by (simp add: keeps_same st1_def)
  ultimately have "keeps st st2" using keeps_trans by blast
  moreover have "pdf_row (ds_docs st2) i" if "q = Inr x" for x
    using CreateDoc_ok [of env copy st1 x st2] c that copy by simp
  moreover have "i \<noteq> ''''" "TrimSpace i = i" by (simp_all add: i_def new_doc_id_trim)
  ultimately show ?thesis using r by (auto split: sum.splits)
next
  case False
  then have "st' = st" "\<And>i. r \<noteq> Inr (Some i)"
    using assms(1) by (auto simp: clone_derived_def split: if_splits sum.splits option.splits)
  then show ?thesis by (simp add: keeps_same)
qed

lemma CloneToProject_stages:
  assumes "CloneToProject env s pid u st = (r, st')"
  obtains (refused) "st' = st" "\<And>c. r \<noteq> Inr c"
  | (no_derived) up e where "clone_derived env s (TrimSpace pid) up st = (Inl e, st')" "r = Inl e"
  | (created) up derived st1 clone w where
      "(if ToLower (TrimSpace (doc_FileType s)) = ''docx'' then clone_derived env s (TrimSpace pid) up st else (Inr None, st)) = (Inr derived, st1)"
      "CreateDoc env clone (snd (new_doc_id env ''doc'' st1)) = (w, st')" "doc_ProjectID clone = Some (TrimSpace pid)"
      "doc_DerivedPdfDocID clone = derived" "derived = None \<Longrightarrow> \<not> shown_ready clone"
      "r = (case w of Inl e \<Rightarrow> Inl e | Inr _ \<Rightarrow> Inr clone)"
proof (cases "TrimSpace pid = ''''")
  case True
  with assms have "st' = st" "r = Inl ErrIDRequired" by (auto simp: CloneToProject_def)
  then show ?thesis by (intro refused) simp_all
next
  case False
  define docx where "docx \<longleftrightarrow> ToLower (TrimSpace (doc_FileType s)) = ''docx''"
  define up where "up = (if TrimSpace u = '''' then TrimSpace (doc_UploadedBy s) else TrimSpace u)"
  obtain q st1 where q: "(if docx then clone_derived env s (TrimSpace pid) up st else (Inr None, st)) = (q, st1)" by fastforce
  show ?thesis
  proof (cases q)
    case (Inl e)
    then have "clone_derived env s (TrimSpace pid) up st = (Inl e, st1)" using q by (simp split: if_splits)
    moreover have "r = Inl e" "st' = st1"
      using assms False Inl unfolding CloneToProject_def Let_def docx_def [symmetric] up_def [symmetric] q Inl prod.case sum.case
      by simp_all
    ultimately show ?thesis using no_derived by simp
  next
    case (Inr derived)
    define status where "status = (if derived \<noteq> None then ''ready''
      else if docx \<and> TrimSpace (doc_PreviewStatus s) \<in> {'''', ''ready''} then ''processing'' else doc_PreviewStatus s)"
    define st2 where "st2 = snd (new_doc_id env ''doc'' st1)"
    define clone where "clone = s\<lparr>doc_ID := fst (new_doc_id env ''doc'' st1), doc_Status := blank_or (doc_Status s) ''pending'',
      doc_ReaderKind := blank_or (doc_ReaderKind s) ''unsupported'', doc_PreviewStatus := blank_or status ''ready'',
      doc_DerivedPdfDocID := derived, doc_PreviewErrorMessage := (if derived \<noteq> None then None else doc_PreviewErrorMessage s),
      doc_UploadedBy := up, doc_ProjectID := Some (TrimSpace pid)\<rparr>"
    obtain w st3 where w: "CreateDoc env clone st2 = (w, st3)" by fastforce
    have "CloneToProject env s pid u st =
        (case CreateDoc env clone st2 of (Inl e, st3) \<Rightarrow> (Inl e, st3) | (Inr _, st3) \<Rightarrow> (Inr clone, st3))"
      unfolding CloneToProject_def Let_def docx_def [symmetric] up_def [symmetric] q Inr prod.case sum.case
        status_def [symmetric] clone_def st2_def
      using False by (simp only: if_False case_prod_beta)
    then have r: "st' = st3" "r = (case w of Inl e \<Rightarrow> Inl e | Inr _ \<Rightarrow> Inr clone)" using assms w by (auto split: sum.splits)
    have "\<not> shown_ready clone" if "derived = None"
    proof
      assume sh: "shown_ready clone"
      then have "is_docx s" by (simp add: shown_ready_def clone_def is_docx_def)
      then have "docx" by (simp add: docx_def is_docx_lower)
      have "TrimSpace ''processing'' = ''processing''" by code_simp
      with sh that \<open>docx\<close> show False
        by (auto simp: shown_ready_def clone_def status_def blank_or_def split: if_splits)
    qed
    moreover have "doc_ProjectID clone = Some (TrimSpace pid)" "doc_DerivedPdfDocID clone = derived"
      by (simp_all add: clone_def)
    moreover have "CreateDoc env clone (snd (new_doc_id env ''doc'' st1)) = (w, st')" using w r(1) by (simp add: st2_def)
    ultimately show ?thesis by (intro created [OF q [unfolded docx_def Inr] _ _ _ _ r(2)])
  qed
qed

lemma CloneToProject_keeps:
  assumes "CloneToProject env s pid u st = (r, st')" and "primary_key env" and "doc_inv st" and "link_ok (ds_docs st) s"
  shows "keeps st st'"
  using assms(1)
proof (cases rule: CloneToProject_stages)
  case refused
  then show ?thesis by (simp add: keeps_same)
next
  case (no_derived up e)
  then show ?thesis using clone_derived_keeps [OF _ assms(2-4)] by blast
next
  case (created up derived st1 clone w)
  have 1: "keeps st st1" and some: "\<And>i. derived = Some i \<Longrightarrow> i \<noteq> '''' \<and> TrimSpace i = i \<and> pdf_row (ds_docs st1) i"
    using created(1) clone_derived_keeps [OF _ assms(2-4)] by (auto split: if_splits simp: keeps_same)
  have "link_ok (ds_docs st1) clone"
    using created(4,5) some by (cases derived) (auto simp: link_ok_def derived_of_def)
  then have 3: "keeps (snd (new_doc_id env ''doc'' st1)) st'" by (intro CreateDoc_keeps [OF created(2) assms(2)]) simp
  have "keeps st1 (snd (new_doc_id env ''doc'' st1))" by (rule keeps_same) simp
  from keeps_trans [OF keeps_trans [OF 1 this] 3] show ?thesis .
qed

lemma link_mono: "keeps a b \<Longrightarrow> doc_inv a \<Longrightarrow> link_ok (ds_docs a) d \<Longrightarrow> link_ok (ds_docs b) d"
  using keeps_row [of a b] by (auto simp: link_ok_def)

lemma upload_keeps:
  assumes "primary_key env"
  shows "keeps st (snd (DocumentUpload env name mime n u p st))"
proof (cases "de_save env name")
  case None
  then show ?thesis by (simp add: DocumentUpload_def keeps_same)
next
  case (Some url)
  define ft where "ft = inferFileType name mime"
  define kind where "kind = inferReaderKind ft mime name"
  obtain i st1 where i: "new_doc_id env ''doc'' st = (i, st1)" by fastforce
  define d where "d = \<lparr> doc_ID = i, doc_FileName = name, doc_FileType = ft, doc_ReaderKind = kind, doc_MimeType = mime,
      doc_Size = n, doc_Status = ''pending'', doc_PreviewStatus = inferPreviewStatus ft kind, doc_DerivedPdfDocID = None,
      doc_PreviewErrorMessage = None, doc_Summary = None, doc_SourceURL = url, doc_TextExtractURL = None,
      doc_UploadedBy = u, doc_ProjectID = p \<rparr>"
  obtain q st2 where c: "CreateDoc env d st1 = (q, st2)" by fastforce
  have "TrimSpace ''processing'' = ''processing''" by code_simp
  then have "\<not> shown_ready d" by (simp add: shown_ready_def d_def is_docx_def inferPreviewStatus_def)
  then have "link_ok ds d" for ds by (simp add: link_ok_none d_def derived_of_def)
  then have "keeps st1 st2" using CreateDoc_keeps [OF c assms] by simp
  moreover have "keeps st st1" using new_doc_id_docs [of env "''doc''" st] i by (simp add: keeps_same)
  ultimately have 2: "keeps st st2" using keeps_trans by blast
  have "snd (DocumentUpload env name mime n u p st) \<in> {st2, snd (request_conversion env d st2)}"
    unfolding DocumentUpload_def Some option.case Let_def i prod.case ft_def [symmetric] kind_def [symmetric] d_def [symmetric] c
    by (auto split: sum.split prod.split option.split)
  then show ?thesis using 2 keeps_trans [OF 2 request_keeps] by auto
qed

lemma fail_keeps: "keeps st (failConversionTask env t d why st)"
  unfolding failConversionTask_def Let_def
  by (cases d) (simp_all add: keeps_same keeps_trans [OF UpdatePreview_failed keeps_same])

lemma handle_keeps:
  assumes "primary_key env"
  shows "keeps st (handleConversionTask env t st)"
proof (cases "\<exists>d. FindDocByID env (TrimSpace (ct_DocumentID t)) st = Inr (Some d)")
  case False
  then show ?thesis by (auto simp: handleConversionTask_def fail_keeps split: sum.split option.split)
next
  case True
  then obtain d where f: "FindDocByID env (TrimSpace (ct_DocumentID t)) st = Inr (Some d)" by auto
  then have d: "d \<in> set (ds_docs st)" using find_doc_mem by (auto simp: FindDocByID_def split: if_splits)
  have uniq: "x = d" if "doc_inv st" "x \<in> set (ds_docs st)" "doc_ID x = doc_ID d" for x
    using that d by (auto simp: doc_inv_def distinct_map inj_on_def)
  show ?thesis
  proof (cases "is_docx d")
    case False
    have "keeps st (snd (UpdatePreviewMeta env (doc_ID d) ''ready'' None None st))"
    proof (rule UpdatePreview_keeps)
      fix x assume "doc_inv st" "x \<in> set (ds_docs st)" "doc_ID x = doc_ID d"
      then have "x = d" by (rule uniq)
      with False show "link_ok (ds_docs st) (preview_row ''ready'' None None x)" by (simp add: link_ok_none shown_ready_def)
    qed
    from keeps_trans [OF this keeps_same] show ?thesis using f False by (simp add: handleConversionTask_def)
  next
    case docx: True
    show ?thesis
    proof (cases "de_open env (doc_SourceURL d) = Opened \<and> (\<exists>url. de_save env (replaceFileExt (doc_FileName d) ''.pdf'') = Some url)")
      case False
      then show ?thesis using f docx by (auto simp: handleConversionTask_def fail_keeps split: option.split)
    next
      case True
      then obtain url where url: "de_save env (replaceFileExt (doc_FileName d) ''.pdf'') = Some url" by auto
      obtain i st1 where i: "new_doc_id env ''doc'' st = (i, st1)" by fastforce
      then have it: "TrimSpace i = i" "i \<noteq> ''''" using new_doc_id_trim [of "de_draws env" "ds_next st"]
        by (auto simp: new_doc_id_def)
      define pdf where "pdf = \<lparr> doc_ID = i, doc_FileName = replaceFileExt (doc_FileName d) ''.pdf'', doc_FileType = ''pdf'',
        doc_ReaderKind = ''pdf'', doc_MimeType = ''application/pdf'', doc_Size = de_pdfSize env (doc_FileName d),
        doc_Status = ''parsed'', doc_PreviewStatus = ''ready'', doc_DerivedPdfDocID = None, doc_PreviewErrorMessage = None,
        doc_Summary = None, doc_SourceURL = url, doc_TextExtractURL = None, doc_UploadedBy = doc_UploadedBy d,
        doc_ProjectID = doc_ProjectID d \<rparr>"
      obtain q st2 where c: "CreateDoc env pdf st1 = (q, st2)" by fastforce
      obtain w st3 where u: "UpdatePreviewMeta env (doc_ID d) ''ready'' (Some i) None st2 = (w, st3)" by fastforce
      have "\<not> EqualFold (TrimSpace ''pdf'') ''docx''" by code_simp
      then have np: "\<not> is_docx pdf" by (simp add: is_docx_def pdf_def)
      have "keeps st st1" using new_doc_id_docs [of env "''doc''" st] i by (simp add: keeps_same)
      moreover have "keeps st1 st2" using np
        by (intro CreateDoc_keeps [OF c assms]) (simp add: link_ok_none shown_ready_def derived_of_def pdf_def)
      ultimately have 2: "keeps st st2" using keeps_trans by blast
      have 3: "keeps st2 st3" if "q = Inr x" for x
      proof -
        have "pdf_row (ds_docs st2) i" using CreateDoc_ok [of env pdf st1 x st2] c that np by (simp add: pdf_def)
        then have "keeps st2 (snd (UpdatePreviewMeta env (doc_ID d) ''ready'' (Some i) None st2))"
          by (intro UpdatePreview_keeps) (simp add: link_ok_def it)
        then show ?thesis by (simp add: u)
      qed
      show ?thesis
        using f docx True url
        unfolding handleConversionTask_def f sum.case option.case url Let_def i prod.case pdf_def [symmetric] c
        by (auto simp: u keeps_trans [OF 2 fail_keeps] keeps_trans [OF keeps_trans [OF 2 3] fail_keeps]
            keeps_trans [OF keeps_trans [OF 2 3] keeps_same] split: sum.split)
    qed
  qed
qed

lemma finish_keeps:
  assumes "primary_key env"
  shows "keeps st (finish_message env n t st)"
  by (simp add: finish_message_def handle_keeps [OF assms] keeps_trans [OF UpdatePreview_failed keeps_same])

lemma take_keeps: "TakePendingByDocument env i st = (r, st') \<Longrightarrow> keeps st st'"
  by (auto simp: TakePendingByDocument_def keeps_same dest: take_docs split: if_splits)

lemma step_keeps:
  assumes "primary_key env"
  shows "keeps st (conversion_step env m st)"
proof -
  obtain r st1 where t: "TakePendingByDocument env (fst m) st = (r, st1)" by fastforce
  have 1: "keeps st st1" using t by (rule take_keeps)
  have ack: "keeps a (ackMessage m a)" for a by (simp add: keeps_same)
  show ?thesis using 1 keeps_trans [OF 1 ack] keeps_trans [OF keeps_trans [OF 1 finish_keeps [OF assms]] ack]
    by (auto simp: conversion_step_def t split: sum.split option.split)
qed

lemma fallback_keeps:
  assumes "primary_key env"
  shows "keeps st (fallback_step env st)"
proof -
  obtain r st1 where t: "TakeNextPending env st = (r, st1)" by fastforce
  have 1: "keeps st st1" using t take_docs by (auto simp: TakeNextPending_def keeps_same)
  show ?thesis using 1 keeps_trans [OF 1 handle_keeps [OF assms]]
    by (auto simp: fallback_step_def t split: sum.split option.split)
qed

lemma bind_keeps: "keeps st (snd (BindOrphanDocsToProject env ids p st))"
proof -
  let ?f = "\<lambda>d. if doc_ID d \<in> set (normalizeDocIDs ids) \<and> unbound d then d\<lparr>doc_ProjectID := Some (TrimSpace p)\<rparr> else d"
  have "keeps st (st\<lparr>ds_docs := map ?f (ds_docs st)\<rparr>)"
    by (intro map_docs_keeps [of ?f]) (auto simp: is_docx_def link_ok_def shown_ready_def derived_of_def)
  then show ?thesis by (simp add: BindOrphanDocsToProject_def keeps_same)
qed

lemma adopt_keeps:
  assumes "primary_key env"
  shows "adopt_docs env target u ds st = (r, st') \<Longrightarrow> doc_inv st \<Longrightarrow> list_all (link_ok (ds_docs st)) ds \<Longrightarrow> keeps st st'"
proof (induction ds arbitrary: st r st')
  case Nil
  then show ?case by (simp add: keeps_same)
next
  case (Cons d ds)
  show ?case
  proof (cases "doc_project d = '''' \<or> doc_project d = target")
    case True
    then show ?thesis using Cons by (auto split: prod.splits sum.splits)
  next
    case False
    obtain q st1 where c: "CloneToProject env d target u st = (q, st1)" by fastforce
    have 1: "keeps st st1" using CloneToProject_keeps [OF c assms] Cons.prems by simp
    show ?thesis
    proof (cases q)
      case (Inl e)
      with Cons.prems(1) False c 1 show ?thesis by auto
    next
      case (Inr x)
      define st2 where "st2 = (if is_docx x \<and> doc_DerivedPdfDocID x = None then snd (request_conversion env x st1) else st1)"
      have 2: "keeps st st2" using 1 keeps_trans [OF 1 request_keeps] by (simp add: st2_def)
      obtain w st3 where w: "adopt_docs env target u ds st2 = (w, st3)" by fastforce
      have "st' = st3" using Cons.prems(1) False c Inr w by (auto simp: st2_def [symmetric] Let_def split: sum.splits)
      moreover have "list_all (link_ok (ds_docs st2)) ds"
        using link_mono [OF 2 Cons.prems(2)] Cons.prems(3) by (auto simp: list_all_iff)
      then have "keeps st2 st3" using Cons.IH [OF w] keepsD [OF 2 Cons.prems(2)] by simp
      ultimately show ?thesis using keeps_trans [OF 2] by simp
    qed
  qed
qed

lemma found_docs: "FindByIDsOrdered env ids st = Inr ds \<Longrightarrow> set ds \<subseteq> set (ds_docs st)"
  using find_doc_mem
  by (fastforce simp: FindByIDsOrdered_def map_filter_def split: if_splits)

lemma normalize_stages:
  assumes "normalizeTaskDocumentsToProject env member target u ids st = (r, st')"
  obtains (none) "st' = st" "\<And>x. r = Inr x \<Longrightarrow> (TrimSpace target = '''' \<or> normalizeDocIDs ids = []) \<and> x = normalizeDocIDs ids"
  | (bound) docs orphans q where "FindByIDsOrdered env (normalizeDocIDs ids) st = Inr docs"
      "orphans_if_allowed member (TrimSpace target) (TrimSpace u) docs = Inr orphans" "orphans \<noteq> []"
      "BindOrphanDocsToProject env orphans (TrimSpace target) st = (q, st')" "\<And>x. r \<noteq> Inr x"
  | (adopted) docs orphans st1 docs1 q where "FindByIDsOrdered env (normalizeDocIDs ids) st = Inr docs" "TrimSpace target \<noteq> ''''"
      "orphans_if_allowed member (TrimSpace target) (TrimSpace u) docs = Inr orphans"
      "(if orphans = [] then (ok, st) else BindOrphanDocsToProject env orphans (TrimSpace target) st) = (ok, st1)"
      "FindByIDsOrdered env (normalizeDocIDs ids) st1 = Inr docs1"
      "adopt_docs env (TrimSpace target) (TrimSpace u) docs1 st1 = (q, st')" "\<And>x. r = Inr x \<Longrightarrow> q = Inr x \<and> x \<noteq> []"
proof -
  note def = assms [unfolded normalizeTaskDocumentsToProject_def Let_def]
  consider (triv) "TrimSpace target = '''' \<or> normalizeDocIDs ids = []"
    | (err) e where "TrimSpace target \<noteq> ''''" "normalizeDocIDs ids \<noteq> []" "FindByIDsOrdered env (normalizeDocIDs ids) st = Inl e"
    | (docs) docs where "TrimSpace target \<noteq> ''''" "normalizeDocIDs ids \<noteq> []" "FindByIDsOrdered env (normalizeDocIDs ids) st = Inr docs"
    by (cases "FindByIDsOrdered env (normalizeDocIDs ids) st") auto
  then show thesis
  proof cases
    case triv
    with def none show ?thesis by auto
  next
    case err
    with def none show ?thesis by auto
  next
    case docs
    show ?thesis
    proof (cases "docs = [] \<or> (\<exists>e. orphans_if_allowed member (TrimSpace target) (TrimSpace u) docs = Inl e)")
      case True
      with docs def have "st' = st \<and> (\<forall>x. r \<noteq> Inr x)" by (auto split: if_splits)
      with none show ?thesis by blast
    next
      case False
      then obtain orphans where o: "docs \<noteq> []" "orphans_if_allowed member (TrimSpace target) (TrimSpace u) docs = Inr orphans"
        by (cases "orphans_if_allowed member (TrimSpace target) (TrimSpace u) docs") auto
      obtain q st1 where b: "(if orphans = [] then (ok, st) else BindOrphanDocsToProject env orphans (TrimSpace target) st) = (q, st1)"
        by fastforce
      note step = def [unfolded docs(3) sum.case o(2) b prod.case]
      show ?thesis
      proof (cases q)
        case (Inl e)
        with b have "orphans \<noteq> []" by auto
        with docs o b Inl step show ?thesis by (intro bound [of docs orphans q]) auto
      next
        case (Inr x)
        define again where "again = (if orphans = [] then Inr docs else FindByIDsOrdered env (normalizeDocIDs ids) st1)"
        have again_eq: "again = FindByIDsOrdered env (normalizeDocIDs ids) st1"
          using b docs(3) by (auto simp: again_def)
        show ?thesis
        proof (cases again)
          case (Inl e)
          then have "orphans \<noteq> []" by (auto simp: again_def)
          with docs o b Inr Inl step show ?thesis
            by (intro bound [of docs orphans q]) (auto simp: again_eq [symmetric])
        next
          case (Inr docs1)
          obtain w st2 where w: "adopt_docs env (TrimSpace target) (TrimSpace u) docs1 st1 = (w, st2)" by fastforce
          have "(case w of Inl e \<Rightarrow> (Inl e, st2) | Inr l \<Rightarrow> (if l = [] then Inl ErrNoDocuments else Inr l, st2)) = (r, st')"
            using step docs(1,2) o(1) \<open>q = Inr x\<close> Inr w by (simp add: again_def [symmetric])
          then have "st2 = st'" "\<And>y. r = Inr y \<Longrightarrow> w = Inr y \<and> y \<noteq> []" by (auto split: sum.splits if_splits)
          then show ?thesis
            using docs o b \<open>q = Inr x\<close> Inr again_eq w
            by (intro adopted [of docs orphans st1 docs1 w]) simp_all
        qed
      qed
    qed
  qed
qed

lemma normalize_keeps:
  assumes "primary_key env"
  shows "keeps st (snd (normalizeTaskDocumentsToProject env member target u ids st))"
proof -
  obtain r st' where n: "normalizeTaskDocumentsToProject env member target u ids st = (r, st')" by fastforce
  from n have "keeps st st'"
  proof (cases rule: normalize_stages)
    case none
    then show ?thesis by (simp add: keeps_same)
  next
    case (bound docs orphans q)
    then show ?thesis using bind_keeps [of st env orphans "TrimSpace target"] by simp
  next
    case (adopted docs orphans st1 docs1 q)
    have 1: "keeps st st1"
      using adopted(4) bind_keeps [of st env orphans "TrimSpace target"] by (auto simp: keeps_same split: if_splits)
    have "keeps st1 st'" if "doc_inv st"
      using adopt_keeps [OF assms adopted(6) keepsD [OF 1 that]] found_docs [OF adopted(5)] keepsD [OF 1 that]
      by (auto simp: doc_inv_def list_all_iff)
    then show ?thesis using keeps_trans [OF 1] by (cases "doc_inv st") (simp, simp add: keeps_def)
  qed
  with n show ?thesis by simp
qed

subsection \<open>Steps\<close>

inductive doc_step :: "doc_store \<Rightarrow> doc_store \<Rightarrow> bool" where
  \<comment> \<open>each step is one call of the service or one turn of a worker, in the environment of its moment; or the
    messages of the stream are changed, as by a worker that dies\<close>
  upload: "primary_key env \<Longrightarrow> doc_step st (snd (DocumentUpload env name mime n u p st))"
| message: "primary_key env \<Longrightarrow> doc_step st (conversion_step env m st)"
| fallback: "primary_key env \<Longrightarrow> doc_step st (fallback_step env st)"
| generation: "primary_key env \<Longrightarrow> doc_step st (snd (normalizeTaskDocumentsToProject env member target u ids st))"
| killed: "TakePendingByDocument env i st = (r, st') \<Longrightarrow> doc_step st st'"
| stream: "doc_step st (st\<lparr>ds_queue := q\<rparr>)"

lemma doc_step_keeps: "doc_step st st' \<Longrightarrow> keeps st st'"
  by (induction rule: doc_step.induct)
    (simp_all add: upload_keeps step_keeps fallback_keeps normalize_keeps take_keeps keeps_same)

lemma doc_steps_keep: "doc_step\<^sup>*\<^sup>* st st' \<Longrightarrow> keeps st st'"
  by (induction rule: rtranclp_induct) (auto intro: keeps_trans doc_step_keeps simp: keeps_same)

end
