(* ===== verification/DocumentTheorems.thy ===== *)
theory DocumentTheorems
  imports DocumentEffects Fixtures
begin

text \<open>
  What the document service promises: previews that resolve, conversions that end and agree with their
  document, access by membership or upload, and the documents a generation may use. The example is an
  uploaded docx and its conversion.
\<close>

definition ex_doc_env :: doc_env where
  "ex_doc_env = \<lparr> de_draws = ex_draws, de_now = 0, de_redis = True, de_works = (\<lambda>_. True),
     de_accepts = (\<lambda>st. distinct (map doc_ID (ds_docs st))), de_open = (\<lambda>_. Opened), de_save = (\<lambda>n. Some n),
     de_pdfSize = (\<lambda>_. 1) \<rparr>"

definition ex_empty :: doc_store where
  "ex_empty = \<lparr> ds_docs = [], ds_tasks = [], ds_queue = [], ds_next = 0 \<rparr>"

definition ex_uploaded :: doc_store where
  "ex_uploaded = snd (DocumentUpload ex_doc_env ''a.docx'' '''' 1 ''u'' (Some ''p'') ex_empty)"

definition ex_converted :: doc_store where
  "ex_converted = conversion_step ex_doc_env (hd (ds_queue ex_uploaded)) ex_uploaded"

definition ex_member :: membership where
  "ex_member p u = Inr (if u = ''u'' then Some \<lparr> pm_ID = ''m'', pm_ProjectID = p, pm_UserID = u, pm_Role = ''viewer'', pm_Status = ''active'' \<rparr> else None)"

lemma ex_key: "primary_key ex_doc_env"
  by (simp add: primary_key_def ex_doc_env_def)

lemma ex_steps: "doc_step\<^sup>*\<^sup>* ex_empty ex_converted"
proof -
  have "doc_step ex_empty ex_uploaded" unfolding ex_uploaded_def by (rule doc_step.upload [OF ex_key])
  moreover have "doc_step ex_uploaded ex_converted" unfolding ex_converted_def by (rule doc_step.message [OF ex_key])
  ultimately show ?thesis by simp
qed

subsection \<open>Previews that resolve\<close>

text \<open>C14: a docx that is shown as ready can be shown: in every store the service and its workers reach
  from an empty one, whatever fails on the way, its preview resolves to a row that is no docx itself.\<close>

theorem ready_docx_resolves:
  assumes "ds_docs st0 = []" and "doc_step\<^sup>*\<^sup>* st0 st" and "d \<in> set (ds_docs st)" and "is_docx d"
    and "effectivePreviewStatus d (effectiveReaderKind d) = ''ready''" and "de_works env DFind"
  shows "\<exists>pdf. resolvePreviewTarget env d st = Inr pdf \<and> \<not> is_docx pdf"
proof -
  have inv: "doc_inv st" using keepsD [OF doc_steps_keep [OF assms(2)]] assms(1) by (simp add: doc_inv_def)
  have "inferPreviewStatus (doc_FileType d) k = ''processing''" for k
    using assms(4) by (simp add: inferPreviewStatus_def is_docx_def)
  then have "shown_ready d" using assms(4,5) by (auto simp: shown_ready_def effectivePreviewStatus_def split: if_splits)
  with inv assms(3) have ne: "derived_of d \<noteq> ''''" and "pdf_row (ds_docs st) (derived_of d)"
    by (auto simp: doc_inv_def link_ok_def)
  then obtain dd where dd: "dd \<in> set (ds_docs st)" "doc_ID dd = derived_of d" "\<not> is_docx dd" by (auto simp: pdf_row_def)
  have "find_doc st (derived_of d) = Some dd"
    using find_unique [of doc_ID "ds_docs st" dd] inv dd(1,2) by (simp add: find_doc_def doc_inv_def)
  with assms(4,6) dd(3) ne show ?thesis by (simp add: resolvePreviewTarget_def FindDocByID_def)
qed

theorem ready_docx_resolves_witness:
  "\<exists>pdf. resolvePreviewTarget ex_doc_env (hd (ds_docs ex_converted)) ex_converted = Inr pdf \<and> \<not> is_docx pdf"
proof (rule ready_docx_resolves [OF _ ex_steps])
  show "ds_docs ex_empty = []" by (simp add: ex_empty_def)
  have "ds_docs ex_converted \<noteq> []" by code_simp
  then show "hd (ds_docs ex_converted) \<in> set (ds_docs ex_converted)" by simp
  show "is_docx (hd (ds_docs ex_converted))" by code_simp
  show "effectivePreviewStatus (hd (ds_docs ex_converted)) (effectiveReaderKind (hd (ds_docs ex_converted))) = ''ready''"
    by code_simp
  show "de_works ex_doc_env DFind" by (simp add: ex_doc_env_def)
qed

subsection \<open>Conversions that end\<close>

definition task_status :: "string \<Rightarrow> string \<Rightarrow> doc_store \<Rightarrow> bool" where
  "task_status i s st \<longleftrightarrow> list_all (\<lambda>t. ct_ID t = i \<longrightarrow> ct_Status t = s) (ds_tasks st)"

definition preview_status :: "string \<Rightarrow> string \<Rightarrow> doc_store \<Rightarrow> bool" where
  "preview_status i s st \<longleftrightarrow> list_all (\<lambda>d. doc_ID d = i \<longrightarrow> doc_PreviewStatus d = s) (ds_docs st)"

lemma task_status_end:
  assumes "de_works env DTaskSet"
  shows "task_status (TrimSpace i) ''completed'' (ConversionCompleted env i x st)"
    and "task_status (TrimSpace i) ''failed'' (ConversionFailed env i m st)"
  using assms by (auto simp: task_status_def ConversionCompleted_def ConversionFailed_def set_tasks_def list_all_iff)

lemma preview_status_update: "de_works env DUpdate \<Longrightarrow> preview_status i s (snd (UpdatePreviewMeta env i s x m st))"
  by (simp add: UpdatePreviewMeta_def preview_status_def list.pred_map comp_def) (simp add: list_all_iff)

lemma preview_status_tasks [simp]:
  "preview_status i s (ConversionCompleted env j x st) = preview_status i s st"
  "preview_status i s (ConversionFailed env j m st) = preview_status i s st"
  by (simp_all add: preview_status_def)

definition agrees :: "string \<Rightarrow> string \<Rightarrow> doc_store \<Rightarrow> bool" where
  "agrees task doc st \<longleftrightarrow> (task_status task ''completed'' st \<and> preview_status doc ''ready'' st) \<or>
     (task_status task ''failed'' st \<and> preview_status doc ''failed'' st)"

lemma fail_agrees:
  "de_works env DTaskSet \<Longrightarrow> de_works env DUpdate \<Longrightarrow>
     agrees (TrimSpace (ct_ID t)) (doc_ID d) (failConversionTask env t (Some d) why st)"
  by (simp add: agrees_def failConversionTask_def task_status_end preview_status_update)

text \<open>a conversion that was started ends, and the task and its document agree about how: when the
  updates succeed, whatever the storage answers and whether or not the row of the PDF can be created, the
  task is completed and its document ready, or the task has failed and so has the preview.\<close>

theorem conversion_ends_and_agrees:
  assumes "de_works env DTaskSet" and "de_works env DUpdate" and "de_works env DFind"
    and "find_doc st (TrimSpace (ct_DocumentID t)) = Some d"
  shows "agrees (TrimSpace (ct_ID t)) (doc_ID d) (handleConversionTask env t st)"
proof -
  have f: "FindDocByID env (TrimSpace (ct_DocumentID t)) st = Inr (Some d)" using assms(3,4) by (simp add: FindDocByID_def)
  have fin: "agrees (TrimSpace (ct_ID t)) (doc_ID d) (ConversionCompleted env (ct_ID t) y (snd (UpdatePreviewMeta env (doc_ID d) ''ready'' x m s)))"
    for x y m s by (simp add: agrees_def task_status_end preview_status_update assms)
  show ?thesis
    unfolding handleConversionTask_def f sum.case option.case
    using fin fail_agrees [OF assms(1,2)] assms(2)
    by (auto simp: Let_def UpdatePreviewMeta_def split: option.split prod.split sum.split)
qed

theorem conversion_ends_and_agrees_witness:
  "agrees (TrimSpace (ct_ID (hd (ds_tasks ex_uploaded)))) (doc_ID (hd (ds_docs ex_uploaded)))
     (handleConversionTask ex_doc_env (hd (ds_tasks ex_uploaded)) ex_uploaded)"
proof (rule conversion_ends_and_agrees)
  show "find_doc ex_uploaded (TrimSpace (ct_DocumentID (hd (ds_tasks ex_uploaded)))) = Some (hd (ds_docs ex_uploaded))"
    by code_simp
qed (simp_all add: ex_doc_env_def)

subsection \<open>A worker that dies\<close>

lemma take_first_some:
  assumes "take_first env P st = (Inr (Some t'), st1)"
  obtains t where "t \<in> set (ds_tasks st)" "P t" "t' = taken env t"
    "st1 = st\<lparr>ds_tasks := map (\<lambda>x. if ct_ID x = ct_ID t then taken env x else x) (ds_tasks st)\<rparr>"
proof -
  obtain t ts where s: "sort_key ct_CreatedAt (filter P (ds_tasks st)) = t # ts"
    using assms by (cases "sort_key ct_CreatedAt (filter P (ds_tasks st))") (auto simp: take_first_def split: if_splits)
  have "set (sort_key ct_CreatedAt (filter P (ds_tasks st))) = {x \<in> set (ds_tasks st). P x}" by simp
  then have "t \<in> set (ds_tasks st)" "P t" using s by auto
  then show thesis using that assms s by (auto simp: take_first_def split: if_splits)
qed

lemma taken_status [simp]: "ct_Status (taken env t) = ''processing''" "ct_DocumentID (taken env t) = ct_DocumentID t"
  by (simp_all add: taken_def)

definition stuck :: "string \<Rightarrow> doc_store \<Rightarrow> bool" where
  "stuck doc st \<longleftrightarrow> list_all (\<lambda>t. ct_DocumentID t = doc \<longrightarrow> ct_Status t = ''processing'') (ds_tasks st)"

text \<open>a conversion whose worker dies is lost: the task is taken before the message is acknowledged, so
  when the stream delivers the message again no task is pending, the message is acknowledged, and task and
  document stay in processing.\<close>

theorem crashed_conversion_lost:
  assumes "TakePendingByDocument env i st = (Inr (Some t), st1)" and "distinct (map ct_DocumentID (ds_tasks st))"
    and "de_works env' DTake"
  shows "conversion_step env' (i, n) st1 = ackMessage (i, n) st1 \<and> stuck (TrimSpace i) st1 \<and> ds_docs st1 = ds_docs st"
proof -
  from assms(1) have "take_first env (\<lambda>t. ct_DocumentID t = TrimSpace i \<and> ct_Status t = ''pending'') st = (Inr (Some t), st1)"
    and i: "TrimSpace i \<noteq> ''''" by (auto simp: TakePendingByDocument_def split: if_splits)
  then obtain u where u: "u \<in> set (ds_tasks st)" "ct_DocumentID u = TrimSpace i"
    "st1 = st\<lparr>ds_tasks := map (\<lambda>x. if ct_ID x = ct_ID u then taken env x else x) (ds_tasks st)\<rparr>" by (elim take_first_some) auto
  have "x = u" if "x \<in> set (ds_tasks st)" "ct_DocumentID x = TrimSpace i" for x
    using assms(2) that u(1,2) by (auto simp: distinct_map inj_on_def)
  note only = this
  have proc: "ct_Status x = ''processing''" if "x \<in> set (ds_tasks st1)" "ct_DocumentID x = TrimSpace i" for x
  proof -
    from that(1) u(3) obtain y where y: "y \<in> set (ds_tasks st)" "x = (if ct_ID y = ct_ID u then taken env y else y)" by fastforce
    with that(2) have "y = u" by (intro only) (simp_all split: if_splits)
    with y show ?thesis by simp
  qed
  then have "filter (\<lambda>t. ct_DocumentID t = TrimSpace i \<and> ct_Status t = ''pending'') (ds_tasks st1) = []"
    by (auto simp: filter_empty_conv)
  then have "TakePendingByDocument env' i st1 = (Inr None, st1)"
    using assms(3) i by (simp add: TakePendingByDocument_def take_first_def)
  then show ?thesis using proc u(3) by (simp add: conversion_step_def stuck_def list_all_iff)
qed

definition ex_task :: DocumentConversionTask where
  "ex_task = \<lparr> ct_ID = ''k'', ct_DocumentID = ''d'', ct_ProjectID = None, ct_Status = ''pending'', ct_AttemptCount = 0,
     ct_ErrorMessage = None, ct_DerivedPDFDocID = None, ct_StartedAt = None, ct_CompletedAt = None, ct_CreatedAt = 0 \<rparr>"

theorem crashed_conversion_lost_witness:
  "conversion_step ex_doc_env (''d'', 0) (ex_empty\<lparr>ds_tasks := [taken ex_doc_env ex_task]\<rparr>) =
     ackMessage (''d'', 0) (ex_empty\<lparr>ds_tasks := [taken ex_doc_env ex_task]\<rparr>) \<and>
   stuck (TrimSpace ''d'') (ex_empty\<lparr>ds_tasks := [taken ex_doc_env ex_task]\<rparr>) \<and>
   ds_docs (ex_empty\<lparr>ds_tasks := [taken ex_doc_env ex_task]\<rparr>) = ds_docs (ex_empty\<lparr>ds_tasks := [ex_task]\<rparr>)"
proof (rule crashed_conversion_lost [where env = ex_doc_env and t = "taken ex_doc_env ex_task"])
  have "TrimSpace ''d'' = ''d''" by code_simp
  then show "TakePendingByDocument ex_doc_env ''d'' (ex_empty\<lparr>ds_tasks := [ex_task]\<rparr>) =
      (Inr (Some (taken ex_doc_env ex_task)), ex_empty\<lparr>ds_tasks := [taken ex_doc_env ex_task]\<rparr>)"
    by (simp add: TakePendingByDocument_def take_first_def ex_doc_env_def ex_empty_def ex_task_def)
qed (simp_all add: ex_doc_env_def ex_empty_def)

subsection \<open>Who sees a document\<close>

definition may_read :: "membership \<Rightarrow> string \<Rightarrow> Document \<Rightarrow> bool" where
  "may_read member u d \<longleftrightarrow> (if doc_project d = '''' then TrimSpace (doc_UploadedBy d) = TrimSpace u
     else \<exists>m. member (doc_project d) (TrimSpace u) = Inr (Some m))"

lemma doc_project_trim [simp]: "TrimSpace (doc_project d) = doc_project d"
  by (simp add: doc_project_def split: option.split)

lemma access_may_read: "ensureDocumentAccess member d u = Inr x \<Longrightarrow> TrimSpace u \<noteq> '''' \<and> may_read member u d"
  by (auto simp: ensureDocumentAccess_def may_read_def ensureProjectViewer_def guardE_def bindE_Inr_iff split: if_splits)

definition served_from :: "doc_store \<Rightarrow> Document \<Rightarrow> DocumentBinary \<Rightarrow> bool" where
  \<comment> \<open>the file of the document, or of the row it was derived to\<close>
  "served_from st d b \<longleftrightarrow> bin_URL b = doc_SourceURL d \<or>
     (\<exists>dd. find_doc st (derived_of d) = Some dd \<and> bin_URL b = doc_SourceURL dd)"

lemma shown_row_sel [simp]:
  "doc_project (d\<lparr>doc_ReaderKind := k\<rparr>) = doc_project d" "doc_project (d\<lparr>doc_PreviewStatus := s\<rparr>) = doc_project d"
  "derived_of (d\<lparr>doc_ReaderKind := k\<rparr>) = derived_of d" "derived_of (d\<lparr>doc_PreviewStatus := s\<rparr>) = derived_of d"
  "doc_project (d\<lparr>doc_ReaderKind := k, doc_PreviewStatus := s\<rparr>) = doc_project d"
  "derived_of (d\<lparr>doc_ReaderKind := k, doc_PreviewStatus := s\<rparr>) = derived_of d"
  by (simp_all add: doc_project_def derived_of_def)

lemma GetByID_row:
  assumes "DocumentGetByID env i st = Inr d"
  obtains d0 where "find_doc st i = Some d0" "doc_SourceURL d = doc_SourceURL d0" "derived_of d = derived_of d0"
    "may_read member u d = may_read member u d0"
  using assms
  by (auto simp: DocumentGetByID_def FindDocByID_def Let_def may_read_def split: if_splits option.splits)

lemma opened_url: "openDocumentBinary env d = Inr b \<Longrightarrow> bin_URL b = doc_SourceURL d"
  by (auto simp: openDocumentBinary_def split: storage_answer.splits)

lemma resolved_row:
  "resolvePreviewTarget env d st = Inr t \<Longrightarrow> t = d \<or> find_doc st (derived_of d) = Some t"
  by (auto simp: resolvePreviewTarget_def FindDocByID_def bindE_Inr_iff split: if_splits option.splits)

text \<open>a file is served only to someone who may read its document: a preview or a download succeeds only
  for a member of the document's project, or its uploader while it has none, and what is served is the
  document's file or that of the row derived from it.\<close>

theorem documents_served_to_readers:
  assumes "DocumentPreview env member i u st = Inr b \<or> DocumentDownload env member i u st = Inr b"
  shows "\<exists>d. find_doc st i = Some d \<and> may_read member u d \<and> served_from st d b"
proof -
  from assms obtain d where d: "DocumentGetByID env i st = Inr d" "ensureDocumentAccess member d u = Inr ()"
    and b: "\<exists>t. (t = d \<or> find_doc st (derived_of d) = Some t) \<and> bin_URL b = doc_SourceURL t"
  proof
    assume "DocumentPreview env member i u st = Inr b"
    then obtain d t b0 where "DocumentGetByID env i st = Inr d" "ensureDocumentAccess member d u = Inr ()"
        "resolvePreviewTarget env d st = Inr t" "openDocumentBinary env t = Inr b0"
        "bin_URL b = bin_URL b0"
      by (auto simp: DocumentPreview_def Let_def bindE_Inr_iff split: if_splits)
    then show thesis using that resolved_row [of env d st t] opened_url [of env t b0] by auto
  next
    assume "DocumentDownload env member i u st = Inr b"
    then obtain d where d: "DocumentGetByID env i st = Inr d" "ensureDocumentAccess member d u = Inr ()"
        and o: "openDocumentBinary env d = Inr b \<or>
          (\<exists>dd. FindDocByID env (derived_of d) st = Inr (Some dd) \<and> openDocumentBinary env dd = Inr b)"
      by (auto simp: DocumentDownload_def bindE_Inr_iff split: if_splits sum.splits option.splits)
    then show thesis using that opened_url by (auto simp: FindDocByID_def split: if_splits)
  qed
  from d(1) obtain d0 where d0: "find_doc st i = Some d0" "doc_SourceURL d = doc_SourceURL d0"
      "derived_of d = derived_of d0" "may_read member u d = may_read member u d0" by (rule GetByID_row)
  then show ?thesis using access_may_read [OF d(2)] b by (auto simp: served_from_def)
qed

definition ex_doc :: Document where
  "ex_doc = \<lparr> doc_ID = ''d'', doc_FileName = ''f'', doc_FileType = ''pdf'', doc_ReaderKind = ''pdf'', doc_MimeType = '''',
     doc_Size = 1, doc_Status = ''parsed'', doc_PreviewStatus = ''ready'', doc_DerivedPdfDocID = None,
     doc_PreviewErrorMessage = None, doc_Summary = None, doc_SourceURL = ''x'', doc_TextExtractURL = None,
     doc_UploadedBy = ''v'', doc_ProjectID = Some ''p'' \<rparr>"

theorem documents_served_to_readers_witness:
  "\<exists>d. find_doc (ex_empty\<lparr>ds_docs := [ex_doc]\<rparr>) ''d'' = Some d \<and> may_read ex_member ''u'' d \<and>
     served_from (ex_empty\<lparr>ds_docs := [ex_doc]\<rparr>) d \<lparr> bin_URL = ''x'', bin_FileName = ''f'' \<rparr>"
  by (rule documents_served_to_readers [of ex_doc_env]) code_simp

subsection \<open>The documents of a generation\<close>

definition in_project :: "doc_store \<Rightarrow> string \<Rightarrow> string \<Rightarrow> bool" where
  "in_project st i p \<longleftrightarrow> list_ex (\<lambda>d. doc_ID d = i \<and> doc_project d = p) (ds_docs st)"

definition stays :: "doc_store \<Rightarrow> doc_store \<Rightarrow> bool" where
  "stays st st' \<longleftrightarrow> (\<forall>i p. in_project st i p \<longrightarrow> in_project st' i p)"

lemma stays_same: "ds_docs st' = ds_docs st \<Longrightarrow> stays st st'"
  by (simp add: stays_def in_project_def)

lemma stays_trans: "stays a b \<Longrightarrow> stays b c \<Longrightarrow> stays a c"
  by (simp add: stays_def)

lemma preview_project [simp]: "doc_project (preview_row s x m d) = doc_project d"
  by (simp add: preview_row_def doc_project_def)

lemma stays_preview: "stays st (snd (UpdatePreviewMeta env i s x m st))"
proof -
  let ?f = "\<lambda>d. if doc_ID d = i then preview_row s x m d else d"
  have "list_ex (\<lambda>d. doc_ID d = j \<and> doc_project d = p) (map ?f ds) = list_ex (\<lambda>d. doc_ID d = j \<and> doc_project d = p) ds"
    for j p ds by (induction ds) simp_all
  then show ?thesis by (simp add: stays_def in_project_def UpdatePreviewMeta_def)
qed

lemma stays_create: "CreateDoc env d st = (r, st') \<Longrightarrow> stays st st'"
  by (auto simp: CreateDoc_def Let_def stays_def in_project_def split: if_splits)

lemma stays_new: "stays st (snd (new_doc_id env p st))"
  by (simp add: stays_same)

lemma stays_request: "stays st (snd (request_conversion env d st))"
proof -
  obtain r st1 where u: "UpsertPendingByDocument env (doc_ID d) (doc_ProjectID d) st = (r, st1)" by fastforce
  then have 1: "stays st st1" using stays_same upsert_docs by (metis snd_conv)
  obtain q st2 where e: "enqueueDocumentConversionTask env (doc_ID d) st1 = (q, st2)" by fastforce
  then have "stays st1 st2" using stays_same task_ops_docs(5) by (metis snd_conv)
  with 1 have 2: "stays st st2" by (rule stays_trans)
  have "stays a (conversion_refused env i m a)" for a i m
    unfolding conversion_refused_def by (rule stays_trans [OF stays_preview]) (rule stays_same, simp)
  with 1 2 show ?thesis using stays_trans by (auto simp: request_conversion_def u e split: sum.split)
qed

lemma stays_clone_derived: "clone_derived env s p u st = (r, st') \<Longrightarrow> stays st st'"
  by (auto simp: clone_derived_def new_doc_id_def Let_def stays_def in_project_def
      dest!: stays_create split: if_splits sum.splits option.splits prod.splits)

lemma stays_clone:
  assumes "CloneToProject env s p u st = (r, st')"
  shows "stays st st' \<and> (\<forall>c. r = Inr c \<longrightarrow> in_project st' (doc_ID c) (TrimSpace p))"
  using assms
proof (cases rule: CloneToProject_stages)
  case refused
  then show ?thesis by (simp add: stays_same)
next
  case (no_derived up e)
  then show ?thesis using stays_clone_derived by blast
next
  case (created up derived st1 clone w)
  have 1: "stays st st1" using created(1) stays_clone_derived by (auto simp: stays_same split: if_splits)
  then have "stays st st'" using stays_trans [OF 1 stays_trans [OF stays_new stays_create [OF created(2)]]] by blast
  moreover have "in_project st' (doc_ID clone) (TrimSpace p)" if "w = Inr x" for x
    using CreateDoc_ok created(2,3) that by (force simp: in_project_def doc_project_def)
  ultimately show ?thesis using created(6) by (auto split: sum.splits)
qed

lemma adopt_in_project:
  assumes "TrimSpace target = target"
  shows "adopt_docs env target u ds st = (r, st') \<Longrightarrow> list_all (\<lambda>d. in_project st (doc_ID d) (doc_project d)) ds \<Longrightarrow>
    stays st st' \<and> (\<forall>ids. r = Inr ids \<longrightarrow> list_all (\<lambda>i. in_project st' i '''' \<or> in_project st' i target) ids)"
proof (induction ds arbitrary: st r st')
  case Nil
  then show ?case by (auto simp: stays_same)
next
  case (Cons d ds)
  show ?case
  proof (cases "doc_project d = '''' \<or> doc_project d = target")
    case True
    obtain w st1 where w: "adopt_docs env target u ds st = (w, st1)" by fastforce
    have "stays st st1" "\<And>ids. w = Inr ids \<Longrightarrow> list_all (\<lambda>i. in_project st1 i '''' \<or> in_project st1 i target) ids"
      using Cons.IH [OF w] Cons.prems(2) by auto
    moreover have "in_project st1 (doc_ID d) (doc_project d)" using calculation(1) Cons.prems(2) by (simp add: stays_def)
    ultimately show ?thesis using Cons.prems(1) True w by (auto split: sum.splits)
  next
    case False
    obtain q st1 where c: "CloneToProject env d target u st = (q, st1)" by fastforce
    note cl = stays_clone [OF c]
    show ?thesis
    proof (cases q)
      case (Inl e)
      with Cons.prems(1) False c cl show ?thesis by auto
    next
      case (Inr x)
      define st2 where "st2 = (if is_docx x \<and> doc_DerivedPdfDocID x = None then snd (request_conversion env x st1) else st1)"
      have 1: "stays st1 st2" by (simp add: st2_def stays_request stays_same)
      have 2: "stays st st2" using cl stays_trans [OF _ 1] by blast
      obtain w st3 where w: "adopt_docs env target u ds st2 = (w, st3)" by fastforce
      have ds: "list_all (\<lambda>d. in_project st2 (doc_ID d) (doc_project d)) ds"
        using 2 Cons.prems(2) by (auto simp: stays_def list_all_iff)
      note ih = Cons.IH [OF w ds]
      have "in_project st3 (doc_ID x) target" using cl Inr 1 ih assms by (simp add: stays_def)
      moreover have "stays st st3" using 2 ih stays_trans by blast
      moreover have "st' = st3" "\<And>ids. r = Inr ids \<Longrightarrow> \<exists>l. w = Inr l \<and> ids = doc_ID x # l"
        using Cons.prems(1) False c Inr w by (auto simp: st2_def [symmetric] Let_def split: sum.splits)
      ultimately show ?thesis using ih by auto
    qed
  qed
qed

lemma orphans_allowed:
  "orphans_if_allowed member target (TrimSpace u) ds = Inr os \<Longrightarrow>
     list_all (\<lambda>d. doc_project d = target \<or> may_read member u d) ds"
proof (induction ds arbitrary: os)
  case (Cons d ds)
  have "doc_project d = target \<or> may_read member u d"
    using Cons.prems by (auto simp: may_read_def bindE_Inr_iff split: if_splits)
  moreover have "\<exists>os. orphans_if_allowed member target (TrimSpace u) ds = Inr os"
    using Cons.prems by (auto simp: bindE_Inr_iff split: if_splits)
  ultimately show ?case using Cons.IH by auto
qed simp

lemma found_in_project:
  "FindByIDsOrdered env ids st = Inr ds \<Longrightarrow> list_all (\<lambda>d. in_project st (doc_ID d) (doc_project d)) ds"
  using found_docs [of env ids st ds] by (auto simp: list_all_iff list_ex_iff in_project_def)

text \<open>C13: a generation uses only documents its user may use: unless its target has no name or it has no
  documents, every document it names belongs to the target project already or may be read by the user, and
  what it uses afterwards lies in the target or in no project, copied there where needed.\<close>

theorem generation_documents_allowed:
  assumes "normalizeTaskDocumentsToProject env member target u ids st = (Inr used, st')"
    and "TrimSpace target \<noteq> ''''" and "normalizeDocIDs ids \<noteq> []"
  shows "\<exists>docs. FindByIDsOrdered env (normalizeDocIDs ids) st = Inr docs \<and> used \<noteq> [] \<and>
    list_all (\<lambda>d. doc_project d = TrimSpace target \<or> may_read member u d) docs \<and>
    list_all (\<lambda>i. in_project st' i '''' \<or> in_project st' i (TrimSpace target)) used"
  using assms(1)
proof (cases rule: normalize_stages)
  case none
  with assms(2,3) show ?thesis by blast
next
  case (bound docs orphans q)
  then show ?thesis by blast
next
  case (adopted docs orphans st1 docs1 q)
  have "list_all (\<lambda>d. doc_project d = TrimSpace target \<or> may_read member u d) docs"
    using adopted(3) by (rule orphans_allowed)
  moreover have "list_all (\<lambda>i. in_project st' i '''' \<or> in_project st' i (TrimSpace target)) used"
    using adopt_in_project [OF TrimSpace_TrimSpace adopted(6) found_in_project [OF adopted(5)]] adopted(7) by blast
  ultimately show ?thesis using adopted(1,7) by blast
qed

definition ex_adopted :: "(doc_error + string list) \<times> doc_store" where
  "ex_adopted = normalizeTaskDocumentsToProject ex_doc_env ex_member ''q'' ''u'' [''d''] (ex_empty\<lparr>ds_docs := [ex_doc]\<rparr>)"

theorem generation_documents_allowed_witness:
  "\<exists>docs. FindByIDsOrdered ex_doc_env (normalizeDocIDs [''d'']) (ex_empty\<lparr>ds_docs := [ex_doc]\<rparr>) = Inr docs \<and>
    [NewID ex_draws 0 ''doc''] \<noteq> [] \<and> list_all (\<lambda>d. doc_project d = TrimSpace ''q'' \<or> may_read ex_member ''u'' d) docs \<and>
    list_all (\<lambda>i. in_project (snd ex_adopted) i '''' \<or> in_project (snd ex_adopted) i (TrimSpace ''q'')) [NewID ex_draws 0 ''doc'']"
proof (rule generation_documents_allowed)
  have "fst ex_adopted = Inr [NewID ex_draws 0 ''doc'']" by code_simp
  then show "normalizeTaskDocumentsToProject ex_doc_env ex_member ''q'' ''u'' [''d''] (ex_empty\<lparr>ds_docs := [ex_doc]\<rparr>) =
      (Inr [NewID ex_draws 0 ''doc''], snd ex_adopted)"
    by (metis ex_adopted_def prod.collapse)
  show "TrimSpace ''q'' \<noteq> ''''" by code_simp
  show "normalizeDocIDs [''d''] \<noteq> []" by code_simp
qed

end
