(* ===== verification/AgentStore.thy ===== *)
theory AgentStore
  imports Safety Hybrid
begin

text \<open>
  The rows an agent run keeps in the database (\<open>internal/model/agent.go\<close>,
  \<open>internal/repository/agent.go\<close>): the session, one row per tool call, and what a paused session
  waits for. The environment says which statements succeed, in the store they find. Results and error
  texts are named by constructors (\<open>ProviderErr\<close> says whether the error of the model comes from the
  context of the run); a patch or a preview is stored as it is, its JSON is not printed.
\<close>

subsection \<open>Texts and rows\<close>

datatype run_error =
    ErrUnknownToolCalled
  | ErrAgentPermissionDenied
  | UnsupportedGraphType string string
  | GraphErr graph_error
  | BadParameters string graph_error
  | WaitErr session_error
  | SafetyErr safety_error
  | ErrAuditCreate
  | ErrAuditUpdate "run_error option"
  | ErrAgentDisabled
  | ErrAgentConversationNotFound
  | ErrAgentMessageEmpty
  | ErrAgentInvalidGraphSnapshot
  | ErrAgentClientRevisionConflict
  | UnsupportedConversationType string
  | ErrRunStore
  | ProviderErr bool string

datatype call_text =
    GraphText exec_summary
  | ErrorText run_error
  | WarningText warning
  | SkippedReadOnly string
  | UserCancelled
  | ClientToolDispatched
  | PreviewDiscardedText
  | PreviewOnlyText
  | WaitingUserConfirmation
  | CallStatus string string

record AgentToolCall =
  tc_ID :: string
  tc_SessionID :: string
  tc_CallID :: string
  tc_ToolName :: string
  tc_Tier :: string
  tc_Arguments :: json
  tc_Result :: "call_text option"
  tc_PatchJSON :: "GraphPatch option"
  tc_Status :: string
  tc_ErrorMsg :: "run_error option"

record AgentSessionRuntime =
  rt_SessionID :: string
  rt_PendingCallID :: "string option"
  rt_PendingTool :: "string option"
  rt_PendingTier :: "string option"
  rt_PendingArgs :: json
  rt_PendingPreview :: "HybridPreview option"
  rt_WaitType :: string
  rt_WaitStatus :: string
  rt_LastEventSeq :: int
  rt_ExpiresAt :: "int option"

record AgentSessionRow =
  as_ID :: string
  as_ConversationID :: string
  as_ProjectID :: string
  as_UserID :: string
  as_GraphType :: string
  as_State :: string
  as_ToolCallCount :: nat
  as_ServerOps :: nat
  as_ClientOps :: nat
  as_HybridOps :: nat
  as_TokensUsed :: int
  as_ErrorMessage :: "run_error option"
  as_EndedAt :: "int option"

record agent_store =
  ag_sessions :: "AgentSessionRow list"
  ag_calls :: "AgentToolCall list"
  ag_runtime :: "AgentSessionRuntime list"

datatype agent_command = ACreateCall | AUpdateCall | AUpsertRuntime | AClearRuntime | AMarkRuntime
  | ACreateSession | AUpdateSession

type_synonym agent_db = "agent_command \<Rightarrow> agent_store \<Rightarrow> bool"

definition valid_or_empty :: "raw_message \<Rightarrow> json" where
  \<comment> \<open>text that is empty or not JSON is replaced by an empty object\<close>
  "valid_or_empty raw = (case raw of RawJson v \<Rightarrow> v | _ \<Rightarrow> JObj [])"

subsection \<open>Tool calls\<close>

definition CreateCall :: "agent_db \<Rightarrow> AgentToolCall \<Rightarrow> agent_store \<Rightarrow> (unit + unit) \<times> agent_store" where
  "CreateCall works c st =
     (if works ACreateCall st then (ok, st\<lparr>ag_calls := ag_calls st @ [c]\<rparr>) else (Inl (), st))"

definition update_call :: "string \<Rightarrow> call_text option \<Rightarrow> GraphPatch option \<Rightarrow> run_error option \<Rightarrow> AgentToolCall \<Rightarrow> AgentToolCall" where
  "update_call status result patch msg c =
     c\<lparr>tc_Status := TrimSpace status, tc_Result := (if result = None then tc_Result c else result),
       tc_PatchJSON := patch, tc_ErrorMsg := (if msg = None then tc_ErrorMsg c else msg)\<rparr>"

definition UpdateCallStatus ::
    "agent_db \<Rightarrow> string \<Rightarrow> string \<Rightarrow> call_text option \<Rightarrow> GraphPatch option \<Rightarrow> run_error option
      \<Rightarrow> agent_store \<Rightarrow> (unit + unit) \<times> agent_store" where
  "UpdateCallStatus works i status result patch msg st =
     (if works AUpdateCall st
      then (ok, st\<lparr>ag_calls := map (\<lambda>c. if tc_ID c = TrimSpace i then update_call status result patch msg c else c) (ag_calls st)\<rparr>)
      else (Inl (), st))"

subsection \<open>What a session waits for\<close>

definition normalizeWaitStatus :: "string \<Rightarrow> string \<Rightarrow> string" where
  "normalizeWaitStatus status fallback =
     (let v0 = ToLower (TrimSpace status); v = (if v0 = '''' then ToLower (TrimSpace fallback) else v0) in
      if v \<in> {''waiting'', ''approved'', ''rejected'', ''timeout'', ''cleared''} then v
      else if TrimSpace fallback = '''' then ''waiting'' else ToLower (TrimSpace fallback))"

definition shouldClearPendingForStatus :: "string \<Rightarrow> bool" where
  "shouldClearPendingForStatus waitStatus \<longleftrightarrow>
     ToLower (TrimSpace waitStatus) \<in> {''approved'', ''rejected'', ''timeout'', ''cleared''}"

definition filled_runtime :: "AgentSessionRuntime \<Rightarrow> AgentSessionRuntime" where
  "filled_runtime r =
     r\<lparr>rt_SessionID := TrimSpace (rt_SessionID r),
       rt_WaitType := (if TrimSpace (rt_WaitType r) = '''' then ''none'' else rt_WaitType r),
       rt_WaitStatus := (if TrimSpace (rt_WaitStatus r) = '''' then ''waiting'' else rt_WaitStatus r),
       rt_LastEventSeq := (if rt_LastEventSeq r \<le> 0 then 1 else rt_LastEventSeq r)\<rparr>"

definition UpsertPending :: "agent_db \<Rightarrow> AgentSessionRuntime option \<Rightarrow> agent_store \<Rightarrow> (unit + unit) \<times> agent_store" where
  "UpsertPending works runtime st =
     (case runtime of
        None \<Rightarrow> (Inl (), st)
      | Some r0 \<Rightarrow>
          let r = filled_runtime r0 in
          if rt_SessionID r = '''' \<or> \<not> works AUpsertRuntime st then (Inl (), st)
          else if list_ex (\<lambda>x. rt_SessionID x = rt_SessionID r) (ag_runtime st)
            then (ok, st\<lparr>ag_runtime := map (\<lambda>x. if rt_SessionID x = rt_SessionID r
                    then r\<lparr>rt_LastEventSeq := rt_LastEventSeq x + 1\<rparr> else x) (ag_runtime st)\<rparr>)
          else (ok, st\<lparr>ag_runtime := ag_runtime st @ [r]\<rparr>))"

definition cleared :: "string \<Rightarrow> AgentSessionRuntime \<Rightarrow> AgentSessionRuntime" where
  "cleared status x = x\<lparr>rt_PendingCallID := None, rt_PendingTool := None, rt_PendingTier := None,
     rt_PendingArgs := JObj [], rt_PendingPreview := None, rt_WaitType := ''none'', rt_WaitStatus := status,
     rt_ExpiresAt := None, rt_LastEventSeq := rt_LastEventSeq x + 1\<rparr>"

definition ClearPendingRuntime :: "agent_db \<Rightarrow> string \<Rightarrow> string \<Rightarrow> agent_store \<Rightarrow> (unit + unit) \<times> agent_store" where
  "ClearPendingRuntime works sessionID waitStatus st =
     (let i = TrimSpace sessionID; status = normalizeWaitStatus waitStatus ''cleared'' in
      if i = '''' \<or> \<not> works AClearRuntime st then (Inl (), st)
      else (ok, st\<lparr>ag_runtime := map (\<lambda>x. if rt_SessionID x = i then cleared status x else x) (ag_runtime st)\<rparr>))"

definition MarkWaitStatus :: "agent_db \<Rightarrow> string \<Rightarrow> string \<Rightarrow> agent_store \<Rightarrow> (unit + unit) \<times> agent_store" where
  "MarkWaitStatus works sessionID waitStatus st =
     (let i = TrimSpace sessionID; status = normalizeWaitStatus (TrimSpace waitStatus) ''waiting'' in
      if i = '''' \<or> TrimSpace waitStatus = '''' \<or> \<not> works AMarkRuntime st then (Inl (), st)
      else (ok, st\<lparr>ag_runtime := map (\<lambda>x. if rt_SessionID x = i
              then (if shouldClearPendingForStatus status then cleared status x
                    else x\<lparr>rt_WaitStatus := status, rt_LastEventSeq := rt_LastEventSeq x + 1\<rparr>)
              else x) (ag_runtime st)\<rparr>))"

definition FindRuntime :: "string \<Rightarrow> agent_store \<Rightarrow> AgentSessionRuntime option" where
  "FindRuntime sessionID st = List.find (\<lambda>x. rt_SessionID x = TrimSpace sessionID) (ag_runtime st)"

subsection \<open>Sessions\<close>

definition CreateSession :: "agent_db \<Rightarrow> AgentSessionRow \<Rightarrow> agent_store \<Rightarrow> (unit + unit) \<times> agent_store" where
  "CreateSession works s st =
     (if works ACreateSession st then (ok, st\<lparr>ag_sessions := ag_sessions st @ [s]\<rparr>) else (Inl (), st))"

definition SaveSession :: "agent_db \<Rightarrow> AgentSessionRow \<Rightarrow> agent_store \<Rightarrow> (unit + unit) \<times> agent_store" where
  \<comment> \<open>gorm's \<open>Save\<close>: the row with the key is replaced, or inserted when there is none\<close>
  "SaveSession works s st =
     (if \<not> works AUpdateSession st then (Inl (), st)
      else if list_ex (\<lambda>x. as_ID x = as_ID s) (ag_sessions st)
        then (ok, st\<lparr>ag_sessions := map (\<lambda>x. if as_ID x = as_ID s then s else x) (ag_sessions st)\<rparr>)
      else (ok, st\<lparr>ag_sessions := ag_sessions st @ [s]\<rparr>))"

definition FindSession :: "string \<Rightarrow> agent_store \<Rightarrow> AgentSessionRow option" where
  "FindSession i st = List.find (\<lambda>x. as_ID x = TrimSpace i) (ag_sessions st)"

subsection \<open>Resuming\<close>

definition canResumeFromRuntime :: "int \<Rightarrow> AgentSessionRuntime option \<Rightarrow> bool" where
  "canResumeFromRuntime now runtime =
     (case runtime of
        None \<Rightarrow> False
      | Some r \<Rightarrow>
          if \<not> EqualFold (TrimSpace (rt_WaitStatus r)) ''waiting'' then False
          else if (case rt_ExpiresAt r of None \<Rightarrow> False | Some t \<Rightarrow> now > t) then False
          else ToLower (TrimSpace (rt_WaitType r)) \<in> {''confirm'', ''preview'', ''iteration''})"

record PersistedRuntimeSummary =
  ps_WaitType :: string
  ps_WaitStatus :: string
  ps_PendingCallID :: string
  ps_PendingTool :: string
  ps_PendingTier :: string
  ps_PendingArgsSummary :: string
  ps_PendingPreviewSummary :: string
  ps_LastEventSeq :: int
  ps_ExpiresAt :: "int option"

definition trimmed_or_empty :: "string option \<Rightarrow> string" where
  "trimmed_or_empty v = (case v of None \<Rightarrow> '''' | Some s \<Rightarrow> TrimSpace s)"

definition buildPersistedRuntimeSummary :: "AgentSessionRuntime \<Rightarrow> PersistedRuntimeSummary" where
  \<comment> \<open>a stored preview is an object with the four members of its struct\<close>
  "buildPersistedRuntimeSummary r = \<lparr>
     ps_WaitType = TrimSpace (rt_WaitType r), ps_WaitStatus = TrimSpace (rt_WaitStatus r),
     ps_PendingCallID = trimmed_or_empty (rt_PendingCallID r), ps_PendingTool = trimmed_or_empty (rt_PendingTool r),
     ps_PendingTier = trimmed_or_empty (rt_PendingTier r),
     ps_PendingArgsSummary = summarizePendingArgs (RawJson (rt_PendingArgs r)),
     ps_PendingPreviewSummary = summarizePendingArgs (RawJson (JObj (case rt_PendingPreview r of None \<Rightarrow> []
       | Some _ \<Rightarrow> [(''toolName'', JNull), (''totalItems'', JNull), (''summary'', JNull), (''items'', JNull)]))),
     ps_LastEventSeq = rt_LastEventSeq r, ps_ExpiresAt = rt_ExpiresAt r \<rparr>"

record PersistedSessionStatus =
  pss_Session :: AgentSessionRow
  pss_RuntimeSummary :: "PersistedRuntimeSummary option"
  pss_CanConfirm :: bool
  pss_CanResume :: bool

datatype status_error = StatusNotFound | StatusDenied | StatusDB

definition GetPersistedSessionStatus ::
    "bool \<Rightarrow> bool \<Rightarrow> int \<Rightarrow> string \<Rightarrow> string \<Rightarrow> agent_store \<Rightarrow> status_error + PersistedSessionStatus" where
  \<comment> \<open>whether the two queries succeed, and the clock\<close>
  "GetPersistedSessionStatus reads readsRuntime now sessionID userID st =
     (if TrimSpace sessionID = '''' \<or> TrimSpace userID = '''' then Inl StatusNotFound
      else if \<not> reads then Inl StatusDB
      else case FindSession (TrimSpace sessionID) st of
        None \<Rightarrow> Inl StatusNotFound
      | Some rec \<Rightarrow>
          if TrimSpace (as_UserID rec) \<noteq> TrimSpace userID then Inl StatusDenied
          else if \<not> readsRuntime then Inl StatusDB
          else let runtime = FindRuntime (TrimSpace sessionID) st in
            Inr \<lparr> pss_Session = rec, pss_RuntimeSummary = map_option buildPersistedRuntimeSummary runtime,
                  pss_CanConfirm = False, pss_CanResume = canResumeFromRuntime now runtime \<rparr>)"

end
