(* ===== verification/Dispatch.thy ===== *)
theory Dispatch
  imports AgentStore Access
begin

text \<open>
  One tool call of the agent (\<open>internal/agent/engine.go\<close>): the wait for the user, the dispatch by tier,
  and the audit row around it. The world is what a run changes: the graphs, the agent's rows, the
  session, the safety controller, the tree the run works on (when the client sent one), the events
  written to the client. The environment holds the clock, the draws, which statements succeed, how the
  database answers the queries on the graph and the membership, and what each wait sees. Every wait ends
  at the latest when its timer fires. A cancelled session is seen by the wait as the closing of its
  channel, also when another event is picked.
\<close>

subsection \<open>World and environment\<close>

datatype agent_event =
    ClientToolEvent string string raw_message
  | ToolCallStart string string
  | ToolCallErrorEvent string string call_text
  | ToolCallResult string string string bool call_text "run_error option" "GraphPatch option"
  | ToolCallWarningEvent string string warning
  | ConfirmRequired string string raw_message
  | ToolCallCancelledEvent string string
  | PreviewReady string string HybridPreview
  | PreviewDiscardedEvent string string
  | IterationLimitReached string int int
  | IterationStopped string int int
  | IterationResumed string int int int
  | ThinkingEvent string int
  | ContentEvent string
  | RevisionMismatchEvent int int

record agent_world =
  aw_db :: db
  aw_store :: agent_store
  aw_session :: AgentSession
  aw_safety :: SafetyController
  aw_snapshot :: "(FaultTreeNode list \<times> FaultTreeEdge list \<times> int) option"
  aw_events :: "agent_event list"
  aw_next :: nat

record agent_env =
  ae_cfg :: AgentConfig
  ae_ConfirmTimeout :: int
  ae_PreviewTimeout :: int
  ae_now :: int
  ae_draws :: draws
  ae_graphDraws :: "agent_store \<Rightarrow> draws"
  ae_order :: "string list"
  ae_works :: agent_db
  ae_accepts :: "db \<Rightarrow> bool"
  ae_found :: "string \<Rightarrow> db \<Rightarrow> graph_error + project_row option"
  ae_loaded :: "string \<Rightarrow> db \<Rightarrow> graph_error + FaultTreeNode list \<times> FaultTreeEdge list"
  ae_wait :: "agent_store \<Rightarrow> wait_event list"
  ae_deadline :: bool
  ae_member :: "agent_store \<Rightarrow> string \<Rightarrow> string \<Rightarrow> graph_error + ProjectMember option"

definition emit :: "agent_event \<Rightarrow> agent_world \<Rightarrow> agent_world" where
  "emit e w = w\<lparr>aw_events := aw_events w @ [e]\<rparr>"

definition on_session :: "(AgentSession \<Rightarrow> AgentSession) \<Rightarrow> agent_world \<Rightarrow> agent_world" where
  "on_session f w = w\<lparr>aw_session := f (aw_session w)\<rparr>"

definition on_store :: "(agent_store \<Rightarrow> (unit + unit) \<times> agent_store) \<Rightarrow> agent_world \<Rightarrow> (unit + unit) \<times> agent_world" where
  "on_store f w = (case f (aw_store w) of (r, st) \<Rightarrow> (r, w\<lparr>aw_store := st\<rparr>))"

definition NewAgentToolCallID :: "agent_env \<Rightarrow> agent_world \<Rightarrow> string \<times> agent_world" where
  "NewAgentToolCallID env w = (NewID (ae_draws env) (aw_next w) ''atool'', w\<lparr>aw_next := Suc (aw_next w)\<rparr>)"

fun tier_text :: "ExecutionTier \<Rightarrow> string" where
  "tier_text TierServer = ''server''"
| "tier_text TierClient = ''client''"
| "tier_text TierHybrid = ''hybrid''"

subsection \<open>Outcomes\<close>

record toolDispatchOutcome =
  oc_Summary :: call_text
  oc_Patch :: "GraphPatch option"
  oc_Status :: string
  oc_ChangedNodes :: nat
  oc_ChangedEdges :: nat

definition plain_outcome :: "call_text \<Rightarrow> string \<Rightarrow> toolDispatchOutcome" where
  "plain_outcome txt status = \<lparr> oc_Summary = txt, oc_Patch = None, oc_Status = status, oc_ChangedNodes = 0, oc_ChangedEdges = 0 \<rparr>"

definition graph_outcome :: "ExecuteResult \<Rightarrow> toolDispatchOutcome" where
  "graph_outcome res = \<lparr> oc_Summary = GraphText (er_Summary res), oc_Patch = Some (er_Patch res), oc_Status = ''success'',
     oc_ChangedNodes = er_ChangedNodes res, oc_ChangedEdges = er_ChangedEdges res \<rparr>"

definition hasGraphPatchChanges :: "GraphPatch option \<Rightarrow> bool" where
  "hasGraphPatchChanges patch \<longleftrightarrow> (case patch of None \<Rightarrow> False | Some p \<Rightarrow> \<not> patch_empty p)"

definition patchNodeMutationCount :: "GraphPatch option \<Rightarrow> nat" where
  "patchNodeMutationCount patch =
     (case patch of
        None \<Rightarrow> 0
      | Some p \<Rightarrow>
          let count = length (UpsertNodes p) + length (DeleteNodes p) in
          if count = 0 \<and> (UpsertEdges p \<noteq> [] \<or> DeleteEdges p \<noteq> []) then 1 else count)"

definition result_event ::
    "ToolCall \<Rightarrow> string \<Rightarrow> bool \<Rightarrow> call_text \<Rightarrow> run_error option \<Rightarrow> GraphPatch option \<Rightarrow> agent_event" where
  "result_event c status success txt msg patch =
     ToolCallResult (TrimSpace (call_ID c)) (TrimSpace (call_Name c)) (normalizeToolFinalStatus status) success txt msg patch"

subsection \<open>Pausing for the user\<close>

definition upsertRuntimePending ::
    "agent_env \<Rightarrow> string \<Rightarrow> string \<Rightarrow> string \<Rightarrow> raw_message \<Rightarrow> HybridPreview option \<Rightarrow> string \<Rightarrow> int \<Rightarrow> agent_world \<Rightarrow> agent_world" where
  "upsertRuntimePending env callID toolName tier args preview waitType timeout w =
     (let sid = TrimSpace (se_ID (aw_session w));
          present = (\<lambda>s. if TrimSpace s = '''' then None else Some (TrimSpace s)) in
      if sid = '''' then w
      else snd (on_store (UpsertPending (ae_works env) (Some
             \<lparr> rt_SessionID = sid, rt_PendingCallID = present callID, rt_PendingTool = present toolName,
               rt_PendingTier = present tier, rt_PendingArgs = valid_or_empty args, rt_PendingPreview = preview,
               rt_WaitType = TrimSpace waitType, rt_WaitStatus = ''waiting'', rt_LastEventSeq = 0,
               rt_ExpiresAt = (if timeout > 0 then Some (ae_now env + timeout) else None) \<rparr>)) w))"

definition clearRuntimePending :: "agent_env \<Rightarrow> string \<Rightarrow> agent_world \<Rightarrow> agent_world" where
  "clearRuntimePending env waitStatus w =
     snd (on_store (ClearPendingRuntime (ae_works env) (TrimSpace (se_ID (aw_session w))) (TrimSpace waitStatus)) w)"

definition markRuntimeWaitStatus :: "agent_env \<Rightarrow> string \<Rightarrow> agent_world \<Rightarrow> agent_world" where
  "markRuntimeWaitStatus env waitStatus w =
     snd (on_store (MarkWaitStatus (ae_works env) (TrimSpace (se_ID (aw_session w))) (TrimSpace waitStatus)) w)"

definition wait_events :: "agent_env \<Rightarrow> agent_world \<Rightarrow> wait_event list" where
  "wait_events env w = ae_wait env (aw_store w) @ [TimedOut]"

definition await_signal :: "agent_env \<Rightarrow> agent_world \<Rightarrow> (session_error + ConfirmSignal) \<times> agent_world" where
  \<comment> \<open>\<open>None\<close> cannot occur: the last event ends the wait\<close>
  "await_signal env w =
     (case waitForConfirmation (aw_session w) (wait_events env w) of None \<Rightarrow> Inl ErrSessionConfirmTimeout | Some r \<Rightarrow> r,
      if list_ex (\<lambda>e. e = CancelClosed) (wait_events env w) then on_session MarkCancelled w else w)"

definition pause_for ::
    "agent_env \<Rightarrow> string \<Rightarrow> string \<Rightarrow> int \<Rightarrow> ToolCall \<Rightarrow> string \<Rightarrow> HybridPreview option \<Rightarrow> agent_event \<Rightarrow> agent_world
      \<Rightarrow> (run_error + ConfirmSignal) \<times> agent_world" where
  "pause_for env pstate waitType timeout c tier preview ev w =
     (let w1 = on_session (\<lambda>s. SetState pstate (SetPending (call_ID c) (call_Name c) (call_Arguments c) s)) w;
          w2 = emit ev (upsertRuntimePending env (call_ID c) (call_Name c) tier (call_Arguments c) preview waitType timeout w1);
          resume = on_session (\<lambda>s. SetState StateRunning (ClearPending s)) in
      case await_signal env w2 of
        (Inl e, w3) \<Rightarrow>
          if e = ErrContextDone \<and> \<not> ae_deadline env \<and> se_state (aw_session w3) = pstate
          then (Inl (WaitErr e), markRuntimeWaitStatus env ''waiting'' w3)
          else (Inl (WaitErr e),
                resume (clearRuntimePending env (if e = ErrSessionConfirmTimeout then ''timeout'' else ''rejected'') w3))
      | (Inr sg, w3) \<Rightarrow>
          (Inr sg, clearRuntimePending env (if cs_Approved sg then ''approved'' else ''rejected'') (resume w3)))"

subsection \<open>Dispatch\<close>

definition dispatch_client :: "ToolCall \<Rightarrow> agent_world \<Rightarrow> (run_error + toolDispatchOutcome) \<times> agent_world" where
  "dispatch_client c w =
     (Inr (plain_outcome ClientToolDispatched ''client_only''),
      emit (result_event c ''client_only'' True ClientToolDispatched None None)
        (emit (ClientToolEvent (call_ID c) (call_Name c) (call_Arguments c)) (on_session (IncTierOps ''client'') w)))"

definition skipped_read_only :: "ToolCall \<Rightarrow> agent_world \<Rightarrow> (run_error + toolDispatchOutcome) \<times> agent_world" where
  "skipped_read_only c w =
     (Inr (plain_outcome (SkippedReadOnly (call_Name c)) ''cancelled''),
      emit (result_event c ''cancelled'' False (SkippedReadOnly (call_Name c)) None None) w)"

fun slice_len :: "nat \<Rightarrow> json list \<Rightarrow> nat" where
  "slice_len cur [] = cur"
| "slice_len cur (JArr es # vs) = slice_len (length es) vs"
| "slice_len cur (JNull # vs) = slice_len 0 vs"
| "slice_len cur (_ # vs) = slice_len cur vs"

definition needs_confirm :: "ToolDefinition \<Rightarrow> ToolCall \<Rightarrow> bool" where
  \<comment> \<open>decoding errors are ignored\<close>
  "needs_confirm def c \<longleftrightarrow> tool_RequireConfirm def \<or>
     (EqualFold (tool_Name def) ''batch_operations'' \<and> tool_ConfirmThreshold def > 0 \<and>
      (case struct_members (call_Arguments c) of None \<Rightarrow> False
       | Some m \<Rightarrow> slice_len 0 (field_vals ''operations'' m) > tool_ConfirmThreshold def))"

definition run_graph_tool ::
    "agent_env \<Rightarrow> string \<Rightarrow> string \<Rightarrow> ToolCall \<Rightarrow> agent_world \<Rightarrow> (graph_error + ExecuteResult) \<times> agent_world" where
  "run_graph_tool env projectID graphType c w =
     (let d = ae_graphDraws env (aw_store w);
          plain = (case Execute d (ae_accepts env) (ae_loaded env (TrimSpace projectID) (aw_db w))
                          (ae_found env (TrimSpace projectID) (aw_db w)) projectID graphType (call_Name c) (call_Arguments c) 0 (aw_db w) of
                     (r, db') \<Rightarrow> (r, w\<lparr>aw_db := db'\<rparr>)) in
      case aw_snapshot w of
        None \<Rightarrow> plain
      | Some (ns, es, rv) \<Rightarrow>
          if graphType \<noteq> ''faultTree'' then plain
          else (case ExecuteFaultTreeSnapshot d (ae_accepts env) (ae_found env (TrimSpace projectID) (aw_db w)) projectID
                       (call_Name c) (call_Arguments c) ns es rv 0 (aw_db w) of
                  (Inl e, db') \<Rightarrow> (Inl e, w\<lparr>aw_db := db'\<rparr>)
                | (Inr (res, ns', es', rv'), db') \<Rightarrow> (Inr res, w\<lparr>aw_db := db', aw_snapshot := Some (ns', es', rv')\<rparr>)))"

definition run_server :: "agent_env \<Rightarrow> string \<Rightarrow> string \<Rightarrow> ToolCall \<Rightarrow> agent_world \<Rightarrow> (run_error + toolDispatchOutcome) \<times> agent_world" where
  "run_server env projectID graphType c w =
     (case run_graph_tool env projectID graphType c (emit (ToolCallStart (call_ID c) (call_Name c)) w) of
        (Inl e, w1) \<Rightarrow> (Inl (GraphErr e), emit (ToolCallErrorEvent (call_ID c) (call_Name c) (ErrorText (GraphErr e))) w1)
      | (Inr res, w1) \<Rightarrow>
          (Inr (graph_outcome res),
           emit (result_event c ''success'' True (GraphText (er_Summary res)) None (Some (er_Patch res)))
             (on_session (IncTierOps ''server'') w1)))"

definition dispatch_server ::
    "agent_env \<Rightarrow> string \<Rightarrow> string \<Rightarrow> bool \<Rightarrow> ToolCall \<Rightarrow> ToolDefinition \<Rightarrow> agent_world \<Rightarrow> (run_error + toolDispatchOutcome) \<times> agent_world" where
  "dispatch_server env projectID graphType readOnly c def w =
     (if readOnly \<and> ToolMutatesGraph (tool_Name def) then skipped_read_only c w
      else if \<not> needs_confirm def c then run_server env projectID graphType c w
      else case pause_for env StatePausedForConfirm ''confirm'' (ae_ConfirmTimeout env) c (tier_text (tool_Tier def)) None
              (ConfirmRequired (call_ID c) (call_Name c) (call_Arguments c)) w of
        (Inl e, w1) \<Rightarrow> (Inl e, w1)
      | (Inr sg, w1) \<Rightarrow>
          if \<not> cs_Approved sg
          then (Inr (plain_outcome UserCancelled ''cancelled''),
                emit (result_event c ''cancelled'' False UserCancelled None None)
                  (emit (ToolCallCancelledEvent (call_ID c) (call_Name c)) w1))
          else run_server env projectID graphType c w1)"

definition dispatch_hybrid ::
    "agent_env \<Rightarrow> string \<Rightarrow> string \<Rightarrow> bool \<Rightarrow> ToolCall \<Rightarrow> ToolDefinition \<Rightarrow> agent_world \<Rightarrow> (run_error + toolDispatchOutcome) \<times> agent_world" where
  "dispatch_hybrid env projectID graphType readOnly c def w =
     (let d = ae_graphDraws env (aw_store w);
          fails = (\<lambda>e w. (Inl (GraphErr e), emit (ToolCallErrorEvent (call_ID c) (call_Name c) (ErrorText (GraphErr e))) w)) in
      if readOnly then skipped_read_only c w
      else case GeneratePreview d 0 (ae_order env) (ae_loaded env (TrimSpace projectID) (aw_db w)) graphType (call_Name c) of
        Inl e \<Rightarrow> fails e w
      | Inr preview \<Rightarrow>
          (case pause_for env StatePausedForPreview ''preview'' (ae_PreviewTimeout env) c (tier_text (tool_Tier def)) (Some preview)
                  (PreviewReady (call_ID c) (call_Name c) preview) w of
             (Inl e, w1) \<Rightarrow> (Inl e, w1)
           | (Inr sg, w1) \<Rightarrow>
               if \<not> cs_Approved sg
               then (Inr (plain_outcome PreviewDiscardedText ''discarded''),
                     emit (result_event c ''discarded'' False PreviewDiscardedText None None)
                       (emit (PreviewDiscardedEvent (call_ID c) (call_Name c)) w1))
               else (case Commit (ae_graphDraws env (aw_store w1)) (ae_accepts env) (ae_loaded env (TrimSpace projectID) (aw_db w1))
                            (ae_found env (TrimSpace projectID) (aw_db w1)) projectID graphType (Some preview) (cs_ApprovedOps sg)
                            0 (aw_db w1) of
                       (Inl e, db') \<Rightarrow> fails e (w1\<lparr>aw_db := db'\<rparr>)
                     | (Inr res, db') \<Rightarrow>
                         if patch_empty (er_Patch res)
                         then (Inr (plain_outcome (GraphText (er_Summary res)) ''client_only''),
                               emit (result_event c ''client_only'' True (GraphText (er_Summary res)) None None) (w1\<lparr>aw_db := db'\<rparr>))
                         else (Inr (graph_outcome res),
                               emit (result_event c ''success'' True (GraphText (er_Summary res)) None (Some (er_Patch res)))
                                 (on_session (IncTierOps ''hybrid'') (w1\<lparr>aw_db := db'\<rparr>))))))"

definition dispatchToolCall ::
    "agent_env \<Rightarrow> string \<Rightarrow> string \<Rightarrow> bool \<Rightarrow> ToolCall \<Rightarrow> ToolDefinition \<Rightarrow> agent_world \<Rightarrow> (run_error + toolDispatchOutcome) \<times> agent_world" where
  "dispatchToolCall env projectID graphType readOnly c def w =
     (case tool_Tier def of
        TierClient \<Rightarrow> dispatch_client c w
      | TierServer \<Rightarrow> dispatch_server env projectID graphType readOnly c def w
      | TierHybrid \<Rightarrow> dispatch_hybrid env projectID graphType readOnly c def w)"

subsection \<open>The audit row\<close>

definition set_call_status ::
    "agent_env \<Rightarrow> string \<Rightarrow> string \<Rightarrow> call_text option \<Rightarrow> GraphPatch option \<Rightarrow> run_error option \<Rightarrow> agent_world \<Rightarrow> (unit + unit) \<times> agent_world" where
  "set_call_status env i status result patch msg = on_store (UpdateCallStatus (ae_works env) i status result patch msg)"

definition runToolCallWithAudit ::
    "agent_env \<Rightarrow> string \<Rightarrow> string \<Rightarrow> bool \<Rightarrow> ToolCall \<Rightarrow> ToolDefinition \<Rightarrow> agent_world
      \<Rightarrow> (run_error + toolDispatchOutcome \<times> string) \<times> agent_world" where
  "runToolCallWithAudit env projectID graphType readOnly c def w =
     (let (i, w0) = NewAgentToolCallID env w;
          row = \<lparr> tc_ID = i, tc_SessionID = se_ID (aw_session w), tc_CallID = call_ID c, tc_ToolName = call_Name c,
                  tc_Tier = tier_text (tool_Tier def), tc_Arguments = valid_or_empty (call_Arguments c), tc_Result = None,
                  tc_PatchJSON = None, tc_Status = ''running'', tc_ErrorMsg = None \<rparr> in
      case on_store (CreateCall (ae_works env) row) w0 of
        (Inl _, w1) \<Rightarrow> (Inl ErrAuditCreate, w1)
      | (Inr _, w1) \<Rightarrow>
          (case dispatchToolCall env projectID graphType readOnly c def w1 of
             (Inl e, w2) \<Rightarrow>
               if e = WaitErr ErrContextDone \<and> \<not> ae_deadline env \<and> paused (aw_session w2)
               then (case set_call_status env i ''pending'' (Some WaitingUserConfirmation) None None w2 of
                       (Inl _, w3) \<Rightarrow> (Inl (ErrAuditUpdate (Some e)), w3) | (Inr _, w3) \<Rightarrow> (Inl e, w3))
               else (case set_call_status env i ''failed'' None None (Some e) w2 of
                       (Inl _, w3) \<Rightarrow> (Inl (ErrAuditUpdate (Some e)), w3)
                     | (Inr _, w3) \<Rightarrow>
                         (Inr (plain_outcome (ErrorText e) ''failed'', ''failed''),
                          emit (result_event c ''failed'' False (ErrorText e) (Some e) None) w3))
           | (Inr out, w2) \<Rightarrow>
               let status = normalizeToolFinalStatus (oc_Status out) in
               (case set_call_status env i status (Some (oc_Summary out)) (oc_Patch out) None w2 of
                  (Inl _, w3) \<Rightarrow> (Inl (ErrAuditUpdate None), w3)
                | (Inr _, w3) \<Rightarrow> (Inr (out, status), w3))))"

end
