(* ===== verification/Rounds.thy ===== *)
theory Rounds
  imports Dispatch
begin

text \<open>
  The tool calls of one round (\<open>executeRoundToolCalls\<close> and its helpers in
  \<open>internal/agent/engine.go\<close>): neighbouring mutations are merged into one batch, every call is checked
  (permission, tool, graph type, parameters, limits), a mutation is preceded by a read of its surroundings
  and followed by validations.
\<close>

subsection \<open>Merging\<close>

definition isMergeableMutationTool :: "string \<Rightarrow> bool" where
  "isMergeableMutationTool toolName =
     (case GetTool toolName of
        None \<Rightarrow> False
      | Some def \<Rightarrow> tool_Tier def = TierServer \<and> tool_MutatesGraph def \<and> \<not> EqualFold (tool_Name def) ''batch_operations'')"

definition merged_op :: "ToolCall \<Rightarrow> json option" where
  \<comment> \<open>the arguments go through a Go map\<close>
  "merged_op c =
     (let op = (\<lambda>a. Some (JObj [(''args'', a), (''tool'', JStr (TrimSpace (call_Name c)))])) in
      case call_Arguments c of
        RawEmpty \<Rightarrow> op (JObj [])
      | RawJson (JObj m) \<Rightarrow> op (as_map (JObj m))
      | RawJson JNull \<Rightarrow> op JNull
      | _ \<Rightarrow> None)"

fun merged_ops :: "ToolCall list \<Rightarrow> json list option" where
  "merged_ops [] = Some []"
| "merged_ops (c # cs) = (case merged_op c of None \<Rightarrow> None | Some op \<Rightarrow> map_option ((#) op) (merged_ops cs))"

definition mergeMutationSegment :: "agent_env \<Rightarrow> ToolCall list \<Rightarrow> agent_world \<Rightarrow> ToolCall option \<times> agent_world" where
  "mergeMutationSegment env segment w =
     (if length segment \<le> 1 then (None, w)
      else case merged_ops segment of
        None \<Rightarrow> (None, w)
      | Some ops \<Rightarrow>
          let first = TrimSpace (call_ID (hd segment));
              (i, w1) = (if first = '''' then NewAgentToolCallID env w else (first, w))
          in (Some \<lparr> call_ID = i, call_Name = ''batch_operations'', call_Arguments = RawJson (JObj [(''operations'', JArr ops)]) \<rparr>, w1))"

function merge_loop :: "agent_env \<Rightarrow> ToolCall list \<Rightarrow> agent_world \<Rightarrow> ToolCall list \<times> agent_world" where
  "merge_loop env [] w = ([], w)"
| "merge_loop env (c # cs) w =
     (if \<not> isMergeableMutationTool (call_Name c)
      then (case merge_loop env cs w of (out, w1) \<Rightarrow> (c # out, w1))
      else let segment = c # takeWhile (\<lambda>x. isMergeableMutationTool (call_Name x)) cs;
               rest = dropWhile (\<lambda>x. isMergeableMutationTool (call_Name x)) cs in
        case mergeMutationSegment env segment w of
          (merged, w1) \<Rightarrow> (case merge_loop env rest w1 of
            (out, w2) \<Rightarrow> ((case merged of Some m \<Rightarrow> [m] | None \<Rightarrow> segment) @ out, w2)))"
  by pat_completeness auto
termination
  by (relation "measure (\<lambda>(env, cs, w). length cs)") (auto simp: le_imp_less_Suc length_dropWhile_le)

definition mergeRoundMutationCalls :: "agent_env \<Rightarrow> ToolCall list \<Rightarrow> agent_world \<Rightarrow> ToolCall list \<times> agent_world" where
  "mergeRoundMutationCalls env calls w = (if length calls \<le> 1 then (calls, w) else merge_loop env calls w)"

subsection \<open>Calls the engine adds\<close>

definition any_map :: "raw_message \<Rightarrow> payload" where
  \<comment> \<open>decoding into a map, where anything but an object leaves it empty\<close>
  "any_map raw = (case raw of RawJson (JObj m) \<Rightarrow> m | _ \<Rightarrow> [])"

definition stringFromMap :: "payload \<Rightarrow> string \<Rightarrow> string" where
  "stringFromMap m k = (case member_of m k of Some (JStr s) \<Rightarrow> TrimSpace s | _ \<Rightarrow> '''')"

definition node_keys :: "string list" where
  "node_keys = [''nodeId'', ''parentId'', ''newParentId'', ''rootNodeId'']"

definition first_node_id :: "payload \<Rightarrow> string" where
  "first_node_id m = (case find (\<lambda>s. s \<noteq> '''') (map (stringFromMap m) node_keys) of None \<Rightarrow> '''' | Some s \<Rightarrow> s)"

fun op_args :: "json \<Rightarrow> payload option" where
  "op_args (JObj op) = (case member_of op ''args'' of Some (JObj m) \<Rightarrow> Some m | _ \<Rightarrow> None)"
| "op_args _ = None"

definition firstNodeIDFromBatchArgs :: "payload \<Rightarrow> string" where
  "firstNodeIDFromBatchArgs m =
     (case member_of m ''operations'' of
        Some (JArr ops) \<Rightarrow>
          (case find (\<lambda>s. s \<noteq> '''') (map first_node_id (List.map_filter op_args ops)) of None \<Rightarrow> '''' | Some s \<Rightarrow> s)
      | _ \<Rightarrow> '''')"

definition node_arg :: "string \<Rightarrow> raw_message" where
  "node_arg i = RawJson (JObj [(''nodeId'', JStr i)])"

definition whole_graph_args :: raw_message where
  "whole_graph_args = RawJson (JObj [(''maxNodes'', JNum ''120'' 120 (Some 120)), (''maxEdges'', JNum ''200'' 200 (Some 200))])"

definition buildAutoReadCallForMutation :: "agent_env \<Rightarrow> ToolCall \<Rightarrow> agent_world \<Rightarrow> ToolCall \<times> agent_world" where
  "buildAutoReadCallForMutation env c w =
     (let (i, w1) = NewAgentToolCallID env w; m = any_map (call_Arguments c);
          own = first_node_id m;
          inner = (if EqualFold (TrimSpace (call_Name c)) ''batch_operations'' then firstNodeIDFromBatchArgs m else '''') in
      (if own \<noteq> '''' then \<lparr> call_ID = i, call_Name = ''get_node_detail'', call_Arguments = node_arg own \<rparr>
       else if inner \<noteq> '''' then \<lparr> call_ID = i, call_Name = ''get_node_detail'', call_Arguments = node_arg inner \<rparr>
       else \<lparr> call_ID = i, call_Name = ''get_graph_snapshot'', call_Arguments = whole_graph_args \<rparr>, w1))"

definition shouldRunGateSemanticsFollowup :: "ToolCall \<Rightarrow> bool" where
  "shouldRunGateSemanticsFollowup c =
     (let name = ToLower (TrimSpace (call_Name c)) in
      if name \<in> {''update_gate'', ''add_gate''} then True
      else if name = ''batch_operations'' then
        (case struct_members (call_Arguments c) of
           None \<Rightarrow> False
         | Some m \<Rightarrow>
             (case dec_ops [] (field_vals ''operations'' m) of
                None \<Rightarrow> False
              | Some ops \<Rightarrow> list_ex (\<lambda>op. ToLower (TrimSpace (fst op)) \<in>
                    {''update_gate'', ''add_gate'', ''add_node'', ''delete_node'', ''move_node''}) ops))
      else False)"

definition gateSemanticsArgsFromCall :: "ToolCall \<Rightarrow> raw_message" where
  "gateSemanticsArgsFromCall c =
     (if \<not> EqualFold (TrimSpace (call_Name c)) ''update_gate'' then RawJson (JObj [])
      else case struct_members (call_Arguments c) of
        None \<Rightarrow> RawJson (JObj [])
      | Some m \<Rightarrow>
          (case dec_string '''' (field_vals ''nodeId'' m) of
             None \<Rightarrow> RawJson (JObj [])
           | Some n \<Rightarrow> if TrimSpace n = '''' then RawJson (JObj []) else node_arg (TrimSpace n)))"

definition isHardStopSafetyError :: "safety_error \<Rightarrow> bool" where
  "isHardStopSafetyError e \<longleftrightarrow>
     e \<in> {ErrAgentLoopDetected, ErrAgentMaxToolCalls, ErrAgentRateLimited, ErrAgentNodeLimitExceeded}"

subsection \<open>What a round collects\<close>

text \<open>What a round says of a call: the engine refused it or warned, read ahead of a mutation, ran it, or
  ran it as a check afterwards.\<close>

datatype note_kind = SaidNote | AutoReadNote | CallNote | FollowUpNote

record round_note =
  rn_Kind :: note_kind
  rn_Tool :: string
  rn_Status :: string
  rn_Text :: call_text
  rn_Patch :: "GraphPatch option"

record tool_result =
  tr_ToolCallID :: string
  tr_Note :: round_note

record round_acc =
  ra_summaries :: "round_note list"
  ra_results :: "tool_result list"
  ra_mutated :: bool
  ra_read :: bool

definition noted :: "note_kind \<Rightarrow> ToolCall \<Rightarrow> string \<Rightarrow> call_text \<Rightarrow> GraphPatch option \<Rightarrow> round_acc \<Rightarrow> round_acc" where
  "noted kind c status txt patch a =
     (let n = \<lparr> rn_Kind = kind, rn_Tool = call_Name c, rn_Status = status, rn_Text = txt, rn_Patch = patch \<rparr> in
      a\<lparr>ra_summaries := ra_summaries a @ [n],
        ra_results := ra_results a @ [\<lparr> tr_ToolCallID = TrimSpace (call_ID c), tr_Note = n \<rparr>]\<rparr>)"

definition refuse :: "ToolCall \<Rightarrow> run_error \<Rightarrow> round_acc \<times> agent_world \<Rightarrow> round_acc \<times> agent_world" where
  "refuse c e aw =
     (noted SaidNote c ''failed'' (ErrorText e) None (fst aw),
      emit (result_event c ''failed'' False (ErrorText e) (Some e) None)
        (emit (ToolCallErrorEvent (call_ID c) (call_Name c) (ErrorText e)) (snd aw)))"

datatype safety_verdict = Go | Skip | Stop run_error

definition handleSafetyCheck ::
    "agent_env \<Rightarrow> ToolCall \<Rightarrow> round_acc \<times> agent_world \<Rightarrow> safety_verdict \<times> round_acc \<times> agent_world" where
  "handleSafetyCheck env c aw =
     (case CheckToolCallWithWarning (ae_cfg env) (Some (aw_session (snd aw))) c 0 (aw_safety (snd aw)) of
        (Inl e, sc) \<Rightarrow>
          (if isHardStopSafetyError e then Stop (SafetyErr e) else Skip,
           refuse c (SafetyErr e) (fst aw, (snd aw)\<lparr>aw_safety := sc\<rparr>))
      | (Inr (Some wn), sc) \<Rightarrow>
          (Skip, noted SaidNote c ''warning'' (WarningText wn) None (fst aw),
           emit (result_event c ''warning'' False (WarningText wn) None None)
             (emit (ToolCallWarningEvent (call_ID c) (call_Name c) wn) ((snd aw)\<lparr>aw_safety := sc\<rparr>)))
      | (Inr None, sc) \<Rightarrow> (Go, fst aw, (snd aw)\<lparr>aw_safety := sc\<rparr>))"

subsection \<open>One round\<close>

type_synonym round_step = "run_error option \<times> round_acc \<times> agent_world"

definition checked_run ::
    "agent_env \<Rightarrow> string \<Rightarrow> string \<Rightarrow> bool \<Rightarrow> ToolCall \<Rightarrow> ToolDefinition
      \<Rightarrow> (toolDispatchOutcome \<Rightarrow> string \<Rightarrow> round_acc \<times> agent_world \<Rightarrow> round_step) \<Rightarrow> round_acc \<times> agent_world \<Rightarrow> round_step" where
  \<comment> \<open>the limits, the count, the call and what follows it\<close>
  "checked_run env projectID graphType readOnly c def after aw =
     (case handleSafetyCheck env c aw of
        (Stop e, aw1) \<Rightarrow> (Some e, aw1)
      | (Skip, aw1) \<Rightarrow> (None, aw1)
      | (Go, a1, w1) \<Rightarrow>
          (case runToolCallWithAudit env projectID graphType readOnly c def (on_session IncToolCallCount w1) of
             (Inl e, w2) \<Rightarrow> (Some e, a1, w2)
           | (Inr (out, status), w2) \<Rightarrow> after out status (a1, w2)))"

definition auto_read ::
    "agent_env \<Rightarrow> string \<Rightarrow> string \<Rightarrow> bool \<Rightarrow> bool \<Rightarrow> ToolCall \<Rightarrow> ToolDefinition \<Rightarrow> round_acc \<times> agent_world \<Rightarrow> round_step" where
  "auto_read env projectID graphType readOnly hadRecent c def aw =
     (if \<not> (tool_Tier def = TierServer \<and> tool_MutatesGraph def \<and> \<not> readOnly \<and> \<not> ra_read (fst aw) \<and> \<not> hadRecent)
      then (None, aw)
      else let (rc, w1) = buildAutoReadCallForMutation env c (snd aw) in
        case GetTool (call_Name rc) of
          None \<Rightarrow> (None, fst aw, w1)
        | Some rdef \<Rightarrow>
            checked_run env projectID graphType readOnly rc rdef
              (\<lambda>out status (a, w). (None, noted AutoReadNote rc status (oc_Summary out) (oc_Patch out) (a\<lparr>ra_read := True\<rparr>), w)) (fst aw, w1))"

fun run_followups ::
    "agent_env \<Rightarrow> string \<Rightarrow> string \<Rightarrow> bool \<Rightarrow> ToolCall list \<Rightarrow> round_acc \<times> agent_world \<Rightarrow> round_step" where
  "run_followups env projectID graphType readOnly [] aw = (None, aw)"
| "run_followups env projectID graphType readOnly (f # fs) aw =
     (let go_on = run_followups env projectID graphType readOnly fs in
      case GetTool (call_Name f) of
        None \<Rightarrow> go_on aw
      | Some fdef \<Rightarrow>
          if \<not> ToolSupportsGraphType (Some fdef) graphType \<or> ValidateParameters (call_Name f) (call_Arguments f) \<noteq> ok then go_on aw
          else (case checked_run env projectID graphType readOnly f fdef
                       (\<lambda>out status (a, w). (None, a\<lparr>ra_read := (ra_read a \<or> ToolIsReadContext (call_Name f)),
                            ra_summaries := ra_summaries a @ [\<lparr> rn_Kind = FollowUpNote, rn_Tool = call_Name f, rn_Status = status,
                              rn_Text = oc_Summary out, rn_Patch = oc_Patch out \<rparr>]\<rparr>, w)) aw of
                  (Some e, aw1) \<Rightarrow> (Some e, aw1)
                | (None, aw1) \<Rightarrow> go_on aw1))"

definition changed_units :: "toolDispatchOutcome \<Rightarrow> nat" where
  "changed_units out =
     (let u = (if oc_ChangedNodes out = 0 \<and> oc_ChangedEdges out > 0 then 1 else oc_ChangedNodes out) in
      if u = 0 then patchNodeMutationCount (oc_Patch out) else u)"

definition followups_of :: "agent_env \<Rightarrow> ToolCall \<Rightarrow> agent_world \<Rightarrow> ToolCall list \<times> agent_world" where
  "followups_of env c w =
     (let (i, w1) = NewAgentToolCallID env w;
          v = \<lparr> call_ID = i, call_Name = ''validate_fta_constraints'', call_Arguments = RawJson (JObj []) \<rparr> in
      if shouldRunGateSemanticsFollowup c
      then (let (j, w2) = NewAgentToolCallID env w1
            in ([v, \<lparr> call_ID = j, call_Name = ''check_gate_semantics'', call_Arguments = gateSemanticsArgsFromCall c \<rparr>], w2))
      else ([v], w1))"

definition after_call ::
    "agent_env \<Rightarrow> string \<Rightarrow> string \<Rightarrow> bool \<Rightarrow> ToolCall \<Rightarrow> ToolDefinition \<Rightarrow> toolDispatchOutcome \<Rightarrow> string
      \<Rightarrow> round_acc \<times> agent_world \<Rightarrow> round_step" where
  "after_call env projectID graphType readOnly c def out status aw =
     (let a = noted CallNote c status (oc_Summary out) (oc_Patch out)
                ((fst aw)\<lparr>ra_mutated := (ra_mutated (fst aw) \<or> hasGraphPatchChanges (oc_Patch out)),
                          ra_read := (ra_read (fst aw) \<or> (tool_Tier def = TierServer \<and> ToolIsReadContext (tool_Name def)))\<rparr>);
          w = snd aw in
      if \<not> (tool_Tier def = TierServer \<and> tool_MutatesGraph def \<and> status = ''success'') then (None, a, w)
      else case RecordMutation (ae_cfg env) (se_ID (aw_session w)) (int (changed_units out)) (aw_safety w) of
        (Inl e, sc) \<Rightarrow> (Some (SafetyErr e), a, w\<lparr>aw_safety := sc\<rparr>)
      | (Inr _, sc) \<Rightarrow>
          (let (fs, w1) = followups_of env c (w\<lparr>aw_safety := sc\<rparr>) in run_followups env projectID graphType readOnly fs (a, w1)))"

definition one_call ::
    "agent_env \<Rightarrow> string \<Rightarrow> string \<Rightarrow> string \<Rightarrow> bool \<Rightarrow> bool \<Rightarrow> ToolCall \<Rightarrow> round_acc \<times> agent_world \<Rightarrow> round_step" where
  "one_call env userID projectID graphType readOnly hadRecent c0 aw0 =
     (let (i, w) = (if TrimSpace (call_ID c0) = '''' then NewAgentToolCallID env (snd aw0) else (call_ID c0, snd aw0));
          c = c0\<lparr>call_ID := i\<rparr>; aw = (fst aw0, w); refused = (\<lambda>e. (None, refuse c e aw)) in
      case ValidatePermissionBoundary userID projectID (Some (ae_member env (aw_store w))) of
        Inl _ \<Rightarrow> refused ErrAgentPermissionDenied
      | Inr _ \<Rightarrow>
          (case GetTool (call_Name c) of
             None \<Rightarrow> refused ErrUnknownToolCalled
           | Some def \<Rightarrow>
               if \<not> ToolSupportsGraphType (Some def) graphType then refused (UnsupportedGraphType (call_Name c) graphType)
               else (case ValidateParameters (call_Name c) (call_Arguments c) of
                       Inl e \<Rightarrow> refused (BadParameters (call_Name c) e)
                     | Inr _ \<Rightarrow>
                         (case auto_read env projectID graphType readOnly hadRecent c def aw of
                            (Some e, aw1) \<Rightarrow> (Some e, aw1)
                          | (None, aw1) \<Rightarrow>
                              checked_run env projectID graphType readOnly c def
                                (after_call env projectID graphType readOnly c def) aw1))))"

fun run_calls ::
    "agent_env \<Rightarrow> string \<Rightarrow> string \<Rightarrow> string \<Rightarrow> bool \<Rightarrow> bool \<Rightarrow> ToolCall list \<Rightarrow> round_acc \<times> agent_world \<Rightarrow> round_step" where
  "run_calls env userID projectID graphType readOnly hadRecent [] aw = (None, aw)"
| "run_calls env userID projectID graphType readOnly hadRecent (c # cs) aw =
     (case one_call env userID projectID graphType readOnly hadRecent c aw of
        (Some e, aw1) \<Rightarrow> (Some e, aw1)
      | (None, aw1) \<Rightarrow> run_calls env userID projectID graphType readOnly hadRecent cs aw1)"

definition empty_acc :: round_acc where
  "empty_acc = \<lparr> ra_summaries = [], ra_results = [], ra_mutated = False, ra_read = False \<rparr>"

definition executeRoundToolCalls ::
    "agent_env \<Rightarrow> string \<Rightarrow> string \<Rightarrow> string \<Rightarrow> bool \<Rightarrow> ToolCall list \<Rightarrow> agent_world \<Rightarrow> round_step" where
  \<comment> \<open>the deferred \<open>SetRecentReadContext(roundReadContextUsed)\<close> has its argument evaluated where it stands,
    before the loop: the flag is always reset\<close>
  "executeRoundToolCalls env userID projectID graphType readOnly toolCalls w =
     (let (calls, w1) = mergeRoundMutationCalls env toolCalls w;
          hadRecent = se_recentReadContext (aw_session w1) in
      case run_calls env userID projectID graphType readOnly hadRecent calls (empty_acc, w1) of
        (e, a, w2) \<Rightarrow> (e, a, on_session (SetRecentReadContext False) w2))"

end
