(* ===== verification/RoundEffects.thy ===== *)
theory RoundEffects
  imports Rounds
begin

text \<open>
  What a round keeps. The locale \<open>round_invariant\<close> says what an invariant of a run has to survive: the
  bookkeeping of the engine and one audited call; every round keeps it then. It is interpreted on the
  three invariants of a run: a read-only round leaves the graphs alone, nobody without the role of an
  editor changes anything, and no call stays running.
\<close>

subsection \<open>The contract of an invariant\<close>

locale round_invariant =
  fixes I :: "agent_world \<Rightarrow> bool" and env :: agent_env and projectID graphType :: string and readOnly :: bool
  assumes I_events: "I w \<Longrightarrow> I (w\<lparr>aw_events := es\<rparr>)"
    and I_next: "I w \<Longrightarrow> I (w\<lparr>aw_next := n\<rparr>)"
    and I_safety: "I w \<Longrightarrow> I (w\<lparr>aw_safety := sc\<rparr>)"
    and I_count: "I w \<Longrightarrow> I (on_session IncToolCallCount w)"
    and I_read: "I w \<Longrightarrow> I (on_session (SetRecentReadContext b) w)"
    and I_call: "I w \<Longrightarrow> GetTool (call_Name c) = Some def \<Longrightarrow>
        I (snd (runToolCallWithAudit env projectID graphType readOnly c def w))"
begin

lemma I_emit: "I w \<Longrightarrow> I (emit e w)"
  by (simp add: emit_def I_events)

lemma I_newID: "I w \<Longrightarrow> NewAgentToolCallID env w = (i, w') \<Longrightarrow> I w'"
  by (auto simp: NewAgentToolCallID_def I_next)

lemma I_refuse: "I (snd aw) \<Longrightarrow> I (snd (refuse c e aw))"
  by (simp add: refuse_def I_emit)

lemma I_check: "handleSafetyCheck env c aw = (v, a, w') \<Longrightarrow> I (snd aw) \<Longrightarrow> I w'"
  using I_refuse [of "(fst aw, (snd aw)\<lparr>aw_safety := sc\<rparr>)" for sc]
  by (auto simp: handleSafetyCheck_def refuse_def I_emit I_safety split: prod.splits sum.splits option.splits)

lemma I_checked:
  assumes "\<And>out status a w. I w \<Longrightarrow> I (snd (snd (after out status (a, w))))"
    and "GetTool (call_Name c) = Some def" and "I (snd aw)"
  shows "I (snd (snd (checked_run env projectID graphType readOnly c def after aw)))"
proof -
  obtain v a w where h: "handleSafetyCheck env c aw = (v, a, w)" by (metis prod_cases3)
  then have w: "I w" using assms(3) by (rule I_check)
  obtain r w2 where r: "runToolCallWithAudit env projectID graphType readOnly c def (on_session IncToolCallCount w) = (r, w2)"
    by fastforce
  have "I w2" using I_call [OF I_count [OF w] assms(2)] by (simp add: r)
  with w assms(1) show ?thesis
    by (auto simp: checked_run_def h r split: safety_verdict.split sum.split)
qed

lemma I_auto_read:
  assumes "I (snd aw)"
  shows "I (snd (snd (auto_read env projectID graphType readOnly hadRecent c def aw)))"
proof -
  obtain rc w where b: "buildAutoReadCallForMutation env c (snd aw) = (rc, w)" by fastforce
  then have "I w" using assms I_newID by (auto simp: buildAutoReadCallForMutation_def Let_def split: prod.splits if_splits)
  then show ?thesis using assms I_checked
    by (auto simp: auto_read_def b split: option.split)
qed

lemma I_followups: "I (snd aw) \<Longrightarrow> I (snd (snd (run_followups env projectID graphType readOnly fs aw)))"
proof (induction fs arbitrary: aw)
  case (Cons f fs)
  have step: "I (snd aw1)" if "GetTool (call_Name f) = Some fdef"
    "checked_run env projectID graphType readOnly f fdef (\<lambda>out status (a, w). (None, g a out status, w)) aw = (e, aw1)" for fdef e aw1 g
    using I_checked [OF _ that(1) Cons.prems, of "\<lambda>out status (a, w). (None, g a out status, w)"] that(2) by simp
  show ?case using Cons step
    by (auto simp: Let_def split: option.split prod.split)
qed simp

lemma I_followups_of: "followups_of env c w = (fs, w') \<Longrightarrow> I w \<Longrightarrow> I w'"
  by (auto simp: followups_of_def Let_def NewAgentToolCallID_def I_next split: if_splits)

lemma I_after:
  assumes "I w"
  shows "I (snd (snd (after_call env projectID graphType readOnly c def out status (a, w))))"
  using assms I_followups I_followups_of I_safety
  by (auto simp: after_call_def Let_def split: sum.split prod.split)

lemma I_one_call:
  assumes "I (snd aw)"
  shows "I (snd (snd (one_call env userID projectID graphType readOnly hadRecent c aw)))"
proof -
  obtain i w where i: "(if TrimSpace (call_ID c) = '''' then NewAgentToolCallID env (snd aw) else (call_ID c, snd aw)) = (i, w)"
    by fastforce
  then have w: "I w" using assms by (auto simp: NewAgentToolCallID_def I_next split: if_splits)
  let ?c = "c\<lparr>call_ID := i\<rparr>"
  have ref: "I (snd (refuse ?c e (fst aw, w)))" for e using w by (simp add: I_refuse)
  have run: "I (snd (snd (checked_run env projectID graphType readOnly ?c def
      (after_call env projectID graphType readOnly ?c def) aw1)))" if "GetTool (call_Name c) = Some def" "I (snd aw1)" for def aw1
    using that I_after by (intro I_checked) simp_all
  have auto: "I (snd aw1)" if "auto_read env projectID graphType readOnly hadRecent ?c def (fst aw, w) = (e, aw1)" for def e aw1
    using I_auto_read [of "(fst aw, w)" hadRecent ?c def] that w by simp
  show ?thesis
    unfolding one_call_def i Let_def prod.case
    using ref run auto by (auto split: sum.split option.split prod.split)
qed

lemma I_run_calls: "I (snd aw) \<Longrightarrow> I (snd (snd (run_calls env userID projectID graphType readOnly hadRecent cs aw)))"
proof (induction cs arbitrary: aw)
  case (Cons c cs)
  obtain e aw1 where o: "one_call env userID projectID graphType readOnly hadRecent c aw = (e, aw1)" by (meson surj_pair)
  have "I (snd aw1)" using I_one_call [OF Cons.prems, of userID hadRecent c] by (simp add: o)
  then show ?case using Cons.IH by (simp add: o split: option.split)
qed simp

lemma I_merge_segment: "I w \<Longrightarrow> mergeMutationSegment env cs w = (m, w') \<Longrightarrow> I w'"
  by (auto simp: mergeMutationSegment_def Let_def NewAgentToolCallID_def I_next split: if_splits option.splits)

lemma I_merge_loop: "I w \<Longrightarrow> I (snd (merge_loop env cs w))"
proof (induction cs arbitrary: w rule: length_induct)
  case (1 cs)
  show ?case
  proof (cases cs)
    case (Cons c ds)
    let ?P = "\<lambda>x. isMergeableMutationTool (call_Name x)"
    obtain m w1 where m: "mergeMutationSegment env (c # takeWhile ?P ds) w = (m, w1)" by fastforce
    have "I w1" using I_merge_segment [OF 1(2) m] .
    moreover have "length (dropWhile ?P ds) < length cs" using length_dropWhile_le [of ?P ds] Cons by simp
    ultimately have "I (snd (merge_loop env (dropWhile ?P ds) w1))" using 1(1) by blast
    moreover have "I (snd (merge_loop env ds w))" using 1 Cons by simp
    ultimately show ?thesis by (simp add: Cons m case_prod_beta Let_def)
  qed (use 1 in simp)
qed

theorem I_round:
  assumes "I w" and "executeRoundToolCalls env userID projectID graphType readOnly calls w = (e, a, w')"
  shows "I w'"
proof -
  obtain cs w1 where m: "mergeRoundMutationCalls env calls w = (cs, w1)" by fastforce
  then have "I w1" using assms(1) I_merge_loop [of w calls] by (auto simp: mergeRoundMutationCalls_def split: if_splits)
  then show ?thesis
    using assms(2) I_run_calls [of "(empty_acc, w1)" userID "se_recentReadContext (aw_session w1)" cs] I_read
    by (auto simp: executeRoundToolCalls_def m Let_def split: prod.splits)
qed

end

subsection \<open>What the bookkeeping touches\<close>

lemma emit_sel [simp]:
  "aw_db (emit e w) = aw_db w" "aw_store (emit e w) = aw_store w" "aw_session (emit e w) = aw_session w"
  "aw_safety (emit e w) = aw_safety w"
  by (simp_all add: emit_def)

lemma on_session_sel [simp]:
  "aw_db (on_session f w) = aw_db w" "aw_store (on_session f w) = aw_store w" "aw_session (on_session f w) = f (aw_session w)"
  "aw_safety (on_session f w) = aw_safety w"
  by (simp_all add: on_session_def)

lemma on_store_sel [simp]:
  "aw_db (snd (on_store f w)) = aw_db w" "aw_session (snd (on_store f w)) = aw_session w"
  "aw_store (snd (on_store f w)) = snd (f (aw_store w))" "fst (on_store f w) = fst (f (aw_store w))"
  by (simp_all add: on_store_def split: prod.split)

lemma runtime_calls [simp]:
  "ag_calls (snd (UpsertPending works r st)) = ag_calls st" "ag_calls (snd (ClearPendingRuntime works i s st)) = ag_calls st"
  "ag_calls (snd (MarkWaitStatus works i s st)) = ag_calls st"
  by (simp_all add: UpsertPending_def ClearPendingRuntime_def MarkWaitStatus_def Let_def split: option.split)

lemma pending_sel [simp]:
  "aw_db (upsertRuntimePending env a b c d e f g w) = aw_db w" "aw_db (clearRuntimePending env s w) = aw_db w"
  "aw_db (markRuntimeWaitStatus env s w) = aw_db w"
  "aw_session (upsertRuntimePending env a b c d e f g w) = aw_session w" "aw_session (clearRuntimePending env s w) = aw_session w"
  "aw_session (markRuntimeWaitStatus env s w) = aw_session w"
  "ag_calls (aw_store (upsertRuntimePending env a b c d e f g w)) = ag_calls (aw_store w)"
  "ag_calls (aw_store (clearRuntimePending env s w)) = ag_calls (aw_store w)"
  "ag_calls (aw_store (markRuntimeWaitStatus env s w)) = ag_calls (aw_store w)"
  by (simp_all add: upsertRuntimePending_def clearRuntimePending_def markRuntimeWaitStatus_def Let_def)

lemma await_sel [simp]:
  "aw_db (snd (await_signal env w)) = aw_db w" "aw_store (snd (await_signal env w)) = aw_store w"
  by (simp_all add: await_signal_def)

lemma pause_sel:
  assumes "pause_for env pstate ty n c tier p ev w = (r, w')"
  shows "aw_db w' = aw_db w \<and> ag_calls (aw_store w') = ag_calls (aw_store w)"
proof -
  let ?w = "emit ev (upsertRuntimePending env (call_ID c) (call_Name c) tier (call_Arguments c) p ty n
      (on_session (\<lambda>s. SetState pstate (SetPending (call_ID c) (call_Name c) (call_Arguments c) s)) w))"
  obtain q w3 where a: "await_signal env ?w = (q, w3)" by fastforce
  have "aw_db w3 = aw_db w" "ag_calls (aw_store w3) = ag_calls (aw_store w)"
    using await_sel [of env ?w] unfolding a by simp_all
  then show ?thesis using assms by (auto simp: pause_for_def a Let_def split: sum.splits if_splits)
qed

lemma graph_tool_calls: "run_graph_tool env p g c w = (r, w') \<Longrightarrow> aw_store w' = aw_store w \<and> aw_session w' = aw_session w"
  by (auto simp: run_graph_tool_def Let_def split: prod.splits option.splits if_splits sum.splits)

lemma run_server_calls: "run_server env p g c w = (r, w') \<Longrightarrow> aw_store w' = aw_store w"
  by (auto simp: run_server_def dest!: graph_tool_calls split: prod.splits sum.splits)

lemma dispatch_calls:
  assumes "dispatchToolCall env p g ro c def w = (r, w')"
  shows "ag_calls (aw_store w') = ag_calls (aw_store w)"
  using assms
  by (auto simp: dispatchToolCall_def dispatch_client_def dispatch_server_def dispatch_hybrid_def skipped_read_only_def Let_def
      dest!: run_server_calls pause_sel split: ExecutionTier.splits if_splits prod.splits sum.splits)

subsection \<open>Read-only rounds\<close>

lemma find_Some_mem: "find P xs = Some x \<Longrightarrow> x \<in> set xs"
  by (auto simp: find_Some_iff)

lemma GetTool_own_name:
  assumes "GetTool n = Some def"
  shows "ToolMutatesGraph (tool_Name def) = tool_MutatesGraph def"
proof -
  note registry_own_names
  moreover obtain d where d: "d \<in> set toolRegistry" "def = normalizeToolDefinition d"
    using assms by (auto simp: GetTool_def dest: find_Some_mem)
  moreover have "tool_Name (normalizeToolDefinition d) = tool_Name d"
    by (simp add: normalizeToolDefinition_def Let_def split: ExecutionTier.split)
  ultimately show ?thesis by (simp add: ToolMutatesGraph_def list_all_iff)
qed

lemma GetTool_trim: "GetTool (TrimSpace n) = GetTool n"
  by (simp add: GetTool_def)

lemma read_graph_tool:
  assumes "\<not> ToolMutatesGraph (call_Name c)" and "run_graph_tool env p g c w = (r, w')"
  shows "aw_db w' = aw_db w"
proof -
  have t: "\<not> ToolMutatesGraph (TrimSpace (call_Name c))" using assms(1) by (simp add: ToolMutatesGraph_def GetTool_trim)
  note read_snapshot_unchanged [OF t] read_execute_unchanged [OF t]
  with assms(2) show ?thesis
    by (auto simp: run_graph_tool_def Let_def split: prod.splits option.splits if_splits sum.splits) (metis snd_conv)+
qed

lemma read_only_dispatch:
  assumes "dispatchToolCall env p g True c def w = (r, w')" and "GetTool (call_Name c) = Some def"
  shows "aw_db w' = aw_db w"
proof (cases "tool_Tier def = TierServer \<and> \<not> tool_MutatesGraph def")
  case False
  then show ?thesis using assms(1) GetTool_own_name [OF assms(2)]
    by (auto simp: dispatchToolCall_def dispatch_client_def dispatch_server_def dispatch_hybrid_def skipped_read_only_def
        split: ExecutionTier.splits if_splits)
next
  case True
  then have ro: "\<not> ToolMutatesGraph (call_Name c)" using assms(2) by (simp add: ToolMutatesGraph_def)
  have run: "aw_db w2 = aw_db w1" if "run_server env p g c w1 = (q, w2)" for q w1 w2
    using that read_graph_tool [OF ro] by (fastforce simp: run_server_def split: prod.splits sum.splits)
  show ?thesis using assms(1) True
    by (auto simp: dispatchToolCall_def dispatch_server_def skipped_read_only_def
        dest!: run pause_sel split: if_splits prod.splits sum.splits)
qed

lemma call_statuses [simp]:
  "TrimSpace ''pending'' = ''pending''" "TrimSpace ''failed'' = ''failed''" "TrimSpace ''success'' = ''success''"
  by code_simp+

lemma final_status [simp]: "TrimSpace (normalizeToolFinalStatus x) \<noteq> ''running''"
  by (auto simp: normalizeToolFinalStatus_def)

lemma atool_trim: "TrimSpace (NewID d k ''atool'') = NewID d k ''atool''"
  by (rule NewID_trim) (simp_all add: plain_char_def less_eq_char_def)

lemma audit_stages:
  assumes "runToolCallWithAudit env p g ro c def w = (r, w')"
  obtains (refused) "aw_db w' = aw_db w" "aw_session w' = aw_session w" "aw_store w' = aw_store w" "r = Inl ErrAuditCreate"
  | (ran) row w1 q w2 status tx patch msg where "TrimSpace (tc_ID row) = tc_ID row"
      "aw_db w1 = aw_db w" "aw_session w1 = aw_session w" "ag_calls (aw_store w1) = ag_calls (aw_store w) @ [row]"
      "dispatchToolCall env p g ro c def w1 = (q, w2)" "TrimSpace status \<noteq> ''running''" "aw_db w' = aw_db w2" "aw_session w' = aw_session w2"
      "aw_store w' = snd (UpdateCallStatus (ae_works env) (tc_ID row) status tx patch msg (aw_store w2))"
proof -
  define i where "i = NewID (ae_draws env) (aw_next w) ''atool''"
  define w0 where "w0 = w\<lparr>aw_next := Suc (aw_next w)\<rparr>"
  define row where "row = \<lparr> tc_ID = i, tc_SessionID = se_ID (aw_session w), tc_CallID = call_ID c, tc_ToolName = call_Name c,
      tc_Tier = tier_text (tool_Tier def), tc_Arguments = valid_or_empty (call_Arguments c), tc_Result = None,
      tc_PatchJSON = None, tc_Status = ''running'', tc_ErrorMsg = None \<rparr>"
  have n: "NewAgentToolCallID env w = (i, w0)" by (simp add: NewAgentToolCallID_def i_def w0_def)
  have w0: "aw_db w0 = aw_db w" "aw_session w0 = aw_session w" "aw_store w0 = aw_store w" by (simp_all add: w0_def)
  obtain k w1 where k: "on_store (CreateCall (ae_works env) row) w0 = (k, w1)" by fastforce
  have w1: "aw_db w1 = aw_db w" "aw_session w1 = aw_session w"
    "aw_store w1 = snd (CreateCall (ae_works env) row (aw_store w))" "k = fst (CreateCall (ae_works env) row (aw_store w))"
    using on_store_sel [of "CreateCall (ae_works env) row" w0] unfolding k w0 by simp_all
  note run = assms [unfolded runToolCallWithAudit_def n Let_def prod.case, folded row_def, unfolded k prod.case]
  show thesis
  proof (cases k)
    case (Inl e)
    with w1 have "aw_store w1 = aw_store w" by (auto simp: CreateCall_def split: if_splits)
    with run Inl w1 show ?thesis by (intro refused) auto
  next
    case (Inr u)
    with w1 have c1: "ag_calls (aw_store w1) = ag_calls (aw_store w) @ [row]" by (auto simp: CreateCall_def split: if_splits)
    obtain q w2 where d: "dispatchToolCall env p g ro c def w1 = (q, w2)" by fastforce
    define closes where "closes v \<longleftrightarrow> (\<exists>status tx patch msg. TrimSpace status \<noteq> ''running'' \<and> aw_db v = aw_db w2 \<and> aw_session v = aw_session w2 \<and>
        aw_store v = snd (UpdateCallStatus (ae_works env) (tc_ID row) status tx patch msg (aw_store w2)))" for v :: agent_world
    have upd: "closes v0" if "set_call_status env i s t pa m w2 = (x, v0)" "TrimSpace s \<noteq> ''running''" for s t pa m x v0
      using that on_store_sel [of "UpdateCallStatus (ae_works env) i s t pa m" w2]
      by (auto simp: closes_def set_call_status_def row_def)
    have failed: "closes v0" if "set_call_status env i ''failed'' t pa m w2 = (x, v0)" for t pa m x v0
      by (rule upd [OF that]) code_simp
    have pending: "closes v0" if "set_call_status env i ''pending'' t pa m w2 = (x, v0)" for t pa m x v0
      by (rule upd [OF that]) code_simp
    have emits: "closes (emit e v) = closes v" for e v by (simp add: closes_def)
    have "closes w'"
    proof (cases q)
      case (Inl e)
      show ?thesis using run unfolding Inr sum.case d prod.case Inl
        by (auto simp: emits split: if_splits prod.splits sum.splits intro: failed pending)
    next
      case (Inr out)
      show ?thesis using run unfolding \<open>k = Inr u\<close> sum.case d prod.case Inr
        by (auto split: prod.splits sum.splits intro: upd)
    qed
    then obtain status tx patch msg where "TrimSpace status \<noteq> ''running''" "aw_db w' = aw_db w2" "aw_session w' = aw_session w2"
      "aw_store w' = snd (UpdateCallStatus (ae_works env) (tc_ID row) status tx patch msg (aw_store w2))"
      unfolding closes_def by blast
    with w1(1,2) c1 d show ?thesis by (intro ran [of row w1 q w2 status tx patch msg]) (simp_all add: row_def i_def atool_trim)
  qed
qed

lemma audit_db:
  assumes "runToolCallWithAudit env p g ro c def w = (r, w')"
    and "\<And>q w1 w2. dispatchToolCall env p g ro c def w1 = (q, w2) \<Longrightarrow> aw_db w2 = aw_db w1"
  shows "aw_db w' = aw_db w"
  using assms(1) by (cases rule: audit_stages) (auto dest: assms(2))

lemma read_only_call:
  assumes "GetTool (call_Name c) = Some def"
  shows "aw_db (snd (runToolCallWithAudit env p g True c def w)) = aw_db w"
  using audit_db [of env p g True c def w] read_only_dispatch [OF _ assms] by (metis prod.collapse)

interpretation read_only: round_invariant "\<lambda>w. aw_db w = db0" env projectID graphType True for db0 env projectID graphType
  by unfold_locales (simp_all add: read_only_call)

subsection \<open>No call stays running\<close>

definition none_running :: "agent_world \<Rightarrow> bool" where
  "none_running w \<longleftrightarrow> list_all (\<lambda>c. tc_Status c \<noteq> ''running'') (ag_calls (aw_store w))"

definition updates_work :: "agent_env \<Rightarrow> bool" where
  "updates_work env \<longleftrightarrow> (\<forall>st. ae_works env AUpdateCall st)"

lemma update_ends:
  assumes "works AUpdateCall st" and "TrimSpace i = i" and "TrimSpace status \<noteq> ''running''"
    and "list_all (\<lambda>c. tc_ID c = i \<or> tc_Status c \<noteq> ''running'') (ag_calls st)"
  shows "list_all (\<lambda>c. tc_Status c \<noteq> ''running'') (ag_calls (snd (UpdateCallStatus works i status tx patch msg st)))"
  using assms by (simp add: UpdateCallStatus_def list.pred_map comp_def update_call_def) (auto simp: list_all_iff)

lemma audit_ends:
  assumes "updates_work env" and "none_running w" and "runToolCallWithAudit env p g ro c def w = (r, w')"
  shows "none_running w'"
  using assms(3)
proof (cases rule: audit_stages)
  case refused
  with assms(2) show ?thesis by (simp add: none_running_def)
next
  case (ran row w1 q w2 status tx patch msg)
  have "ag_calls (aw_store w2) = ag_calls (aw_store w) @ [row]" using dispatch_calls [OF ran(5)] ran(4) by simp
  with assms(2) have "list_all (\<lambda>c. tc_ID c = tc_ID row \<or> tc_Status c \<noteq> ''running'') (ag_calls (aw_store w2))"
    by (auto simp: none_running_def list_all_iff)
  moreover have "ae_works env AUpdateCall (aw_store w2)" using assms(1) by (simp add: updates_work_def)
  ultimately show ?thesis using update_ends ran(1,6,9) by (simp add: none_running_def)
qed

lemma none_running_sel [simp]:
  "none_running (w\<lparr>aw_events := es\<rparr>) = none_running w" "none_running (w\<lparr>aw_next := n\<rparr>) = none_running w"
  "none_running (w\<lparr>aw_safety := sc\<rparr>) = none_running w" "none_running (on_session f w) = none_running w"
  by (simp_all add: none_running_def)

interpretation audit: round_invariant "\<lambda>w. updates_work env \<longrightarrow> none_running w" env projectID graphType readOnly
  for env projectID graphType readOnly
  using audit_ends by unfold_locales (simp_all, metis prod.collapse)

subsection \<open>Without the role\<close>

definition no_editor :: "agent_env \<Rightarrow> string \<Rightarrow> string \<Rightarrow> bool" where
  "no_editor env userID projectID \<longleftrightarrow>
     (\<forall>st. \<exists>e. ValidatePermissionBoundary userID projectID (Some (ae_member env st)) = Inl e)"

definition all_failed :: "round_acc \<Rightarrow> bool" where
  "all_failed a \<longleftrightarrow> list_all (\<lambda>r. rn_Status (tr_Note r) = ''failed'') (ra_results a) \<and> \<not> ra_mutated a"

lemma outsider_call:
  assumes "no_editor env userID projectID" and "one_call env userID projectID graphType ro hadRecent c aw = (e, a, w')"
  shows "e = None \<and> aw_db w' = aw_db (snd aw) \<and> aw_store w' = aw_store (snd aw) \<and> aw_session w' = aw_session (snd aw)
    \<and> aw_safety w' = aw_safety (snd aw) \<and> (all_failed (fst aw) \<longrightarrow> all_failed a)"
proof -
  obtain i w where i: "(if TrimSpace (call_ID c) = '''' then NewAgentToolCallID env (snd aw) else (call_ID c, snd aw)) = (i, w)"
    by fastforce
  then have w: "aw_db w = aw_db (snd aw)" "aw_store w = aw_store (snd aw)" "aw_session w = aw_session (snd aw)" "aw_safety w = aw_safety (snd aw)"
    by (auto simp: NewAgentToolCallID_def split: if_splits)
  obtain err where "ValidatePermissionBoundary userID projectID (Some (ae_member env (aw_store w))) = Inl err"
    using assms(1) by (auto simp: no_editor_def)
  then have "(e, a, w') = (None, refuse (c\<lparr>call_ID := i\<rparr>) ErrAgentPermissionDenied (fst aw, w))"
    using assms(2) unfolding one_call_def i Let_def prod.case by simp
  then show ?thesis using w by (auto simp: refuse_def noted_def all_failed_def Let_def)
qed

lemma outsider_calls:
  assumes "no_editor env userID projectID"
  shows "run_calls env userID projectID graphType ro hadRecent cs aw = (e, a, w') \<Longrightarrow>
    e = None \<and> aw_db w' = aw_db (snd aw) \<and> aw_store w' = aw_store (snd aw) \<and> aw_session w' = aw_session (snd aw)
    \<and> aw_safety w' = aw_safety (snd aw) \<and> (all_failed (fst aw) \<longrightarrow> all_failed a)"
proof (induction cs arbitrary: aw)
  case (Cons c cs)
  obtain e1 a1 w1 where o: "one_call env userID projectID graphType ro hadRecent c aw = (e1, a1, w1)" by (metis prod_cases3)
  have 1: "e1 = None \<and> aw_db w1 = aw_db (snd aw) \<and> aw_store w1 = aw_store (snd aw) \<and> aw_session w1 = aw_session (snd aw)
    \<and> aw_safety w1 = aw_safety (snd aw) \<and> (all_failed (fst aw) \<longrightarrow> all_failed a1)" by (rule outsider_call [OF assms o])
  then have "run_calls env userID projectID graphType ro hadRecent cs (a1, w1) = (e, a, w')" using Cons.prems o by simp
  from Cons.IH [OF this] 1 show ?case by auto
qed auto

lemma merge_sel:
  assumes "mergeRoundMutationCalls env calls w = (cs, w')"
  shows "aw_db w' = aw_db w \<and> aw_store w' = aw_store w \<and> aw_session w' = aw_session w \<and> aw_safety w' = aw_safety w"
proof -
  have seg: "aw_db v = aw_db u \<and> aw_store v = aw_store u \<and> aw_session v = aw_session u \<and> aw_safety v = aw_safety u"
    if "mergeMutationSegment env xs u = (m, v)" for xs u m v
    using that by (auto simp: mergeMutationSegment_def Let_def NewAgentToolCallID_def split: if_splits option.splits)
  have loop: "aw_db v = aw_db u \<and> aw_store v = aw_store u \<and> aw_session v = aw_session u \<and> aw_safety v = aw_safety u"
    if "merge_loop env xs u = (out, v)" for xs u out v
    using that
  proof (induction xs arbitrary: u out v rule: length_induct)
    case (1 xs)
    show ?case
    proof (cases xs)
      case (Cons c ds)
      let ?P = "\<lambda>x. isMergeableMutationTool (call_Name x)"
      obtain m u1 where m: "mergeMutationSegment env (c # takeWhile ?P ds) u = (m, u1)" by fastforce
      obtain o1 v1 where l1: "merge_loop env (dropWhile ?P ds) u1 = (o1, v1)" by fastforce
      obtain o2 v2 where l2: "merge_loop env ds u = (o2, v2)" by fastforce
      have "length (dropWhile ?P ds) < length xs" "length ds < length xs" using length_dropWhile_le [of ?P ds] Cons by simp_all
      then show ?thesis using 1 l1 l2 seg [OF m] by (auto simp: Cons m Let_def split: if_splits)
    qed (use 1 in auto)
  qed
  show ?thesis using assms loop by (auto simp: mergeRoundMutationCalls_def split: if_splits)
qed

end
