(* ===== verification/RoundTheorems.thy ===== *)
theory RoundTheorems
  imports RoundEffects Fixtures
begin

text \<open>
  The agent's tool rounds: what a read-only round, a user without the role, a refused confirmation and
  a cancellation do to the project, what is left in the audit table, and what the merging of calls keeps.
\<close>

subsection \<open>A run to evaluate on\<close>

definition ex_row :: AgentToolCall where
  "ex_row = \<lparr> tc_ID = ''atool_1'', tc_SessionID = ''s'', tc_CallID = ''c0'', tc_ToolName = ''get_subtree'', tc_Tier = ''server'',
     tc_Arguments = JObj [], tc_Result = None, tc_PatchJSON = None, tc_Status = ''success'', tc_ErrorMsg = None \<rparr>"

definition ex_world :: agent_world where
  "ex_world = \<lparr> aw_db = ex_db, aw_store = \<lparr> ag_sessions = [], ag_calls = [ex_row], ag_runtime = [] \<rparr>,
     aw_session = NewAgentSession ''s'' ''conv'' ''p'' ''u'' ''faultTree'' 0 1000, aw_safety = NewSafetyController,
     aw_snapshot = None, aw_events = [], aw_next = 0 \<rparr>"

definition ex_env :: "wait_event list \<Rightarrow> agent_env" where
  \<comment> \<open>every statement works, nobody is a member\<close>
  "ex_env events = \<lparr> ae_cfg = \<lparr> MaxRounds = 10, MaxToolCalls = 20, MaxNodesPerSession = 50, ToolCallRateLimit = 5,
       EnableLoopSoftWarning = True \<rparr>, ae_ConfirmTimeout = 60, ae_PreviewTimeout = 60, ae_now = 1000, ae_draws = ex_draws,
     ae_graphDraws = (\<lambda>_. ex_draws), ae_order = [], ae_works = (\<lambda>_ _. True), ae_accepts = (\<lambda>_. True),
     ae_found = (\<lambda>p db. Inr (db_projects db p)), ae_loaded = (\<lambda>p db. Inr (ex_nodes, ex_edges)),
     ae_wait = (\<lambda>_. events), ae_deadline = False, ae_member = (\<lambda>_ _ _. Inr None) \<rparr>"

definition ex_delete :: ToolCall where
  "ex_delete = \<lparr> call_ID = ''c1'', call_Name = ''delete_node'', call_Arguments = args1 [(''nodeId'', JStr ''g''), (''bypass'', JBool True)] \<rparr>"

definition ex_batch :: ToolCall where
  "ex_batch = \<lparr> call_ID = ''c2'', call_Name = ''batch_operations'', call_Arguments = args1 [(''operations'', JArr (replicate 60 JNull))] \<rparr>"

subsection \<open>Read-only rounds\<close>

text \<open>A round of a read-only run leaves every row of the database's graphs and projects as it was, whatever
  tools the model calls, in whatever order, however the user answers and whichever statements fail.\<close>

theorem read_only_round_writes_nothing:
  "aw_db (snd (snd (executeRoundToolCalls env userID projectID graphType True calls w))) = aw_db w"
  using read_only.I_round [of w "aw_db w" env userID projectID graphType calls]
  by (metis prod.collapse)

subsection \<open>Without the role\<close>

text \<open>While the user is no editor of the project, whatever the query on the membership answers, a round changes
  nothing but the event stream: no graph, no audit row, no pending runtime and no counter of the
  limits. Every call is answered as failed and the round ends without an error, so that the model is told.\<close>

theorem outsiders_change_nothing:
  assumes "no_editor env userID projectID"
  shows "case executeRoundToolCalls env userID projectID graphType readOnly calls w of
    (e, a, w') \<Rightarrow> e = None \<and> aw_db w' = aw_db w \<and> aw_store w' = aw_store w \<and> aw_safety w' = aw_safety w
      \<and> aw_session w' = SetRecentReadContext False (aw_session w) \<and> all_failed a"
proof -
  obtain cs w1 where m: "mergeRoundMutationCalls env calls w = (cs, w1)" by fastforce
  obtain e a w2 where r: "run_calls env userID projectID graphType readOnly (se_recentReadContext (aw_session w1)) cs (empty_acc, w1) = (e, a, w2)"
    by (metis prod_cases3)
  have "all_failed empty_acc" by (simp add: all_failed_def empty_acc_def)
  with outsider_calls [OF assms r] merge_sel [OF m] show ?thesis
    unfolding executeRoundToolCalls_def m Let_def prod.case r by simp
qed

theorem outsiders_change_nothing_witness:
  "case executeRoundToolCalls (ex_env []) ''u'' ''p'' ''faultTree'' False [ex_delete, ex_batch] ex_world of
    (e, a, w') \<Rightarrow> e = None \<and> aw_db w' = aw_db ex_world \<and> aw_store w' = aw_store ex_world \<and> aw_safety w' = aw_safety ex_world
      \<and> aw_session w' = SetRecentReadContext False (aw_session ex_world) \<and> all_failed a"
proof (rule outsiders_change_nothing)
  have "ValidatePermissionBoundary ''u'' ''p'' (Some (\<lambda>_ _. Inr None)) = Inl ErrPermissionDenied" by code_simp
  then show "no_editor (ex_env []) ''u'' ''p''" by (simp add: no_editor_def ex_env_def)
qed

subsection \<open>The audit table\<close>

text \<open>Where the updates of the audit table work, a round leaves no call marked as running: if none
  was running before, none is afterwards, also when the round stops in the middle with an error.\<close>

theorem no_call_stays_running:
  assumes "updates_work env" and "none_running w"
  shows "none_running (snd (snd (executeRoundToolCalls env userID projectID graphType readOnly calls w)))"
  using audit.I_round [of env w userID projectID graphType readOnly calls] assms
  by (metis prod.collapse)

theorem no_call_stays_running_witness:
  "none_running (snd (snd (executeRoundToolCalls (ex_env [CtxDone]) ''u'' ''p'' ''faultTree'' False [ex_delete, ex_batch] ex_world)))"
  by (rule no_call_stays_running) (simp_all add: updates_work_def none_running_def ex_env_def ex_world_def ex_row_def)

subsection \<open>Confirmations\<close>

definition approved_by_user :: "agent_env \<Rightarrow> ToolCall \<Rightarrow> bool" where
  "approved_by_user env c \<longleftrightarrow>
     (\<exists>st sg. Got sg \<in> set (ae_wait env st) \<and> cs_Approved sg \<and> TrimSpace (cs_CallID sg) = TrimSpace (call_ID c))"

lemma pause_answer:
  assumes "pause_for env pstate ty n c tier p ev w = (Inr sg, w')" and "cs_Approved sg"
  shows "approved_by_user env c"
proof -
  let ?w = "emit ev (upsertRuntimePending env (call_ID c) (call_Name c) tier (call_Arguments c) p ty n
      (on_session (\<lambda>s. SetState pstate (SetPending (call_ID c) (call_Name c) (call_Arguments c) s)) w))"
  obtain w3 where a: "await_signal env ?w = (Inr sg, w3)"
    using assms(1) by (auto simp: pause_for_def Let_def split: prod.splits sum.splits if_splits)
  then have "waitForConfirmation (aw_session ?w) (wait_events env ?w) = Some (Inr sg)"
    by (auto simp: await_signal_def split: option.splits)
  then have "Got sg \<in> set (wait_events env ?w) \<and> TrimSpace (cs_CallID sg) = TrimSpace (call_ID c)"
    unfolding waitForConfirmation_def by (auto dest!: wait_loop_answer simp: SetState_def SetPending_def)
  with assms(2) show ?thesis by (auto simp: approved_by_user_def wait_events_def)
qed

lemma unapproved_dispatch:
  assumes "needs_confirm def c \<or> tool_Tier def = TierHybrid" and "\<not> approved_by_user env c"
    and "dispatchToolCall env p g ro c def w = (r, w')"
  shows "aw_db w' = aw_db w"
  using assms pause_answer
  by (auto simp: dispatchToolCall_def dispatch_client_def dispatch_server_def dispatch_hybrid_def skipped_read_only_def Let_def
      dest!: pause_sel split: ExecutionTier.splits if_splits prod.splits sum.splits)

text \<open>C20: A call that needs a confirmation (a tool marked so, a batch above its threshold, or any hybrid tool)
  changes the database only when the user sent an approval for exactly this call: without one, a rejection, an
  approval of another call, a timeout, a lost connection and a cancellation all leave the database as it was.\<close>

theorem approval_needed:
  assumes "needs_confirm def c \<or> tool_Tier def = TierHybrid" and "\<not> approved_by_user env c"
  shows "aw_db (snd (runToolCallWithAudit env projectID graphType readOnly c def w)) = aw_db w"
  using audit_db [of env projectID graphType readOnly c def w] unapproved_dispatch [OF assms] by (metis prod.collapse)

theorem approval_needed_witness:
  "aw_db (snd (runToolCallWithAudit (ex_env [Got \<lparr> cs_CallID = ''c1'', cs_Approved = True, cs_ApprovedOps = [], cs_ContinueRounds = 0 \<rparr>])
      ''p'' ''faultTree'' False ex_batch tool_batch_operations ex_world)) = aw_db ex_world"
proof (rule approval_needed)
  have "needs_confirm tool_batch_operations ex_batch" by code_simp
  then show "needs_confirm tool_batch_operations ex_batch \<or> tool_Tier tool_batch_operations = TierHybrid" ..
  have "TrimSpace ''c1'' \<noteq> TrimSpace ''c2''" by code_simp
  then show "\<not> approved_by_user (ex_env [Got \<lparr> cs_CallID = ''c1'', cs_Approved = True, cs_ApprovedOps = [], cs_ContinueRounds = 0 \<rparr>]) ex_batch"
    by (simp add: approved_by_user_def ex_env_def ex_batch_def)
qed

subsection \<open>Cancelling while waiting\<close>

text \<open>C22: Cancelling a session that waits for a confirmation does not stop its run: the call is answered as
  failed without an error for the caller, and the cancelled session is set back to running, so the round
  goes on with its next call.\<close>

theorem cancel_while_waiting_undone:
  assumes "tool_Tier def = TierServer" and "needs_confirm def c" and "\<not> (readOnly \<and> ToolMutatesGraph (tool_Name def))"
    and "\<And>k st. ae_works env k st" and "\<And>st. ae_wait env st = CancelClosed # es"
  shows "\<exists>out w'. runToolCallWithAudit env projectID graphType readOnly c def w = (Inr (out, ''failed''), w')
    \<and> se_cancelClosed (aw_session w') \<and> se_state (aw_session w') = StateRunning"
proof -
  have trim: "TrimSpace StateRunning = StateRunning" by code_simp
  have seen: "wait_events env v = CancelClosed # es @ [TimedOut]" for v by (simp add: wait_events_def assms(5))
  have wait: "await_signal env v = (Inl ErrSessionClosed, on_session MarkCancelled v)" for v
    by (simp add: await_signal_def seen waitForConfirmation_def)
  have run: "\<exists>w2. dispatchToolCall env projectID graphType readOnly c def v = (Inl (WaitErr ErrSessionClosed), w2)
      \<and> se_cancelClosed (aw_session w2) \<and> se_state (aw_session w2) = StateRunning" for v
    using assms(1-3) by (auto simp: dispatchToolCall_def dispatch_server_def pause_for_def wait Let_def trim
        SetState_def ClearPending_def MarkCancelled_def)
  have create: "CreateCall (ae_works env) row st = (ok, st\<lparr>ag_calls := ag_calls st @ [row]\<rparr>)" for row st
    by (simp add: CreateCall_def assms(4))
  have upd: "\<exists>v'. set_call_status env i s t pa m v = (ok, v') \<and> aw_session v' = aw_session v" for i s t pa m v
    by (simp add: set_call_status_def on_store_def UpdateCallStatus_def assms(4))
  obtain i w0 where i: "NewAgentToolCallID env w = (i, w0)" by fastforce
  define row where "row = \<lparr> tc_ID = i, tc_SessionID = se_ID (aw_session w), tc_CallID = call_ID c, tc_ToolName = call_Name c,
      tc_Tier = tier_text (tool_Tier def), tc_Arguments = valid_or_empty (call_Arguments c), tc_Result = None,
      tc_PatchJSON = None, tc_Status = ''running'', tc_ErrorMsg = None \<rparr>"
  obtain w1 where w1: "on_store (CreateCall (ae_works env) row) w0 = (ok, w1)" by (simp add: on_store_def create)
  obtain w2 where w2: "dispatchToolCall env projectID graphType readOnly c def w1 = (Inl (WaitErr ErrSessionClosed), w2)"
    "se_cancelClosed (aw_session w2)" "se_state (aw_session w2) = StateRunning" using run by blast
  obtain w3 where w3: "set_call_status env i ''failed'' None None (Some (WaitErr ErrSessionClosed)) w2 = (ok, w3)"
    "aw_session w3 = aw_session w2" using upd by blast
  show ?thesis
    unfolding runToolCallWithAudit_def i Let_def prod.case row_def [symmetric] w1 sum.case w2 w3
    using w2(2,3) w3 by simp
qed

theorem cancel_while_waiting_undone_witness:
  "\<exists>out w'. runToolCallWithAudit (ex_env [CancelClosed]) ''p'' ''faultTree'' False ex_batch tool_batch_operations ex_world = (Inr (out, ''failed''), w')
    \<and> se_cancelClosed (aw_session w') \<and> se_state (aw_session w') = StateRunning"
proof (rule cancel_while_waiting_undone)
  show "tool_Tier tool_batch_operations = TierServer" "needs_confirm tool_batch_operations ex_batch" by code_simp+
qed (simp_all add: ex_env_def)

subsection \<open>Merging\<close>

text \<open>The operations a list of calls asks for: a mutation that may be merged is one operation, with its
  arguments as a Go map prints them, and a batch stands for its members.\<close>

definition map_args :: "raw_message \<Rightarrow> raw_message" where
  "map_args raw = (case raw of RawEmpty \<Rightarrow> RawJson (JObj []) | RawJson (JObj m) \<Rightarrow> RawJson (as_map (JObj m)) | _ \<Rightarrow> raw)"

definition ops_of_call :: "ToolCall \<Rightarrow> batch_op list" where
  "ops_of_call c =
     (if isMergeableMutationTool (call_Name c) then [(TrimSpace (call_Name c), map_args (call_Arguments c))]
      else case (call_Name c = ''batch_operations'', batch_request (call_Arguments c)) of
        (True, Inr (ops, False)) \<Rightarrow> ops
      | _ \<Rightarrow> [(call_Name c, call_Arguments c)])"

lemma dec_merged_op: "merged_op c = Some v \<Longrightarrow> dec_op v = Some (TrimSpace (call_Name c), map_args (call_Arguments c))"
proof -
  have e: "\<not> EqualFold ''tool'' ''args''" "\<not> EqualFold ''args'' ''tool''" by code_simp+
  show "merged_op c = Some v \<Longrightarrow> dec_op v = Some (TrimSpace (call_Name c), map_args (call_Arguments c))"
    by (auto simp: merged_op_def map_args_def field_vals_def e split: raw_message.splits json.splits)
qed

lemma dec_merged_ops:
  "merged_ops cs = Some ops \<Longrightarrow> dec_op_elems ops = Some (map (\<lambda>c. (TrimSpace (call_Name c), map_args (call_Arguments c))) cs)"
  by (induction cs arbitrary: ops) (auto split: option.splits dest: dec_merged_op)

lemma merged_segment:
  assumes "mergeMutationSegment env cs w = (Some m, w')" and "list_all (\<lambda>c. isMergeableMutationTool (call_Name c)) cs"
  shows "ops_of_call m = concat (map ops_of_call cs)"
proof -
  have e: "EqualFold ''operations'' ''operations''" "\<not> EqualFold ''operations'' ''repairMode''" by code_simp+
  have b: "\<not> isMergeableMutationTool ''batch_operations''" by code_simp
  obtain ops where ops: "merged_ops cs = Some ops" "call_Name m = ''batch_operations''"
      "call_Arguments m = RawJson (JObj [(''operations'', JArr ops)])"
    using assms(1) by (auto simp: mergeMutationSegment_def Let_def split: if_splits option.splits prod.splits)
  have "batch_request (call_Arguments m) = Inr (map (\<lambda>c. (TrimSpace (call_Name c), map_args (call_Arguments c))) cs, False)"
    by (simp add: ops batch_request_def unmarshal_def field_vals_def e dec_merged_ops [OF ops(1)] req_bool_def need_def)
  then have "ops_of_call m = map (\<lambda>c. (TrimSpace (call_Name c), map_args (call_Arguments c))) cs"
    by (simp add: ops_of_call_def ops(2) b)
  also have "\<dots> = concat (map ops_of_call cs)" using assms(2) by (induction cs) (simp_all add: ops_of_call_def)
  finally show ?thesis .
qed

lemma merge_loop_ops: "concat (map ops_of_call (fst (merge_loop env cs w))) = concat (map ops_of_call cs)"
proof (induction cs arbitrary: w rule: length_induct)
  case (1 cs)
  show ?case
  proof (cases cs)
    case (Cons c ds)
    let ?P = "\<lambda>x. isMergeableMutationTool (call_Name x)"
    let ?seg = "c # takeWhile ?P ds"
    obtain m w1 where m: "mergeMutationSegment env ?seg w = (m, w1)" by fastforce
    obtain o1 v1 where l1: "merge_loop env (dropWhile ?P ds) w1 = (o1, v1)" by fastforce
    obtain o2 v2 where l2: "merge_loop env ds w = (o2, v2)" by fastforce
    have ih: "concat (map ops_of_call o1) = concat (map ops_of_call (dropWhile ?P ds))"
      "concat (map ops_of_call o2) = concat (map ops_of_call ds)"
      using 1 l1 l2 Cons length_dropWhile_le [of ?P ds] by (metis fst_conv le_imp_less_Suc length_Cons lessI)+
    have seg: "concat (map ops_of_call (case m of Some x \<Rightarrow> [x] | None \<Rightarrow> ?seg)) = concat (map ops_of_call ?seg)" if "?P c"
    proof -
      have "list_all ?P ?seg" using that by (auto simp: list_all_iff dest: set_takeWhileD)
      then show ?thesis using m merged_segment by (cases m) auto
    qed
    have "concat (map ops_of_call ?seg) @ concat (map ops_of_call (dropWhile ?P ds)) = concat (map ops_of_call cs)"
      by (simp add: Cons flip: concat_append map_append)
    then show ?thesis using ih seg by (simp add: Cons m l1 l2 Let_def)
  qed (use 1 in simp)
qed

text \<open>C21: Merging neighbouring mutations of a round into batches loses, adds and reorders nothing: the calls
  after merging ask for exactly the operations of the calls before, in the same order, each with its
  tool and its arguments.\<close>

theorem merging_keeps_operations:
  "concat (map ops_of_call (fst (mergeRoundMutationCalls env calls w))) = concat (map ops_of_call calls)"
  by (simp add: mergeRoundMutationCalls_def merge_loop_ops)

end
