(* ===== verification/Cursors.thy ===== *)
theory Cursors
  imports GoJson
begin

text \<open>
  The cursor of the message history (\<open>encodeMessageCursor\<close> and \<open>decodeMessageCursor\<close> in
  \<open>internal/service/assistant.go\<close>) with what it uses of the standard library: decimal integers of 64
  bits, and \<open>base64.RawURLEncoding\<close>, whose decoder skips line ends and does not look at the unused
  bits of the last character.
\<close>

subsection \<open>Decimal integers\<close>

definition digit_of :: "char \<Rightarrow> nat option" where
  "digit_of c = (let n = of_char c :: nat in if 48 \<le> n \<and> n \<le> 57 then Some (n - 48) else None)"

fun parse_digits :: "nat \<Rightarrow> string \<Rightarrow> nat option" where
  "parse_digits acc [] = Some acc"
| "parse_digits acc (c # cs) = (case digit_of c of None \<Rightarrow> None | Some d \<Rightarrow> parse_digits (10 * acc + d) cs)"

definition ParseInt64 :: "string \<Rightarrow> int option" where
  "ParseInt64 s =
     (let (neg, ds) = (case s of [] \<Rightarrow> (False, []) | c # cs \<Rightarrow>
            if c = CHR ''-'' then (True, cs) else if c = CHR ''+'' then (False, cs) else (False, s)) in
      if ds = [] then None
      else case parse_digits 0 ds of
        None \<Rightarrow> None
      | Some n \<Rightarrow> let i = (if neg then - int n else int n) in
                  if - (2 ^ 63) \<le> i \<and> i < 2 ^ 63 then Some i else None)"

lemma digit_of_digit_char: "d < 10 \<Longrightarrow> digit_of (digit_char d) = Some d"
  by (simp add: digit_of_def digit_char_def of_char_of)

lemma parse_digits_append:
  "parse_digits acc (xs @ ys) = (case parse_digits acc xs of None \<Rightarrow> None | Some a \<Rightarrow> parse_digits a ys)"
  by (induction xs arbitrary: acc) (auto split: option.split)

lemma parse_show_nat: "parse_digits 0 (show_nat n) = Some n"
proof (induction n rule: show_nat.induct)
  case (1 n)
  show ?case
  proof (cases "n < 10")
    case True
    then show ?thesis by (subst show_nat.simps) (simp add: digit_of_digit_char)
  next
    case False
    then show ?thesis using 1 by (subst show_nat.simps) (simp add: parse_digits_append digit_of_digit_char)
  qed
qed

lemma show_nat_head: "\<exists>d cs. d < 10 \<and> show_nat n = digit_char d # cs"
proof (induction n rule: show_nat.induct)
  case (1 n)
  show ?case
  proof (cases "n < 10")
    case True
    then show ?thesis by (subst show_nat.simps) auto
  next
    case False
    then obtain d cs where "d < 10" "show_nat (n div 10) = digit_char d # cs" using 1 by blast
    then show ?thesis using False by (subst show_nat.simps) auto
  qed
qed

lemma digit_char_not_sign: "d < 10 \<Longrightarrow> digit_char d \<noteq> CHR ''-'' \<and> digit_char d \<noteq> CHR ''+''"
proof -
  assume "d < 10"
  then have "digit_of (digit_char d) = Some d" by (rule digit_of_digit_char)
  moreover have "digit_of (CHR ''-'') = None" "digit_of (CHR ''+'') = None" by code_simp+
  ultimately show ?thesis by (metis option.distinct(1))
qed

theorem ParseInt64_show: "- (2 ^ 63) \<le> i \<Longrightarrow> i < 2 ^ 63 \<Longrightarrow> ParseInt64 (show_int i) = Some i"
proof -
  assume b: "- (2 ^ 63) \<le> i" "i < 2 ^ 63"
  show ?thesis
  proof (cases "i < 0")
    case True
    obtain d cs where h: "show_nat (nat (- i)) = digit_char d # cs" using show_nat_head by blast
    have "parse_digits 0 (digit_char d # cs) = Some (nat (- i))" using parse_show_nat [of "nat (- i)"] by (simp only: h)
    with True b h show ?thesis by (simp add: ParseInt64_def show_int_def)
  next
    case False
    obtain d cs where h: "d < 10" "show_nat (nat i) = digit_char d # cs" using show_nat_head by blast
    have "parse_digits 0 (digit_char d # cs) = Some (nat i)" using parse_show_nat [of "nat i"] by (simp only: h)
    with False b h digit_char_not_sign [OF h(1)] show ?thesis by (simp add: ParseInt64_def show_int_def)
  qed
qed

subsection \<open>Base64\<close>

definition b64_alphabet :: string where
  "b64_alphabet = ''ABCDEFGHIJKLMNOPQRSTUVWXYZabcdefghijklmnopqrstuvwxyz0123456789-_''"

definition b64_char :: "nat \<Rightarrow> char" where
  "b64_char n = b64_alphabet ! (n mod 64)"

definition b64_value :: "char \<Rightarrow> nat option" where
  "b64_value c = map_option fst (find (\<lambda>p. snd p = c) (enumerate 0 b64_alphabet))"

fun b64_enc :: "nat list \<Rightarrow> nat list" where
  "b64_enc [] = []"
| "b64_enc [a] = [a div 4, a mod 4 * 16]"
| "b64_enc [a, b] = [a div 4, a mod 4 * 16 + b div 16, b mod 16 * 4]"
| "b64_enc (a # b # c # xs) = [a div 4, a mod 4 * 16 + b div 16, b mod 16 * 4 + c div 64, c mod 64] @ b64_enc xs"

fun b64_dec :: "nat list \<Rightarrow> nat list option" where
  "b64_dec [] = Some []"
| "b64_dec [a] = None"
| "b64_dec [a, b] = Some [a * 4 + b div 16]"
| "b64_dec [a, b, c] = Some [a * 4 + b div 16, b mod 16 * 16 + c div 4]"
| "b64_dec (a # b # c # d # xs) =
     map_option ((@) [a * 4 + b div 16, b mod 16 * 16 + c div 4, c mod 4 * 64 + d]) (b64_dec xs)"

fun b64_values :: "string \<Rightarrow> nat list option" where
  "b64_values [] = Some []"
| "b64_values (c # cs) = (case b64_value c of None \<Rightarrow> None | Some v \<Rightarrow> map_option ((#) v) (b64_values cs))"

definition EncodeToString :: "string \<Rightarrow> string" where
  "EncodeToString s = map b64_char (b64_enc (map of_char s))"

definition DecodeString :: "string \<Rightarrow> string option" where
  "DecodeString s =
     (case b64_values (filter (\<lambda>c. c \<noteq> CHR 0x0A \<and> c \<noteq> CHR 0x0D) s) of
        None \<Rightarrow> None | Some vs \<Rightarrow> map_option (map char_of) (b64_dec vs))"

lemma b64_groups: "list_all (\<lambda>x. x < 256) xs \<Longrightarrow> b64_dec (b64_enc xs) = Some xs \<and> list_all (\<lambda>x. x < 64) (b64_enc xs)"
  by (induction xs rule: b64_enc.induct) auto

lemma b64_char_value: "n < 64 \<Longrightarrow> b64_value (b64_char n) = Some n \<and> b64_char n \<noteq> CHR 0x0A \<and> b64_char n \<noteq> CHR 0x0D"
proof -
  have "list_all (\<lambda>n. b64_value (b64_char n) = Some n \<and> b64_char n \<noteq> CHR 0x0A \<and> b64_char n \<noteq> CHR 0x0D) [0..<64]"
    by code_simp
  then show "n < 64 \<Longrightarrow> b64_value (b64_char n) = Some n \<and> b64_char n \<noteq> CHR 0x0A \<and> b64_char n \<noteq> CHR 0x0D"
    by (simp add: list_all_iff)
qed

lemma b64_values_chars: "list_all (\<lambda>x. x < 64) xs \<Longrightarrow> b64_values (map b64_char xs) = Some xs"
  by (induction xs) (simp_all add: b64_char_value)

theorem DecodeString_Encode: "DecodeString (EncodeToString s) = Some s"
proof -
  let ?xs = "map of_char s :: nat list"
  have "list_all (\<lambda>x. x < 256) ?xs" by (simp add: list_all_iff nat_of_char_less_256)
  note g = b64_groups [OF this]
  have "filter (\<lambda>c. c \<noteq> CHR 0x0A \<and> c \<noteq> CHR 0x0D) (map b64_char (b64_enc ?xs)) = map b64_char (b64_enc ?xs)"
    using g b64_char_value by (fastforce simp: filter_id_conv list_all_iff)
  then show ?thesis using g by (simp add: DecodeString_def EncodeToString_def b64_values_chars comp_def)
qed

subsection \<open>Cursors\<close>

record MessageCursor =
  cur_CreatedAt :: int
  cur_ID :: string

definition encodeMessageCursor :: "int \<Rightarrow> string \<Rightarrow> string" where
  "encodeMessageCursor createdAt i = EncodeToString (show_int createdAt @ ''|'' @ TrimSpace i)"

definition split_bar :: "string \<Rightarrow> (string \<times> string) option" where
  \<comment> \<open>\<open>strings.SplitN(s, "|", 2)\<close>, when it has two parts\<close>
  "split_bar s = (case dropWhile (\<lambda>c. c \<noteq> CHR ''|'') s of [] \<Rightarrow> None | _ # r \<Rightarrow> Some (takeWhile (\<lambda>c. c \<noteq> CHR ''|'') s, r))"

definition decodeMessageCursor :: "string \<Rightarrow> MessageCursor option" where
  "decodeMessageCursor cursor =
     (case DecodeString (TrimSpace cursor) of
        None \<Rightarrow> None
      | Some decoded \<Rightarrow>
          (case split_bar decoded of
             None \<Rightarrow> None
           | Some (a, b) \<Rightarrow>
               if TrimSpace b = '''' then None
               else map_option (\<lambda>ns. \<lparr> cur_CreatedAt = ns, cur_ID = TrimSpace b \<rparr>) (ParseInt64 (TrimSpace a))))"

lemma show_nat_digits: "c \<in> set (show_nat n) \<Longrightarrow> \<exists>d < 10. c = digit_char d"
proof (induction n arbitrary: c rule: show_nat.induct)
  case (1 n)
  then have "n < 10 \<and> c = digit_char n \<or> \<not> n < 10 \<and> (c \<in> set (show_nat (n div 10)) \<or> c = digit_char (n mod 10))"
    by (auto simp: show_nat.simps [of n] split: if_splits)
  then show ?case using "1.IH" by (metis mod_less_divisor zero_less_numeral)
qed

lemma digit_char_plain: "d < 10 \<Longrightarrow> plain_char (digit_char d) \<and> digit_char d \<noteq> CHR ''|''"
proof -
  have "list_all (\<lambda>d. plain_char (digit_char d) \<and> digit_char d \<noteq> CHR ''|'') [0..<10]" by code_simp
  then show "d < 10 \<Longrightarrow> plain_char (digit_char d) \<and> digit_char d \<noteq> CHR ''|''" by (simp add: list_all_iff)
qed

lemma show_int_chars: "c \<in> set (show_int i) \<Longrightarrow> plain_char c \<and> c \<noteq> CHR ''|''"
proof -
  have m: "plain_char (CHR ''-'')" by code_simp
  show "c \<in> set (show_int i) \<Longrightarrow> plain_char c \<and> c \<noteq> CHR ''|''"
    using show_nat_digits digit_char_plain m by (fastforce simp: show_int_def split: if_splits)
qed

lemma show_int_nonempty: "show_int i \<noteq> []"
  using show_nat_head by (auto simp: show_int_def) (metis list.distinct(1))

lemma TrimSpace_plain_all: "s \<noteq> [] \<Longrightarrow> (\<And>c. c \<in> set s \<Longrightarrow> plain_char c) \<Longrightarrow> TrimSpace s = s"
  by (rule TrimSpace_plain) auto

lemma b64_enc_empty: "b64_enc xs = [] \<longleftrightarrow> xs = []"
  by (cases xs rule: b64_enc.cases) auto

lemma encoded_trim: "s \<noteq> [] \<Longrightarrow> TrimSpace (EncodeToString s) = EncodeToString s"
proof -
  have p: "list_all (\<lambda>c. plain_char c) b64_alphabet" by code_simp
  have l: "length b64_alphabet = 64" by code_simp
  have "plain_char (b64_char n)" for n using p l by (simp add: b64_char_def list_all_length)
  then show "s \<noteq> [] \<Longrightarrow> TrimSpace (EncodeToString s) = EncodeToString s"
    by (intro TrimSpace_plain_all) (auto simp: EncodeToString_def b64_enc_empty)
qed

lemma split_bar_append: "(\<And>c. c \<in> set a \<Longrightarrow> c \<noteq> CHR ''|'') \<Longrightarrow> split_bar (a @ CHR ''|'' # b) = Some (a, b)"
proof -
  assume a: "\<And>c. c \<in> set a \<Longrightarrow> c \<noteq> CHR ''|''"
  then have "dropWhile (\<lambda>c. c \<noteq> CHR ''|'') (a @ CHR ''|'' # b) = CHR ''|'' # b"
    "takeWhile (\<lambda>c. c \<noteq> CHR ''|'') (a @ CHR ''|'' # b) = a" by (induction a) auto
  then show ?thesis by (simp add: split_bar_def)
qed

lemma decode_encode_cursor:
  assumes "- (2 ^ 63) \<le> t" and "t < 2 ^ 63" and "TrimSpace i \<noteq> ''''"
  shows "decodeMessageCursor (encodeMessageCursor t i) = Some \<lparr> cur_CreatedAt = t, cur_ID = TrimSpace i \<rparr>"
proof -
  have s: "split_bar (show_int t @ CHR ''|'' # TrimSpace i) = Some (show_int t, TrimSpace i)"
    using show_int_chars by (intro split_bar_append) blast
  have t: "TrimSpace (show_int t) = show_int t"
    using show_int_chars by (intro TrimSpace_plain_all show_int_nonempty) blast
  show ?thesis
    by (simp add: decodeMessageCursor_def encodeMessageCursor_def encoded_trim DecodeString_Encode s t assms ParseInt64_show [OF assms(1,2)])
qed

end
