(* ===== verification/Conversations.thy ===== *)
theory Conversations
  imports Cursors Projects Safety "HOL-Library.Product_Lexorder"
begin

text \<open>
  The conversations of the assistant and of the agent: their rows (\<open>internal/model/ai_task.go\<close>), the
  statements on them (\<open>internal/repository/assistant.go\<close>) and the assistant service
  (\<open>internal/service/assistant.go\<close>). The language model is an argument. Times are nanoseconds; the
  database keeps microseconds and compares identifiers by their bytes. The environment says which queries are
  answered and which statements succeed; the clock is read once per identifier drawn. Deleting a
  conversation deletes its messages (\<open>ON DELETE CASCADE\<close>).
\<close>

subsection \<open>Rows\<close>

record AIConversation =
  cv_ID :: string
  cv_ProjectID :: string
  cv_UserID :: string
  cv_Type :: string
  cv_Title :: string
  cv_LastMessageAt :: "int option"
  cv_MessageCount :: int
  cv_CreatedAt :: int
  cv_UpdatedAt :: int

record AIChatMessage =
  cm_ID :: string
  cm_ConversationID :: string
  cm_Role :: string
  cm_Content :: string
  cm_ReasoningContent :: "string option"
  cm_ToolCalls :: raw_message
  cm_ToolCallID :: "string option"
  cm_Model :: "string option"
  cm_TokensUsed :: "int option"
  cm_IsPartial :: bool
  cm_CreatedAt :: int

record chat_db =
  ch_conversations :: "AIConversation list"
  ch_messages :: "AIChatMessage list"

record ChatHistoryMessage =
  h_Role :: string
  h_Content :: string
  h_ReasoningContent :: string
  h_ToolCalls :: "ToolCall list"
  h_ToolCallID :: string

datatype chat_error =
    ErrAssistantConversationNotFound
  | ErrAssistantPermissionDenied
  | ErrAssistantInvalidType
  | ErrAssistantProjectTypeMismatch
  | ErrAssistantInvalidCursor
  | ErrAssistantMessageEmpty
  | ErrAssistantProjectNotFound
  | ErrAssistantNoAnswer
  | ErrAssistantDB
  | ErrAssistantGraph graph_error
  | ErrProvider string

datatype chat_command = InsertConversation | InsertMessage | UpdateConversation | DropConversation
datatype chat_query = SelectConversation | SelectConversations | SelectMessages | SelectProject | SelectMember

record chat_env =
  ce_works :: "chat_command \<Rightarrow> chat_db \<Rightarrow> bool"
  ce_answers :: "chat_query \<Rightarrow> bool"
  ce_project :: "string \<Rightarrow> project_row option"
  ce_member :: "string \<Rightarrow> string \<Rightarrow> ProjectMember option"
  ce_tree :: "string \<Rightarrow> graph_error + FaultTreeNode list \<times> FaultTreeEdge list"
  ce_knowledge :: "string \<Rightarrow> graph_error + KnowledgeGraphNode list \<times> KnowledgeGraphEdge list"
  ce_draws :: draws
  ce_now :: "nat \<Rightarrow> int"

definition stored_time :: "int \<Rightarrow> int" where
  "stored_time t = t - t mod 1000"

definition query_chat :: "chat_env \<Rightarrow> chat_query \<Rightarrow> 'a \<Rightarrow> chat_error + 'a" where
  "query_chat env q answer = (if ce_answers env q then Inr answer else Inl ErrAssistantDB)"

subsection \<open>Statements\<close>

definition ConversationCreate :: "chat_env \<Rightarrow> AIConversation \<Rightarrow> chat_db \<Rightarrow> (chat_error + unit) \<times> chat_db" where
  "ConversationCreate env c db =
     (if ce_works env InsertConversation db then (ok, db\<lparr>ch_conversations := ch_conversations db @ [c]\<rparr>) else (Inl ErrAssistantDB, db))"

definition ConversationFindByID :: "string \<Rightarrow> chat_db \<Rightarrow> AIConversation option" where
  "ConversationFindByID i db = find (\<lambda>c. cv_ID c = TrimSpace i) (ch_conversations db)"

definition last_activity :: "AIConversation \<Rightarrow> int" where
  "last_activity c = (case cv_LastMessageAt c of Some t \<Rightarrow> t | None \<Rightarrow> cv_CreatedAt c)"

definition ListByUser ::
    "string \<Rightarrow> string \<Rightarrow> string \<Rightarrow> nat \<Rightarrow> nat \<Rightarrow> chat_db \<Rightarrow> AIConversation list \<times> nat" where
  "ListByUser userID projectID conversationType page pageSize db =
     (let rows = filter (\<lambda>c. cv_UserID c = TrimSpace userID
                   \<and> (TrimSpace projectID = '''' \<or> cv_ProjectID c = TrimSpace projectID)
                   \<and> (TrimSpace conversationType = '''' \<or> cv_Type c = TrimSpace conversationType)) (ch_conversations db)
      in (take pageSize (drop ((page - 1) * pageSize) (sort_key (\<lambda>c. (- last_activity c, - cv_UpdatedAt c)) rows)), length rows))"

definition RecordMessageActivity :: "chat_env \<Rightarrow> string \<Rightarrow> int \<Rightarrow> string \<Rightarrow> chat_db \<Rightarrow> (chat_error + unit) \<times> chat_db" where
  "RecordMessageActivity env conversationID t titleHint db =
     (if \<not> ce_works env UpdateConversation db then (Inl ErrAssistantDB, db)
      else (ok, db\<lparr>ch_conversations := map (\<lambda>c. if cv_ID c = TrimSpace conversationID
              then c\<lparr>cv_UpdatedAt := stored_time t, cv_LastMessageAt := Some (stored_time t), cv_MessageCount := cv_MessageCount c + 1,
                     cv_Title := (if TrimSpace titleHint \<noteq> '''' \<and> cv_Title c = '''' then TrimSpace titleHint else cv_Title c)\<rparr>
              else c) (ch_conversations db)\<rparr>))"

definition ConversationDeleteByID :: "chat_env \<Rightarrow> string \<Rightarrow> chat_db \<Rightarrow> (chat_error + unit) \<times> chat_db" where
  "ConversationDeleteByID env i db =
     (if \<not> ce_works env DropConversation db then (Inl ErrAssistantDB, db)
      else (ok, db\<lparr>ch_conversations := filter (\<lambda>c. cv_ID c \<noteq> TrimSpace i) (ch_conversations db),
                  ch_messages := filter (\<lambda>m. cm_ConversationID m \<noteq> TrimSpace i) (ch_messages db)\<rparr>))"

definition MessageCreate :: "chat_env \<Rightarrow> AIChatMessage \<Rightarrow> chat_db \<Rightarrow> (chat_error + unit) \<times> chat_db" where
  \<comment> \<open>the row refers to its conversation\<close>
  "MessageCreate env m db =
     (if ce_works env InsertMessage db \<and> list_ex (\<lambda>c. cv_ID c = cm_ConversationID m) (ch_conversations db)
      then (ok, db\<lparr>ch_messages := ch_messages db @ [m\<lparr>cm_CreatedAt := stored_time (cm_CreatedAt m)\<rparr>]\<rparr>)
      else (Inl ErrAssistantDB, db))"

definition newest_first :: "AIChatMessage list \<Rightarrow> AIChatMessage list" where
  "newest_first ms = rev (sort_key (\<lambda>m. (cm_CreatedAt m, cm_ID m)) ms)"

definition before_cursor :: "MessageCursor option \<Rightarrow> AIChatMessage \<Rightarrow> bool" where
  "before_cursor before m = (case before of
      None \<Rightarrow> True
    | Some c \<Rightarrow> cm_CreatedAt m < cur_CreatedAt c \<or> cm_CreatedAt m = cur_CreatedAt c \<and> cm_ID m < TrimSpace (cur_ID c))"

definition chat_role :: "string \<Rightarrow> bool" where
  "chat_role r \<longleftrightarrow> r \<in> {''user'', ''assistant'', ''system''}"

definition ListByConversationBefore :: "string \<Rightarrow> MessageCursor option \<Rightarrow> nat \<Rightarrow> chat_db \<Rightarrow> AIChatMessage list \<times> bool" where
  "ListByConversationBefore conversationID before maxRows db =
     (let messages = take (maxRows + 1) (newest_first (filter (\<lambda>m. cm_ConversationID m = TrimSpace conversationID
                        \<and> chat_role (cm_Role m) \<and> before_cursor before m) (ch_messages db)))
      in (take maxRows messages, length messages > maxRows))"

definition ListRecentByConversation :: "string \<Rightarrow> nat \<Rightarrow> chat_db \<Rightarrow> AIChatMessage list" where
  "ListRecentByConversation conversationID maxRows db =
     rev (take maxRows (newest_first (filter (\<lambda>m. cm_ConversationID m = TrimSpace conversationID) (ch_messages db))))"

subsection \<open>Access\<close>

definition AssistantTypeFaultTree :: string where "AssistantTypeFaultTree = ''faultTree''"
definition AssistantTypeKnowledgeGraph :: string where "AssistantTypeKnowledgeGraph = ''knowledgeGraph''"

definition isValidAssistantType :: "string \<Rightarrow> bool" where
  "isValidAssistantType t \<longleftrightarrow> TrimSpace t = AssistantTypeFaultTree \<or> TrimSpace t = AssistantTypeKnowledgeGraph"

definition toProjectType :: "string \<Rightarrow> string" where
  "toProjectType t = (if TrimSpace t = AssistantTypeKnowledgeGraph then ''kg'' else ''ft'')"

definition find_project :: "chat_env \<Rightarrow> string \<Rightarrow> chat_error + project_row option" where
  "find_project env i =
     (if TrimSpace i = '''' then Inr None else query_chat env SelectProject (ce_project env (TrimSpace i)))"

definition ensureProjectMembership :: "chat_env \<Rightarrow> string \<Rightarrow> string \<Rightarrow> chat_error + unit" where
  "ensureProjectMembership env projectID userID =
     (if TrimSpace projectID = '''' then Inl ErrAssistantProjectNotFound
      else bindE (find_project env (TrimSpace projectID)) (\<lambda>p.
        if p = None then Inl ErrAssistantProjectNotFound
        else bindE (query_chat env SelectMember (ce_member env (TrimSpace projectID) (TrimSpace userID))) (\<lambda>m.
          guardE (m = None) ErrAssistantPermissionDenied)))"

definition getConversationForUser :: "chat_env \<Rightarrow> string \<Rightarrow> string \<Rightarrow> chat_db \<Rightarrow> chat_error + AIConversation" where
  "getConversationForUser env conversationID userID db =
     bindE (query_chat env SelectConversation (ConversationFindByID conversationID db)) (\<lambda>r. case r of
        None \<Rightarrow> Inl ErrAssistantConversationNotFound
      | Some c \<Rightarrow>
          if TrimSpace (cv_UserID c) \<noteq> TrimSpace userID then Inl ErrAssistantPermissionDenied
          else case ensureProjectMembership env (cv_ProjectID c) userID of
            Inl e \<Rightarrow> Inl (if e = ErrAssistantProjectNotFound then ErrAssistantConversationNotFound else e)
          | Inr _ \<Rightarrow> Inr c)"

subsection \<open>Conversations\<close>

definition CreateConversation :: "chat_env \<Rightarrow> string \<Rightarrow> string \<Rightarrow> string \<Rightarrow> nat \<Rightarrow> chat_db \<Rightarrow> (chat_error + AIConversation) \<times> chat_db" where
  "CreateConversation env rawProjectID rawUserID rawType k db =
     (let projectID = TrimSpace rawProjectID; userID = TrimSpace rawUserID; conversationType = TrimSpace rawType;
          c = \<lparr> cv_ID = NewID (ce_draws env) k ''conv'', cv_ProjectID = projectID, cv_UserID = userID, cv_Type = conversationType,
                cv_Title = '''', cv_LastMessageAt = None, cv_MessageCount = 0,
                cv_CreatedAt = stored_time (ce_now env k), cv_UpdatedAt = stored_time (ce_now env k) \<rparr>;
          checks = bindE (guardE (\<not> isValidAssistantType conversationType) ErrAssistantInvalidType) (\<lambda>_.
                   bindE (find_project env projectID) (\<lambda>p. case p of
                     None \<Rightarrow> Inl ErrAssistantProjectNotFound
                   | Some q \<Rightarrow> bindE (guardE (proj_Type q \<noteq> toProjectType conversationType) ErrAssistantProjectTypeMismatch)
                                (\<lambda>_. ensureProjectMembership env projectID userID)))
      in case checks of
        Inl e \<Rightarrow> (Inl e, db)
      | Inr _ \<Rightarrow> (case ConversationCreate env c db of (Inl e, db1) \<Rightarrow> (Inl e, db1) | (Inr _, db1) \<Rightarrow> (Inr c, db1)))"

definition ListConversations ::
    "chat_env \<Rightarrow> string \<Rightarrow> string \<Rightarrow> string \<Rightarrow> int \<Rightarrow> int \<Rightarrow> chat_db \<Rightarrow> chat_error + AIConversation list \<times> nat" where
  "ListConversations env userID rawProjectID rawType rawPage rawSize db =
     (let projectID = TrimSpace rawProjectID; conversationType = TrimSpace rawType;
          page = (if rawPage < 1 then 1 else rawPage);
          size1 = (if rawSize < 1 then 20 else rawSize); pageSize = (if size1 > 100 then 100 else size1) in
      bindE (guardE (conversationType \<noteq> '''' \<and> \<not> isValidAssistantType conversationType) ErrAssistantInvalidType) (\<lambda>_.
      bindE (if projectID = '''' then ok else ensureProjectMembership env projectID (TrimSpace userID)) (\<lambda>_.
        query_chat env SelectConversations (ListByUser (TrimSpace userID) projectID conversationType (nat page) (nat pageSize) db))))"

definition DeleteConversation :: "chat_env \<Rightarrow> string \<Rightarrow> string \<Rightarrow> chat_db \<Rightarrow> (chat_error + unit) \<times> chat_db" where
  "DeleteConversation env conversationID userID db =
     (case getConversationForUser env (TrimSpace conversationID) (TrimSpace userID) db of
        Inl e \<Rightarrow> (Inl e, db) | Inr c \<Rightarrow> ConversationDeleteByID env (cv_ID c) db)"

subsection \<open>History\<close>

record MessageHistoryOutput =
  mh_Conversation :: AIConversation
  mh_Messages :: "AIChatMessage list"
  mh_NextCursor :: string
  mh_HasMore :: bool

definition history_limit :: "int \<Rightarrow> nat" where
  "history_limit l = (if l \<le> 0 then 20 else if l > 100 then 100 else nat l)"

definition GetMessageHistory :: "chat_env \<Rightarrow> string \<Rightarrow> string \<Rightarrow> string \<Rightarrow> int \<Rightarrow> chat_db \<Rightarrow> chat_error + MessageHistoryOutput" where
  "GetMessageHistory env conversationID userID before maxRows db =
     bindE (getConversationForUser env (TrimSpace conversationID) (TrimSpace userID) db) (\<lambda>c.
     bindE (if TrimSpace before = '''' then Inr None
            else case decodeMessageCursor before of None \<Rightarrow> Inl ErrAssistantInvalidCursor | Some cur \<Rightarrow> Inr (Some cur)) (\<lambda>cur.
     bindE (query_chat env SelectMessages (ListByConversationBefore (cv_ID c) cur (history_limit maxRows) db)) (\<lambda>(messages, hasMore).
       Inr \<lparr> mh_Conversation = c, mh_Messages = messages,
             mh_NextCursor = (if hasMore \<and> messages \<noteq> [] then encodeMessageCursor (cm_CreatedAt (last messages)) (cm_ID (last messages)) else ''''),
             mh_HasMore = hasMore \<rparr>)))"

subsection \<open>Sending a message\<close>

datatype chat_context = TreeContext "FaultTreeNode list" "FaultTreeEdge list"
  | KnowledgeContext "KnowledgeGraphNode list" "KnowledgeGraphEdge list"

record ChatRequest =
  rq_ContextData :: "chat_context option"
  rq_GraphType :: string
  rq_Message :: string
  rq_Model :: string
  rq_History :: "ChatHistoryMessage list"

record ChatResponse =
  rs_Reply :: string
  rs_Suggestions :: "string list"

record StreamResponse =
  st_Chunks :: "string list"
  st_TokensUsed :: int
  st_ModelUsed :: string
  st_Error :: "string option"

definition loadAssistantContext :: "chat_env \<Rightarrow> AIConversation \<Rightarrow> chat_error + chat_context" where
  "loadAssistantContext env c =
     (if cv_Type c = AssistantTypeFaultTree
        then (case ce_tree env (cv_ProjectID c) of Inl e \<Rightarrow> Inl (ErrAssistantGraph e) | Inr (ns, es) \<Rightarrow> Inr (TreeContext ns es))
      else if cv_Type c = AssistantTypeKnowledgeGraph
        then (case ce_knowledge env (cv_ProjectID c) of Inl e \<Rightarrow> Inl (ErrAssistantGraph e) | Inr (ns, es) \<Rightarrow> Inr (KnowledgeContext ns es))
      else Inl ErrAssistantInvalidType)"

definition buildConversationTitle :: "string \<Rightarrow> string" where
  "buildConversationTitle message = concat (take 30 (runes (TrimSpace message)))"

definition text_message :: "string \<Rightarrow> string \<Rightarrow> ChatHistoryMessage" where
  "text_message role content = \<lparr> h_Role = role, h_Content = content, h_ReasoningContent = '''', h_ToolCalls = [], h_ToolCallID = '''' \<rparr>"

definition toChatHistory :: "AIChatMessage list \<Rightarrow> ChatHistoryMessage list" where
  "toChatHistory ms = List.map_filter (\<lambda>m.
     let role = TrimSpace (ToLower (cm_Role m)); content = TrimSpace (cm_Content m) in
     if (role \<noteq> ''user'' \<and> role \<noteq> ''assistant'') \<or> content = '''' then None else Some (text_message role content)) ms"

definition plain_row :: "chat_env \<Rightarrow> nat \<Rightarrow> string \<Rightarrow> string \<Rightarrow> string \<Rightarrow> AIChatMessage" where
  "plain_row env k conversationID role content = \<lparr> cm_ID = NewID (ce_draws env) k ''msg'', cm_ConversationID = conversationID,
     cm_Role = role, cm_Content = content, cm_ReasoningContent = None, cm_ToolCalls = RawEmpty, cm_ToolCallID = None,
     cm_Model = None, cm_TokensUsed = None, cm_IsPartial = False, cm_CreatedAt = ce_now env k \<rparr>"

definition post_message :: "chat_env \<Rightarrow> AIChatMessage \<Rightarrow> string \<Rightarrow> chat_db \<Rightarrow> (chat_error + unit) \<times> chat_db" where
  \<comment> \<open>the row and the activity of its conversation: two statements\<close>
  "post_message env m hint db =
     (case MessageCreate env m db of
        (Inl e, db1) \<Rightarrow> (Inl e, db1)
      | (Inr _, db1) \<Rightarrow> RecordMessageActivity env (cm_ConversationID m) (cm_CreatedAt m) hint db1)"

definition open_turn ::
    "chat_env \<Rightarrow> string \<Rightarrow> string \<Rightarrow> string \<Rightarrow> string \<Rightarrow> nat \<Rightarrow> chat_db
      \<Rightarrow> (chat_error + AIConversation \<times> AIChatMessage \<times> ChatRequest) \<times> chat_db" where
  \<comment> \<open>what both ways of sending do before they ask the model\<close>
  "open_turn env conversationID userID message modelName k db =
     (let text = TrimSpace message;
          prepared = bindE (getConversationForUser env (TrimSpace conversationID) (TrimSpace userID) db) (\<lambda>c.
                     bindE (guardE (text = '''') ErrAssistantMessageEmpty) (\<lambda>_.
                     bindE (query_chat env SelectMessages (ListRecentByConversation (cv_ID c) 20 db)) (\<lambda>rows.
                     bindE (if cv_MessageCount c = 0 \<or> rows = [] then bindE (loadAssistantContext env c) (\<lambda>x. Inr (Some x)) else Inr None) (\<lambda>ctx.
                       Inr (c, \<lparr> rq_ContextData = ctx, rq_GraphType = cv_Type c, rq_Message = text, rq_Model = TrimSpace modelName,
                                 rq_History = toChatHistory rows \<rparr>)))))
      in case prepared of
        Inl e \<Rightarrow> (Inl e, db)
      | Inr (c, rq) \<Rightarrow>
          let m = plain_row env k (cv_ID c) ''user'' text in
          (case post_message env m (buildConversationTitle text) db of
             (Inl e, db1) \<Rightarrow> (Inl e, db1) | (Inr _, db1) \<Rightarrow> (Inr (c, m, rq), db1)))"

record SendMessageOutput =
  so_ConversationID :: string
  so_UserMessage :: AIChatMessage
  so_AssistantMessage :: AIChatMessage
  so_Suggestions :: "string list"

definition or_empty_text :: "string \<Rightarrow> string" where
  "or_empty_text s = (if s = '''' then ''(empty response)'' else s)"

definition SendMessage ::
    "chat_env \<Rightarrow> (ChatRequest \<Rightarrow> string + ChatResponse option) \<Rightarrow> string \<Rightarrow> string \<Rightarrow> string \<Rightarrow> string \<Rightarrow> nat \<Rightarrow> chat_db
      \<Rightarrow> (chat_error + SendMessageOutput) \<times> chat_db" where
  "SendMessage env provider conversationID userID message modelName k db =
     (case open_turn env conversationID userID message modelName k db of
        (Inl e, db1) \<Rightarrow> (Inl e, db1)
      | (Inr (c, um, rq), db1) \<Rightarrow>
          (case provider rq of
             Inl e \<Rightarrow> (Inl (ErrProvider e), db1)
           | Inr None \<Rightarrow> (Inl ErrAssistantNoAnswer, db1)
           | Inr (Some resp) \<Rightarrow>
               let am = plain_row env (k + 1) (cv_ID c) ''assistant'' (or_empty_text (TrimSpace (rs_Reply resp))) in
               (case post_message env am '''' db1 of
                  (Inl e, db2) \<Rightarrow> (Inl e, db2)
                | (Inr _, db2) \<Rightarrow> (Inr \<lparr> so_ConversationID = cv_ID c, so_UserMessage = um, so_AssistantMessage = am,
                                         so_Suggestions = rs_Suggestions resp \<rparr>, db2))))"

record SendMessageStreamOutput =
  ss_ConversationID :: string
  ss_UserMessageID :: string
  ss_AssistantMessageID :: string
  ss_TokensUsed :: int
  ss_ModelUsed :: string
  ss_IsPartial :: bool

definition with_usage :: "string \<Rightarrow> int \<Rightarrow> AIChatMessage \<Rightarrow> AIChatMessage" where
  "with_usage modelUsed tokens m =
     m\<lparr>cm_Model := (if TrimSpace modelUsed \<noteq> '''' then Some (TrimSpace modelUsed) else None),
       cm_TokensUsed := (if tokens > 0 then Some tokens else None)\<rparr>"

definition SendMessageStream ::
    "chat_env \<Rightarrow> (ChatRequest \<Rightarrow> StreamResponse) \<Rightarrow> string \<Rightarrow> string \<Rightarrow> string \<Rightarrow> string \<Rightarrow> nat \<Rightarrow> chat_db
      \<Rightarrow> (SendMessageStreamOutput option \<times> chat_error option) \<times> chat_db" where
  \<comment> \<open>an output and an error can come together; the chunks are handed on as they come\<close>
  "SendMessageStream env provider conversationID userID message modelName k db =
     (case open_turn env conversationID userID message modelName k db of
        (Inl e, db1) \<Rightarrow> ((None, Some e), db1)
      | (Inr (c, um, rq), db1) \<Rightarrow>
          let resp = provider rq; text = TrimSpace (concat (st_Chunks resp));
              out = (\<lambda>i partial. \<lparr> ss_ConversationID = cv_ID c, ss_UserMessageID = cm_ID um, ss_AssistantMessageID = i,
                 ss_TokensUsed = st_TokensUsed resp, ss_ModelUsed = st_ModelUsed resp, ss_IsPartial = partial \<rparr>);
              row = (\<lambda>t. with_usage (st_ModelUsed resp) (st_TokensUsed resp) (plain_row env (k + 1) (cv_ID c) ''assistant'' t)) in
          (case st_Error resp of
             Some e \<Rightarrow>
               if text = '''' then ((Some (out '''' False), Some (ErrProvider e)), db1)
               else ((Some (out (cm_ID (row text)) True), Some (ErrProvider e)),
                     snd (post_message env ((row text)\<lparr>cm_IsPartial := True\<rparr>) '''' db1))
           | None \<Rightarrow>
               (case post_message env (row (or_empty_text text)) '''' db1 of
                  (Inl e, db2) \<Rightarrow> ((None, Some e), db2)
                | (Inr _, db2) \<Rightarrow> ((Some (out (cm_ID (row (or_empty_text text))) False), None), db2))))"

end
