(* ===== verification/ConversationTheorems.thy ===== *)
theory ConversationTheorems
  imports Conversations
begin

text \<open>
  The assistant's conversations: the cursors of the history and what following them lists, who may use a
  conversation, and what every operation keeps of the two tables.
\<close>

subsection \<open>Cursors\<close>

text \<open>A cursor handed out with a page of the history is read back as the time and the identifier of the
  page's last message, for every time of 64 bits and every identifier that is not blank.\<close>

theorem cursor_roundtrip:
  assumes "- (2 ^ 63) \<le> t" and "t < 2 ^ 63" and "TrimSpace i \<noteq> ''''"
  shows "decodeMessageCursor (encodeMessageCursor t i) = Some \<lparr> cur_CreatedAt = t, cur_ID = TrimSpace i \<rparr>"
  using assms by (rule decode_encode_cursor)

theorem cursor_roundtrip_witness:
  "encodeMessageCursor (-1) ''msg_1'' = ''LTF8bXNnXzE''
    \<and> decodeMessageCursor (encodeMessageCursor 1700000000000001000 '' msg_2 '') = Some \<lparr> cur_CreatedAt = 1700000000000001000, cur_ID = ''msg_2'' \<rparr>"
proof
  show "encodeMessageCursor (-1) ''msg_1'' = ''LTF8bXNnXzE''" by code_simp
  have t: "TrimSpace '' msg_2 '' = ''msg_2''" by code_simp
  show "decodeMessageCursor (encodeMessageCursor 1700000000000001000 '' msg_2 '') = Some \<lparr> cur_CreatedAt = 1700000000000001000, cur_ID = ''msg_2'' \<rparr>"
    using cursor_roundtrip [of 1700000000000001000 "'' msg_2 ''"] by (simp add: t)
qed

subsection \<open>Pages\<close>

definition message_key :: "AIChatMessage \<Rightarrow> int \<times> string" where
  "message_key m = (cm_CreatedAt m, cm_ID m)"

definition shown_in :: "string \<Rightarrow> AIChatMessage \<Rightarrow> bool" where
  "shown_in i m \<longleftrightarrow> cm_ConversationID m = i \<and> chat_role (cm_Role m)"

definition messages_ok :: "chat_db \<Rightarrow> bool" where
  \<comment> \<open>identifiers are distinct and trimmed, times fit into 64 bits\<close>
  "messages_ok db \<longleftrightarrow> distinct (map cm_ID (ch_messages db)) \<and>
     list_all (\<lambda>m. TrimSpace (cm_ID m) = cm_ID m \<and> cm_ID m \<noteq> '''' \<and> - (2 ^ 63) \<le> cm_CreatedAt m \<and> cm_CreatedAt m < 2 ^ 63) (ch_messages db)"

lemma newest_first_filter: "newest_first (filter P ms) = filter P (newest_first ms)"
  by (simp add: newest_first_def rev_filter flip: filter_sort)

lemma set_newest_first [simp]: "set (newest_first ms) = set ms" "length (newest_first ms) = length ms"
  by (simp_all add: newest_first_def)

lemma newest_first_strict:
  assumes "distinct (map cm_ID ms)"
  shows "sorted_wrt (\<lambda>a b. message_key b < message_key a) (newest_first ms)"
proof -
  have "distinct (map cm_ID (newest_first ms))"
    using assms by (simp add: newest_first_def rev_map [symmetric] distinct_map)
  then have "distinct (map message_key (sort_key message_key ms))"
    using assms by (auto simp: distinct_map inj_on_def message_key_def)
  moreover have "sorted (map message_key (sort_key message_key ms))" by simp
  ultimately have "sorted_wrt (<) (map message_key (sort_key message_key ms))" by (simp add: strict_sorted_iff)
  then show ?thesis
    by (simp add: newest_first_def sorted_wrt_rev sorted_wrt_map message_key_def [abs_def])
qed

lemma filter_after:
  assumes "sorted_wrt (\<lambda>a b. message_key b < message_key a) L" and "j < length L"
  shows "filter (\<lambda>m. message_key m < message_key (L ! j)) L = drop (Suc j) L"
  using assms
proof (induction L arbitrary: j)
  case (Cons x L)
  show ?case
  proof (cases j)
    case 0
    with Cons.prems show ?thesis by (auto simp: filter_id_conv)
  next
    case (Suc i)
    then have "message_key (L ! i) < message_key x" using Cons.prems by auto
    then have "\<not> message_key x < message_key (L ! i)" by (rule less_not_sym)
    with Cons Suc show ?thesis by auto
  qed
qed simp

lemma before_cursor_key:
  "TrimSpace (cur_ID c) = cur_ID c \<Longrightarrow> before_cursor (Some c) m \<longleftrightarrow> message_key m < (cur_CreatedAt c, cur_ID c)"
  by (auto simp: before_cursor_def message_key_def less_prod_def)

text \<open>What a client sees that follows the cursors, at most \<open>n\<close> pages.\<close>

fun walk_history :: "nat \<Rightarrow> chat_env \<Rightarrow> string \<Rightarrow> string \<Rightarrow> int \<Rightarrow> string \<Rightarrow> chat_db \<Rightarrow> AIChatMessage list" where
  "walk_history 0 env i u l before db = []"
| "walk_history (Suc n) env i u l before db =
     (case GetMessageHistory env i u before l db of
        Inl _ \<Rightarrow> []
      | Inr out \<Rightarrow> mh_Messages out @ (if mh_HasMore out then walk_history n env i u l (mh_NextCursor out) db else []))"

definition points_at :: "AIChatMessage list \<Rightarrow> nat \<Rightarrow> string \<Rightarrow> bool" where
  \<comment> \<open>a cursor behind the first \<open>j\<close> messages\<close>
  "points_at L j before \<longleftrightarrow> (if j = 0 then TrimSpace before = ''''
     else TrimSpace before \<noteq> '''' \<and> decodeMessageCursor before = Some \<lparr> cur_CreatedAt = cm_CreatedAt (L ! (j - 1)), cur_ID = cm_ID (L ! (j - 1)) \<rparr>)"

lemma history_limit_pos: "0 < history_limit l"
  by (simp add: history_limit_def)

lemma encoded_cursor: "TrimSpace (encodeMessageCursor t i) \<noteq> ''''"
proof -
  have "encodeMessageCursor t i \<noteq> []" by (simp add: encodeMessageCursor_def EncodeToString_def b64_enc_empty)
  then show ?thesis by (simp add: encodeMessageCursor_def encoded_trim)
qed

lemma one_page:
  assumes conv: "getConversationForUser env (TrimSpace i) (TrimSpace u) db = Inr c" and "ce_answers env SelectMessages"
    and ok: "messages_ok db" and L: "L = newest_first (filter (shown_in (TrimSpace (cv_ID c))) (ch_messages db))"
    and at: "points_at L j before" "j \<le> length L"
  shows "\<exists>out. GetMessageHistory env i u before l db = Inr out
    \<and> mh_Messages out = take (history_limit l) (drop j L) \<and> mh_HasMore out = (history_limit l < length L - j)
    \<and> (mh_HasMore out \<longrightarrow> points_at L (j + history_limit l) (mh_NextCursor out))"
proof -
  let ?k = "history_limit l"
  have strict: "sorted_wrt (\<lambda>a b. message_key b < message_key a) L"
    using ok unfolding L by (intro newest_first_strict) (auto simp: messages_ok_def distinct_map inj_on_def)
  have row: "TrimSpace (cm_ID m) = cm_ID m \<and> cm_ID m \<noteq> '''' \<and> - (2 ^ 63) \<le> cm_CreatedAt m \<and> cm_CreatedAt m < 2 ^ 63" if "m \<in> set L" for m
    using ok that by (auto simp: messages_ok_def L list_all_iff)
  define cur where "cur = (if j = 0 then None else Some \<lparr> cur_CreatedAt = cm_CreatedAt (L ! (j - 1)), cur_ID = cm_ID (L ! (j - 1)) \<rparr>)"
  have dec: "(if TrimSpace before = '''' then Inr None
      else case decodeMessageCursor before of None \<Rightarrow> Inl ErrAssistantInvalidCursor | Some x \<Rightarrow> Inr (Some x)) = (Inr cur :: chat_error + _)"
    using at by (auto simp: points_at_def cur_def)
  have rest: "filter (before_cursor cur) L = drop j L"
  proof (cases j)
    case (Suc i')
    then have m: "L ! i' \<in> set L" "i' < length L" using at(2) by simp_all
    have "filter (before_cursor cur) L = filter (\<lambda>m. message_key m < message_key (L ! i')) L"
      using row [OF m(1)] by (intro filter_cong refl) (simp add: cur_def Suc before_cursor_key, simp add: message_key_def)
    then show ?thesis using filter_after [OF strict m(2)] Suc by simp
  qed (simp add: cur_def before_cursor_def)
  have "newest_first (filter (\<lambda>m. cm_ConversationID m = TrimSpace (cv_ID c) \<and> chat_role (cm_Role m) \<and> before_cursor cur m) (ch_messages db)) = drop j L"
    unfolding rest [symmetric] by (simp add: L newest_first_filter shown_in_def conj_ac)
  then have list: "ListByConversationBefore (cv_ID c) cur ?k db = (take ?k (drop j L), ?k < length L - j)"
    by (auto simp: ListByConversationBefore_def Let_def min_def)
  let ?msgs = "take ?k (drop j L)"
  let ?next = "if ?k < length L - j \<and> ?msgs \<noteq> [] then encodeMessageCursor (cm_CreatedAt (last ?msgs)) (cm_ID (last ?msgs)) else ''''"
  have get: "GetMessageHistory env i u before l db =
      Inr \<lparr> mh_Conversation = c, mh_Messages = ?msgs, mh_NextCursor = ?next, mh_HasMore = (?k < length L - j) \<rparr>"
    unfolding GetMessageHistory_def conv bindE_simps dec list query_chat_def using assms(2) by simp
  have "points_at L (j + ?k) ?next" if more: "?k < length L - j"
  proof -
    have ne: "?msgs \<noteq> []" using more history_limit_pos [of l] by auto
    have "last ?msgs = L ! (j + ?k - 1)"
      using more history_limit_pos [of l] by (simp add: last_conv_nth ne min_def)
    moreover have "L ! (j + ?k - 1) \<in> set L" using more by (intro nth_mem) simp
    note row [OF this]
    ultimately show ?thesis
      using more ne history_limit_pos [of l] encoded_cursor by (simp add: points_at_def decode_encode_cursor)
  qed
  with get show ?thesis by simp
qed

lemma walk_rest:
  assumes "getConversationForUser env (TrimSpace i) (TrimSpace u) db = Inr c" and "ce_answers env SelectMessages"
    and "messages_ok db" and "L = newest_first (filter (shown_in (TrimSpace (cv_ID c))) (ch_messages db))"
  shows "points_at L j before \<Longrightarrow> j \<le> length L \<Longrightarrow> length L - j < n \<Longrightarrow> walk_history n env i u l before db = drop j L"
proof (induction n arbitrary: j before)
  case (Suc n)
  let ?k = "history_limit l"
  obtain out where out: "GetMessageHistory env i u before l db = Inr out"
      "mh_Messages out = take ?k (drop j L)" "mh_HasMore out = (?k < length L - j)"
      "mh_HasMore out \<longrightarrow> points_at L (j + ?k) (mh_NextCursor out)"
    using one_page [OF assms Suc.prems(1,2)] by blast
  show ?case
  proof (cases "?k < length L - j")
    case True
    then have "walk_history n env i u l (mh_NextCursor out) db = drop (j + ?k) L"
      using out Suc.prems(3) history_limit_pos [of l] by (intro Suc.IH) auto
    moreover have "drop (j + ?k) L = drop ?k (drop j L)" by (simp add: add.commute)
    ultimately show ?thesis using out True by (simp del: drop_drop)
  qed (use out in simp)
qed simp

text \<open>C32: Following the cursors of the message history from the start shows every message of the user, the
  assistant and the system exactly once, the newest first, whatever the size of the pages: it lists what one
  sorted query without a limit would.\<close>

theorem history_pages_complete:
  assumes "getConversationForUser env (TrimSpace i) (TrimSpace u) db = Inr c" and "ce_answers env SelectMessages"
    and "messages_ok db" and "length (ch_messages db) < n"
  shows "walk_history n env i u l '''' db = newest_first (filter (shown_in (TrimSpace (cv_ID c))) (ch_messages db))"
proof -
  let ?L = "newest_first (filter (shown_in (TrimSpace (cv_ID c))) (ch_messages db))"
  have "length ?L - 0 < n" using assms(4) length_filter_le [of "shown_in (TrimSpace (cv_ID c))" "ch_messages db"]
    unfolding set_newest_first(2) by linarith
  from walk_rest [OF assms(1-3) refl _ _ this] show ?thesis by (simp add: points_at_def)
qed

definition ex_chat_env :: chat_env where
  "ex_chat_env = \<lparr> ce_works = (\<lambda>_ _. True), ce_answers = (\<lambda>_. True),
     ce_project = (\<lambda>p. if p = ''p'' then Some (newProject ''p'' ''P'' ''ft'' '''' [] ''u'') else None),
     ce_member = (\<lambda>p u. if u = ''u'' then Some \<lparr> pm_ID = ''m1'', pm_ProjectID = ''p'', pm_UserID = ''u'', pm_Role = ''editor'', pm_Status = ''active'' \<rparr> else None),
     ce_tree = (\<lambda>_. Inr ([], [])), ce_knowledge = (\<lambda>_. Inr ([], [])), ce_draws = (\<lambda>k. (k, 0)), ce_now = (\<lambda>k. 5000 + 10 * int k) \<rparr>"

definition ex_conversation :: AIConversation where
  "ex_conversation = \<lparr> cv_ID = ''c'', cv_ProjectID = ''p'', cv_UserID = ''u'', cv_Type = ''faultTree'', cv_Title = '''',
     cv_LastMessageAt = None, cv_MessageCount = 3, cv_CreatedAt = 1000, cv_UpdatedAt = 1000 \<rparr>"

definition ex_row_at :: "int \<Rightarrow> string \<Rightarrow> string \<Rightarrow> AIChatMessage" where
  "ex_row_at t i role = (plain_row ex_chat_env 0 ''c'' role ''hello'')\<lparr>cm_ID := i, cm_CreatedAt := t\<rparr>"

definition ex_chat :: chat_db where
  "ex_chat = \<lparr> ch_conversations = [ex_conversation],
     ch_messages = [ex_row_at 3000 ''m1'' ''user'', ex_row_at 3000 ''m2'' ''tool'', ex_row_at 3000 ''m3'' ''assistant'', ex_row_at 1000 ''m4'' ''user''] \<rparr>"

theorem history_pages_complete_witness:
  "walk_history 5 ex_chat_env ''c'' ''u'' 1 '''' ex_chat = newest_first (filter (shown_in (TrimSpace (cv_ID ex_conversation))) (ch_messages ex_chat))
    \<and> map cm_ID (newest_first (filter (shown_in ''c'') (ch_messages ex_chat))) = [''m3'', ''m1'', ''m4'']"
proof
  have "getConversationForUser ex_chat_env (TrimSpace ''c'') (TrimSpace ''u'') ex_chat = Inr ex_conversation" by code_simp
  moreover have "messages_ok ex_chat" by code_simp
  moreover have "length (ch_messages ex_chat) < 5" by (simp add: ex_chat_def)
  ultimately show "walk_history 5 ex_chat_env ''c'' ''u'' 1 '''' ex_chat
      = newest_first (filter (shown_in (TrimSpace (cv_ID ex_conversation))) (ch_messages ex_chat))"
    by (intro history_pages_complete) (simp_all add: ex_chat_env_def)
  show "map cm_ID (newest_first (filter (shown_in ''c'') (ch_messages ex_chat))) = [''m3'', ''m1'', ''m4'']" by code_simp
qed

subsection \<open>Whose conversation it is\<close>

definition foreign :: "chat_env \<Rightarrow> string \<Rightarrow> string \<Rightarrow> chat_db \<Rightarrow> bool" where
  \<comment> \<open>the conversation is missing or somebody else's, or the user is no member of its project\<close>
  "foreign env i u db \<longleftrightarrow> (case ConversationFindByID i db of
      None \<Rightarrow> True
    | Some c \<Rightarrow> TrimSpace (cv_UserID c) \<noteq> TrimSpace u \<or> ce_member env (TrimSpace (cv_ProjectID c)) (TrimSpace u) = None)"

lemma foreign_refused:
  assumes "foreign env i u db"
  shows "\<exists>e. getConversationForUser env (TrimSpace i) (TrimSpace u) db = Inl e"
  using assms
  by (auto simp: foreign_def getConversationForUser_def ConversationFindByID_def query_chat_def ensureProjectMembership_def
      find_project_def guardE_def bindE_def split: option.splits sum.splits if_splits)

text \<open>C30: Nobody reads, continues or deletes a conversation that is not his own, or of a project he is no member of
  any more: the history, both ways of sending and the deletion answer with an error and leave the tables as
  they were, whatever the queries and the model answer.\<close>

theorem conversations_private:
  assumes "foreign env i u db"
  shows "\<not> is_ok (GetMessageHistory env i u before l db)
    \<and> (\<exists>e. SendMessage env provider i u text modelName k db = (Inl e, db))
    \<and> (\<exists>e. SendMessageStream env stream i u text modelName k db = ((None, Some e), db))
    \<and> (\<exists>e. DeleteConversation env i u db = (Inl e, db))"
proof -
  obtain e where e: "getConversationForUser env (TrimSpace i) (TrimSpace u) db = Inl e" using foreign_refused [OF assms] ..
  then show ?thesis
    by (simp add: GetMessageHistory_def SendMessage_def SendMessageStream_def DeleteConversation_def open_turn_def Let_def)
qed

theorem conversations_private_witness:
  "\<not> is_ok (GetMessageHistory ex_chat_env ''c'' ''v'' '''' 10 ex_chat)
    \<and> (\<exists>e. SendMessage ex_chat_env (\<lambda>_. Inr None) ''c'' ''v'' ''hi'' '''' 7 ex_chat = (Inl e, ex_chat))
    \<and> (\<exists>e. SendMessageStream ex_chat_env (\<lambda>_. \<lparr> st_Chunks = [''x''], st_TokensUsed = 1, st_ModelUsed = ''m'', st_Error = None \<rparr>) ''c'' ''v'' ''hi'' '''' 7 ex_chat
          = ((None, Some e), ex_chat))
    \<and> (\<exists>e. DeleteConversation ex_chat_env ''c'' ''v'' ex_chat = (Inl e, ex_chat))"
proof (rule conversations_private)
  show "foreign ex_chat_env ''c'' ''v'' ex_chat" by code_simp
qed

subsection \<open>The tables\<close>

definition messages_of :: "chat_db \<Rightarrow> AIConversation \<Rightarrow> nat" where
  "messages_of db c = length (filter (\<lambda>m. cm_ConversationID m = cv_ID c) (ch_messages db))"

definition chat_tables_ok :: "chat_db \<Rightarrow> bool" where
  "chat_tables_ok db \<longleftrightarrow> distinct (map cv_ID (ch_conversations db))
     \<and> list_all (\<lambda>m. cm_ConversationID m \<in> set (map cv_ID (ch_conversations db))) (ch_messages db)
     \<and> list_all (\<lambda>c. 0 \<le> cv_MessageCount c \<and> cv_MessageCount c \<le> int (messages_of db c)) (ch_conversations db)"

text \<open>What the users of the assistant do, each with its own environment and model.\<close>

inductive chat_step :: "chat_db \<Rightarrow> chat_db \<Rightarrow> bool" where
  chat_create: "NewID (ce_draws env) k ''conv'' \<notin> set (map cv_ID (ch_conversations db)) \<Longrightarrow>
     chat_step db (snd (CreateConversation env p u ty k db))"
| chat_send: "chat_step db (snd (SendMessage env provider i u text modelName k db))"
| chat_stream: "chat_step db (snd (SendMessageStream env stream i u text modelName k db))"
| chat_delete: "chat_step db (snd (DeleteConversation env i u db))"

lemma find_conversation:
  "ConversationFindByID i db = Some c \<Longrightarrow> cv_ID c = TrimSpace i \<and> c \<in> set (ch_conversations db)"
  by (auto simp: ConversationFindByID_def find_Some_iff)

lemma conversation_for_user:
  assumes "getConversationForUser env i u db = Inr c"
  shows "cv_ID c = TrimSpace i"
  using assms
  by (auto simp: getConversationForUser_def query_chat_def bindE_def dest: find_conversation split: option.splits sum.splits if_splits)

lemma delete_keeps_tables:
  assumes "chat_tables_ok db"
  shows "chat_tables_ok (snd (ConversationDeleteByID env x db))"
proof -
  let ?db = "db\<lparr>ch_conversations := filter (\<lambda>c. cv_ID c \<noteq> TrimSpace x) (ch_conversations db),
     ch_messages := filter (\<lambda>m. cm_ConversationID m \<noteq> TrimSpace x) (ch_messages db)\<rparr>"
  have "messages_of ?db c = messages_of db c" if "cv_ID c \<noteq> TrimSpace x" for c
    using that by (auto simp: messages_of_def conj_commute intro!: arg_cong [where f = length] filter_cong)
  then have "chat_tables_ok ?db"
    using assms by (auto simp: chat_tables_ok_def list_all_iff distinct_map inj_on_def)
  with assms show ?thesis by (simp add: ConversationDeleteByID_def)
qed

lemma create_keeps_tables: "chat_tables_ok db \<Longrightarrow> chat_tables_ok (snd (MessageCreate env m db))"
  by (auto simp: chat_tables_ok_def MessageCreate_def messages_of_def list_all_iff list_ex_iff image_iff) metis

lemma post_keeps_tables:
  assumes "chat_tables_ok db" and "TrimSpace (cm_ConversationID m) = cm_ConversationID m"
  shows "chat_tables_ok (snd (post_message env m hint db))"
proof (cases "MessageCreate env m db")
  case (Pair r db1)
  show ?thesis
  proof (cases r)
    case (Inl e)
    then show ?thesis using create_keeps_tables [OF assms(1), of env m] Pair by (simp add: post_message_def)
  next
    case (Inr x)
    let ?i = "cm_ConversationID m"
    have db1: "db1 = db\<lparr>ch_messages := ch_messages db @ [m\<lparr>cm_CreatedAt := stored_time (cm_CreatedAt m)\<rparr>]\<rparr>"
      using Pair Inr by (auto simp: MessageCreate_def split: if_splits)
    define f where "f = (\<lambda>c :: AIConversation. if cv_ID c = ?i
        then c\<lparr>cv_UpdatedAt := stored_time (cm_CreatedAt m), cv_LastMessageAt := Some (stored_time (cm_CreatedAt m)),
               cv_MessageCount := cv_MessageCount c + 1,
               cv_Title := (if TrimSpace hint \<noteq> '''' \<and> cv_Title c = '''' then TrimSpace hint else cv_Title c)\<rparr> else c)"
    have f: "cv_ID (f c) = cv_ID c" "cv_MessageCount (f c) = (if cv_ID c = ?i then cv_MessageCount c + 1 else cv_MessageCount c)" for c
      by (simp_all add: f_def)
    have post: "snd (post_message env m hint db) = (if ce_works env UpdateConversation db1 then db1\<lparr>ch_conversations := map f (ch_conversations db)\<rparr> else db1)"
      using Pair Inr by (simp add: post_message_def RecordMessageActivity_def assms(2) f_def db1)
    have ids: "map cv_ID (map f cs) = map cv_ID cs" for cs by (simp add: f)
    have of_f: "messages_of (db1\<lparr>ch_conversations := cs\<rparr>) (f c) = messages_of db1 c" for cs c by (simp add: messages_of_def f)
    have "chat_tables_ok (db1\<lparr>ch_conversations := map f (ch_conversations db)\<rparr>)"
    proof -
      have "list_all (\<lambda>c. 0 \<le> cv_MessageCount (f c) \<and> cv_MessageCount (f c) \<le> int (messages_of db1 c)) (ch_conversations db)"
        using assms(1) by (auto simp: chat_tables_ok_def list_all_iff f messages_of_def db1)
      moreover have "list_all (\<lambda>x. cm_ConversationID x \<in> set (map cv_ID (ch_conversations db))) (ch_messages db1)"
        using create_keeps_tables [OF assms(1), of env m] Pair by (auto simp: chat_tables_ok_def db1 list_all_iff)
      ultimately show ?thesis
        using assms(1) of_f unfolding chat_tables_ok_def
        by (simp add: list.pred_map comp_def f db1)
    qed
    then show ?thesis using post create_keeps_tables [OF assms(1), of env m] Pair by simp
  qed
qed

lemma open_turn_keeps_tables:
  assumes "chat_tables_ok db" and "open_turn env i u text modelName k db = (r, db')"
  shows "chat_tables_ok db' \<and> (\<forall>c um rq. r = Inr (c, um, rq) \<longrightarrow> TrimSpace (cv_ID c) = cv_ID c)"
proof (cases "getConversationForUser env (TrimSpace i) (TrimSpace u) db")
  case (Inl e)
  with assms show ?thesis by (auto simp: open_turn_def Let_def)
next
  case (Inr c)
  then have trim: "TrimSpace (cv_ID c) = cv_ID c" using conversation_for_user by fastforce
  then have "chat_tables_ok (snd (post_message env (plain_row env k (cv_ID c) ro te) hint db))" for ro te hint
    using assms(1) by (intro post_keeps_tables) (simp_all add: plain_row_def)
  from this [of "''user''" "TrimSpace text" "buildConversationTitle (TrimSpace text)"] assms trim show ?thesis
    by (auto simp: open_turn_def Let_def Inr split: sum.splits prod.splits)
qed

text \<open>C31: Whatever the users of the assistant do, and whichever statements fail in the middle, a message always
  belongs to a conversation that exists, and a conversation never counts more messages than it has.\<close>

theorem chat_tables_stay_consistent:
  assumes "chat_tables_ok db" and "chat_step\<^sup>*\<^sup>* db db'"
  shows "chat_tables_ok db'"
  using assms(2,1)
proof (induction rule: rtranclp_induct)
  case (step db1 db2)
  have row: "chat_tables_ok d"
    if "post_message env (plain_row env k (cv_ID c) ro te) h db = (r, d)" "chat_tables_ok db" "TrimSpace (cv_ID c) = cv_ID c"
    for env k c ro te h db r d
    using that post_keeps_tables [of db "plain_row env k (cv_ID c) ro te" env h] by (simp add: plain_row_def)
  have usage: "post_message env (with_usage mu tk (plain_row env k (cv_ID c) ro te)) h db = (r, d) \<Longrightarrow> chat_tables_ok d"
    "chat_tables_ok (snd (post_message env ((with_usage mu tk (plain_row env k (cv_ID c) ro te))\<lparr>cm_IsPartial := True\<rparr>) h db))"
    if "chat_tables_ok db" "TrimSpace (cv_ID c) = cv_ID c" for env k c ro te h db mu tk r d
    using that post_keeps_tables [of db "with_usage mu tk (plain_row env k (cv_ID c) ro te)" env h]
    by (auto intro!: post_keeps_tables simp: plain_row_def with_usage_def)
  have ok1: "chat_tables_ok db1" using step by simp
  from step.hyps(2) show ?case
  proof (cases rule: chat_step.cases)
    case (chat_create env k p u ty)
    have "messages_of db1 \<lparr> cv_ID = NewID (ce_draws env) k ''conv'', cv_ProjectID = a, cv_UserID = b, cv_Type = t, cv_Title = '''',
        cv_LastMessageAt = None, cv_MessageCount = 0, cv_CreatedAt = x, cv_UpdatedAt = y \<rparr> \<ge> 0" for a b t x y by simp
    with chat_create ok1 show ?thesis
      by (auto simp: CreateConversation_def Let_def ConversationCreate_def chat_tables_ok_def list_all_iff messages_of_def
          split: sum.splits prod.splits if_splits)
  next
    case (chat_send env provider i u tx modelName k)
    obtain r db3 where o: "open_turn env i u tx modelName k db1 = (r, db3)" by fastforce
    from open_turn_keeps_tables [OF ok1 o] chat_send show ?thesis
      by (auto simp: SendMessage_def o Let_def split: sum.splits option.splits prod.splits dest: row)
  next
    case (chat_stream env stream i u tx modelName k)
    obtain r db3 where o: "open_turn env i u tx modelName k db1 = (r, db3)" by fastforce
    from open_turn_keeps_tables [OF ok1 o] chat_stream show ?thesis
      by (auto simp: SendMessageStream_def o Let_def split: sum.splits option.splits prod.splits intro: usage(2) dest: usage(1))
  next
    case (chat_delete env i u)
    have "chat_tables_ok (snd (ConversationDeleteByID env x db1))" for x using ok1 by (rule delete_keeps_tables)
    with ok1 chat_delete show ?thesis by (auto simp: DeleteConversation_def split: sum.splits)
  qed
qed simp

theorem chat_tables_stay_consistent_witness:
  "chat_tables_ok (snd (SendMessage ex_chat_env (\<lambda>_. Inl ''timeout'') ''c'' ''u'' ''hi'' '''' 7 ex_chat))"
proof (rule chat_tables_stay_consistent)
  show "chat_tables_ok ex_chat" by code_simp
  show "chat_step\<^sup>*\<^sup>* ex_chat (snd (SendMessage ex_chat_env (\<lambda>_. Inl ''timeout'') ''c'' ''u'' ''hi'' '''' 7 ex_chat))"
    by (intro r_into_rtranclp chat_send)
qed

end
