(* ===== verification/Planner.thy ===== *)
theory Planner
  imports Registry Safety
begin

text \<open>
  The planner of the agent (\<open>internal/agent/planner.go\<close>) and the progress of a plan
  (\<open>updatePlanAfterRound\<close> in \<open>internal/agent/engine.go\<close>). The text the model answers is an argument;
  what \<open>json.Unmarshal\<close> makes of the object found in it is the argument \<open>decode\<close>. Chinese
  constants are their UTF-8 bytes. The set of allowed tools is a list.
\<close>

subsection \<open>Plans\<close>

record failedAttempt =
  fa_Round :: int
  fa_Tool :: string
  fa_Error :: string

record executionPlanStep =
  es_ID :: int
  es_Description :: string
  es_ExpectedTool :: string
  es_Purpose :: string
  es_SuccessCriterion :: string
  es_Status :: string
  es_Result :: string
  es_Round :: int
  es_FailedAttempts :: "failedAttempt list"

record executionPlan =
  ep_Goal :: string
  ep_Steps :: "executionPlanStep list"
  ep_BlockedReason :: string
  ep_SuccessfulTools :: "string list"

datatype planner_error = NoJsonObject | JsonParseFailed | NoValidSteps | PlannerEmpty | PlannerProvider string

definition planStepPending :: string where "planStepPending = ''pending''"
definition planStepDone :: string where "planStepDone = ''done''"
definition planStepFailed :: string where "planStepFailed = ''failed''"

definition default_goal :: string where
  "default_goal =
     utf8 [229, 174, 140, 230, 136, 144, 231, 148, 168, 230, 136, 183, 231, 155, 174, 230, 160, 135]"

definition default_criterion :: string where
  "default_criterion =
     utf8 [229, 143, 175, 233, 128, 154, 232, 191, 135, 229, 183, 165, 229, 133, 183, 232, 191, 148, 229, 155, 158, 32, 115, 116, 97, 116, 117,
     115, 61, 115, 117, 99, 99, 101, 115, 115, 32, 228, 184, 148, 229, 133, 179, 233, 148, 174, 231, 186, 166, 230, 157, 159, 233, 128, 154, 232,
     191, 135, 230, 157, 165, 229, 136, 164, 229, 174, 154, 230, 136, 144, 229, 138, 159]"

definition semicolon :: string where
  "semicolon =
     utf8 [239, 188, 155]"

definition limit_text :: "string \<Rightarrow> nat \<Rightarrow> string" where
  \<comment> \<open>the first runes of a text; the limit is positive at every call\<close>
  "limit_text t n = (if length (runes t) \<le> n then t else concat (take n (runes t)) @ ''...'')"

definition summarizePlainText :: "string \<Rightarrow> nat \<Rightarrow> string" where
  "summarizePlainText t maxLen =
     (if TrimSpace t = '''' then '''' else limit_text (TrimSpace t) (if maxLen = 0 then 1200 else maxLen))"

definition NextPendingStep :: "executionPlan \<Rightarrow> nat option" where
  \<comment> \<open>a pointer into the plan: the index\<close>
  "NextPendingStep p = find (\<lambda>i. TrimSpace (es_Status (ep_Steps p ! i)) \<in> {'''', planStepPending}) [0..<length (ep_Steps p)]"

definition collectAllFailures :: "executionPlan \<Rightarrow> failedAttempt list" where
  "collectAllFailures p = take 12 (concat (map es_FailedAttempts (ep_Steps p)))"

definition normalizeToolNameKey :: "string \<Rightarrow> string" where
  "normalizeToolNameKey n = ToLower (TrimSpace n)"

definition RecordSuccessfulTool :: "string \<Rightarrow> executionPlan \<Rightarrow> executionPlan" where
  "RecordSuccessfulTool n p =
     (let key = normalizeToolNameKey n in
      if key = '''' then p else p\<lparr>ep_SuccessfulTools := List.insert key (ep_SuccessfulTools p)\<rparr>)"

definition HasSuccessfulTool :: "executionPlan \<Rightarrow> string \<Rightarrow> bool" where
  "HasSuccessfulTool p n \<longleftrightarrow> TrimSpace n = '''' \<or> normalizeToolNameKey n \<in> set (ep_SuccessfulTools p)"

subsection \<open>The object in the answer\<close>

fun scan_object :: "nat \<Rightarrow> bool \<Rightarrow> bool \<Rightarrow> string \<Rightarrow> string option" where
  \<comment> \<open>depth, inside a string, after a backslash; the text up to the brace that closes the object\<close>
  "scan_object depth inString escaped [] = None"
| "scan_object depth inString escaped (ch # cs) =
     (let go = (\<lambda>d i e. map_option ((#) ch) (scan_object d i e cs)) in
      if inString then
        (if escaped then go depth True False
         else if ch = CHR 0x5C then go depth True True
         else go depth (ch \<noteq> CHR 0x22) False)
      else if ch = CHR 0x22 then go depth True False
      else if ch = CHR ''{'' then go (depth + 1) False False
      else if ch = CHR ''}'' then (if depth = 1 then Some [ch] else go (depth - 1) False False)
      else go depth False False)"

definition extractJSONObject :: "string \<Rightarrow> string" where
  "extractJSONObject t =
     (case dropWhile (\<lambda>c. c \<noteq> CHR ''{'') t of
        [] \<Rightarrow> ''''
      | rest \<Rightarrow> (case scan_object 0 False False rest of None \<Rightarrow> '''' | Some s \<Rightarrow> TrimSpace s))"

subsection \<open>Tools a step may name\<close>

definition isMutatingTool :: "string \<Rightarrow> bool" where
  "isMutatingTool n \<longleftrightarrow> TrimSpace n \<noteq> '''' \<and> (case GetTool (TrimSpace n) of None \<Rightarrow> False | Some def \<Rightarrow> tool_MutatesGraph def)"

fun split_on :: "char \<Rightarrow> string \<Rightarrow> string \<Rightarrow> string list" where
  \<comment> \<open>\<open>strings.Split\<close> at one byte\<close>
  "split_on sep cur [] = [rev cur]"
| "split_on sep cur (c # cs) = (if c = sep then rev cur # split_on sep [] cs else split_on sep (c # cur) cs)"

definition guide_entry :: "string \<Rightarrow> string option" where
  "guide_entry rawLine =
     (let l = TrimSpace rawLine in
      case l of
        [] \<Rightarrow> None
      | c # rest \<Rightarrow>
          if c \<noteq> CHR ''-'' then None
          else let r = TrimSpace rest;
                   name = (if CHR ''|'' \<in> set r then TrimSpace (takeWhile (\<lambda>x. x \<noteq> CHR ''|'') r) else r) in
            if name = '''' \<or> GetTool name = None then None else Some name)"

definition parseAllowedToolSet :: "string \<Rightarrow> string list" where
  "parseAllowedToolSet toolGuide =
     (if TrimSpace toolGuide = '''' then []
      else remdups (List.map_filter guide_entry (split_on (CHR 0x0A) [] (TrimSpace toolGuide))))"

fun replace_separators :: "string \<Rightarrow> string" where
  \<comment> \<open>slash, comma, bar, semicolon, line end, tab, and the full-width comma, enumeration comma and semicolon\<close>
  "replace_separators (a # b # c # cs) =
     (if [a, b, c] \<in> {utf8 [239, 188, 140], utf8 [227, 128, 129], utf8 [239, 188, 155]} then CHR '' '' # replace_separators cs
      else (if a \<in> {CHR ''/'', CHR '','', CHR ''|'', CHR '';'', CHR 0x0A, CHR 0x09} then CHR '' '' else a) # replace_separators (b # c # cs))"
| "replace_separators (a # cs) =
     (if a \<in> {CHR ''/'', CHR '','', CHR ''|'', CHR '';'', CHR 0x0A, CHR 0x09} then CHR '' '' else a) # replace_separators cs"
| "replace_separators [] = []"

definition splitExpectedToolCandidates :: "string \<Rightarrow> string list" where
  \<comment> \<open>the first occurrence of every field is kept\<close>
  "splitExpectedToolCandidates raw =
     rev (remdups (rev (filter (\<lambda>n. n \<noteq> '''') (map TrimSpace (Fields (replace_separators (TrimSpace raw)))))))"

definition normalizeExpectedTool :: "string \<Rightarrow> string list \<Rightarrow> string" where
  "normalizeExpectedTool raw allowed =
     (case find (\<lambda>n. GetTool n \<noteq> None \<and> (allowed = [] \<or> n \<in> set allowed)) (splitExpectedToolCandidates raw) of
        None \<Rightarrow> '''' | Some n \<Rightarrow> n)"

definition preferred_read_tools :: "string list" where
  "preferred_read_tools = [''get_node_detail'', ''get_subtree'', ''get_graph_snapshot'', ''validate_fta_constraints'', ''check_gate_semantics'']"

definition pickReadOnlyFallbackTool :: "string list \<Rightarrow> string" where
  "pickReadOnlyFallbackTool allowed =
     (case find (\<lambda>n. (allowed = [] \<or> n \<in> set allowed) \<and> GetTool n \<noteq> None) preferred_read_tools of
        Some n \<Rightarrow> n
      | None \<Rightarrow> (case find (\<lambda>n. \<not> isMutatingTool n) (sort allowed) of Some n \<Rightarrow> n | None \<Rightarrow> ''get_node_detail''))"

subsection \<open>Parsing a plan\<close>

fun dec_elems :: "(json \<Rightarrow> 'a option) \<Rightarrow> json list \<Rightarrow> 'a list option" where
  "dec_elems f [] = Some []"
| "dec_elems f (v # vs) = (case f v of None \<Rightarrow> None | Some x \<Rightarrow> map_option ((#) x) (dec_elems f vs))"

fun dec_slice :: "(json \<Rightarrow> 'a option) \<Rightarrow> 'a list \<Rightarrow> json list \<Rightarrow> 'a list option" where
  "dec_slice f cur [] = Some cur"
| "dec_slice f cur (JArr es # vs) = (case dec_elems f es of None \<Rightarrow> None | Some xs \<Rightarrow> dec_slice f xs vs)"
| "dec_slice f cur (JNull # vs) = dec_slice f [] vs"
| "dec_slice f cur (_ # vs) = None"

fun dec_attempt :: "json \<Rightarrow> failedAttempt option" where
  "dec_attempt (JObj m) =
     (case (dec_int 0 (field_vals ''round'' m), dec_string '''' (field_vals ''tool'' m), dec_string '''' (field_vals ''error'' m)) of
        (Some r, Some t, Some e) \<Rightarrow> Some \<lparr> fa_Round = r, fa_Tool = t, fa_Error = e \<rparr> | _ \<Rightarrow> None)"
| "dec_attempt JNull = Some \<lparr> fa_Round = 0, fa_Tool = '''', fa_Error = '''' \<rparr>"
| "dec_attempt _ = None"

definition zero_step :: executionPlanStep where
  "zero_step = \<lparr> es_ID = 0, es_Description = '''', es_ExpectedTool = '''', es_Purpose = '''', es_SuccessCriterion = '''',
     es_Status = '''', es_Result = '''', es_Round = 0, es_FailedAttempts = [] \<rparr>"

fun dec_step :: "json \<Rightarrow> executionPlanStep option" where
  "dec_step (JObj m) =
     (case (dec_int 0 (field_vals ''id'' m), dec_int 0 (field_vals ''round'' m), dec_slice dec_attempt [] (field_vals ''failedAttempts'' m)) of
        (Some i, Some r, Some fs) \<Rightarrow>
          (case (dec_string '''' (field_vals ''description'' m), dec_string '''' (field_vals ''expectedTool'' m), dec_string '''' (field_vals ''purpose'' m)) of
             (Some d, Some t, Some p) \<Rightarrow>
               (case (dec_string '''' (field_vals ''successCriterion'' m), dec_string '''' (field_vals ''status'' m), dec_string '''' (field_vals ''result'' m)) of
                  (Some c, Some s, Some x) \<Rightarrow> Some \<lparr> es_ID = i, es_Description = d, es_ExpectedTool = t, es_Purpose = p,
                     es_SuccessCriterion = c, es_Status = s, es_Result = x, es_Round = r, es_FailedAttempts = fs \<rparr>
                | _ \<Rightarrow> None)
           | _ \<Rightarrow> None)
      | _ \<Rightarrow> None)"
| "dec_step JNull = Some zero_step"
| "dec_step _ = None"

definition clean_step :: "bool \<Rightarrow> string list \<Rightarrow> executionPlanStep \<Rightarrow> executionPlanStep option" where
  "clean_step readOnly allowed item =
     (let description = TrimSpace (es_Description item);
          tool0 = normalizeExpectedTool (es_ExpectedTool item) allowed;
          tool1 = (if readOnly \<and> tool0 \<noteq> '''' \<and> isMutatingTool tool0 then pickReadOnlyFallbackTool allowed else tool0);
          criterion = summarizePlainText (TrimSpace (es_SuccessCriterion item)) 120 in
      if description = '''' then None
      else Some (zero_step\<lparr>es_Description := description, es_ExpectedTool := tool1,
              es_Purpose := summarizePlainText (TrimSpace (es_Purpose item)) 120,
              es_SuccessCriterion := (if criterion = '''' then default_criterion else criterion), es_Status := planStepPending\<rparr>))"

definition number_steps :: "executionPlanStep list \<Rightarrow> executionPlanStep list" where
  "number_steps steps = map (\<lambda>(i, s). s\<lparr>es_ID := int i\<rparr>) (enumerate 1 steps)"

definition goal_or_default :: "string \<Rightarrow> string \<Rightarrow> string" where
  "goal_or_default goal fallback =
     (if TrimSpace goal \<noteq> '''' then TrimSpace goal else if TrimSpace fallback \<noteq> '''' then TrimSpace fallback else default_goal)"

definition parseExecutionPlan ::
    "(string \<Rightarrow> raw_message) \<Rightarrow> string \<Rightarrow> string \<Rightarrow> bool \<Rightarrow> string \<Rightarrow> planner_error + executionPlan" where
  "parseExecutionPlan decode raw fallbackGoal readOnly toolGuide =
     (let jsonText = extractJSONObject raw in
      if jsonText = '''' then Inl NoJsonObject
      else case struct_members (decode jsonText) of
        None \<Rightarrow> Inl JsonParseFailed
      | Some m \<Rightarrow>
          (case (dec_string '''' (field_vals ''goal'' m), dec_slice dec_step [] (field_vals ''steps'' m)) of
             (Some goal, Some items) \<Rightarrow>
               let steps = take 8 (List.map_filter (clean_step readOnly (parseAllowedToolSet toolGuide)) items) in
               if steps = [] then Inl NoValidSteps
               else Inr \<lparr> ep_Goal = goal_or_default goal fallbackGoal, ep_Steps = number_steps steps, ep_BlockedReason = '''', ep_SuccessfulTools = [] \<rparr>
           | _ \<Rightarrow> Inl JsonParseFailed))"

definition plan_step :: "string \<Rightarrow> string \<Rightarrow> string \<Rightarrow> string \<Rightarrow> executionPlanStep" where
  "plan_step description tool purpose criterion = zero_step\<lparr>es_Description := description, es_ExpectedTool := tool,
     es_Purpose := purpose, es_SuccessCriterion := criterion, es_Status := planStepPending\<rparr>"

definition read_only_steps :: "executionPlanStep list" where
  "read_only_steps = number_steps [
      plan_step (utf8 [232, 175, 187, 229, 143, 150, 231, 155, 184, 229, 133, 179, 232, 138, 130, 231, 130, 185, 228, 184, 142, 229, 173, 144, 230, 160, 145,
          228, 184, 138, 228, 184, 139, 230, 150, 135])
        ''get_node_detail'' (utf8 [232, 161, 165, 233, 189, 144, 229, 191, 133, 232, 166, 129, 232, 175, 129, 230, 141, 174])
        (utf8 [232, 191, 148, 229, 155, 158, 231, 155, 174, 230, 160, 135, 232, 138, 130, 231, 130, 185, 228, 184, 142, 228, 184, 138, 228, 184, 139,
          230, 184, 184, 229, 133, 179, 231, 179, 187]),
      plan_step (utf8 [230, 137, 167, 232, 161, 140, 231, 186, 166, 230, 157, 159, 228, 184, 142, 232, 175, 173, 228, 185, 137, 230, 160, 161, 233, 170, 140])
        ''validate_fta_constraints'' (utf8 [231, 161, 174, 232, 174, 164, 233, 151, 174, 233, 162, 152, 232, 140, 131, 229, 155, 180])
        (utf8 [105, 115, 115, 117, 101, 67, 111, 117, 110, 116, 32, 230, 152, 142, 231, 161, 174, 228, 184, 148, 229, 143, 175, 229, 174, 154, 228,
          189, 141, 233, 151, 174, 233, 162, 152, 232, 138, 130, 231, 130, 185]),
      plan_step (utf8 [232, 190, 147, 229, 135, 186, 232, 175, 138, 230, 150, 173, 231, 187, 147, 232, 174, 186, 228, 184, 142, 228, 184, 139, 228, 184, 128,
          230, 173, 165, 229, 187, 186, 232, 174, 174])
        '''' (utf8 [229, 189, 162, 230, 136, 144, 229, 143, 175, 230, 137, 167, 232, 161, 140, 229, 187, 186, 232, 174, 174])
        (utf8 [231, 187, 153, 229, 135, 186, 229, 143, 175, 230, 137, 167, 232, 161, 140, 228, 191, 174, 229, 164, 141, 229, 187, 186, 232, 174, 174,
          228, 184, 148, 228, 184, 142, 230, 160, 161, 233, 170, 140, 231, 187, 147, 230, 158, 156, 228, 184, 128, 232, 135, 180])]"

definition editing_steps :: "executionPlanStep list" where
  "editing_steps = number_steps [
      plan_step (utf8 [232, 175, 187, 229, 143, 150, 228, 184, 138, 228, 184, 139, 230, 150, 135, 229, 185, 182, 231, 161, 174, 232, 174, 164, 231, 155, 174,
          230, 160, 135, 229, 183, 174, 229, 188, 130])
        ''get_node_detail'' (utf8 [233, 129, 191, 229, 133, 141, 231, 155, 178, 230, 148, 185])
        (utf8 [230, 152, 142, 231, 161, 174, 229, 190, 133, 228, 191, 174, 229, 164, 141, 232, 138, 130, 231, 130, 185, 229, 146, 140, 232, 190, 185,
          229, 133, 179, 231, 179, 187]),
      plan_step (utf8 [230, 140, 137, 233, 151, 174, 233, 162, 152, 232, 138, 130, 231, 130, 185, 230, 137, 167, 232, 161, 140, 231, 187, 147, 230, 158, 132,
          228, 191, 174, 229, 164, 141, 239, 188, 136, 228, 188, 152, 229, 133, 136, 32, 109, 111, 118, 101, 95, 110, 111, 100, 101, 239, 188, 140,
          229, 164, 141, 230, 157, 130, 229, 156, 186, 230, 153, 175, 231, 148, 168, 32, 98, 97, 116, 99, 104, 95, 111, 112, 101, 114, 97, 116, 105,
          111, 110, 115, 239, 188, 137])
        ''batch_operations'' (utf8 [230, 142, 168, 232, 191, 155, 230, 160, 184, 229, 191, 131, 231, 155, 174, 230, 160, 135])
        (utf8 [228, 191, 174, 229, 164, 141, 230, 147, 141, 228, 189, 156, 230, 137, 167, 232, 161, 140, 230, 136, 144, 229, 138, 159, 228, 184, 148,
          32, 112, 97, 116, 99, 104, 32, 230, 156, 137, 230, 149, 136]),
      plan_step (utf8 [229, 164, 141, 230, 160, 184, 231, 186, 166, 230, 157, 159, 229, 185, 182, 230, 148, 182, 230, 149, 155, 231, 173, 148, 229, 164, 141])
        ''validate_fta_constraints'' (utf8 [231, 161, 174, 232, 174, 164, 231, 187, 147, 230, 158, 156, 229, 143, 175, 231, 148, 168])
        (utf8 [230, 160, 161, 233, 170, 140, 230, 151, 160, 233, 152, 187, 229, 161, 158, 233, 151, 174, 233, 162, 152, 229, 185, 182, 229, 143, 175,
          231, 187, 153, 229, 135, 186, 231, 187, 147, 232, 174, 186])]"

definition buildFallbackExecutionPlan :: "string \<Rightarrow> bool \<Rightarrow> executionPlan" where
  "buildFallbackExecutionPlan goal readOnly = \<lparr> ep_Goal = goal_or_default goal '''',
     ep_Steps = (if readOnly then read_only_steps else editing_steps), ep_BlockedReason = '''', ep_SuccessfulTools = [] \<rparr>"

definition runPlannerPhase ::
    "(string \<Rightarrow> raw_message) \<Rightarrow> (string + (string \<times> string) option) \<Rightarrow> string \<Rightarrow> bool \<Rightarrow> string \<Rightarrow> planner_error + executionPlan" where
  \<comment> \<open>given what the model answered: its reply and its reasoning\<close>
  "runPlannerPhase decode answer message readOnly toolGuide =
     (case answer of
        Inl e \<Rightarrow> Inl (PlannerProvider e)
      | Inr None \<Rightarrow> Inl PlannerEmpty
      | Inr (Some (reply, reasoning)) \<Rightarrow>
          let text = (if TrimSpace reply = '''' then TrimSpace reasoning else TrimSpace reply) in
          if text = '''' then Inl PlannerEmpty else parseExecutionPlan decode text message readOnly toolGuide)"

subsection \<open>Progress\<close>

record roundToolOutcome =
  ro_Tool :: string
  ro_Status :: string
  ro_Summary :: string
  ro_Error :: string

definition isPlanSuccessfulStatus :: "string \<Rightarrow> bool" where
  "isPlanSuccessfulStatus status \<longleftrightarrow> normalizeToolFinalStatus status \<in> {''success'', ''client_only''}"

definition isPlanFailedStatus :: "string \<Rightarrow> bool" where
  "isPlanFailedStatus status \<longleftrightarrow> normalizeToolFinalStatus status \<in> {''failed'', ''cancelled'', ''discarded'', ''warning''}"

definition firstToolName :: "ToolCall list \<Rightarrow> string" where
  "firstToolName calls = (case find (\<lambda>n. n \<noteq> '''') (map (\<lambda>c. TrimSpace (call_Name c)) calls) of None \<Rightarrow> ''unknown_tool'' | Some n \<Rightarrow> n)"

definition summarizeToolNames :: "ToolCall list \<Rightarrow> nat \<Rightarrow> string" where
  "summarizeToolNames calls maxCount =
     (let n = (if maxCount = 0 then 1 else maxCount); names = filter (\<lambda>n. n \<noteq> '''') (map (\<lambda>c. TrimSpace (call_Name c)) calls) in
      if length names \<le> n then Join names '', ''
      else Join (take n names) '', '' @ utf8 [32, 231, 173, 137, 32] @ show_nat (length names) @ utf8 [32, 228, 184, 170])"

definition attempt_key :: "failedAttempt \<Rightarrow> string" where
  "attempt_key a = show_int (fa_Round a) @ ''|'' @ TrimSpace (fa_Tool a) @ ''|'' @ TrimSpace (fa_Error a)"

fun append_unique :: "string list \<Rightarrow> failedAttempt list \<Rightarrow> failedAttempt list \<Rightarrow> failedAttempt list" where
  "append_unique seen acc [] = acc"
| "append_unique seen acc (a # as) =
     (let b = a\<lparr>fa_Tool := TrimSpace (fa_Tool a), fa_Error := TrimSpace (fa_Error a)\<rparr> in
      if fa_Tool b = '''' \<or> fa_Error b = '''' \<or> attempt_key b \<in> set seen then append_unique seen acc as
      else append_unique (attempt_key b # seen) (acc @ [b]) as)"

definition appendUniqueFailedAttempts :: "executionPlanStep \<Rightarrow> failedAttempt list \<Rightarrow> executionPlanStep" where
  "appendUniqueFailedAttempts step attempts =
     step\<lparr>es_FailedAttempts := append_unique (map attempt_key (es_FailedAttempts step)) (es_FailedAttempts step) attempts\<rparr>"

definition outcome_attempt :: "int \<Rightarrow> ToolCall list \<Rightarrow> roundToolOutcome \<Rightarrow> failedAttempt option" where
  "outcome_attempt rnd calls o1 =
     (if isPlanSuccessfulStatus (ro_Status o1) \<or> \<not> isPlanFailedStatus (ro_Status o1) then None
      else let e1 = TrimSpace (ro_Error o1); e2 = (if e1 = '''' then TrimSpace (ro_Summary o1) else e1);
               t = TrimSpace (ro_Tool o1) in
        Some \<lparr> fa_Round = rnd, fa_Tool = (if t = '''' then firstToolName calls else t),
               fa_Error = (if e2 = '''' then ''tool call failed'' else e2) \<rparr>)"

definition blocked_reason :: "executionPlanStep \<Rightarrow> string" where
  "blocked_reason s = utf8 [230, 173, 165, 233, 170, 164] @ show_int (es_ID s)
     @ utf8 [232, 191, 158, 231, 187, 173, 229, 164, 177, 232, 180, 165] @ show_nat (length (es_FailedAttempts s))
     @ utf8 [230, 172, 161, 239, 188, 140, 230, 156, 128, 229, 144, 142, 233, 148, 153, 232, 175, 175, 239, 188, 154]
     @ summarizePlainText (case es_FailedAttempts s of [] \<Rightarrow> ''unknown'' | fs \<Rightarrow> TrimSpace (fa_Error (last fs))) 180"

definition round_attempts :: "executionPlan \<Rightarrow> executionPlanStep \<Rightarrow> int \<Rightarrow> ToolCall list \<Rightarrow> roundToolOutcome list \<Rightarrow> failedAttempt list" where
  \<comment> \<open>the failures of a round, seen with the tools that have succeeded by its end\<close>
  "round_attempts plan step rnd calls outcomes =
     (let failures = List.map_filter (outcome_attempt rnd calls) outcomes;
          expected = TrimSpace (es_ExpectedTool step);
          called = normalizeToolNameKey expected \<in> set (map (\<lambda>c. normalizeToolNameKey (call_Name c))
                     (filter (\<lambda>c. TrimSpace (call_Name c) \<noteq> '''') calls)) in
      if expected \<noteq> '''' \<and> calls \<noteq> [] \<and> \<not> HasSuccessfulTool plan expected \<and> failures = []
      then (if \<not> called then [\<lparr> fa_Round = rnd, fa_Tool = summarizeToolNames calls 3,
                                 fa_Error = ''expected tool '' @ expected @ '' was not called'' \<rparr>]
            else [\<lparr> fa_Round = rnd, fa_Tool = expected,
                    fa_Error = ''expected tool '' @ expected @ '' did not produce a successful result'' \<rparr>])
      else failures)"

definition updatePlanAfterRound ::
    "executionPlan \<Rightarrow> int \<Rightarrow> string list \<Rightarrow> ToolCall list \<Rightarrow> roundToolOutcome list
      \<Rightarrow> executionPlan \<times> executionPlanStep option \<times> executionPlanStep option" where
  \<comment> \<open>the plan, the step completed, the step blocked\<close>
  "updatePlanAfterRound plan0 rnd summaries calls outcomes =
     (case NextPendingStep plan0 of
        None \<Rightarrow> (plan0\<lparr>ep_BlockedReason := ''''\<rparr>, None, None)
      | Some i \<Rightarrow>
          let step = ep_Steps plan0 ! i;
              good = filter (\<lambda>x. isPlanSuccessfulStatus (ro_Status x)) outcomes;
              plan = fold (\<lambda>x. RecordSuccessfulTool (TrimSpace (ro_Tool x))) good plan0;
              failures = round_attempts plan step rnd calls outcomes;
              satisfied = HasSuccessfulTool plan (TrimSpace (es_ExpectedTool step)) in
          if satisfied \<and> good \<noteq> [] \<and> failures = []
          then let r = summarizePlainText (Join summaries semicolon) 280;
                   s = step\<lparr>es_Status := planStepDone, es_Round := rnd,
                       es_Result := (if r = '''' then ''round '' @ show_int rnd @ '' completed with expected tool'' else r)\<rparr>
               in (plan\<lparr>ep_Steps := (ep_Steps plan)[i := s], ep_BlockedReason := ''''\<rparr>, Some s, None)
          else let failures2 = (if satisfied \<and> good = [] \<and> calls \<noteq> [] \<and> failures = []
                     then [\<lparr> fa_Round = rnd, fa_Tool = firstToolName calls, fa_Error = ''no successful tool result for current step'' \<rparr>]
                     else failures);
                   s = appendUniqueFailedAttempts step failures2 in
            if length (es_FailedAttempts s) \<ge> 3
            then let s2 = s\<lparr>es_Status := planStepFailed\<rparr> in
                 (plan\<lparr>ep_Steps := (ep_Steps plan)[i := s2], ep_BlockedReason := blocked_reason s2\<rparr>, None, Some s2)
            else (plan\<lparr>ep_Steps := (ep_Steps plan)[i := s]\<rparr>, None, None))"

end
