(* ===== verification/PlanProgress.thy ===== *)
theory PlanProgress
  imports Planner Cursors
begin

text \<open>
  A plan is never stuck: every round with tool calls settles the current step or records a failed attempt
  that was not recorded before, and a step with three of them has failed.
\<close>

subsection \<open>Texts that are not blank\<close>

lemma TrimLeftRev_keeps: "plain_char c \<Longrightarrow> c \<in> set s \<Longrightarrow> c \<in> set (TrimLeftRev s)"
proof (induction s rule: TrimLeftRev.induct)
  case (1 s)
  show ?case
  proof (cases "ws_len_rev s = 0")
    case False
    have "c \<notin> set (take (ws_len_rev s) s)"
      using "1.prems"(1) plain_char_not_space space2_not_plain [of "rev (take 2 s)" c] space3_not_plain [of "rev (take 3 s)" c]
      by (auto simp: ws_len_rev_def split: list.splits if_splits)
    then have "c \<in> set (drop (ws_len_rev s) s)" using "1.prems"(2) by (metis Un_iff append_take_drop_id set_append)
    then show ?thesis using "1.IH" [OF False "1.prems"(1)] False by (simp add: TrimLeftRev.simps [of s])
  qed (use 1 in \<open>simp add: TrimLeftRev.simps [of s]\<close>)
qed

lemma plain_not_blank: "s \<noteq> [] \<Longrightarrow> plain_char (hd s) \<Longrightarrow> TrimSpace s \<noteq> ''''"
proof -
  assume s: "s \<noteq> []" "plain_char (hd s)"
  then have "hd s \<in> set (TrimLeftRev (rev s))" by (intro TrimLeftRev_keeps) simp_all
  with s show ?thesis by (auto simp: TrimSpace_def TrimLeft_id ws_len_plain)
qed

text \<open>A string is blank only when it starts with a white-space character.\<close>

lemma ws_len_zero: "s \<noteq> [] \<Longrightarrow> ws_len s = 0 \<longleftrightarrow> \<not> ascii_space (hd s) \<and> take 2 s \<notin> set space2 \<and> take 3 s \<notin> set space3"
  by (cases s) (simp_all add: ws_len_def)

lemma one_space_rune:
  assumes "drop (ws_len_rev r) r = []" and "ws_len_rev r \<noteq> 0"
  shows "ws_len (rev r) \<noteq> 0"
proof -
  have r: "r \<noteq> []" using assms(2) by auto
  consider "ws_len_rev r = 1" "ascii_space (hd r)" | "ws_len_rev r = 2" "rev (take 2 r) \<in> set space2"
    | "ws_len_rev r = 3" "rev (take 3 r) \<in> set space3"
    using assms(2) by (cases r) (auto simp: ws_len_rev_def split: if_splits)
  then show ?thesis
  proof cases
    case 1
    then obtain c where "r = [c]" using assms(1) r by (cases r) auto
    then show ?thesis using 1 ws_len_zero [of "rev r"] by simp
  next
    case 2
    then have "length r \<le> 2" using assms(1) by simp
    then have "take 2 r = r" "take 2 (rev r) = rev r" by simp_all
    then show ?thesis using 2 r ws_len_zero [of "rev r"] by simp
  next
    case 3
    then have "length r \<le> 3" using assms(1) by simp
    then have "take 3 r = r" "take 3 (rev r) = rev r" by simp_all
    then show ?thesis using 3 r ws_len_zero [of "rev r"] by simp
  qed
qed

lemma blank_rev: "TrimLeftRev r = [] \<Longrightarrow> r \<noteq> [] \<Longrightarrow> \<exists>k. ws_len (take k (rev r)) \<noteq> 0"
proof (induction r rule: TrimLeftRev.induct)
  case (1 r)
  then have n: "ws_len_rev r \<noteq> 0" by (metis TrimLeftRev_id)
  show ?case
  proof (cases "drop (ws_len_rev r) r = []")
    case True
    then have "ws_len (rev r) \<noteq> 0" using n by (rule one_space_rune)
    then show ?thesis by (intro exI [of _ "length r"]) simp
  next
    case False
    moreover have "TrimLeftRev (drop (ws_len_rev r) r) = []" using 1(2) n by (simp add: TrimLeftRev.simps [of r])
    ultimately obtain k where "ws_len (take k (rev (drop (ws_len_rev r) r))) \<noteq> 0" using 1(1) [OF n] by blast
    then show ?thesis by (metis rev_drop take_take)
  qed
qed

lemma starts_not_blank: "s \<noteq> [] \<Longrightarrow> ws_len s = 0 \<Longrightarrow> TrimSpace s \<noteq> ''''"
  using blank_rev [of "rev s"] ws_len_take [of s] by (auto simp: TrimSpace_def TrimLeft_id)

lemma trimmed_start:
  assumes "TrimSpace s = s"
  shows "ws_len s = 0"
proof -
  have "length (TrimLeft x) \<le> length x - ws_len x" for x
  proof (induction x rule: TrimLeft.induct)
    case (1 x)
    then show ?case by (cases "ws_len x = 0") (simp_all add: TrimLeft.simps [of x])
  qed
  moreover have "length (TrimSpace s) \<le> length (TrimLeft s)"
    using TrimLeftRev_suffix [of "rev (TrimLeft s)"] by (auto simp: TrimSpace_def)
  ultimately have "length s \<le> length s - ws_len s" using assms by (metis order_trans)
  then show ?thesis by (cases s) auto
qed

lemma ascii_ends_rune:
  assumes "ws_len s = 0" and "s \<noteq> []" and "z = [] \<or> hd z \<in> {CHR '','', CHR '' ''}"
  shows "ws_len (s @ z) = 0"
proof (cases z)
  case (Cons c cs)
  have keep: "take k (s @ z) \<notin> set X" if X: "take k s \<notin> set X" "\<And>x. x \<in> set X \<Longrightarrow> c \<notin> set x" for k and X :: "string list"
  proof (cases "k \<le> length s")
    case False
    then have "c \<in> set (take k (s @ z))" using Cons by (cases "k - length s") simp_all
    then show ?thesis using X(2) by blast
  qed (use X(1) in simp)
  have c: "c \<in> {CHR '','', CHR '' ''}" using assms(3) Cons by simp
  have "c \<notin> set x" if "x \<in> set space2" for x using that c by (auto simp: space2_def)
  then have "take 2 (s @ z) \<notin> set space2" using keep assms(1,2) by (simp add: ws_len_zero)
  moreover have "c \<notin> set x" if "x \<in> set space3" for x using that c by (auto simp: space3_def)
  then have "take 3 (s @ z) \<notin> set space3" using keep assms(1,2) by (simp add: ws_len_zero)
  ultimately show ?thesis using assms(1,2) by (simp add: ws_len_zero)
qed (use assms in simp)

lemma show_int_inj: "show_int i = show_int j \<Longrightarrow> i = j"
proof -
  assume e: "show_int i = show_int j"
  have nat: "show_nat m = show_nat n \<Longrightarrow> m = n" for m n using parse_show_nat by (metis option.inject)
  have sign: "''-'' @ x \<noteq> show_nat n" for x n
    using show_nat_head [of n] digit_char_not_sign by (metis append_Cons list.inject)
  show "i = j" using e sign [symmetric] sign by (auto simp: show_int_def dest!: nat split: if_splits)
qed

lemma attempt_key_round: "attempt_key a = attempt_key b \<Longrightarrow> fa_Round a = fa_Round b"
proof -
  assume e: "attempt_key a = attempt_key b"
  have "split_bar (attempt_key c) = Some (show_int (fa_Round c), TrimSpace (fa_Tool c) @ ''|'' @ TrimSpace (fa_Error c))" for c
    using show_int_chars split_bar_append [of "show_int (fa_Round c)"] by (simp add: attempt_key_def)
  with e show ?thesis using show_int_inj by (metis option.inject prod.inject)
qed

subsection \<open>New attempts\<close>

definition recordable :: "int \<Rightarrow> failedAttempt \<Rightarrow> bool" where
  "recordable rnd a \<longleftrightarrow> fa_Round a = rnd \<and> TrimSpace (fa_Tool a) \<noteq> '''' \<and> TrimSpace (fa_Error a) \<noteq> ''''"

lemma append_unique_rounds:
  "list_all (\<lambda>a. fa_Round a \<le> rnd) acc \<Longrightarrow> list_all (recordable rnd) as \<Longrightarrow> list_all (\<lambda>a. fa_Round a \<le> rnd) (append_unique seen acc as)"
  by (induction seen acc as rule: append_unique.induct) (auto simp: Let_def recordable_def)

lemma append_unique_length: "length acc \<le> length (append_unique seen acc as)"
  by (induction seen acc as rule: append_unique.induct) (auto simp: Let_def)

lemma append_unique_grows:
  assumes "as \<noteq> []" and "list_all (recordable rnd) as" and "\<And>a. fa_Round a = rnd \<Longrightarrow> attempt_key a \<notin> set seen"
  shows "length acc < length (append_unique seen acc as)"
proof -
  obtain a bs where as: "as = a # bs" using assms(1) by (cases as) auto
  let ?b = "a\<lparr>fa_Tool := TrimSpace (fa_Tool a), fa_Error := TrimSpace (fa_Error a)\<rparr>"
  have "attempt_key ?b \<notin> set seen" "TrimSpace (fa_Tool a) \<noteq> ''''" "TrimSpace (fa_Error a) \<noteq> ''''"
    using assms(2,3) by (simp_all add: as recordable_def)
  then have "append_unique seen acc as = append_unique (attempt_key ?b # seen) (acc @ [?b]) bs" by (simp add: as Let_def)
  then show ?thesis using append_unique_length [of "acc @ [?b]"] by (simp add: less_eq_Suc_le)
qed

subsection \<open>One round\<close>

definition named_calls :: "ToolCall list \<Rightarrow> bool" where
  \<comment> \<open>some call of the round has a name\<close>
  "named_calls calls \<longleftrightarrow> (\<exists>c \<in> set calls. TrimSpace (call_Name c) \<noteq> '''')"

definition open_step :: "executionPlanStep \<Rightarrow> bool" where
  "open_step s \<longleftrightarrow> TrimSpace (es_Status s) \<in> {'''', planStepPending}"

lemma NextPendingStep_Some:
  "NextPendingStep p = Some i \<Longrightarrow> i < length (ep_Steps p) \<and> open_step (ep_Steps p ! i)"
  by (auto simp: NextPendingStep_def find_Some_iff open_step_def)

lemma NextPendingStep_None: "NextPendingStep p = None \<longleftrightarrow> list_all (\<lambda>s. \<not> open_step s) (ep_Steps p)"
  by (auto simp: NextPendingStep_def find_None_iff open_step_def list_all_length)

lemma find_hd_filter: "find P xs = (case filter P xs of [] \<Rightarrow> None | x # _ \<Rightarrow> Some x)"
  by (induction xs) auto

lemma firstToolName_not_blank: "TrimSpace (firstToolName calls) = firstToolName calls \<and> firstToolName calls \<noteq> ''''"
proof -
  have "TrimSpace ''unknown_tool'' = ''unknown_tool''" by code_simp
  then show ?thesis by (auto simp: firstToolName_def find_Some_iff split: option.split)
qed

lemma outcome_recordable: "outcome_attempt rnd calls x = Some a \<Longrightarrow> recordable rnd a"
proof -
  have "TrimSpace ''tool call failed'' \<noteq> ''''" by code_simp
  then show "outcome_attempt rnd calls x = Some a \<Longrightarrow> recordable rnd a"
    using firstToolName_not_blank [of calls] by (auto simp: outcome_attempt_def recordable_def Let_def split: if_splits)
qed

lemma summarized_names:
  assumes "named_calls calls"
  shows "TrimSpace (summarizeToolNames calls 3) \<noteq> ''''"
proof -
  define ns where "ns = filter (\<lambda>n. n \<noteq> '''') (map (\<lambda>c. TrimSpace (call_Name c)) calls)"
  have "ns \<noteq> []" using assms by (auto simp: ns_def named_calls_def filter_empty_conv)
  then obtain n ms where ns: "ns = n # ms" by (cases ns) auto
  then have "n \<in> set ns" by simp
  then have n: "TrimSpace n = n" "n \<noteq> ''''" by (auto simp: ns_def)
  have "\<exists>z. summarizeToolNames calls 3 = n @ z \<and> (z = [] \<or> hd z \<in> {CHR '','', CHR '' ''})"
  proof -
    have j: "\<exists>z. Join (n # xs) '', '' = n @ z \<and> (z = [] \<or> hd z \<in> {CHR '','', CHR '' ''})" for xs by (cases xs) simp_all
    then show ?thesis
    proof (cases "length ns \<le> 3")
      case True
      then show ?thesis using j [of ms] unfolding summarizeToolNames_def Let_def ns_def [symmetric] by (simp add: ns)
    next
      case False
      have sp: "char_of (32 :: nat) = CHR '' ''" by code_simp
      have "take 3 ns = n # take 2 ms" by (simp add: ns take_Cons')
      moreover obtain z where "Join (n # take 2 ms) '', '' = n @ z" "z = [] \<or> hd z \<in> {CHR '','', CHR '' ''}" using j by blast
      ultimately show ?thesis
        using False unfolding summarizeToolNames_def Let_def ns_def [symmetric]
        by (intro exI [of _ "z @ utf8 [32, 231, 173, 137, 32] @ show_nat (length ns) @ utf8 [32, 228, 184, 170]"]) (cases z; simp add: utf8_def sp)
    qed
  qed
  then obtain z where z: "summarizeToolNames calls 3 = n @ z" "z = [] \<or> hd z \<in> {CHR '','', CHR '' ''}" by blast
  have "ws_len (n @ z) = 0" using trimmed_start [OF n(1)] n(2) z(2) by (rule ascii_ends_rune)
  then show ?thesis using z(1) n(2) by (simp add: starts_not_blank)
qed

lemma round_attempts_recordable:
  assumes "named_calls calls"
  shows "list_all (recordable rnd) (round_attempts plan step rnd calls outcomes)"
proof -
  have "list_all (recordable rnd) (List.map_filter (outcome_attempt rnd calls) outcomes)"
    using outcome_recordable by (auto simp: list_all_iff map_filter_def)
  moreover have "TrimSpace (''expected tool '' @ x) \<noteq> ''''" for x
    by (rule plain_not_blank) (simp_all add: plain_char_def less_eq_char_def)
  ultimately show ?thesis
    using summarized_names [OF assms] by (auto simp: round_attempts_def Let_def recordable_def)
qed

definition settles :: "int \<Rightarrow> executionPlanStep \<Rightarrow> executionPlanStep \<Rightarrow> bool" where
  "settles rnd s s' \<longleftrightarrow> (open_step s' \<longrightarrow> length (es_FailedAttempts s) < length (es_FailedAttempts s') \<and> length (es_FailedAttempts s') < 3)
     \<and> list_all (\<lambda>a. fa_Round a \<le> rnd) (es_FailedAttempts s')"

lemma fold_steps: "ep_Steps (fold (\<lambda>x. RecordSuccessfulTool (f x)) xs p) = ep_Steps p"
  by (induction xs arbitrary: p) (simp_all add: RecordSuccessfulTool_def Let_def)

lemma one_round_settles:
  assumes "NextPendingStep p = Some i" and calls: "named_calls calls"
    and old: "list_all (\<lambda>a. fa_Round a < rnd) (es_FailedAttempts (ep_Steps p ! i))"
    and upd: "updatePlanAfterRound p rnd su calls outs = (p', d, b)"
  shows "\<exists>s'. ep_Steps p' = (ep_Steps p)[i := s'] \<and> settles rnd (ep_Steps p ! i) s'"
proof -
  define step where "step = ep_Steps p ! i"
  define good where "good = filter (\<lambda>x. isPlanSuccessfulStatus (ro_Status x)) outs"
  define plan where "plan = fold (\<lambda>x. RecordSuccessfulTool (TrimSpace (ro_Tool x))) good p"
  define fs where "fs = round_attempts plan step rnd calls outs"
  define sat where "sat = HasSuccessfulTool plan (TrimSpace (es_ExpectedTool step))"
  define fs2 where "fs2 = (if sat \<and> good = [] \<and> calls \<noteq> [] \<and> fs = []
      then [\<lparr> fa_Round = rnd, fa_Tool = firstToolName calls, fa_Error = ''no successful tool result for current step'' \<rparr>] else fs)"
  define s where "s = appendUniqueFailedAttempts step fs2"
  have steps: "ep_Steps plan = ep_Steps p" by (simp add: plan_def fold_steps)
  have ne: "calls \<noteq> []" using calls by (auto simp: named_calls_def)
  have closed: "\<not> open_step (x\<lparr>es_Status := planStepDone\<rparr>)" "\<not> open_step (x\<lparr>es_Status := planStepFailed\<rparr>)"
    "\<not> open_step (x\<lparr>es_Status := planStepDone, es_Round := r, es_Result := t\<rparr>)" for x r t
  proof -
    have "TrimSpace planStepDone \<notin> {'''', planStepPending}" "TrimSpace planStepFailed \<notin> {'''', planStepPending}" by code_simp+
    then show "\<not> open_step (x\<lparr>es_Status := planStepDone\<rparr>)" "\<not> open_step (x\<lparr>es_Status := planStepFailed\<rparr>)"
      "\<not> open_step (x\<lparr>es_Status := planStepDone, es_Round := r, es_Result := t\<rparr>)" by (simp_all add: open_step_def)
  qed
  have upd': "updatePlanAfterRound p rnd su calls outs = (if sat \<and> good \<noteq> [] \<and> fs = []
      then let r = summarizePlainText (Join su semicolon) 280;
               s = step\<lparr>es_Status := planStepDone, es_Round := rnd,
                   es_Result := (if r = '''' then ''round '' @ show_int rnd @ '' completed with expected tool'' else r)\<rparr>
           in (plan\<lparr>ep_Steps := (ep_Steps plan)[i := s], ep_BlockedReason := ''''\<rparr>, Some s, None)
      else if length (es_FailedAttempts s) \<ge> 3
        then let s2 = s\<lparr>es_Status := planStepFailed\<rparr> in
             (plan\<lparr>ep_Steps := (ep_Steps plan)[i := s2], ep_BlockedReason := blocked_reason s2\<rparr>, None, Some s2)
      else (plan\<lparr>ep_Steps := (ep_Steps plan)[i := s]\<rparr>, None, None))"
    unfolding updatePlanAfterRound_def assms(1) option.case Let_def step_def good_def plan_def fs_def sat_def fs2_def s_def by (rule refl)
  have old2: "list_all (\<lambda>a. fa_Round a \<le> rnd) (es_FailedAttempts step)" using old by (auto simp: step_def list_all_iff)
  show ?thesis
  proof (cases "sat \<and> good \<noteq> [] \<and> fs = []")
    case True
    then show ?thesis using upd unfolding upd' steps step_def [symmetric] by (auto simp: Let_def settles_def closed old2)
  next
    case False
    have "TrimSpace ''no successful tool result for current step'' \<noteq> ''''" by code_simp
    then have rec: "list_all (recordable rnd) fs2"
      using round_attempts_recordable [OF calls] firstToolName_not_blank [of calls] by (simp add: fs2_def fs_def recordable_def)
    have "fs2 \<noteq> []"
    proof (cases "sat")
      case True
      then show ?thesis using False ne by (auto simp: fs2_def)
    next
      case False
      then have "fs \<noteq> []" using ne
        by (auto simp: sat_def fs_def round_attempts_def Let_def HasSuccessfulTool_def)
      then show ?thesis by (simp add: fs2_def False)
    qed
    moreover have "attempt_key a \<notin> set (map attempt_key (es_FailedAttempts step))" if "fa_Round a = rnd" for a
    proof
      assume "attempt_key a \<in> set (map attempt_key (es_FailedAttempts step))"
      then obtain x where x: "x \<in> set (es_FailedAttempts step)" "attempt_key a = attempt_key x" by auto
      from attempt_key_round [OF x(2)] old x(1) that show False by (fastforce simp: step_def list_all_iff)
    qed
    ultimately have grow: "length (es_FailedAttempts step) < length (es_FailedAttempts s)"
      using rec unfolding s_def appendUniqueFailedAttempts_def by (simp add: append_unique_grows)
    have rounds: "list_all (\<lambda>a. fa_Round a \<le> rnd) (es_FailedAttempts s)"
      using old2 rec by (simp add: s_def appendUniqueFailedAttempts_def append_unique_rounds)
    show ?thesis
      using upd False grow rounds unfolding upd' steps step_def [symmetric]
      by (auto simp: Let_def settles_def closed split: if_splits)
  qed
qed

subsection \<open>All rounds\<close>

fun run_rounds :: "int \<Rightarrow> (string list \<times> ToolCall list \<times> roundToolOutcome list) list \<Rightarrow> executionPlan \<Rightarrow> executionPlan" where
  "run_rounds rnd [] p = p"
| "run_rounds rnd ((su, calls, outs) # rs) p = run_rounds (rnd + 1) rs (fst (updatePlanAfterRound p rnd su calls outs))"

definition chances :: "executionPlanStep \<Rightarrow> nat" where
  "chances s = (if open_step s then 3 - length (es_FailedAttempts s) else 0)"

definition plan_ready :: "int \<Rightarrow> executionPlan \<Rightarrow> bool" where
  "plan_ready rnd p \<longleftrightarrow> list_all (\<lambda>s. (open_step s \<longrightarrow> length (es_FailedAttempts s) < 3)
     \<and> list_all (\<lambda>a. fa_Round a < rnd) (es_FailedAttempts s)) (ep_Steps p)"

lemma one_round_uses_chance:
  assumes "plan_ready rnd p" and "NextPendingStep p = Some i" and "named_calls calls"
  shows "plan_ready (rnd + 1) (fst (updatePlanAfterRound p rnd su calls outs))
    \<and> sum_list (map chances (ep_Steps (fst (updatePlanAfterRound p rnd su calls outs)))) < sum_list (map chances (ep_Steps p))"
proof -
  obtain p' d b where upd: "updatePlanAfterRound p rnd su calls outs = (p', d, b)" by (metis prod_cases3)
  have i: "i < length (ep_Steps p)" "open_step (ep_Steps p ! i)" using NextPendingStep_Some [OF assms(2)] by simp_all
  have old: "list_all (\<lambda>a. fa_Round a < rnd) (es_FailedAttempts (ep_Steps p ! i))" "length (es_FailedAttempts (ep_Steps p ! i)) < 3"
    using assms(1) i by (simp_all add: plan_ready_def list_all_length)
  obtain s' where s': "ep_Steps p' = (ep_Steps p)[i := s']" "settles rnd (ep_Steps p ! i) s'"
    using one_round_settles [OF assms(2,3) old(1) upd] by blast
  have "chances s' < chances (ep_Steps p ! i)"
    using s'(2) i(2) old(2) by (auto simp: chances_def settles_def)
  moreover have "sum_list (map chances (ep_Steps p')) + chances (ep_Steps p ! i) = sum_list (map chances (ep_Steps p)) + chances s'"
    using i(1) elem_le_sum_list [of i "map chances (ep_Steps p)"] by (simp add: s'(1) map_update sum_list_update)
  moreover have "plan_ready (rnd + 1) p'"
    using assms(1) s' by (fastforce simp: plan_ready_def settles_def list_all_iff dest!: set_update_subset_insert [THEN subsetD])
  ultimately show ?thesis by (simp add: upd)
qed

lemma settled_stays: "NextPendingStep p = None \<Longrightarrow> NextPendingStep (run_rounds rnd rs p) = None"
proof (induction rs arbitrary: p rnd)
  case (Cons r rs)
  obtain su calls outs where r: "r = (su, calls, outs)" by (metis prod_cases3)
  have "NextPendingStep (fst (updatePlanAfterRound p rnd su calls outs)) = None"
    using Cons.prems NextPendingStep_None [of p] unfolding updatePlanAfterRound_def Cons.prems by (simp add: NextPendingStep_None)
  then show ?case using Cons.IH by (simp add: r)
qed simp

lemma rounds_settle:
  "plan_ready rnd p \<Longrightarrow> list_all (\<lambda>(su, calls, outs). named_calls calls) rs \<Longrightarrow> sum_list (map chances (ep_Steps p)) \<le> length rs
    \<Longrightarrow> NextPendingStep (run_rounds rnd rs p) = None"
proof (induction rs arbitrary: p rnd)
  case Nil
  have "chances s = 0" if "s \<in> set (ep_Steps p)" for s using Nil(3) that by simp
  then have "list_all (\<lambda>s. \<not> open_step s) (ep_Steps p)"
    using Nil(1) by (fastforce simp: plan_ready_def list_all_iff chances_def)
  then show ?case by (simp add: NextPendingStep_None)
next
  case (Cons r rs)
  obtain su calls outs where r: "r = (su, calls, outs)" by (metis prod_cases3)
  show ?case
  proof (cases "NextPendingStep p")
    case None
    then show ?thesis by (rule settled_stays)
  next
    case (Some i)
    have "named_calls calls" using Cons.prems(2) by (simp add: r)
    note step = one_round_uses_chance [OF Cons.prems(1) Some this, of su outs]
    then show ?thesis using Cons.IH [of "rnd + 1"] Cons.prems(2,3) by (simp add: r)
  qed
qed

end
