(* ===== verification/PlannerTheorems.thy ===== *)
theory PlannerTheorems
  imports PlanProgress Modes
begin

text \<open>
  What a plan may contain, how the object is found in the model's answer, that the planner reads the tools back from
  the guide it is given, and that a plan cannot be stuck on a step.
\<close>

subsection \<open>Tools of a plan\<close>

definition step_tool_ok :: "bool \<Rightarrow> executionPlanStep \<Rightarrow> bool" where
  "step_tool_ok readOnly s \<longleftrightarrow> es_Description s \<noteq> '''' \<and> es_Status s = planStepPending
     \<and> (es_ExpectedTool s = '''' \<or> GetTool (es_ExpectedTool s) \<noteq> None \<and> \<not> (readOnly \<and> isMutatingTool (es_ExpectedTool s)))"

definition plan_ok :: "bool \<Rightarrow> executionPlan \<Rightarrow> bool" where
  "plan_ok readOnly p \<longleftrightarrow> 1 \<le> length (ep_Steps p) \<and> length (ep_Steps p) \<le> 8
     \<and> map es_ID (ep_Steps p) = map int [1..<Suc (length (ep_Steps p))] \<and> list_all (step_tool_ok readOnly) (ep_Steps p)"

lemma find_SomeD: "find P xs = Some x \<Longrightarrow> x \<in> set xs \<and> P x"
  by (auto simp: find_Some_iff)

lemma set_map_filter_iff: "y \<in> set (List.map_filter f xs) \<longleftrightarrow> (\<exists>x\<in>set xs. f x = Some y)"
  by (induction xs) (auto simp: map_filter_simps split: option.split)

lemma normalized_tool: "normalizeExpectedTool raw allowed = '''' \<or> GetTool (normalizeExpectedTool raw allowed) \<noteq> None"
  by (auto simp: normalizeExpectedTool_def split: option.split dest: find_SomeD)

lemma guide_entry_known: "guide_entry l = Some n \<Longrightarrow> GetTool n \<noteq> None"
  by (auto simp: guide_entry_def Let_def split: if_splits list.splits)

lemma allowed_known: "n \<in> set (parseAllowedToolSet guide) \<Longrightarrow> GetTool n \<noteq> None"
  by (auto simp: parseAllowedToolSet_def set_map_filter_iff dest: guide_entry_known split: if_splits)

lemma fallback_tool:
  assumes "\<And>n. n \<in> set allowed \<Longrightarrow> GetTool n \<noteq> None"
  shows "GetTool (pickReadOnlyFallbackTool allowed) \<noteq> None \<and> \<not> isMutatingTool (pickReadOnlyFallbackTool allowed)"
proof -
  have p: "list_all (\<lambda>n. \<not> isMutatingTool n) preferred_read_tools" by code_simp
  have d: "GetTool ''get_node_detail'' \<noteq> None" "\<not> isMutatingTool ''get_node_detail''" by code_simp+
  show ?thesis
    using assms p d by (auto simp: pickReadOnlyFallbackTool_def list_all_iff split: option.split dest!: find_SomeD)
qed

lemma clean_step_ok: "clean_step readOnly (parseAllowedToolSet guide) item = Some s \<Longrightarrow> step_tool_ok readOnly s"
  using normalized_tool [of "es_ExpectedTool item" "parseAllowedToolSet guide"] fallback_tool [of "parseAllowedToolSet guide"] allowed_known
  by (auto simp: clean_step_def step_tool_ok_def zero_step_def Let_def split: if_splits)

lemma number_steps_sel:
  "length (number_steps ss) = length ss" "map es_ID (number_steps ss) = map int [1..<Suc (length ss)]"
  "list_all (step_tool_ok ro) (number_steps ss) = list_all (step_tool_ok ro) ss"
proof -
  show l: "length (number_steps ss) = length ss" by (simp add: number_steps_def)
  show "map es_ID (number_steps ss) = map int [1..<Suc (length ss)]"
    by (rule nth_equalityI) (auto simp: number_steps_def nth_enumerate_eq simp del: upt_Suc)
  show "list_all (step_tool_ok ro) (number_steps ss) = list_all (step_tool_ok ro) ss"
    by (simp add: list_all_length number_steps_def nth_enumerate_eq step_tool_ok_def)
qed

text \<open>Whatever the model answers, a plan the planner accepts has between one and eight pending steps, numbered
  from one, each with a description, and a step names no tool or a registered one; in read-only mode it never names a
  tool that changes the graph.\<close>

theorem accepted_plans_ok:
  assumes "runPlannerPhase decode answer message readOnly guide = Inr p"
  shows "plan_ok readOnly p"
proof -
  obtain tx where "parseExecutionPlan decode tx message readOnly guide = Inr p"
    using assms by (auto simp: runPlannerPhase_def Let_def split: sum.splits option.splits if_splits)
  then obtain items steps where steps: "steps = take 8 (List.map_filter (clean_step readOnly (parseAllowedToolSet guide)) items)"
      "steps \<noteq> []" "ep_Steps p = number_steps steps"
    by (auto simp: parseExecutionPlan_def Let_def split: if_splits option.splits)
  have "list_all (step_tool_ok readOnly) steps"
    unfolding steps(1) list_all_iff using clean_step_ok
    by (auto simp: set_map_filter_iff dest!: in_set_takeD)
  moreover have "1 \<le> length steps" using steps(2) by (simp add: Suc_le_eq)
  moreover have "length steps \<le> 8" by (simp add: steps(1))
  ultimately show ?thesis unfolding plan_ok_def steps(3) number_steps_sel by simp
qed

definition ex_answer_plan :: raw_message where
  "ex_answer_plan = RawJson (JObj [(''goal'', JStr '' fix the gate ''), (''steps'', JArr [
     JObj [(''id'', JNum ''7'' 7 (Some 7)), (''description'', JStr ''edit''), (''expectedTool'', JStr ''update_node'')], JNull])])"

lemma ex_planned:
  obtains p where "runPlannerPhase (\<lambda>_. ex_answer_plan) (Inr (Some (''Plan: {}'', ''''))) ''goal'' True '''' = Inr p"
    "map es_ExpectedTool (ep_Steps p) = [''get_node_detail'']"
proof -
  have "case runPlannerPhase (\<lambda>_. ex_answer_plan) (Inr (Some (''Plan: {}'', ''''))) ''goal'' True '''' of
      Inl _ \<Rightarrow> False | Inr p \<Rightarrow> map es_ExpectedTool (ep_Steps p) = [''get_node_detail'']" by code_simp
  then show thesis using that by (auto split: sum.splits)
qed

theorem accepted_plans_ok_witness:
  "\<exists>p. runPlannerPhase (\<lambda>_. ex_answer_plan) (Inr (Some (''Plan: {}'', ''''))) ''goal'' True '''' = Inr p \<and> plan_ok True p
     \<and> map es_ExpectedTool (ep_Steps p) = [''get_node_detail'']"
  using ex_planned accepted_plans_ok by metis

subsection \<open>Finding the object\<close>

text \<open>The text of a JSON object, as far as its braces and strings go: \<open>object_text\<close> is a brace, any number of
  pieces, and a brace; a piece is a byte outside strings, a string, or an object.\<close>

inductive string_rest :: "string \<Rightarrow> bool" where
  string_end: "string_rest [CHR 0x22]"
| string_char: "c \<noteq> CHR 0x22 \<Longrightarrow> c \<noteq> CHR 0x5C \<Longrightarrow> string_rest s \<Longrightarrow> string_rest (c # s)"
| string_escape: "string_rest s \<Longrightarrow> string_rest (CHR 0x5C # c # s)"

inductive object_rest :: "string \<Rightarrow> bool" where
  object_end: "object_rest [CHR ''}'']"
| object_char: "c \<notin> {CHR 0x22, CHR ''{'', CHR ''}''} \<Longrightarrow> object_rest s \<Longrightarrow> object_rest (c # s)"
| object_string: "string_rest t \<Longrightarrow> object_rest s \<Longrightarrow> object_rest (CHR 0x22 # t @ s)"
| object_nested: "object_rest t \<Longrightarrow> object_rest s \<Longrightarrow> object_rest (CHR ''{'' # t @ s)"

lemma scan_string:
  "string_rest t \<Longrightarrow> scan_object d True False (t @ z) = map_option ((@) t) (scan_object d False False z)"
  by (induction rule: string_rest.induct) (simp_all add: option.map_comp comp_def)

lemma append_fun: "(@) (c # s) = (\<lambda>x. c # s @ x)" "(@) [] = (\<lambda>x. x)"
  by auto

lemma scan_rest:
  "object_rest t \<Longrightarrow> scan_object (Suc d) False False (t @ z)
     = (if d = 0 then Some t else map_option ((@) t) (scan_object d False False z))"
proof (induction arbitrary: d z rule: object_rest.induct)
  case (object_string t s)
  then show ?case by (simp add: scan_string option.map_comp comp_def append_fun)
next
  case (object_nested t s)
  then show ?case by (simp add: option.map_comp comp_def append_fun)
qed (simp_all add: option.map_comp comp_def append_fun)

text \<open>When the model wraps its JSON object into other text, the planner cuts out exactly the object: the text in
  front has no opening brace, what follows does not matter, and braces inside the strings of the object are not
  counted.\<close>

theorem object_is_found:
  assumes "object_rest body" and "CHR ''{'' \<notin> set before"
  shows "extractJSONObject (before @ CHR ''{'' # body @ after) = CHR ''{'' # body"
proof -
  have "dropWhile (\<lambda>c. c \<noteq> CHR ''{'') (before @ CHR ''{'' # body @ after) = CHR ''{'' # body @ after"
    using assms(2) by (induction before) auto
  moreover have "scan_object 0 False False (CHR ''{'' # body @ after) = Some (CHR ''{'' # body)"
    using scan_rest [OF assms(1), of 0 after] by simp
  moreover have "TrimSpace (CHR ''{'' # body) = CHR ''{'' # body"
  proof (rule TrimSpace_plain)
    have "body \<noteq> [] \<and> last body = CHR ''}''"
      using assms(1) by (induction rule: object_rest.induct) auto
    then show "plain_char (last (CHR ''{'' # body))" by (simp add: plain_char_def less_eq_char_def)
  qed (simp_all add: plain_char_def less_eq_char_def)
  ultimately show ?thesis by (simp add: extractJSONObject_def)
qed

theorem object_is_found_witness:
  "extractJSONObject (''Here: '' @ CHR ''{'' # (CHR 0x22 # [CHR ''}'', CHR 0x22] @ [CHR ''}'']) @ '' done}'')
     = CHR ''{'' # (CHR 0x22 # [CHR ''}'', CHR 0x22] @ [CHR ''}''])"
proof (rule object_is_found)
  show "object_rest (CHR 0x22 # [CHR ''}'', CHR 0x22] @ [CHR ''}''])"
    by (intro object_rest.intros string_rest.intros) simp_all
qed simp

subsection \<open>The guide\<close>

lemma split_on_append: "sep \<notin> set l \<Longrightarrow> split_on sep cur (l @ sep # z) = (rev cur @ l) # split_on sep [] z"
  by (induction l arbitrary: cur) auto

lemma split_on_plain: "sep \<notin> set l \<Longrightarrow> split_on sep cur l = [rev cur @ l]"
  by (induction l arbitrary: cur) auto

lemma split_join: "list_all (\<lambda>l. sep \<notin> set l) ls \<Longrightarrow> ls \<noteq> [] \<Longrightarrow> split_on sep [] (Join ls [sep]) = ls"
  by (induction ls "[sep]" rule: Join.induct) (simp_all add: split_on_append split_on_plain)

lemma Join_last: "ls \<noteq> [] \<Longrightarrow> last ls \<noteq> [] \<Longrightarrow> Join ls sep \<noteq> [] \<and> last (Join ls sep) = last (last ls)"
  by (induction ls sep rule: Join.induct) auto

definition guide_line_ok :: "string \<Rightarrow> bool" where
  "guide_line_ok l \<longleftrightarrow> CHR 0x0A \<notin> set l \<and> l \<noteq> [] \<and> plain_char (last l)"

definition offered_ok :: "ToolDefinition \<Rightarrow> bool" where
  "offered_ok d \<longleftrightarrow> list_ex (\<lambda>k. tool_Kind (normalizeToolDefinition (normalizeToolDefinition d)) = Some k) kind_order
     \<and> CHR 0x0A \<notin> set (Join (requiredParamNames (tool_Parameters d)) '','')
     \<and> tool_Description d \<noteq> [] \<and> plain_char (hd (tool_Description d)) \<and> plain_char (last (tool_Description d))
     \<and> CHR 0x0A \<notin> set (tool_Description d)"

definition name_ok :: "ToolDefinition \<Rightarrow> bool" where
  "name_ok d \<longleftrightarrow> tool_Name d \<noteq> [] \<and> list_all (\<lambda>c. plain_char c \<and> c \<noteq> CHR ''|'') (tool_Name d)"

lemma registry_offered: "list_all offered_ok toolRegistry"
  by code_simp

lemma registry_names: "list_all name_ok toolRegistry"
  by code_simp

lemma normalized_sel [simp]:
  "tool_Name (normalizeToolDefinition d) = tool_Name d" "tool_Parameters (normalizeToolDefinition d) = tool_Parameters d"
  "tool_Description (normalizeToolDefinition d) = tool_Description d"
  by (simp_all add: normalizeToolDefinition_def Let_def split: ExecutionTier.split)

lemma flags_one_line: "CHR 0x0A \<notin> set (Join (tool_flags d) '','')"
  by (simp add: tool_flags_def Let_def)

lemma tool_line_ok:
  assumes "offered_ok d" and "name_ok d"
  shows "guide_line_ok (guide_line (normalizeToolDefinition (normalizeToolDefinition d)))"
proof -
  let ?n = "normalizeToolDefinition (normalizeToolDefinition d)"
  have desc: "TrimSpace (tool_Description d) = tool_Description d" "tool_Description d \<noteq> []"
      "plain_char (last (tool_Description d))" "CHR 0x0A \<notin> set (tool_Description d)"
    using assms(1) by (simp_all add: offered_ok_def TrimSpace_plain)
  have "\<not> plain_char (CHR 0x0A)" by code_simp
  then have "CHR 0x0A \<notin> set (tool_Name d)" using assms(2) by (auto simp: name_ok_def list_all_iff)
  moreover have "CHR 0x0A \<notin> set (Join (requiredParamNames (tool_Parameters d)) '','')" using assms(1) by (simp add: offered_ok_def)
  ultimately have "CHR 0x0A \<notin> set (guide_line ?n)"
    using flags_one_line [of ?n] desc by (simp add: guide_line_def Let_def)
  moreover have "\<exists>x. guide_line ?n = x @ tool_Description d" by (simp add: guide_line_def Let_def desc(1))
  then obtain x where "guide_line ?n = x @ tool_Description d" ..
  ultimately show ?thesis using desc by (simp add: guide_line_ok_def)
qed

lemma TrimSpace_blank: "TrimSpace (CHR '' '' # s) = TrimSpace s"
proof -
  have "TrimLeft (CHR '' '' # s) = TrimLeft s" by (subst TrimLeft.simps) (simp add: ws_len_def ascii_space_def)
  then show ?thesis by (simp add: TrimSpace_def)
qed

lemma TrimSpace_blank_end: "s \<noteq> [] \<Longrightarrow> list_all plain_char s \<Longrightarrow> TrimSpace (s @ '' '') = s"
proof -
  assume s: "s \<noteq> []" "list_all plain_char s"
  then have h: "plain_char (hd (s @ '' ''))" "plain_char (hd (rev s))" by (simp_all add: list_all_iff hd_rev)
  have "TrimLeft (s @ '' '') = s @ '' ''" using h by (intro TrimLeft_id ws_len_plain) simp_all
  moreover have "TrimLeftRev (CHR '' '' # rev s) = TrimLeftRev (rev s)"
    by (subst TrimLeftRev.simps) (simp add: ws_len_rev_def ascii_space_def)
  moreover have "TrimLeftRev (rev s) = rev s" using h s by (intro TrimLeftRev_id ws_len_rev_plain) simp_all
  ultimately show ?thesis by (simp add: TrimSpace_def)
qed

lemma entry_of_line:
  assumes "name_ok d" and "tool_Name n = tool_Name d" and "GetTool (tool_Name d) \<noteq> None" and "plain_char (last (guide_line n))"
  shows "guide_entry (guide_line n) = Some (tool_Name d)"
proof -
  obtain z where l: "guide_line n = ''- '' @ tool_Name d @ '' |'' @ z" and z: "z \<noteq> []"
    unfolding guide_line_def Let_def assms(2) by simp
  have name: "tool_Name d \<noteq> []" "list_all plain_char (tool_Name d)" "CHR ''|'' \<notin> set (tool_Name d)" "GetTool (tool_Name d) \<noteq> None"
    using assms(1,3) by (auto simp: name_ok_def list_all_iff)
  have end': "plain_char (last (tool_Name d @ '' |'' @ z))" using assms(4) z by (simp add: l)
  have t: "TrimSpace (guide_line n) = guide_line n"
    using assms(4) by (intro TrimSpace_plain) (simp_all add: l plain_char_def less_eq_char_def)
  have "TrimSpace (CHR '' '' # tool_Name d @ '' |'' @ z) = tool_Name d @ '' |'' @ z"
    unfolding TrimSpace_blank using name end' by (intro TrimSpace_plain) (auto simp: list_all_iff hd_append)
  moreover have "takeWhile (\<lambda>x. x \<noteq> CHR ''|'') (tool_Name d @ '' |'' @ z) = tool_Name d @ '' ''"
    using name(3) by (simp add: takeWhile_append) (simp add: takeWhile_eq_all_conv)?
  ultimately show ?thesis
    unfolding guide_entry_def t using name TrimSpace_blank_end [OF name(1,2)] by (simp add: l Let_def)
qed

lemma other_lines: "list_all (\<lambda>l. guide_line_ok l \<and> guide_entry l = None) (guide_header @ map (\<lambda>k. ''['' @ kind_text k @ '']'') kind_order)"
  by code_simp

lemma guide_group_entries:
  assumes "set defs \<subseteq> normalizeToolDefinition ` set toolRegistry"
  shows "list_all guide_line_ok (concat (map (guide_group defs) kind_order))
    \<and> set (List.map_filter guide_entry (concat (map (guide_group defs) kind_order))) = set (map tool_Name defs)"
proof -
  have head: "guide_line_ok (''['' @ kind_text k @ '']'') \<and> guide_entry (''['' @ kind_text k @ '']'') = None" if "k \<in> set kind_order" for k
    using other_lines that by (auto simp: list_all_iff)
  have tool: "\<exists>k \<in> set kind_order. tool_Kind (normalizeToolDefinition n) = Some k" "guide_line_ok (guide_line (normalizeToolDefinition n))"
    "guide_entry (guide_line (normalizeToolDefinition n)) = Some (tool_Name n)" if n: "n \<in> set defs" for n
  proof -
    obtain d where d: "d \<in> set toolRegistry" "n = normalizeToolDefinition d" using assms n by auto
    then have o: "offered_ok d" "name_ok d" "GetTool (tool_Name d) \<noteq> None"
      using registry_offered registry_names registry_own_names by (auto simp: list_all_iff)
    then show "\<exists>k \<in> set kind_order. tool_Kind (normalizeToolDefinition n) = Some k" and ok: "guide_line_ok (guide_line (normalizeToolDefinition n))"
      using tool_line_ok [OF o(1,2)] by (simp_all add: offered_ok_def d list_ex_iff)
    then show "guide_entry (guide_line (normalizeToolDefinition n)) = Some (tool_Name n)"
      using entry_of_line [OF o(2), of "normalizeToolDefinition n"] o(3) by (simp add: d guide_line_ok_def)
  qed
  have "list_all guide_line_ok (concat (map (guide_group defs) kind_order))"
    using head tool(2) by (auto simp: list_all_iff guide_group_def Let_def split: if_splits)
  moreover have "y \<in> set (List.map_filter guide_entry (concat (map (guide_group defs) kind_order))) \<longleftrightarrow> y \<in> set (map tool_Name defs)" for y
  proof
    assume "y \<in> set (List.map_filter guide_entry (concat (map (guide_group defs) kind_order)))"
    then obtain k l where "k \<in> set kind_order" "l \<in> set (guide_group defs k)" "guide_entry l = Some y"
      by (auto simp: set_map_filter_iff)
    with head tool(3) show "y \<in> set (map tool_Name defs)" by (fastforce simp: guide_group_def Let_def split: if_splits)
  next
    assume "y \<in> set (map tool_Name defs)"
    then obtain n where n: "n \<in> set defs" "y = tool_Name n" by auto
    then obtain k where k: "k \<in> set kind_order" "tool_Kind (normalizeToolDefinition n) = Some k" using tool(1) by blast
    then have "guide_line (normalizeToolDefinition n) \<in> set (guide_group defs k)"
      using n by (auto simp: guide_group_def Let_def filter_empty_conv)
    with k tool(3) n show "y \<in> set (List.map_filter guide_entry (concat (map (guide_group defs) kind_order)))"
      by (auto simp: set_map_filter_iff)
  qed
  ultimately show ?thesis by blast
qed

text \<open>The planner reads back from the prompt guide exactly the tools that are offered to the model in the mode and for
  the graph of the conversation.\<close>

theorem guide_roundtrip:
  "set (parseAllowedToolSet (BuildToolPromptGuide (FilterToolsForMode graphType readOnly includeHybridTools)))
     = set (map tool_Name (FilterToolsForMode graphType readOnly includeHybridTools))"
proof -
  let ?defs = "FilterToolsForMode graphType readOnly includeHybridTools"
  show ?thesis
  proof (cases "?defs = []")
    case True
    have "parseAllowedToolSet ''No tool is available for this turn.'' = []" by code_simp
    with True show ?thesis by (simp add: BuildToolPromptGuide_def)
  next
    case False
    have "set ?defs \<subseteq> normalizeToolDefinition ` set toolRegistry" by (auto simp: FilterToolsForMode_def GetToolsForGraphType_def)
    note g = guide_group_entries [OF this]
    have head: "list_all guide_line_ok guide_header" "List.map_filter guide_entry guide_header = []"
      using other_lines by (auto simp: list_all_iff map_filter_def filter_empty_conv)
    then have ok: "list_all guide_line_ok (guide_lines ?defs)" using g by (simp add: guide_lines_def)
    have ne: "guide_lines ?defs \<noteq> []" by (simp add: guide_lines_def guide_header_def)
    have l: "guide_line_ok (last (guide_lines ?defs))" using ok ne by (simp add: list_all_iff)
    have "Join (guide_lines ?defs) [CHR 0x0A] \<noteq> []" "plain_char (last (Join (guide_lines ?defs) [CHR 0x0A]))"
      using Join_last [OF ne, of "[CHR 0x0A]"] l by (simp_all add: guide_line_ok_def)
    moreover have "plain_char (hd (Join (guide_lines ?defs) [CHR 0x0A]))"
      by (simp add: guide_lines_def guide_header_def plain_char_def less_eq_char_def)
    ultimately have "TrimSpace (Join (guide_lines ?defs) [CHR 0x0A]) = Join (guide_lines ?defs) [CHR 0x0A]"
      by (intro TrimSpace_plain)
    moreover have "split_on (CHR 0x0A) [] (Join (guide_lines ?defs) [CHR 0x0A]) = guide_lines ?defs"
      using ok ne by (intro split_join) (auto simp: list_all_iff guide_line_ok_def)
    ultimately show ?thesis
      using g head False \<open>Join (guide_lines ?defs) [CHR 0x0A] \<noteq> []\<close>
      by (simp add: parseAllowedToolSet_def BuildToolPromptGuide_def guide_lines_def map_filter_def)
  qed
qed

subsection \<open>Progress\<close>

text \<open>C40: A plan is never stuck. Of a plan as the planner returns it with \<open>n\<close> steps, no step is pending after
  \<open>3 * n\<close> rounds that call at least one named tool, whatever the calls answer: each such round completes
  the current step or records a new failed attempt, and the third one fails the step.\<close>

theorem plan_settles:
  assumes "runPlannerPhase decode answer message readOnly guide = Inr p"
    and "list_all (\<lambda>(su, calls, outs). named_calls calls) rounds" and "3 * length (ep_Steps p) \<le> length rounds"
  shows "NextPendingStep (run_rounds rnd rounds p) = None"
proof -
  obtain tx where "parseExecutionPlan decode tx message readOnly guide = Inr p"
    using assms(1) by (auto simp: runPlannerPhase_def Let_def split: sum.splits option.splits if_splits)
  then obtain ss where "ep_Steps p = number_steps ss" "list_all (\<lambda>s. es_FailedAttempts s = []) ss"
    by (fastforce simp: parseExecutionPlan_def Let_def list_all_iff set_map_filter_iff clean_step_def zero_step_def
        dest!: in_set_takeD split: if_splits option.splits)
  then have fresh: "list_all (\<lambda>s. es_FailedAttempts s = []) (ep_Steps p)"
    by (simp add: number_steps_def list_all_length nth_enumerate_eq)
  then have "sum_list (map chances (ep_Steps p)) \<le> sum_list (map (\<lambda>_. 3) (ep_Steps p))"
    by (intro sum_list_mono) (simp add: chances_def)
  then have "sum_list (map chances (ep_Steps p)) \<le> length rounds" using assms(3) by (simp add: sum_list_triv)
  moreover have "plan_ready rnd p" using fresh by (auto simp: plan_ready_def list_all_iff)
  ultimately show ?thesis using assms(2) by (intro rounds_settle)
qed

definition ex_round :: "string list \<times> ToolCall list \<times> roundToolOutcome list" where
  "ex_round = ([], [\<lparr> call_ID = ''c'', call_Name = ''get_subtree'', call_Arguments = RawEmpty \<rparr>],
     [\<lparr> ro_Tool = ''get_subtree'', ro_Status = ''failed'', ro_Summary = '''', ro_Error = ''no such node'' \<rparr>])"

theorem plan_settles_witness:
  "\<exists>p. runPlannerPhase (\<lambda>_. ex_answer_plan) (Inr (Some (''Plan: {}'', ''''))) ''goal'' True '''' = Inr p
     \<and> NextPendingStep (run_rounds 1 (replicate 3 ex_round) p) = None"
proof -
  obtain p where p: "runPlannerPhase (\<lambda>_. ex_answer_plan) (Inr (Some (''Plan: {}'', ''''))) ''goal'' True '''' = Inr p"
      "map es_ExpectedTool (ep_Steps p) = [''get_node_detail'']" by (rule ex_planned)
  then have "length (ep_Steps p) = 1" by (metis length_map length_Cons list.size(3) One_nat_def)
  note p = p(1) this
  have "list_all (\<lambda>(su, calls, outs). named_calls calls) (replicate 3 ex_round)"
  proof -
    have "named_calls [\<lparr> call_ID = ''c'', call_Name = ''get_subtree'', call_Arguments = RawEmpty \<rparr>]" by code_simp
    then show ?thesis by (simp add: list_all_iff ex_round_def)
  qed
  from plan_settles [OF p(1) this, of 1] p show ?thesis by auto
qed

end
