(* ===== verification/Observations.thy ===== *)
theory Observations
  imports Rounds Planner
begin

text \<open>
  What the model is told of a round: the observation made of a call, the line of the summary, and the
  memory of the run (\<open>internal/agent/engine.go\<close>): facts, actions, counts, plan and repair guide.
  How the texts named by constructors read, and what a text reads as when it is decoded as JSON, are
  arguments (\<open>wording\<close>). A history message of a tool carries its observation; that the JSON printed
  of an observation is read back as the observation is taken from \<open>encoding/json\<close>.
\<close>

record wording =
  wo_text :: "call_text \<Rightarrow> string"
  wo_decode :: "string \<Rightarrow> raw_message"

subsection \<open>Values of any type\<close>

definition uniqueStrings :: "string list \<Rightarrow> string list" where
  \<comment> \<open>the first of equal strings is kept\<close>
  "uniqueStrings values = rev (remdups (rev (filter (\<lambda>v. v \<noteq> '''') (map TrimSpace values))))"

definition limitStrings :: "string list \<Rightarrow> nat \<Rightarrow> string list" where
  "limitStrings values n = (if n = 0 \<or> length values \<le> n then values else take n values)"

definition intFromAny :: "json option \<Rightarrow> int" where
  "intFromAny v = (case v of Some (JNum _ i _) \<Rightarrow> i | _ \<Rightarrow> 0)"

definition lenFromAny :: "json option \<Rightarrow> int" where
  "lenFromAny v = (case v of Some (JArr vs) \<Rightarrow> int (length vs) | _ \<Rightarrow> 0)"

definition stringSliceFromAny :: "json option \<Rightarrow> string list" where
  "stringSliceFromAny v = (case v of
      Some (JArr vs) \<Rightarrow> List.map_filter (\<lambda>x. case x of JStr s \<Rightarrow> if TrimSpace s \<noteq> '''' then Some (TrimSpace s) else None | _ \<Rightarrow> None) vs
    | _ \<Rightarrow> [])"

definition trim_quotes :: "string \<Rightarrow> string" where
  "trim_quotes s = rev (dropWhile (\<lambda>c. c = CHR 0x22) (rev (dropWhile (\<lambda>c. c = CHR 0x22) s)))"

definition localAnyToString :: "json option \<Rightarrow> string" where
  "localAnyToString v = (case v of
      None \<Rightarrow> '''' | Some JNull \<Rightarrow> '''' | Some (JStr s) \<Rightarrow> TrimSpace s | Some x \<Rightarrow> trim_quotes (TrimSpace (Marshal x)))"

subsection \<open>Issues\<close>

record repairIssueEntry =
  ri_Code :: string
  ri_NodeID :: string
  ri_Level :: string
  ri_Message :: string
  ri_Suggestion :: string

definition repairSuggestionForCode :: "string \<Rightarrow> string" where
  "repairSuggestionForCode rawCode =
     (let code = ToUpper (TrimSpace rawCode) in
      if code = ''BASIC_EVENT_AS_PARENT'' then
        ''basicEvent'' @ utf8 [228, 184, 141, 229, 186, 148, 228, 189, 156, 228, 184, 186, 231, 136, 182, 232, 138, 130,
        231, 130, 185, 227, 128, 130, 228, 189, 191, 231, 148, 168] @ ''move_node'' @ utf8 [229, 176, 134, 229, 133, 182,
        229, 173, 144, 232, 138, 130, 231, 130, 185, 231, 167, 187, 229, 136, 176, 229, 144, 136, 233, 128, 130, 231, 154,
        132] @ ''gate/midEvent'' @ utf8 [228, 184, 139, 239, 188, 140, 230, 136, 150, 229, 156, 168] @ ''basicEvent'' @
        utf8 [228, 184, 138, 230, 150, 185, 230, 143, 146, 229, 133, 165] @ ''gate'' @ utf8 [232, 138, 130, 231, 130, 185,
        239, 188, 136] @ ''add_gate'' @ utf8 [239, 188, 137]
      else if code = ''BASIC_EVENT_HAS_CHILDREN'' then
        ''basicEvent'' @ utf8 [228, 184, 141, 229, 186, 148, 230, 156, 137, 229, 173, 144, 232, 138, 130, 231, 130, 185,
        227, 128, 130, 228, 189, 191, 231, 148, 168] @ ''move_node'' @ utf8 [229, 176, 134, 229, 173, 144, 232, 138, 130,
        231, 130, 185, 231, 167, 187, 229, 136, 176, 229, 144, 140, 229, 177, 130] @ ''gate'' @ utf8 [230, 136, 150] @
        ''midEvent'' @ utf8 [228, 184, 139]
      else if code = ''SINGLE_CHILD_GATE'' then
        ''gate'' @ utf8 [229, 143, 170, 230, 156, 137] @ ''1'' @ utf8 [228, 184, 170, 229, 173, 144, 232, 138, 130, 231,
        130, 185, 227, 128, 130, 230, 183, 187, 229, 138, 160, 230, 155, 180, 229, 164, 154, 229, 173, 144, 232, 138, 130,
        231, 130, 185, 239, 188, 136] @ ''add_node'' @ utf8 [239, 188, 137, 239, 188, 140, 230, 136, 150, 230, 148, 185] @
        ''gate'' @ utf8 [231, 177, 187, 229, 158, 139, 239, 188, 136] @ ''update_gate'' @ utf8 [239, 188, 137, 239, 188,
        140, 230, 136, 150] @ ''move_node'' @ utf8 [231, 167, 187, 232, 181, 176, 229, 173, 144, 232, 138, 130, 231, 130,
        185, 229, 144, 142, 229, 136, 160, 233, 153, 164] @ ''gate''
      else if code = ''GATE_AND_MIN_2_CHILDREN'' then
        ''AND gate'' @ utf8 [233, 156, 128, 232, 166, 129, 226, 137, 165] @ ''2'' @ utf8 [228, 184, 170, 229, 173, 144, 232,
        138, 130, 231, 130, 185, 227, 128, 130, 230, 183, 187, 229, 138, 160, 229, 173, 144, 232, 138, 130, 231, 130, 185,
        239, 188, 136] @ ''add_node'' @ utf8 [239, 188, 137, 230, 136, 150, 230, 148, 185] @ ''OR gate'' @ utf8 [239, 188,
        136] @ ''update_gate'' @ utf8 [239, 188, 137]
      else if code = ''GATE_NOT_EXACTLY_1_CHILD'' then
        ''NOT gate'' @ utf8 [233, 156, 128, 232, 166, 129, 230, 129, 176, 229, 165, 189] @ ''1'' @ utf8 [228, 184, 170, 229,
        173, 144, 232, 138, 130, 231, 130, 185, 227, 128, 130, 230, 183, 187, 229, 138, 160, 230, 136, 150, 231, 167, 187,
        233, 153, 164, 229, 173, 144, 232, 138, 130, 231, 130, 185, 228, 189, 191, 230, 149, 176, 233, 135, 143, 228, 184,
        186] @ ''1''
      else if code = ''GATE_CHILD_COUNT_TOO_LOW'' then
        ''gate'' @ utf8 [229, 173, 144, 232, 138, 130, 231, 130, 185, 230, 149, 176, 233, 135, 143, 228, 184, 141, 232, 182,
        179, 227, 128, 130, 230, 183, 187, 229, 138, 160, 229, 173, 144, 232, 138, 130, 231, 130, 185, 230, 136, 150, 230,
        148, 185] @ ''gate'' @ utf8 [231, 177, 187, 229, 158, 139]
      else if code = ''NOT_GATE_CHILD_COUNT_TOO_HIGH'' then
        ''NOT gate'' @ utf8 [229, 173, 144, 232, 138, 130, 231, 130, 185, 232, 191, 135, 229, 164, 154, 239, 188, 140, 229,
        186, 148, 230, 129, 176, 229, 165, 189] @ ''1'' @ utf8 [228, 184, 170, 227, 128, 130] @ ''move_node'' @ utf8 [231,
        167, 187, 233, 153, 164, 229, 164, 154, 228, 189, 153, 229, 173, 144, 232, 138, 130, 231, 130, 185]
      else if code = ''CYCLE_DETECTED'' then
        utf8 [229, 173, 152, 229, 156, 168, 229, 190, 170, 231, 142, 175, 229, 188, 149, 231, 148, 168, 227, 128, 130, 228,
        189, 191, 231, 148, 168] @ ''move_node'' @ utf8 [230, 136, 150] @ ''delete_node'' @ utf8 [230, 182, 136, 233, 153,
        164, 229, 190, 170, 231, 142, 175]
      else if code = ''TOP_EVENT_AS_CHILD'' then
        ''topEvent'' @ utf8 [228, 184, 141, 229, 186, 148, 228, 189, 156, 228, 184, 186, 229, 173, 144, 232, 138, 130, 231,
        130, 185, 227, 128, 130, 230, 163, 128, 230, 159, 165, 231, 187, 147, 230, 158, 132, 230, 152, 175, 229, 144, 166,
        233, 156, 128, 232, 166, 129, 233, 135, 141, 231, 187, 132]
      else if code = ''MULTIPLE_TOP_EVENTS'' then
        utf8 [229, 186, 148, 229, 143, 170, 230, 156, 137] @ ''1'' @ utf8 [228, 184, 170] @ ''topEvent'' @ utf8 [227, 128,
        130, 229, 176, 134, 229, 164, 154, 228, 189, 153, 231, 154, 132] @ ''topEvent'' @ utf8 [230, 148, 185, 228, 184,
        186] @ ''midEvent'' @ utf8 [239, 188, 136] @ ''update_node'' @ utf8 [230, 148, 185] @ ''nodeType'' @ utf8 [239, 188,
        137, 230, 136, 150, 229, 136, 160, 233, 153, 164]
      else if code = ''MISSING_TOP_EVENT'' then
        utf8 [231, 188, 186, 229, 176, 145] @ ''topEvent'' @ utf8 [230, 160, 185, 232, 138, 130, 231, 130, 185, 227, 128,
        130, 233, 156, 128, 232, 166, 129, 230, 183, 187, 229, 138, 160] @ ''topEvent'' @ utf8 [230, 136, 150, 229, 176,
        134, 231, 142, 176, 230, 156, 137, 232, 138, 130, 231, 130, 185, 230, 148, 185, 228, 184, 186] @ ''topEvent''
      else if code = ''TOP_EVENT_NOT_ROOT'' then
        ''topEvent'' @ utf8 [228, 184, 141, 229, 186, 148, 230, 156, 137, 231, 136, 182, 232, 138, 130, 231, 130, 185, 227,
        128, 130, 231, 167, 187, 233, 153, 164] @ ''topEvent'' @ utf8 [231, 154, 132, 229, 133, 165, 232, 190, 185, 230,
        136, 150, 229, 176, 134, 229, 133, 182, 231, 136, 182, 232, 138, 130, 231, 130, 185, 231, 187, 147, 230, 158, 132,
        233, 135, 141, 231, 187, 132]
      else if code = ''ORPHAN_NODE'' then
        utf8 [229, 173, 164, 231, 171, 139, 232, 138, 130, 231, 130, 185, 230, 151, 160, 232, 191, 158, 230, 142, 165, 227,
        128, 130, 228, 189, 191, 231, 148, 168] @ ''delete_node'' @ utf8 [229, 136, 160, 233, 153, 164, 230, 136, 150] @
        ''move_node'' @ utf8 [232, 191, 158, 230, 142, 165, 229, 136, 176, 229, 144, 136, 233, 128, 130, 231, 136, 182, 232,
        138, 130, 231, 130, 185]
      else if code = ''EDGE_NODE_ID_EMPTY'' then
        utf8 [232, 190, 185, 231, 154, 132, 232, 138, 130, 231, 130, 185] @ ''ID'' @ utf8 [228, 184, 186, 231, 169, 186,
        227, 128, 130, 229, 136, 160, 233, 153, 164, 230, 151, 160, 230, 149, 136, 232, 190, 185, 230, 136, 150, 233, 135,
        141, 229, 187, 186, 230, 173, 163, 231, 161, 174, 232, 191, 158, 230, 142, 165]
      else if code = ''EDGE_SOURCE_NOT_FOUND'' then
        utf8 [232, 190, 185, 231, 154, 132, 230, 186, 144, 232, 138, 130, 231, 130, 185, 228, 184, 141, 229, 173, 152, 229,
        156, 168, 227, 128, 130, 229, 136, 160, 233, 153, 164, 230, 151, 160, 230, 149, 136, 232, 190, 185]
      else if code = ''EDGE_TARGET_NOT_FOUND'' then
        utf8 [232, 190, 185, 231, 154, 132, 231, 155, 174, 230, 160, 135, 232, 138, 130, 231, 130, 185, 228, 184, 141, 229,
        173, 152, 229, 156, 168, 227, 128, 130, 229, 136, 160, 233, 153, 164, 230, 151, 160, 230, 149, 136, 232, 190, 185]
      else
        utf8 [232, 175, 183, 230, 160, 185, 230, 141, 174, 233, 151, 174, 233, 162, 152, 230, 143, 143, 232, 191, 176, 233,
        128, 137, 230, 139, 169, 229, 144, 136, 233, 128, 130, 231, 154, 132] @ ''mutation'' @ utf8 [229, 183, 165, 229,
        133, 183, 228, 191, 174, 229, 164, 141])"

definition issue_key :: "repairIssueEntry \<Rightarrow> string" where
  "issue_key e = ri_Code e @ ''#'' @ ri_NodeID e"

fun first_by :: "('a \<Rightarrow> string) \<Rightarrow> string list \<Rightarrow> 'a list \<Rightarrow> 'a list" where
  "first_by key seen [] = []"
| "first_by key seen (x # xs) = (if key x \<in> set seen then first_by key seen xs else x # first_by key (key x # seen) xs)"

definition issue_entry :: "json \<Rightarrow> repairIssueEntry option" where
  "issue_entry v = (case v of
      JObj m \<Rightarrow>
        (let field = (\<lambda>k. TrimSpace (localAnyToString (member_of m k))); code = field ''code''; suggestion = field ''suggestion'' in
         if code = '''' then None
         else Some \<lparr> ri_Code = code, ri_NodeID = field ''nodeId'', ri_Level = field ''level'', ri_Message = limit_text (field ''message'') 120,
                     ri_Suggestion = (if suggestion = '''' then repairSuggestionForCode code else suggestion) \<rparr>)
    | _ \<Rightarrow> None)"

definition repairIssuesFromAny :: "json option \<Rightarrow> nat \<Rightarrow> repairIssueEntry list" where
  "repairIssuesFromAny v maxCount = (case v of
      Some (JArr items) \<Rightarrow> (let es = first_by issue_key [] (List.map_filter issue_entry items) in if maxCount > 0 then take maxCount es else es)
    | _ \<Rightarrow> [])"

definition issueCodesFromPayload :: "json option \<Rightarrow> string list" where
  "issueCodesFromPayload v = (case v of
      Some (JArr items) \<Rightarrow> limitStrings (uniqueStrings (List.map_filter (\<lambda>x. case x of
          JObj m \<Rightarrow> (case member_of m ''code'' of Some (JStr c) \<Rightarrow> if TrimSpace c \<noteq> '''' then Some (TrimSpace c) else None | _ \<Rightarrow> None)
        | _ \<Rightarrow> None) items)) 12
    | _ \<Rightarrow> [])"

definition affectedNodeIDsFromPayload :: "payload \<Rightarrow> string list" where
  "affectedNodeIDsFromPayload m =
     limitStrings (uniqueStrings
       (List.map_filter (\<lambda>k. case member_of m k of Some (JStr s) \<Rightarrow> if TrimSpace s \<noteq> '''' then Some (TrimSpace s) else None | _ \<Rightarrow> None)
          [''nodeId'', ''rootNodeId'']
        @ concat (map (\<lambda>k. stringSliceFromAny (member_of m k)) [''parentNodeIds'', ''childNodeIds'', ''topEventIds'']))) 12"

subsection \<open>Observations\<close>

record ToolObservationSummary =
  ob_Tool :: string
  ob_Status :: string
  ob_NodeCount :: int
  ob_EdgeCount :: int
  ob_IssueCount :: int
  ob_IssueCodes :: "string list"
  ob_Issues :: "repairIssueEntry list"
  ob_AffectedNodeIDs :: "string list"
  ob_ChangedCounts :: "(string \<times> nat) list"
  ob_Error :: string
  ob_Summary :: string

definition patched_ids :: "GraphPatch \<Rightarrow> string list" where
  "patched_ids p = limitStrings (uniqueStrings
     (List.map_filter (\<lambda>item. case map_of item ''id'' of Some (PStr s) \<Rightarrow> if TrimSpace s \<noteq> '''' then Some (TrimSpace s) else None | _ \<Rightarrow> None)
        (UpsertNodes p) @ DeleteNodes p)) 12"

definition count_or_len :: "payload \<Rightarrow> string \<Rightarrow> string \<Rightarrow> int" where
  "count_or_len m count items =
     (if intFromAny (member_of m count) = 0 then lenFromAny (member_of m items) else intFromAny (member_of m count))"

definition buildToolObservationSummary ::
    "wording \<Rightarrow> string \<Rightarrow> string \<Rightarrow> string \<Rightarrow> GraphPatch option \<Rightarrow> string \<Rightarrow> ToolObservationSummary" where
  "buildToolObservationSummary wo toolName status summary patch errMsg =
     (let base = \<lparr> ob_Tool = TrimSpace toolName, ob_Status = normalizeToolFinalStatus status, ob_NodeCount = 0, ob_EdgeCount = 0,
            ob_IssueCount = 0, ob_IssueCodes = [], ob_Issues = [],
            ob_AffectedNodeIDs = (case patch of None \<Rightarrow> [] | Some p \<Rightarrow> patched_ids p),
            ob_ChangedCounts = (case patch of None \<Rightarrow> [] | Some p \<Rightarrow> [(''deleteEdges'', length (DeleteEdges p)),
               (''deleteNodes'', length (DeleteNodes p)), (''upsertEdges'', length (UpsertEdges p)), (''upsertNodes'', length (UpsertNodes p))]),
            ob_Error = TrimSpace errMsg, ob_Summary = '''' \<rparr>;
          trimmed = TrimSpace summary in
      if trimmed = '''' then base
      else case struct_members (wo_decode wo trimmed) of
        None \<Rightarrow> base\<lparr>ob_Summary := summarizePlainText trimmed 280\<rparr>
      | Some m \<Rightarrow>
          let issues = repairIssuesFromAny (member_of m ''issues'') 6;
              issueCount = count_or_len m ''issueCount'' ''issues'';
              codes = issueCodesFromPayload (member_of m ''issues'') in
          base\<lparr>ob_NodeCount := count_or_len m ''nodeCount'' ''nodes'', ob_EdgeCount := count_or_len m ''edgeCount'' ''edges'',
               ob_Issues := issues, ob_IssueCount := (if issues \<noteq> [] \<and> issueCount = 0 then int (length issues) else issueCount),
               ob_IssueCodes := (if codes = [] \<and> issues \<noteq> []
                  then limitStrings (uniqueStrings (filter (\<lambda>c. c \<noteq> '''') (map (\<lambda>i. TrimSpace (ri_Code i)) issues))) 12 else codes),
               ob_Summary := (case member_of m ''summary'' of Some (JStr s) \<Rightarrow> summarizePlainText s 280 | _ \<Rightarrow> ''''),
               ob_AffectedNodeIDs := (if ob_AffectedNodeIDs base = [] then affectedNodeIDsFromPayload m else ob_AffectedNodeIDs base)\<rparr>)"

text \<open>\<open>json.Marshal\<close> of an observation: the members in the order of the struct, without the empty ones.\<close>

definition print_object :: "(string \<times> string) list \<Rightarrow> string" where
  "print_object fs = ''{'' @ Join (map (\<lambda>(k, v). quote k @ '':'' @ v) fs) '','' @ ''}''"

definition print_array :: "('a \<Rightarrow> string) \<Rightarrow> 'a list \<Rightarrow> string" where
  "print_array f xs = ''['' @ Join (map f xs) '','' @ '']''"

definition member_unless :: "bool \<Rightarrow> string \<Rightarrow> string \<Rightarrow> (string \<times> string) list" where
  "member_unless skip k v = (if skip then [] else [(k, v)])"

definition print_issue :: "repairIssueEntry \<Rightarrow> string" where
  "print_issue e = print_object ([(''code'', quote (ri_Code e))]
     @ member_unless (ri_NodeID e = '''') ''nodeId'' (quote (ri_NodeID e))
     @ member_unless (ri_Level e = '''') ''level'' (quote (ri_Level e))
     @ member_unless (ri_Message e = '''') ''message'' (quote (ri_Message e))
     @ member_unless (ri_Suggestion e = '''') ''suggestion'' (quote (ri_Suggestion e)))"

definition print_observation :: "ToolObservationSummary \<Rightarrow> string" where
  "print_observation ob = print_object ([(''tool'', quote (ob_Tool ob)), (''status'', quote (ob_Status ob))]
     @ member_unless (ob_NodeCount ob = 0) ''nodeCount'' (show_int (ob_NodeCount ob))
     @ member_unless (ob_EdgeCount ob = 0) ''edgeCount'' (show_int (ob_EdgeCount ob))
     @ member_unless (ob_IssueCount ob = 0) ''issueCount'' (show_int (ob_IssueCount ob))
     @ member_unless (ob_IssueCodes ob = []) ''issueCodes'' (print_array quote (ob_IssueCodes ob))
     @ member_unless (ob_Issues ob = []) ''issues'' (print_array print_issue (ob_Issues ob))
     @ member_unless (ob_AffectedNodeIDs ob = []) ''affectedNodeIds'' (print_array quote (ob_AffectedNodeIDs ob))
     @ member_unless (ob_ChangedCounts ob = []) ''changedCounts'' (print_object (map (\<lambda>(k, n). (k, show_nat n)) (ob_ChangedCounts ob)))
     @ member_unless (ob_Error ob = '''') ''error'' (quote (ob_Error ob))
     @ member_unless (ob_Summary ob = '''') ''summary'' (quote (ob_Summary ob)))"

definition compactToolObservationText :: "wording \<Rightarrow> nat \<Rightarrow> string \<Rightarrow> string \<Rightarrow> string \<Rightarrow> GraphPatch option \<Rightarrow> string" where
  \<comment> \<open>the limit is \<open>maxToolSummaryChars\<close>; no caller gives an error text\<close>
  "compactToolObservationText wo maxChars toolName status summary patch =
     summarizePlainText (print_observation (buildToolObservationSummary wo toolName status summary patch '''')) maxChars"

definition maxToolSummaryChars :: "int \<Rightarrow> nat" where
  "maxToolSummaryChars configured = (if configured > 0 then nat configured else 1200)"

subsection \<open>What a note says\<close>

definition buildToolParameterHint :: "string \<Rightarrow> string" where
  \<comment> \<open>the schemas of the registry list the required members as strings\<close>
  "buildToolParameterHint toolName =
     (case GetTool toolName of
        None \<Rightarrow> ''''
      | Some def \<Rightarrow>
          (case tool_Parameters def of
             JObj m \<Rightarrow>
               (let required = stringSliceFromAny (member_of m ''required'') in
                if required = [] then ''''
                else utf8 [229, 143, 130, 230, 149, 176, 232, 166, 129, 230, 177, 130] @ '' required=['' @ Join required '','' @ '']''
                  @ (if EqualFold (TrimSpace toolName) ''add_gate'' then
                       utf8 [239, 188, 155, 232, 139, 165, 230, 157, 165, 230, 186, 144, 228, 186, 142] @
                       '' get_node_detail'' @ utf8 [239, 188, 140, 229, 143, 175, 229, 176, 134] @ '' childNodeIds '' @
                       utf8 [230, 152, 160, 229, 176, 132, 228, 184, 186] @ '' childIds''
                     else ''''))
           | _ \<Rightarrow> ''''))"

definition appendToolParameterHint :: "string \<Rightarrow> string \<Rightarrow> string" where
  "appendToolParameterHint toolName errMsg =
     (let hint = buildToolParameterHint toolName; base = TrimSpace errMsg in
      if hint = '''' then base else if base = '''' then hint else base @ semicolon @ hint)"

definition said_text :: "wording \<Rightarrow> call_text \<Rightarrow> string" where
  "said_text wo t = (case t of
      ErrorText (BadParameters toolName e) \<Rightarrow> appendToolParameterHint toolName (wo_text wo (ErrorText (GraphErr e)))
    | _ \<Rightarrow> wo_text wo t)"

definition auto_read_done :: string where
  "auto_read_done =
     utf8 [229, 183, 178, 232, 135, 170, 229, 138, 168, 232, 175, 187, 229, 143, 150, 229, 155, 190, 228, 184, 138, 228,
     184, 139, 230, 150, 135]"

definition note_body :: "wording \<Rightarrow> round_note \<Rightarrow> string" where
  "note_body wo n =
     (let t = TrimSpace (said_text wo (rn_Text n)) in
      if t \<noteq> '''' then t else if rn_Kind n = AutoReadNote then auto_read_done else rn_Tool n @ '': '' @ rn_Status n)"

definition summary_line :: "wording \<Rightarrow> nat \<Rightarrow> round_note \<Rightarrow> string" where
  "summary_line wo maxChars n =
     (let compact = (\<lambda>s. compactToolObservationText wo maxChars (rn_Tool n) (rn_Status n) s (rn_Patch n)) in
      case rn_Kind n of
        SaidNote \<Rightarrow> rn_Tool n @ '': '' @ said_text wo (rn_Text n)
      | AutoReadNote \<Rightarrow> compact (''auto_read_context: '' @ note_body wo n)
      | CallNote \<Rightarrow> compact (note_body wo n)
      | FollowUpNote \<Rightarrow> compact (rn_Tool n @ ''(auto): '' @ note_body wo n))"

definition note_error :: "wording \<Rightarrow> round_note \<Rightarrow> string" where
  "note_error wo n = (case (rn_Kind n, rn_Text n) of (SaidNote, ErrorText e) \<Rightarrow> said_text wo (ErrorText e) | _ \<Rightarrow> '''')"

definition tool_observation :: "wording \<Rightarrow> nat \<Rightarrow> round_note \<Rightarrow> ToolObservationSummary" where
  "tool_observation wo maxChars n =
     buildToolObservationSummary wo (rn_Tool n) (rn_Status n)
       (if rn_Kind n \<in> {SaidNote, AutoReadNote} then summary_line wo maxChars n else note_body wo n) (rn_Patch n) (note_error wo n)"

definition round_outcome :: "ToolObservationSummary \<Rightarrow> roundToolOutcome" where
  "round_outcome ob = \<lparr> ro_Tool = TrimSpace (ob_Tool ob), ro_Status = normalizeToolFinalStatus (ob_Status ob),
     ro_Summary = TrimSpace (ob_Summary ob), ro_Error = TrimSpace (ob_Error ob) \<rparr>"

definition parseRoundToolOutcomes :: "wording \<Rightarrow> nat \<Rightarrow> tool_result list \<Rightarrow> roundToolOutcome list" where
  "parseRoundToolOutcomes wo maxChars results = map (\<lambda>r. round_outcome (tool_observation wo maxChars (tr_Note r))) results"

subsection \<open>The memory of a run\<close>

record roundExecutionState =
  xs_goal :: string
  xs_knownFacts :: "string list"
  xs_recentActions :: "string list"
  xs_plan :: "executionPlan option"
  xs_replanCount :: nat
  xs_repairGuide :: "repairIssueEntry list"
  xs_readCount :: nat
  xs_mutationCount :: nat

definition newRoundExecutionState :: "string \<Rightarrow> roundExecutionState" where
  "newRoundExecutionState goal = \<lparr> xs_goal = TrimSpace goal, xs_knownFacts = [], xs_recentActions = [], xs_plan = None,
     xs_replanCount = 0, xs_repairGuide = [], xs_readCount = 0, xs_mutationCount = 0 \<rparr>"

definition SetPlan :: "executionPlan \<Rightarrow> roundExecutionState \<Rightarrow> roundExecutionState" where
  "SetPlan p s = s\<lparr>xs_plan := Some p\<rparr>"

definition CanReplan :: "roundExecutionState \<Rightarrow> bool" where
  "CanReplan s \<longleftrightarrow> xs_replanCount s < 2"

definition IncReplanCount :: "roundExecutionState \<Rightarrow> roundExecutionState" where
  "IncReplanCount s = s\<lparr>xs_replanCount := xs_replanCount s + 1\<rparr>"

definition clean_entry :: "repairIssueEntry \<Rightarrow> repairIssueEntry" where
  "clean_entry e = \<lparr> ri_Code = TrimSpace (ri_Code e), ri_NodeID = TrimSpace (ri_NodeID e), ri_Level = TrimSpace (ri_Level e),
     ri_Message = TrimSpace (ri_Message e),
     ri_Suggestion = (if TrimSpace (ri_Suggestion e) = '''' then repairSuggestionForCode (TrimSpace (ri_Code e)) else TrimSpace (ri_Suggestion e)) \<rparr>"

definition appendRepairGuideEntries :: "repairIssueEntry list \<Rightarrow> roundExecutionState \<Rightarrow> roundExecutionState" where
  "appendRepairGuideEntries entries s =
     (let key = (\<lambda>e. TrimSpace (ri_Code e) @ ''#'' @ TrimSpace (ri_NodeID e));
          seen = filter (\<lambda>k. k \<noteq> ''#'') (map key (xs_repairGuide s));
          all = xs_repairGuide s @ first_by issue_key seen (filter (\<lambda>e. ri_Code e \<noteq> '''') (map clean_entry entries)) in
      if entries = [] then s else s\<lparr>xs_repairGuide := drop (length all - 12) all\<rparr>)"

definition fallback_entries :: "payload \<Rightarrow> repairIssueEntry list" where
  "fallback_entries m =
     (let node = (case stringSliceFromAny (member_of m ''affectedNodeIds'') of [] \<Rightarrow> '''' | i # _ \<Rightarrow> TrimSpace i) in
      map (\<lambda>code. \<lparr> ri_Code = TrimSpace code, ri_NodeID = node, ri_Level = '''', ri_Message = '''',
                    ri_Suggestion = repairSuggestionForCode (TrimSpace code) \<rparr>)
        (stringSliceFromAny (member_of m ''issueCodes'')))"

definition parseRepairGuideFromSummary :: "wording \<Rightarrow> string \<Rightarrow> roundExecutionState \<Rightarrow> roundExecutionState" where
  "parseRepairGuideFromSummary wo summary s =
     (if TrimSpace summary = '''' then s
      else case struct_members (wo_decode wo (TrimSpace summary)) of
        None \<Rightarrow> s
      | Some m \<Rightarrow>
          if ToLower (TrimSpace (localAnyToString (member_of m ''tool''))) \<noteq> ''validate_fta_constraints'' then s
          else let entries = repairIssuesFromAny (member_of m ''issues'') 12 in
            appendRepairGuideEntries (if entries = [] then fallback_entries m else entries) s)"

definition summarizeToolCallAction :: "ToolCall \<Rightarrow> string" where
  "summarizeToolCallAction c =
     (if TrimSpace (call_Name c) = '''' then ''''
      else TrimSpace (call_Name c) @ '' '' @ limit_text (normalizeArgsHash (call_Arguments c)) 100)"

definition remember :: "string \<Rightarrow> string list \<Rightarrow> string list" where
  \<comment> \<open>the last twelve different ones; the set of those seen is always the set of those kept\<close>
  "remember x xs = (if x \<in> set xs then xs else if length xs \<ge> 12 then tl xs @ [x] else xs @ [x])"

definition record_fact :: "wording \<Rightarrow> string \<Rightarrow> roundExecutionState \<Rightarrow> roundExecutionState" where
  "record_fact wo summary s =
     (if TrimSpace summary = '''' then s
      else let s1 = parseRepairGuideFromSummary wo (TrimSpace summary) s in
        s1\<lparr>xs_knownFacts := remember (TrimSpace summary) (xs_knownFacts s1)\<rparr>)"

definition record_action :: "ToolCall \<Rightarrow> roundExecutionState \<Rightarrow> roundExecutionState" where
  "record_action c s =
     (let kind = classifyToolKind (call_Name c); action = summarizeToolCallAction c;
          s1 = (if kind \<in> {''read'', ''validate''} then s\<lparr>xs_readCount := xs_readCount s + 1\<rparr>
                else if kind = ''mutation'' then s\<lparr>xs_mutationCount := xs_mutationCount s + 1\<rparr> else s) in
      if action = '''' then s1 else s1\<lparr>xs_recentActions := remember action (xs_recentActions s1)\<rparr>)"

definition RecordRound :: "wording \<Rightarrow> string list \<Rightarrow> ToolCall list \<Rightarrow> roundExecutionState \<Rightarrow> roundExecutionState" where
  "RecordRound wo summaries calls s = fold record_action calls (fold (record_fact wo) summaries s)"

definition HasExcessiveReadWithoutMutation :: "roundExecutionState \<Rightarrow> bool" where
  "HasExcessiveReadWithoutMutation s \<longleftrightarrow> xs_readCount s \<ge> 3 \<and> xs_mutationCount s = 0"

end
