(* ===== verification/AgentHistory.thy ===== *)
theory AgentHistory
  imports Observations Conversations
begin

text \<open>
  The history of a conversation as the agent writes and reads it (\<open>internal/agent/engine.go\<close>): an
  assistant message with its tool calls and one message per tool result, stored as rows of the chat
  tables and turned back into messages for the next run. The column of the tool calls holds JSON: what it
  returns for a value written (\<open>jsonb\<close> drops white space, order and duplicate members) is an argument.
\<close>

subsection \<open>Messages of a round\<close>

definition cloneToolCallsForHistory :: "ToolCall list \<Rightarrow> ToolCall list" where
  "cloneToolCallsForHistory calls =
     map (\<lambda>c. \<lparr> call_ID = TrimSpace (call_ID c), call_Name = TrimSpace (call_Name c), call_Arguments = call_Arguments c \<rparr>) calls"

definition buildAssistantToolHistoryMessage :: "string \<Rightarrow> string \<Rightarrow> ToolCall list \<Rightarrow> ChatHistoryMessage option" where
  "buildAssistantToolHistoryMessage reply reasoning calls =
     (let m = \<lparr> h_Role = ''assistant'', h_Content = TrimSpace reply, h_ReasoningContent = TrimSpace reasoning,
            h_ToolCalls = cloneToolCallsForHistory calls, h_ToolCallID = '''' \<rparr> in
      if h_Content m = '''' \<and> h_ReasoningContent m = '''' \<and> h_ToolCalls m = [] then None else Some m)"

definition buildToolResultHistoryMessage :: "wording \<Rightarrow> nat \<Rightarrow> tool_result \<Rightarrow> ChatHistoryMessage" where
  "buildToolResultHistoryMessage wo maxChars r =
     \<lparr> h_Role = ''tool'', h_Content = print_observation (tool_observation wo maxChars (tr_Note r)), h_ReasoningContent = '''',
       h_ToolCalls = [], h_ToolCallID = TrimSpace (tr_ToolCallID r) \<rparr>"

definition round_history :: "wording \<Rightarrow> nat \<Rightarrow> string \<Rightarrow> string \<Rightarrow> ToolCall list \<Rightarrow> tool_result list \<Rightarrow> ChatHistoryMessage list" where
  "round_history wo maxChars reply reasoning calls results =
     (case buildAssistantToolHistoryMessage reply reasoning calls of None \<Rightarrow> [] | Some m \<Rightarrow> [m])
       @ map (buildToolResultHistoryMessage wo maxChars) results"

subsection \<open>Writing\<close>

definition stored_call :: "nat \<Rightarrow> ToolCall \<Rightarrow> json option" where
  \<comment> \<open>a call without a name is left out; one without an identifier is named after its place\<close>
  "stored_call i c =
     (let name = TrimSpace (call_Name c); cid = TrimSpace (call_ID c) in
      if name = '''' then None
      else Some (JObj [(''id'', JStr (if cid = '''' then ''history_call_'' @ show_nat (i + 1) else cid)), (''name'', JStr name),
                       (''arguments'', valid_or_empty (call_Arguments c))]))"

definition marshalToolCallsForStorage :: "ToolCall list \<Rightarrow> json option" where
  "marshalToolCallsForStorage calls =
     (let vs = List.map_filter (\<lambda>(i, c). stored_call i c) (enumerate 0 calls) in if vs = [] then None else Some (JArr vs))"

definition toPersistedAIChatMessage ::
    "(json \<Rightarrow> json) \<Rightarrow> chat_env \<Rightarrow> nat \<Rightarrow> string \<Rightarrow> int \<Rightarrow> ChatHistoryMessage \<Rightarrow> AIChatMessage option" where
  "toPersistedAIChatMessage jsonb env k conversationID createdAt h =
     (let role = ToLower (TrimSpace (h_Role h));
          row = (plain_row env k (TrimSpace conversationID) role (TrimSpace (h_Content h)))\<lparr>cm_CreatedAt := createdAt\<rparr> in
      if role = ''assistant'' then
        (let reasoning = TrimSpace (h_ReasoningContent h); calls = marshalToolCallsForStorage (h_ToolCalls h) in
         if cm_Content row = '''' \<and> reasoning = '''' \<and> calls = None then None
         else Some (row\<lparr>cm_ReasoningContent := (if reasoning = '''' then None else Some reasoning),
                        cm_ToolCalls := (case calls of None \<Rightarrow> RawEmpty | Some v \<Rightarrow> RawJson (jsonb v))\<rparr>))
      else if role = ''tool'' then
        (if TrimSpace (h_ToolCallID h) = '''' \<or> cm_Content row = '''' then None
         else Some (row\<lparr>cm_ToolCallID := Some (TrimSpace (h_ToolCallID h))\<rparr>))
      else None)"

fun persist_messages ::
    "(json \<Rightarrow> json) \<Rightarrow> chat_env \<Rightarrow> string \<Rightarrow> int \<Rightarrow> nat \<Rightarrow> ChatHistoryMessage list \<Rightarrow> chat_db \<Rightarrow> (chat_error + unit) \<times> chat_db" where
  \<comment> \<open>one millisecond apart; identifiers are drawn from \<open>k\<close> on\<close>
  "persist_messages jsonb env conversationID t k [] db = (ok, db)"
| "persist_messages jsonb env conversationID t k (h # hs) db =
     (case toPersistedAIChatMessage jsonb env k conversationID t h of
        None \<Rightarrow> persist_messages jsonb env conversationID (t + 1000000) (k + 1) hs db
      | Some m \<Rightarrow> (case MessageCreate env m db of
          (Inl e, db1) \<Rightarrow> (Inl e, db1)
        | (Inr _, db1) \<Rightarrow> persist_messages jsonb env conversationID (t + 1000000) (k + 1) hs db1))"

definition persistRoundHistoryMessages ::
    "(json \<Rightarrow> json) \<Rightarrow> chat_env \<Rightarrow> string \<Rightarrow> nat \<Rightarrow> ChatHistoryMessage list \<Rightarrow> chat_db \<Rightarrow> (chat_error + unit) \<times> chat_db" where
  "persistRoundHistoryMessages jsonb env conversationID k hs db =
     (if TrimSpace conversationID = '''' \<or> hs = [] then (ok, db)
      else persist_messages jsonb env (TrimSpace conversationID) (ce_now env k) k hs db)"

subsection \<open>Reading\<close>

fun dec_call :: "json \<Rightarrow> ToolCall option" where
  "dec_call (JObj m) =
     (case (dec_string '''' (field_vals ''id'' m), dec_string '''' (field_vals ''name'' m)) of
        (Some i, Some n) \<Rightarrow> Some \<lparr> call_ID = i, call_Name = n, call_Arguments = dec_raw RawEmpty (field_vals ''arguments'' m) \<rparr>
      | _ \<Rightarrow> None)"
| "dec_call JNull = Some \<lparr> call_ID = '''', call_Name = '''', call_Arguments = RawEmpty \<rparr>"
| "dec_call _ = None"

definition restored_call :: "nat \<Rightarrow> ToolCall \<Rightarrow> ToolCall option" where
  "restored_call i c =
     (let name = TrimSpace (call_Name c); cid = TrimSpace (call_ID c) in
      if name = '''' then None
      else Some \<lparr> call_ID = (if cid = '''' then ''history_call_'' @ show_nat (i + 1) else cid), call_Name = name,
                  call_Arguments = RawJson (valid_or_empty (call_Arguments c)) \<rparr>)"

definition parseToolCallsFromStorage :: "raw_message \<Rightarrow> ToolCall list" where
  "parseToolCallsFromStorage raw =
     (case raw of
        RawJson v \<Rightarrow>
          (case dec_slice dec_call [] [v] of
             None \<Rightarrow> []
           | Some calls \<Rightarrow> List.map_filter (\<lambda>(i, c). restored_call i c) (enumerate 0 calls))
      | _ \<Rightarrow> [])"

definition history_entry :: "AIChatMessage \<Rightarrow> ChatHistoryMessage option" where
  "history_entry m =
     (let role = ToLower (TrimSpace (cm_Role m)); content = TrimSpace (cm_Content m) in
      if role = ''user'' then (if content = '''' then None else Some (text_message role content))
      else if role = ''assistant'' then
        (let reasoning = (case cm_ReasoningContent m of None \<Rightarrow> '''' | Some r \<Rightarrow> TrimSpace r); calls = parseToolCallsFromStorage (cm_ToolCalls m) in
         if content = '''' \<and> reasoning = '''' \<and> calls = [] then None
         else Some ((text_message role content)\<lparr>h_ReasoningContent := reasoning, h_ToolCalls := calls\<rparr>))
      else if role = ''tool'' then
        (let cid = (case cm_ToolCallID m of None \<Rightarrow> '''' | Some i \<Rightarrow> TrimSpace i) in
         if content = '''' \<or> cid = '''' then None else Some ((text_message role content)\<lparr>h_ToolCallID := cid\<rparr>))
      else None)"

definition agent_history :: "AIChatMessage list \<Rightarrow> ChatHistoryMessage list" where
  "agent_history ms = List.map_filter history_entry ms"

end
