(* ===== verification/HistoryTheorems.thy ===== *)
theory HistoryTheorems
  imports AgentHistory ConversationTheorems "HOL-Library.Multiset"
begin

text \<open>
  What the next run of the agent reads of a round: the rows written for it come back as its messages,
  behind the older history.
\<close>

subsection \<open>The column of the tool calls\<close>

definition jsonb_ok :: "(json \<Rightarrow> json) \<Rightarrow> bool" where
  \<comment> \<open>strings and the order of arrays are kept; an object keeps its members when their names differ\<close>
  "jsonb_ok jsonb \<longleftrightarrow> (\<forall>s. jsonb (JStr s) = JStr s) \<and> (\<forall>vs. jsonb (JArr vs) = JArr (map jsonb vs)) \<and>
     (\<forall>m. distinct (map fst m) \<longrightarrow> (\<exists>m'. jsonb (JObj m) = JObj m' \<and> mset m' = mset (map (\<lambda>(k, v). (k, jsonb v)) m)))"

definition kept_calls :: "(json \<Rightarrow> json) \<Rightarrow> ToolCall list \<Rightarrow> ToolCall list" where
  "kept_calls jsonb calls = List.map_filter (\<lambda>(i, c).
     restored_call i (c\<lparr>call_Arguments := RawJson (jsonb (valid_or_empty (call_Arguments c)))\<rparr>)) (enumerate 0 calls)"

definition kept_message :: "(json \<Rightarrow> json) \<Rightarrow> ChatHistoryMessage \<Rightarrow> ChatHistoryMessage" where
  "kept_message jsonb h =
     (let role = ToLower (TrimSpace (h_Role h)) in
      if role = ''assistant''
      then \<lparr> h_Role = role, h_Content = TrimSpace (h_Content h), h_ReasoningContent = TrimSpace (h_ReasoningContent h),
             h_ToolCalls = kept_calls jsonb (h_ToolCalls h), h_ToolCallID = '''' \<rparr>
      else \<lparr> h_Role = role, h_Content = TrimSpace (h_Content h), h_ReasoningContent = '''', h_ToolCalls = [],
             h_ToolCallID = TrimSpace (h_ToolCallID h) \<rparr>)"

lemma field_vals_mset: "mset m = mset m' \<Longrightarrow> field_vals f m' = [v] \<Longrightarrow> field_vals f m = [v]"
proof -
  assume m: "mset m = mset m'" and f: "field_vals f m' = [v]"
  from m have "mset (field_vals f m) = mset (field_vals f m')" by (simp add: field_vals_def)
  with f show "field_vals f m = [v]" by (metis mset_single_iff_right)
qed

lemma call_keys: "EqualFold ''id'' ''id''" "EqualFold ''name'' ''name''" "EqualFold ''arguments'' ''arguments''"
  "\<not> EqualFold ''id'' ''name''" "\<not> EqualFold ''id'' ''arguments''" "\<not> EqualFold ''name'' ''id''" "\<not> EqualFold ''name'' ''arguments''"
  "\<not> EqualFold ''arguments'' ''id''" "\<not> EqualFold ''arguments'' ''name''"
  by code_simp+

lemma place_name: "TrimSpace (''history_call_'' @ show_nat n) = ''history_call_'' @ show_nat n"
proof (rule TrimSpace_plain_all)
  have l: "list_all plain_char ''history_call_''" by code_simp
  show "plain_char c" if "c \<in> set (''history_call_'' @ show_nat n)" for c
  proof (cases "c \<in> set (show_nat n)")
    case True
    then show ?thesis using show_nat_digits digit_char_plain by blast
  next
    case False
    with that l show ?thesis unfolding list_all_iff set_append by blast
  qed
qed simp

lemma dec_stored_call:
  assumes "jsonb_ok jsonb" and "stored_call i c = Some v"
  shows "\<exists>r. restored_call i (c\<lparr>call_Arguments := RawJson (jsonb (valid_or_empty (call_Arguments c)))\<rparr>) = Some r
     \<and> dec_call (jsonb v) = Some r \<and> restored_call j r = Some r"
proof -
  let ?id = "if TrimSpace (call_ID c) = '''' then ''history_call_'' @ show_nat (i + 1) else TrimSpace (call_ID c)"
  let ?m = "[(''id'', JStr ?id), (''name'', JStr (TrimSpace (call_Name c))), (''arguments'', valid_or_empty (call_Arguments c))]"
  let ?a = "jsonb (valid_or_empty (call_Arguments c))"
  have n: "TrimSpace (call_Name c) \<noteq> ''''" and v: "v = JObj ?m"
    using assms(2) by (auto simp: stored_call_def Let_def split: if_splits)
  have "distinct (map fst ?m)" by simp
  then obtain m' where m': "jsonb v = JObj m'" "mset m' = mset (map (\<lambda>(k, x). (k, jsonb x)) ?m)"
    using assms(1) unfolding v jsonb_ok_def by blast
  have s: "jsonb (JStr s) = JStr s" for s using assms(1) by (simp add: jsonb_ok_def)
  have f: "field_vals ''id'' m' = [JStr ?id]" "field_vals ''name'' m' = [JStr (TrimSpace (call_Name c))]" "field_vals ''arguments'' m' = [?a]"
    by (rule field_vals_mset [OF m'(2)], simp add: field_vals_def call_keys s)+
  have "TrimSpace ?id = ?id" "?id \<noteq> ''''" using place_name by simp_all
  then show ?thesis using n by (simp add: restored_call_def m'(1) f Let_def valid_or_empty_def)
qed

lemma dec_stored_calls:
  assumes "jsonb_ok jsonb"
  shows "dec_elems dec_call (map jsonb (List.map_filter (\<lambda>(i, c). stored_call i c) (enumerate k calls)))
      = Some (List.map_filter (\<lambda>(i, c). restored_call i (c\<lparr>call_Arguments := RawJson (jsonb (valid_or_empty (call_Arguments c)))\<rparr>)) (enumerate k calls))
    \<and> list_all (\<lambda>r. \<forall>j. restored_call j r = Some r)
        (List.map_filter (\<lambda>(i, c). restored_call i (c\<lparr>call_Arguments := RawJson (jsonb (valid_or_empty (call_Arguments c)))\<rparr>)) (enumerate k calls))"
proof (induction calls arbitrary: k)
  case (Cons c cs)
  show ?case
  proof (cases "stored_call k c")
    case None
    then have "restored_call k (c\<lparr>call_Arguments := RawJson (jsonb (valid_or_empty (call_Arguments c)))\<rparr>) = None"
      by (auto simp: stored_call_def restored_call_def Let_def split: if_splits)
    with None Cons show ?thesis by (simp add: List.map_filter_simps)
  next
    case (Some v)
    obtain r where r: "restored_call k (c\<lparr>call_Arguments := RawJson (jsonb (valid_or_empty (call_Arguments c)))\<rparr>) = Some r"
      "dec_call (jsonb v) = Some r" using dec_stored_call [OF assms Some] by blast
    have "restored_call j r = Some r" for j using dec_stored_call [OF assms Some, of j] r(1) by auto
    with Some r Cons show ?thesis by (simp add: List.map_filter_simps)
  qed
qed (simp add: List.map_filter_simps)

lemma restore_all: "list_all (\<lambda>r. \<forall>j. restored_call j r = Some r) rs \<Longrightarrow> List.map_filter (\<lambda>(i, c). restored_call i c) (enumerate k rs) = rs"
  by (induction rs arbitrary: k) (simp_all add: List.map_filter_simps)

lemma calls_come_back:
  assumes "jsonb_ok jsonb"
  shows "parseToolCallsFromStorage (case marshalToolCallsForStorage calls of None \<Rightarrow> RawEmpty | Some v \<Rightarrow> RawJson (jsonb v)) = kept_calls jsonb calls
    \<and> (marshalToolCallsForStorage calls = None \<longleftrightarrow> kept_calls jsonb calls = [])"
proof -
  let ?vs = "List.map_filter (\<lambda>(i, c). stored_call i c) (enumerate 0 calls)"
  note d = dec_stored_calls [OF assms, of 0 calls, folded kept_calls_def]
  have len: "length ?vs = length (kept_calls jsonb calls)"
  proof -
    have "dec_elems f ws = Some us \<Longrightarrow> length us = length ws" for f :: "json \<Rightarrow> ToolCall option" and ws us
      by (induction ws arbitrary: us) (auto split: option.splits)
    from this [OF conjunct1 [OF d]] show ?thesis by simp
  qed
  have arr: "jsonb (JArr vs) = JArr (map jsonb vs)" for vs using assms by (simp add: jsonb_ok_def)
  show ?thesis
  proof (cases "?vs = []")
    case True
    then show ?thesis using len by (simp add: marshalToolCallsForStorage_def parseToolCallsFromStorage_def)
  next
    case False
    then have "kept_calls jsonb calls \<noteq> []" using len by auto
    then show ?thesis using False d restore_all [of "kept_calls jsonb calls" 0]
      by (simp add: marshalToolCallsForStorage_def parseToolCallsFromStorage_def Let_def arr)
  qed
qed

subsection \<open>Messages\<close>

lemma roles: "ToLower (TrimSpace ''assistant'') = ''assistant''" "ToLower (TrimSpace ''tool'') = ''tool''"
  by code_simp+

lemma message_comes_back:
  assumes "jsonb_ok jsonb" and "toPersistedAIChatMessage jsonb env k cid t h = Some m"
  shows "history_entry m = Some (kept_message jsonb h) \<and> cm_CreatedAt m = t \<and> cm_ConversationID m = TrimSpace cid
    \<and> history_entry (m\<lparr>cm_CreatedAt := u\<rparr>) = Some (kept_message jsonb h)"
proof -
  let ?r = "ToLower (TrimSpace (h_Role h))"
  consider "?r = ''assistant''" | "?r = ''tool''"
    using assms(2) by (auto simp: toPersistedAIChatMessage_def Let_def split: if_splits)
  then show ?thesis
  proof cases
    case 1
    with assms(2) calls_come_back [OF assms(1), of "h_ToolCalls h"] show ?thesis
      by (auto simp: toPersistedAIChatMessage_def history_entry_def kept_message_def text_message_def plain_row_def Let_def roles
          split: if_splits)
  next
    case 2
    with assms(2) show ?thesis
      by (auto simp: toPersistedAIChatMessage_def history_entry_def kept_message_def text_message_def plain_row_def Let_def roles
          split: if_splits)
  qed
qed

definition written :: "ChatHistoryMessage \<Rightarrow> bool" where
  \<comment> \<open>the messages of which a row is made\<close>
  "written h \<longleftrightarrow> (let role = ToLower (TrimSpace (h_Role h)) in
     role = ''assistant'' \<and> (TrimSpace (h_Content h) \<noteq> '''' \<or> TrimSpace (h_ReasoningContent h) \<noteq> '''' \<or> marshalToolCallsForStorage (h_ToolCalls h) \<noteq> None)
     \<or> role = ''tool'' \<and> TrimSpace (h_ToolCallID h) \<noteq> '''' \<and> TrimSpace (h_Content h) \<noteq> '''')"

lemma written_iff: "toPersistedAIChatMessage jsonb env k cid t h = None \<longleftrightarrow> \<not> written h"
  by (auto simp: toPersistedAIChatMessage_def written_def plain_row_def Let_def)

lemma stored_time_step: "stored_time (t + 1000000) = stored_time t + 1000000"
  using mod_mult_self1 [of t 1000 1000] by (simp add: stored_time_def)

lemma persisted_rows:
  assumes "jsonb_ok jsonb"
  shows "persist_messages jsonb env cid t k hs db = (Inr u, db') \<Longrightarrow>
    \<exists>rows. ch_messages db' = ch_messages db @ rows \<and> agent_history rows = map (kept_message jsonb) (filter written hs)
      \<and> length rows = length (filter written hs) \<and> list_all (\<lambda>m. cm_ConversationID m = TrimSpace cid \<and> stored_time t \<le> cm_CreatedAt m) rows
      \<and> sorted_wrt (\<lambda>a b. cm_CreatedAt a < cm_CreatedAt b) rows"
proof (induction hs arbitrary: t k db)
  case (Cons h hs)
  show ?case
  proof (cases "toPersistedAIChatMessage jsonb env k cid t h")
    case None
    then have "persist_messages jsonb env cid (t + 1000000) (k + 1) hs db = (Inr u, db')" using Cons.prems by simp
    from Cons.IH [OF this] obtain rows where rows: "ch_messages db' = ch_messages db @ rows"
      "agent_history rows = map (kept_message jsonb) (filter written hs)" "length rows = length (filter written hs)"
      "list_all (\<lambda>m. cm_ConversationID m = TrimSpace cid \<and> stored_time (t + 1000000) \<le> cm_CreatedAt m) rows"
      "sorted_wrt (\<lambda>a b. cm_CreatedAt a < cm_CreatedAt b) rows" by blast
    have "\<not> written h" using None written_iff by blast
    then show ?thesis using rows by (intro exI [of _ rows]) (auto simp: stored_time_step list_all_iff)
  next
    case (Some m)
    then obtain db1 where db1: "MessageCreate env m db = (Inr (), db1)" "persist_messages jsonb env cid (t + 1000000) (k + 1) hs db1 = (Inr u, db')"
      using Cons.prems by (auto split: prod.splits sum.splits)
    then have add: "ch_messages db1 = ch_messages db @ [m\<lparr>cm_CreatedAt := stored_time (cm_CreatedAt m)\<rparr>]"
      by (auto simp: MessageCreate_def split: if_splits)
    note ret = message_comes_back [OF assms Some]
    obtain rows where rows: "ch_messages db' = ch_messages db1 @ rows" "agent_history rows = map (kept_message jsonb) (filter written hs)"
      "length rows = length (filter written hs)"
      "list_all (\<lambda>m. cm_ConversationID m = TrimSpace cid \<and> stored_time (t + 1000000) \<le> cm_CreatedAt m) rows"
      "sorted_wrt (\<lambda>a b. cm_CreatedAt a < cm_CreatedAt b) rows" using Cons.IH [OF db1(2)] by blast
    let ?m = "m\<lparr>cm_CreatedAt := stored_time t\<rparr>"
    have "written h" using written_iff [of jsonb env k cid t h] Some by simp
    moreover have "agent_history (?m # rows) = kept_message jsonb h # agent_history rows"
      using ret by (simp add: agent_history_def List.map_filter_simps)
    ultimately show ?thesis using rows ret add
      by (intro exI [of _ "?m # rows"]) (auto simp: stored_time_step list_all_iff)
  qed
qed (auto simp: agent_history_def List.map_filter_simps)

subsection \<open>The recent history\<close>

lemma sort_key_append:
  assumes "sorted (map f ys)" and "\<And>x y. x \<in> set xs \<Longrightarrow> y \<in> set ys \<Longrightarrow> f x < f y"
  shows "sort_key f (xs @ ys) = sort_key f xs @ ys"
proof (rule properties_for_sort_key)
  show "mset (sort_key f xs @ ys) = mset (xs @ ys)" by simp
  show "filter (\<lambda>x. f k = f x) (sort_key f xs @ ys) = filter (\<lambda>x. f k = f x) (xs @ ys)" for k
  proof -
    have "(\<lambda>x. f k = f x) = (\<lambda>x. f x = f k)" by auto
    then show ?thesis by (simp only: filter_append sort_key_stable)
  qed
  show "sorted (map f (sort_key f xs @ ys))" using assms by (auto simp: sorted_append less_imp_le)
qed

lemma recent_rows: "ListRecentByConversation cid n db = (let xs = sort_key (\<lambda>m. (cm_CreatedAt m, cm_ID m))
    (filter (\<lambda>m. cm_ConversationID m = TrimSpace cid) (ch_messages db)) in drop (length xs - n) xs)"
  by (simp add: ListRecentByConversation_def newest_first_def rev_take Let_def)

lemma drop_past: "l = length xs \<Longrightarrow> drop (l + r - n) xs = drop (l - (n - r)) xs"
  by (cases "r \<le> n") simp_all

lemma agent_history_append: "agent_history (xs @ ys) = agent_history xs @ agent_history ys"
  by (simp add: agent_history_def List.map_filter_def)

lemma history_drop:
  assumes "length (agent_history rows) = length rows"
  shows "agent_history (drop k rows) = drop k (agent_history rows)"
  using assms
proof (induction rows arbitrary: k)
  case (Cons m rows)
  have le: "length (agent_history rows) \<le> length rows" for rows
    by (induction rows) (simp_all add: agent_history_def List.map_filter_simps le_SucI split: option.split)
  have "length (agent_history rows) = length rows \<and> (\<exists>h. agent_history (m # rows) = h # agent_history rows)"
    using Cons.prems le [of rows] by (auto simp: agent_history_def List.map_filter_simps split: option.splits)
  then show ?case using Cons.IH by (cases k) auto
qed (simp add: agent_history_def List.map_filter_simps)

text \<open>C28: What a round leaves in the conversation is what the next run reads: after the messages of a round are
  written, the recent history of n rows is the older one, as far as it still fits, followed by the messages of the
  round that are not empty, in their order (the last n of them, when the round wrote more), each tool call with its name, its
  identifier (its place when it had none) and its arguments as the column keeps them, provided the older messages are
  older than the clock at the round.\<close>

theorem round_history_restored:
  assumes "jsonb_ok jsonb" and "persistRoundHistoryMessages jsonb env cid k hs db = (Inr u, db')"
    and "TrimSpace cid \<noteq> ''''"
    and "list_all (\<lambda>m. cm_ConversationID m = TrimSpace cid \<longrightarrow> cm_CreatedAt m < stored_time (ce_now env k)) (ch_messages db)"
  shows "agent_history (ListRecentByConversation cid n db') =
    agent_history (ListRecentByConversation cid (n - length (filter written hs)) db)
      @ map (kept_message jsonb) (drop (length (filter written hs) - n) (filter written hs))"
proof -
  have "hs = [] \<Longrightarrow> db' = db" using assms(2) by (auto simp: persistRoundHistoryMessages_def)
  moreover have "persist_messages jsonb env (TrimSpace cid) (ce_now env k) k hs db = (Inr u, db')" if "hs \<noteq> []"
    using that assms(2,3) by (simp add: persistRoundHistoryMessages_def)
  ultimately have p: "persist_messages jsonb env (TrimSpace cid) (ce_now env k) k hs db = (Inr u, db')"
    by (cases hs) auto
  obtain rows where rows: "ch_messages db' = ch_messages db @ rows" "agent_history rows = map (kept_message jsonb) (filter written hs)"
    "length rows = length (filter written hs)"
    "list_all (\<lambda>m. cm_ConversationID m = TrimSpace cid \<and> stored_time (ce_now env k) \<le> cm_CreatedAt m) rows"
    "sorted_wrt (\<lambda>a b. cm_CreatedAt a < cm_CreatedAt b) rows"
    using persisted_rows [OF assms(1) p] by auto
  let ?key = "\<lambda>m. (cm_CreatedAt m, cm_ID m)" and ?P = "\<lambda>m. cm_ConversationID m = TrimSpace cid"
  have "sorted_wrt (\<lambda>a b. ?key a \<le> ?key b) rows" using rows(5) by (rule sorted_wrt_mono_rel [rotated]) auto
  then have s: "sorted (map ?key rows)" by (simp add: sorted_map)
  have f: "filter ?P rows = rows" using rows(4) by (simp add: list_all_iff filter_id_conv)
  have "sort_key ?key (filter ?P (ch_messages db')) = sort_key ?key (filter ?P (ch_messages db)) @ rows"
    unfolding rows(1) filter_append f
    by (rule sort_key_append [OF s]) (use rows(4) assms(4) in \<open>fastforce simp: list_all_iff\<close>)
  then have "ListRecentByConversation cid n db' = ListRecentByConversation cid (n - length rows) db @ drop (length rows - n) rows"
    by (simp add: recent_rows Let_def drop_past)
  moreover have "agent_history (drop (length rows - n) rows) = drop (length rows - n) (agent_history rows)"
    by (rule history_drop) (simp add: rows(2,3))
  ultimately show ?thesis by (simp add: agent_history_append rows(2,3) drop_map)
qed

definition ex_messages :: "ChatHistoryMessage list" where
  "ex_messages = [
     \<lparr> h_Role = ''assistant'', h_Content = ''I look.'', h_ReasoningContent = '''', h_ToolCalls = [\<lparr> call_ID = '''', call_Name = ''get_subtree'', call_Arguments = RawEmpty \<rparr>],
       h_ToolCallID = '''' \<rparr>,
     \<lparr> h_Role = ''tool'', h_Content = ''{}'', h_ReasoningContent = '''', h_ToolCalls = [], h_ToolCallID = ''c1'' \<rparr>]"

theorem round_history_restored_witness:
  "\<exists>db'. persistRoundHistoryMessages (\<lambda>v. v) ex_chat_env ''c'' 0 ex_messages ex_chat = (Inr (), db')
    \<and> agent_history (ListRecentByConversation ''c'' 20 db') =
        agent_history (ListRecentByConversation ''c'' 18 ex_chat) @ map (kept_message (\<lambda>v. v)) ex_messages"
proof -
  have w: "filter written ex_messages = ex_messages" by code_simp
  have "fst (persistRoundHistoryMessages (\<lambda>v. v) ex_chat_env ''c'' 0 ex_messages ex_chat) = Inr ()" by code_simp
  then obtain db' where p: "persistRoundHistoryMessages (\<lambda>v. v) ex_chat_env ''c'' 0 ex_messages ex_chat = (Inr (), db')"
    by (metis prod.collapse)
  have "agent_history (ListRecentByConversation ''c'' 20 db') =
      agent_history (ListRecentByConversation ''c'' (20 - length (filter written ex_messages)) ex_chat)
        @ map (kept_message (\<lambda>v. v)) (drop (length (filter written ex_messages) - 20) (filter written ex_messages))"
  proof (rule round_history_restored [OF _ p])
    show "jsonb_ok (\<lambda>v. v)" by (simp add: jsonb_ok_def)
    show "TrimSpace ''c'' \<noteq> ''''" by code_simp
    show "list_all (\<lambda>m. cm_ConversationID m = TrimSpace ''c'' \<longrightarrow> cm_CreatedAt m < stored_time (ce_now ex_chat_env 0)) (ch_messages ex_chat)"
      by code_simp
  qed
  with p show ?thesis unfolding w by (simp add: ex_messages_def)
qed

end
