(* ===== verification/AgentRun.thy ===== *)
theory AgentRun
  imports AgentHistory
begin

text \<open>
  A run of the agent (\<open>RunStream\<close> in \<open>internal/agent/engine.go\<close>): from the message of the user to the stored
  answer, round by round. The language model is an argument (\<open>model_service\<close>); it is asked with the number of
  the round, so that it may answer a repeated question differently. Prompts are constructors with what they
  show, and the settings that every request repeats (the version of the prompt, the threshold of the full
  context, the fallback parser) are left out; of a thinking event the phase and the round are kept. The loop need not end (without a limit, or when the
  user keeps continuing): it is a partial function, and \<open>None\<close> is a run that does not return. A session is
  the one of the world, and the service has its runtime table and its safety controller.
\<close>

subsection \<open>The model and its questions\<close>

datatype constraint_line = ReadOnlyLine | SnapshotLine "int option" | FocusLine "string list"

datatype prompt =
    UserPrompt "constraint_line list" string
  | ContinuationPrompt string int "string list" "constraint_line list" roundExecutionState
  | PlannerPrompt string string string bool "failedAttempt list"

record AgentChatRequest =
  aq_ContextData :: chat_context
  aq_GraphType :: string
  aq_Message :: prompt
  aq_Model :: string
  aq_History :: "ChatHistoryMessage list"
  aq_Tools :: "OAIToolDef list"
  aq_ToolChoice :: string
  aq_ToolGuide :: string
  aq_ReadOnly :: bool
  aq_Temperature :: rat

record AgentChatResponse =
  ar_Reply :: string
  ar_ReasoningContent :: string
  ar_ToolCalls :: "ToolCall list"
  ar_TokensUsed :: int
  ar_ModelUsed :: string

record model_turn =
  mt_Reply :: string
  mt_Reasoning :: string
  mt_ToolCalls :: "ToolCall list"
  mt_Tokens :: int
  mt_ModelUsed :: string
  mt_Error :: "(bool \<times> string) option"

record model_service =
  ms_stream :: "AgentChatRequest \<Rightarrow> string list \<times> model_turn"
  ms_chat :: "int \<Rightarrow> AgentChatRequest \<Rightarrow> (bool \<times> string) + AgentChatResponse option"

subsection \<open>A run\<close>

record graph_snapshot =
  \<comment> \<open>what the two decoders read in the text\<close>
  gs_tree :: "(FaultTreeNode list \<times> FaultTreeEdge list) option"
  gs_knowledge :: "(KnowledgeGraphNode list \<times> KnowledgeGraphEdge list) option"

record AgentRunInput =
  in_ConversationID :: string
  in_UserID :: string
  in_Message :: string
  in_Model :: string
  in_GraphSnapshot :: "graph_snapshot option"
  in_ClientRevision :: "int option"
  in_ReadOnly :: bool
  in_MaxToolRounds :: int
  in_FocusNodeIDs :: "string list"
  in_SelectedNodeIDs :: "string list"

record AgentRunOutput =
  out_ConversationID :: string
  out_SessionID :: string
  out_UserMessageID :: string
  out_AssistantMessageID :: string
  out_TokensUsed :: int
  out_ModelUsed :: string
  out_ServerOps :: nat
  out_ClientOps :: nat
  out_HybridOps :: nat

record run_env =
  re_agent :: agent_env
  re_chat :: chat_env
  re_wording :: wording
  re_jsonb :: "json \<Rightarrow> json"
  re_Enabled :: bool
  re_EnablePlannerPhase :: bool
  re_IncludeHybridTools :: bool
  re_AgentModel :: string
  re_MaxToolSummaryChars :: int
  re_tree :: "string \<Rightarrow> db \<Rightarrow> graph_error + FaultTreeNode list \<times> FaultTreeEdge list \<times> int"
  re_knowledge :: "string \<Rightarrow> db \<Rightarrow> graph_error + KnowledgeGraphNode list \<times> KnowledgeGraphEdge list \<times> int"
  re_ended :: "agent_store \<Rightarrow> bool"

record run_setup =
  su_input :: AgentRunInput
  su_conversation :: AIConversation
  su_message :: string
  su_model :: string
  su_tools :: "ToolDefinition list"
  su_prefix :: "constraint_line list"
  su_userMessageID :: string

record run_state =
  ru_world :: agent_world
  ru_chat :: chat_db
  ru_context :: chat_context
  ru_message :: prompt
  ru_history :: "ChatHistoryMessage list"
  ru_exec :: roundExecutionState
  ru_limit :: int
  ru_reply :: string
  ru_reasoning :: string
  ru_modelUsed :: string
  ru_summaries :: "string list"

datatype run_exit = Break "run_error option" | Return run_error

definition think :: "string \<Rightarrow> int \<Rightarrow> agent_world \<Rightarrow> agent_world" where
  "think phase n w = emit (ThinkingEvent phase n) w"

definition in_world :: "(agent_world \<Rightarrow> agent_world) \<Rightarrow> run_state \<Rightarrow> run_state" where
  "in_world f st = st\<lparr>ru_world := f (ru_world st)\<rparr>"

definition summary_limit :: "run_env \<Rightarrow> nat" where
  "summary_limit env = maxToolSummaryChars (re_MaxToolSummaryChars env)"

definition resolveAgentModel :: "string \<Rightarrow> string \<Rightarrow> string" where
  "resolveAgentModel configured inputModel = (if TrimSpace inputModel \<noteq> '''' then TrimSpace inputModel else TrimSpace configured)"

definition toolPlanningTemperature :: "int \<Rightarrow> bool \<Rightarrow> rat" where
  "toolPlanningTemperature n hasTools = (if n = 0 \<and> hasTools then 1 / 10 else 3 / 10)"

definition shouldEmitFirstRoundContent :: "int \<Rightarrow> bool \<Rightarrow> ToolCall list \<Rightarrow> string \<Rightarrow> bool" where
  "shouldEmitFirstRoundContent n failed calls reply \<longleftrightarrow> n = 0 \<and> \<not> failed \<and> calls = [] \<and> TrimSpace reply \<noteq> ''''"

definition isTerminalSessionState :: "string \<Rightarrow> bool" where
  "isTerminalSessionState state \<longleftrightarrow> TrimSpace state \<in> {StateDone, StateCancelled, ''failed'', ''timeout''}"

definition focus_lines :: "string list \<Rightarrow> string list \<Rightarrow> constraint_line list" where
  "focus_lines focus selected =
     (let ids = uniqueStrings (focus @ selected) in if ids = [] then [] else [FocusLine (limitStrings ids 20)])"

definition buildMessageConstraintPrefix :: "bool \<Rightarrow> bool \<Rightarrow> int option \<Rightarrow> constraint_line list \<Rightarrow> constraint_line list" where
  "buildMessageConstraintPrefix readOnly fromClient clientRevision focus =
     (if readOnly then [ReadOnlyLine] else []) @ (if fromClient then [SnapshotLine clientRevision] else []) @ focus"

definition load_context :: "run_env \<Rightarrow> AIConversation \<Rightarrow> agent_world \<Rightarrow> run_error + chat_context \<times> int" where
  "load_context env c w =
     (if cv_Type c = AssistantTypeFaultTree
        then (case re_tree env (cv_ProjectID c) (aw_db w) of Inl e \<Rightarrow> Inl (GraphErr e) | Inr (ns, es, r) \<Rightarrow> Inr (TreeContext ns es, r))
      else if cv_Type c = AssistantTypeKnowledgeGraph
        then (case re_knowledge env (cv_ProjectID c) (aw_db w) of Inl e \<Rightarrow> Inl (GraphErr e) | Inr (ns, es, r) \<Rightarrow> Inr (KnowledgeContext ns es, r))
      else Inl (UnsupportedConversationType (cv_Type c)))"

subsection \<open>Planning\<close>

definition planner_request :: "run_setup \<Rightarrow> failedAttempt list \<Rightarrow> run_state \<Rightarrow> AgentChatRequest" where
  "planner_request su failures st =
     (let c = su_conversation su; readOnly = in_ReadOnly (su_input su); guide = BuildToolPromptGuide (su_tools su) in
      \<lparr> aq_ContextData = ru_context st, aq_GraphType = cv_Type c, aq_Message = PlannerPrompt (su_message su) guide (cv_Type c) readOnly failures,
        aq_Model = TrimSpace (su_model su), aq_History = ru_history st, aq_Tools = [], aq_ToolChoice = ''none'',
        aq_ToolGuide = TrimSpace guide, aq_ReadOnly = readOnly, aq_Temperature = 1 / 20 \<rparr>)"

definition make_plan :: "run_env \<Rightarrow> model_service \<Rightarrow> run_setup \<Rightarrow> int \<Rightarrow> failedAttempt list \<Rightarrow> run_state \<Rightarrow> planner_error + executionPlan" where
  "make_plan env svc su n failures st =
     runPlannerPhase (wo_decode (re_wording env))
       (case ms_chat svc n (planner_request su failures st) of
          Inl (_, e) \<Rightarrow> Inl e | Inr r \<Rightarrow> Inr (map_option (\<lambda>r. (ar_Reply r, ar_ReasoningContent r)) r))
       (su_message su) (in_ReadOnly (su_input su)) (BuildToolPromptGuide (su_tools su))"

definition set_plan ::
    "run_env \<Rightarrow> model_service \<Rightarrow> run_setup \<Rightarrow> int \<Rightarrow> int \<Rightarrow> string \<Rightarrow> string \<Rightarrow> failedAttempt list \<Rightarrow> run_state \<Rightarrow> run_state" where
  \<comment> \<open>the plan of the model, or the default one\<close>
  "set_plan env svc su asked n fallbackPhase readyPhase failures st =
     (let r = make_plan env svc su asked failures st;
          p = (case r of Inl _ \<Rightarrow> buildFallbackExecutionPlan (su_message su) (in_ReadOnly (su_input su)) | Inr p \<Rightarrow> p) in
      in_world (\<lambda>w. think readyPhase n (case r of Inl _ \<Rightarrow> think fallbackPhase n w | Inr _ \<Rightarrow> w)) (st\<lparr>ru_exec := SetPlan p (ru_exec st)\<rparr>))"

definition follow_plan ::
    "run_env \<Rightarrow> model_service \<Rightarrow> run_setup \<Rightarrow> int \<Rightarrow> string list \<Rightarrow> ToolCall list \<Rightarrow> tool_result list \<Rightarrow> run_state \<Rightarrow> run_state" where
  "follow_plan env svc su n summaries calls results st =
     (case xs_plan (ru_exec st) of
        None \<Rightarrow> st
      | Some p0 \<Rightarrow>
          (case updatePlanAfterRound p0 (n + 1) summaries calls (parseRoundToolOutcomes (re_wording env) (summary_limit env) results) of
             (p, completed, blocked) \<Rightarrow>
               let st1 = in_world (\<lambda>w. if completed = None then w else think ''plan_step_done'' (n + 1) w) (st\<lparr>ru_exec := SetPlan p (ru_exec st)\<rparr>);
                   st2 = in_world (think ''plan_blocked'' (n + 1)) st1 in
               if blocked = None then st1
               else if \<not> CanReplan (ru_exec st2) then st2
               else set_plan env svc su (n + 1) (n + 1) ''replanning_fallback'' ''replan_ready'' (collectAllFailures p)
                      (in_world (think ''replanning'' (n + 1)) (st2\<lparr>ru_exec := IncReplanCount (ru_exec st2)\<rparr>))))"

subsection \<open>The limit of the rounds\<close>

definition int_plus :: "int \<Rightarrow> int \<Rightarrow> int" where
  \<comment> \<open>\<open>+\<close> on \<open>int\<close> of 64 bits, which wraps\<close>
  "int_plus a b = (a + b + 2 ^ 63) mod 2 ^ 64 - 2 ^ 63"

definition requestIterationContinuation ::
    "agent_env \<Rightarrow> int \<Rightarrow> int \<Rightarrow> agent_world \<Rightarrow> (run_error + int option) \<times> agent_world" where
  "requestIterationContinuation env n roundLimit w =
     (let callID = ''iter_limit_'' @ show_int roundLimit @ ''_'' @ show_int n;
          w1 = on_session (\<lambda>s. SetState StatePausedForConfirm (SetPending callID ''iteration_limit'' RawEmpty s)) w;
          w2 = emit (IterationLimitReached callID n roundLimit)
                 (upsertRuntimePending env callID ''iteration_limit'' (tier_text TierServer) RawEmpty None ''iteration'' (ae_ConfirmTimeout env) w1);
          resume = on_session (\<lambda>s. SetState StateRunning (ClearPending s)) in
      case await_signal env w2 of
        (Inl e, w3) \<Rightarrow>
          if e = ErrContextDone \<and> \<not> ae_deadline env \<and> se_state (aw_session w3) = StatePausedForConfirm
          then (Inl (WaitErr e), markRuntimeWaitStatus env ''waiting'' w3)
          else (Inl (WaitErr e), resume (clearRuntimePending env (if e = ErrSessionConfirmTimeout then ''timeout'' else ''rejected'') w3))
      | (Inr sg, w3) \<Rightarrow>
          if \<not> cs_Approved sg
          then (Inr None, emit (IterationStopped callID n roundLimit) (clearRuntimePending env ''rejected'' (resume w3)))
          else let extra = (if cs_ContinueRounds sg \<le> 0 then 1 else cs_ContinueRounds sg) in
            (Inr (Some extra), emit (IterationResumed callID n extra (int_plus roundLimit extra)) (clearRuntimePending env ''approved'' (resume w3))))"

definition stopped_text :: "int \<Rightarrow> string" where
  "stopped_text roundLimit =
     utf8 [232, 190, 190, 229, 136, 176, 230, 156, 128, 229, 164, 167, 232, 191, 173, 228, 187, 163, 232, 189, 174, 230,
     172, 161] @ '' '' @ show_int roundLimit @ utf8 [239, 188, 140, 229, 183, 178, 229, 129, 156, 230, 173, 162, 231, 187,
     167, 231, 187, 173, 232, 191, 173, 228, 187, 163]"

definition limit_gate :: "run_env \<Rightarrow> int \<Rightarrow> run_state \<Rightarrow> run_exit option \<times> run_state" where
  "limit_gate env n st =
     (if \<not> (ru_limit st > 0 \<and> n \<ge> ru_limit st) then (None, st)
      else case requestIterationContinuation (re_agent env) n (ru_limit st) (think ''round_limit_reached'' (n + 1) (ru_world st)) of
        (Inl e, w) \<Rightarrow> (Some (Break (Some e)), st\<lparr>ru_world := w\<rparr>)
      | (Inr None, w) \<Rightarrow>
          (Some (Break None), st\<lparr>ru_world := think ''round_stopped'' (n + 1) w, ru_summaries := ru_summaries st @ [stopped_text (ru_limit st)]\<rparr>)
      | (Inr (Some extra), w) \<Rightarrow> (None, st\<lparr>ru_world := think ''round_resumed'' (n + 1) w, ru_limit := int_plus (ru_limit st) extra\<rparr>))"

subsection \<open>One round\<close>

definition round_request :: "run_env \<Rightarrow> run_setup \<Rightarrow> int \<Rightarrow> run_state \<Rightarrow> AgentChatRequest" where
  "round_request env su n st =
     \<lparr> aq_ContextData = ru_context st, aq_GraphType = cv_Type (su_conversation su), aq_Message = ru_message st, aq_Model = su_model su,
       aq_History = ru_history st, aq_Tools = ToOAITools (su_tools su), aq_ToolChoice = ''auto'',
       aq_ToolGuide = BuildToolPromptGuide (su_tools su), aq_ReadOnly = in_ReadOnly (su_input su),
       aq_Temperature = toolPlanningTemperature n (su_tools su \<noteq> []) \<rparr>"

definition silent_turn :: model_turn where
  "silent_turn = \<lparr> mt_Reply = '''', mt_Reasoning = '''', mt_ToolCalls = [], mt_Tokens = 0, mt_ModelUsed = '''', mt_Error = None \<rparr>"

definition ask_model :: "model_service \<Rightarrow> int \<Rightarrow> AgentChatRequest \<Rightarrow> model_turn" where
  \<comment> \<open>the first round streams\<close>
  "ask_model svc n rq =
     (if n = 0
      then (case ms_stream svc rq of (chunks, t) \<Rightarrow>
              if TrimSpace (mt_Reply t) = '''' then t\<lparr>mt_Reply := TrimSpace (concat chunks)\<rparr> else t)
      else case ms_chat svc n rq of
        Inl e \<Rightarrow> silent_turn\<lparr>mt_Error := Some e\<rparr>
      | Inr None \<Rightarrow> silent_turn
      | Inr (Some r) \<Rightarrow> \<lparr> mt_Reply = TrimSpace (ar_Reply r), mt_Reasoning = TrimSpace (ar_ReasoningContent r), mt_ToolCalls = ar_ToolCalls r,
                          mt_Tokens = ar_TokensUsed r, mt_ModelUsed = TrimSpace (ar_ModelUsed r), mt_Error = None \<rparr>)"

definition note_turn :: "int \<Rightarrow> model_turn \<Rightarrow> run_state \<Rightarrow> run_state" where
  "note_turn n t st =
     (let shown = (if n = 0 then shouldEmitFirstRoundContent n (mt_Error t \<noteq> None) (mt_ToolCalls t) (mt_Reply t) else mt_Reply t \<noteq> '''');
          w1 = (if shown then emit (ContentEvent (mt_Reply t)) (ru_world st) else ru_world st) in
      st\<lparr>ru_world := on_session (AddTokens (mt_Tokens t)) w1,
         ru_modelUsed := (if mt_ModelUsed t \<noteq> '''' then mt_ModelUsed t else ru_modelUsed st),
         ru_reply := (if TrimSpace (mt_Reply t) \<noteq> '''' then TrimSpace (mt_Reply t) else ru_reply st),
         ru_reasoning := (if TrimSpace (mt_Reasoning t) \<noteq> '''' then TrimSpace (mt_Reasoning t) else ru_reasoning st)\<rparr>)"

definition refresh_context :: "run_env \<Rightarrow> run_setup \<Rightarrow> run_state \<Rightarrow> run_state" where
  "refresh_context env su st =
     (let c = su_conversation su in
      case (aw_snapshot (ru_world st), cv_Type c = AssistantTypeFaultTree) of
        (Some (ns, es, _), True) \<Rightarrow> st\<lparr>ru_context := TreeContext ns es\<rparr>
      | _ \<Rightarrow> (case load_context env c (ru_world st) of Inl _ \<Rightarrow> st | Inr (ctx, _) \<Rightarrow> st\<lparr>ru_context := ctx\<rparr>))"

definition keep_round :: "run_env \<Rightarrow> run_setup \<Rightarrow> int \<Rightarrow> model_turn \<Rightarrow> round_acc \<Rightarrow> run_state \<Rightarrow> run_exit option \<times> run_state" where
  \<comment> \<open>what the next question builds on\<close>
  "keep_round env su n t a st =
     (let hs = round_history (re_wording env) (summary_limit env) (mt_Reply t) (mt_Reasoning t) (mt_ToolCalls t) (ra_results a);
          k = aw_next (ru_world st);
          st1 = (in_world (\<lambda>w. w\<lparr>aw_next := k + length hs\<rparr>) st)\<lparr>ru_history := ru_history st @ hs\<rparr> in
      case persistRoundHistoryMessages (re_jsonb env) (re_chat env) (cv_ID (su_conversation su)) k hs (ru_chat st1) of
        (Inl _, ch) \<Rightarrow> (Some (Break (Some ErrRunStore)), st1\<lparr>ru_chat := ch\<rparr>)
      | (Inr _, ch) \<Rightarrow>
          (None, if ra_mutated a then refresh_context env su (in_world (think ''context_refresh'' (n + 1)) (st1\<lparr>ru_chat := ch\<rparr>))
                 else st1\<lparr>ru_chat := ch\<rparr>))"

definition act_round :: "run_env \<Rightarrow> model_service \<Rightarrow> run_setup \<Rightarrow> int \<Rightarrow> model_turn \<Rightarrow> run_state \<Rightarrow> run_exit option \<times> run_state" where
  "act_round env svc su n t st =
     (let c = su_conversation su; inp = su_input su;
          w1 = (if TrimSpace (mt_Reasoning t) \<noteq> '''' then think ''reasoning'' (n + 1) (ru_world st) else ru_world st);
          w2 = think ''tool_execution'' (n + 1) (think ''tool_plan'' (n + 1) w1) in
      case executeRoundToolCalls (re_agent env) (in_UserID inp) (cv_ProjectID c) (cv_Type c) (in_ReadOnly inp) (mt_ToolCalls t) w2 of
        (Some e, a, w3) \<Rightarrow> (Some (Break (Some e)), st\<lparr>ru_world := think ''round_stopped'' (n + 1) w3\<rparr>)
      | (None, a, w3) \<Rightarrow>
          let summaries = map (summary_line (re_wording env) (summary_limit env)) (ra_summaries a);
              st1 = st\<lparr>ru_world := think ''round_summary'' (n + 1) w3, ru_summaries := ru_summaries st @ summaries,
                       ru_exec := RecordRound (re_wording env) summaries (mt_ToolCalls t) (ru_exec st)\<rparr>;
              st2 = follow_plan env svc su n summaries (mt_ToolCalls t) (ra_results a) st1;
              st3 = st2\<lparr>ru_message := ContinuationPrompt (su_message su) (n + 1) summaries (su_prefix su) (ru_exec st2)\<rparr> in
          if mt_ToolCalls t = [] then (Some (Break None), st3) else keep_round env su n t a st3)"

definition run_round :: "run_env \<Rightarrow> model_service \<Rightarrow> run_setup \<Rightarrow> int \<Rightarrow> run_state \<Rightarrow> run_exit option \<times> run_state" where
  "run_round env svc su n st0 =
     (case limit_gate env n (in_world (think ''round_start'' (n + 1)) st0) of
        (Some x, st1) \<Rightarrow> (Some x, st1)
      | (None, st1) \<Rightarrow>
          let st2 = in_world (\<lambda>w. w\<lparr>aw_safety := BeginRound (se_ID (aw_session w)) n (aw_safety w)\<rparr>) st1 in
          (case CheckRoundWithLimit n (ru_limit st2) of
             Inl e \<Rightarrow> (Some (Break (Some (SafetyErr e))), st2)
           | Inr _ \<Rightarrow>
               let t = ask_model svc n (round_request env su n st2); st3 = note_turn n t st2 in
               (case mt_Error t of
                  Some (ctx, e) \<Rightarrow>
                    (Some (if TrimSpace (ru_reply st3) = '''' \<and> ru_summaries st3 = [] then Return (ProviderErr ctx e)
                           else Break (Some (ProviderErr ctx e))), in_world (think ''model_error'' (n + 1)) st3)
                | None \<Rightarrow> act_round env svc su n t st3)))"

partial_function (option) run_loop ::
    "run_env \<Rightarrow> model_service \<Rightarrow> run_setup \<Rightarrow> int \<Rightarrow> run_state \<Rightarrow> (run_exit \<times> run_state) option" where
  "run_loop env svc su n st =
     (case run_round env svc su n st of
        (Some x, st1) \<Rightarrow> Some (x, st1)
      | (None, st1) \<Rightarrow> run_loop env svc su (n + 1) st1)"

subsection \<open>The end of a run\<close>

fun origin :: "run_error \<Rightarrow> run_error" where
  \<comment> \<open>the error an audit error wraps\<close>
  "origin (ErrAuditUpdate (Some e)) = e"
| "origin e = e"

definition from_context :: "run_error option \<Rightarrow> bool" where
  \<comment> \<open>the run's context is done, by its deadline or by its cancellation (\<open>ae_deadline\<close>)\<close>
  "from_context err \<longleftrightarrow> (case map_option origin err of
      Some (WaitErr ErrContextDone) \<Rightarrow> True | Some (ProviderErr ctx _) \<Rightarrow> ctx | _ \<Rightarrow> False)"

definition from_cancel :: "run_error option \<Rightarrow> bool" where
  "from_cancel err \<longleftrightarrow> map_option origin err = Some (WaitErr ErrSessionClosed)"

definition final_state :: "run_env \<Rightarrow> run_error option \<Rightarrow> bool \<Rightarrow> agent_world \<Rightarrow> string" where
  "final_state env err completed w =
     (let ended = from_context err \<or> re_ended env (aw_store w) in
      if err = None \<and> completed then StateDone
      else if ended \<and> ae_deadline (re_agent env) then ''timeout''
      else if ended \<or> from_cancel err then StateCancelled
      else ''failed'')"

definition close_run :: "run_env \<Rightarrow> AgentSessionRow \<Rightarrow> run_error option \<Rightarrow> bool \<Rightarrow> agent_world \<Rightarrow> agent_world" where
  \<comment> \<open>the deferred function\<close>
  "close_run env row err completed w0 =
     (let waits = paused (aw_session w0);
          w = (if waits then w0 else on_session (SetState (final_state env err completed w0)) w0);
          s = aw_session w; terminal = isTerminalSessionState (se_state s);
          row1 = row\<lparr>as_State := se_state s, as_ToolCallCount := se_toolCallCount s, as_ServerOps := se_serverOps s,
                     as_ClientOps := se_clientOps s, as_HybridOps := se_hybridOps s, as_TokensUsed := se_tokensUsed s,
                     as_ErrorMessage := (if terminal then err else None), as_EndedAt := (if terminal then Some (ae_now (re_agent env)) else None)\<rparr>;
          w1 = snd (on_store (SaveSession (ae_works (re_agent env)) row1) w);
          w2 = (if waits then w1 else snd (on_store (ClearPendingRuntime (ae_works (re_agent env)) (se_ID s) ''cleared'') w1)) in
      w2\<lparr>aw_safety := ClearSession (se_ID s) (aw_safety w2)\<rparr>)"

definition done_prefix :: string where
  "done_prefix =
     utf8 [229, 183, 165, 229, 133, 183, 230, 137, 167, 232, 161, 140, 229, 183, 178, 229, 174, 140, 230, 136, 144, 239,
     188, 154]"

definition done_text :: string where
  "done_text =
     utf8 [230, 147, 141, 228, 189, 156, 229, 183, 178, 229, 174, 140, 230, 136, 144]"

definition final_reply :: "run_env \<Rightarrow> run_state \<Rightarrow> string" where
  "final_reply env st =
     (let r = (if TrimSpace (ru_reply st) = '''' \<and> ru_summaries st \<noteq> []
               then done_prefix @ summarizePlainText (Join (ru_summaries st) semicolon) (summary_limit env) else ru_reply st) in
      if TrimSpace r = '''' then done_text else r)"

definition answer_row :: "run_env \<Rightarrow> run_setup \<Rightarrow> run_state \<Rightarrow> AIChatMessage" where
  "answer_row env su st =
     (let s = aw_session (ru_world st); filled = (\<lambda>v. if TrimSpace v = '''' then None else Some (TrimSpace v)) in
      (plain_row (re_chat env) (aw_next (ru_world st)) (cv_ID (su_conversation su)) ''assistant'' (TrimSpace (final_reply env st)))
        \<lparr>cm_ReasoningContent := filled (ru_reasoning st), cm_Model := filled (ru_modelUsed st),
         cm_TokensUsed := (if se_tokensUsed s > 0 then Some (se_tokensUsed s) else None)\<rparr>)"

definition run_output :: "run_setup \<Rightarrow> string \<Rightarrow> run_state \<Rightarrow> AgentRunOutput" where
  "run_output su answerID st =
     (let s = aw_session (ru_world st) in
      \<lparr> out_ConversationID = cv_ID (su_conversation su), out_SessionID = se_ID s, out_UserMessageID = su_userMessageID su,
        out_AssistantMessageID = answerID, out_TokensUsed = se_tokensUsed s, out_ModelUsed = ru_modelUsed st,
        out_ServerOps = se_serverOps s, out_ClientOps = se_clientOps s, out_HybridOps = se_hybridOps s \<rparr>)"

definition early_output :: "run_setup \<Rightarrow> run_state \<Rightarrow> AgentRunOutput" where
  "early_output su st = (run_output su '''' st)\<lparr>out_TokensUsed := 0, out_ServerOps := 0, out_ClientOps := 0, out_HybridOps := 0\<rparr>"

type_synonym run_result = "AgentRunOutput option \<times> run_error option"

definition finish_run :: "run_env \<Rightarrow> run_setup \<Rightarrow> run_exit \<Rightarrow> run_state \<Rightarrow> run_result \<times> run_error option \<times> bool \<times> run_state" where
  \<comment> \<open>the result, and what the deferred function sees: the error of the run and whether it completed\<close>
  "finish_run env su x st0 =
     (case x of
        Return e \<Rightarrow> ((Some (early_output su st0), Some e), Some e, False, st0)
      | Break err \<Rightarrow>
          let st1 = in_world (think ''finalizing'' 0) st0 in
          if from_context err \<and> \<not> ae_deadline (re_agent env) \<and> paused (aw_session (ru_world st1)) then ((None, err), err, False, st1)
          else let st2 = (if err = None then in_world (on_session (SetState StateDone)) st1 else st1);
                   m = answer_row env su st2; st3 = in_world (\<lambda>w. w\<lparr>aw_next := aw_next w + 1\<rparr>) st2 in
            (case post_message (re_chat env) m '''' (ru_chat st3) of
               (Inl _, ch) \<Rightarrow> ((None, Some ErrRunStore), Some ErrRunStore, err = None, st3\<lparr>ru_chat := ch\<rparr>)
             | (Inr _, ch) \<Rightarrow> ((Some (run_output su (cm_ID m) st3), err), err, err = None, st3\<lparr>ru_chat := ch\<rparr>)))"

subsection \<open>The start of a run\<close>

definition admit_run :: "run_env \<Rightarrow> AgentRunInput \<Rightarrow> agent_world \<Rightarrow> chat_db \<Rightarrow> run_error + AIConversation" where
  "admit_run env inp w ch =
     (if \<not> re_Enabled env then Inl ErrAgentDisabled
      else case query_chat (re_chat env) SelectConversation (ConversationFindByID (TrimSpace (in_ConversationID inp)) ch) of
        Inl _ \<Rightarrow> Inl ErrRunStore
      | Inr None \<Rightarrow> Inl ErrAgentConversationNotFound
      | Inr (Some c) \<Rightarrow>
          if TrimSpace (cv_UserID c) \<noteq> TrimSpace (in_UserID inp) then Inl ErrAgentPermissionDenied
          else (case ValidatePermissionBoundary (in_UserID inp) (cv_ProjectID c) (Some (ae_member (re_agent env) (aw_store w))) of
                  Inl _ \<Rightarrow> Inl ErrAgentPermissionDenied
                | Inr _ \<Rightarrow> if TrimSpace (in_Message inp) = '''' then Inl ErrAgentMessageEmpty else Inr c))"

definition new_session_row :: "AgentRunInput \<Rightarrow> AIConversation \<Rightarrow> agent_world \<Rightarrow> AgentSessionRow" where
  "new_session_row inp c w = \<lparr> as_ID = se_ID (aw_session w), as_ConversationID = cv_ID c, as_ProjectID = cv_ProjectID c,
     as_UserID = in_UserID inp, as_GraphType = cv_Type c, as_State = StateRunning, as_ToolCallCount = 0, as_ServerOps = 0,
     as_ClientOps = 0, as_HybridOps = 0, as_TokensUsed = 0, as_ErrorMessage = None, as_EndedAt = None \<rparr>"

definition open_session :: "AgentRunInput \<Rightarrow> AIConversation \<Rightarrow> AgentSession \<Rightarrow> AgentSession" where
  "open_session inp c s = SetState StateRunning (s\<lparr>se_ProjectID := cv_ProjectID c, se_GraphType := cv_Type c,
     se_UserID := in_UserID inp, se_ConversationID := cv_ID c\<rparr>)"

definition client_graph ::
    "AgentRunInput \<Rightarrow> AIConversation \<Rightarrow> int \<Rightarrow> chat_context
      \<Rightarrow> run_error + chat_context \<times> (FaultTreeNode list \<times> FaultTreeEdge list \<times> int) option" where
  \<comment> \<open>the context and the tree to work on, when the client sent a graph\<close>
  "client_graph inp c serverRevision ctx =
     (case in_GraphSnapshot inp of
        None \<Rightarrow> Inr (ctx, None)
      | Some g \<Rightarrow>
          if cv_Type c = AssistantTypeFaultTree
            then (case gs_tree g of None \<Rightarrow> Inl ErrAgentInvalidGraphSnapshot
                  | Some (ns, es) \<Rightarrow> Inr (TreeContext ns es,
                      Some (ns, es, case in_ClientRevision inp of Some r \<Rightarrow> r | None \<Rightarrow> serverRevision)))
          else if cv_Type c = AssistantTypeKnowledgeGraph
            then (case gs_knowledge g of None \<Rightarrow> Inl ErrAgentInvalidGraphSnapshot | Some (ns, es) \<Rightarrow> Inr (KnowledgeContext ns es, None))
          else Inl (UnsupportedConversationType (cv_Type c)))"

definition load_run ::
    "run_env \<Rightarrow> AgentRunInput \<Rightarrow> AIConversation \<Rightarrow> agent_world \<Rightarrow> chat_db
      \<Rightarrow> (run_error + AIChatMessage list \<times> chat_context \<times> (FaultTreeNode list \<times> FaultTreeEdge list \<times> int) option) \<times> agent_world" where
  \<comment> \<open>the history and the graph; nothing of the chat is written yet\<close>
  "load_run env inp c w ch =
     (case query_chat (re_chat env) SelectMessages (ListRecentByConversation (cv_ID c) 20 ch) of
        Inl _ \<Rightarrow> (Inl ErrRunStore, w)
      | Inr rows \<Rightarrow>
          (case load_context env c w of
             Inl e \<Rightarrow> (Inl e, w)
           | Inr (ctx, serverRevision) \<Rightarrow>
               let w1 = think ''context_loaded'' 0 w;
                   stale = (case in_ClientRevision inp of None \<Rightarrow> False | Some r \<Rightarrow> r \<noteq> serverRevision);
                   w2 = (if stale then emit (RevisionMismatchEvent (the (in_ClientRevision inp)) serverRevision) w1 else w1);
                   w3 = (if in_GraphSnapshot inp = None then w2 else think ''context_override'' 0 w2) in
               if stale \<and> \<not> in_ReadOnly inp then (Inl ErrAgentClientRevisionConflict, w2)
               else (case client_graph inp c serverRevision ctx of
                       Inl e \<Rightarrow> (Inl e, w3)
                     | Inr (ctx1, snap) \<Rightarrow>
                         if \<not> in_ReadOnly inp \<and> in_GraphSnapshot inp \<noteq> None \<and> in_ClientRevision inp = None
                         then (Inl ErrAgentClientRevisionConflict, w3)
                         else (Inr (rows, ctx1, snap), w3))))"

definition start_run ::
    "run_env \<Rightarrow> model_service \<Rightarrow> AgentRunInput \<Rightarrow> AIConversation \<Rightarrow> AIChatMessage list
      \<Rightarrow> chat_context \<Rightarrow> AIChatMessage \<Rightarrow> agent_world \<Rightarrow> chat_db \<Rightarrow> run_setup \<times> run_state" where
  "start_run env svc inp c rows ctx um w ch =
     (let message = TrimSpace (in_Message inp);
          tools = FilterToolsForMode (cv_Type c) (in_ReadOnly inp) (re_IncludeHybridTools env);
          prefix = buildMessageConstraintPrefix (in_ReadOnly inp) (in_GraphSnapshot inp \<noteq> None) (in_ClientRevision inp)
                     (focus_lines (in_FocusNodeIDs inp) (in_SelectedNodeIDs inp));
          su = \<lparr> su_input = inp, su_conversation = c, su_message = message, su_model = resolveAgentModel (re_AgentModel env) (in_Model inp),
                 su_tools = tools, su_prefix = prefix, su_userMessageID = cm_ID um \<rparr>;
          st = \<lparr> ru_world = w, ru_chat = ch, ru_context = ctx, ru_message = UserPrompt prefix message, ru_history = agent_history rows,
                 ru_exec = newRoundExecutionState message,
                 ru_limit = (if in_MaxToolRounds inp > 0 then in_MaxToolRounds inp else MaxRounds (ae_cfg (re_agent env))),
                 ru_reply = '''', ru_reasoning = '''', ru_modelUsed = '''', ru_summaries = [] \<rparr> in
      (su, if re_EnablePlannerPhase env \<and> tools \<noteq> []
           then set_plan env svc su 0 0 ''planning_fallback'' ''plan_ready'' [] (in_world (think ''planning_start'' 0) st) else st))"

definition RunStream ::
    "run_env \<Rightarrow> model_service \<Rightarrow> AgentRunInput \<Rightarrow> agent_world \<Rightarrow> chat_db \<Rightarrow> (run_result \<times> agent_world \<times> chat_db) option" where
  "RunStream env svc inp w ch =
     (case admit_run env inp w ch of
        Inl e \<Rightarrow> Some ((None, Some e), w, ch)
      | Inr c \<Rightarrow>
          let w1 = on_session (open_session inp c) w; row = new_session_row inp c w1 in
          (case on_store (CreateSession (ae_works (re_agent env)) row) w1 of
             (Inl _, w2) \<Rightarrow> Some ((None, Some ErrRunStore), w2, ch)
           | (Inr _, w2) \<Rightarrow>
               let fails = (\<lambda>e w ch. Some ((None, Some e), close_run env row None False w, ch)) in
               (case load_run env inp c w2 ch of
                  (Inl e, w3) \<Rightarrow> fails e w3 ch
                | (Inr (rows, ctx, snap), w3) \<Rightarrow>
                    let um = plain_row (re_chat env) (aw_next w3) (cv_ID c) ''user'' (TrimSpace (in_Message inp));
                        w4 = w3\<lparr>aw_snapshot := snap, aw_next := aw_next w3 + 1\<rparr> in
                    (case post_message (re_chat env) um (buildConversationTitle (TrimSpace (in_Message inp))) ch of
                       (Inl _, ch1) \<Rightarrow> fails ErrRunStore w4 ch1
                     | (Inr _, ch1) \<Rightarrow>
                         (case start_run env svc inp c rows ctx um w4 ch1 of (su, st) \<Rightarrow>
                            map_option (\<lambda>(x, st1). case finish_run env su x st1 of (result, err, completed, st2) \<Rightarrow>
                                (result, close_run env row err completed (ru_world st2), ru_chat st2))
                              (run_loop env svc su 0 st))))))"

end
