(* ===== verification/RunEffects.thy ===== *)
theory RunEffects
  imports AgentRun RoundEffects ConversationTheorems
begin

text \<open>
  What a run keeps and when it ends. The locale \<open>run_contract\<close> says what an invariant of the world and one of
  the chat tables have to survive (the rounds, the session, the rows of the runtime, the messages); every
  run keeps them then, from its start to the deferred function. It is interpreted on the database of a
  read-only run, and on the audit table together with the chat tables.
\<close>

subsection \<open>What keeps the session\<close>

lemma session_ids [simp]:
  "se_ID (SetState x s) = se_ID s" "se_ID (SetPending a b c s) = se_ID s" "se_ID (ClearPending s) = se_ID s"
  "se_ID (AddTokens n s) = se_ID s" "se_ID (MarkCancelled s) = se_ID s" "se_ID (IncToolCallCount s) = se_ID s"
  "se_ID (IncTierOps t s) = se_ID s" "se_ID (SetRecentReadContext v s) = se_ID s" "se_ID (open_session inp cv s) = se_ID s"
  by (simp_all add: SetState_def SetPending_def ClearPending_def AddTokens_def MarkCancelled_def IncToolCallCount_def
      IncTierOps_def SetRecentReadContext_def open_session_def Let_def)

lemma runtime_sessions [simp]:
  "ag_sessions (snd (UpsertPending works r st)) = ag_sessions st" "ag_sessions (snd (ClearPendingRuntime works i s st)) = ag_sessions st"
  "ag_sessions (snd (MarkWaitStatus works i s st)) = ag_sessions st" "ag_sessions (snd (CreateCall works c st)) = ag_sessions st"
  "ag_sessions (snd (UpdateCallStatus works i status tx patch msg st)) = ag_sessions st"
  by (simp_all add: UpsertPending_def ClearPendingRuntime_def MarkWaitStatus_def CreateCall_def UpdateCallStatus_def Let_def split: option.split)

definition same_session :: "agent_world \<Rightarrow> agent_world \<Rightarrow> bool" where
  "same_session w w' \<longleftrightarrow> se_ID (aw_session w') = se_ID (aw_session w) \<and> ag_sessions (aw_store w') = ag_sessions (aw_store w)"

lemma pending_sessions [simp]:
  "ag_sessions (aw_store (upsertRuntimePending env a b c d e f g w)) = ag_sessions (aw_store w)"
  "ag_sessions (aw_store (clearRuntimePending env s w)) = ag_sessions (aw_store w)"
  "ag_sessions (aw_store (markRuntimeWaitStatus env s w)) = ag_sessions (aw_store w)"
  by (simp_all add: upsertRuntimePending_def clearRuntimePending_def markRuntimeWaitStatus_def Let_def)

lemma await_session: "await_signal env w = (r, w') \<Longrightarrow> same_session w w'"
  by (auto simp: await_signal_def same_session_def split: if_splits)

lemma pause_session: "pause_for env pstate ty n c tier p ev w = (r, w') \<Longrightarrow> same_session w w'"
  by (auto simp: pause_for_def same_session_def Let_def dest!: await_session split: prod.splits sum.splits if_splits)

lemma server_session: "run_server env p g c w = (r, w') \<Longrightarrow> same_session w w'"
  by (auto simp: run_server_def same_session_def dest!: graph_tool_calls split: prod.splits sum.splits)

lemma dispatch_session: "dispatchToolCall env p g ro c def w = (r, w') \<Longrightarrow> same_session w w'"
  by (auto simp: dispatchToolCall_def dispatch_client_def dispatch_server_def dispatch_hybrid_def skipped_read_only_def same_session_def Let_def
      dest!: server_session pause_session split: ExecutionTier.splits if_splits prod.splits sum.splits)

lemma store_session: "on_store f w = (r, w') \<Longrightarrow> ag_sessions (snd (f (aw_store w))) = ag_sessions (aw_store w) \<Longrightarrow> same_session w w'"
  using on_store_sel [of f w] by (auto simp: same_session_def)

lemma audit_session: "runToolCallWithAudit env p g ro c def w = (r, w') \<Longrightarrow> same_session w w'"
proof -
  have new: "same_session w w0" if "NewAgentToolCallID env w = (i, w0)" for i w0
    using that by (auto simp: NewAgentToolCallID_def same_session_def)
  have create: "same_session w1 w2" if "on_store (CreateCall (ae_works env) row) w1 = (q, w2)" for row q w1 w2
    using that by (rule store_session) simp
  have status: "same_session w1 w2" if "set_call_status env i s t pa m w1 = (q, w2)" for i s t pa m q w1 w2
    using that unfolding set_call_status_def by (rule store_session) simp
  show "runToolCallWithAudit env p g ro c def w = (r, w') \<Longrightarrow> same_session w w'"
    by (auto simp: runToolCallWithAudit_def Let_def same_session_def dest!: new create status dispatch_session
        split: prod.splits sum.splits if_splits)
qed

subsection \<open>The contract\<close>

locale loop_contract =
  fixes I :: "agent_world \<Rightarrow> bool" and J :: "chat_db \<Rightarrow> bool" and env :: run_env and readOnly :: bool
  assumes rounds: "round_invariant I (re_agent env) p g readOnly"
    and I_session: "I w \<Longrightarrow> (\<And>s. se_ID (f s) = se_ID s) \<Longrightarrow> I (on_session f w)"
    and I_rows: "I w \<Longrightarrow> ag_calls st = ag_calls (aw_store w) \<Longrightarrow> ag_sessions st = ag_sessions (aw_store w) \<Longrightarrow> I (w\<lparr>aw_store := st\<rparr>)"
    and J_message: "J ch \<Longrightarrow> J (snd (MessageCreate (re_chat env) m ch))"
    and J_post: "J ch \<Longrightarrow> TrimSpace (cm_ConversationID m) = cm_ConversationID m \<Longrightarrow> J (snd (post_message (re_chat env) m hint ch))"
begin

lemma I_emit: "I w \<Longrightarrow> I (emit e w)"
  using rounds by (rule round_invariant.I_emit)

lemma I_think: "I w \<Longrightarrow> I (think ph n w)"
  by (simp add: think_def I_emit)

lemma I_next: "I w \<Longrightarrow> I (w\<lparr>aw_next := k\<rparr>)"
  using rounds by (rule round_invariant.I_next)

lemma I_safety: "I w \<Longrightarrow> I (w\<lparr>aw_safety := sc\<rparr>)"
  using rounds by (rule round_invariant.I_safety)

lemma I_store: "I w \<Longrightarrow> ag_calls (snd (f (aw_store w))) = ag_calls (aw_store w) \<Longrightarrow>
    ag_sessions (snd (f (aw_store w))) = ag_sessions (aw_store w) \<Longrightarrow> I (snd (on_store f w))"
  using I_rows by (auto simp: on_store_def split: prod.split)

lemma I_pending:
  assumes "I w"
  shows "I (upsertRuntimePending (re_agent env) a b c d e f g w)" "I (clearRuntimePending (re_agent env) s w)"
    "I (markRuntimeWaitStatus (re_agent env) s w)"
  using assms by (simp_all add: upsertRuntimePending_def clearRuntimePending_def markRuntimeWaitStatus_def Let_def I_store)

lemma I_await: "await_signal (re_agent env) w = (r, w') \<Longrightarrow> I w \<Longrightarrow> I w'"
  by (auto simp: await_signal_def I_session split: if_splits)

lemma I_continuation: "requestIterationContinuation (re_agent env) n l w = (r, w') \<Longrightarrow> I w \<Longrightarrow> I w'"
  by (auto simp: requestIterationContinuation_def Let_def split: prod.splits sum.splits if_splits
      dest!: I_await intro!: I_emit I_pending I_session)

definition good :: "run_state \<Rightarrow> bool" where
  "good st \<longleftrightarrow> I (ru_world st) \<and> J (ru_chat st)"

lemma good_world: "good st \<Longrightarrow> (\<And>w. I w \<Longrightarrow> I (f w)) \<Longrightarrow> good (in_world f st)"
  by (simp add: good_def in_world_def)

lemma good_fields [simp]:
  "good (st\<lparr>ru_context := a\<rparr>) = good st" "good (st\<lparr>ru_message := b\<rparr>) = good st" "good (st\<lparr>ru_history := c\<rparr>) = good st"
  "good (st\<lparr>ru_exec := d\<rparr>) = good st" "good (st\<lparr>ru_limit := e\<rparr>) = good st" "good (st\<lparr>ru_reply := f\<rparr>) = good st"
  "good (st\<lparr>ru_reasoning := f\<rparr>) = good st" "good (st\<lparr>ru_modelUsed := f\<rparr>) = good st" "good (st\<lparr>ru_summaries := g\<rparr>) = good st"
  by (simp_all add: good_def)

lemma good_limit: "limit_gate env n st = (x, st') \<Longrightarrow> good st \<Longrightarrow> good st'"
  by (auto simp: limit_gate_def good_def split: if_splits prod.splits sum.splits option.splits
      dest!: I_continuation intro!: I_think)

lemma good_turn: "good st \<Longrightarrow> good (note_turn n t st)"
  by (simp add: note_turn_def Let_def good_def I_session I_emit)

lemma good_set_plan: "good st \<Longrightarrow> good (set_plan env svc su a n f r fs st)"
  by (auto simp: set_plan_def Let_def intro!: good_world I_think split: sum.split)

lemma good_follow: "good st \<Longrightarrow> good (follow_plan env svc su n ss cs rs st)"
  by (auto simp: follow_plan_def Let_def intro!: good_set_plan good_world I_think split: option.split prod.split)

lemma J_persist: "persist_messages jb (re_chat env) cid t k hs ch = (r, ch') \<Longrightarrow> J ch \<Longrightarrow> J ch'"
proof (induction hs arbitrary: t k ch)
  case (Cons h hs)
  have "J ch1" if "MessageCreate (re_chat env) m ch = (q, ch1)" for m q ch1
    using J_message [OF Cons.prems(2), of m] that by simp
  with Cons show ?case by (auto split: option.splits prod.splits sum.splits)
qed simp

lemma good_keep: "keep_round env su n t a st = (x, st') \<Longrightarrow> good st \<Longrightarrow> good st'"
proof -
  assume k: "keep_round env su n t a st = (x, st')" and g: "good st"
  have p: "J ch'" if "persistRoundHistoryMessages (re_jsonb env) (re_chat env) cid m hs (ru_chat st) = (r, ch')" for cid m hs r ch'
    using that g by (auto simp: persistRoundHistoryMessages_def good_def dest: J_persist split: if_splits)
  have ref: "good (refresh_context env su s) = good s" for s
    by (simp add: refresh_context_def Let_def split: option.split sum.split prod.split bool.split)
  have ch: "J c \<Longrightarrow> good (s\<lparr>ru_chat := c\<rparr>)" if "good s" for s c using that by (simp add: good_def)
  have nx: "good (in_world (\<lambda>w. w\<lparr>aw_next := m\<rparr>) st)" for m using g by (rule good_world) (rule I_next)
  have chat: "ru_chat (in_world h s) = ru_chat s" for h s by (simp add: in_world_def)
  show "good st'" using k p nx
    by (auto simp: keep_round_def Let_def ref chat intro!: ch good_world I_think split: prod.splits sum.splits if_splits)
qed

lemma good_act:
  assumes "act_round env svc su n t st = (x, st')" and "good st" and "in_ReadOnly (su_input su) = readOnly"
  shows "good st'"
proof -
  define w2 where "w2 = think ''tool_execution'' (n + 1) (think ''tool_plan'' (n + 1)
      (if TrimSpace (mt_Reasoning t) \<noteq> '''' then think ''reasoning'' (n + 1) (ru_world st) else ru_world st))"
  let ?c = "su_conversation su" and ?inp = "su_input su"
  obtain e a w3 where x: "executeRoundToolCalls (re_agent env) (in_UserID ?inp) (cv_ProjectID ?c) (cv_Type ?c) (in_ReadOnly ?inp) (mt_ToolCalls t) w2 = (e, a, w3)"
    by (metis prod_cases3)
  have "I w2" using assms(2) by (simp add: w2_def good_def I_think)
  then have w3: "I w3" using round_invariant.I_round [OF rounds _ x [unfolded assms(3)]] by blast
  define summaries where "summaries = map (summary_line (re_wording env) (summary_limit env)) (ra_summaries a)"
  define st1 where "st1 = st\<lparr>ru_world := think ''round_summary'' (n + 1) w3, ru_summaries := ru_summaries st @ summaries,
      ru_exec := RecordRound (re_wording env) summaries (mt_ToolCalls t) (ru_exec st)\<rparr>"
  define st2 where "st2 = follow_plan env svc su n summaries (mt_ToolCalls t) (ra_results a) st1"
  have "good st1" using assms(2) w3 by (simp add: st1_def good_def I_think)
  then have "good st2" by (simp add: st2_def good_follow)
  then have 3: "good (st2\<lparr>ru_message := m\<rparr>)" for m by simp
  show ?thesis
  proof (cases e)
    case None
    then show ?thesis using assms(1) 3 good_keep
      unfolding act_round_def Let_def w2_def [symmetric] x prod.case None option.case summaries_def [symmetric] st1_def [symmetric] st2_def [symmetric]
      by (auto split: if_splits)
  next
    case (Some err)
    then show ?thesis using assms(1,2) w3
      unfolding act_round_def Let_def w2_def [symmetric] x prod.case Some option.case
      by (auto simp: good_def I_think)
  qed
qed

lemma good_round:
  assumes "run_round env svc su n st = (x, st')" and "good st" and "in_ReadOnly (su_input su) = readOnly"
  shows "good st'"
proof -
  obtain y st1 where l: "limit_gate env n (in_world (think ''round_start'' (n + 1)) st) = (y, st1)" by fastforce
  have 1: "good st1" using good_limit [OF l] assms(2) by (blast intro: good_world I_think)
  define st2 where "st2 = in_world (\<lambda>w. w\<lparr>aw_safety := BeginRound (se_ID (aw_session w)) n (aw_safety w)\<rparr>) st1"
  have 2: "good st2" unfolding st2_def using 1 by (rule good_world) (rule I_safety)
  have 3: "good (note_turn n t st2)" "good (in_world (think ph m) (note_turn n t st2))" for t ph m
    using good_turn [OF 2] by (auto intro: good_world I_think)
  show ?thesis using assms(1) 1 2 3 good_act [OF _ _ assms(3)]
    unfolding run_round_def l prod.case Let_def st2_def [symmetric]
    by (auto split: option.splits sum.splits prod.splits)
qed

lemma good_loop:
  "run_loop env svc su n st = Some (x, st') \<Longrightarrow> good st \<Longrightarrow> in_ReadOnly (su_input su) = readOnly \<Longrightarrow> good st'"
proof -
  have "e = env \<longrightarrow> good st \<longrightarrow> in_ReadOnly (su_input su) = readOnly \<longrightarrow> good (snd z)" if "run_loop e svc su n st = Some z" for e z
  proof (rule run_loop.raw_induct [where P = "\<lambda>e svc su n st z. e = env \<longrightarrow> good st \<longrightarrow> in_ReadOnly (su_input su) = readOnly \<longrightarrow> good (snd z)", OF _ that], intro impI)
    fix rec e svc su n st z
    assume ih: "\<And>e svc su n st z. rec e svc su n st = Some z \<Longrightarrow> e = env \<longrightarrow> good st \<longrightarrow> in_ReadOnly (su_input su) = readOnly \<longrightarrow> good (snd z)"
      and body: "(case run_round e svc su n st of (None, st1) \<Rightarrow> rec e svc su (n + 1) st1 | (Some x, st1) \<Rightarrow> Some (x, st1)) = Some z"
      and a: "e = env" "good st" "in_ReadOnly (su_input su) = readOnly"
    obtain y st1 where r: "run_round env svc su n st = (y, st1)" by fastforce
    have "good st1" using good_round [OF r] a by simp
    with ih body r a show "good (snd z)" by (cases y) auto
  qed
  then show "run_loop env svc su n st = Some (x, st') \<Longrightarrow> good st \<Longrightarrow> in_ReadOnly (su_input su) = readOnly \<Longrightarrow> good st'"
    by fastforce
qed

lemma good_finish:
  assumes "finish_run env su x st = (r, err, completed, st')" and "good st" and "TrimSpace (cv_ID (su_conversation su)) = cv_ID (su_conversation su)"
  shows "good st'"
proof -
  have p: "J ch'" if "post_message (re_chat env) (answer_row env su s) h ch = (q, ch')" "J ch" for s h ch q ch'
    using J_post [OF that(2), of "answer_row env su s" h] that(1) assms(3) by (simp add: answer_row_def plain_row_def Let_def)
  show ?thesis using assms(1,2) p
    by (auto simp: finish_run_def Let_def good_def in_world_def I_think I_session I_next split: run_exit.splits if_splits prod.splits sum.splits)
qed

lemma I_load: "load_run env inp c w ch = (r, w') \<Longrightarrow> I w \<Longrightarrow> I w'"
  by (auto simp: load_run_def Let_def I_think I_emit split: sum.splits prod.splits if_splits option.splits)

end

locale run_contract = loop_contract +
  assumes I_tree: "I w \<Longrightarrow> I (w\<lparr>aw_snapshot := t\<rparr>)"
    and I_sessions: "I w \<Longrightarrow> ag_calls st = ag_calls (aw_store w) \<Longrightarrow> I (w\<lparr>aw_store := st\<rparr>)"
begin

lemma I_session_row: "I w \<Longrightarrow> ag_calls (snd (f (aw_store w))) = ag_calls (aw_store w) \<Longrightarrow> I (snd (on_store f w))"
  using I_sessions by (auto simp: on_store_def split: prod.split)

lemma I_close: "I w \<Longrightarrow> I (close_run env row err completed w)"
proof -
  have s: "ag_calls (snd (SaveSession works row st)) = ag_calls st" for works row st by (simp add: SaveSession_def)
  show "I w \<Longrightarrow> I (close_run env row err completed w)"
    by (auto simp: close_run_def Let_def intro!: I_safety I_session_row I_session simp: s)
qed

theorem I_run:
  assumes "RunStream env svc inp w ch = Some (r, w', ch')" and "in_ReadOnly inp = readOnly" and "I w" and "J ch"
  shows "I w' \<and> J ch'"
proof (cases "admit_run env inp w ch")
  case (Inl e)
  with assms show ?thesis by (simp add: RunStream_def)
next
  case (Inr c)
  then have trim: "TrimSpace (cv_ID c) = cv_ID c"
    by (auto simp: admit_run_def query_chat_def dest: find_conversation split: if_splits sum.splits option.splits)
  define w1 where "w1 = on_session (open_session inp c) w"
  define row where "row = new_session_row inp c w1"
  obtain q w2 where k: "on_store (CreateSession (ae_works (re_agent env)) row) w1 = (q, w2)" by fastforce
  have w1: "I w1" using assms(3) by (simp add: w1_def I_session)
  have "I (snd (on_store (CreateSession (ae_works (re_agent env)) row) w1))"
    using w1 by (rule I_session_row) (simp add: CreateSession_def)
  then have w2: "I w2" by (simp add: k)
  obtain l w3 where l: "load_run env inp c w2 ch = (l, w3)" by fastforce
  have w3: "I w3" using I_load [OF l w2] .
  note run = assms(1) [unfolded RunStream_def Inr sum.case Let_def w1_def [symmetric] row_def [symmetric] k prod.case l]
  show ?thesis
  proof (cases q)
    case (Inl e)
    with run w2 assms(4) show ?thesis by auto
  next
    case (Inr u)
    note run = run [unfolded Inr sum.case]
    show ?thesis
    proof (cases l)
      case (Inl e)
      with run w3 assms(4) show ?thesis by (auto simp: I_close)
    next
      case (Inr ld)
      obtain rows ctx snap where ld: "ld = (rows, ctx, snap)" by (metis prod_cases3)
      define um where "um = plain_row (re_chat env) (aw_next w3) (cv_ID c) ''user'' (TrimSpace (in_Message inp))"
      define w4 where "w4 = w3\<lparr>aw_snapshot := snap, aw_next := aw_next w3 + 1\<rparr>"
      have w4: "I w4" using w3 by (simp add: w4_def I_next I_tree)
      obtain pr ch1 where p: "post_message (re_chat env) um (buildConversationTitle (TrimSpace (in_Message inp))) ch = (pr, ch1)" by fastforce
      have ch1: "J ch1" using J_post [OF assms(4), of um "buildConversationTitle (TrimSpace (in_Message inp))"] trim
        unfolding p by (simp add: um_def plain_row_def)
      note run = run [unfolded Inr sum.case ld prod.case um_def [symmetric] w4_def [symmetric] p]
      show ?thesis
      proof (cases pr)
        case (Inl e)
        with run w4 ch1 show ?thesis by (auto simp: I_close)
      next
        case (Inr u)
        obtain su st where s: "start_run env svc inp c rows ctx um w4 ch1 = (su, st)" by fastforce
        have st: "good st" "su_input su = inp" "su_conversation su = c"
          using s w4 ch1 by (auto simp: start_run_def Let_def good_def in_world_def I_think intro!: good_set_plan [unfolded good_def] split: if_splits)
        obtain x st1 where lo: "run_loop env svc su 0 st = Some (x, st1)"
          and fin: "(case finish_run env su x st1 of (result, err, completed, st2) \<Rightarrow>
            (result, close_run env row err completed (ru_world st2), ru_chat st2)) = (r, w', ch')"
          using run unfolding Inr sum.case s prod.case by auto
        have "good st1" using good_loop [OF lo st(1)] st(2) assms(2) by simp
        moreover obtain result err completed st2 where f: "finish_run env su x st1 = (result, err, completed, st2)" by (metis prod_cases4)
        ultimately have "good st2" using good_finish [OF f] trim st(3) by simp
        then show ?thesis using fin I_close by (auto simp: good_def f)
      qed
    qed
  qed
qed

end

subsection \<open>The contract on the model\<close>

interpretation read_only_run: run_contract "\<lambda>w. aw_db w = db0" "\<lambda>_. True" env True for db0 env
  by unfold_locales (simp_all add: read_only_call)

interpretation tidy_run: run_contract "\<lambda>w. updates_work (re_agent env) \<longrightarrow> none_running w" chat_tables_ok env readOnly for env readOnly
proof unfold_locales
  fix w :: agent_world and st :: agent_store and t
  assume w: "updates_work (re_agent env) \<longrightarrow> none_running w"
  then show "updates_work (re_agent env) \<longrightarrow> none_running (w\<lparr>aw_snapshot := t\<rparr>)" by (simp add: none_running_def)
  assume "ag_calls st = ag_calls (aw_store w)"
  with w show "updates_work (re_agent env) \<longrightarrow> none_running (w\<lparr>aw_store := st\<rparr>)" by (simp add: none_running_def)
  then show "updates_work (re_agent env) \<longrightarrow> none_running (w\<lparr>aw_store := st\<rparr>)" .
qed (simp_all add: audit.I_call create_keeps_tables post_keeps_tables)

interpretation one_session: loop_contract "\<lambda>w. se_ID (aw_session w) = i \<and> ag_sessions (aw_store w) = rows" "\<lambda>_. True" env readOnly
  for i rows env readOnly
proof unfold_locales
  show "se_ID (aw_session (snd (runToolCallWithAudit (re_agent env) p g readOnly c def w))) = i \<and>
      ag_sessions (aw_store (snd (runToolCallWithAudit (re_agent env) p g readOnly c def w))) = rows"
    if "se_ID (aw_session w) = i \<and> ag_sessions (aw_store w) = rows" for p g c def w
    using that audit_session [of "re_agent env" p g readOnly c def w] by (metis prod.collapse same_session_def)
qed simp_all

subsection \<open>When a run ends\<close>

definition never_continued :: "agent_env \<Rightarrow> bool" where
  \<comment> \<open>nobody approves another round\<close>
  "never_continued env \<longleftrightarrow> (\<forall>st sg. Got sg \<in> set (ae_wait env st) \<longrightarrow> cs_Approved sg \<longrightarrow> take 11 (TrimSpace (cs_CallID sg)) \<noteq> ''iter_limit_'')"

lemma iter_id: "TrimSpace (''iter_limit_'' @ show_int l @ ''_'' @ show_int n) = ''iter_limit_'' @ show_int l @ ''_'' @ show_int n"
proof (rule TrimSpace_plain_all)
  have l: "list_all plain_char ''iter_limit_''" "list_all plain_char ''_''" by code_simp+
  show "plain_char c" if "c \<in> set (''iter_limit_'' @ show_int l @ ''_'' @ show_int n)" for c
    using that l show_int_chars unfolding list_all_iff set_append by blast
qed simp

lemma denied:
  assumes "never_continued env" and "requestIterationContinuation env n l w = (Inr r, w')"
  shows "r = None"
proof (rule ccontr)
  define i where "i = ''iter_limit_'' @ show_int l @ ''_'' @ show_int n"
  let ?w = "emit (IterationLimitReached i n l) (upsertRuntimePending env i ''iteration_limit'' (tier_text TierServer) RawEmpty None ''iteration''
      (ae_ConfirmTimeout env) (on_session (\<lambda>s. SetState StatePausedForConfirm (SetPending i ''iteration_limit'' RawEmpty s)) w))"
  have i: "TrimSpace i = i" unfolding i_def by (rule iter_id)
  assume "r \<noteq> None"
  then obtain sg w3 where a: "await_signal env ?w = (Inr sg, w3)" "cs_Approved sg"
    using assms(2) unfolding requestIterationContinuation_def i_def [symmetric] Let_def
    by (auto split: prod.splits sum.splits if_splits)
  then have "waitForConfirmation (aw_session ?w) (wait_events env ?w) = Some (Inr sg)"
    by (auto simp: await_signal_def split: option.splits)
  then have "Got sg \<in> set (wait_events env ?w) \<and> TrimSpace (cs_CallID sg) = i"
    unfolding waitForConfirmation_def by (auto dest!: wait_loop_answer simp: SetState_def SetPending_def i)
  then have "Got sg \<in> set (ae_wait env (aw_store ?w))" "TrimSpace (cs_CallID sg) = i" by (auto simp: wait_events_def)
  with assms(1) a(2) have "take 11 i \<noteq> ''iter_limit_''" unfolding never_continued_def by metis
  then show False by (simp add: i_def)
qed

lemma limit_sel [simp]:
  "ru_limit (in_world f st) = ru_limit st" "ru_limit (note_turn n t st) = ru_limit st"
  "ru_limit (set_plan env svc su a n x y fs st) = ru_limit st" "ru_limit (refresh_context env su st) = ru_limit st"
  by (simp_all add: in_world_def note_turn_def set_plan_def refresh_context_def Let_def split: option.split sum.split prod.split bool.split)

lemma follow_limit [simp]: "ru_limit (follow_plan env svc su n ss cs rs st) = ru_limit st"
  by (simp add: follow_plan_def Let_def split: option.split prod.split)

lemma act_limit: "act_round env svc su n t st = (x, st') \<Longrightarrow> ru_limit st' = ru_limit st"
  by (auto simp: act_round_def keep_round_def Let_def split: prod.splits option.splits sum.splits if_splits)

lemma round_limit:
  assumes "run_round env svc su n st = (None, st')" and "never_continued (re_agent env)" and "0 < ru_limit st"
  shows "n < ru_limit st \<and> ru_limit st' = ru_limit st"
proof -
  obtain st1 where l: "limit_gate env n (in_world (think ''round_start'' (n + 1)) st) = (None, st1)"
    using assms(1) by (auto simp: run_round_def split: prod.splits option.splits)
  have "n < ru_limit st \<and> ru_limit st1 = ru_limit st"
    using l assms(3) by (auto simp: limit_gate_def dest!: denied [OF assms(2)] split: if_splits prod.splits sum.splits option.splits)
  moreover have "ru_limit st' = ru_limit st1"
    using assms(1) act_limit unfolding run_round_def l by (fastforce simp: Let_def split: sum.splits option.splits prod.splits)
  ultimately show ?thesis by simp
qed

lemma loop_unfold:
  "run_loop env svc su n st = None \<Longrightarrow> \<exists>st'. run_round env svc su n st = (None, st') \<and> run_loop env svc su (n + 1) st' = None"
  by (subst (asm) run_loop.simps) (auto split: prod.splits option.splits)

lemma limited_loop_ends:
  assumes "never_continued (re_agent env)" and "0 < ru_limit st"
  shows "run_loop env svc su n st \<noteq> None"
  using assms(2)
proof (induction "nat (ru_limit st - n)" arbitrary: n st rule: less_induct)
  case less
  show ?case
  proof
    assume "run_loop env svc su n st = None"
    then obtain st' where r: "run_round env svc su n st = (None, st')" "run_loop env svc su (n + 1) st' = None" using loop_unfold by blast
    then have "n < ru_limit st" "ru_limit st' = ru_limit st" using round_limit [OF r(1) assms(1) less.prems] by auto
    then show False using less.hyps [of st' "n + 1"] less.prems r(2) by simp
  qed
qed

definition stops_calling :: "model_service \<Rightarrow> int \<Rightarrow> bool" where
  \<comment> \<open>from this round on the model asks for no tool\<close>
  "stops_calling svc N \<longleftrightarrow> (\<forall>n rq. N \<le> n \<longrightarrow> (case ms_chat svc n rq of Inr (Some r) \<Rightarrow> ar_ToolCalls r = [] | _ \<Rightarrow> True))"

lemma quiet_round:
  assumes "stops_calling svc N" and "N \<le> n" and "0 < n"
  shows "fst (run_round env svc su n st) \<noteq> None"
proof -
  have calls: "mt_ToolCalls (ask_model svc n rq) = []" for rq
    using assms by (auto simp: ask_model_def stops_calling_def silent_turn_def split: sum.splits option.splits)
  have "fst (act_round env svc su n (ask_model svc n rq) s) \<noteq> None" for rq s
    by (simp add: act_round_def Let_def calls split: prod.split option.split)
  then show ?thesis by (auto simp: run_round_def Let_def split: prod.splits option.splits sum.splits)
qed

lemma quiet_loop_ends:
  assumes "stops_calling svc N"
  shows "run_loop env svc su n st \<noteq> None"
proof (induction "nat (max N 1 - n)" arbitrary: n st rule: less_induct)
  case less
  show ?case
  proof
    assume "run_loop env svc su n st = None"
    then obtain st' where r: "run_round env svc su n st = (None, st')" "run_loop env svc su (n + 1) st' = None" using loop_unfold by blast
    then have "\<not> (N \<le> n \<and> 0 < n)" using quiet_round [OF assms] by (metis fst_conv)
    then have "n < max N 1" by (auto simp: max_def)
    then show False using less.hyps [of "n + 1" st'] r(2) by auto
  qed
qed

lemma start_limit:
  "start_run env svc inp c rows ctx um w ch = (su, st) \<Longrightarrow>
    ru_limit st = (if in_MaxToolRounds inp > 0 then in_MaxToolRounds inp else MaxRounds (ae_cfg (re_agent env)))"
  by (auto simp: start_run_def Let_def split: if_splits)

lemma stream_ends:
  assumes "\<And>su st. ru_limit st = (if in_MaxToolRounds inp > 0 then in_MaxToolRounds inp else MaxRounds (ae_cfg (re_agent env))) \<Longrightarrow>
      run_loop env svc su 0 st \<noteq> None"
  shows "RunStream env svc inp w ch \<noteq> None"
proof
  assume "RunStream env svc inp w ch = None"
  then obtain c rows ctx um w4 ch1 su st where "start_run env svc inp c rows ctx um w4 ch1 = (su, st)" "run_loop env svc su 0 st = None"
    by (auto simp: RunStream_def Let_def split: sum.splits prod.splits)
  with assms start_limit show False by blast
qed

subsection \<open>The row of a run\<close>

lemma end_states [simp]:
  "TrimSpace StateDone = StateDone" "TrimSpace StateCancelled = StateCancelled" "TrimSpace ''failed'' = ''failed''" "TrimSpace ''timeout'' = ''timeout''"
  "TrimSpace StatePausedForConfirm = StatePausedForConfirm" "TrimSpace StatePausedForPreview = StatePausedForPreview" by code_simp+

lemma states_differ [simp]:
  "StateCancelled \<noteq> StateDone" "''failed'' \<noteq> StateDone" "''timeout'' \<noteq> StateDone" "StatePausedForConfirm \<noteq> StateDone" "StatePausedForPreview \<noteq> StateDone"
  "StateDone \<noteq> StatePausedForConfirm" "StateDone \<noteq> StatePausedForPreview"
  "\<not> isTerminalSessionState StatePausedForConfirm" "\<not> isTerminalSessionState StatePausedForPreview"
  by code_simp+

lemma final_state_cases:
  obtains "final_state env err completed w = StateDone" "err = None" "completed"
  | "final_state env err completed w \<in> {StateCancelled, ''failed'', ''timeout''}" "\<not> (err = None \<and> completed)"
  by (cases "err = None \<and> completed") (auto simp: final_state_def Let_def split: if_splits)

definition closed_row :: "AgentSessionRow \<Rightarrow> bool" where
  \<comment> \<open>ended, or waiting to be resumed\<close>
  "closed_row row \<longleftrightarrow> (as_EndedAt row \<noteq> None \<and> as_State row \<in> {StateDone, StateCancelled, ''failed'', ''timeout''}
     \<or> as_EndedAt row = None \<and> as_ErrorMessage row = None \<and> as_State row \<in> {StatePausedForConfirm, StatePausedForPreview})"

lemma close_row:
  assumes "ae_works (re_agent env) AUpdateSession (aw_store w)" and "ag_sessions (aw_store w) = old @ [row]"
    and "list_all (\<lambda>r. as_ID r \<noteq> as_ID row) old" and "as_ID row = se_ID (aw_session w)"
  shows "\<exists>row1. ag_sessions (aw_store (close_run env row err completed w)) = old @ [row1] \<and> as_ID row1 = as_ID row
    \<and> as_ConversationID row1 = as_ConversationID row \<and> closed_row row1
    \<and> (as_State row1 = StateDone \<longleftrightarrow> \<not> paused (aw_session w) \<and> err = None \<and> completed)
    \<and> (as_State row1 \<in> {StateCancelled, ''failed'', ''timeout''} \<longrightarrow> as_ErrorMessage row1 = err)"
proof -
  define w1 where "w1 = (if paused (aw_session w) then w else on_session (SetState (final_state env err completed w)) w)"
  define s where "s = aw_session w1"
  define row1 where "row1 = row\<lparr>as_State := se_state s, as_ToolCallCount := se_toolCallCount s, as_ServerOps := se_serverOps s,
      as_ClientOps := se_clientOps s, as_HybridOps := se_hybridOps s, as_TokensUsed := se_tokensUsed s,
      as_ErrorMessage := (if isTerminalSessionState (se_state s) then err else None),
      as_EndedAt := (if isTerminalSessionState (se_state s) then Some (ae_now (re_agent env)) else None)\<rparr>"
  have store: "aw_store w1 = aw_store w" by (simp add: w1_def)
  have old: "map (\<lambda>x. if as_ID x = as_ID row then row1 else x) old = old"
    using assms(3) by (induction old) auto
  have "as_ID row1 = as_ID row" by (simp add: row1_def)
  then have "ag_sessions (snd (SaveSession (ae_works (re_agent env)) row1 (aw_store w))) = old @ [row1]"
    using assms(1,2) old by (simp add: SaveSession_def)
  then have saved: "ag_sessions (aw_store (close_run env row err completed w)) = old @ [row1]"
    unfolding close_run_def Let_def w1_def [symmetric] s_def [symmetric] row1_def [symmetric] by (simp add: store)
  have r1: "as_ID row1 = as_ID row" "as_ConversationID row1 = as_ConversationID row" by (simp_all add: row1_def)
  have fields: "as_State row1 = se_state s" "as_ErrorMessage row1 = (if isTerminalSessionState (se_state s) then err else None)"
    "as_EndedAt row1 = (if isTerminalSessionState (se_state s) then Some (ae_now (re_agent env)) else None)" by (simp_all add: row1_def)
  have ends: "isTerminalSessionState x" if "x \<in> {StateDone, StateCancelled, ''failed'', ''timeout''}" for x
    using that by (auto simp: isTerminalSessionState_def)
  have st: "closed_row row1 \<and> (as_State row1 = StateDone \<longleftrightarrow> \<not> paused (aw_session w) \<and> err = None \<and> completed)
    \<and> (as_State row1 \<in> {StateCancelled, ''failed'', ''timeout''} \<longrightarrow> as_ErrorMessage row1 = err)"
  proof (cases "paused (aw_session w)")
    case True
    then consider "se_state s = StatePausedForConfirm" | "se_state s = StatePausedForPreview" by (auto simp: s_def w1_def paused_def)
    then show ?thesis
    proof cases
      case 1
      have "StatePausedForConfirm \<notin> {StateCancelled, ''failed'', ''timeout''}" by code_simp
      with 1 True show ?thesis by (simp add: closed_row_def fields)
    next
      case 2
      have "StatePausedForPreview \<notin> {StateCancelled, ''failed'', ''timeout''}" by code_simp
      with 2 True show ?thesis by (simp add: closed_row_def fields)
    qed
  next
    case False
    then have s: "se_state s = TrimSpace (final_state env err completed w)" by (simp add: s_def w1_def SetState_def)
    show ?thesis
    proof (cases rule: final_state_cases [of env err completed w])
      case 1
      with s have "se_state s = StateDone" by simp
      with False 1(2,3) show ?thesis using ends [of StateDone] by (simp add: closed_row_def fields)
    next
      case 2
      then have x: "final_state env err completed w \<in> {StateCancelled, ''failed'', ''timeout''}" by simp
      then have "TrimSpace (final_state env err completed w) = final_state env err completed w" by auto
      then have "se_state s \<in> {StateCancelled, ''failed'', ''timeout''}" using x s by simp
      then have m: "se_state s \<in> {StateDone, StateCancelled, ''failed'', ''timeout''}" "se_state s \<noteq> StateDone"
        by (blast, metis states_differ(1-3) insertE emptyE)
      have "closed_row row1" using m(1) ends [OF m(1)] unfolding closed_row_def fields by simp
      moreover have "as_ErrorMessage row1 = err" using ends [OF m(1)] by (simp add: fields)
      ultimately show ?thesis using m(2) 2(2) unfolding fields(1) by blast
    qed
  qed
  show ?thesis
    using saved r1 conjunct1 [OF st] conjunct1 [OF conjunct2 [OF st]] conjunct2 [OF conjunct2 [OF st]]
    by (intro exI [of _ row1] conjI)
qed

lemma from_context_Some: "from_context e \<Longrightarrow> \<exists>x. e = Some x"
  by (cases e) (auto simp: from_context_def)

lemma finish_agrees:
  assumes "finish_run env su x st = ((out, e), err, completed, st')"
  shows "e = None \<longleftrightarrow> \<not> paused (aw_session (ru_world st')) \<and> err = None \<and> completed"
  using assms by (auto simp: finish_run_def Let_def in_world_def paused_def SetState_def dest: from_context_Some
      split: run_exit.splits if_splits prod.splits sum.splits)

definition left_running :: "agent_env \<Rightarrow> AgentSessionRow \<Rightarrow> bool" where
  \<comment> \<open>the last update of the row can fail, and its error is dropped\<close>
  "left_running env row \<longleftrightarrow> as_State row = StateRunning \<and> as_EndedAt row = None \<and> (\<exists>st. \<not> ae_works env AUpdateSession st)"

lemma close_row_fails:
  assumes "\<not> ae_works (re_agent env) AUpdateSession (aw_store w)"
  shows "ag_sessions (aw_store (close_run env row err completed w)) = ag_sessions (aw_store w)"
  using assms by (simp add: close_run_def Let_def SaveSession_def)

lemma run_row:
  assumes "RunStream env svc inp w ch = Some ((out, err), w', ch')" and "admit_run env inp w ch = Inr c"
    and new: "list_all (\<lambda>r. as_ID r \<noteq> se_ID (aw_session w)) (ag_sessions (aw_store w))"
  shows "ag_sessions (aw_store w') = ag_sessions (aw_store w) \<and> err = Some ErrRunStore
    \<or> (\<exists>row. ag_sessions (aw_store w') = ag_sessions (aw_store w) @ [row] \<and> as_ID row = se_ID (aw_session w)
        \<and> as_ConversationID row = cv_ID c
        \<and> (closed_row row \<and> (as_State row = StateDone \<longleftrightarrow> err = None) \<or> left_running (re_agent env) row))"
    (is "?none \<or> ?one")
proof (cases "ae_works (re_agent env) ACreateSession (aw_store w)")
  case False
  then have ?none using assms(1) by (auto simp: RunStream_def assms(2) on_store_def CreateSession_def Let_def)
  then show ?thesis ..
next
  case True
  have ?one
  proof -
  let ?i = "se_ID (aw_session w)" and ?old = "ag_sessions (aw_store w)"
  define w1 where "w1 = on_session (open_session inp c) w"
  define row where "row = new_session_row inp c w1"
  have row: "as_ID row = ?i" "as_ConversationID row = cv_ID c" by (simp_all add: row_def new_session_row_def w1_def)
  obtain w2 where k: "on_store (CreateSession (ae_works (re_agent env)) row) w1 = (ok, w2)"
    and w2: "se_ID (aw_session w2) = ?i" "ag_sessions (aw_store w2) = ?old @ [row]"
    using True by (auto simp: on_store_def CreateSession_def w1_def)
  obtain l w3 where l: "load_run env inp c w2 ch = (l, w3)" by fastforce
  have w3: "se_ID (aw_session w3) = ?i \<and> ag_sessions (aw_store w3) = ?old @ [row]"
    using one_session.I_load [OF l] w2 by blast
  have close: "\<exists>row1. ag_sessions (aw_store (close_run env row er completed v)) = ?old @ [row1] \<and> as_ID row1 = ?i
      \<and> as_ConversationID row1 = cv_ID c
      \<and> (closed_row row1 \<and> (as_State row1 = StateDone \<longleftrightarrow> \<not> paused (aw_session v) \<and> er = None \<and> completed) \<or> left_running (re_agent env) row1)"
    if "se_ID (aw_session v) = ?i \<and> ag_sessions (aw_store v) = ?old @ [row]" for v er completed
  proof (cases "ae_works (re_agent env) AUpdateSession (aw_store v)")
    case True
    then show ?thesis using close_row [of env v ?old row er completed] that new row by auto
  next
    case False
    then have "left_running (re_agent env) row" by (auto simp: left_running_def row_def new_session_row_def)
    then show ?thesis using close_row_fails [OF False, of row er completed] that row by auto
  qed
  note run = assms(1) [unfolded RunStream_def assms(2) sum.case Let_def w1_def [symmetric] row_def [symmetric] k prod.case l]
  show ?thesis
  proof (cases l)
    case (Inl e)
    then have "w' = close_run env row None False w3" "err = Some e" using run by auto
    then show ?thesis using close [OF w3, of None False] by simp
  next
    case (Inr ld)
    obtain rows ctx snap where ld: "ld = (rows, ctx, snap)" by (metis prod_cases3)
    define um where "um = plain_row (re_chat env) (aw_next w3) (cv_ID c) ''user'' (TrimSpace (in_Message inp))"
    define w4 where "w4 = w3\<lparr>aw_snapshot := snap, aw_next := aw_next w3 + 1\<rparr>"
    have w4: "se_ID (aw_session w4) = ?i \<and> ag_sessions (aw_store w4) = ?old @ [row]" using w3 by (simp add: w4_def)
    obtain pr ch1 where p: "post_message (re_chat env) um (buildConversationTitle (TrimSpace (in_Message inp))) ch = (pr, ch1)" by fastforce
    note run = run [unfolded Inr sum.case ld prod.case um_def [symmetric] w4_def [symmetric] p]
    show ?thesis
    proof (cases pr)
      case (Inl e)
      then have "w' = close_run env row None False w4" "err = Some ErrRunStore" using run by auto
      then show ?thesis using close [OF w4, of None False] by simp
    next
      case (Inr u)
      obtain su st where s: "start_run env svc inp c rows ctx um w4 ch1 = (su, st)" by fastforce
      note good = one_session.good_def [of ?i "?old @ [row]"]
      have st: "se_ID (aw_session (ru_world st)) = ?i \<and> ag_sessions (aw_store (ru_world st)) = ?old @ [row]" "su_conversation su = c"
        using s w4 by (auto simp: start_run_def set_plan_def Let_def in_world_def think_def split: if_splits sum.splits)
      obtain x st1 where lo: "run_loop env svc su 0 st = Some (x, st1)"
        and fin: "(case finish_run env su x st1 of (result, err, completed, st2) \<Rightarrow>
          (result, close_run env row err completed (ru_world st2), ru_chat st2)) = ((out, err), w', ch')"
        using run unfolding Inr sum.case s prod.case by auto
      have st1: "se_ID (aw_session (ru_world st1)) = ?i \<and> ag_sessions (aw_store (ru_world st1)) = ?old @ [row]"
        using one_session.good_loop [OF lo, of ?i "?old @ [row]"] st(1) by (simp add: good)
      obtain er completed st2 where f: "finish_run env su x st1 = ((out, err), er, completed, st2)"
        "w' = close_run env row er completed (ru_world st2)" using fin by (auto split: prod.splits)
      have trim: "TrimSpace (cv_ID c) = cv_ID c"
        using assms(2) by (auto simp: admit_run_def query_chat_def dest: find_conversation split: if_splits sum.splits option.splits)
      have "se_ID (aw_session (ru_world st2)) = ?i \<and> ag_sessions (aw_store (ru_world st2)) = ?old @ [row]"
        using one_session.good_finish [OF f(1), of ?i "?old @ [row]"] st1 st(2) trim by (simp add: good)
      from close [OF this, of er completed] finish_agrees [OF f(1)] show ?thesis by (simp add: f(2))
    qed
  qed
qed
  then show ?thesis ..
qed

end
