(* ===== verification/RunTheorems.thy ===== *)
theory RunTheorems
  imports RunEffects RoundTheorems
begin

text \<open>
  Runs of the agent: when they end and in which row, what a read-only run and a refused one leave alone, what
  every run keeps of the tables, and how much a run remembers.
\<close>

subsection \<open>A run to evaluate on\<close>

definition ex_run_env :: run_env where
  "ex_run_env = \<lparr> re_agent = (ex_env [])\<lparr>ae_member := (\<lambda>_ _ _. Inr (Some \<lparr> pm_ID = ''m1'', pm_ProjectID = ''p'', pm_UserID = ''u'',
       pm_Role = ''editor'', pm_Status = ''active'' \<rparr>))\<rparr>, re_chat = ex_chat_env,
     re_wording = \<lparr> wo_text = (\<lambda>_. ''text''), wo_decode = (\<lambda>_. RawBad ''text'') \<rparr>, re_jsonb = (\<lambda>v. v),
     re_Enabled = True, re_EnablePlannerPhase = False, re_IncludeHybridTools = False, re_AgentModel = ''m'', re_MaxToolSummaryChars = 0,
     re_tree = (\<lambda>_ _. Inr ([], [], 3)), re_knowledge = (\<lambda>_ _. Inr ([], [], 3)), re_ended = (\<lambda>_. False) \<rparr>"

definition ex_unknown_call :: ToolCall where
  "ex_unknown_call = \<lparr> call_ID = ''c1'', call_Name = ''no_such_tool'', call_Arguments = RawEmpty \<rparr>"

definition ex_model :: model_service where
  \<comment> \<open>one call that no tool answers, and then always another one\<close>
  "ex_model = \<lparr> ms_stream = (\<lambda>_. ([''I '', ''look.''], silent_turn\<lparr>mt_ToolCalls := [ex_unknown_call]\<rparr>)),
     ms_chat = (\<lambda>_ _. Inr (Some \<lparr> ar_Reply = [], ar_ReasoningContent = [], ar_ToolCalls = [ex_unknown_call], ar_TokensUsed = 0,
       ar_ModelUsed = [] \<rparr>)) \<rparr>"

definition ex_input :: "bool \<Rightarrow> int option \<Rightarrow> AgentRunInput" where
  "ex_input readOnly revision = \<lparr> in_ConversationID = ''c'', in_UserID = ''u'', in_Message = ''fix it'', in_Model = '''', in_GraphSnapshot = None,
     in_ClientRevision = revision, in_ReadOnly = readOnly, in_MaxToolRounds = 2, in_FocusNodeIDs = [], in_SelectedNodeIDs = [] \<rparr>"

lemma ex_never_continued: "never_continued (re_agent ex_run_env)"
  by (simp add: never_continued_def ex_run_env_def ex_env_def)

lemma ex_run:
  obtains out err w' ch' where "RunStream ex_run_env ex_model (ex_input readOnly revision) ex_world ex_chat = Some ((out, err), w', ch')"
proof -
  have "RunStream ex_run_env ex_model (ex_input readOnly revision) ex_world ex_chat \<noteq> None"
    by (rule stream_ends, rule limited_loop_ends [OF ex_never_continued]) (simp add: ex_input_def)
  then show thesis using that by auto
qed

lemma ex_input_fields:
  "in_ConversationID (ex_input readOnly revision) = ''c''" "in_UserID (ex_input readOnly revision) = ''u''"
  "in_Message (ex_input readOnly revision) = ''fix it''"
  by (simp_all add: ex_input_def)

lemma ex_admitted: "admit_run ex_run_env (ex_input readOnly revision) ex_world ex_chat = Inr ex_conversation"
proof -
  have "admit_run ex_run_env (ex_input False None) ex_world ex_chat = Inr ex_conversation" by code_simp
  then show ?thesis unfolding admit_run_def ex_input_fields .
qed

subsection \<open>The end\<close>

text \<open>C23: A run of the agent returns, whatever the tools, the database and the user do, when it has a limit of rounds that
  nobody extends, or when the model stops asking for tools at some round: only a user who keeps continuing, or
  a run without a limit whose model never stops, can keep it going.\<close>

theorem run_ends:
  assumes "never_continued (re_agent env) \<and> 0 < (if in_MaxToolRounds inp > 0 then in_MaxToolRounds inp else MaxRounds (ae_cfg (re_agent env)))
    \<or> stops_calling svc N"
  shows "\<exists>r w' ch'. RunStream env svc inp w ch = Some (r, w', ch')"
proof -
  have "RunStream env svc inp w ch \<noteq> None"
    by (rule stream_ends) (use assms limited_loop_ends quiet_loop_ends in metis)
  then show ?thesis by auto
qed

theorem run_ends_witness:
  "(\<exists>r w' ch'. RunStream ex_run_env ex_model (ex_input False None) ex_world ex_chat = Some (r, w', ch'))
    \<and> (\<exists>r w' ch'. RunStream ex_run_env (ex_model\<lparr>ms_chat := (\<lambda>_ _. Inr None)\<rparr>) (ex_input False None) ex_world ex_chat = Some (r, w', ch'))"
proof
  show "\<exists>r w' ch'. RunStream ex_run_env ex_model (ex_input False None) ex_world ex_chat = Some (r, w', ch')"
    by (rule run_ends) (simp add: ex_never_continued ex_input_def)
  show "\<exists>r w' ch'. RunStream ex_run_env (ex_model\<lparr>ms_chat := (\<lambda>_ _. Inr None)\<rparr>) (ex_input False None) ex_world ex_chat = Some (r, w', ch')"
    by (rule run_ends [where N = 0]) (simp add: stops_calling_def)
qed

text \<open>The rounds a user grants are added without a bound: a number near the largest \<open>int\<close> makes the limit negative,
  and neither the gate nor the safety controller stops the run at a round again.\<close>

theorem huge_extension_lifts_limit:
  assumes "0 < ru_limit st" and "ru_limit st < 2 ^ 63" and "ru_limit st \<le> n"
    and "requestIterationContinuation (re_agent env) n (ru_limit st) (think ''round_limit_reached'' (n + 1) (ru_world st))
      = (Inr (Some (2 ^ 63 - 1)), w)"
  shows "\<exists>st'. limit_gate env n st = (None, st') \<and> ru_limit st' < 0
    \<and> (\<forall>m st2. ru_limit st2 = ru_limit st' \<longrightarrow> limit_gate env m st2 = (None, st2) \<and> CheckRoundWithLimit m (ru_limit st2) = ok)"
proof -
  have "(ru_limit st + (2 ^ 63 - 1) + 2 ^ 63) mod 2 ^ 64 = ru_limit st - 1"
    using assms(1,2) by (subst minus_mod_self2 [symmetric]) (simp add: mod_pos_pos_trivial)
  then have "int_plus (ru_limit st) (2 ^ 63 - 1) < 0" using assms(2) by (simp add: int_plus_def)
  then show ?thesis using assms by (simp add: limit_gate_def CheckRoundWithLimit_def)
qed



subsection \<open>What a run leaves alone\<close>

text \<open>C25: A read-only run leaves every row of the database's graphs and projects as it was, from the message of the
  user to the stored answer, through all its rounds: whatever the model asks for, however the user answers, and whichever
  statements fail.\<close>

theorem read_only_run_writes_nothing:
  assumes "RunStream env svc inp w ch = Some (r, w', ch')" and "in_ReadOnly inp"
  shows "aw_db w' = aw_db w"
  using read_only_run.I_run [OF assms(1), of "aw_db w"] assms(2) by simp

theorem read_only_run_writes_nothing_witness:
  "\<exists>r w' ch'. RunStream ex_run_env ex_model (ex_input True (Some 1)) ex_world ex_chat = Some (r, w', ch') \<and> aw_db w' = aw_db ex_world"
proof -
  obtain out err w' ch' where r: "RunStream ex_run_env ex_model (ex_input True (Some 1)) ex_world ex_chat = Some ((out, err), w', ch')"
    by (rule ex_run)
  have "aw_db w' = aw_db ex_world" by (rule read_only_run_writes_nothing [OF r]) (simp add: ex_input_def)
  with r show ?thesis by blast
qed

text \<open>C26: Whatever happens in a run, afterwards no audit row says running where the updates of the audit table work, and
  in the chat tables every message belongs to a conversation that exists and no conversation counts more
  messages than it has.\<close>

theorem runs_leave_tables_tidy:
  assumes "RunStream env svc inp w ch = Some (r, w', ch')" and "updates_work (re_agent env)"
    and "none_running w" and "chat_tables_ok ch"
  shows "none_running w' \<and> chat_tables_ok ch'"
  using tidy_run.I_run [OF assms(1)] assms(2-4) by simp

theorem runs_leave_tables_tidy_witness:
  "\<exists>r w' ch'. RunStream ex_run_env ex_model (ex_input False (Some 3)) ex_world ex_chat = Some (r, w', ch') \<and> none_running w' \<and> chat_tables_ok ch'"
proof -
  obtain out err w' ch' where r: "RunStream ex_run_env ex_model (ex_input False (Some 3)) ex_world ex_chat = Some ((out, err), w', ch')"
    by (rule ex_run)
  have "none_running w' \<and> chat_tables_ok ch'"
    using r
  proof (rule runs_leave_tables_tidy)
    show "updates_work (re_agent ex_run_env)" by (simp add: updates_work_def ex_run_env_def ex_env_def)
    show "none_running ex_world" by (simp add: none_running_def ex_world_def ex_row_def)
    show "chat_tables_ok ex_chat" by code_simp
  qed
  with r show ?thesis by blast
qed

subsection \<open>A client that is behind\<close>

lemma close_run_db [simp]: "aw_db (close_run env row err completed w) = aw_db w"
  "ag_calls (aw_store (close_run env row err completed w)) = ag_calls (aw_store w)"
  by (simp_all add: close_run_def Let_def SaveSession_def)

lemma think_sel [simp]: "aw_db (think ph n w) = aw_db w" "aw_store (think ph n w) = aw_store w" "aw_session (think ph n w) = aw_session w"
  by (simp_all add: think_def)

text \<open>C27: A client whose revision is not the server's may not edit: the run is refused with the conflict, the
  graphs, the tool calls and the conversation stay as they were (the message of the user is not stored either),
  and the row of the session is closed as not done, without any error text.\<close>

theorem stale_client_refused:
  assumes "admit_run env inp w ch = Inr c" and "\<And>k st. ae_works (re_agent env) k st" and "ce_answers (re_chat env) SelectMessages"
    and "load_context env c w = Inr (ctx, revision)" and "in_ClientRevision inp = Some r" and "r \<noteq> revision" and "\<not> in_ReadOnly inp"
    and "list_all (\<lambda>x. as_ID x \<noteq> se_ID (aw_session w)) (ag_sessions (aw_store w))"
  shows "\<exists>w' row. RunStream env svc inp w ch = Some ((None, Some ErrAgentClientRevisionConflict), w', ch)
    \<and> aw_db w' = aw_db w \<and> ag_calls (aw_store w') = ag_calls (aw_store w) \<and> ag_sessions (aw_store w') = ag_sessions (aw_store w) @ [row]
    \<and> as_State row \<noteq> StateDone \<and> closed_row row \<and> as_ErrorMessage row = None"
proof -
  define w1 where "w1 = on_session (open_session inp c) w"
  define row where "row = new_session_row inp c w1"
  obtain w2 where k: "on_store (CreateSession (ae_works (re_agent env)) row) w1 = (ok, w2)"
    and w2: "se_ID (aw_session w2) = se_ID (aw_session w)" "ag_sessions (aw_store w2) = ag_sessions (aw_store w) @ [row]"
      "aw_db w2 = aw_db w" "ag_calls (aw_store w2) = ag_calls (aw_store w)"
    using assms(2) by (auto simp: on_store_def CreateSession_def w1_def)
  define w3 where "w3 = emit (RevisionMismatchEvent r revision) (think ''context_loaded'' 0 w2)"
  have "load_context env c w2 = Inr (ctx, revision)" using assms(4) unfolding load_context_def w2(3) .
  then have l: "load_run env inp c w2 ch = (Inl ErrAgentClientRevisionConflict, w3)"
    using assms(3,5-7) by (simp add: load_run_def query_chat_def w3_def Let_def)
  have w3: "ag_sessions (aw_store w3) = ag_sessions (aw_store w) @ [row]" "se_ID (aw_session w3) = se_ID (aw_session w)"
    "aw_db w3 = aw_db w" "ag_calls (aw_store w3) = ag_calls (aw_store w)" using w2 by (simp_all add: w3_def)
  have run: "RunStream env svc inp w ch = Some ((None, Some ErrAgentClientRevisionConflict), close_run env row None False w3, ch)"
    unfolding RunStream_def assms(1) sum.case Let_def w1_def [symmetric] row_def [symmetric] k prod.case l by simp
  have id: "as_ID row = se_ID (aw_session w)" by (simp add: row_def new_session_row_def w1_def)
  obtain row1 where r1: "ag_sessions (aw_store (close_run env row None False w3)) = ag_sessions (aw_store w) @ [row1]" "closed_row row1"
    "as_State row1 \<noteq> StateDone" "as_State row1 \<in> {StateCancelled, ''failed'', ''timeout''} \<longrightarrow> as_ErrorMessage row1 = None"
    using close_row [OF assms(2) w3(1), of None False] assms(8) id w3(2) by auto
  then have "as_ErrorMessage row1 = None" by (auto simp: closed_row_def)
  with run r1 w3 show ?thesis by (intro exI [of _ "close_run env row None False w3"] exI [of _ row1]) simp
qed

theorem stale_client_refused_witness:
  "\<exists>w' row. RunStream ex_run_env ex_model (ex_input False (Some 2)) ex_world ex_chat = Some ((None, Some ErrAgentClientRevisionConflict), w', ex_chat)
    \<and> aw_db w' = aw_db ex_world \<and> ag_calls (aw_store w') = ag_calls (aw_store ex_world)
    \<and> ag_sessions (aw_store w') = ag_sessions (aw_store ex_world) @ [row] \<and> as_State row \<noteq> StateDone \<and> closed_row row \<and> as_ErrorMessage row = None"
proof (rule stale_client_refused [OF ex_admitted, where ctx = "TreeContext [] []" and revision = 3 and r = 2])
  show "load_context ex_run_env ex_conversation ex_world = Inr (TreeContext [] [], 3)" by code_simp
qed (simp_all add: ex_run_env_def ex_env_def ex_chat_env_def ex_input_def ex_world_def)

subsection \<open>The memory of a run\<close>

definition memory_ok :: "roundExecutionState \<Rightarrow> bool" where
  "memory_ok s \<longleftrightarrow> length (xs_knownFacts s) \<le> 12 \<and> distinct (xs_knownFacts s) \<and> length (xs_recentActions s) \<le> 12 \<and> distinct (xs_recentActions s)
     \<and> length (xs_repairGuide s) \<le> 12"

lemma remember_ok: "length xs \<le> 12 \<and> distinct xs \<Longrightarrow> length (remember x xs) \<le> 12 \<and> distinct (remember x xs)"
  by (cases xs) (auto simp: remember_def)

lemma window_of_twelve: "n - (n - 12) \<le> (12::nat)"
  by simp

lemma append_ok: "memory_ok s \<Longrightarrow> memory_ok (appendRepairGuideEntries es s)"
  by (simp add: memory_ok_def appendRepairGuideEntries_def Let_def window_of_twelve del: drop_append length_append)

lemma parse_ok: "memory_ok s \<Longrightarrow> memory_ok (parseRepairGuideFromSummary wo t s)"
  by (simp add: parseRepairGuideFromSummary_def Let_def append_ok split: option.split)

lemma fact_ok: "memory_ok s \<Longrightarrow> memory_ok (record_fact wo t s)"
  using parse_ok [of s wo "TrimSpace t"] remember_ok by (auto simp: record_fact_def Let_def memory_ok_def)

lemma action_ok: "memory_ok s \<Longrightarrow> memory_ok (record_action c s)"
  using remember_ok by (auto simp: record_action_def Let_def memory_ok_def)

lemma fold_ok: "(\<And>x s. memory_ok s \<Longrightarrow> memory_ok (f x s)) \<Longrightarrow> memory_ok s \<Longrightarrow> memory_ok (fold f xs s)"
  by (induction xs arbitrary: s) auto

text \<open>C29: However long a run gets and whatever its rounds report, it remembers at most twelve facts and twelve actions,
  all different, and keeps at most twelve entries of the repair guide.\<close>

theorem memory_bounded:
  "memory_ok (fold (\<lambda>(summaries, calls). RecordRound wo summaries calls) rounds (newRoundExecutionState goal))"
proof (rule fold_ok)
  show "memory_ok (newRoundExecutionState goal)" by (simp add: memory_ok_def newRoundExecutionState_def)
  show "memory_ok s \<Longrightarrow> memory_ok ((case x of (summaries, calls) \<Rightarrow> RecordRound wo summaries calls) s)" for x s
    by (auto simp: RecordRound_def intro!: fold_ok action_ok fact_ok split: prod.split)
qed

end
