(* ===== verification/Substrings.thy ===== *)
theory Substrings
  imports GoJson "HOL-Library.Sublist"
begin

text \<open>
  The searches in strings that the code of \<open>internal/ai\<close> uses: \<open>strings.HasPrefix\<close>, \<open>Index\<close>,
  \<open>Contains\<close>, \<open>Split\<close> into lines, \<open>ReplaceAll\<close> of line ends, and the trimming of prefixes and suffixes.
\<close>

abbreviation HasPrefix :: "string \<Rightarrow> string \<Rightarrow> bool" where
  "HasPrefix s p \<equiv> prefix p s"

fun Index :: "string \<Rightarrow> string \<Rightarrow> nat option" where
  "Index [] sub = (if sub = [] then Some 0 else None)"
| "Index (c # cs) sub = (if prefix sub (c # cs) then Some 0 else map_option Suc (Index cs sub))"

definition Contains :: "string \<Rightarrow> string \<Rightarrow> bool" where
  "Contains s sub \<longleftrightarrow> Index s sub \<noteq> None"

definition LastIndexByte :: "string \<Rightarrow> char \<Rightarrow> nat option" where
  "LastIndexByte s c = (if c \<in> set s then Some (length s - 1 - length (takeWhile (\<lambda>x. x \<noteq> c) (rev s))) else None)"

definition TrimPrefix :: "string \<Rightarrow> string \<Rightarrow> string" where
  "TrimPrefix s p = (if prefix p s then drop (length p) s else s)"

definition TrimSuffix :: "string \<Rightarrow> string \<Rightarrow> string" where
  "TrimSuffix s p = (if suffix p s then take (length s - length p) s else s)"

fun Lines_aux :: "string \<Rightarrow> string \<Rightarrow> string list" where
  "Lines_aux cur [] = [rev cur]"
| "Lines_aux cur (c # cs) = (if c = CHR 0x0A then rev cur # Lines_aux [] cs else Lines_aux (c # cur) cs)"

definition Lines :: "string \<Rightarrow> string list" where
  \<comment> \<open>\<open>strings.Split(s, "\n")\<close>\<close>
  "Lines s = Lines_aux [] s"

fun unix_lines :: "string \<Rightarrow> string" where
  \<comment> \<open>\<open>strings.ReplaceAll(s, "\r\n", "\n")\<close>\<close>
  "unix_lines (a # b # cs) = (if a = CHR 0x0D \<and> b = CHR 0x0A then b # unix_lines cs else a # unix_lines (b # cs))"
| "unix_lines cs = cs"

abbreviation line_end :: string where
  "line_end \<equiv> [CHR 0x0A]"

subsection \<open>Facts\<close>

lemma Index_Some:
  assumes "Index s sub = Some i"
  shows "i + length sub \<le> length s" and "s = take i s @ sub @ drop (i + length sub) s"
proof -
  show "i + length sub \<le> length s"
    using assms by (induction s arbitrary: i) (auto dest: prefix_length_le split: if_splits)
  show "s = take i s @ sub @ drop (i + length sub) s"
    using assms by (induction s arbitrary: i) (auto simp: prefix_def split: if_splits)
qed

lemma Lines_aux_plain: "CHR 0x0A \<notin> set s \<Longrightarrow> Lines_aux cur s = [rev cur @ s]"
  by (induction s arbitrary: cur) auto

lemma Lines_aux_cons: "CHR 0x0A \<notin> set s \<Longrightarrow> Lines_aux cur (s @ CHR 0x0A # t) = (rev cur @ s) # Lines_aux [] t"
  by (induction s arbitrary: cur) auto

lemma Lines_Join:
  "list_all (\<lambda>l. CHR 0x0A \<notin> set l) ls \<Longrightarrow> ls \<noteq> [] \<Longrightarrow> Lines (Join ls line_end) = ls"
proof (induction ls line_end rule: Join.induct)
  case (2 x)
  then show ?case by (simp add: Lines_def Lines_aux_plain)
next
  case (3 x y ys)
  then show ?case by (simp add: Lines_def Lines_aux_cons)
qed simp

lemma unix_lines_id: "CHR 0x0D \<notin> set s \<Longrightarrow> unix_lines s = s"
  by (induction s rule: unix_lines.induct) auto

end
