(* ===== verification/ContextChunks.thy ===== *)
theory ContextChunks
  imports Substrings
begin

text \<open>
  The graph as the language model is shown it (\<open>internal/ai/client.go\<close>, \<open>internal/ai/agent_client.go\<close>):
  whole, cut into chunks of four hundred nodes with the edges between them listed apart, or as a summary with
  samples. The graph is what \<open>json.Unmarshal\<close> makes of the printed context; the number printed for
  the quotient of two counts is an argument.
\<close>

subsection \<open>Nodes and edges of any shape\<close>

definition mapString :: "payload \<Rightarrow> string \<Rightarrow> string" where
  "mapString m key = (case member_of m key of Some (JStr s) \<Rightarrow> TrimSpace s | _ \<Rightarrow> '''')"

definition first_text :: "payload \<Rightarrow> string list \<Rightarrow> string" where
  "first_text m keys = (case filter (\<lambda>s. s \<noteq> '''') (map (mapString m) keys) of [] \<Rightarrow> '''' | s # _ \<Rightarrow> s)"

definition nodeID :: "payload \<Rightarrow> string" where
  "nodeID n = mapString n ''id''"

definition edgeSourceID :: "payload \<Rightarrow> string" where
  "edgeSourceID e = first_text e [''source'', ''from'', ''fromNodeId'', ''from_node_id'']"

definition edgeTargetID :: "payload \<Rightarrow> string" where
  "edgeTargetID e = first_text e [''target'', ''to'', ''toNodeId'', ''to_node_id'']"

definition normalizeNodeCategory :: "string \<Rightarrow> payload \<Rightarrow> string" where
  "normalizeNodeCategory graphType n =
     (let data = (\<lambda>key. case member_of n ''data'' of Some (JObj d) \<Rightarrow> mapString d key | _ \<Rightarrow> '''');
          known = filter (\<lambda>s. s \<noteq> '''')
            (if graphType = ''knowledgeGraph'' then [data ''entityType'', mapString n ''entityType'', mapString n ''type'']
             else [data ''nodeType'', mapString n ''type'']) in
      case known of
        s # _ \<Rightarrow> ToLower s
      | [] \<Rightarrow> if graphType \<noteq> ''knowledgeGraph'' \<and> mapString n ''gateType'' \<noteq> ''''
              then ''gate:'' @ ToLower (mapString n ''gateType'') else ''unknown'')"

fun toMapSlice :: "json option \<Rightarrow> payload list" where
  "toMapSlice (Some (JArr vs)) = List.map_filter (\<lambda>v. case v of JObj m \<Rightarrow> Some m | _ \<Rightarrow> None) vs"
| "toMapSlice _ = []"

definition graph_field :: "payload \<Rightarrow> string list \<Rightarrow> (string \<times> payload list) option" where
  \<comment> \<open>the first field with objects in it, or the first field when it is an empty array\<close>
  "graph_field obj keys =
     (case filter (\<lambda>k. toMapSlice (member_of obj k) \<noteq> []) keys of
        k # _ \<Rightarrow> Some (k, toMapSlice (member_of obj k))
      | [] \<Rightarrow> if member_of obj (hd keys) = Some (JArr []) then Some (hd keys, []) else None)"

definition extractGraphArrays :: "payload \<Rightarrow> string \<Rightarrow> (string \<times> string \<times> payload list \<times> payload list) option" where
  "extractGraphArrays obj graphType =
     (let knowledge = graphType = ''knowledgeGraph'' in
      case (graph_field obj (if knowledge then [''rfNodes'', ''nodes''] else [''nodes'', ''rfNodes'']),
            graph_field obj (if knowledge then [''rfEdges'', ''edges''] else [''edges'', ''rfEdges''])) of
        (Some (nf, ns), Some (ef, es)) \<Rightarrow> Some (nf, ef, ns, es)
      | _ \<Rightarrow> None)"

subsection \<open>The header\<close>

definition json_int :: "int \<Rightarrow> json" where
  "json_int i = JNum (show_int i) i (Some i)"

abbreviation json_nat :: "nat \<Rightarrow> json" where
  "json_nat n \<equiv> json_int (int n)"

definition json_slice :: "payload list \<Rightarrow> json" where
  \<comment> \<open>a slice that was never appended to is printed as \<open>null\<close>\<close>
  "json_slice ms = (if ms = [] then JNull else JArr (map JObj ms))"

definition topCountEntries :: "string list \<Rightarrow> nat \<Rightarrow> json" where
  \<comment> \<open>the most frequent first, equal counts by name\<close>
  "topCountEntries names n =
     JArr (map (\<lambda>(k, c). JObj [(''type'', JStr k), (''count'', json_nat c)])
       (take n (sort_key (\<lambda>(k, c). - int c) (sort_key fst (map (\<lambda>k. (k, count_list names k)) (remdups names))))))"

definition estimateDensity :: "(nat \<Rightarrow> nat \<Rightarrow> json) \<Rightarrow> nat \<Rightarrow> nat \<Rightarrow> json" where
  "estimateDensity ratio n e =
     (if n \<le> 1 then json_int 0 else if e > n * (n - 1) then json_int 1 else ratio e (n * (n - 1)))"

definition buildChunkSummaryHeader ::
    "(nat \<Rightarrow> nat \<Rightarrow> json) \<Rightarrow> string \<Rightarrow> payload list \<Rightarrow> payload list \<Rightarrow> payload list list \<Rightarrow> payload list list \<Rightarrow> payload list \<Rightarrow> json" where
  "buildChunkSummaryHeader ratio graphType nodes edges chunkNodes chunkEdges cross =
     (let ids = remdups (filter (\<lambda>i. i \<noteq> '''') (map nodeID nodes));
          inDegree = (\<lambda>i. count_list (map edgeTargetID edges) i); outDegree = (\<lambda>i. count_list (map edgeSourceID edges) i);
          many = (\<lambda>P. json_nat (length (filter P ids))); sizes = (\<lambda>xss. JArr (map (\<lambda>xs. json_nat (length xs)) xss)) in
      JObj [(''version'', json_int 1),
            (''purpose'', JStr ''quick orientation only; full reasoning must still use chunks and crossChunkEdges''),
            (''nodeCount'', json_nat (length nodes)), (''edgeCount'', json_nat (length edges)),
            (''crossChunkEdgeCount'', json_nat (length cross)), (''chunkCount'', json_nat (length chunkNodes)),
            (''chunkNodeCounts'', sizes chunkNodes), (''chunkEdgeCounts'', sizes chunkEdges),
            (''nodeTypeTop'', topCountEntries (map (normalizeNodeCategory graphType) nodes) 10),
            (''topology'', JObj [(''rootLikeNodes'', many (\<lambda>i. inDegree i = 0)), (''leafLikeNodes'', many (\<lambda>i. outDegree i = 0)),
               (''isolatedNodes'', many (\<lambda>i. inDegree i = 0 \<and> outDegree i = 0)),
               (''estimatedDensity'', estimateDensity ratio (length nodes) (length edges))])])"

subsection \<open>Chunks\<close>

abbreviation contextChunkSize :: nat where
  "contextChunkSize \<equiv> 400"

definition chunk_of :: "payload list \<Rightarrow> string \<Rightarrow> nat" where
  \<comment> \<open>the chunk of the last node with the identifier, from one on; zero when there is none\<close>
  "chunk_of nodes i =
     (case map_of (rev (map (\<lambda>(k, n). (nodeID n, k div contextChunkSize + 1)) (enumerate 0 nodes))) i of
        Some k \<Rightarrow> if i = '''' then 0 else k | None \<Rightarrow> 0)"

definition chunk_count :: "payload list \<Rightarrow> nat" where
  "chunk_count nodes = (length nodes + contextChunkSize - 1) div contextChunkSize"

definition chunk_nodes :: "payload list \<Rightarrow> nat \<Rightarrow> payload list" where
  "chunk_nodes nodes k = take contextChunkSize (drop (k * contextChunkSize) nodes)"

definition edge_chunks :: "payload list \<Rightarrow> payload \<Rightarrow> nat \<times> nat" where
  "edge_chunks nodes e = (chunk_of nodes (edgeSourceID e), chunk_of nodes (edgeTargetID e))"

definition crosses :: "payload list \<Rightarrow> payload \<Rightarrow> bool" where
  "crosses nodes e = (case edge_chunks nodes e of (s, t) \<Rightarrow> \<not> (s > 0 \<and> t > 0 \<and> s = t))"

definition chunk_edges :: "payload list \<Rightarrow> payload list \<Rightarrow> nat \<Rightarrow> payload list" where
  "chunk_edges nodes edges k = filter (\<lambda>e. \<not> crosses nodes e \<and> fst (edge_chunks nodes e) = k + 1) edges"

definition cross_edge :: "payload list \<Rightarrow> payload \<Rightarrow> payload" where
  \<comment> \<open>a copy with two more members; an edge that is printed from a row of the graph has neither yet\<close>
  "cross_edge nodes e = (case edge_chunks nodes e of (s, t) \<Rightarrow> e @ [(''sourceChunk'', json_nat s), (''targetChunk'', json_nat t)])"

definition print_chunk :: "payload list \<Rightarrow> payload list \<Rightarrow> nat \<Rightarrow> json" where
  "print_chunk nodes edges k =
     (let ns = chunk_nodes nodes k; es = chunk_edges nodes edges k; start = k * contextChunkSize; stop = start + length ns in
      JObj [(''index'', json_nat (k + 1)), (''nodeStart'', json_nat start), (''nodeEnd'', json_nat stop),
            (''nodeCount'', json_nat (length ns)), (''edgeCount'', json_nat (length es)), (''nodes'', json_slice ns),
            (''edges'', json_slice es), (''nodeIdRangeRef'', JStr (''nodes['' @ show_nat start @ '':'' @ show_nat stop @ '']''))])"

definition buildChunkedGraphPayload :: "(nat \<Rightarrow> nat \<Rightarrow> json) \<Rightarrow> json \<Rightarrow> string \<Rightarrow> json option" where
  "buildChunkedGraphPayload ratio contextData graphType =
     (case struct_members (RawJson contextData) of
        None \<Rightarrow> None
      | Some obj \<Rightarrow>
          (case extractGraphArrays obj graphType of
             None \<Rightarrow> None
           | Some (nf, ef, nodes, edges) \<Rightarrow>
               if length nodes \<le> 400 then None
               else let n = chunk_count nodes;
                        cross = map (cross_edge nodes) (filter (crosses nodes) edges) in
                 Some (JObj [(''contextMode'', JStr ''chunked''), (''graphType'', JStr graphType), (''chunkSize'', json_nat contextChunkSize),
                   (''nodeCount'', json_nat (length nodes)), (''edgeCount'', json_nat (length edges)), (''chunkCount'', json_nat n),
                   (''nodesField'', JStr nf), (''edgesField'', JStr ef),
                   (''summaryHeader'', buildChunkSummaryHeader ratio graphType nodes edges (map (chunk_nodes nodes) [0..<n])
                      (map (chunk_edges nodes edges) [0..<n]) cross),
                   (''chunks'', JArr (map (print_chunk nodes edges) [0..<n])), (''crossChunkEdges'', JArr (map JObj cross)),
                   (''reconstructionHint'', JStr ''Reconstruct full graph by merging all chunks.nodes/chunks.edges and then adding crossChunkEdges.''),
                   (''indexingDescription'', JStr ''chunk.index is 1-based. sourceChunk/targetChunk indicate cross-chunk edge endpoints.'')])))"

subsection \<open>The summary of the agent's client\<close>

definition buildAgentSummaryContextPayload :: "(nat \<Rightarrow> nat \<Rightarrow> json) \<Rightarrow> string \<Rightarrow> json \<Rightarrow> int \<Rightarrow> json option" where
  "buildAgentSummaryContextPayload ratio graphType contextData threshold =
     (case struct_members (RawJson contextData) of
        None \<Rightarrow> None
      | Some obj \<Rightarrow>
          (case extractGraphArrays obj graphType of
             None \<Rightarrow> None
           | Some (nf, ef, nodes, edges) \<Rightarrow>
               let full = (if threshold \<le> 0 then 120 else threshold); edgeThreshold = max (full * 2) 200;
                   ns = take 50 nodes; es = take 80 edges in
               if int (length nodes) \<le> full \<and> int (length edges) \<le> edgeThreshold then None
               else Some (JObj [(''contextMode'', JStr ''summary''), (''graphType'', JStr graphType), (''nodesField'', JStr nf),
                   (''edgesField'', JStr ef), (''nodeCount'', json_nat (length nodes)), (''edgeCount'', json_nat (length edges)),
                   (''summaryHeader'', buildChunkSummaryHeader ratio graphType nodes edges [ns] [es] []),
                   (''nodeSamples'', JArr (map JObj ns)), (''edgeSamples'', JArr (map JObj es)),
                   (''note'', JStr ''Context is summarized due to graph size; use read tools before mutation.'')])))"

definition full_hints :: "string list" where
  "full_hints =
     [utf8 [229, 133, 168, 229, 155, 190, 233, 129, 141, 229, 142, 134], utf8 [233, 129, 141, 229, 142, 134, 229, 133, 168, 229, 155, 190],
      utf8 [229, 174, 140, 230, 149, 180, 228, 184, 138, 228, 184, 139, 230, 150, 135], utf8 [229, 174, 140, 230, 149, 180, 229, 155, 190],
      ''full graph'', ''full context'', ''scan entire'']"

definition wantsFullGraphContext :: "string \<Rightarrow> bool" where
  "wantsFullGraphContext question =
     (let q = ToLower (TrimSpace question) in q \<noteq> '''' \<and> list_ex (Contains q) full_hints)"

subsection \<open>The context of a question\<close>

definition buildFullContextJSON :: "(nat \<Rightarrow> nat \<Rightarrow> json) \<Rightarrow> json option \<Rightarrow> string \<Rightarrow> json \<times> string" where
  \<comment> \<open>the value that is printed, and the mode\<close>
  "buildFullContextJSON ratio contextData graphType =
     (case contextData of
        None \<Rightarrow> (JNull, ''none'')
      | Some v \<Rightarrow> (case buildChunkedGraphPayload ratio v graphType of Some p \<Rightarrow> (p, ''chunked'') | None \<Rightarrow> (v, ''full'')))"

definition buildAgentFullContextJSON :: "(nat \<Rightarrow> nat \<Rightarrow> json) \<Rightarrow> string \<Rightarrow> json option \<Rightarrow> string \<Rightarrow> int \<Rightarrow> json \<times> string" where
  "buildAgentFullContextJSON ratio graphType contextData question threshold =
     (case contextData of
        None \<Rightarrow> (JNull, ''none'')
      | Some v \<Rightarrow>
          (case if wantsFullGraphContext question then buildChunkedGraphPayload ratio v graphType else None of
             Some p \<Rightarrow> (p, ''chunked'')
           | None \<Rightarrow> (case buildAgentSummaryContextPayload ratio graphType v threshold of
               Some p \<Rightarrow> (p, ''summary'') | None \<Rightarrow> (v, ''full''))))"

end
