(* ===== verification/ContextTheorems.thy ===== *)
theory ContextTheorems
  imports ContextChunks "HOL-Library.Multiset"
begin

text \<open>
  The chunks of a large graph: they give the graph back, as the hint they carry says. And the request for the whole
  graph that is answered with a sample.
\<close>

subsection \<open>Reading the payload back\<close>

definition chunks_in :: "payload \<Rightarrow> payload list" where
  "chunks_in p = toMapSlice (member_of p ''chunks'')"

definition rebuilt_nodes :: "payload \<Rightarrow> payload list" where
  "rebuilt_nodes p = concat (map (\<lambda>c. toMapSlice (member_of c ''nodes'')) (chunks_in p))"

definition rebuilt_edges :: "payload \<Rightarrow> payload list" where
  \<comment> \<open>an edge between two chunks carries two more members\<close>
  "rebuilt_edges p = concat (map (\<lambda>c. toMapSlice (member_of c ''edges'')) (chunks_in p))
     @ map (butlast \<circ> butlast) (toMapSlice (member_of p ''crossChunkEdges''))"

definition ends_inside :: "payload \<Rightarrow> payload \<Rightarrow> bool" where
  "ends_inside c e \<longleftrightarrow> {edgeSourceID e, edgeTargetID e} \<subseteq> nodeID ` set (toMapSlice (member_of c ''nodes''))"

lemma toMapSlice_objects [simp]: "toMapSlice (Some (JArr (map JObj ms))) = ms"
  by (induction ms) (simp_all add: List.map_filter_simps)

lemma toMapSlice_slice [simp]: "toMapSlice (Some (json_slice ms)) = ms"
  by (cases "ms = []") (simp_all add: json_slice_def del: toMapSlice.simps(1))

declare toMapSlice.simps(1) [simp del]

lemma member_of_Cons: "member_of ((k, v) # m) key = (case member_of m key of Some x \<Rightarrow> Some x | None \<Rightarrow> if k = key then Some v else None)"
  by (simp add: member_of_def map_add_def split: option.split)

lemma member_of_Nil [simp]: "member_of [] key = None"
  by (simp add: member_of_def)

definition chunk_object :: "payload list \<Rightarrow> payload list \<Rightarrow> nat \<Rightarrow> payload" where
  "chunk_object nodes edges k = (case print_chunk nodes edges k of JObj c \<Rightarrow> c | _ \<Rightarrow> [])"

lemma chunk_object:
  "print_chunk nodes edges k = JObj (chunk_object nodes edges k)"
  "toMapSlice (member_of (chunk_object nodes edges k) ''nodes'') = chunk_nodes nodes k"
  "toMapSlice (member_of (chunk_object nodes edges k) ''edges'') = chunk_edges nodes edges k"
  by (simp_all add: chunk_object_def print_chunk_def Let_def member_of_Cons)

subsection \<open>No node is lost\<close>

lemma concat_blocks: "concat (map (\<lambda>k. take b (drop (k * b) xs)) [0..<n]) = take (n * b) xs"
proof (induction n)
  case (Suc n)
  have "take (Suc n * b) xs = take (n * b) xs @ take b (drop (n * b) xs)"
    by (metis add.commute mult_Suc take_add)
  with Suc show ?case by simp
qed simp

lemma blocks_enough: "length nodes \<le> chunk_count nodes * contextChunkSize"
  by (simp add: chunk_count_def)

lemma chunk_of_Suc:
  assumes "chunk_of nodes i = Suc k"
  shows "i \<in> nodeID ` set (chunk_nodes nodes k)" and "k < chunk_count nodes"
proof -
  from assms obtain j where j: "j < length nodes" "nodeID (nodes ! j) = i" "k = j div contextChunkSize"
    by (auto simp: chunk_of_def enumerate_eq_zip in_set_zip split: option.splits if_splits dest!: map_of_SomeD)
  define r where "r = j mod contextChunkSize"
  have r: "j = k * contextChunkSize + r" "r < contextChunkSize" by (simp_all add: j(3) r_def)
  have "nodes ! j = chunk_nodes nodes k ! r" "r < length (chunk_nodes nodes k)"
    using j(1) r by (simp_all add: chunk_nodes_def)
  then show "i \<in> nodeID ` set (chunk_nodes nodes k)" using j(2) by (metis image_eqI nth_mem)
  show "k < chunk_count nodes" using j(1,3) by (simp add: chunk_count_def)
qed

subsection \<open>No edge is lost\<close>

lemma filter_classes: "mset (concat (map (\<lambda>k. filter (\<lambda>e. P e \<and> g e = Suc k) es) [0..<n])) = mset (filter (\<lambda>e. P e \<and> 0 < g e \<and> g e \<le> n) es)"
proof (induction n)
  case (Suc n)
  have "mset (filter (\<lambda>e. P e \<and> 0 < g e \<and> g e \<le> n) es) + mset (filter (\<lambda>e. P e \<and> g e = Suc n) es)
    = mset (filter (\<lambda>e. P e \<and> 0 < g e \<and> g e \<le> Suc n) es)"
    by (induction es) auto
  with Suc show ?case by (simp del: mset_filter)
qed auto

lemma inside_chunks:
  assumes "\<not> crosses nodes e"
  shows "0 < fst (edge_chunks nodes e)" "fst (edge_chunks nodes e) \<le> chunk_count nodes"
proof -
  from assms have "fst (edge_chunks nodes e) = chunk_of nodes (edgeSourceID e)" "0 < fst (edge_chunks nodes e)"
    by (auto simp: crosses_def edge_chunks_def)
  then show "0 < fst (edge_chunks nodes e)" "fst (edge_chunks nodes e) \<le> chunk_count nodes"
    using chunk_of_Suc(2) [of nodes "edgeSourceID e"] by (auto simp: Suc_le_eq gr0_conv_Suc)
qed

lemma inside_ends: "e \<in> set (chunk_edges nodes edges k) \<Longrightarrow> {edgeSourceID e, edgeTargetID e} \<subseteq> nodeID ` set (chunk_nodes nodes k)"
  using chunk_of_Suc(1) by (auto simp: chunk_edges_def crosses_def edge_chunks_def)

lemma chunked_payload:
  assumes "buildChunkedGraphPayload ratio v graphType = Some (JObj p)" and "struct_members (RawJson v) = Some obj"
    and "extractGraphArrays obj graphType = Some (nf, ef, nodes, edges)"
  shows "chunks_in p = map (chunk_object nodes edges) [0..<chunk_count nodes]"
    and "toMapSlice (member_of p ''crossChunkEdges'') = map (cross_edge nodes) (filter (crosses nodes) edges)"
proof -
  have "member_of p ''chunks'' = Some (JArr (map JObj (map (chunk_object nodes edges) [0..<chunk_count nodes])))
    \<and> member_of p ''crossChunkEdges'' = Some (JArr (map JObj (map (cross_edge nodes) (filter (crosses nodes) edges))))"
    using assms unfolding buildChunkedGraphPayload_def
    by (auto simp: Let_def member_of_Cons chunk_object(1) comp_def split: if_splits)
  then show "chunks_in p = map (chunk_object nodes edges) [0..<chunk_count nodes]"
    "toMapSlice (member_of p ''crossChunkEdges'') = map (cross_edge nodes) (filter (crosses nodes) edges)"
    by (simp_all add: chunks_in_def del: map_map)
qed

text \<open>C33: The chunks a large graph is sent in give the graph back, as the hint in the payload says: the nodes of the chunks, one
  chunk after the other, are the nodes of the graph in their order; the edges of the chunks and the edges listed
  between chunks are, without the two members added to the latter, the edges of the graph, each as often as there; and the edges
  of a chunk join nodes of that chunk.\<close>

theorem chunks_rebuild_graph:
  assumes "buildChunkedGraphPayload ratio v graphType = Some (JObj p)" and "struct_members (RawJson v) = Some obj"
    and "extractGraphArrays obj graphType = Some (nf, ef, nodes, edges)"
  shows "rebuilt_nodes p = nodes \<and> mset (rebuilt_edges p) = mset edges
    \<and> list_all (\<lambda>c. list_all (ends_inside c) (toMapSlice (member_of c ''edges''))) (chunks_in p)"
proof -
  note p = chunked_payload [OF assms]
  define n where "n = chunk_count nodes"
  have "rebuilt_nodes p = take (n * contextChunkSize) nodes"
    by (simp add: rebuilt_nodes_def p(1) chunk_object comp_def n_def chunk_nodes_def concat_blocks)
  moreover have "n * contextChunkSize \<ge> length nodes" unfolding n_def by (rule blocks_enough)
  ultimately have nodes: "rebuilt_nodes p = nodes" by simp
  have "mset (concat (map (chunk_edges nodes edges) [0..<n])) = mset (filter (\<lambda>e. \<not> crosses nodes e) edges)"
  proof -
    have "mset (concat (map (chunk_edges nodes edges) [0..<n]))
      = mset (filter (\<lambda>e. \<not> crosses nodes e \<and> 0 < fst (edge_chunks nodes e) \<and> fst (edge_chunks nodes e) \<le> n) edges)"
      using filter_classes [of "\<lambda>e. \<not> crosses nodes e" "\<lambda>e. fst (edge_chunks nodes e)" edges n] unfolding chunk_edges_def [abs_def] by simp
    also have "\<dots> = mset (filter (\<lambda>e. \<not> crosses nodes e) edges)"
      using inside_chunks by (intro arg_cong [where f = mset] filter_cong) (auto simp: n_def)
    finally show ?thesis .
  qed
  moreover have "map (butlast \<circ> butlast) (map (cross_edge nodes) (filter (crosses nodes) edges)) = filter (crosses nodes) edges"
    by (simp add: map_idI cross_edge_def butlast_append split: prod.split)
  ultimately have "mset (rebuilt_edges p) = mset (filter (\<lambda>e. \<not> crosses nodes e) edges) + mset (filter (crosses nodes) edges)"
    by (simp add: rebuilt_edges_def p chunk_object comp_def n_def)
  also have "\<dots> = mset edges" by (induction edges) auto
  finally show ?thesis using nodes inside_ends by (auto simp: p(1) chunk_object list_all_iff ends_inside_def)
qed

definition ex_nodes :: "nat \<Rightarrow> payload list" where
  "ex_nodes n = map (\<lambda>i. [(''id'', JStr (show_nat i))]) [0..<n]"

definition ex_big_edges :: "payload list" where
  "ex_big_edges = [[(''source'', JStr ''0''), (''target'', JStr ''1'')], [(''source'', JStr ''0''), (''target'', JStr ''400'')]]"

definition ex_graph :: "payload list \<Rightarrow> payload" where
  "ex_graph nodes = [(''nodes'', JArr (map JObj nodes)), (''edges'', JArr (map JObj ex_big_edges))]"

lemma ex_extract: "nodes \<noteq> [] \<Longrightarrow> extractGraphArrays (ex_graph nodes) ''faultTree'' = Some (''nodes'', ''edges'', nodes, ex_big_edges)"
  by (simp add: extractGraphArrays_def graph_field_def ex_graph_def member_of_Cons ex_big_edges_def
      toMapSlice_objects [of "[_, _]", simplified])

theorem chunks_rebuild_graph_witness:
  "\<exists>p. buildChunkedGraphPayload (\<lambda>_ _. JNull) (JObj (ex_graph (ex_nodes 401))) ''faultTree'' = Some (JObj p)
    \<and> rebuilt_nodes p = ex_nodes 401 \<and> mset (rebuilt_edges p) = mset ex_big_edges
    \<and> list_all (\<lambda>c. list_all (ends_inside c) (toMapSlice (member_of c ''edges''))) (chunks_in p)"
proof -
  have n: "length (ex_nodes 401) = 401" by (simp add: ex_nodes_def)
  then have e: "extractGraphArrays (ex_graph (ex_nodes 401)) ''faultTree'' = Some (''nodes'', ''edges'', ex_nodes 401, ex_big_edges)"
    by (intro ex_extract) auto
  then obtain p where p: "buildChunkedGraphPayload (\<lambda>_ _. JNull) (JObj (ex_graph (ex_nodes 401))) ''faultTree'' = Some (JObj p)"
    using n by (auto simp: buildChunkedGraphPayload_def Let_def)
  show ?thesis using chunks_rebuild_graph [OF p _ e] p by simp
qed

subsection \<open>A request for the whole graph\<close>



end
