(* ===== verification/ThinkFilter.thy ===== *)
theory ThinkFilter
  imports Substrings
begin

text \<open>
  The filter of a streamed answer (\<open>completeStream\<close> in \<open>internal/ai/client.go\<close> and
  \<open>completeStreamWithTools\<close> in \<open>ai/agent_client.go\<close>): text between \<open><think>\<close> and \<open></think>\<close> is dropped,
  piece by piece as the pieces arrive.
\<close>

definition think_open :: string where
  "think_open = ''<think>''"

definition think_close :: string where
  "think_close = ''</think>''"

function visible :: "bool \<Rightarrow> string \<Rightarrow> bool \<times> string list" where
  \<comment> \<open>whether the piece ends in a thought, and what is shown of it\<close>
  "visible inThink [] = (inThink, [])"
| "visible True (c # cs) =
     (case Index (c # cs) think_close of
        None \<Rightarrow> (True, []) | Some e \<Rightarrow> visible False (drop (e + length think_close) (c # cs)))"
| "visible False (c # cs) =
     (case Index (c # cs) think_open of
        None \<Rightarrow> (False, [c # cs])
      | Some i \<Rightarrow> (case visible True (drop (i + length think_open) (c # cs)) of
          (b, out) \<Rightarrow> (b, (if i > 0 then [take i (c # cs)] else []) @ out)))"
  by pat_completeness auto
termination
  by (relation "measure (\<lambda>(_, s). length s)") (auto simp: think_open_def think_close_def)

fun visible_pieces :: "bool \<Rightarrow> string list \<Rightarrow> bool \<times> string list" where
  "visible_pieces b [] = (b, [])"
| "visible_pieces b (p # ps) = (case visible b p of (b1, out) \<Rightarrow> (case visible_pieces b1 ps of (b2, rest) \<Rightarrow> (b2, out @ rest)))"

subsection \<open>Cuts\<close>

definition cuts_tag :: "string \<Rightarrow> string \<Rightarrow> bool" where
  \<comment> \<open>the piece ends in the middle of the tag\<close>
  "cuts_tag tag s \<longleftrightarrow> list_ex (\<lambda>n. suffix (take n tag) s) [1..<length tag]"

definition clean_cut :: "string \<Rightarrow> bool" where
  "clean_cut s \<longleftrightarrow> \<not> cuts_tag think_open s \<and> \<not> cuts_tag think_close s"

lemma cuts_tag_iff: "cuts_tag tag s \<longleftrightarrow> (\<exists>p. p \<noteq> [] \<and> strict_prefix p tag \<and> suffix p s)"
proof
  assume "cuts_tag tag s"
  then obtain n where n: "n \<in> {1..<length tag}" "suffix (take n tag) s" by (auto simp: cuts_tag_def list_ex_iff)
  then have "take n tag \<noteq> [] \<and> strict_prefix (take n tag) tag"
    by (auto simp: strict_prefix_def take_is_prefix dest: arg_cong [where f = length])
  with n(2) show "\<exists>p. p \<noteq> [] \<and> strict_prefix p tag \<and> suffix p s" by blast
next
  assume "\<exists>p. p \<noteq> [] \<and> strict_prefix p tag \<and> suffix p s"
  then obtain p where p: "p \<noteq> []" "strict_prefix p tag" "suffix p s" by blast
  then have "p = take (length p) tag" "length p \<in> {1..<length tag}"
    by (auto simp: strict_prefix_def prefix_def Suc_le_eq)
  with p(3) show "cuts_tag tag s" unfolding cuts_tag_def list_ex_iff by (metis set_upt)
qed

lemma cuts_suffix: "suffix t s \<Longrightarrow> cuts_tag tag t \<Longrightarrow> cuts_tag tag s"
  by (meson cuts_tag_iff suffix_order.trans)

lemma Index_append:
  assumes "\<not> cuts_tag tag s" and "tag \<noteq> []"
  shows "Index (s @ t) tag = (case Index s tag of Some i \<Rightarrow> Some i | None \<Rightarrow> map_option (\<lambda>i. i + length s) (Index t tag))"
  using assms(1)
proof (induction s)
  case Nil
  then show ?case using assms(2) by (cases "Index t tag") simp_all
next
  case (Cons c s)
  have "\<not> cuts_tag tag s" using Cons.prems by (meson cuts_suffix suffix_ConsI suffix_order.refl)
  note IH = Cons.IH [OF this]
  have "prefix tag (c # s @ t) \<longleftrightarrow> prefix tag (c # s)"
  proof
    assume "prefix tag (c # s @ t)"
    then have "prefix tag (c # s) \<or> strict_prefix (c # s) tag"
      by (metis append_Cons prefix_append prefix_def strict_prefix_def)
    moreover have "\<not> strict_prefix (c # s) tag" using Cons.prems by (metis cuts_tag_iff list.distinct(1) suffix_order.refl)
    ultimately show "prefix tag (c # s)" by blast
  next
    assume "prefix tag (c # s)"
    then show "prefix tag (c # s @ t)" by (metis append_Cons prefix_prefix)
  qed
  with IH show ?case by (cases "Index s tag") (auto simp: option.map_comp comp_def)
qed

definition shown :: "bool \<Rightarrow> string \<Rightarrow> bool \<times> string" where
  "shown b s = (case visible b s of (b1, out) \<Rightarrow> (b1, concat out))"

lemma shown_simps:
  "shown True s = (case Index s think_close of None \<Rightarrow> (True, []) | Some e \<Rightarrow> shown False (drop (e + length think_close) s))"
  "shown False s = (case Index s think_open of None \<Rightarrow> (False, s)
     | Some i \<Rightarrow> (case shown True (drop (i + length think_open) s) of (b, out) \<Rightarrow> (b, take i s @ out)))"
  by (cases s; auto simp: shown_def think_close_def think_open_def split: option.split prod.split)+

lemma shown_append:
  "clean_cut s \<Longrightarrow> shown b (s @ t) = (case shown b s of (b1, out) \<Rightarrow> (case shown b1 t of (b2, rest) \<Rightarrow> (b2, out @ rest)))"
proof (induction "length s" arbitrary: b s rule: less_induct)
  case less
  have tags: "\<not> cuts_tag think_open s" "\<not> cuts_tag think_close s" "think_open \<noteq> []" "think_close \<noteq> []"
    using less.prems by (simp_all add: clean_cut_def think_open_def think_close_def)
  have rest: "shown b' (drop n s @ t) = (case shown b' (drop n s) of (b1, out) \<Rightarrow> (case shown b1 t of (b2, r) \<Rightarrow> (b2, out @ r)))"
    if "0 < n" "n \<le> length s" for b' n
    using that less.prems by (intro less.hyps) (auto simp: clean_cut_def dest: cuts_suffix [OF suffix_drop])
  show ?case
  proof (cases b)
    case True
    show ?thesis
    proof (cases "Index s think_close")
      case None
      then show ?thesis using True tags
        by (simp add: shown_simps(1) Index_append drop_append split: option.split)
    next
      case (Some e)
      then have "e + length think_close \<le> length s" by (rule Index_Some(1))
      with Some True tags rest [of "e + length think_close" False] show ?thesis
        by (simp add: shown_simps(1) Index_append)
    qed
  next
    case False
    show ?thesis
    proof (cases "Index s think_open")
      case None
      then show ?thesis using False tags
        by (simp add: shown_simps(2) Index_append split: option.split prod.split)
    next
      case (Some i)
      then have "i + length think_open \<le> length s" by (rule Index_Some(1))
      with Some False tags rest [of "i + length think_open" True] show ?thesis
        by (simp add: shown_simps(2) Index_append split: prod.split)
    qed
  qed
qed

lemma shown_Nil [simp]: "shown b [] = (b, [])"
  by (simp add: shown_def)

lemma shown_pieces:
  "list_all clean_cut ps \<Longrightarrow> shown b (concat ps) = (case visible_pieces b ps of (b1, out) \<Rightarrow> (b1, concat out))"
proof (induction ps arbitrary: b)
  case (Cons p ps)
  then have "shown b (concat (p # ps)) = (case shown b p of (b1, out) \<Rightarrow> (case shown b1 (concat ps) of (b2, rest) \<Rightarrow> (b2, out @ rest)))"
    by (simp add: shown_append)
  then show ?case using Cons by (simp add: shown_def split: prod.split)
qed simp

end
