(* ===== verification/StreamTheorems.thy ===== *)
theory StreamTheorems
  imports ThinkFilter
begin

text \<open>
  Streamed answers: how the stream is cut makes no difference to what is shown, unless a cut falls into a tag.
\<close>

subsection \<open>Thoughts\<close>

text \<open>C35: What a streamed answer shows is what the whole answer shows when its thoughts are taken out at once, and the
  stream ends inside a thought exactly when the whole answer does: it makes no difference where the provider cuts
  the text into pieces, as long as no piece ends in the middle of a tag.\<close>

theorem stream_shows_whole_answer:
  assumes "list_all clean_cut pieces"
  shows "concat (snd (visible_pieces inThink pieces)) = concat (snd (visible inThink (concat pieces)))
    \<and> fst (visible_pieces inThink pieces) = fst (visible inThink (concat pieces))"
  using shown_pieces [OF assms, of inThink] by (auto simp: shown_def split: prod.splits)

theorem stream_shows_whole_answer_witness:
  "concat (snd (visible_pieces False [''Look: <think>a '', ''plan</think>the '', ''gate''])) = ''Look: the gate''
    \<and> \<not> fst (visible_pieces False [''Look: <think>a '', ''plan</think>the '', ''gate''])"
proof -
  let ?ps = "[''Look: <think>a '', ''plan</think>the '', ''gate'']"
  have "list_all clean_cut ?ps" by code_simp
  from stream_shows_whole_answer [OF this, of False]
  have "concat (snd (visible_pieces False ?ps)) = concat (snd (visible False (concat ?ps)))
    \<and> fst (visible_pieces False ?ps) = fst (visible False (concat ?ps))" .
  moreover have "visible False (concat ?ps) = (False, [''Look: '', ''the gate''])" by code_simp
  ultimately show ?thesis by simp
qed

text \<open>A cut inside the opening tag shows the thought.\<close>

lemma cut_tag_shows_thought:
  "concat (snd (visible_pieces False [''<thi'', ''nk>a plan</think>ok''])) = ''<think>a plan</think>ok''"
  by code_simp

end
