(* ===== verification/FallbackCalls.thy ===== *)
theory FallbackCalls
  imports Substrings Safety
begin

text \<open>
  Tool calls written as text (\<open>internal/ai/fallback_parser.go\<close> and the end of \<open>ai/agent_client.go\<close>), for
  models without tool calls of their own: one line \<open>FUNCTION_CALL: name({...})\<close> per call. What \<open>encoding/json\<close>
  reads in a text is an argument (\<open>decode\<close>, \<open>None\<close> for a text that is no JSON).
\<close>

definition fence :: string where
  "fence = [CHR 0x60, CHR 0x60, CHR 0x60]"

definition call_prefix :: string where
  "call_prefix = ''FUNCTION_CALL:''"

subsection \<open>Arguments\<close>

definition between :: "string \<Rightarrow> char \<Rightarrow> char \<Rightarrow> string list" where
  \<comment> \<open>from the first opening character to the last closing one\<close>
  "between t a b = (case (Index t [a], LastIndexByte t b) of
      (Some i, Some j) \<Rightarrow> if j > i then [TrimSpace (take (j + 1 - i) (drop i t))] else []
    | _ \<Rightarrow> [])"

definition argument_candidates :: "string \<Rightarrow> string list" where
  "argument_candidates t =
     [t] @ (if HasPrefix t fence
            then filter (\<lambda>c. c \<noteq> '''') [TrimSpace (TrimSuffix (TrimSpace (TrimPrefix (TrimSpace (TrimPrefix t (fence @ ''json''))) fence)) fence)]
            else [])
         @ between t CHR ''{'' CHR ''}'' @ between t CHR ''['' CHR '']''"

definition normalizeToolArguments :: "(string \<Rightarrow> json option) \<Rightarrow> string \<Rightarrow> json" where
  \<comment> \<open>the first candidate that is JSON, else the text itself as a JSON string; the code returns the candidate
     itself, which whoever reads it decodes again\<close>
  "normalizeToolArguments decode raw =
     (if TrimSpace raw = '''' then JObj []
      else case List.map_filter (\<lambda>c. if c = '''' then None else decode c) (argument_candidates (TrimSpace raw)) of
        v # _ \<Rightarrow> v | [] \<Rightarrow> JStr (TrimSpace raw))"

subsection \<open>Lines\<close>

definition between_chars :: "char \<times> char \<Rightarrow> char \<Rightarrow> bool" where
  \<comment> \<open>a range of a character class\<close>
  "between_chars ends c \<longleftrightarrow> fst ends \<le> c \<and> c \<le> snd ends"

definition ascii_letter :: "char \<Rightarrow> bool" where
  "ascii_letter c \<longleftrightarrow> between_chars (CHR ''A'', CHR ''Z'') c \<or> between_chars (CHR ''a'', CHR ''z'') c"

definition fallback_tool_name :: "string \<Rightarrow> bool" where
  \<comment> \<open>the regular expression \<open>^[a-zA-Z][a-zA-Z0-9_]{0,63}$\<close>\<close>
  "fallback_tool_name s \<longleftrightarrow> s \<noteq> [] \<and> length s \<le> 64 \<and> ascii_letter (hd s)
     \<and> list_all (\<lambda>c. ascii_letter c \<or> between_chars (CHR ''0'', CHR ''9'') c \<or> c = CHR ''_'') (tl s)"

definition parseFallbackToolCallLine :: "(string \<Rightarrow> json option) \<Rightarrow> string \<Rightarrow> nat \<Rightarrow> ToolCall option" where
  "parseFallbackToolCallLine decode line idx =
     (if \<not> HasPrefix (ToUpper line) call_prefix then None
      else let payload = TrimSpace (drop (length call_prefix) line) in
        case (Index payload ''('', LastIndexByte payload CHR '')'') of
          (Some l, Some r) \<Rightarrow>
            if l = 0 \<or> r \<le> l then None
            else let name = TrimSpace (take l payload); args = TrimSpace (take (r - (l + 1)) (drop (l + 1) payload)) in
              if \<not> fallback_tool_name name then None
              else Some \<lparr> call_ID = ''fallback_call_'' @ show_nat idx, call_Name = name,
                          call_Arguments = RawJson (normalizeToolArguments decode (if args = '''' then ''{}'' else args)) \<rparr>
        | _ \<Rightarrow> None)"

fun parse_lines :: "(string \<Rightarrow> json option) \<Rightarrow> nat \<Rightarrow> string list \<Rightarrow> ToolCall list \<times> string list" where
  \<comment> \<open>the calls, numbered from \<open>n\<close>, and the lines that are none\<close>
  "parse_lines decode n [] = ([], [])"
| "parse_lines decode n (l # ls) =
     (case parseFallbackToolCallLine decode (TrimSpace l) n of
        Some c \<Rightarrow> (case parse_lines decode (n + 1) ls of (cs, kept) \<Rightarrow> (c # cs, kept))
      | None \<Rightarrow> (case parse_lines decode n ls of (cs, kept) \<Rightarrow> (cs, l # kept)))"

definition ParseFallbackToolCalls :: "(string \<Rightarrow> json option) \<Rightarrow> string \<Rightarrow> ToolCall list \<times> string" where
  "ParseFallbackToolCalls decode raw =
     (case parse_lines decode 1 (Lines (unix_lines raw)) of (cs, kept) \<Rightarrow> (cs, TrimSpace (Join kept line_end)))"

fun strip_lines :: "bool \<Rightarrow> string list \<Rightarrow> string list" where
  "strip_lines inFence [] = []"
| "strip_lines inFence (l # ls) =
     (let t = TrimSpace l; inside = (if HasPrefix t fence then \<not> inFence else inFence) in
      if Contains (ToUpper t) call_prefix \<or> inside \<and> Contains (ToUpper l) ''FUNCTION_CALL'' then strip_lines inside ls
      else l # strip_lines inside ls)"

definition stripFallbackFunctionCallLines :: "string \<Rightarrow> string" where
  "stripFallbackFunctionCallLines raw = Join (strip_lines False (Lines (unix_lines raw))) line_end"

definition shouldFallbackToTextToolCall :: "string \<Rightarrow> bool" where
  "shouldFallbackToTextToolCall err =
     (let has = Contains (ToLower err) in
      list_ex has [''tool'', ''function'', ''tool_choice''] \<and> list_ex has [''unsupported'', ''not support'', ''unknown'', ''invalid'', ''unrecognized''])"

definition buildFallbackMessages_lines :: "(string \<times> string \<times> string) list \<Rightarrow> string list" where
  \<comment> \<open>one line per named tool: name, description and the text of its schema\<close>
  "buildFallbackMessages_lines tools =
     List.map_filter (\<lambda>(name, desc, schema).
        if TrimSpace name = '''' then None
        else Some (''- '' @ TrimSpace name @ '': '' @ TrimSpace desc @ '' | parameters schema: ''
          @ (if TrimSpace schema = '''' then ''{}'' else TrimSpace schema))) tools"

end
