(* ===== verification/ModelClient.thy ===== *)
theory ModelClient
  imports AgentRun ContextChunks FallbackCalls ThinkFilter
begin

text \<open>
  The client of a language model (\<open>internal/ai/client.go\<close>, \<open>internal/ai/agent_client.go\<close>): the messages of a
  question, the request, the reading of the answer, streamed or not, and the fallback to calls written as text.
  What the service at the endpoint answers is an argument (\<open>transport\<close>): per request a failure (whether it is
  the run's context, and its text) or a status with a body. So are the wording of the system prompts, and of
  \<open>encoding/json\<close> what it reads in a text and how its errors read.
\<close>

subsection \<open>The client\<close>

record Client =
  cl_endpoint :: string
  cl_apiKey :: string
  cl_defaultModel :: string
  cl_chatModel :: string
  cl_maxCompletionTokens :: "int option"
  cl_modelMaxCompletionTokens :: "(string \<times> int) list"

definition normalizeModelMaxCompletion :: "(string \<times> int) list \<Rightarrow> (string \<times> int) list" where
  \<comment> \<open>in the order the map is walked; of equal keys the last is kept\<close>
  "normalizeModelMaxCompletion m =
     List.map_filter (\<lambda>(model, v). if TrimSpace model = '''' then None else Some (ToLower (TrimSpace model), v)) m"

definition NewClientWithOptions :: "string \<Rightarrow> string \<Rightarrow> string \<Rightarrow> string \<Rightarrow> int option \<Rightarrow> (string \<times> int) list \<Rightarrow> Client" where
  "NewClientWithOptions endpoint apiKey defaultModel chatModel maxTokens modelMax =
     \<lparr> cl_endpoint = rev (dropWhile (\<lambda>c. c = CHR ''/'') (rev endpoint)), cl_apiKey = apiKey, cl_defaultModel = defaultModel,
       cl_chatModel = chatModel, cl_maxCompletionTokens = maxTokens, cl_modelMaxCompletionTokens = normalizeModelMaxCompletion modelMax \<rparr>"

definition normalizeModelName :: "string \<Rightarrow> string \<Rightarrow> string" where
  "normalizeModelName name fallback =
     (let t = TrimSpace name; f = TrimSpace fallback in
      if t = '''' then f
      else if ToLower t \<in> {''qwen3'', ''qwen-3''} then (if f \<noteq> '''' \<and> \<not> EqualFold f t then f else ''qwen3.5-flash'')
      else t)"

definition chatModelFor :: "Client \<Rightarrow> string \<Rightarrow> string" where
  "chatModelFor c override =
     (if override \<noteq> '''' then normalizeModelName override (if cl_chatModel c = '''' then cl_defaultModel c else cl_chatModel c)
      else if cl_chatModel c \<noteq> '''' then normalizeModelName (cl_chatModel c) (cl_defaultModel c)
      else normalizeModelName (cl_defaultModel c) (cl_defaultModel c))"

definition isMiMoProvider :: "string \<Rightarrow> string \<Rightarrow> bool" where
  "isMiMoProvider endpoint model =
     (let haystack = ToLower (TrimSpace endpoint @ '' '' @ TrimSpace model) in Contains haystack ''mimo'' \<or> Contains haystack ''minimax'')"

definition positive :: "int \<Rightarrow> int option" where
  "positive v = (if v \<le> 0 then None else Some v)"

definition maxCompletionTokensFor :: "Client \<Rightarrow> string \<Rightarrow> int option" where
  "maxCompletionTokensFor c model =
     (let key = ToLower (TrimSpace model) in
      case if key = '''' then None else map_of (rev (cl_modelMaxCompletionTokens c)) key of
        Some v \<Rightarrow> positive v
      | None \<Rightarrow> (case cl_maxCompletionTokens c of
          Some v \<Rightarrow> positive v
        | None \<Rightarrow> if isMiMoProvider (cl_endpoint c) model then Some 8192 else None))"

datatype auth_header = NoAuth | ApiKeyHeader string | BearerHeader string

definition applyAuthHeader :: "Client \<Rightarrow> string \<Rightarrow> auth_header" where
  "applyAuthHeader c model =
     (if TrimSpace (cl_apiKey c) = '''' then NoAuth
      else if isMiMoProvider (cl_endpoint c) model then ApiKeyHeader (cl_apiKey c) else BearerHeader (cl_apiKey c))"

subsection \<open>Messages\<close>

record oaiToolCall =
  \<comment> \<open>the arguments are sent as the compact text of the value\<close>
  oc_ID :: string
  oc_Name :: string
  oc_Arguments :: json

record oaiMsg =
  om_Role :: string
  om_Content :: string
  om_ReasoningContent :: string
  om_ToolCalls :: "oaiToolCall list"
  om_ToolCallID :: string

definition plain_msg :: "string \<Rightarrow> string \<Rightarrow> oaiMsg" where
  "plain_msg role content = \<lparr> om_Role = role, om_Content = content, om_ReasoningContent = '''', om_ToolCalls = [], om_ToolCallID = '''' \<rparr>"

definition history_call :: "nat \<Rightarrow> ToolCall \<Rightarrow> oaiToolCall option" where
  "history_call i c =
     (let name = TrimSpace (call_Name c); cid = TrimSpace (call_ID c) in
      if name = '''' then None
      else Some \<lparr> oc_ID = (if cid = '''' then ''history_call_'' @ show_nat (i + 1) else cid), oc_Name = name,
                  oc_Arguments = valid_or_empty (call_Arguments c) \<rparr>)"

definition historyToolCallsToOAIToolCalls :: "ToolCall list \<Rightarrow> oaiToolCall list" where
  "historyToolCallsToOAIToolCalls calls = List.map_filter (\<lambda>(i, c). history_call i c) (enumerate 0 calls)"

definition history_message :: "ChatHistoryMessage \<Rightarrow> oaiMsg option" where
  "history_message h =
     (let role = ToLower (TrimSpace (h_Role h)); content = TrimSpace (h_Content h); reasoning = TrimSpace (h_ReasoningContent h);
          calls = historyToolCallsToOAIToolCalls (h_ToolCalls h); callID = TrimSpace (h_ToolCallID h) in
      if role = ''user'' then (if content = '''' then None else Some (plain_msg role content))
      else if role = ''assistant'' then
        (if content = '''' \<and> reasoning = '''' \<and> calls = [] then None
         else Some ((plain_msg role content)\<lparr>om_ReasoningContent := reasoning, om_ToolCalls := calls\<rparr>))
      else if role = ''tool'' then
        (if content = '''' \<or> callID = '''' then None else Some ((plain_msg role content)\<lparr>om_ToolCallID := callID\<rparr>))
      else None)"

definition historyToOAIMessages :: "ChatHistoryMessage list \<Rightarrow> oaiMsg list" where
  "historyToOAIMessages history = List.map_filter history_message (drop (length history - 20) history)"

definition newline :: string where
  "newline = [CHR 0x0A]"

definition graphSchemaHint :: "string \<Rightarrow> string" where
  \<comment> \<open>with a backslash and an \<open>n\<close> between its lines, as the source has them\<close>
  "graphSchemaHint graphType =
     (let sep = [CHR 0x5C, CHR ''n''] in
      if graphType = ''knowledgeGraph'' then
        ''- nodes/rfNodes: knowledge graph entities.'' @ sep
        @ ''- edges/rfEdges: directed relations between entities, relation label may appear on edge.label or edge.data.label.'' @ sep
        @ ''- Use entity and relation structure as primary evidence for answers.''
      else
        ''- nodes: fault tree nodes (top/mid/basic/gate). Key fields may appear as type/name/label/data.nodeType/data.label/probability.'' @ sep
        @ ''- edges: fault-tree logical connections, source/target may appear as source-target or from-to forms.'' @ sep
        @ ''- Use topology and logic-gate paths as primary evidence for answers.'')"

definition buildUserPrompt :: "string \<Rightarrow> string \<Rightarrow> string \<Rightarrow> string \<Rightarrow> string \<Rightarrow> string" where
  "buildUserPrompt graphType schemaHint contextMode contextPayload question =
     ''Graph type: '' @ graphType @ newline @ ''Schema notes:'' @ newline @ schemaHint @ newline
     @ (if contextMode = ''none'' then
          ''Graph context for this turn: omitted to save tokens; rely on conversation history from previous turns.'' @ newline
        else ''Context mode: '' @ contextMode @ newline @ ''Graph context payload:'' @ newline @ contextPayload @ newline)
     @ ''User question: '' @ question"

definition graph_type_name :: "string \<Rightarrow> string" where
  "graph_type_name graphType = (if graphType = ''knowledgeGraph'' then ''knowledge graph'' else ''fault tree'')"

definition question_messages :: "string \<Rightarrow> ChatHistoryMessage list \<Rightarrow> string \<Rightarrow> oaiMsg list" where
  "question_messages sys history usr = [plain_msg ''system'' sys] @ historyToOAIMessages history @ [plain_msg ''user'' usr]"

definition buildFallbackMessages :: "(json \<Rightarrow> string) \<Rightarrow> oaiMsg list \<Rightarrow> OAIToolDef list \<Rightarrow> oaiMsg list" where
  \<comment> \<open>\<open>schema\<close> is the text a schema has in the registry\<close>
  "buildFallbackMessages schema messages tools =
     (let ls = buildFallbackMessages_lines (map (\<lambda>t. (oai_Name t, oai_Description t, schema (oai_Parameters t))) tools);
          instruction = ''When you need to call a tool, output one line per call using exactly this format: ''
            @ ''FUNCTION_CALL: tool_name({'' @ quote ''arg'' @ '':'' @ quote ''value'' @ ''}). Do not use markdown code fences for tool calls.'' @ newline
            @ ''Available tools:'' @ newline @ Join ls newline in
      if ls = [] then messages
      else case messages of
        m # ms \<Rightarrow> if om_Role m = ''system'' then plain_msg ''system'' (TrimSpace (om_Content m) @ newline @ newline @ instruction) # ms
                  else plain_msg ''system'' instruction # messages
      | [] \<Rightarrow> [plain_msg ''system'' instruction])"

subsection \<open>Requests and answers\<close>

record oaiRequest =
  oq_Model :: string
  oq_Messages :: "oaiMsg list"
  oq_Temperature :: rat
  oq_Stream :: bool
  oq_MaxCompletionTokens :: "int option"
  oq_Tools :: "OAIToolDef list"
  oq_ToolChoice :: "string option"

datatype request_failure = BuildFailed string | SendFailed bool string

record stream_body =
  \<comment> \<open>the text of an error page, or the lines of a stream and the error that ended their reading\<close>
  sb_text :: string
  sb_lines :: "string list"
  sb_error :: "(bool \<times> string) option"

record transport =
  tp_post :: "auth_header \<Rightarrow> oaiRequest \<Rightarrow> request_failure + nat \<times> ((bool \<times> string) + raw_message)"
  tp_stream :: "auth_header \<Rightarrow> oaiRequest \<Rightarrow> request_failure + nat \<times> stream_body"

record client_env =
  cx_decode :: "string \<Rightarrow> json option"
  cx_jsonError :: "raw_message \<Rightarrow> string"
  cx_ratio :: "nat \<Rightarrow> nat \<Rightarrow> json"
  cx_schema :: "json \<Rightarrow> string"
  cx_contextJSON :: "chat_context \<Rightarrow> json"
  cx_say :: "prompt \<Rightarrow> string"
  cx_agentPrompt :: "AgentChatRequest \<Rightarrow> string \<Rightarrow> string"
  cx_chatPrompt :: "bool \<Rightarrow> string \<Rightarrow> string"
  cx_threshold :: int
  cx_fallback :: bool

type_synonym ai_error = "bool \<times> string"

definition ai_error :: "string \<Rightarrow> ai_error" where
  "ai_error text = (False, ''ai: '' @ text)"

fun request_error :: "bool \<Rightarrow> request_failure \<Rightarrow> ai_error" where
  "request_error streams (BuildFailed e) = ai_error ((if streams then ''build stream request: '' else ''build request: '') @ e)"
| "request_error streams (SendFailed ctx e) = (ctx, ''ai: '' @ (if streams then ''stream http request: '' else ''http request: '') @ e)"

definition make_request ::
    "Client \<Rightarrow> bool \<Rightarrow> string \<Rightarrow> oaiMsg list \<Rightarrow> OAIToolDef list \<Rightarrow> string option \<Rightarrow> rat \<Rightarrow> oaiRequest" where
  "make_request c streams model messages tools choice temperature =
     \<lparr> oq_Model = model, oq_Messages = messages, oq_Temperature = temperature, oq_Stream = streams,
       oq_MaxCompletionTokens = maxCompletionTokensFor c model, oq_Tools = tools, oq_ToolChoice = (if tools = [] then None else choice) \<rparr>"

text \<open>Structures and pointers to structures: \<open>null\<close> leaves the former as they are and clears the latter.\<close>

fun dec_object :: "('a \<Rightarrow> payload \<Rightarrow> 'a option) \<Rightarrow> 'a \<Rightarrow> json list \<Rightarrow> 'a option" where
  "dec_object f cur [] = Some cur"
| "dec_object f cur (JObj m # vs) = (case f cur m of None \<Rightarrow> None | Some x \<Rightarrow> dec_object f x vs)"
| "dec_object f cur (JNull # vs) = dec_object f cur vs"
| "dec_object f cur (_ # vs) = None"

fun dec_pointer :: "('a \<Rightarrow> payload \<Rightarrow> 'a option) \<Rightarrow> 'a \<Rightarrow> 'a option \<Rightarrow> json list \<Rightarrow> 'a option option" where
  "dec_pointer f zero cur [] = Some cur"
| "dec_pointer f zero cur (JObj m # vs) =
     (case f (case cur of None \<Rightarrow> zero | Some x \<Rightarrow> x) m of None \<Rightarrow> None | Some x \<Rightarrow> dec_pointer f zero (Some x) vs)"
| "dec_pointer f zero cur (JNull # vs) = dec_pointer f zero None vs"
| "dec_pointer f zero cur (_ # vs) = None"

record wire_call =
  wc_ID :: string
  wc_Name :: string
  wc_Arguments :: string

record wire_message =
  wm_Content :: string
  wm_ReasoningContent :: string
  wm_ToolCalls :: "wire_call list"

record oaiResponse =
  op_Choices :: "wire_message list"
  op_Usage :: "int option"
  op_Error :: "string option"

definition read_function :: "string \<times> string \<Rightarrow> payload \<Rightarrow> (string \<times> string) option" where
  "read_function cur m =
     (case (dec_string (fst cur) (field_vals ''name'' m), dec_string (snd cur) (field_vals ''arguments'' m)) of
        (Some n, Some a) \<Rightarrow> Some (n, a) | _ \<Rightarrow> None)"

definition zero_call :: wire_call where
  "zero_call = \<lparr> wc_ID = '''', wc_Name = '''', wc_Arguments = '''' \<rparr>"

definition read_call :: "wire_call \<Rightarrow> payload \<Rightarrow> wire_call option" where
  "read_call cur m =
     (case (dec_string (wc_ID cur) (field_vals ''id'' m), dec_string '''' (field_vals ''type'' m),
            dec_object read_function (wc_Name cur, wc_Arguments cur) (field_vals ''function'' m)) of
        (Some i, Some _, Some (n, a)) \<Rightarrow> Some \<lparr> wc_ID = i, wc_Name = n, wc_Arguments = a \<rparr>
      | _ \<Rightarrow> None)"

definition zero_message :: wire_message where
  "zero_message = \<lparr> wm_Content = '''', wm_ReasoningContent = '''', wm_ToolCalls = [] \<rparr>"

definition read_message :: "wire_message \<Rightarrow> payload \<Rightarrow> wire_message option" where
  "read_message cur m =
     (case (dec_string '''' (field_vals ''role'' m), dec_string '''' (field_vals ''tool_call_id'' m), dec_string (wm_Content cur) (field_vals ''content'' m),
            dec_string (wm_ReasoningContent cur) (field_vals ''reasoning_content'' m),
            dec_slice (\<lambda>v. dec_object read_call zero_call [v]) (wm_ToolCalls cur) (field_vals ''tool_calls'' m)) of
        (Some _, Some _, Some c, Some r, Some ts) \<Rightarrow> Some \<lparr> wm_Content = c, wm_ReasoningContent = r, wm_ToolCalls = ts \<rparr>
      | _ \<Rightarrow> None)"

definition read_choice :: "wire_message \<Rightarrow> payload \<Rightarrow> wire_message option" where
  "read_choice cur m =
     (case (dec_object read_message cur (field_vals ''message'' m), dec_ptr None (field_vals ''finish_reason'' m)) of
        (Some x, Some _) \<Rightarrow> Some x | _ \<Rightarrow> None)"

definition read_usage :: "int \<Rightarrow> payload \<Rightarrow> int option" where
  "read_usage cur m = dec_int cur (field_vals ''total_tokens'' m)"

definition read_error :: "string \<Rightarrow> payload \<Rightarrow> string option" where
  "read_error cur m = dec_string cur (field_vals ''message'' m)"

definition dec_response :: "raw_message \<Rightarrow> oaiResponse option" where
  "dec_response raw =
     (case struct_members raw of
        None \<Rightarrow> None
      | Some m \<Rightarrow>
          (case (dec_slice (\<lambda>v. dec_object read_choice zero_message [v]) [] (field_vals ''choices'' m),
                 dec_pointer read_usage 0 None (field_vals ''usage'' m), dec_pointer read_error '''' None (field_vals ''error'' m)) of
             (Some cs, Some u, Some e) \<Rightarrow> Some \<lparr> op_Choices = cs, op_Usage = u, op_Error = e \<rparr>
           | _ \<Rightarrow> None))"

definition post :: "client_env \<Rightarrow> transport \<Rightarrow> Client \<Rightarrow> oaiRequest \<Rightarrow> ai_error + oaiResponse" where
  \<comment> \<open>an answer has a choice\<close>
  "post env tp c rq =
     (if cl_endpoint c = '''' then Inl (ai_error ''endpoint not configured'')
      else case tp_post tp (applyAuthHeader c (oq_Model rq)) rq of
        Inl f \<Rightarrow> Inl (request_error False f)
      | Inr (status, Inl (ctx, e)) \<Rightarrow> Inl (ctx, ''ai: read response: '' @ e)
      | Inr (status, Inr raw) \<Rightarrow>
          (case dec_response raw of
             None \<Rightarrow> Inl (ai_error (''parse response (status '' @ show_nat status @ ''): '' @ cx_jsonError env raw))
           | Some r \<Rightarrow>
               (case op_Error r of
                  Some e \<Rightarrow> Inl (ai_error (''provider error: '' @ e))
                | None \<Rightarrow> if op_Choices r = [] then Inl (ai_error ''empty choices in response'') else Inr r)))"

definition complete_chat :: "client_env \<Rightarrow> transport \<Rightarrow> Client \<Rightarrow> string \<Rightarrow> oaiMsg list \<Rightarrow> ai_error + string" where
  "complete_chat env tp c model messages =
     map_sum id (\<lambda>r. wm_Content (hd (op_Choices r))) (post env tp c (make_request c False model messages [] None (3 / 10)))"

definition resolveToolTemperature :: "rat option \<Rightarrow> rat \<Rightarrow> rat" where
  "resolveToolTemperature v d = (case v of None \<Rightarrow> d | Some t \<Rightarrow> if t < 0 then 0 else if t > 2 then 2 else t)"

definition normalizeToolChoice :: "string \<Rightarrow> string option" where
  "normalizeToolChoice choice =
     (let v = ToLower (TrimSpace choice) in
      if v = '''' then None else if v \<in> {''auto'', ''none''} then Some v else Some ''auto'')"

definition completeWithTools ::
    "client_env \<Rightarrow> transport \<Rightarrow> Client \<Rightarrow> string \<Rightarrow> oaiMsg list \<Rightarrow> OAIToolDef list \<Rightarrow> string option \<Rightarrow> rat option \<Rightarrow> ai_error + oaiResponse" where
  "completeWithTools env tp c model messages tools choice temperature =
     post env tp c (make_request c False model messages tools choice (resolveToolTemperature temperature (3 / 10)))"

definition convertOAIToolCalls :: "(string \<Rightarrow> json option) \<Rightarrow> wire_call list \<Rightarrow> ToolCall list" where
  "convertOAIToolCalls decode calls =
     List.map_filter (\<lambda>(i, w).
        if TrimSpace (wc_Name w) = '''' then None
        else Some \<lparr> call_ID = (if TrimSpace (wc_ID w) = '''' then ''call_'' @ show_nat (i + 1) else TrimSpace (wc_ID w)),
                    call_Name = TrimSpace (wc_Name w), call_Arguments = RawJson (normalizeToolArguments decode (wc_Arguments w)) \<rparr>)
       (enumerate 0 calls)"

end
