(* ===== verification/StreamClient.thy ===== *)
theory StreamClient
  imports ModelClient "HOL-Library.AList"
begin

text \<open>
  The calls of the client: a streamed answer read line by line, with tool calls that arrive in pieces, the four operations
  of a provider (\<open>Chat\<close>, \<open>ChatStream\<close>, \<open>ChatWithTools\<close>, \<open>ChatStreamWithTools\<close>), the choice of
  a provider by the name of the model (\<open>internal/ai/router.go\<close>), and the model service of a run of the agent.
\<close>

subsection \<open>The lines of a stream\<close>

record call_delta =
  cd_Index :: int
  cd_ID :: "string option"
  cd_Function :: "(string option \<times> string option) option"

record stream_delta =
  sd_Content :: string
  sd_ReasoningContent :: string
  sd_ToolCalls :: "call_delta list"

definition stream_data :: "string list \<Rightarrow> string list" where
  "stream_data ls =
     map (drop 6) (filter (\<lambda>l. HasPrefix l ''data: '') (takeWhile (\<lambda>l. l \<noteq> ''data: [DONE]'') ls))"

definition read_delta_function :: "string option \<times> string option \<Rightarrow> payload \<Rightarrow> (string option \<times> string option) option" where
  "read_delta_function cur m =
     (case (dec_ptr (fst cur) (field_vals ''name'' m), dec_ptr (snd cur) (field_vals ''arguments'' m)) of
        (Some n, Some a) \<Rightarrow> Some (n, a) | _ \<Rightarrow> None)"

definition zero_call_delta :: call_delta where
  "zero_call_delta = \<lparr> cd_Index = 0, cd_ID = None, cd_Function = None \<rparr>"

definition read_call_delta :: "call_delta \<Rightarrow> payload \<Rightarrow> call_delta option" where
  "read_call_delta cur m =
     (case (dec_int (cd_Index cur) (field_vals ''index'' m), dec_ptr (cd_ID cur) (field_vals ''id'' m), dec_ptr None (field_vals ''type'' m),
            dec_pointer read_delta_function (None, None) (cd_Function cur) (field_vals ''function'' m)) of
        (Some i, Some d, Some _, Some f) \<Rightarrow> Some \<lparr> cd_Index = i, cd_ID = d, cd_Function = f \<rparr>
      | _ \<Rightarrow> None)"

definition zero_delta :: stream_delta where
  "zero_delta = \<lparr> sd_Content = '''', sd_ReasoningContent = '''', sd_ToolCalls = [] \<rparr>"

definition read_delta :: "stream_delta \<Rightarrow> payload \<Rightarrow> stream_delta option" where
  "read_delta cur m =
     (case (dec_string (sd_Content cur) (field_vals ''content'' m), dec_string (sd_ReasoningContent cur) (field_vals ''reasoning_content'' m),
            dec_slice (\<lambda>v. dec_object read_call_delta zero_call_delta [v]) (sd_ToolCalls cur) (field_vals ''tool_calls'' m)) of
        (Some c, Some r, Some ts) \<Rightarrow> Some \<lparr> sd_Content = c, sd_ReasoningContent = r, sd_ToolCalls = ts \<rparr>
      | _ \<Rightarrow> None)"

definition read_stream_choice :: "stream_delta \<Rightarrow> payload \<Rightarrow> stream_delta option" where
  "read_stream_choice cur m =
     (case (dec_object read_delta cur (field_vals ''delta'' m), dec_ptr None (field_vals ''finish_reason'' m)) of
        (Some x, Some _) \<Rightarrow> Some x | _ \<Rightarrow> None)"

definition dec_chunk :: "(string \<Rightarrow> json option) \<Rightarrow> string \<Rightarrow> (stream_delta option \<times> int option) option" where
  \<comment> \<open>the delta of the first choice, and the usage\<close>
  "dec_chunk decode line =
     (case Option.bind (decode line) (\<lambda>v. struct_members (RawJson v)) of
        None \<Rightarrow> None
      | Some m \<Rightarrow>
          (case (dec_slice (\<lambda>v. dec_object read_stream_choice zero_delta [v]) [] (field_vals ''choices'' m),
                 dec_pointer read_usage 0 None (field_vals ''usage'' m)) of
             (Some cs, Some u) \<Rightarrow> Some (case cs of [] \<Rightarrow> None | d # _ \<Rightarrow> Some d, u)
           | _ \<Rightarrow> None))"

definition chunks_of :: "(string \<Rightarrow> json option) \<Rightarrow> string list \<Rightarrow> (stream_delta option \<times> int option) list" where
  "chunks_of decode ls = List.map_filter (dec_chunk decode) (stream_data ls)"

definition stream_tokens :: "(stream_delta option \<times> int option) list \<Rightarrow> int" where
  "stream_tokens cs = fold (\<lambda>(_, u) t. case u of None \<Rightarrow> t | Some n \<Rightarrow> n) cs 0"

subsection \<open>Tool calls in pieces\<close>

record call_acc =
  ac_ID :: string
  ac_Name :: string
  ac_Arguments :: string

definition zero_acc :: call_acc where
  "zero_acc = \<lparr> ac_ID = '''', ac_Name = '''', ac_Arguments = '''' \<rparr>"

definition unless_blank :: "string option \<Rightarrow> string \<Rightarrow> string" where
  "unless_blank new old = (case new of Some s \<Rightarrow> if TrimSpace s \<noteq> '''' then TrimSpace s else old | None \<Rightarrow> old)"

definition take_delta :: "call_delta \<Rightarrow> call_acc \<Rightarrow> call_acc" where
  "take_delta d a =
     (let b = a\<lparr>ac_ID := unless_blank (cd_ID d) (ac_ID a)\<rparr> in
      case cd_Function d of
        None \<Rightarrow> b
      | Some (n, args) \<Rightarrow> b\<lparr>ac_Name := unless_blank n (ac_Name a),
          ac_Arguments := ac_Arguments a @ (case args of None \<Rightarrow> '''' | Some s \<Rightarrow> s)\<rparr>)"

definition add_delta :: "call_delta \<Rightarrow> (int \<times> call_acc) list \<Rightarrow> (int \<times> call_acc) list" where
  "add_delta d acc =
     (if cd_Index d \<in> fst ` set acc then map (\<lambda>(i, a). (i, if i = cd_Index d then take_delta d a else a)) acc
      else acc @ [(cd_Index d, take_delta d zero_acc)])"

definition assembled_calls :: "(string \<Rightarrow> json option) \<Rightarrow> (int \<times> call_acc) list \<Rightarrow> ToolCall list" where
  "assembled_calls decode acc =
     List.map_filter (\<lambda>(i, a).
        if ac_Name a = '''' then None
        else Some \<lparr> call_ID = (if TrimSpace (ac_ID a) = '''' then ''call_'' @ show_int (i + 1) else TrimSpace (ac_ID a)),
                    call_Name = ac_Name a, call_Arguments = RawJson (normalizeToolArguments decode (ac_Arguments a)) \<rparr>)
       (sort_key fst acc)"

definition streamed_calls :: "(string \<Rightarrow> json option) \<Rightarrow> call_delta list \<Rightarrow> ToolCall list" where
  "streamed_calls decode ds = assembled_calls decode (fold add_delta ds [])"

subsection \<open>A streamed answer\<close>

record streamed =
  st_pieces :: "string list"
  st_reasoning :: string
  st_calls :: "ToolCall list"
  st_tokens :: int
  st_error :: "ai_error option"

definition failed_stream :: "ai_error \<Rightarrow> streamed" where
  "failed_stream e = \<lparr> st_pieces = [], st_reasoning = '''', st_calls = [], st_tokens = 0, st_error = Some e \<rparr>"

definition read_stream :: "client_env \<Rightarrow> stream_body \<Rightarrow> streamed" where
  \<comment> \<open>a line that is no JSON is skipped; \<open>sb_error\<close> is what \<open>scanner.Err\<close> says after the loop, which an error
     read together with the last line sets even when that line was \<open>[DONE]\<close>\<close>
  "read_stream env body =
     (let cs = chunks_of (cx_decode env) (sb_lines body); ds = List.map_filter fst cs in
      \<lparr> st_pieces = snd (visible_pieces False (map sd_Content ds)), st_reasoning = concat (map sd_ReasoningContent ds),
        st_calls = streamed_calls (cx_decode env) (concat (map sd_ToolCalls ds)), st_tokens = stream_tokens cs,
        st_error = map_option (\<lambda>(ctx, e). (ctx, ''ai: stream read error: '' @ e)) (sb_error body) \<rparr>)"

definition open_stream :: "client_env \<Rightarrow> transport \<Rightarrow> Client \<Rightarrow> oaiRequest \<Rightarrow> streamed" where
  "open_stream env tp c rq =
     (if cl_endpoint c = '''' then failed_stream (ai_error ''endpoint not configured'')
      else case tp_stream tp (applyAuthHeader c (oq_Model rq)) rq of
        Inl f \<Rightarrow> failed_stream (request_error True f)
      | Inr (status, body) \<Rightarrow>
          if status \<noteq> 200 then failed_stream (ai_error (''stream request failed (HTTP '' @ show_nat status @ ''): '' @ sb_text body))
          else read_stream env body)"

definition completeStream :: "client_env \<Rightarrow> transport \<Rightarrow> Client \<Rightarrow> string \<Rightarrow> oaiMsg list \<Rightarrow> streamed" where
  "completeStream env tp c model messages = open_stream env tp c (make_request c True model messages [] None (7 / 10))"

definition completeStreamWithTools ::
    "client_env \<Rightarrow> transport \<Rightarrow> Client \<Rightarrow> string \<Rightarrow> oaiMsg list \<Rightarrow> OAIToolDef list \<Rightarrow> string option \<Rightarrow> rat option \<Rightarrow> streamed" where
  "completeStreamWithTools env tp c model messages tools choice temperature =
     open_stream env tp c (make_request c True model messages tools choice (resolveToolTemperature temperature (7 / 10)))"

subsection \<open>Chat\<close>

definition extractJSON :: "string \<Rightarrow> string" where
  "extractJSON s = (case (Index s ''{'', LastIndexByte s CHR ''}'') of
      (Some i, Some j) \<Rightarrow> if j \<le> i then '''' else take (j + 1 - i) (drop i s)
    | _ \<Rightarrow> '''')"

definition chat_messages :: "client_env \<Rightarrow> bool \<Rightarrow> ChatRequest \<Rightarrow> oaiMsg list" where
  "chat_messages env streams rq =
     (case buildFullContextJSON (cx_ratio env) (map_option (cx_contextJSON env) (rq_ContextData rq)) (rq_GraphType rq) of (context, mode) \<Rightarrow>
        question_messages (cx_chatPrompt env streams (graph_type_name (rq_GraphType rq))) (rq_History rq)
          (buildUserPrompt (rq_GraphType rq) (graphSchemaHint (rq_GraphType rq)) mode (Marshal context) (rq_Message rq)))"

definition Chat :: "client_env \<Rightarrow> transport \<Rightarrow> Client \<Rightarrow> ChatRequest \<Rightarrow> ai_error + ChatResponse" where
  "Chat env tp c rq =
     map_sum id (\<lambda>raw.
        let plain = \<lparr> rs_Reply = TrimSpace raw, rs_Suggestions = [] \<rparr> in
        case if extractJSON raw = '''' then None else Option.bind (cx_decode env (extractJSON raw)) (\<lambda>v. struct_members (RawJson v)) of
          None \<Rightarrow> plain
        | Some m \<Rightarrow> (case (dec_string '''' (field_vals ''reply'' m), dec_strings [] (field_vals ''suggestions'' m)) of
            (Some r, Some ss) \<Rightarrow> \<lparr> rs_Reply = r, rs_Suggestions = ss \<rparr> | _ \<Rightarrow> plain))
       (complete_chat env tp c (chatModelFor c (rq_Model rq)) (chat_messages env False rq))"

definition ChatStream :: "client_env \<Rightarrow> transport \<Rightarrow> Client \<Rightarrow> ChatRequest \<Rightarrow> string list \<times> int \<times> string \<times> ai_error option" where
  "ChatStream env tp c rq =
     (let model = chatModelFor c (rq_Model rq); r = completeStream env tp c model (chat_messages env True rq) in
      (st_pieces r, st_tokens r, model, st_error r))"

subsection \<open>Chat with tools\<close>

definition buildAgentMessages :: "client_env \<Rightarrow> AgentChatRequest \<Rightarrow> oaiMsg list" where
  "buildAgentMessages env rq =
     (let question = cx_say env (aq_Message rq) in
      case buildAgentFullContextJSON (cx_ratio env) (aq_GraphType rq) (Some (cx_contextJSON env (aq_ContextData rq))) question (cx_threshold env) of
        (context, mode) \<Rightarrow>
          question_messages (cx_agentPrompt env rq (graph_type_name (aq_GraphType rq))) (aq_History rq)
            (buildUserPrompt (aq_GraphType rq) (graphSchemaHint (aq_GraphType rq)) mode (Marshal context) question))"

definition falls_back :: "client_env \<Rightarrow> AgentChatRequest \<Rightarrow> ai_error \<Rightarrow> bool" where
  "falls_back env rq e \<longleftrightarrow> cx_fallback env \<and> aq_Tools rq \<noteq> [] \<and> shouldFallbackToTextToolCall (snd e)"

definition calls_in_text :: "client_env \<Rightarrow> ToolCall list \<Rightarrow> string \<Rightarrow> ToolCall list \<times> string" where
  \<comment> \<open>calls written as text, when there are no others\<close>
  "calls_in_text env calls reply =
     (if calls = [] \<and> reply \<noteq> '''' then
        (if cx_fallback env then
           (case ParseFallbackToolCalls (cx_decode env) reply of (cs, rest) \<Rightarrow> if cs = [] then (calls, reply) else (cs, rest))
         else (calls, stripFallbackFunctionCallLines reply))
      else (calls, reply))"

definition ChatWithTools :: "client_env \<Rightarrow> transport \<Rightarrow> Client \<Rightarrow> AgentChatRequest \<Rightarrow> ai_error + AgentChatResponse" where
  "ChatWithTools env tp c rq =
     (let messages = buildAgentMessages env rq; model = chatModelFor c (aq_Model rq) in
      case completeWithTools env tp c model messages (aq_Tools rq) (normalizeToolChoice (aq_ToolChoice rq)) (Some (aq_Temperature rq)) of
        Inl e \<Rightarrow>
          if \<not> falls_back env rq e then Inl e
          else map_sum id (\<lambda>raw. case ParseFallbackToolCalls (cx_decode env) raw of (cs, rest) \<Rightarrow>
                 \<lparr> ar_Reply = TrimSpace rest, ar_ReasoningContent = '''', ar_ToolCalls = cs, ar_TokensUsed = 0, ar_ModelUsed = model \<rparr>)
                (complete_chat env tp c model (buildFallbackMessages (cx_schema env) messages (aq_Tools rq)))
      | Inr r \<Rightarrow>
          let m = hd (op_Choices r) in
          (case calls_in_text env (convertOAIToolCalls (cx_decode env) (wm_ToolCalls m)) (TrimSpace (wm_Content m)) of (calls, reply) \<Rightarrow>
             Inr \<lparr> ar_Reply = reply, ar_ReasoningContent = TrimSpace (wm_ReasoningContent m), ar_ToolCalls = calls,
                   ar_TokensUsed = (case op_Usage r of None \<Rightarrow> 0 | Some n \<Rightarrow> n), ar_ModelUsed = model \<rparr>))"

definition ChatStreamWithTools :: "client_env \<Rightarrow> transport \<Rightarrow> Client \<Rightarrow> AgentChatRequest \<Rightarrow> string list \<times> model_turn" where
  "ChatStreamWithTools env tp c rq =
     (let messages = buildAgentMessages env rq; model = chatModelFor c (aq_Model rq);
          r = completeStreamWithTools env tp c model messages (aq_Tools rq) (normalizeToolChoice (aq_ToolChoice rq)) (Some (aq_Temperature rq));
          turn = (\<lambda>reply reasoning calls tokens err. \<lparr> mt_Reply = reply, mt_Reasoning = reasoning, mt_ToolCalls = calls, mt_Tokens = tokens,
                    mt_ModelUsed = model, mt_Error = err \<rparr>) in
      case st_error r of
        Some e \<Rightarrow>
          if \<not> falls_back env rq e then (st_pieces r, turn '''' '''' [] (st_tokens r) (Some e))
          else let f = completeStream env tp c model (buildFallbackMessages (cx_schema env) messages (aq_Tools rq)) in
            (st_pieces r @ st_pieces f,
             case st_error f of
               Some e2 \<Rightarrow> turn '''' '''' [] (st_tokens f) (Some e2)
             | None \<Rightarrow> (case ParseFallbackToolCalls (cx_decode env) (concat (st_pieces f)) of (cs, rest) \<Rightarrow>
                 turn (TrimSpace rest) '''' cs (st_tokens f) None))
      | None \<Rightarrow>
          (case calls_in_text env (st_calls r) (TrimSpace (concat (st_pieces r))) of (calls, reply) \<Rightarrow>
             (st_pieces r, turn (if st_calls r = [] then TrimSpace reply else reply) (TrimSpace (st_reasoning r)) calls (st_tokens r) None)))"

subsection \<open>The choice of a provider\<close>

record 'p router =
  rt_default :: 'p
  rt_providers :: "(string \<times> 'p) list"
  rt_routes :: "(string \<times> string) list"

definition normalizeProviders :: "(string \<times> 'p option) list \<Rightarrow> (string \<times> 'p) list" where
  \<comment> \<open>in the order the map is walked; of equal keys the last is kept\<close>
  "normalizeProviders ps =
     fold (\<lambda>(k, p) acc. let key = ToLower (TrimSpace k) in
        case p of None \<Rightarrow> acc | Some x \<Rightarrow> if key = '''' then acc else AList.update key x acc) ps []"

definition normalizeModelPrefixes :: "(string \<times> string list) list \<Rightarrow> (string \<times> string list) list" where
  "normalizeModelPrefixes ps =
     fold (\<lambda>(k, qs) acc. let key = ToLower (TrimSpace k) in
        if key = '''' then acc else AList.update key (filter (\<lambda>q. q \<noteq> '''') (map (\<lambda>q. ToLower (TrimSpace q)) qs)) acc) ps []"

definition buildModelRoutes :: "(string \<times> 'p) list \<Rightarrow> (string \<times> string list) list \<Rightarrow> (string \<times> string) list" where
  \<comment> \<open>prefix and provider, longer modelPrefixes first, equal lengths by name\<close>
  "buildModelRoutes providers modelPrefixes =
     sort_key (\<lambda>(q, _). - int (length q)) (sort_key fst (concat (map (\<lambda>(k, _).
        map (\<lambda>q. (q, k)) (case map_of modelPrefixes k of None \<Rightarrow> [k] | Some [] \<Rightarrow> [k] | Some qs \<Rightarrow> qs)) providers)))"

definition NewRoutedProvider :: "string \<Rightarrow> (string \<times> 'p option) list \<Rightarrow> (string \<times> string list) list \<Rightarrow> ai_error + 'p router" where
  "NewRoutedProvider defaultProvider ps modelPrefixes =
     (let providers = normalizeProviders ps; d = ToLower (TrimSpace defaultProvider);
          key = (if d \<noteq> '''' then d else if map_of providers ''qwen'' \<noteq> None then ''qwen'' else hd (sort (map fst providers))) in
      if providers = [] then Inl (ai_error ''no providers configured'')
      else case map_of providers key of
        None \<Rightarrow> Inl (ai_error (''default provider not found: '' @ defaultProvider))
      | Some p \<Rightarrow> Inr \<lparr> rt_default = p, rt_providers = providers,
          rt_routes = buildModelRoutes providers (normalizeModelPrefixes modelPrefixes) \<rparr>)"

definition resolve_model :: "'p router \<Rightarrow> string \<Rightarrow> 'p \<times> string" where
  "resolve_model r model =
     (let t = TrimSpace model; l = ToLower t;
          named = filter (\<lambda>(k, _). HasPrefix l (k @ '':'') \<or> HasPrefix l (k @ ''/'')) (rt_providers r);
          routed = List.map_filter (\<lambda>(q, k). if HasPrefix l q then map_of (rt_providers r) k else None) (rt_routes r) in
      if t = '''' then (rt_default r, '''')
      else case named of
        (k, p) # _ \<Rightarrow> (p, TrimSpace (drop (length k + 1) t))
      | [] \<Rightarrow> (case routed of p # _ \<Rightarrow> (p, t) | [] \<Rightarrow> (rt_default r, t)))"

subsection \<open>The model service of a run\<close>

definition routed_service :: "client_env \<Rightarrow> (int \<Rightarrow> transport) \<Rightarrow> Client router \<Rightarrow> model_service" where
  \<comment> \<open>the network may answer differently in every round\<close>
  "routed_service env tp r =
     (let route = (\<lambda>rq. case resolve_model r (aq_Model rq) of (c, model) \<Rightarrow> (c, rq\<lparr>aq_Model := model\<rparr>)) in
      \<lparr> ms_stream = (\<lambda>rq. case route rq of (c, rq1) \<Rightarrow> ChatStreamWithTools env (tp 0) c rq1),
        ms_chat = (\<lambda>n rq. case route rq of (c, rq1) \<Rightarrow> map_sum id Some (ChatWithTools env (tp n) c rq1)) \<rparr>)"

end
