(* ===== verification/ClientTheorems.thy ===== *)
theory ClientTheorems
  imports StreamClient "HOL-Library.Multiset"
begin

text \<open>
  The client of a language model: tool calls that arrive in pieces, calls written as text, and the choice of a
  provider, which does not depend on the order Go walks its map.
\<close>

subsection \<open>Calls in pieces\<close>

text \<open>What the pieces of one call say, read off the whole stream: the last identifier and the last name that are not
  blank, and the texts of the arguments, one after the other.\<close>

definition last_given :: "string option list \<Rightarrow> string" where
  "last_given xs = (let given = filter (\<lambda>s. TrimSpace s \<noteq> '''') (List.map_filter id xs) in if given = [] then '''' else TrimSpace (last given))"

definition pieces_of :: "call_delta list \<Rightarrow> int \<Rightarrow> call_delta list" where
  "pieces_of ds i = filter (\<lambda>d. cd_Index d = i) ds"

definition delivered_id :: "call_delta list \<Rightarrow> int \<Rightarrow> string" where
  "delivered_id ds i = last_given (map cd_ID (pieces_of ds i))"

definition delivered_name :: "call_delta list \<Rightarrow> int \<Rightarrow> string" where
  "delivered_name ds i = last_given (map fst (List.map_filter cd_Function (pieces_of ds i)))"

definition delivered_arguments :: "call_delta list \<Rightarrow> int \<Rightarrow> string" where
  "delivered_arguments ds i = concat (List.map_filter snd (List.map_filter cd_Function (pieces_of ds i)))"

text \<open>The accumulator of the client comes to the same.\<close>

definition delivered :: "call_delta list \<Rightarrow> int \<Rightarrow> call_acc" where
  "delivered ds i = fold take_delta (pieces_of ds i) zero_acc"

lemma map_filter_append: "List.map_filter f (xs @ ys) = List.map_filter f xs @ List.map_filter f ys"
  by (induction xs) (simp_all add: List.map_filter_simps split: option.split)

lemma last_given_snoc: "last_given (xs @ [x]) = unless_blank x (last_given xs)"
  by (auto simp: last_given_def Let_def unless_blank_def map_filter_append List.map_filter_simps split: option.split)

lemma last_given_Nil: "last_given [] = ''''"
  by (simp add: last_given_def List.map_filter_simps)

lemma taken_together:
  "fold take_delta ds zero_acc = \<lparr> ac_ID = last_given (map cd_ID ds), ac_Name = last_given (map fst (List.map_filter cd_Function ds)),
     ac_Arguments = concat (List.map_filter snd (List.map_filter cd_Function ds)) \<rparr>"
proof (induction ds rule: rev_induct)
  case (snoc d ds)
  then show ?case
    by (auto simp: take_delta_def Let_def last_given_snoc map_filter_append List.map_filter_simps split: option.split)
qed (simp add: zero_acc_def last_given_Nil List.map_filter_simps)

lemma delivered_parts:
  "delivered ds i = \<lparr> ac_ID = delivered_id ds i, ac_Name = delivered_name ds i, ac_Arguments = delivered_arguments ds i \<rparr>"
  by (simp add: delivered_def taken_together delivered_id_def delivered_name_def delivered_arguments_def)

lemma map_filter_map: "List.map_filter f (map g xs) = List.map_filter (f \<circ> g) xs"
  by (induction xs) (simp_all add: List.map_filter_simps split: option.split)

lemma map_filter_cong: "(\<And>x. x \<in> set xs \<Longrightarrow> f x = g x) \<Longrightarrow> List.map_filter f xs = List.map_filter g xs"
  by (induction xs) (simp_all add: List.map_filter_simps split: option.split)

lemma delivered_snoc: "delivered (ds @ [d]) i = (if cd_Index d = i then take_delta d (delivered ds i) else delivered ds i)"
  by (simp add: delivered_def pieces_of_def)

lemma add_deltas:
  "distinct (map fst (fold add_delta ds [])) \<and> fst ` set (fold add_delta ds []) = cd_Index ` set ds
    \<and> (\<forall>(i, a) \<in> set (fold add_delta ds []). a = delivered ds i)"
proof (induction ds rule: rev_induct)
  case (snoc d ds)
  define acc where "acc = fold add_delta ds []"
  have IH: "distinct (map fst acc)" "fst ` set acc = cd_Index ` set ds" "\<forall>(i, a) \<in> set acc. a = delivered ds i"
    using snoc by (simp_all add: acc_def)
  have step: "fold add_delta (ds @ [d]) [] = add_delta d acc" by (simp add: acc_def)
  show ?case
  proof (cases "cd_Index d \<in> fst ` set acc")
    case True
    then have a: "add_delta d acc = map (\<lambda>(i, a). (i, if i = cd_Index d then take_delta d a else a)) acc"
      by (simp add: add_delta_def)
    have m: "map fst (add_delta d acc) = map fst acc" unfolding a by (simp add: comp_def case_prod_unfold)
    then have "fst ` set (add_delta d acc) = fst ` set acc" by (metis list.set_map)
    moreover have "\<forall>(i, a) \<in> set (add_delta d acc). a = delivered (ds @ [d]) i"
      unfolding a using IH(3) by (auto simp: delivered_snoc)
    ultimately show ?thesis unfolding step m using IH(1,2) True by auto
  next
    case False
    then have "filter (\<lambda>x. cd_Index x = cd_Index d) ds = []"
      unfolding IH(2) by (intro filter_False) (metis image_eqI)
    then have "delivered ds (cd_Index d) = zero_acc" by (simp add: delivered_def pieces_of_def)
    have a: "add_delta d acc = acc @ [(cd_Index d, take_delta d zero_acc)]" using False by (simp add: add_delta_def)
    have "a = delivered (ds @ [d]) i" if "(i, a) \<in> set acc" for i a
    proof -
      have "i \<noteq> cd_Index d" using that False by force
      with that IH(3) show ?thesis by (auto simp: delivered_snoc)
    qed
    with \<open>delivered ds (cd_Index d) = zero_acc\<close> False show ?thesis
      unfolding step a using IH(1,2) by (auto simp: delivered_snoc)
  qed
qed (simp add: delivered_def pieces_of_def)

lemma assembled_order:
  assumes "cd_Index ` set ds = int ` {0..<n}"
  shows "sort_key fst (fold add_delta ds []) = map (\<lambda>i. (int i, delivered ds (int i))) [0..<n]"
proof -
  let ?acc = "fold add_delta ds []"
  have acc: "distinct (map fst ?acc)" "fst ` set ?acc = int ` {0..<n}" "\<forall>(i, a) \<in> set ?acc. a = delivered ds i"
    using add_deltas [of ds] assms by simp_all
  have "map fst (sort_key fst ?acc) = map int [0..<n]"
  proof (rule sorted_distinct_set_unique)
    show "distinct (map fst (sort_key fst ?acc))"
      using acc(1) by (metis distinct_map distinct_sort list.set_map set_sort)
    show "sorted (map int [0..<n])" by (simp add: sorted_iff_nth_mono)
    show "set (map fst (sort_key fst ?acc)) = set (map int [0..<n])" using acc(2) by simp
  qed (simp_all add: distinct_map)
  moreover have "sort_key fst ?acc = map (\<lambda>i. (i, delivered ds i)) (map fst (sort_key fst ?acc))"
    using acc(3) by (auto simp: comp_def intro!: map_idI [symmetric])
  ultimately show ?thesis by (metis (no_types, lifting) map_map comp_apply map_eq_conv)
qed

text \<open>C36: A stream that delivers the calls of an answer in pieces gives the same calls as the answer in one: if the pieces of every
  call bring its arguments, cut anywhere, in their order, and its identifier and its name as the last ones that are not blank, the
  assembled calls have the same identifiers (or the same made-up ones), names and arguments in the same order, however
  the pieces of different calls are mixed.\<close>

theorem streamed_calls_whole:
  assumes "cd_Index ` set ds = int ` {0..<length calls}"
    and "\<And>i. i < length calls \<Longrightarrow> delivered_arguments ds (int i) = wc_Arguments (calls ! i)"
    and "\<And>i. i < length calls \<Longrightarrow> delivered_id ds (int i) = TrimSpace (wc_ID (calls ! i))"
    and "\<And>i. i < length calls \<Longrightarrow> delivered_name ds (int i) = TrimSpace (wc_Name (calls ! i))"
  shows "streamed_calls decode ds = convertOAIToolCalls decode calls"
proof -
  have calls: "enumerate 0 calls = map (\<lambda>i. (i, calls ! i)) [0..<length calls]"
    by (rule nth_equalityI) (simp_all add: nth_enumerate_eq)
  have name: "show_int (int i + 1) = show_nat (i + 1)" for i
    by (simp add: show_int_def nat_add_distrib)
  show ?thesis
    unfolding streamed_calls_def assembled_calls_def assembled_order [OF assms(1)] convertOAIToolCalls_def calls map_filter_map
    by (rule map_filter_cong) (use assms(2-4) name in \<open>auto simp: comp_def delivered_parts\<close>)
qed

definition ex_calls :: "wire_call list" where
  "ex_calls = [\<lparr> wc_ID = ''a'', wc_Name = ''get_node_detail'', wc_Arguments = ''{}'' \<rparr>, \<lparr> wc_ID = '''', wc_Name = ''add_node'', wc_Arguments = ''[]'' \<rparr>]"

definition ex_deltas :: "call_delta list" where
  "ex_deltas = [\<lparr> cd_Index = 1, cd_ID = None, cd_Function = Some (Some ''add_node'', Some ''['') \<rparr>,
     \<lparr> cd_Index = 0, cd_ID = Some '' a'', cd_Function = Some (Some ''get_node_detail'', None) \<rparr>,
     \<lparr> cd_Index = 1, cd_ID = Some '''', cd_Function = Some (None, Some '']'') \<rparr>,
     \<lparr> cd_Index = 0, cd_ID = None, cd_Function = Some (Some '' '', Some ''{}'') \<rparr>]"

theorem streamed_calls_whole_witness:
  "streamed_calls (\<lambda>t. if t = ''{}'' then Some (JObj []) else None) ex_deltas
    = convertOAIToolCalls (\<lambda>t. if t = ''{}'' then Some (JObj []) else None) ex_calls"
proof (rule streamed_calls_whole)
  show "cd_Index ` set ex_deltas = int ` {0..<length ex_calls}" by (auto simp: ex_deltas_def ex_calls_def)
  have "list_all (\<lambda>i. delivered_arguments ex_deltas (int i) = wc_Arguments (ex_calls ! i)
      \<and> delivered_id ex_deltas (int i) = TrimSpace (wc_ID (ex_calls ! i))
      \<and> delivered_name ex_deltas (int i) = TrimSpace (wc_Name (ex_calls ! i))) [0, 1]"
    by code_simp
  moreover fix i assume "i < length ex_calls"
  then have "i \<in> {0, 1}" by (auto simp: ex_calls_def)
  ultimately show "delivered_arguments ex_deltas (int i) = wc_Arguments (ex_calls ! i)"
    "delivered_id ex_deltas (int i) = TrimSpace (wc_ID (ex_calls ! i))"
    "delivered_name ex_deltas (int i) = TrimSpace (wc_Name (ex_calls ! i))" by auto
qed

subsection \<open>Calls written as text\<close>

datatype reply_line = TextLine string | CallLine string string json

fun print_line :: "reply_line \<Rightarrow> string" where
  "print_line (TextLine t) = t"
| "print_line (CallLine name args v) = ''FUNCTION_CALL: '' @ name @ ''('' @ args @ '')''"

fun line_ok :: "(string \<Rightarrow> json option) \<Rightarrow> reply_line \<Rightarrow> bool" where
  "line_ok decode (TextLine t) \<longleftrightarrow> CHR 0x0A \<notin> set t \<and> CHR 0x0D \<notin> set t \<and> \<not> HasPrefix (ToUpper (TrimSpace t)) call_prefix"
| "line_ok decode (CallLine name args v) \<longleftrightarrow> fallback_tool_name name \<and> CHR 0x0A \<notin> set args \<and> CHR 0x0D \<notin> set args
     \<and> args \<noteq> '''' \<and> TrimSpace args = args \<and> decode args = Some v"

fun calls_written :: "nat \<Rightarrow> reply_line list \<Rightarrow> ToolCall list" where
  "calls_written n [] = []"
| "calls_written n (TextLine t # ls) = calls_written n ls"
| "calls_written n (CallLine name args v # ls) =
     \<lparr> call_ID = ''fallback_call_'' @ show_nat n, call_Name = name, call_Arguments = RawJson v \<rparr> # calls_written (n + 1) ls"

fun texts_written :: "reply_line list \<Rightarrow> string list" where
  "texts_written [] = []"
| "texts_written (TextLine t # ls) = t # texts_written ls"
| "texts_written (CallLine name args v # ls) = texts_written ls"

lemma name_chars: "fallback_tool_name name \<Longrightarrow> c \<in> set name \<Longrightarrow> ascii_letter c \<or> between_chars (CHR ''0'', CHR ''9'') c \<or> c = CHR ''_''"
  by (cases name) (auto simp: fallback_tool_name_def list_all_iff)

lemma name_plain: "fallback_tool_name name \<Longrightarrow> c \<in> set name \<Longrightarrow> plain_char c \<and> c \<noteq> CHR ''(''"
  by (drule (1) name_chars) (auto simp: ascii_letter_def between_chars_def plain_char_def less_eq_char_def)

lemma name_trimmed: "fallback_tool_name name \<Longrightarrow> TrimSpace name = name"
  by (rule TrimSpace_plain) (auto simp: fallback_tool_name_def name_plain dest: name_plain [OF _ hd_in_set] name_plain [OF _ last_in_set])

lemma Index_char: "c \<notin> set s \<Longrightarrow> Index (s @ c # t) [c] = Some (length s)"
  by (induction s) auto

lemma LastIndexByte_last [simp]: "LastIndexByte (s @ [c]) c = Some (length s)"
  by (simp add: LastIndexByte_def)

lemma arguments_decoded: "TrimSpace args = args \<Longrightarrow> args \<noteq> '''' \<Longrightarrow> decode args = Some v \<Longrightarrow> normalizeToolArguments decode args = v"
  by (simp add: normalizeToolArguments_def argument_candidates_def List.map_filter_simps)

lemma TrimSpace_leading_blank: "TrimSpace (CHR '' '' # s) = TrimSpace s"
  by (simp add: TrimSpace_def TrimLeft.simps [of "CHR '' '' # s"] ws_len_def ascii_space_def)

lemma parse_call_line:
  assumes "line_ok decode (CallLine name args v)"
  shows "parseFallbackToolCallLine decode (TrimSpace (print_line (CallLine name args v))) n
    = Some \<lparr> call_ID = ''fallback_call_'' @ show_nat n, call_Name = name, call_Arguments = RawJson v \<rparr>"
proof -
  have name: "fallback_tool_name name" "name \<noteq> ''''" "TrimSpace name = name" "CHR ''('' \<notin> set name"
    using assms name_trimmed name_plain by (auto simp: fallback_tool_name_def)
  let ?payload = "name @ CHR ''('' # args @ '')''"
  have line: "TrimSpace (''FUNCTION_CALL: '' @ ?payload) = ''FUNCTION_CALL: '' @ ?payload"
    by (rule TrimSpace_plain) (simp_all add: plain_char_def less_eq_char_def)
  have upper: "HasPrefix (ToUpper (''FUNCTION_CALL: '' @ ?payload)) call_prefix"
    using name(2) by (cases name) (simp_all add: call_prefix_def ascii_upper_def)
  have payload: "TrimSpace (drop (length call_prefix) (''FUNCTION_CALL: '' @ ?payload)) = ?payload"
  proof -
    have "drop (length call_prefix) (''FUNCTION_CALL: '' @ ?payload) = CHR '' '' # ?payload" by (simp add: call_prefix_def)
    moreover have "TrimSpace ?payload = ?payload"
      using name(1,2) name_plain [OF name(1) hd_in_set] by (intro TrimSpace_plain) (simp_all add: plain_char_def less_eq_char_def)
    ultimately show ?thesis by (simp add: TrimSpace_leading_blank)
  qed
  have index: "Index ?payload ''('' = Some (length name)" using name(4) by (rule Index_char)
  have last: "LastIndexByte ?payload CHR '')'' = Some (length name + 1 + length args)"
    using LastIndexByte_last [of "name @ CHR ''('' # args" "CHR '')''"] by simp
  show ?thesis
    using assms name
    by (simp add: parseFallbackToolCallLine_def line [simplified] upper [simplified] payload [simplified] index last Let_def arguments_decoded)
qed

lemma parse_printed:
  "list_all (line_ok decode) ls \<Longrightarrow> parse_lines decode n (map print_line ls) = (calls_written n ls, texts_written ls)"
proof (induction ls arbitrary: n)
  case (Cons l ls)
  show ?case
  proof (cases l)
    case (TextLine t)
    with Cons show ?thesis by (simp add: parseFallbackToolCallLine_def)
  next
    case (CallLine name args v)
    with Cons show ?thesis using parse_call_line [of decode name args v n] by (simp del: print_line.simps)
  qed
qed simp

lemma printed_characters:
  assumes "line_ok decode l" and "c = CHR 0x0A \<or> c = CHR 0x0D"
  shows "c \<notin> set (print_line l)"
proof (cases l)
  case (CallLine name args v)
  then have "c \<in> set name \<Longrightarrow> plain_char c" using assms(1) name_plain by auto
  then have "c \<notin> set name" using assms(2) by (auto simp: plain_char_def less_eq_char_def)
  with CallLine assms show ?thesis by auto
qed (use assms in auto)

lemma Join_chars: "c \<notin> set sep \<Longrightarrow> list_all (\<lambda>l. c \<notin> set l) ls \<Longrightarrow> c \<notin> set (Join ls sep)"
  by (induction ls sep rule: Join.induct) auto

text \<open>C37: An answer whose calls are written the way the instruction asks for, one \<open>FUNCTION_CALL: name(arguments)\<close> per line between
  lines of text, is read back as exactly these calls, in their order, numbered from one and with the JSON value of their
  arguments; and what is left of the answer is its text.\<close>

theorem written_calls_read:
  assumes "list_all (line_ok decode) ls"
  shows "ParseFallbackToolCalls decode (Join (map print_line ls) line_end)
    = (calls_written 1 ls, TrimSpace (Join (texts_written ls) line_end))"
proof (cases "ls = []")
  case True
  then show ?thesis
    by (simp add: ParseFallbackToolCalls_def Lines_def parseFallbackToolCallLine_def call_prefix_def)
next
  case False
  have "list_all (\<lambda>l. CHR 0x0A \<notin> set l) (map print_line ls)" "list_all (\<lambda>l. CHR 0x0D \<notin> set l) (map print_line ls)"
    using assms printed_characters by (auto simp: list_all_iff)
  then have "Lines (unix_lines (Join (map print_line ls) line_end)) = map print_line ls"
    using False by (simp add: unix_lines_id Join_chars Lines_Join)
  then show ?thesis using parse_printed [OF assms] by (simp add: ParseFallbackToolCalls_def)
qed

theorem written_calls_read_witness:
  "ParseFallbackToolCalls (\<lambda>t. if t = ''{}'' then Some (JObj []) else None)
     (Join [''I look first.'', ''FUNCTION_CALL: get_graph_summary({})'', ''Then I decide.''] line_end)
   = ([\<lparr> call_ID = ''fallback_call_1'', call_Name = ''get_graph_summary'', call_Arguments = RawJson (JObj []) \<rparr>],
      ''I look first.'' @ line_end @ ''Then I decide.'')"
proof -
  let ?ls = "[TextLine ''I look first.'', CallLine ''get_graph_summary'' ''{}'' (JObj []), TextLine ''Then I decide.'']"
  have "list_all (line_ok (\<lambda>t. if t = ''{}'' then Some (JObj []) else None)) ?ls" by code_simp
  from written_calls_read [OF this]
  have "ParseFallbackToolCalls (\<lambda>t. if t = ''{}'' then Some (JObj []) else None) (Join (map print_line ?ls) line_end)
    = (calls_written 1 ?ls, TrimSpace (Join (texts_written ?ls) line_end))" .
  moreover have "TrimSpace (Join (texts_written ?ls) line_end) = ''I look first.'' @ line_end @ ''Then I decide.''" by code_simp
  moreover have "show_nat 1 = ''1''" by code_simp
  ultimately show ?thesis by simp
qed

subsection \<open>The choice of a provider\<close>

text \<open>Go walks a map in any order: a provider must not depend on it. It does not when the keys contain neither separator and no
  prefix leads to two providers.\<close>

definition prefixes_of :: "(string \<times> string list) list \<Rightarrow> string \<Rightarrow> string list" where
  "prefixes_of modelPrefixes k = (case map_of modelPrefixes k of None \<Rightarrow> [k] | Some [] \<Rightarrow> [k] | Some qs \<Rightarrow> qs)"

definition keys_clear :: "(string \<times> 'p) list \<Rightarrow> (string \<times> string list) list \<Rightarrow> bool" where
  "keys_clear providers modelPrefixes \<longleftrightarrow> distinct (map fst providers)
     \<and> list_all (\<lambda>(k, _). CHR '':'' \<notin> set k \<and> CHR ''/'' \<notin> set k) providers
     \<and> list_all (\<lambda>(k, _). list_all (\<lambda>(k', _). k = k' \<or> set (prefixes_of modelPrefixes k) \<inter> set (prefixes_of modelPrefixes k') = {}) providers) providers"

lemma concat_mset: "mset ps = mset ps' \<Longrightarrow> mset (concat (map f ps)) = mset (concat (map f ps'))"
proof -
  have "mset (concat (map f xs)) = sum_mset (image_mset (\<lambda>x. mset (f x)) (mset xs))" for xs
    by (induction xs) simp_all
  then show "mset ps = mset ps' \<Longrightarrow> ?thesis" by metis
qed

lemma routes_any_order:
  fixes ps ps' :: "(string \<times> 'p) list"
  assumes "mset ps = mset ps'" and "keys_clear ps mp"
  shows "buildModelRoutes ps mp = buildModelRoutes ps' mp"
proof -
  define f :: "string \<times> 'p \<Rightarrow> (string \<times> string) list" where "f = (\<lambda>(k, _). map (\<lambda>q. (q, k)) (prefixes_of mp k))"
  have routes: "buildModelRoutes xs mp = sort_key (\<lambda>(q, _). - int (length q)) (sort_key fst (concat (map f xs)))" for xs
    by (simp add: buildModelRoutes_def f_def prefixes_of_def case_prod_unfold)
  have "inj_on fst (set (concat (map f ps)))"
    using assms(2) by (fastforce simp: inj_on_def f_def keys_clear_def list_all_iff)
  then have "sort_key fst (concat (map f ps)) = sort_key fst (concat (map f ps'))"
    using concat_mset [OF assms(1), of f] by (intro sort_key_inj_key_eq) simp_all
  then show ?thesis by (simp add: routes)
qed

lemma named_key:
  assumes "HasPrefix l (k @ '':'') \<or> HasPrefix l (k @ ''/'')" and "CHR '':'' \<notin> set k \<and> CHR ''/'' \<notin> set k"
  shows "k = takeWhile (\<lambda>c. c \<noteq> CHR '':'' \<and> c \<noteq> CHR ''/'') l"
proof -
  from assms(1) obtain c r where "l = k @ c # r" "c = CHR '':'' \<or> c = CHR ''/''" by (auto simp: prefix_def)
  moreover have "takeWhile (\<lambda>c. c \<noteq> CHR '':'' \<and> c \<noteq> CHR ''/'') (k @ c # r) = k @ takeWhile (\<lambda>c. c \<noteq> CHR '':'' \<and> c \<noteq> CHR ''/'') (c # r)"
    using assms(2) by (intro takeWhile_append2) auto
  ultimately show ?thesis by auto
qed

lemma one_of_any_order:
  assumes "mset xs = mset ys" and "distinct (map fst xs)" and "\<And>x y. x \<in> set xs \<Longrightarrow> y \<in> set xs \<Longrightarrow> P x \<Longrightarrow> P y \<Longrightarrow> fst x = fst y"
  shows "filter P xs = filter P ys"
proof -
  have m: "mset (filter P xs) = mset (filter P ys)" using assms(1) by simp
  have d: "distinct (map fst (filter P xs))" using assms(2) by (simp add: distinct_map_filter)
  show ?thesis
  proof (cases "filter P xs")
    case Nil
    then have "mset (filter P ys) = {#}" using m by simp
    with Nil show ?thesis by (metis mset_zero_iff)
  next
    case (Cons x zs)
    have "fst z = fst x" if "z \<in> set zs" for z
    proof -
      have "x \<in> set (filter P xs)" "z \<in> set (filter P xs)" using Cons that by simp_all
      then show ?thesis using assms(3) by simp
    qed
    moreover have "fst x \<notin> fst ` set zs" using d Cons by simp
    ultimately have "zs = []" by (cases zs) auto
    then have "filter P xs = [x]" using Cons by simp
    then have "mset (filter P ys) = {#x#}" using m by simp
    then have "filter P ys = [x]" by (metis mset_single_iff)
    with \<open>filter P xs = [x]\<close> show ?thesis by simp
  qed
qed

text \<open>The provider that answers a model does not depend on the order in which Go walks the map of providers, neither when
  the routes are built nor when a model is resolved, as long as no key contains a separator and no prefix is
  configured for two providers.\<close>

theorem route_any_order:
  assumes "mset ps' = mset ps" and "mset qs = mset ps" and "keys_clear ps modelPrefixes"
  shows "resolve_model \<lparr> rt_default = d, rt_providers = ps', rt_routes = buildModelRoutes qs modelPrefixes \<rparr> model
    = resolve_model \<lparr> rt_default = d, rt_providers = ps, rt_routes = buildModelRoutes ps modelPrefixes \<rparr> model"
proof -
  have d: "distinct (map fst ps)" using assms(3) by (simp add: keys_clear_def)
  have d': "distinct (map fst ps')" using d assms(1) by (metis mset_eq_imp_distinct_iff mset_map)
  have s: "set ps' = set ps" using assms(1) by (metis set_mset_mset)
  have m: "map_of ps' = map_of ps" using map_of_inject_set [OF d' d] s by simp
  have routes: "buildModelRoutes qs modelPrefixes = buildModelRoutes ps modelPrefixes"
    using routes_any_order [OF assms(2) [symmetric] assms(3)] by simp
  have named: "filter (\<lambda>(k, _). HasPrefix l (k @ '':'') \<or> HasPrefix l (k @ ''/'')) ps'
    = filter (\<lambda>(k, _). HasPrefix l (k @ '':'') \<or> HasPrefix l (k @ ''/'')) ps" for l
  proof (rule one_of_any_order [symmetric])
    fix x y assume xy: "x \<in> set ps" "y \<in> set ps"
      and "case x of (k, _) \<Rightarrow> HasPrefix l (k @ '':'') \<or> HasPrefix l (k @ ''/'')" "case y of (k, _) \<Rightarrow> HasPrefix l (k @ '':'') \<or> HasPrefix l (k @ ''/'')"
    then have p: "HasPrefix l (fst x @ '':'') \<or> HasPrefix l (fst x @ ''/'')" "HasPrefix l (fst y @ '':'') \<or> HasPrefix l (fst y @ ''/'')"
      by (simp_all add: case_prod_unfold)
    have c: "CHR '':'' \<notin> set (fst x) \<and> CHR ''/'' \<notin> set (fst x)" "CHR '':'' \<notin> set (fst y) \<and> CHR ''/'' \<notin> set (fst y)"
      using assms(3) xy by (auto simp: keys_clear_def list_all_iff)
    show "fst x = fst y" by (rule trans [OF named_key [OF p(1) c(1)] named_key [OF p(2) c(2), symmetric]])
  qed (use assms(1) d in simp_all)
  show ?thesis unfolding resolve_model_def router.simps m routes named ..
qed

theorem route_any_order_witness:
  "resolve_model \<lparr> rt_default = 0, rt_providers = [(''mimo'', 2), (''qwen'', 1 :: nat)], rt_routes = buildModelRoutes [(''mimo'', 2), (''qwen'', 1 :: nat)] [(''qwen'', [''q-''])] \<rparr> ''Qwen/max'' = (1, ''max'')
    \<and> resolve_model \<lparr> rt_default = 0, rt_providers = [(''mimo'', 2), (''qwen'', 1 :: nat)], rt_routes = buildModelRoutes [(''mimo'', 2), (''qwen'', 1 :: nat)] [(''qwen'', [''q-''])] \<rparr> ''q-large'' = (1, ''q-large'')"
proof -
  let ?ps = "[(''qwen'', 1 :: nat), (''mimo'', 2)]" and ?ps' = "[(''mimo'', 2), (''qwen'', 1 :: nat)]"
  have m: "mset ?ps' = mset ?ps" by simp
  have c: "keys_clear ?ps [(''qwen'', [''q-''])]" by (simp add: keys_clear_def prefixes_of_def)
  note r = route_any_order [OF m m c, of 0]
  have "resolve_model \<lparr> rt_default = 0, rt_providers = ?ps, rt_routes = buildModelRoutes ?ps [(''qwen'', [''q-''])] \<rparr> ''Qwen/max'' = (1, ''max'')"
    "resolve_model \<lparr> rt_default = 0, rt_providers = ?ps, rt_routes = buildModelRoutes ?ps [(''qwen'', [''q-''])] \<rparr> ''q-large'' = (1, ''q-large'')"
    by code_simp+
  then show ?thesis by (simp only: r)
qed

subsection \<open>The calls a run is given\<close>

definition usable_call :: "ToolCall \<Rightarrow> bool" where
  "usable_call c \<longleftrightarrow> TrimSpace (call_Name c) \<noteq> '''' \<and> TrimSpace (call_ID c) \<noteq> '''' \<and> (case call_Arguments c of RawJson _ \<Rightarrow> True | _ \<Rightarrow> False)"

lemma digit_plain: "c \<in> set (show_nat n) \<Longrightarrow> plain_char c"
  using show_nat_digits digit_char_plain by blast

lemma show_nat_nonempty [simp]: "show_nat n \<noteq> ''''"
  by (simp add: show_nat.simps [of n])

lemma made_up_id: "plain_char (hd p) \<Longrightarrow> p \<noteq> '''' \<Longrightarrow> TrimSpace (p @ show_nat n) \<noteq> ''''"
proof -
  assume "plain_char (hd p)" and "p \<noteq> ''''"
  moreover have "plain_char (last (show_nat n))" by (rule digit_plain [OF last_in_set]) simp
  ultimately have "TrimSpace (p @ show_nat n) = p @ show_nat n" by (intro TrimSpace_plain) simp_all
  with \<open>p \<noteq> ''''\<close> show ?thesis by simp
qed

lemma made_up_int: "TrimSpace (''call_'' @ show_int i) \<noteq> ''''"
  using made_up_id [of "''call_-''" "nat (- i)"] made_up_id [of "''call_''" "nat i"]
  by (simp add: show_int_def plain_char_def less_eq_char_def)

lemma list_all_map_filter: "(\<And>x y. x \<in> set xs \<Longrightarrow> f x = Some y \<Longrightarrow> P y) \<Longrightarrow> list_all P (List.map_filter f xs)"
  by (induction xs) (auto simp: List.map_filter_simps split: option.split)

lemma converted_usable: "list_all usable_call (convertOAIToolCalls decode calls)"
  unfolding convertOAIToolCalls_def
  by (rule list_all_map_filter)
    (use made_up_id [of "''call_''"] in \<open>auto simp: usable_call_def plain_char_def less_eq_char_def split: if_splits\<close>)

lemma taken_name_trimmed: "TrimSpace (ac_Name a) = ac_Name a \<Longrightarrow> TrimSpace (ac_Name (take_delta d a)) = ac_Name (take_delta d a)"
  by (simp add: take_delta_def unless_blank_def Let_def split: option.split)

lemma delivered_trimmed: "TrimSpace (ac_Name (delivered ds i)) = ac_Name (delivered ds i)"
  by (induction ds rule: rev_induct) (simp_all add: delivered_snoc taken_name_trimmed, simp add: delivered_def pieces_of_def zero_acc_def)

lemma streamed_usable: "list_all usable_call (streamed_calls decode ds)"
proof -
  have "TrimSpace (ac_Name a) = ac_Name a" if "(i, a) \<in> set (fold add_delta ds [])" for i a
    using that add_deltas [of ds] delivered_trimmed [of ds i] by auto
  then show ?thesis
    unfolding streamed_calls_def assembled_calls_def
    by (intro list_all_map_filter) (use made_up_int in \<open>auto simp: usable_call_def split: if_splits\<close>)
qed

lemma parsed_line:
  "parseFallbackToolCallLine decode l n = Some c \<Longrightarrow> \<exists>name v. fallback_tool_name name
     \<and> c = \<lparr> call_ID = ''fallback_call_'' @ show_nat n, call_Name = name, call_Arguments = RawJson v \<rparr>"
  unfolding parseFallbackToolCallLine_def Let_def by (auto split: if_splits option.splits)

lemma parsed_line_usable: "parseFallbackToolCallLine decode l n = Some c \<Longrightarrow> usable_call c"
proof (drule parsed_line, elim exE conjE)
  fix name v assume n: "fallback_tool_name name" and c: "c = \<lparr> call_ID = ''fallback_call_'' @ show_nat n, call_Name = name, call_Arguments = RawJson v \<rparr>"
  have "TrimSpace name \<noteq> ''''" using name_trimmed [OF n] n by (simp add: fallback_tool_name_def)
  moreover have "TrimSpace (''fallback_call_'' @ show_nat n) \<noteq> ''''" by (rule made_up_id) (simp_all add: plain_char_def less_eq_char_def)
  ultimately show ?thesis by (simp add: usable_call_def c)
qed

lemma parsed_usable: "list_all usable_call (fst (ParseFallbackToolCalls decode raw))"
proof -
  have "list_all usable_call (fst (parse_lines decode n ls))" for n ls
    by (induction decode n ls rule: parse_lines.induct) (auto split: option.split prod.split dest: parsed_line_usable)
  from this [of 1 "Lines (unix_lines raw)"] show ?thesis by (simp add: ParseFallbackToolCalls_def case_prod_unfold)
qed

lemma text_calls_usable: "list_all usable_call calls \<Longrightarrow> list_all usable_call (fst (calls_in_text env calls reply))"
  using parsed_usable [of "cx_decode env" reply] by (auto simp: calls_in_text_def split: prod.split)

lemma opened_usable: "list_all usable_call (st_calls (open_stream env tp c rq))"
  by (simp add: open_stream_def failed_stream_def read_stream_def Let_def streamed_usable split: sum.split prod.split)

definition answered_calls :: "model_service \<Rightarrow> int \<Rightarrow> AgentChatRequest \<Rightarrow> ToolCall list" where
  "answered_calls svc n rq = (case ms_chat svc n rq of Inr (Some r) \<Rightarrow> ar_ToolCalls r | _ \<Rightarrow> [])"

text \<open>C38: Whatever the service at the other end sends, streamed or not, as calls or as text, every tool call that the client hands
  to a run of the agent has a name, an identifier and arguments that are JSON.\<close>

theorem client_calls_usable:
  "list_all usable_call (mt_ToolCalls (snd (ms_stream (routed_service env tp r) rq)))
    \<and> list_all usable_call (answered_calls (routed_service env tp r) n rq)"
proof -
  have stream: "list_all usable_call (mt_ToolCalls (snd (ChatStreamWithTools env tp c rq)))" for tp c rq
  proof -
    let ?r = "completeStreamWithTools env tp c (chatModelFor c (aq_Model rq)) (buildAgentMessages env rq) (aq_Tools rq)
      (normalizeToolChoice (aq_ToolChoice rq)) (Some (aq_Temperature rq))"
    have "list_all usable_call (st_calls ?r)" by (simp add: completeStreamWithTools_def opened_usable)
    then have "list_all usable_call (fst (calls_in_text env (st_calls ?r) reply))" for reply by (rule text_calls_usable)
    then show ?thesis
      using parsed_usable by (auto simp: ChatStreamWithTools_def Let_def split: option.split prod.split) (metis fst_conv)+
  qed
  have chat: "list_all usable_call (case ChatWithTools env tp c rq of Inr x \<Rightarrow> ar_ToolCalls x | _ \<Rightarrow> [])" for tp c rq
    using parsed_usable text_calls_usable [OF converted_usable]
    by (auto simp: ChatWithTools_def Let_def map_sum_def split: sum.split prod.split) (metis fst_conv)+
  obtain c model where c: "resolve_model r (aq_Model rq) = (c, model)" by fastforce
  have "list_all usable_call (answered_calls (routed_service env tp r) n rq)"
    using chat [of "tp n" c "rq\<lparr>aq_Model := model\<rparr>"]
    by (cases "ChatWithTools env (tp n) c (rq\<lparr>aq_Model := model\<rparr>)") (simp_all add: routed_service_def answered_calls_def Let_def c)
  then show ?thesis using stream by (simp add: routed_service_def Let_def c)
qed

subsection \<open>The text of the calls as a reply\<close>







end
