(* ===== verification/Spec2Isabelle.thy ===== *)
theory Spec2Isabelle
  imports TreeTheorems StoreTheorems AgentTheorems MemberTheorems TaskTheorems GraphTheorems GenerationTheorems
    DocumentTheorems RoundTheorems ConversationTheorems PlannerTheorems HistoryTheorems RunTheorems
    ContextTheorems StreamTheorems ClientTheorems
begin

text \<open>
  \<^bold>\<open>The OptiTree backend: fault trees edited by people and by an agent.\<close>

  \<^bold>\<open>The program.\<close> OptiTree stores fault trees (a top event, gates, intermediate and basic events,
  edges from parent to child) per project in a relational database with a revision counter. An editor
  saves whole trees (\<open>internal/service/fault_tree.go\<close>); a conversational agent edits them with tools
  (\<open>internal/graph_ops\<close>): a call is validated, run on an in-memory copy of the tree, checked against
  the rules of fault trees and written in one transaction guarded by the revision. The agent's sessions
  can pause for the user's confirmation (\<open>internal/agent/session.go\<close>) and are limited by a safety
  controller (\<open>internal/agent/safety.go\<close>). Around the tree are the project with its members and
  invitations (\<open>service/member.go\<close>, \<open>service/project.go\<close>), a knowledge graph per project
  (\<open>service/knowledge_graph.go\<close>), versions of both (\<open>service/version.go\<close>), uploaded documents with the
  workers that convert them (\<open>service/document.go\<close>), and generation tasks that hand documents to an
  external worker and store the graph it returns (\<open>service/ai_task.go\<close>, \<open>service/ai_task_dispatcher.go\<close>,
  \<open>service/ai_generation_project_helpers.go\<close>). The conversations themselves are kept by
  \<open>service/assistant.go\<close>; a planner (\<open>agent/planner.go\<close>) has the model lay out steps before it edits.

  \<^bold>\<open>Theories.\<close>
  \<^item> \<open>Prelude\<close>, \<open>GoStrings\<close>, \<open>GoJson\<close>: results (\<open>Inl\<close> an error, \<open>Inr\<close> a value), facts on
    relations, and what the code uses of Go's \<open>strings\<close>, \<open>unicode/utf8\<close> and \<open>encoding/json\<close>.
    A string is its bytes. Letter case is exact on ASCII and on the four other runes whose case
    mapping or folding meets ASCII.
  \<^item> \<open>Model\<close>, \<open>FTState\<close>, \<open>Traversal\<close>: rows, patches, errors, identifiers (\<open>model/fault_tree.go\<close>,
    \<open>util/id.go\<close>), \<open>faultTreeState\<close> with its index, and the searches at the end of
    \<open>graph_ops/executor.go\<close>. The abstraction \<open>erel\<close> is the set of parent-child pairs.
  \<^item> \<open>Constraints\<close>: \<open>evaluateFTAConstraintIssues\<close> and the two safety checks, with the declarative
    rules \<open>wf_fta\<close> and \<open>wf_fatal\<close> they are shown to decide.
  \<^item> \<open>Registry\<close>, \<open>Validator\<close>: the tool registry and \<open>ValidateParameters\<close>.
  \<^item> \<open>Operations\<close>, \<open>ReadTools\<close>, \<open>Batch\<close>: every handler \<open>apply...\<close>, the batch and both dispatchers.
    The strict and the permissive variant of a handler differ in a few guards and are one definition
    with a flag. \<open>FTInvariant\<close>, \<open>Effects\<close>, \<open>Subtree\<close>, \<open>Modes\<close> hold what the handlers do to the
    tree: the invariant \<open>ft_inv\<close>, the new parent relation, the distances of a subtree report, and that
    repair mode accepts what strict mode accepts. The locale \<open>graph_steps\<close> is what the batch loop needs
    of the dispatcher it calls; both dispatchers are interpretations.
  \<^item> \<open>Database\<close>, \<open>Executor\<close>, \<open>GraphService\<close>, \<open>Hybrid\<close>: the tables and a transaction over them, the
    four entry points of the executor, the editor's service, the previews.
  \<^item> \<open>KnowledgeGraph\<close>, \<open>Writers\<close>: the knowledge-graph service, and every call of every client as a step:
    \<open>graph_write\<close>; the locale \<open>revisioned\<close> is the contract that the content of a revision never
    changes, interpreted on the two graphs of a project.
  \<^item> \<open>ProjectWriters\<close>: the writers of the project row as further steps (\<open>project_write\<close>). \<open>revisioned\<close> is
    interpreted a second time on them: a rename or update keeps the contract when the row it was answered
    has the stored revision.
  \<^item> \<open>Versions\<close>: snapshots with their limit of thirty, and the rollback.
  \<^item> \<open>Members\<close>, \<open>MemberEffects\<close>, \<open>Access\<close>, \<open>Projects\<close>: the member tables with their transactions, what
    these keep of the tables and of the administrators (\<open>counts_cover\<close>: the member counter is never below
    the members, whichever statement fails), the role checks of the routes, and the project
    row with its cache.
  \<^item> \<open>Tasks\<close>, \<open>TaskEffects\<close>: the task table, the start of a generation, the dispatcher with its lock per
    project and the callback of the worker; the order in which a task moves forward, and what becomes of a
    task that is completed before its dispatch is announced (\<open>fresh_report\<close>: a completed report that is new
    and current).
  \<^item> \<open>Generated\<close>: the result of a worker, from loose JSON to rows and their save with one retry.
  \<^item> \<open>Documents\<close>, \<open>DocumentEffects\<close>: the document and conversion-task tables, upload, conversion, access,
    and the documents of a generation; \<open>doc_inv\<close> (identifiers are distinct, a link to a derived document
    leads to a row that is no docx) is kept by every \<open>doc_step\<close>.
  \<^item> \<open>Session\<close>, \<open>Safety\<close>: sessions with their confirmation channel, and the limits of the agent. What the
    controller allowed is counted on the trace of its answers (\<open>allowed_calls\<close>, \<open>allowed_changes\<close> in
    \<open>AgentTheorems\<close>).
  \<^item> \<open>AgentStore\<close>, \<open>Dispatch\<close>, \<open>Rounds\<close>, \<open>RoundEffects\<close>: the rows of an agent run, one tool call with its
    confirmation and its audit row, and a round of calls (\<open>agent/engine.go\<close>). The locale
    \<open>round_invariant\<close> is what an invariant has to survive to be kept by every round; it is interpreted
    on the database of a read-only run and on the audit table.
  \<^item> \<open>Cursors\<close>, \<open>Conversations\<close>: conversations and messages, who may read and continue them, the pages of
    the history with their cursors, sending a message. \<open>chat_step\<close> is one call of a user.
  \<^item> \<open>Planner\<close>, \<open>PlanProgress\<close>: the plan read from an answer of the model, and its progress: what is left of
    a plan (\<open>chances\<close>) shrinks with every round that calls a tool.
  \<^item> \<open>Observations\<close>: what the model is told of a round: the observation made of a call, the summaries, and
    the memory of a run (facts, actions, plan, repair guide).
  \<^item> \<open>AgentHistory\<close>: the messages of a round as rows of the chat tables, and back.
  \<^item> \<open>AgentRun\<close>, \<open>RunEffects\<close>: \<open>RunStream\<close> as a loop of \<open>run_round\<close>. The locale \<open>loop_contract\<close> is what an
    invariant has to survive to be kept by the loop, \<open>run_contract\<close> extends it to the whole run; they are interpreted
    on the database of a read-only run, on the audit and chat tables, and on the session of a run with its row.
  \<^item> \<open>Substrings\<close>, \<open>ContextChunks\<close>, \<open>ThinkFilter\<close>, \<open>FallbackCalls\<close>: the graph as it is shown to the language
    model, whole, in chunks or as a summary; the filter that takes thoughts out of a streamed answer; calls written as text.
  \<^item> \<open>ModelClient\<close>, \<open>StreamClient\<close>: the client with its requests and answers (\<open>ai/client.go\<close>,
    \<open>ai/agent_client.go\<close>), streams with calls in pieces, the routing over providers; \<open>routed_service\<close> makes
    of them the model service of a run.
  \<^item> \<open>Fixtures\<close>: a small tree and the calls on which every property is evaluated.
  \<^item> \<open>TreeTheorems\<close>, \<open>StoreTheorems\<close>, \<open>AgentTheorems\<close>, \<open>MemberTheorems\<close>, \<open>TaskTheorems\<close>, \<open>GraphTheorems\<close>,
    \<open>GenerationTheorems\<close>, \<open>DocumentTheorems\<close>, \<open>RoundTheorems\<close>, \<open>ConversationTheorems\<close>,
    \<open>PlannerTheorems\<close>, \<open>HistoryTheorems\<close>, \<open>RunTheorems\<close>, \<open>ContextTheorems\<close>,
    \<open>StreamTheorems\<close>, \<open>ClientTheorems\<close>: the properties, each with its evaluation on an example.

  \<^bold>\<open>Conventions.\<close> A handler takes the tree, its arguments as a raw message and the number of
  identifiers drawn so far, and returns an error or the result, the new tree and the new number; the
  clock and the random bytes behind an identifier are the argument \<open>d :: draws\<close>, and \<open>fresh_draws\<close>
  says that identifiers drawn in a call are new and distinct without regard to letter case. What the
  database answers to a query at the time it is asked is an argument (\<open>found\<close>, \<open>loaded\<close>), so that other
  clients can act between two queries; \<open>accepts\<close> says which rows the server takes. Maps that Go walks in
  an unspecified order are walked in an order that is an argument, or the result is shown not to depend
  on it. Summaries and messages are constructors with the values they show.

  \<^bold>\<open>Termination.\<close> All definitions but one are total: the searches by measures on the nodes not yet visited,
  \<open>ValidateParameters\<close>, the dispatcher and the batch by the size of the arguments. No fuel is used. The loop of a run
  need not end, so \<open>run_loop\<close> is a partial function into \<open>option\<close>, where \<open>None\<close> is a run that does not return;
  \<open>run_ends\<close> says when it returns.

  \<^bold>\<open>Not modelled.\<close> What the services of the language models answer and the wording of the system prompts,
  HTTP handlers other than the member routes, cache deletion, the text search of documents and the bytes of
  their files, the consumer loops over Redis and the subscriptions to progress events, the deletion of a
  project, accounts and teams.
\<close>

end
